(* ===== verification/Nxs_Prelude.thy ===== *)
theory Nxs_Prelude
  imports Complex_Main "HOL-Library.AList"
begin

section \<open>Shared vocabulary: errors, loops, dictionaries, strings\<close>

text \<open>
  What every component uses. The exceptions of the Python code are values of
  \<open>py_error\<close>; a computation that can raise returns \<open>py_error + 'a\<close>. A \<open>for\<close> loop over a
  list that updates variables is \<open>foldE\<close>. A Python \<open>dict\<close> keeps its insertion order, which
  the code observes when it iterates, so a dictionary is an association list:
  \<open>AList.update\<close> overwrites in place and appends a new key at the end, exactly as
  \<open>d[k] = v\<close> does. Python floats are modelled as exact rationals.
\<close>

named_theorems result_simps \<open>when a computation returns, and with what\<close>
named_theorems dict_simps \<open>ordered dictionaries: keys and lookups\<close>

subsection \<open>Exceptions\<close>

datatype py_error =
    KeyError
  | IndexError
  | AttributeError
  | TypeError
  | ValueError
  | ZeroDivisionError
  | AssertionError
  | UnboundLocalError
  | InvalidTypeError
  | Raised string

type_synonym 'a result = "py_error + 'a"

definition bindE :: "'e + 'a \<Rightarrow> ('a \<Rightarrow> 'e + 'b) \<Rightarrow> 'e + 'b" where
  "bindE m f = (case m of Inl e \<Rightarrow> Inl e | Inr x \<Rightarrow> f x)"

lemma bindE_simps [simp]:
  "bindE (Inl e) f = Inl e"
  "bindE (Inr x) f = f x"
  by (simp_all add: bindE_def)

lemma bindE_cong [fundef_cong]:
  "m = m' \<Longrightarrow> (\<And>x. m' = Inr x \<Longrightarrow> f x = g x) \<Longrightarrow> bindE m f = bindE m' g"
  by (cases m') (simp_all add: bindE_def)

lemma bindE_eq_Inr [result_simps]:
  "bindE m f = Inr y \<longleftrightarrow> (\<exists>x. m = Inr x \<and> f x = Inr y)"
  by (cases m) auto

lemma bindE_eq_Inl [result_simps]:
  "bindE m f = Inl e \<longleftrightarrow> m = Inl e \<or> (\<exists>x. m = Inr x \<and> f x = Inl e)"
  by (cases m) auto

lemma bindE_assoc: "bindE (bindE m f) g = bindE m (\<lambda>x. bindE (f x) g)"
  by (cases m) simp_all

subsection \<open>Loops\<close>

fun foldE :: "('s \<Rightarrow> 'a \<Rightarrow> 'e + 's) \<Rightarrow> 's \<Rightarrow> 'a list \<Rightarrow> 'e + 's" where
  "foldE f s [] = Inr s"
| "foldE f s (x # xs) = bindE (f s x) (\<lambda>s'. foldE f s' xs)"

fun mapE :: "('a \<Rightarrow> 'e + 'b) \<Rightarrow> 'a list \<Rightarrow> 'e + 'b list" where
  "mapE f [] = Inr []"
| "mapE f (x # xs) = bindE (f x) (\<lambda>y. bindE (mapE f xs) (\<lambda>ys. Inr (y # ys)))"

lemma foldE_cong [fundef_cong]:
  assumes "s = s'" "xs = ys" "\<And>s x. x \<in> set ys \<Longrightarrow> f s x = g s x"
  shows "foldE f s xs = foldE g s' ys"
proof -
  have "foldE f s' ys = foldE g s' ys" if "\<And>s x. x \<in> set ys \<Longrightarrow> f s x = g s x"
    using that by (induction ys arbitrary: s') (auto intro: bindE_cong)
  with assms show ?thesis by simp
qed

lemma foldE_append: "foldE f s (xs @ ys) = bindE (foldE f s xs) (\<lambda>s'. foldE f s' ys)"
  by (induction xs arbitrary: s) (simp_all add: bindE_assoc)

text \<open>An invariant of the loop body is an invariant of the loop.\<close>

lemma foldE_invariant:
  assumes "foldE f s xs = Inr r" "P s"
    and "\<And>s x s'. x \<in> set xs \<Longrightarrow> P s \<Longrightarrow> f s x = Inr s' \<Longrightarrow> P s'"
  shows "P r"
  using assms
proof (induction xs arbitrary: s)
  case Nil
  then show ?case by simp
next
  case (Cons x xs)
  from Cons.prems(1) obtain s' where s': "f s x = Inr s'" "foldE f s' xs = Inr r"
    by (auto simp: result_simps)
  have "P s'" using Cons.prems(2,3) s'(1) by auto
  with s'(2) Cons.prems(3) show ?case by (auto intro: Cons.IH)
qed

text \<open>A loop whose body cannot raise under an invariant returns, and keeps the invariant.\<close>

lemma foldE_total:
  assumes "P s" "\<And>s x. x \<in> set xs \<Longrightarrow> P s \<Longrightarrow> \<exists>s'. f s x = Inr s' \<and> P s'"
  shows "\<exists>r. foldE f s xs = Inr r \<and> P r"
  using assms
proof (induction xs arbitrary: s)
  case Nil
  then show ?case by simp
next
  case (Cons x xs)
  then obtain s' where "f s x = Inr s'" "P s'" by fastforce
  with Cons show ?case by auto
qed

lemma foldE_pure: "foldE (\<lambda>s x. Inr (g s x)) s xs = Inr (foldl g s xs)"
  by (induction xs arbitrary: s) simp_all

text \<open>The same with the elements already processed: what the loop has computed so far.\<close>

lemma foldE_prefix:
  assumes "foldE f s xs = Inr r" "P [] s"
    and "\<And>ys x s s'. x \<in> set xs \<Longrightarrow> P ys s \<Longrightarrow> f s x = Inr s' \<Longrightarrow> P (ys @ [x]) s'"
  shows "P xs r"
proof -
  have "P (ys @ zs) r"
    if "foldE f s zs = Inr r" "P ys s" "set zs \<subseteq> set xs" for ys zs s
    using that
  proof (induction zs arbitrary: ys s)
    case (Cons z zs)
    then obtain s' where "f s z = Inr s'" "foldE f s' zs = Inr r"
      by (auto simp: bindE_eq_Inr)
    with Cons.IH [of s' "ys @ [z]"] Cons.prems assms(3) [of z ys s s'] show ?case by auto
  qed simp
  from this [of s xs "[]"] assms(1,2) show ?thesis by simp
qed

lemma foldl_prefix:
  assumes "P [] s" "\<And>ys x s. x \<in> set xs \<Longrightarrow> P ys s \<Longrightarrow> P (ys @ [x]) (f s x)"
  shows "P xs (foldl f s xs)"
  by (rule foldE_prefix [where f = "\<lambda>s x. Inr (f s x) :: unit + 'b"])
    (use assms in \<open>auto simp: foldE_pure\<close>)

text \<open>A loop that returns, with what it has computed so far.\<close>

lemma foldE_prefix_total:
  assumes "P [] s"
    and "\<And>ys x zs s. xs = ys @ x # zs \<Longrightarrow> P ys s \<Longrightarrow> \<exists>s'. f s x = Inr s' \<and> P (ys @ [x]) s'"
  shows "\<exists>r. foldE f s xs = Inr r \<and> P xs r"
proof -
  have "\<exists>r. foldE f s zs = Inr r \<and> P xs r" if "xs = ys @ zs" "P ys s" for ys zs s
    using that
  proof (induction zs arbitrary: ys s)
    case (Cons z zs)
    with assms(2) [of ys z zs s] obtain s' where "f s z = Inr s'" "P (ys @ [z]) s'" by auto
    with Cons.IH [of "ys @ [z]" s'] Cons.prems(1) show ?case by auto
  qed simp
  from this [of "[]" xs s] assms(1) show ?thesis by simp
qed

text \<open>A loop whose body changes nothing.\<close>

lemma foldE_idle: "(\<And>x. x \<in> set xs \<Longrightarrow> f s x = Inr s) \<Longrightarrow> foldE f s xs = Inr s"
  by (induction xs) simp_all

lemma foldl_idle: "(\<And>x. x \<in> set xs \<Longrightarrow> f s x = s) \<Longrightarrow> foldl f s xs = s"
  by (induction xs) simp_all

text \<open>Two nested loops are one loop over the pairs.\<close>

lemma foldE_nested:
  "foldE (\<lambda>s x. foldE (f x) s (g x)) s xs =
     foldE (\<lambda>s (x, y). f x s y) s (concat (map (\<lambda>x. map (Pair x) (g x)) xs))"
proof -
  have "foldE (f x) s ys = foldE (\<lambda>s (x, y). f x s y) s (map (Pair x) ys)" for x s ys
    by (induction ys arbitrary: s) simp_all
  then show ?thesis
    by (induction xs arbitrary: s) (simp_all add: foldE_append)
qed

lemma mapE_pure: "mapE (\<lambda>x. Inr (g x)) xs = Inr (map g xs)"
  by (induction xs) simp_all

lemma mapE_eq_Inr [result_simps]:
  "mapE f xs = Inr ys \<longleftrightarrow> list_all2 (\<lambda>x y. f x = Inr y) xs ys"
  by (induction xs arbitrary: ys) (auto simp: bindE_eq_Inr list_all2_Cons1)

lemma list_all2_right: "list_all2 R xs ys \<Longrightarrow> y \<in> set ys \<Longrightarrow> \<exists>x \<in> set xs. R x y"
  by (induction rule: list_all2_induct) auto

lemma foldl_invariant:
  assumes "P s" "\<And>s x. x \<in> set xs \<Longrightarrow> P s \<Longrightarrow> P (g s x)"
  shows "P (foldl g s xs)"
  using assms by (induction xs arbitrary: s) auto

subsection \<open>Effects that an exception does not undo\<close>

text \<open>
  Operations on a state \<open>'s\<close> that can raise: the state next to the outcome, because what was done
  before the exception stays done.
\<close>

type_synonym ('s, 'a) outcome = "'s \<times> 'a result"

definition andThen ::
    "('s, 'a) outcome \<Rightarrow> ('s \<Rightarrow> 'a \<Rightarrow> ('s, 'b) outcome) \<Rightarrow> ('s, 'b) outcome" where
  "andThen m f = (case m of (s, Inl e) \<Rightarrow> (s, Inl e) | (s, Inr x) \<Rightarrow> f s x)"

lemma andThen_simps [simp]:
  "andThen (s, Inl e) f = (s, Inl e)" "andThen (s, Inr x) f = f s x"
  by (simp_all add: andThen_def)

lemma andThen_cong [fundef_cong]:
  "m = m' \<Longrightarrow> (\<And>s x. m' = (s, Inr x) \<Longrightarrow> f s x = g s x) \<Longrightarrow> andThen m f = andThen m' g"
  by (cases m'; cases "snd m'") (auto simp: andThen_def)

lemma andThen_eq_Inr [result_simps]:
  "andThen m f = (s', Inr y) \<longleftrightarrow> (\<exists>s x. m = (s, Inr x) \<and> f s x = (s', Inr y))"
  by (cases m; cases "snd m") (auto simp: andThen_def)

fun forEach :: "('s \<Rightarrow> 'a \<Rightarrow> ('s, unit) outcome) \<Rightarrow> 's \<Rightarrow> 'a list \<Rightarrow> ('s, unit) outcome" where
  "forEach f s [] = (s, Inr ())"
| "forEach f s (x # xs) = andThen (f s x) (\<lambda>s _. forEach f s xs)"

text \<open>An operation that fails as a whole or succeeds.\<close>

definition attempt :: "('s \<Rightarrow> 's result) \<Rightarrow> 's \<Rightarrow> ('s, unit) outcome" where
  "attempt f s = (case f s of Inl e \<Rightarrow> (s, Inl e) | Inr s' \<Rightarrow> (s', Inr ()))"

lemma andThen_keeps:
  assumes "R s (fst m)" "\<And>t x. m = (t, Inr x) \<Longrightarrow> R s t \<Longrightarrow> R s (fst (f t x))"
  shows "R s (fst (andThen m f))"
  using assms by (cases m; cases "snd m") (auto simp: andThen_def)

lemma forEach_keeps:
  assumes "\<And>s x. R s (fst (f s x))" "\<And>s. R s s" "\<And>s t u. R s t \<Longrightarrow> R t u \<Longrightarrow> R s u"
  shows "R s (fst (forEach f s xs))"
proof (induction xs arbitrary: s)
  case (Cons x xs)
  obtain t r where f: "f s x = (t, r)" by (cases "f s x")
  with assms(1) [of s x] have "R s t" by simp
  from assms(3) [OF this Cons.IH] \<open>R s t\<close> show ?case by (cases r) (simp_all add: f)
qed (simp add: assms(2))

lemma attempt_keeps: "(\<And>s'. f s = Inr s' \<Longrightarrow> R s s') \<Longrightarrow> R s s \<Longrightarrow> R s (fst (attempt f s))"
  by (simp add: attempt_def split: sum.split)

subsection \<open>Ordered dictionaries\<close>

type_synonym ('k, 'v) dict = "('k \<times> 'v) list"

definition dkeys :: "('k, 'v) dict \<Rightarrow> 'k list" where
  "dkeys d = map fst d"

text \<open>\<open>d[k]\<close>: raises on a missing key.\<close>

definition dlookup :: "('k, 'v) dict \<Rightarrow> 'k \<Rightarrow> 'v result" where
  "dlookup d k = (case map_of d k of None \<Rightarrow> Inl KeyError | Some v \<Rightarrow> Inr v)"

text \<open>\<open>d.pop(k)\<close>, for its effect: raises on a missing key.\<close>

definition dpop :: "('k, 'v) dict \<Rightarrow> 'k \<Rightarrow> ('k, 'v) dict result" where
  "dpop d k = bindE (dlookup d k) (\<lambda>_. Inr (AList.delete k d))"

text \<open>\<open>d.get(k, default)\<close>.\<close>

definition dget :: "('k, 'v) dict \<Rightarrow> 'k \<Rightarrow> 'v \<Rightarrow> 'v" where
  "dget d k v = (case map_of d k of None \<Rightarrow> v | Some w \<Rightarrow> w)"

text \<open>\<open>d[k].append(x)\<close> after \<open>if k not in d: d[k] = []\<close>.\<close>

definition dappend :: "('k, 'v list) dict \<Rightarrow> 'k \<Rightarrow> 'v \<Rightarrow> ('k, 'v list) dict" where
  "dappend d k x = AList.update k (dget d k [] @ [x]) d"

definition dict_ok :: "('k, 'v) dict \<Rightarrow> bool" where
  "dict_ok d \<longleftrightarrow> distinct (dkeys d)"

lemma dkeys_Nil [simp]: "dkeys [] = []"
  by (simp add: dkeys_def)

lemma dkeys_Cons [simp]: "dkeys (p # d) = fst p # dkeys d"
  by (simp add: dkeys_def)

lemma dkeys_append [simp]: "dkeys (d @ e) = dkeys d @ dkeys e"
  by (simp add: dkeys_def)

lemma set_dkeys [dict_simps]: "set (dkeys d) = dom (map_of d)"
  by (simp add: dkeys_def dom_map_of_conv_image_fst)

lemma in_dkeys_iff: "k \<in> set (dkeys d) \<longleftrightarrow> (\<exists>v. map_of d k = Some v)"
  by (auto simp: set_dkeys)

lemma notin_dkeys_iff: "k \<notin> set (dkeys d) \<longleftrightarrow> map_of d k = None"
  by (auto simp: set_dkeys)

lemma dlookup_eq_Inr [result_simps]: "dlookup d k = Inr v \<longleftrightarrow> map_of d k = Some v"
  by (auto simp: dlookup_def split: option.splits)

lemma dlookup_eq_Inl [result_simps]: "dlookup d k = Inl e \<longleftrightarrow> map_of d k = None \<and> e = KeyError"
  by (auto simp: dlookup_def split: option.splits)

lemma dkeys_update [dict_simps]:
  "dkeys (AList.update k v d) = (if k \<in> set (dkeys d) then dkeys d else dkeys d @ [k])"
  by (simp add: dkeys_def update_keys)

lemma dkeys_delete [dict_simps]: "dkeys (AList.delete k d) = removeAll k (dkeys d)"
  by (simp add: dkeys_def delete_keys)

lemma map_of_update [dict_simps]: "map_of (AList.update k v d) = (map_of d)(k \<mapsto> v)"
  by (rule update_conv')

lemma map_of_delete' [dict_simps]: "map_of (AList.delete k d) = (map_of d)(k := None)"
  by (rule delete_conv')

lemma dict_ok_Nil [simp]: "dict_ok []"
  by (simp add: dict_ok_def)

lemma dict_ok_update [simp]: "dict_ok d \<Longrightarrow> dict_ok (AList.update k v d)"
  by (simp add: dict_ok_def dkeys_update)

lemma dict_ok_delete [simp]: "dict_ok d \<Longrightarrow> dict_ok (AList.delete k d)"
  by (simp add: dict_ok_def dkeys_delete distinct_removeAll)

lemma dict_ok_dappend [simp]: "dict_ok d \<Longrightarrow> dict_ok (dappend d k x)"
  by (simp add: dappend_def)

lemma map_of_dappend [dict_simps]:
  "map_of (dappend d k x) = (map_of d)(k \<mapsto> dget d k [] @ [x])"
  by (simp add: dappend_def dict_simps)

lemma dict_ok_mem_iff: "dict_ok d \<Longrightarrow> (k, v) \<in> set d \<longleftrightarrow> map_of d k = Some v"
  by (simp add: dict_ok_def dkeys_def)

lemma set_update_subset: "set (AList.update k v d) \<subseteq> insert (k, v) (set d)"
  by (induction d) auto

lemma set_delete_subset: "set (AList.delete k d) \<subseteq> set d"
  by (auto simp: AList.delete_eq)

lemma dget_update [dict_simps]: "dget (AList.update k v d) k' w = (if k' = k then v else dget d k' w)"
  by (simp add: dget_def dict_simps)

subsection \<open>Lists\<close>

text \<open>\<open>xs[-1]\<close>: raises on an empty list.\<close>

definition last_item :: "'a list \<Rightarrow> 'a result" where
  "last_item xs = (if xs = [] then Inl IndexError else Inr (last xs))"

lemma last_item_Inr [simp]: "last_item xs = Inr x \<longleftrightarrow> xs \<noteq> [] \<and> x = last xs"
  by (auto simp: last_item_def)

subsection \<open>Strings\<close>

text \<open>\<open>s.split(c)\<close> for a one-character separator.\<close>

fun split_on :: "char \<Rightarrow> string \<Rightarrow> string list" where
  "split_on c [] = [[]]"
| "split_on c (x # xs) =
     (if x = c then [] # split_on c xs
      else (case split_on c xs of [] \<Rightarrow> [[x]] | y # ys \<Rightarrow> (x # y) # ys))"

lemma split_on_nonempty [simp]: "split_on c s \<noteq> []"
  by (induction s) (auto split: list.splits)

lemma split_on_notin: "c \<notin> set s \<Longrightarrow> split_on c s = [s]"
  by (induction s) auto

lemma split_on_join: "c \<notin> set p \<Longrightarrow> split_on c (p @ c # s) = p # split_on c s"
  by (induction p) auto

lemma last_split_on_join: "last (split_on c (p @ c # s)) = last (split_on c s)"
proof -
  have "\<exists>zs. zs \<noteq> [] \<and> split_on c (p @ c # s) = zs @ split_on c s"
  proof (induction p)
    case Nil
    show ?case by (rule exI [of _ "[[]]"]) simp
  next
    case (Cons x p)
    then obtain z zs where zs: "split_on c (p @ c # s) = (z # zs) @ split_on c s"
      by (metis neq_Nil_conv)
    show ?case
    proof (cases "x = c")
      case True
      with zs show ?thesis by (intro exI [of _ "[] # z # zs"]) simp
    next
      case False
      with zs show ?thesis by (intro exI [of _ "(x # z) # zs"]) simp
    qed
  qed
  then show ?thesis by auto
qed

lemma notin_last_split_on: "c \<notin> set (last (split_on c s))"
proof (induction s)
  case Nil
  then show ?case by simp
next
  case (Cons x s)
  obtain y ys where "split_on c s = y # ys"
    by (cases "split_on c s") auto
  with Cons show ?case by (cases ys) auto
qed

lemma length_split_on: "length (split_on c s) = Suc (count_list s c)"
proof (induction s)
  case Nil
  then show ?case by simp
next
  case (Cons x s)
  obtain y ys where "split_on c s = y # ys"
    by (cases "split_on c s") auto
  with Cons show ?case by auto
qed

text \<open>The key \<open>f"{a}_{b}"\<close> that the code builds in many places.\<close>

definition join_key :: "string \<Rightarrow> string \<Rightarrow> string" where
  "join_key a b = a @ CHR ''_'' # b"

lemma split_join_key:
  "CHR ''_'' \<notin> set a \<Longrightarrow> CHR ''_'' \<notin> set b \<Longrightarrow> split_on CHR ''_'' (join_key a b) = [a, b]"
  by (simp add: join_key_def split_on_join split_on_notin)

lemma last_split_join_key:
  "CHR ''_'' \<notin> set b \<Longrightarrow> last (split_on CHR ''_'' (join_key a b)) = b"
  by (simp add: join_key_def last_split_on_join split_on_notin)

lemma last_split_join_key_iff:
  "last (split_on CHR ''_'' (join_key a b)) = b \<longleftrightarrow> CHR ''_'' \<notin> set b"
  by (metis last_split_join_key notin_last_split_on)

lemma join_key_inject:
  "CHR ''_'' \<notin> set a \<Longrightarrow> CHR ''_'' \<notin> set a' \<Longrightarrow> join_key a b = join_key a' b' \<longleftrightarrow> a = a' \<and> b = b'"
proof
  assume a: "CHR ''_'' \<notin> set a" "CHR ''_'' \<notin> set a'" and eq: "join_key a b = join_key a' b'"
  show "a = a' \<and> b = b'"
    using a eq
  proof (induction a arbitrary: a')
    case Nil
    then show ?case by (cases a') (auto simp: join_key_def)
  next
    case (Cons x a)
    then show ?case by (cases a') (auto simp: join_key_def)
  qed
qed auto

text \<open>\<open>str(n)\<close> for an integer.\<close>

fun string_of_nat :: "nat \<Rightarrow> string" where
  "string_of_nat n =
     (if n < 10 then [char_of (48 + n)]
      else string_of_nat (n div 10) @ [char_of (48 + n mod 10)])"

declare string_of_nat.simps [simp del]

definition string_of_int :: "int \<Rightarrow> string" where
  "string_of_int i = (if i < 0 then CHR ''-'' # string_of_nat (nat (- i)) else string_of_nat (nat i))"

text \<open>\<open>int(s)\<close> for an optional sign and digits.\<close>

definition digits_value :: "string \<Rightarrow> int result" where
  "digits_value s =
     (if s = [] then Inl ValueError
      else foldE (\<lambda>n c. let d = of_char c :: int
             in if 48 \<le> d \<and> d \<le> 57 then Inr (10 * n + (d - 48)) else Inl ValueError) 0 s)"

fun int_of_string :: "string \<Rightarrow> int result" where
  "int_of_string [] = Inl ValueError"
| "int_of_string (c # s) =
     (if c = CHR ''-'' then bindE (digits_value s) (\<lambda>n. Inr (- n))
      else if c = CHR ''+'' then digits_value s else digits_value (c # s))"

text \<open>\<open>os.path.join\<close> with a relative second part.\<close>

definition os_join :: "string \<Rightarrow> string \<Rightarrow> string" where
  "os_join a b = (if a = '''' then b else if last a = CHR ''/'' then a @ b else a @ ''/'' @ b)"

text \<open>\<open>int(x)\<close> of a float cuts off the fraction.\<close>

definition py_int :: "rat \<Rightarrow> int" where
  "py_int x = (if x < 0 then - \<lfloor>- x\<rfloor> else \<lfloor>x\<rfloor>)"

text \<open>\<open>str.lower\<close> on ASCII letters.\<close>

definition lower :: "string \<Rightarrow> string" where
  "lower s = map (\<lambda>c. let n = of_char c :: nat
     in if 65 \<le> n \<and> n \<le> 90 then char_of (n + 32) else c) s"

lemma string_of_nat_nonempty [simp]: "string_of_nat n \<noteq> []"
  by (subst string_of_nat.simps) auto

lemma digit_inject:
  fixes n m :: nat
  assumes "n < 10" "m < 10"
  shows "(char_of (48 + n) :: char) = char_of (48 + m) \<longleftrightarrow> n = m"
proof
  assume "(char_of (48 + n) :: char) = char_of (48 + m)"
  then have "of_char (char_of (48 + n) :: char) = (of_char (char_of (48 + m) :: char) :: nat)"
    by simp
  with assms show "n = m" by (simp only: of_char_of) simp
qed simp

lemma string_of_nat_inject [simp]: "string_of_nat n = string_of_nat m \<longleftrightarrow> n = m"
proof (induction n arbitrary: m rule: string_of_nat.induct)
  case (1 n)
  have big: "string_of_nat k = string_of_nat (k div 10) @ [char_of (48 + k mod 10)]" if "\<not> k < 10" for k
    using that by (subst string_of_nat.simps) simp
  have small: "string_of_nat k = [char_of (48 + k)]" if "k < 10" for k
    using that by (subst string_of_nat.simps) simp
  show ?case
  proof (cases "n < 10"; cases "m < 10")
    assume "\<not> n < 10" "\<not> m < 10"
    with 1 show ?thesis
      by (simp add: big digit_inject) (metis div_mult_mod_eq)
  qed (auto simp: big small digit_inject dest: sym)
qed

subsection \<open>Searching and averaging\<close>

text \<open>The first element with a property, or none: a \<open>for\<close> loop with \<open>break\<close>.\<close>

fun find_first :: "('a \<Rightarrow> bool) \<Rightarrow> 'a list \<Rightarrow> 'a option" where
  "find_first p [] = None"
| "find_first p (x # xs) = (if p x then Some x else find_first p xs)"

lemma find_first_Some: "find_first p xs = Some x \<Longrightarrow> x \<in> set xs \<and> p x"
  by (induction xs) (auto split: if_splits)

lemma find_first_None: "find_first p xs = None \<longleftrightarrow> (\<forall>x \<in> set xs. \<not> p x)"
  by (induction xs) auto

subsection \<open>Runs of a step relation\<close>

text \<open>What every step of a component does to the state, as a preorder, a run does as well.\<close>

locale step_preorder =
  fixes step :: "'s \<Rightarrow> 's \<Rightarrow> bool"
    and related :: "'s \<Rightarrow> 's \<Rightarrow> bool"
  assumes related_refl: "related s s"
    and related_trans: "related s t \<Longrightarrow> related t u \<Longrightarrow> related s u"
    and step_related: "step s t \<Longrightarrow> related s t"
begin

lemma run_related: "step\<^sup>*\<^sup>* s t \<Longrightarrow> related s t"
proof (induction rule: rtranclp_induct)
  case (step t u)
  from step.IH step_related [OF step.hyps(2)] show ?case by (rule related_trans)
qed (rule related_refl)

end

text \<open>An invariant.\<close>

locale step_invariant =
  fixes step :: "'s \<Rightarrow> 's \<Rightarrow> bool"
    and inv :: "'s \<Rightarrow> bool"
  assumes step_inv: "step s t \<Longrightarrow> inv s \<Longrightarrow> inv t"

sublocale step_invariant \<subseteq> inv_preorder: step_preorder step "\<lambda>s t. inv s \<longrightarrow> inv t"
  by unfold_locales (auto intro: step_inv)

context step_invariant
begin

lemma run_keeps_inv: "step\<^sup>*\<^sup>* s t \<Longrightarrow> inv s \<Longrightarrow> inv t"
  using inv_preorder.run_related by blast

end

end
