(* ===== verification/Nxs_Types.thy ===== *)
theory Nxs_Types
  imports Nxs_Prelude
begin

section \<open>The data model (\<open>nxs_types/\<close>)\<close>

text \<open>
  The pydantic classes that the components exchange: each class is a record, each
  \<open>Enum\<close> a datatype, \<open>Optional[t]\<close> is \<open>t option\<close>, and a subclass is a record extension.
  Field names carry a short prefix per class, because several classes share names such as
  \<open>model_uuid\<close>. \<open>float\<close> is \<open>rat\<close>, \<open>int\<close> is \<open>int\<close>, \<open>bytes\<close> and \<open>str\<close> are \<open>string\<close>.
\<close>

subsection \<open>\<open>nxs_types/model.py\<close>: models and pipelines\<close>

datatype framework = FW_ONNX | FW_TVM | FW_BATCHED_TVM | FW_TF_PB

datatype tensor_type = TT_UINT8 | TT_FLOAT16 | TT_FLOAT32 | TT_INT32 | TT_INT64

datatype input_class = IC_IMAGE | IC_TENSOR | IC_TEXT

datatype model_type = MT_SINGLE | MT_COMPOSITE

datatype model_status = MS_VALID | MS_INVALID

datatype pipeline_output_type =
  PO_CLASSIFICATION | PO_DETECTION | PO_OCR | PO_EMBEDDING | PO_SPEECH_TRANSCRIPTION | PO_CUSTOM

record latency_measurement =
  lm_mean :: rat
  lm_std :: rat
  lm_min :: rat
  lm_max :: rat

record profile_unit =
  pu_batch_size :: int
  pu_fps :: rat
  pu_latency_e2e :: latency_measurement
  pu_gpu_mem_usage :: rat

record input_norm =
  in_use_nchw :: "bool option"
  in_use_rgb :: "bool option"
  in_mean :: "rat option \<times> rat option \<times> rat option"
  in_std :: "rat option \<times> rat option \<times> rat option"
  in_extra_params :: "string option"

record model_input =
  mi_name :: string
  mi_shape :: "int list"
  mi_dtype :: tensor_type
  mi_dclass :: "input_class option"
  mi_norm :: "input_norm option"

record model_output =
  mo_name :: string
  mo_shape :: "int list option"
  mo_dtype :: "tensor_type option"

record model_description =
  md_inputs :: "model_input list"
  md_outputs :: "model_output list"
  md_class_names :: "string list"
  md_preprocessing_name :: string
  md_postprocessing_name :: string
  md_transforming_name :: string
  md_extra_preprocessing_metadata :: "string option"
  md_extra_postprocessing_metadata :: "string option"
  md_extra_transforming_metadata :: "string option"

record nxs_base_model =
  bm_user_name :: string
  bm_model_name :: string
  bm_framework :: framework
  bm_model_desc :: model_description
  bm_profile :: "profile_unit list"
  bm_use_gpu :: bool
  bm_batching :: bool
  bm_cross_requests_batching :: bool
  bm_is_public :: bool
  bm_is_custom_model :: bool

record nxs_model = nxs_base_model +
  m_model_uuid :: string
  m_model_status :: model_status
  m_created_timestamp :: "rat option"
  m_created_time :: "string option"
  m_model_type :: model_type
  m_collocated_model_uuids :: "string list"
  m_num_request_pullers :: "int option"
  m_num_preprocessors :: "int option"
  m_num_postprocessors :: "int option"

record nxs_pipeline =
  p_user_name :: string
  p_pipeline_uuid :: string
  p_pipeline :: "string list"
  p_is_public :: bool

record nxs_compository_model =
  cm_main_model :: nxs_model
  cm_component_models :: "nxs_model list"

record nxs_pipeline_info = nxs_pipeline +
  pi_models :: "nxs_compository_model list"

record nxs_pipeline_runtime_info = nxs_pipeline_info +
  pr_last_alive_ts :: rat

abbreviation cmodel_uuid :: "nxs_compository_model \<Rightarrow> string" where
  "cmodel_uuid c \<equiv> m_model_uuid (cm_main_model c)"

subsection \<open>\<open>nxs_types/backend.py\<close>\<close>

datatype nxs_backend_type = BT_CPU | BT_GPU

record gpu_info =
  g_gpu_name :: string
  g_gpu_total_mem :: rat
  g_gpu_available_mem :: rat

record backend_stat =
  bs_gpu_info :: "gpu_info option"
  bs_extra_data :: "string option"

record backend_info =
  bi_backend_name :: string
  bi_state :: backend_stat

subsection \<open>\<open>nxs_types/scheduling_data.py\<close>\<close>

record nxs_scheduling_request =
  sr_pipeline_info :: nxs_pipeline_info
  sr_session_uuid :: string
  sr_requested_fps :: rat

record per_component_model_plan =
  cmp_model_uuid :: string
  cmp_batch_size :: int
  cmp_extra_info :: string

record per_compository_model_plan =
  scp_model_uuid :: string
  scp_session_uuid_list :: "string list"
  scp_component_model_plans :: "per_component_model_plan list"
  scp_extra_info :: string

record per_backend_plan =
  sbp_backend_name :: string
  sbp_compository_model_plans :: "per_compository_model_plan list"
  sbp_duty_cyles :: "rat list"
  sbp_extra_info :: string

record unscheduling_compository_plan =
  ucp_model_uuid :: string
  ucp_session_uuid_list :: "string list"
  ucp_extra_info :: string

record unscheduling_backend_plan =
  ubp_backend_name :: string
  ubp_compository_model_plans :: "unscheduling_compository_plan list"

record nxs_scheduling_plan =
  sp_scheduling :: "per_backend_plan list"
  sp_unscheduling :: "unscheduling_backend_plan list"

subsection \<open>\<open>nxs_types/frontend.py\<close> and \<open>nxs_types/log.py\<close>\<close>

record workload_report =
  wr_pipeline_uuid :: string
  wr_session_uuid :: string
  wr_fps :: rat
  wr_metadata :: string

record frontend_workload_report =
  fw_frontend_name :: string
  fw_workload_reports :: "workload_report list"
  fw_metadata :: string

record task_summary =
  ts_pipeline_uuid :: string
  ts_session_uuid :: string
  ts_task_uuid :: string
  ts_start_ts :: rat
  ts_end_ts :: rat
  ts_e2e_latency :: rat
  ts_extra_data :: string

text \<open>The latencies of a log are means, which are \<open>nan\<close> (None) when there is nothing to average.\<close>

record cmodel_throughput_log =
  tl_model_uuid :: string
  tl_total_reqs :: int
  tl_fps :: rat
  tl_latency_mean :: "rat option"
  tl_latency_min :: "rat option"
  tl_latency_max :: "rat option"
  tl_extra :: "(string, string) dict"

record backend_throughput_log =
  bl_backend_name :: string
  bl_backend_type :: nxs_backend_type
  bl_model_logs :: "cmodel_throughput_log list"

record simplified_scheduling_request =
  ssr_pipeline_uuid :: string
  ssr_session_uuid :: string
  ssr_cmodel_uuid_list :: "string list"
  ssr_requested_fps :: rat

record simplified_backend_plan =
  sbl_backend_name :: string
  sbl_cmodel_uuid_list :: "string list"

record nxs_scheduler_log =
  sl_scheduling_requests :: "simplified_scheduling_request list"
  sl_scheduling_plans :: "simplified_backend_plan list"

subsection \<open>\<open>nxs_types/message.py\<close>\<close>

datatype nxs_msg_type =
    REPORT_HEARTBEAT | REGISTER_BACKEND | REGISTER_WORKLOAD | REGISTER_WORKLOADS
  | SCALE_MINIMUM_BACKENDS | REPORT_IN_WORKLOAD | REPORT_OUT_WORKLOAD
  | CHANGE_HEARTBEAT_INTERVAL | REQUEST_REREGISTER_BACKEND | SCHEDULE_PLAN | UNSCHEDULE_PLAN
  | REPORT_BACKEND_STATS | PIN_WORKLOADS | UNPIN_WORKLOADS

text \<open>\<open>NxsMsgType\<close> is an \<open>int\<close> enumeration: its members are ordered by their numbers.\<close>

primrec msg_type_code :: "nxs_msg_type \<Rightarrow> int" where
  "msg_type_code REPORT_HEARTBEAT = 0"
| "msg_type_code REGISTER_BACKEND = 1"
| "msg_type_code REGISTER_WORKLOAD = 2"
| "msg_type_code REGISTER_WORKLOADS = 3"
| "msg_type_code SCALE_MINIMUM_BACKENDS = 4"
| "msg_type_code REPORT_IN_WORKLOAD = 5"
| "msg_type_code REPORT_OUT_WORKLOAD = 6"
| "msg_type_code CHANGE_HEARTBEAT_INTERVAL = 7"
| "msg_type_code REQUEST_REREGISTER_BACKEND = 8"
| "msg_type_code SCHEDULE_PLAN = 9"
| "msg_type_code UNSCHEDULE_PLAN = 10"
| "msg_type_code REPORT_BACKEND_STATS = 11"
| "msg_type_code PIN_WORKLOADS = 12"
| "msg_type_code UNPIN_WORKLOADS = 13"

lemma msg_type_code_inject: "msg_type_code a = msg_type_code b \<longleftrightarrow> a = b"
  by (cases a; cases b) simp_all

instantiation nxs_msg_type :: linorder
begin

definition less_eq_nxs_msg_type :: "nxs_msg_type \<Rightarrow> nxs_msg_type \<Rightarrow> bool" where
  "less_eq_nxs_msg_type a b \<longleftrightarrow> msg_type_code a \<le> msg_type_code b"

definition less_nxs_msg_type :: "nxs_msg_type \<Rightarrow> nxs_msg_type \<Rightarrow> bool" where
  "less_nxs_msg_type a b \<longleftrightarrow> msg_type_code a < msg_type_code b"

instance
  by standard
    (auto simp: less_eq_nxs_msg_type_def less_nxs_msg_type_def msg_type_code_inject)

end

text \<open>
  The message classes, one constructor per class that the modelled components send or
  receive. The \<open>type\<close> field of each class is fixed by the class, except that
  \<open>NxsMsgReportInputWorkloads\<close> and \<open>NxsMsgRegisterWorkloads\<close> carry the same value.
\<close>

datatype nxs_msg =
    MsgReportInputWorkloads frontend_workload_report
  | MsgRegisterWorkloads "workload_report list"
  | MsgPinWorkload string string rat
  | MsgUnpinWorkload string string
  | MsgRegisterBackend string "backend_stat option"
  | MsgRequestRegisterBackend
  | MsgReportHeartbeat string "backend_stat option"
  | MsgChangeHeartbeatInterval int
  | MsgSchedulePlans per_backend_plan
  | MsgUnschedulePlans unscheduling_backend_plan
  | MsgBackendStatsReport string string

fun msg_type :: "nxs_msg \<Rightarrow> nxs_msg_type" where
  "msg_type (MsgReportInputWorkloads _) = REGISTER_WORKLOADS"
| "msg_type (MsgRegisterWorkloads _) = REGISTER_WORKLOADS"
| "msg_type (MsgPinWorkload _ _ _) = PIN_WORKLOADS"
| "msg_type (MsgUnpinWorkload _ _) = UNPIN_WORKLOADS"
| "msg_type (MsgRegisterBackend _ _) = REGISTER_BACKEND"
| "msg_type MsgRequestRegisterBackend = REQUEST_REREGISTER_BACKEND"
| "msg_type (MsgReportHeartbeat _ _) = REPORT_HEARTBEAT"
| "msg_type (MsgChangeHeartbeatInterval _) = CHANGE_HEARTBEAT_INTERVAL"
| "msg_type (MsgSchedulePlans _) = SCHEDULE_PLAN"
| "msg_type (MsgUnschedulePlans _) = UNSCHEDULE_PLAN"
| "msg_type (MsgBackendStatsReport _ _) = REPORT_BACKEND_STATS"

subsection \<open>\<open>configs.py\<close>: queue names\<close>

definition SCHEDULER_QUEUE :: string where
  "SCHEDULER_QUEUE = ''nxs_scheduler''"

definition SCHEDULER_LOGS :: string where
  "SCHEDULER_LOGS = ''nxs_scheduler_logs''"

definition WORKLOAD_MANAGER_QUEUE :: string where
  "WORKLOAD_MANAGER_QUEUE = ''nxs_workload_manager''"

definition BACKEND_MONITOR_LOGS :: string where
  "BACKEND_MONITOR_LOGS = ''nxs_backend_monitor_logs''"

end
