(* ===== verification/Nxs_Policy.thy ===== *)
theory Nxs_Policy
  imports Nxs_Types
begin

section \<open>The scheduling policy (\<open>nxs_libs/interface/scheduling_policy/simple_policy_v2.py\<close>)\<close>

text \<open>
  \<open>SimpleSchedulingPolicyv2\<close> keeps, between rounds, which session's models run on which
  backend. Its plan objects are mutable and shared: \<open>_deploy_new_pipelines\<close> puts the plan
  object of one session into the list of another. The model therefore keeps the plan objects
  in a store (\<open>plan_heap\<close>, references are \<open>nat\<close>), and a session holds references.
  A \<open>BackendInfo\<close> is referred to by its name, the key of \<open>current_backends_dict\<close> under
  which the code stores it, because its GPU memory is updated in place.

  \<open>_remove_cmodel_from_backend\<close> appends plan objects to a list of backend plans, so an
  element of \<open>backend_plans\<close> is a backend plan or, wrongly, a reference to a plan object;
  reading \<open>backend_name\<close> of the latter raises \<open>AttributeError\<close>.
\<close>

subsection \<open>Plans and the state\<close>

record simple_backend_plan =
  bp_backend_name :: string
  bp_component_models_plan :: "per_component_model_plan list"
  bp_duty_cycle :: rat
  bp_extra_info :: string

datatype plan_item = BackendItem simple_backend_plan | StrayItem nat

record simple_cmodel_plan =
  cp_model_uuid :: string
  cp_session_uuid :: string
  cp_backend_plans :: "plan_item list"

record simple_unscheduling_plan =
  up_model_uuid :: string
  up_session_uuid :: string
  up_backend_name :: string
  up_extra_info :: string

record required_resource =
  rr_max_gpu_mem :: rat
  rr_min_gpu_mem :: rat

definition RequiredResource :: required_resource where
  "RequiredResource = \<lparr>rr_max_gpu_mem = 0, rr_min_gpu_mem = 0\<rparr>"

definition MAX_MODELS_PER_BACKEND :: nat where
  "MAX_MODELS_PER_BACKEND = 5"

record policy =
  last_requests_dict :: "(string, nxs_scheduling_request) dict"
  last_backends_dict :: "(string, backend_info) dict"
  scheduling_plans_dict :: "(string, nat list) dict"
  unscheduling_plans_dict :: "(string, simple_unscheduling_plan list) dict"
  current_requests_dict :: "(string, nxs_scheduling_request) dict"
  current_backends_dict :: "(string, backend_info) dict"
  cmodels_dict :: "(string, nxs_compository_model) dict"
  pipelines_dict :: "(string, nxs_pipeline_info) dict"
  plan_heap :: "nat \<Rightarrow> simple_cmodel_plan"
  next_ref :: nat

definition init_policy :: policy where
  "init_policy = \<lparr>last_requests_dict = [], last_backends_dict = [], scheduling_plans_dict = [],
     unscheduling_plans_dict = [], current_requests_dict = [], current_backends_dict = [],
     cmodels_dict = [], pipelines_dict = [],
     plan_heap = (\<lambda>_. \<lparr>cp_model_uuid = '''', cp_session_uuid = '''', cp_backend_plans = []\<rparr>),
     next_ref = 0\<rparr>"

text \<open>Reading \<open>backend_plan.backend_name\<close>.\<close>

fun item_backend_name :: "plan_item \<Rightarrow> string result" where
  "item_backend_name (BackendItem b) = Inr (bp_backend_name b)"
| "item_backend_name (StrayItem _) = Inl AttributeError"

text \<open>Dereferencing, assigning to a field of, and creating a plan object.\<close>

abbreviation plan_at :: "policy \<Rightarrow> nat \<Rightarrow> simple_cmodel_plan" where
  "plan_at s a \<equiv> plan_heap s a"

abbreviation model_at :: "policy \<Rightarrow> nat \<Rightarrow> string" where
  "model_at s a \<equiv> cp_model_uuid (plan_heap s a)"

abbreviation items_at :: "policy \<Rightarrow> nat \<Rightarrow> plan_item list" where
  "items_at s a \<equiv> cp_backend_plans (plan_heap s a)"

definition set_items :: "policy \<Rightarrow> nat \<Rightarrow> plan_item list \<Rightarrow> policy" where
  "set_items s a its =
     s\<lparr>plan_heap := (plan_heap s)(a := (plan_heap s a)\<lparr>cp_backend_plans := its\<rparr>)\<rparr>"

definition alloc_plan :: "policy \<Rightarrow> simple_cmodel_plan \<Rightarrow> nat \<times> policy" where
  "alloc_plan s p =
     (next_ref s, s\<lparr>plan_heap := (plan_heap s)(next_ref s := p), next_ref := Suc (next_ref s)\<rparr>)"

definition set_plans :: "policy \<Rightarrow> string \<Rightarrow> nat list \<Rightarrow> policy" where
  "set_plans s sess refs =
     s\<lparr>scheduling_plans_dict := AList.update sess refs (scheduling_plans_dict s)\<rparr>"

definition unscheduling_plan :: "string \<Rightarrow> string \<Rightarrow> string \<Rightarrow> simple_unscheduling_plan" where
  "unscheduling_plan m sess bn =
     \<lparr>up_model_uuid = m, up_session_uuid = sess, up_backend_name = bn, up_extra_info = ''''\<rparr>"

subsection \<open>Profiles and resources\<close>

definition get_best_profile :: "nxs_model \<Rightarrow> profile_unit option" where
  "get_best_profile m =
     snd (foldl (\<lambda>(fps, best) pu. if pu_fps pu > fps then (pu_fps pu, Some pu) else (fps, best))
            (0, None) (bm_profile m))"

definition compute_required_resource_for_component_model :: "nxs_model \<Rightarrow> required_resource result"
  where
  "compute_required_resource_for_component_model m =
     (case get_best_profile m of
        None \<Rightarrow> Inl AttributeError
      | Some pu \<Rightarrow> Inr (RequiredResource\<lparr>rr_max_gpu_mem := pu_gpu_mem_usage pu\<rparr>))"

definition compute_required_resource_for_atomic_model ::
    "nxs_compository_model \<Rightarrow> required_resource result" where
  "compute_required_resource_for_atomic_model c =
     foldE (\<lambda>r m. bindE (compute_required_resource_for_component_model m)
              (\<lambda>q. Inr (r\<lparr>rr_max_gpu_mem := rr_max_gpu_mem r + rr_max_gpu_mem q\<rparr>)))
       RequiredResource (cm_component_models c)"

definition backend_gpu_mem :: "policy \<Rightarrow> string \<Rightarrow> rat result" where
  "backend_gpu_mem s bn =
     bindE (dlookup (current_backends_dict s) bn)
       (\<lambda>b. case bs_gpu_info (bi_state b) of
              None \<Rightarrow> Inl AttributeError
            | Some g \<Rightarrow> Inr (g_gpu_total_mem g))"

definition add_gpu_mem :: "policy \<Rightarrow> string \<Rightarrow> rat \<Rightarrow> policy result" where
  "add_gpu_mem s bn d =
     bindE (dlookup (current_backends_dict s) bn)
       (\<lambda>b. case bs_gpu_info (bi_state b) of
              None \<Rightarrow> Inl AttributeError
            | Some g \<Rightarrow>
                Inr (s\<lparr>current_backends_dict := AList.update bn
                        (b\<lparr>bi_state := (bi_state b)\<lparr>bs_gpu_info :=
                           Some (g\<lparr>g_gpu_total_mem := g_gpu_total_mem g + d\<rparr>)\<rparr>\<rparr>)
                        (current_backends_dict s)\<rparr>))"

definition take_resource_from_backend :: "policy \<Rightarrow> string \<Rightarrow> required_resource \<Rightarrow> policy result" where
  "take_resource_from_backend s bn req =
     (if rr_max_gpu_mem req > 0 then add_gpu_mem s bn (- rr_max_gpu_mem req) else Inr s)"

definition return_resource_to_backend :: "policy \<Rightarrow> string \<Rightarrow> required_resource \<Rightarrow> policy result" where
  "return_resource_to_backend s bn req =
     (if rr_max_gpu_mem req > 0 then add_gpu_mem s bn (rr_max_gpu_mem req) else Inr s)"

subsection \<open>Choosing a backend\<close>

text \<open>\<open>for backend_plan in plans: if backend_plan.backend_name == bn: found; break\<close>.\<close>

fun any_backend_plan :: "string \<Rightarrow> plan_item list \<Rightarrow> bool result" where
  "any_backend_plan bn [] = Inr False"
| "any_backend_plan bn (it # its) =
     bindE (item_backend_name it) (\<lambda>n. if n = bn then Inr True else any_backend_plan bn its)"

text \<open>
  The search of one session's plans in \<open>_find_potential_backends\<close>; \<open>d\<close> is
  \<open>is_deployed\<close> so far. The sessions loop has no \<open>break\<close>, the plans loop has one.
\<close>

fun plans_deployed :: "policy \<Rightarrow> string \<Rightarrow> string \<Rightarrow> bool \<Rightarrow> nat list \<Rightarrow> bool result" where
  "plans_deployed s m bn d [] = Inr d"
| "plans_deployed s m bn d (a # as) =
     (if model_at s a \<noteq> m then plans_deployed s m bn d as
      else bindE (any_backend_plan bn (items_at s a))
             (\<lambda>hit. if d \<or> hit then Inr True else plans_deployed s m bn False as))"

definition is_deployed_on :: "policy \<Rightarrow> string \<Rightarrow> string \<Rightarrow> bool result" where
  "is_deployed_on s m bn =
     foldE (\<lambda>d (sess, refs). plans_deployed s m bn d refs) False (scheduling_plans_dict s)"

definition find_potential_backends ::
    "policy \<Rightarrow> nxs_compository_model \<Rightarrow> required_resource \<Rightarrow> string list result" where
  "find_potential_backends s c req =
     foldE (\<lambda>acc bn.
       bindE (is_deployed_on s (cmodel_uuid c) bn) (\<lambda>deployed.
         if deployed then Inr acc
         else bindE (dlookup (current_backends_dict s) bn) (\<lambda>b.
           let use_gpu = rr_max_gpu_mem req > 0; has_gpu = bs_gpu_info (bi_state b) \<noteq> None
           in if has_gpu \<noteq> use_gpu then Inr acc
              else if \<not> use_gpu then Inr (acc @ [bn])
              else bindE (backend_gpu_mem s bn) (\<lambda>m.
                     Inr (if m > rr_max_gpu_mem req then acc @ [bn] else acc)))))
       [] (dkeys (current_backends_dict s))"

text \<open>The models a backend runs, over all sessions, without repetition.\<close>

definition running_cmodel_uuids :: "policy \<Rightarrow> string \<Rightarrow> string list result" where
  "running_cmodel_uuids s bn =
     foldE (\<lambda>acc (sess, refs).
       foldE (\<lambda>acc a.
         foldE (\<lambda>acc it. bindE (item_backend_name it) (\<lambda>n.
             Inr (if bn = n \<and> model_at s a \<notin> set acc then acc @ [model_at s a] else acc)))
           acc (items_at s a))
         acc refs)
       [] (scheduling_plans_dict s)"

definition find_best_backend ::
    "policy \<Rightarrow> string list \<Rightarrow> required_resource \<Rightarrow> string option result" where
  "find_best_backend s potential req =
     (if rr_max_gpu_mem req > 0 then
        bindE (foldE (\<lambda>(best, m) bn. bindE (backend_gpu_mem s bn) (\<lambda>tot.
                   Inr (if tot > m then (Some bn, tot) else (best, m))))
                 (None, 0) potential)
          (\<lambda>(best, m). Inr best)
      else
        bindE (foldE (\<lambda>(best, n) bn. bindE (running_cmodel_uuids s bn) (\<lambda>r.
                   Inr (if length r < n then (Some bn, length r) else (best, n))))
                 (None, MAX_MODELS_PER_BACKEND) potential)
          (\<lambda>(best, n). Inr best))"

subsection \<open>Deploying a model\<close>

definition component_plans :: "nxs_compository_model \<Rightarrow> per_component_model_plan list result" where
  "component_plans c =
     mapE (\<lambda>m. case get_best_profile m of
                  None \<Rightarrow> Inl AttributeError
                | Some pu \<Rightarrow> Inr \<lparr>cmp_model_uuid = m_model_uuid m,
                                cmp_batch_size = pu_batch_size pu, cmp_extra_info = ''{}''\<rparr>)
       (cm_component_models c)"

definition add_scheduling_plan ::
    "policy \<Rightarrow> string \<Rightarrow> nxs_compository_model \<Rightarrow> string \<Rightarrow> policy result" where
  "add_scheduling_plan s sess c bn =
     bindE (component_plans c) (\<lambda>cps.
       let s1 = (if sess \<in> set (dkeys (scheduling_plans_dict s)) then s else set_plans s sess []);
           refs = dget (scheduling_plans_dict s1) sess [];
           (a, s2) = (case find_first (\<lambda>a. model_at s1 a = cmodel_uuid c) refs of
               Some a \<Rightarrow> (a, s1)
             | None \<Rightarrow>
                 let (a, s') = alloc_plan s1 \<lparr>cp_model_uuid = cmodel_uuid c,
                                 cp_session_uuid = sess, cp_backend_plans = []\<rparr>
                 in (a, set_plans s' sess (refs @ [a])))
       in Inr (set_items s2 a (items_at s2 a @
                 [BackendItem \<lparr>bp_backend_name = bn, bp_component_models_plan = cps,
                               bp_duty_cycle = 1, bp_extra_info = ''''\<rparr>])))"

definition deploy_cmodel ::
    "policy \<Rightarrow> string \<Rightarrow> string list \<Rightarrow> (string option \<times> policy) result" where
  "deploy_cmodel s m sessions =
     bindE (dlookup (cmodels_dict s) m) (\<lambda>c.
     bindE (compute_required_resource_for_atomic_model c) (\<lambda>req.
     bindE (find_potential_backends s c req) (\<lambda>potential.
       if potential = [] then Inr (None, s)
       else bindE (find_best_backend s potential req) (\<lambda>best.
         case best of
           None \<Rightarrow> Inr (None, s)
         | Some bn \<Rightarrow>
             bindE (take_resource_from_backend s bn req) (\<lambda>s1.
             bindE (foldE (\<lambda>s sess. add_scheduling_plan s sess c bn) s1 sessions) (\<lambda>s2.
               Inr (Some bn, s2)))))))"

subsection \<open>Undeploying a model\<close>

text \<open>
  One session's step of \<open>_remove_cmodel_from_backend\<close>. The unscheduling plan is appended
  inside the \<open>if session_uuid not in ...\<close>; when no backend is left, the other plans of
  the session are appended to \<open>new_backend_plans\<close>, which is by then the plan's own list,
  and the session's list becomes the empty \<open>new_cmodel_plans\<close>.
\<close>

definition remove_cmodel_from_session ::
    "nxs_compository_model \<Rightarrow> string \<Rightarrow> bool \<Rightarrow> policy \<times> bool \<times> string list \<Rightarrow> string \<Rightarrow>
     (policy \<times> bool \<times> string list) result" where
  "remove_cmodel_from_session c bn gen = (\<lambda>(s, found, rm) sess.
     bindE (dlookup (scheduling_plans_dict s) sess) (\<lambda>refs.
     case find_first (\<lambda>a. cmodel_uuid c = model_at s a) refs of
       None \<Rightarrow> Inr (s, found, rm)
     | Some a \<Rightarrow>
         bindE (foldE (\<lambda>(new, found, u) it. bindE (item_backend_name it) (\<lambda>n.
             if n \<noteq> bn then Inr (new @ [it], found, u)
             else Inr (new, True,
                       if gen \<and> sess \<notin> set (dkeys u)
                       then AList.update sess [unscheduling_plan (cmodel_uuid c) sess n] u
                       else u)))
           ([], found, unscheduling_plans_dict s) (items_at s a))
         (\<lambda>(new, found, u).
           let s1 = s\<lparr>unscheduling_plans_dict := u\<rparr> in
           if new \<noteq> [] then Inr (set_items s1 a new, found, rm)
           else let stray = map StrayItem (filter (\<lambda>b. model_at s b \<noteq> model_at s a) refs)
                in Inr (set_plans (set_items s1 a stray) sess [], found, rm @ [sess]))))"

definition remove_cmodel_from_backend ::
    "policy \<Rightarrow> nxs_compository_model \<Rightarrow> string \<Rightarrow> bool \<Rightarrow> policy result" where
  "remove_cmodel_from_backend s c bn gen =
     bindE (foldE (remove_cmodel_from_session c bn gen) (s, False, [])
              (dkeys (scheduling_plans_dict s)))
       (\<lambda>(s1, found, rm).
         let s2 = s1\<lparr>scheduling_plans_dict :=
                       foldl (\<lambda>d sess. AList.delete sess d) (scheduling_plans_dict s1) rm\<rparr>
         in if found
            then bindE (compute_required_resource_for_atomic_model c)
                   (\<lambda>req. return_resource_to_backend s2 bn req)
            else Inr s2)"

subsection \<open>Backends that disappeared\<close>

text \<open>
  \<open>_remove_expired_backends\<close>. The unscheduling plan names \<open>backend_name\<close>, which is the
  variable of the first loop: the last key of \<open>last_backends_dict\<close>, not the backend of the
  plan that is dropped.
\<close>

definition expired_backend_names :: "policy \<Rightarrow> string list" where
  "expired_backend_names s =
     filter (\<lambda>bn. bn \<notin> set (dkeys (current_backends_dict s))) (dkeys (last_backends_dict s))"

definition stale_backend_name :: "policy \<Rightarrow> string result" where
  "stale_backend_name s =
     (if last_backends_dict s = [] then Inl UnboundLocalError
      else Inr (last (dkeys (last_backends_dict s))))"

definition expire_items ::
    "policy \<Rightarrow> string list \<Rightarrow> string \<Rightarrow> nat \<Rightarrow>
     (plan_item list \<times> (string, simple_unscheduling_plan list) dict) result" where
  "expire_items s expired sess a =
     foldE (\<lambda>(new, u) it. bindE (item_backend_name it) (\<lambda>n.
         if n \<notin> set expired then Inr (new @ [it], u)
         else bindE (stale_backend_name s) (\<lambda>bn.
                Inr (new, dappend u sess (unscheduling_plan (model_at s a) sess bn)))))
       ([], unscheduling_plans_dict s) (items_at s a)"

definition expire_session ::
    "string list \<Rightarrow> policy \<times> string list \<Rightarrow> string \<Rightarrow> (policy \<times> string list) result" where
  "expire_session expired = (\<lambda>(s, rm) sess.
     bindE (dlookup (scheduling_plans_dict s) sess) (\<lambda>refs.
     bindE (foldE (\<lambda>(s, new_refs) a. bindE (expire_items s expired sess a) (\<lambda>(its, u).
               Inr (set_items (s\<lparr>unscheduling_plans_dict := u\<rparr>) a its,
                    if its \<noteq> [] then new_refs @ [a] else new_refs)))
              (s, []) refs)
       (\<lambda>(s1, new_refs).
         Inr (set_plans s1 sess new_refs, if new_refs = [] then rm @ [sess] else rm))))"

definition remove_expired_backends :: "policy \<Rightarrow> policy result" where
  "remove_expired_backends s =
     bindE (foldE (expire_session (expired_backend_names s)) (s, [])
              (dkeys (scheduling_plans_dict s)))
       (\<lambda>(s1, rm).
         foldE (\<lambda>s sess. bindE (dpop (scheduling_plans_dict s) sess)
                   (\<lambda>d. Inr (s\<lparr>scheduling_plans_dict := d\<rparr>))) s1 rm)"

subsection \<open>Sessions that ended\<close>

fun any_plan_on :: "policy \<Rightarrow> string \<Rightarrow> nat list \<Rightarrow> bool result" where
  "any_plan_on s bn [] = Inr False"
| "any_plan_on s bn (a # as) =
     bindE (any_backend_plan bn (items_at s a))
       (\<lambda>hit. if hit then Inr True else any_plan_on s bn as)"

text \<open>\<open>has_other_sessions_running\<close>: any plan of another session on this backend.\<close>

fun other_sessions_on :: "policy \<Rightarrow> string \<Rightarrow> string \<Rightarrow> (string, nat list) dict \<Rightarrow> bool result" where
  "other_sessions_on s sess bn [] = Inr False"
| "other_sessions_on s sess bn ((other, refs) # d) =
     (if other = sess then other_sessions_on s sess bn d
      else bindE (any_plan_on s bn refs)
             (\<lambda>hit. if hit then Inr True else other_sessions_on s sess bn d))"

definition remove_session :: "policy \<Rightarrow> string \<Rightarrow> policy result" where
  "remove_session s sess =
     (let u0 = (if sess \<in> set (dkeys (unscheduling_plans_dict s)) then unscheduling_plans_dict s
                else AList.update sess [] (unscheduling_plans_dict s))
      in bindE (dlookup (scheduling_plans_dict s) sess) (\<lambda>refs.
         bindE (foldE (\<lambda>acc a.
             foldE (\<lambda>(u, todo) it. bindE (item_backend_name it) (\<lambda>n.
                 let u' = dappend u sess (unscheduling_plan (model_at s a) sess n)
                 in bindE (other_sessions_on s sess n (scheduling_plans_dict s)) (\<lambda>other.
                    if other then Inr (u', todo)
                    else bindE (dlookup (cmodels_dict s) (model_at s a)) (\<lambda>c.
                         bindE (dlookup (current_backends_dict s) n) (\<lambda>_.
                           Inr (u', todo @ [(c, n)]))))))
               acc (items_at s a))
             (u0, []) refs)
         (\<lambda>(u, todo).
         bindE (foldE (\<lambda>s (c, n). remove_cmodel_from_backend s c n False)
                  (s\<lparr>unscheduling_plans_dict := u\<rparr>) todo)
         (\<lambda>s1. Inr (s1\<lparr>scheduling_plans_dict := AList.delete sess (scheduling_plans_dict s1)\<rparr>)))))"

definition compute_unused_session_uuids :: "policy \<Rightarrow> string list" where
  "compute_unused_session_uuids s =
     filter (\<lambda>sess. sess \<notin> set (dkeys (current_requests_dict s))) (dkeys (scheduling_plans_dict s))"

definition remove_unused_sessions :: "policy \<Rightarrow> policy result" where
  "remove_unused_sessions s = foldE remove_session s (compute_unused_session_uuids s)"

subsection \<open>Pipelines that ended\<close>

abbreviation request_models :: "nxs_scheduling_request \<Rightarrow> nxs_compository_model list" where
  "request_models r \<equiv> pi_models (sr_pipeline_info r)"

abbreviation request_pipeline :: "nxs_scheduling_request \<Rightarrow> string" where
  "request_pipeline r \<equiv> p_pipeline_uuid (sr_pipeline_info r)"

text \<open>\<open>if k not in d: d[k] = 0\<close> followed by \<open>d[k] += n\<close>; and \<open>if x not in xs: xs.append(x)\<close>.\<close>

definition dict_add :: "('k, 'n::monoid_add) dict \<Rightarrow> 'k \<Rightarrow> 'n \<Rightarrow> ('k, 'n) dict" where
  "dict_add d k n = AList.update k (dget d k 0 + n) d"

definition add_new :: "'a list \<Rightarrow> 'a \<Rightarrow> 'a list" where
  "add_new xs x = (if x \<in> set xs then xs else xs @ [x])"

definition compute_deployed_cmodel_ref_count :: "policy \<Rightarrow> (string, int) dict" where
  "compute_deployed_cmodel_ref_count s =
     foldl (\<lambda>d (sess, refs). foldl (\<lambda>d a.
         if items_at s a \<noteq> [] then dict_add d (model_at s a) (int (length (items_at s a))) else d)
       d refs) [] (scheduling_plans_dict s)"

definition compute_pipeline_uuids_to_add :: "policy \<Rightarrow> string list" where
  "compute_pipeline_uuids_to_add s =
     (let deployed = dkeys (compute_deployed_cmodel_ref_count s) in
      foldl (\<lambda>acc (sess, r).
          if list_all (\<lambda>c. cmodel_uuid c \<in> set deployed) (request_models r) then acc
          else add_new acc (request_pipeline r))
        [] (current_requests_dict s))"

definition compute_pipeline_uuids_to_remove :: "policy \<Rightarrow> string list" where
  "compute_pipeline_uuids_to_remove s =
     (let current = foldl (\<lambda>acc (sess, r). add_new acc (request_pipeline r))
                      [] (current_requests_dict s) in
      foldl (\<lambda>acc (sess, r). if request_pipeline r \<notin> set current
                               then add_new acc (request_pipeline r) else acc)
        [] (last_requests_dict s))"

definition compute_last_requesting_cmodel_ref_count :: "policy \<Rightarrow> (string, int) dict" where
  "compute_last_requesting_cmodel_ref_count s =
     foldl (\<lambda>d (sess, r). foldl (\<lambda>d c. dict_add d (cmodel_uuid c) 1) d (request_models r))
       [] (last_requests_dict s)"

text \<open>\<open>to_remove_cmodel_uuids\<close>: the models whose reference count drops to zero.\<close>

definition cmodels_to_remove :: "policy \<Rightarrow> string list \<Rightarrow> string list result" where
  "cmodels_to_remove s gone =
     (let to_add = compute_pipeline_uuids_to_add s;
          counts = foldl (\<lambda>d (sess, r).
              if request_pipeline r \<in> set to_add
              then foldl (\<lambda>d c. dict_add d (cmodel_uuid c) 1) d (request_models r) else d)
            (compute_last_requesting_cmodel_ref_count s) (current_requests_dict s)
      in bindE (foldE (\<lambda>(d, rm) (sess, r).
             if sess \<notin> set (dkeys (scheduling_plans_dict s)) \<or> request_pipeline r \<notin> set gone
             then Inr (d, rm)
             else foldE (\<lambda>(d, rm) c. bindE (dlookup d (cmodel_uuid c)) (\<lambda>n.
                      Inr (AList.update (cmodel_uuid c) (n - 1) d,
                           if n - 1 = 0 then add_new rm (cmodel_uuid c) else rm)))
                    (d, rm) (request_models r))
           (counts, []) (last_requests_dict s))
         (\<lambda>(d, rm). Inr rm))"

text \<open>\<open>cmodel_uuid_2_session_uuids\<close>: for each such model, the sessions with a plan for it.\<close>

definition sessions_of_cmodels :: "policy \<Rightarrow> string list \<Rightarrow> (string, string list) dict" where
  "sessions_of_cmodels s ms =
     foldl (\<lambda>d (sess, refs). foldl (\<lambda>d a.
         if model_at s a \<in> set ms
         then AList.update (model_at s a) (add_new (dget d (model_at s a) []) sess) d else d)
       d refs) [] (scheduling_plans_dict s)"

definition backends_of_cmodel :: "policy \<Rightarrow> string \<Rightarrow> string list \<Rightarrow> string list result" where
  "backends_of_cmodel s m sessions =
     foldE (\<lambda>acc sess. bindE (dlookup (scheduling_plans_dict s) sess) (\<lambda>refs.
         foldE (\<lambda>acc a. if model_at s a \<noteq> m then Inr acc
             else foldE (\<lambda>acc it. bindE (item_backend_name it) (\<lambda>n. Inr (add_new acc n)))
                    acc (items_at s a))
           acc refs))
       [] sessions"

text \<open>
  The last loop pops \<open>pipeline_uuid\<close> from \<open>last_requests_dict\<close>, whose keys are session
  uuids.
\<close>

definition remove_unused_pipelines :: "policy \<Rightarrow> policy result" where
  "remove_unused_pipelines s =
     (let gone = compute_pipeline_uuids_to_remove s in
      bindE (cmodels_to_remove s gone) (\<lambda>ms.
      bindE (foldE (\<lambda>s (m, sessions). bindE (backends_of_cmodel s m sessions) (\<lambda>bns.
               foldE (\<lambda>s bn. bindE (dlookup (cmodels_dict s) m) (\<lambda>c.
                   bindE (dlookup (current_backends_dict s) bn) (\<lambda>_.
                     remove_cmodel_from_backend s c bn True)))
                 s bns))
               s (sessions_of_cmodels s ms))
      (\<lambda>s1.
      bindE (foldE (\<lambda>d sess. bindE (dlookup d sess) (\<lambda>r.
                Inr (if request_pipeline r \<in> set gone
                     then AList.delete (request_pipeline r) d else d)))
               (last_requests_dict s1) (dkeys (last_requests_dict s1)))
      (\<lambda>d. Inr (s1\<lparr>last_requests_dict := d\<rparr>)))))"

subsection \<open>New pipelines\<close>

definition plans_of_model :: "policy \<Rightarrow> string \<Rightarrow> nat list" where
  "plans_of_model s m =
     concat (map (\<lambda>(sess, refs). filter (\<lambda>a. model_at s a = m) refs) (scheduling_plans_dict s))"

text \<open>
  The loop over the models of one pipeline, with its \<open>continue\<close> and \<open>break\<close>: returns
  \<open>deployed\<close>, the state, \<open>existing_cmodel_2_plans\<close> and \<open>deployment_info\<close>.
\<close>

fun deploy_models ::
    "policy \<Rightarrow> string list \<Rightarrow> (string, nat list) dict \<Rightarrow> (nxs_compository_model \<times> string) list \<Rightarrow>
     nxs_compository_model list \<Rightarrow>
     (bool \<times> policy \<times> (string, nat list) dict \<times> (nxs_compository_model \<times> string) list) result"
  where
  "deploy_models s sessions ex info [] = Inr (True, s, ex, info)"
| "deploy_models s sessions ex info (c # cs) =
     (case plans_of_model s (cmodel_uuid c) of
        a # as \<Rightarrow>
          deploy_models s sessions (foldl (\<lambda>d a. dappend d (cmodel_uuid c) a) ex (a # as)) info cs
      | [] \<Rightarrow>
          bindE (deploy_cmodel s (cmodel_uuid c) sessions) (\<lambda>(best, s').
            case best of
              None \<Rightarrow> Inr (False, s', ex, info)
            | Some bn \<Rightarrow> deploy_models s' sessions ex (info @ [(c, bn)]) cs))"

definition share_plans :: "policy \<Rightarrow> string list \<Rightarrow> (string, nat list) dict \<Rightarrow> policy" where
  "share_plans s sessions ex =
     foldl (\<lambda>s sess. foldl (\<lambda>s (m, as). foldl (\<lambda>s a.
         s\<lparr>scheduling_plans_dict := dappend (scheduling_plans_dict s) sess a\<rparr>) s as) s ex)
       s sessions"

definition deploy_new_pipeline :: "policy \<Rightarrow> string \<Rightarrow> policy result" where
  "deploy_new_pipeline s p =
     bindE (dlookup (pipelines_dict s) p) (\<lambda>info.
     let sessions = map fst (filter (\<lambda>(sess, r). request_pipeline r = p) (current_requests_dict s))
     in bindE (deploy_models s sessions [] [] (pi_models info)) (\<lambda>(deployed, s1, ex, done_list).
          if deployed then Inr (share_plans s1 sessions ex)
          else foldE (\<lambda>s (c, bn). remove_cmodel_from_backend s c bn False) s1 done_list))"

definition deploy_new_pipelines :: "policy \<Rightarrow> policy result" where
  "deploy_new_pipelines s = foldE deploy_new_pipeline s (compute_pipeline_uuids_to_add s)"

subsection \<open>Sessions without plans\<close>

text \<open>
  \<open>cmodel2backendplans\<close> and \<open>cmodel2backendnames\<close> have the same keys and are filled
  together, so they are one dictionary of lists of (name, plan) pairs.
\<close>

definition collect_backend_plans ::
    "policy \<Rightarrow> string \<Rightarrow> nxs_compository_model list \<Rightarrow>
     (string, (string \<times> plan_item) list) dict result" where
  "collect_backend_plans s sess cms =
     foldE (\<lambda>d c. foldE (\<lambda>d (other, refs). if other = sess then Inr d
         else foldE (\<lambda>d a. if model_at s a \<noteq> cmodel_uuid c then Inr d
             else foldE (\<lambda>d it. bindE (item_backend_name it) (\<lambda>n.
                    Inr (if n \<in> set (map fst (dget d (model_at s a) [])) then d
                         else dappend d (model_at s a) (n, it))))
                  (if model_at s a \<in> set (dkeys d) then d else AList.update (model_at s a) [] d)
                  (items_at s a))
              d refs)
           d (scheduling_plans_dict s))
       [] cms"

definition assign_session :: "policy \<Rightarrow> string \<times> nxs_scheduling_request \<Rightarrow> policy result" where
  "assign_session s = (\<lambda>(sess, r).
     if sess \<in> set (dkeys (scheduling_plans_dict s)) then Inr s
     else bindE (collect_backend_plans s sess (request_models r)) (\<lambda>d.
       if length (request_models r) \<noteq> length d then Inr s
       else Inr (foldl (\<lambda>s (m, plans).
           let (a, s') = alloc_plan s \<lparr>cp_model_uuid = m, cp_session_uuid = sess,
                                        cp_backend_plans = map snd plans\<rparr>
           in s'\<lparr>scheduling_plans_dict := dappend (scheduling_plans_dict s') sess a\<rparr>)
         (set_plans s sess []) d)))"

definition assign_backends_to_unscheduled_sessions :: "policy \<Rightarrow> policy result" where
  "assign_backends_to_unscheduled_sessions s = foldE assign_session s (current_requests_dict s)"

subsection \<open>Scaling\<close>

definition requesting_fps :: "policy \<Rightarrow> (string, rat) dict" where
  "requesting_fps s =
     foldl (\<lambda>d (sess, r).
         foldl (\<lambda>d c. dict_add d (cmodel_uuid c) (sr_requested_fps r)) d (request_models r))
       [] (current_requests_dict s)"

definition cmodel_fps :: "nxs_compository_model \<Rightarrow> rat result" where
  "cmodel_fps c =
     foldE (\<lambda>fps m. case get_best_profile m of
                       None \<Rightarrow> Inl AttributeError
                     | Some pu \<Rightarrow> Inr (min fps (pu_fps pu)))
       999999999999 (cm_component_models c)"

text \<open>
  The second loop of \<open>_scale_sessions\<close> fills four variables; \<open>sc_counted\<close> is
  \<open>counted_scheduled_cmodel_on_backends\<close>.
\<close>

record scaling =
  sc_sessions :: "(string, string list) dict"
  sc_fps :: "(string, rat) dict"
  sc_scheduled :: "(string, rat) dict"
  sc_counted :: "string list"

definition scan_plan :: "policy \<Rightarrow> string \<Rightarrow> scaling \<Rightarrow> nat \<Rightarrow> scaling result" where
  "scan_plan s sess d a =
     (let m = model_at s a in
      bindE (dlookup (cmodels_dict s) m) (\<lambda>c.
      bindE (cmodel_fps c) (\<lambda>fps.
        let d1 = d\<lparr>sc_sessions := AList.update m (add_new (dget (sc_sessions d) m []) sess)
                                    (sc_sessions d),
                   sc_fps := (if m \<in> set (dkeys (sc_fps d)) then sc_fps d
                              else AList.update m fps (sc_fps d)),
                   sc_scheduled := dict_add (sc_scheduled d) m 0\<rparr>
        in foldE (\<lambda>d it. bindE (item_backend_name it) (\<lambda>n.
               let key = join_key m n in
               Inr (if key \<in> set (sc_counted d) then d
                    else d\<lparr>sc_counted := sc_counted d @ [key],
                           sc_scheduled := dict_add (sc_scheduled d) m fps\<rparr>)))
             d1 (items_at s a))))"

definition scan_plans :: "policy \<Rightarrow> scaling result" where
  "scan_plans s =
     foldE (\<lambda>d (sess, refs). foldE (scan_plan s sess) d refs)
       \<lparr>sc_sessions = [], sc_fps = [], sc_scheduled = [], sc_counted = []\<rparr>
       (scheduling_plans_dict s)"

text \<open>The backends that serve a model, in the order \<open>_scale_sessions\<close> finds them.\<close>

definition model_backends :: "policy \<Rightarrow> string \<Rightarrow> string list result" where
  "model_backends s m =
     foldE (\<lambda>acc (sess, refs). foldE (\<lambda>acc a. if model_at s a \<noteq> m then Inr acc
         else foldE (\<lambda>acc it. bindE (item_backend_name it) (\<lambda>n.
                if n \<in> set acc then Inr acc
                else bindE (dlookup (current_backends_dict s) n) (\<lambda>_. Inr (acc @ [n]))))
              acc (items_at s a))
         acc refs)
       [] (scheduling_plans_dict s)"

fun scale_down :: "policy \<Rightarrow> string \<Rightarrow> nat \<Rightarrow> policy result" where
  "scale_down s m 0 = Inr s"
| "scale_down s m (Suc n) =
     bindE (model_backends s m) (\<lambda>bns.
       case bns of
         [] \<Rightarrow> Inr s
       | bn # _ \<Rightarrow>
           bindE (dlookup (cmodels_dict s) m) (\<lambda>c.
           bindE (remove_cmodel_from_backend s c bn True) (\<lambda>s'. scale_down s' m n)))"

fun scale_up :: "policy \<Rightarrow> string \<Rightarrow> string list \<Rightarrow> nat \<Rightarrow> policy result" where
  "scale_up s m sessions 0 = Inr s"
| "scale_up s m sessions (Suc n) =
     bindE (deploy_cmodel s m sessions) (\<lambda>(best, s').
       case best of None \<Rightarrow> Inr s' | Some _ \<Rightarrow> scale_up s' m sessions n)"

definition scale_model :: "scaling \<Rightarrow> policy \<Rightarrow> string \<times> rat \<Rightarrow> policy result" where
  "scale_model d s = (\<lambda>(m, requested).
     if m \<notin> set (dkeys (sc_scheduled d)) then Inr s
     else bindE (dlookup (sc_sessions d) m) (\<lambda>sessions.
          bindE (dlookup (sc_fps d) m) (\<lambda>fps.
          bindE (dlookup (sc_scheduled d) m) (\<lambda>scheduled.
            if fps = 0 then Inl ZeroDivisionError
            else let num_req = \<lceil>requested / fps\<rceil>; num_sched = \<lceil>scheduled / fps\<rceil>
                 in if num_sched > num_req then scale_down s m (nat (num_sched - num_req))
                    else if num_req > num_sched
                    then scale_up s m sessions (nat (num_req - num_sched))
                    else Inr s))))"

definition scale_sessions :: "policy \<Rightarrow> policy result" where
  "scale_sessions s =
     bindE (scan_plans s) (\<lambda>d. foldE (scale_model d) s (requesting_fps s))"

subsection \<open>Conversion to per-backend plans\<close>

text \<open>\<open>plan.session_uuid.split("_")[-1]\<close>.\<close>

definition short_session :: "string \<Rightarrow> string" where
  "short_session sess = last (split_on CHR ''_'' sess)"

text \<open>The last of the equal elements is taken for scheduling: that loop has no \<open>break\<close>.\<close>

definition add_session_to_models ::
    "string \<Rightarrow> string \<Rightarrow> per_component_model_plan list \<Rightarrow> per_compository_model_plan list \<Rightarrow>
     per_compository_model_plan list" where
  "add_session_to_models m sess cps ps =
     (if m \<in> set (map scp_model_uuid ps)
      then let i = last (filter (\<lambda>i. scp_model_uuid (ps ! i) = m) [0..<length ps])
           in ps[i := (ps ! i)\<lparr>scp_session_uuid_list := scp_session_uuid_list (ps ! i) @ [sess]\<rparr>]
      else ps @ [\<lparr>scp_model_uuid = m, scp_session_uuid_list = [sess],
                  scp_component_model_plans = cps, scp_extra_info = ''{}''\<rparr>])"

definition empty_backend_plan :: "string \<Rightarrow> per_backend_plan" where
  "empty_backend_plan bn =
     \<lparr>sbp_backend_name = bn, sbp_compository_model_plans = [], sbp_duty_cyles = [],
      sbp_extra_info = ''{}''\<rparr>"

definition add_backend_item ::
    "string \<Rightarrow> string \<Rightarrow> (string, per_backend_plan) dict \<Rightarrow> plan_item \<Rightarrow>
     (string, per_backend_plan) dict result" where
  "add_backend_item m sess d it =
     (case it of
        StrayItem _ \<Rightarrow> Inl AttributeError
      | BackendItem b \<Rightarrow>
          let bn = bp_backend_name b; p = dget d bn (empty_backend_plan bn)
          in Inr (AList.update bn
               (p\<lparr>sbp_compository_model_plans :=
                    add_session_to_models m sess (bp_component_models_plan b)
                      (sbp_compository_model_plans p),
                  sbp_duty_cyles := sbp_duty_cyles p @ [1]\<rparr>) d))"

definition convert_scheduling_plans ::
    "simple_cmodel_plan list \<Rightarrow> (string, per_backend_plan) dict result" where
  "convert_scheduling_plans plans =
     foldE (\<lambda>d p. foldE (add_backend_item (cp_model_uuid p) (short_session (cp_session_uuid p)))
               d (cp_backend_plans p))
       [] plans"

fun add_session_to_unscheduled ::
    "string \<Rightarrow> string \<Rightarrow> unscheduling_compository_plan list \<Rightarrow> unscheduling_compository_plan list"
  where
  "add_session_to_unscheduled m sess [] =
     [\<lparr>ucp_model_uuid = m, ucp_session_uuid_list = [sess], ucp_extra_info = ''{}''\<rparr>]"
| "add_session_to_unscheduled m sess (p # ps) =
     (if ucp_model_uuid p = m
      then p\<lparr>ucp_session_uuid_list := ucp_session_uuid_list p @ [sess]\<rparr> # ps
      else p # add_session_to_unscheduled m sess ps)"

definition convert_unscheduling_plans ::
    "simple_unscheduling_plan list \<Rightarrow> (string, unscheduling_backend_plan) dict" where
  "convert_unscheduling_plans plans =
     foldl (\<lambda>d u.
         let bn = up_backend_name u;
             p = dget d bn \<lparr>ubp_backend_name = bn, ubp_compository_model_plans = []\<rparr>
         in AList.update bn
              (p\<lparr>ubp_compository_model_plans :=
                   add_session_to_unscheduled (up_model_uuid u)
                     (short_session (up_session_uuid u)) (ubp_compository_model_plans p)\<rparr>) d)
       [] plans"

subsection \<open>One scheduling round\<close>

definition qualify_request :: "nxs_scheduling_request \<Rightarrow> nxs_scheduling_request" where
  "qualify_request r =
     r\<lparr>sr_session_uuid := join_key (request_pipeline r) (sr_session_uuid r)\<rparr>"

definition dict_add_absent :: "('k, 'v) dict \<Rightarrow> 'k \<Rightarrow> 'v \<Rightarrow> ('k, 'v) dict" where
  "dict_add_absent d k v = (if k \<in> set (dkeys d) then d else AList.update k v d)"

definition begin_round ::
    "policy \<Rightarrow> nxs_scheduling_request list \<Rightarrow> backend_info list \<Rightarrow> policy" where
  "begin_round s requests backends =
     (let reqs = map qualify_request requests;
          all_requests = map snd (last_requests_dict s) @ reqs
      in s\<lparr>unscheduling_plans_dict := [],
           pipelines_dict := foldl (\<lambda>d r. dict_add_absent d (request_pipeline r) (sr_pipeline_info r))
                               [] all_requests,
           cmodels_dict := foldl (\<lambda>d r. foldl (\<lambda>d c. dict_add_absent d (cmodel_uuid c) c)
                                     d (request_models r)) [] all_requests,
           current_requests_dict := foldl (\<lambda>d r. AList.update (sr_session_uuid r) r d) [] reqs,
           current_backends_dict := foldl (\<lambda>d b. AList.update (bi_backend_name b) b d) [] backends\<rparr>)"

definition schedule_phases :: "policy \<Rightarrow> policy result" where
  "schedule_phases s =
     bindE (remove_expired_backends s) (\<lambda>s1.
     bindE (remove_unused_sessions s1) (\<lambda>s2.
     bindE (remove_unused_pipelines s2) (\<lambda>s3.
     bindE (deploy_new_pipelines s3) (\<lambda>s4.
     bindE (assign_backends_to_unscheduled_sessions s4) scale_sessions))))"

definition end_round :: "policy \<Rightarrow> (nxs_scheduling_plan \<times> policy) result" where
  "end_round s =
     (let plans = map (plan_heap s) (concat (map snd (scheduling_plans_dict s)));
          unplans = concat (map snd (unscheduling_plans_dict s))
      in bindE (convert_scheduling_plans plans) (\<lambda>d.
           Inr (\<lparr>sp_scheduling = map snd d,
                 sp_unscheduling = map snd (convert_unscheduling_plans unplans)\<rparr>,
                s\<lparr>last_backends_dict := current_backends_dict s,
                  last_requests_dict := current_requests_dict s\<rparr>)))"

definition schedule ::
    "policy \<Rightarrow> nxs_scheduling_request list \<Rightarrow> backend_info list \<Rightarrow>
     (nxs_scheduling_plan \<times> policy) result" where
  "schedule s requests backends =
     bindE (schedule_phases (begin_round s requests backends)) end_round"

end
