(* ===== verification/Nxs_Policy_Frame.thy ===== *)
theory Nxs_Policy_Frame
  imports Nxs_Policy
begin

section \<open>What the policy's operations may change\<close>

text \<open>
  Every operation of the policy moves the state along one preorder, \<open>policy_step\<close>: it keeps
  the backends that the plan objects name inside a given set, reaches no other plan objects
  than before or new ones of that kind, adds no session outside a given set, keeps the
  round's dictionaries and never makes a GPU memory negative. The lemmas \<open>..._step\<close> show it
  for each operation; the properties of a whole round follow by transitivity.
\<close>

subsection \<open>Names, reachable plans, memory\<close>

fun item_names :: "plan_item \<Rightarrow> string set" where
  "item_names (BackendItem b) = {bp_backend_name b}"
| "item_names (StrayItem _) = {}"

definition items_names :: "plan_item list \<Rightarrow> string set" where
  "items_names its = (\<Union>it \<in> set its. item_names it)"

definition plan_refs :: "policy \<Rightarrow> nat set" where
  "plan_refs s = (\<Union>p \<in> set (scheduling_plans_dict s). set (snd p))"

definition plan_within :: "string set \<Rightarrow> policy \<Rightarrow> nat \<Rightarrow> bool" where
  "plan_within B s a \<longleftrightarrow> a < next_ref s \<and> items_names (items_at s a) \<subseteq> B"

definition plans_within :: "string set \<Rightarrow> policy \<Rightarrow> bool" where
  "plans_within B s \<longleftrightarrow> (\<forall>a \<in> plan_refs s. plan_within B s a)"

definition gpu_nonneg :: "backend_info \<Rightarrow> bool" where
  "gpu_nonneg b \<longleftrightarrow>
     (case bs_gpu_info (bi_state b) of None \<Rightarrow> True | Some g \<Rightarrow> 0 \<le> g_gpu_total_mem g)"

definition gpus_nonneg :: "policy \<Rightarrow> bool" where
  "gpus_nonneg s \<longleftrightarrow> (\<forall>p \<in> set (current_backends_dict s). gpu_nonneg (snd p))"

definition policy_step :: "string set \<Rightarrow> string set \<Rightarrow> policy \<Rightarrow> policy \<Rightarrow> bool" where
  "policy_step B S s s' \<longleftrightarrow>
     (\<forall>a. plan_within B s a \<longrightarrow> plan_within B s' a) \<and>
     next_ref s \<le> next_ref s' \<and>
     (\<forall>a < next_ref s. model_at s' a = model_at s a) \<and>
     (\<forall>a \<in> plan_refs s'. a \<in> plan_refs s \<or> plan_within B s' a) \<and>
     set (dkeys (scheduling_plans_dict s')) \<subseteq> set (dkeys (scheduling_plans_dict s)) \<union> S \<and>
     dkeys (current_backends_dict s') = dkeys (current_backends_dict s) \<and>
     (gpus_nonneg s \<longrightarrow> gpus_nonneg s') \<and>
     (dict_ok (scheduling_plans_dict s) \<longrightarrow> dict_ok (scheduling_plans_dict s')) \<and>
     current_requests_dict s' = current_requests_dict s \<and>
     cmodels_dict s' = cmodels_dict s \<and> pipelines_dict s' = pipelines_dict s \<and>
     last_backends_dict s' = last_backends_dict s"

lemma item_backend_name_eq_Inr [result_simps]:
  "item_backend_name it = Inr n \<longleftrightarrow> (\<exists>b. it = BackendItem b \<and> n = bp_backend_name b)"
  by (cases it) auto

lemma items_names_simps [simp]:
  "items_names [] = {}"
  "items_names (it # its) = item_names it \<union> items_names its"
  "items_names (its @ jts) = items_names its \<union> items_names jts"
  by (auto simp: items_names_def)

lemma items_names_stray [simp]: "items_names (map StrayItem as) = {}"
  by (auto simp: items_names_def)

lemma items_names_mono: "set its \<subseteq> set jts \<Longrightarrow> items_names its \<subseteq> items_names jts"
  by (auto simp: items_names_def)

lemma policy_step_refl [simp, intro]: "policy_step B S s s"
  by (auto simp: policy_step_def)

lemma policy_step_trans [trans]:
  "policy_step B S s t \<Longrightarrow> policy_step B S t u \<Longrightarrow> policy_step B S s u"
  unfolding policy_step_def by (elim conjE, intro conjI) (blast, auto)

lemma policy_step_mono: "policy_step B S s t \<Longrightarrow> S \<subseteq> S' \<Longrightarrow> policy_step B S' s t"
  unfolding policy_step_def by (elim conjE, intro conjI) (blast, blast, blast, blast, blast, simp_all)

lemma policy_step_within: "policy_step B S s t \<Longrightarrow> plans_within B s \<Longrightarrow> plans_within B t"
  unfolding policy_step_def plans_within_def by blast

lemma policy_step_fields:
  assumes "policy_step B S s t"
  shows "dkeys (current_backends_dict t) = dkeys (current_backends_dict s)"
    "current_requests_dict t = current_requests_dict s" "cmodels_dict t = cmodels_dict s"
    "pipelines_dict t = pipelines_dict s" "last_backends_dict t = last_backends_dict s"
    "dict_ok (scheduling_plans_dict s) \<Longrightarrow> dict_ok (scheduling_plans_dict t)"
    "gpus_nonneg s \<Longrightarrow> gpus_nonneg t"
    "set (dkeys (scheduling_plans_dict t)) \<subseteq> set (dkeys (scheduling_plans_dict s)) \<union> S"
  using assms by (auto simp: policy_step_def)

text \<open>A loop of steps is a step.\<close>

lemma foldE_policy_step:
  assumes "foldE f s xs = Inr t"
    and "\<And>s' x t'. x \<in> set xs \<Longrightarrow> policy_step B S s s' \<Longrightarrow> f s' x = Inr t' \<Longrightarrow> policy_step B S s' t'"
  shows "policy_step B S s t"
  using assms(1) policy_step_refl
  by (rule foldE_invariant) (blast intro: policy_step_trans assms(2))

lemma foldE_policy_step_fst:
  assumes "foldE f (s, y) xs = Inr (t, z)"
    and "\<And>s' y x t' y'. x \<in> set xs \<Longrightarrow> policy_step B S s s' \<Longrightarrow> f (s', y) x = Inr (t', y') \<Longrightarrow>
           policy_step B S s' t'"
  shows "policy_step B S s t"
proof -
  have "policy_step B S s (fst (t, z))"
    using assms(1)
  proof (rule foldE_invariant)
    fix sy x sy' assume "x \<in> set xs" "policy_step B S s (fst sy)" "f sy x = Inr sy'"
    then show "policy_step B S s (fst sy')"
      using assms(2) [of x "fst sy" "snd sy" "fst sy'" "snd sy'"]
      by (auto intro: policy_step_trans)
  qed simp
  then show ?thesis by simp
qed

lemma foldl_policy_step:
  assumes "\<And>s x. x \<in> set xs \<Longrightarrow> policy_step B S s (f s x)"
  shows "policy_step B S s (foldl f s xs)"
  by (rule foldl_invariant) (auto intro: policy_step_trans assms)

subsection \<open>Elementary steps\<close>

lemma set_items_step:
  assumes "items_names (items_at s a) \<subseteq> B \<Longrightarrow> items_names its \<subseteq> B"
  shows "policy_step B S s (set_items s a its)"
  using assms by (auto simp: policy_step_def set_items_def plan_within_def plan_refs_def gpus_nonneg_def)

lemma set_plans_step:
  assumes "\<And>a. a \<in> set refs \<Longrightarrow> a \<in> plan_refs s \<or> plan_within B s a"
    and "sess \<in> set (dkeys (scheduling_plans_dict s)) \<union> S"
  shows "policy_step B S s (set_plans s sess refs)"
  using assms set_update_subset [of sess refs "scheduling_plans_dict s"]
  by (fastforce simp: policy_step_def set_plans_def plan_within_def plan_refs_def gpus_nonneg_def
      dkeys_update)

lemma delete_session_step:
  "policy_step B S s (s\<lparr>scheduling_plans_dict := AList.delete sess (scheduling_plans_dict s)\<rparr>)"
  using set_delete_subset [of sess "scheduling_plans_dict s"]
  by (auto simp: policy_step_def plan_within_def plan_refs_def gpus_nonneg_def dkeys_delete)

lemma unscheduling_step [simp, intro]: "policy_step B S s (s\<lparr>unscheduling_plans_dict := u\<rparr>)"
  by (auto simp: policy_step_def plan_within_def plan_refs_def gpus_nonneg_def)

lemma last_requests_step [simp, intro]: "policy_step B S s (s\<lparr>last_requests_dict := d\<rparr>)"
  by (auto simp: policy_step_def plan_within_def plan_refs_def gpus_nonneg_def)

lemma alloc_plan_step:
  assumes "alloc_plan s p = (a, t)" "items_names (cp_backend_plans p) \<subseteq> B"
  shows "policy_step B S s t" "plan_within B t a"
  using assms
  by (auto simp: policy_step_def alloc_plan_def plan_within_def plan_refs_def gpus_nonneg_def
      split: if_splits)

lemma map_of_plan_refs:
  "map_of (scheduling_plans_dict s) sess = Some refs \<Longrightarrow> a \<in> set refs \<Longrightarrow> a \<in> plan_refs s"
  by (force simp: plan_refs_def dest: map_of_SomeD)

lemma dget_plan_refs:
  "a \<in> set (dget (scheduling_plans_dict s) sess []) \<Longrightarrow> a \<in> plan_refs s"
  by (auto simp: dget_def split: option.splits dest: map_of_plan_refs [OF sym])

text \<open>Sharing: appending a plan reference to a session's list.\<close>

lemma dappend_plan_step:
  assumes "a \<in> plan_refs s \<or> plan_within B s a" "sess \<in> set (dkeys (scheduling_plans_dict s)) \<union> S"
  shows "policy_step B S s
           (s\<lparr>scheduling_plans_dict := dappend (scheduling_plans_dict s) sess a\<rparr>)"
proof -
  have "policy_step B S s
      (set_plans s sess (dget (scheduling_plans_dict s) sess [] @ [a]))"
    using assms by (intro set_plans_step) (auto dest: dget_plan_refs)
  then show ?thesis by (simp add: set_plans_def dappend_def)
qed

subsection \<open>GPU memory\<close>

lemma backend_gpu_mem_eq_Inr:
  "backend_gpu_mem s bn = Inr m \<longleftrightarrow>
     (\<exists>b g. map_of (current_backends_dict s) bn = Some b \<and> bs_gpu_info (bi_state b) = Some g \<and>
            m = g_gpu_total_mem g)"
  by (auto simp: backend_gpu_mem_def result_simps split: option.splits)

lemma add_gpu_mem_eq_Inr:
  "add_gpu_mem s bn d = Inr t \<longleftrightarrow>
     (\<exists>b g. map_of (current_backends_dict s) bn = Some b \<and> bs_gpu_info (bi_state b) = Some g \<and>
        t = s\<lparr>current_backends_dict := AList.update bn
               (b\<lparr>bi_state := (bi_state b)\<lparr>bs_gpu_info :=
                  Some (g\<lparr>g_gpu_total_mem := g_gpu_total_mem g + d\<rparr>)\<rparr>\<rparr>) (current_backends_dict s)\<rparr>)"
  by (auto simp: add_gpu_mem_def result_simps split: option.splits)

lemma add_gpu_mem_step:
  assumes "add_gpu_mem s bn d = Inr t" "\<And>m. backend_gpu_mem s bn = Inr m \<Longrightarrow> 0 \<le> m \<Longrightarrow> 0 \<le> m + d"
  shows "policy_step B S s t"
proof -
  from assms(1) obtain b g where bg: "map_of (current_backends_dict s) bn = Some b"
    "bs_gpu_info (bi_state b) = Some g"
    and t: "t = s\<lparr>current_backends_dict := AList.update bn
               (b\<lparr>bi_state := (bi_state b)\<lparr>bs_gpu_info :=
                  Some (g\<lparr>g_gpu_total_mem := g_gpu_total_mem g + d\<rparr>)\<rparr>\<rparr>) (current_backends_dict s)\<rparr>"
    by (auto simp: add_gpu_mem_eq_Inr)
  have "bn \<in> set (dkeys (current_backends_dict s))"
    using bg(1) by (auto simp: in_dkeys_iff)
  moreover have "gpus_nonneg t" if "gpus_nonneg s"
  proof -
    have "0 \<le> g_gpu_total_mem g"
      using that bg map_of_SomeD [OF bg(1)] by (force simp: gpus_nonneg_def gpu_nonneg_def)
    then have "0 \<le> g_gpu_total_mem g + d"
      using assms(2) bg by (auto simp: backend_gpu_mem_eq_Inr)
    then show ?thesis
      using that set_update_subset [of bn _ "current_backends_dict s"]
      unfolding t gpus_nonneg_def gpu_nonneg_def by fastforce
  qed
  ultimately show ?thesis
    by (auto simp: policy_step_def t plan_within_def plan_refs_def dkeys_update)
qed

lemma return_resource_step:
  "return_resource_to_backend s bn req = Inr t \<Longrightarrow> policy_step B S s t"
  by (auto simp: return_resource_to_backend_def split: if_splits intro: add_gpu_mem_step)

subsection \<open>Choosing a backend: what is found\<close>

definition serves :: "policy \<Rightarrow> string \<Rightarrow> string \<Rightarrow> bool" where
  "serves s m bn \<longleftrightarrow>
     (\<exists>a \<in> plan_refs s. model_at s a = m \<and> bn \<in> items_names (items_at s a))"

definition eligible :: "policy \<Rightarrow> required_resource \<Rightarrow> string \<Rightarrow> bool" where
  "eligible s req bn =
     (case map_of (current_backends_dict s) bn of
        None \<Rightarrow> False
      | Some b \<Rightarrow>
          (case bs_gpu_info (bi_state b) of
             None \<Rightarrow> \<not> rr_max_gpu_mem req > 0
           | Some g \<Rightarrow> rr_max_gpu_mem req > 0 \<and> g_gpu_total_mem g > rr_max_gpu_mem req))"

lemma any_backend_plan_eq:
  "any_backend_plan bn its = Inr d \<Longrightarrow> d \<longleftrightarrow> bn \<in> items_names its"
  by (induction its) (auto simp: result_simps split: if_splits)

lemma plans_deployed_eq:
  "plans_deployed s m bn d refs = Inr e \<Longrightarrow>
     e \<longleftrightarrow> d \<or> (\<exists>a \<in> set refs. model_at s a = m \<and> bn \<in> items_names (items_at s a))"
  by (induction refs arbitrary: d)
    (auto simp: result_simps dest!: any_backend_plan_eq split: if_splits)

lemma is_deployed_on_eq:
  assumes "is_deployed_on s m bn = Inr e"
  shows "e \<longleftrightarrow> serves s m bn"
proof -
  have "e \<longleftrightarrow> d \<or> (\<exists>p \<in> set ps. \<exists>a \<in> set (snd p). model_at s a = m \<and> bn \<in> items_names (items_at s a))"
    if "foldE (\<lambda>d (sess, refs). plans_deployed s m bn d refs) d ps = Inr e" for d ps
    using that
  proof (induction ps arbitrary: d)
    case (Cons p ps)
    obtain d' where d': "plans_deployed s m bn d (snd p) = Inr d'"
      "foldE (\<lambda>d (sess, refs). plans_deployed s m bn d refs) d' ps = Inr e"
      using Cons.prems by (cases p) (auto simp: result_simps)
    from Cons.IH [OF d'(2)] plans_deployed_eq [OF d'(1)] show ?case by auto
  qed simp
  from this [of False "scheduling_plans_dict s"] assms show ?thesis
    by (auto simp: is_deployed_on_def serves_def plan_refs_def)
qed

lemma find_potential_backends_eq:
  assumes "find_potential_backends s c req = Inr bns"
  shows "bns = filter (\<lambda>bn. \<not> serves s (cmodel_uuid c) bn \<and> eligible s req bn)
                 (dkeys (current_backends_dict s))"
proof -
  define f where "f = (\<lambda>acc bn.
       bindE (is_deployed_on s (cmodel_uuid c) bn) (\<lambda>deployed.
         if deployed then Inr acc
         else bindE (dlookup (current_backends_dict s) bn) (\<lambda>b.
           let use_gpu = rr_max_gpu_mem req > 0; has_gpu = bs_gpu_info (bi_state b) \<noteq> None
           in if has_gpu \<noteq> use_gpu then Inr acc
              else if \<not> use_gpu then Inr (acc @ [bn])
              else bindE (backend_gpu_mem s bn) (\<lambda>m.
                     Inr (if m > rr_max_gpu_mem req then acc @ [bn] else acc)))))"
  have step: "acc' = acc @ (if \<not> serves s (cmodel_uuid c) bn \<and> eligible s req bn then [bn] else [])"
    if "f acc bn = Inr acc'" for acc bn acc'
    using that
    by (auto simp: f_def result_simps eligible_def Let_def backend_gpu_mem_eq_Inr
        dest!: is_deployed_on_eq split: if_splits option.splits)
  have "ys = acc @ filter (\<lambda>bn. \<not> serves s (cmodel_uuid c) bn \<and> eligible s req bn) xs"
    if "foldE f acc xs = Inr ys" for acc xs ys
    using that
  proof (induction xs arbitrary: acc)
    case (Cons x xs)
    then obtain acc' where "f acc x = Inr acc'" "foldE f acc' xs = Inr ys"
      by (auto simp: result_simps)
    with Cons.IH [of acc'] step [of acc x acc'] show ?case by auto
  qed simp
  from this [of "[]"] assms show ?thesis
    by (simp add: find_potential_backends_def f_def)
qed

text \<open>A running maximum (minimum) keeps the first extremal element.\<close>

lemma find_best_backend_gpu:
  assumes "find_best_backend s bns req = Inr best" "rr_max_gpu_mem req > 0"
  shows "case best of
           None \<Rightarrow> (\<forall>bn \<in> set bns. \<forall>m. backend_gpu_mem s bn = Inr m \<longrightarrow> m \<le> 0)
         | Some bn \<Rightarrow> bn \<in> set bns \<and> (\<exists>m. backend_gpu_mem s bn = Inr m \<and> m > 0 \<and>
             (\<forall>bn' \<in> set bns. \<forall>m'. backend_gpu_mem s bn' = Inr m' \<longrightarrow> m' \<le> m))"
proof -
  define f where "f = (\<lambda>(best, m) bn. bindE (backend_gpu_mem s bn) (\<lambda>tot.
      Inr (if tot > m then (Some bn, tot) else (best, m :: rat))))"
  define P where "P = (\<lambda>(seen :: string set) (best, m).
      (\<forall>bn \<in> seen. \<forall>m'. backend_gpu_mem s bn = Inr m' \<longrightarrow> m' \<le> m) \<and>
      (case best of None \<Rightarrow> m = 0
       | Some bn \<Rightarrow> bn \<in> set bns \<and> backend_gpu_mem s bn = Inr m \<and> m > 0))"
  have step: "P (insert x seen) z'"
    if "f z x = Inr z'" "P seen z" "set (x # xs) \<subseteq> set bns" for z x z' seen xs
  proof -
    note prems = that
    obtain best m tot where z: "z = (best, m)" "backend_gpu_mem s x = Inr tot"
      "z' = (if tot > m then (Some x, tot) else (best, m))"
      using prems(1) by (cases z) (auto simp: f_def result_simps)
    from prems(2) have "\<forall>bn \<in> seen. \<forall>m'. backend_gpu_mem s bn = Inr m' \<longrightarrow> m' \<le> m"
      and "case best of None \<Rightarrow> m = 0
           | Some bn \<Rightarrow> bn \<in> set bns \<and> backend_gpu_mem s bn = Inr m \<and> m > 0"
      by (auto simp: P_def z)
    moreover from this(2) have "0 \<le> m" by (cases best) auto
    ultimately show ?thesis
      using z(2) prems(3) by (auto simp: P_def z(3))
  qed
  have all: "P (seen \<union> set xs) r"
    if "foldE f z xs = Inr r" "P seen z" "set xs \<subseteq> set bns" for z xs r seen
    using that
  proof (induction xs arbitrary: z seen)
    case (Cons x xs)
    then obtain z' where z': "f z x = Inr z'" "foldE f z' xs = Inr r"
      by (auto simp: result_simps)
    have "P (insert x seen) z'"
      using z'(1) Cons.prems(2,3) by (rule step)
    with Cons.IH [OF z'(2), of "insert x seen"] Cons.prems(3) show ?case by simp
  qed simp
  obtain m where m: "foldE f (None, 0) bns = Inr (best, m)"
    using assms by (auto simp: find_best_backend_def f_def result_simps)
  have "P {} (None, 0)" by (simp add: P_def)
  from all [OF m this] have "P (set bns) (best, m)" by simp
  then show ?thesis
    by (auto simp: P_def split: option.splits)
qed

lemma find_best_backend_cpu:
  assumes "find_best_backend s bns req = Inr (Some bn)" "\<not> rr_max_gpu_mem req > 0"
  shows "bn \<in> set bns \<and> (\<exists>r. running_cmodel_uuids s bn = Inr r \<and> length r < MAX_MODELS_PER_BACKEND)"
proof -
  define f where "f = (\<lambda>(best, n) bn. bindE (running_cmodel_uuids s bn) (\<lambda>r.
      Inr (if length r < n then (Some bn, length r) else (best, n))))"
  obtain n where n: "foldE f (None, MAX_MODELS_PER_BACKEND) bns = Inr (Some bn, n)"
    using assms by (auto simp: find_best_backend_def f_def result_simps)
  define P where "P = (\<lambda>(best, n). n \<le> MAX_MODELS_PER_BACKEND \<and>
      (\<forall>bn. best = Some bn \<longrightarrow> bn \<in> set bns \<and> (\<exists>r. running_cmodel_uuids s bn = Inr r \<and>
                     length r < MAX_MODELS_PER_BACKEND)))"
  have "P (Some bn, n)"
    using n
  proof (rule foldE_invariant)
    show "P (None, MAX_MODELS_PER_BACKEND)" by (simp add: P_def)
  next
    fix z x z' assume "x \<in> set bns" "P z" "f z x = Inr z'"
    then show "P z'"
      by (cases z) (auto simp: P_def f_def result_simps split: if_splits)
  qed
  then show ?thesis by (simp add: P_def)
qed

lemma find_best_backend_in:
  "find_best_backend s bns req = Inr (Some bn) \<Longrightarrow> bn \<in> set bns"
  using find_best_backend_gpu [of s bns req "Some bn"] find_best_backend_cpu [of s bns req bn]
  by (cases "rr_max_gpu_mem req > 0") auto

subsection \<open>Each operation is a step\<close>

lemma add_scheduling_plan_step:
  assumes "add_scheduling_plan s sess c bn = Inr t" "bn \<in> B" "sess \<in> S"
  shows "policy_step B S s t"
proof -
  obtain cps where cps: "component_plans c = Inr cps"
    using assms(1) by (auto simp: add_scheduling_plan_def result_simps)
  define s1 where "s1 = (if sess \<in> set (dkeys (scheduling_plans_dict s)) then s
                         else set_plans s sess [])"
  define refs where "refs = dget (scheduling_plans_dict s1) sess []"
  have 1: "policy_step B S s s1"
    using assms(3) by (auto simp: s1_def intro: set_plans_step)
  define new where "new = BackendItem \<lparr>bp_backend_name = bn, bp_component_models_plan = cps,
                               bp_duty_cycle = 1, bp_extra_info = ''''\<rparr>"
  have add: "policy_step B S s2 (set_items s2 a (items_at s2 a @ [new]))" for s2 a
    using assms(2) by (intro set_items_step) (auto simp: plan_within_def new_def)
  have eq: "(Inr t :: policy result) = (case (case find_first (\<lambda>a. model_at s1 a = cmodel_uuid c) refs of
        Some a \<Rightarrow> (a, s1)
      | None \<Rightarrow> (case alloc_plan s1 \<lparr>cp_model_uuid = cmodel_uuid c, cp_session_uuid = sess,
                         cp_backend_plans = []\<rparr> of
                   (a, s') \<Rightarrow> (a, set_plans s' sess (refs @ [a])))) of
      (a, s2) \<Rightarrow> Inr (set_items s2 a (items_at s2 a @ [new])))"
    using assms(1) cps
    unfolding add_scheduling_plan_def Let_def s1_def refs_def new_def by simp
  show ?thesis
  proof (cases "find_first (\<lambda>a. model_at s1 a = cmodel_uuid c) refs")
    case (Some a)
    then have "t = set_items s1 a (items_at s1 a @ [new])"
      using eq by simp
    with policy_step_trans [OF 1 add] show ?thesis by simp
  next
    case None
    define s2 where "s2 = snd (alloc_plan s1 \<lparr>cp_model_uuid = cmodel_uuid c,
                                 cp_session_uuid = sess, cp_backend_plans = []\<rparr>)"
    define s3 where "s3 = set_plans s2 sess (refs @ [next_ref s1])"
    have al: "alloc_plan s1 \<lparr>cp_model_uuid = cmodel_uuid c,
                cp_session_uuid = sess, cp_backend_plans = []\<rparr> = (next_ref s1, s2)"
      by (simp add: s2_def alloc_plan_def)
    have 2: "policy_step B S s1 s2" and new2: "plan_within B s2 (next_ref s1)"
      using alloc_plan_step [OF al] by simp_all
    have "a \<in> plan_refs s2" if "a \<in> set refs" for a
      using that dget_plan_refs [of a s1 sess]
      by (auto simp: refs_def s2_def alloc_plan_def plan_refs_def)
    then have 3: "policy_step B S s2 s3"
      using new2 assms(3) by (auto simp: s3_def intro!: set_plans_step)
    have "t = set_items s3 (next_ref s1) (items_at s3 (next_ref s1) @ [new])"
      using eq None al by (simp add: s3_def)
    with policy_step_trans [OF policy_step_trans [OF 1 2] policy_step_trans [OF 3 add]]
    show ?thesis by simp
  qed
qed

lemma take_resource_step:
  assumes "take_resource_from_backend s bn req = Inr t" "eligible s req bn"
  shows "policy_step B S s t"
  using assms
  by (auto simp: take_resource_from_backend_def eligible_def backend_gpu_mem_eq_Inr
      split: if_splits option.splits intro!: add_gpu_mem_step)

lemma deploy_cmodel_Some:
  assumes "deploy_cmodel s m sessions = Inr (Some bn, t)"
  obtains c req s1 where "map_of (cmodels_dict s) m = Some c"
    "compute_required_resource_for_atomic_model c = Inr req"
    "bn \<in> set (dkeys (current_backends_dict s))" "\<not> serves s (cmodel_uuid c) bn"
    "eligible s req bn"
    "take_resource_from_backend s bn req = Inr s1"
    "foldE (\<lambda>s sess. add_scheduling_plan s sess c bn) s1 sessions = Inr t"
proof -
  from assms obtain c req bns s1 where *: "map_of (cmodels_dict s) m = Some c"
    "compute_required_resource_for_atomic_model c = Inr req"
    "find_potential_backends s c req = Inr bns"
    "find_best_backend s bns req = Inr (Some bn)"
    "take_resource_from_backend s bn req = Inr s1"
    "foldE (\<lambda>s sess. add_scheduling_plan s sess c bn) s1 sessions = Inr t"
    by (auto simp: deploy_cmodel_def result_simps split: if_splits option.splits)
  from find_best_backend_in [OF *(4)] find_potential_backends_eq [OF *(3)]
  have "bn \<in> set (dkeys (current_backends_dict s))" "\<not> serves s (cmodel_uuid c) bn"
    "eligible s req bn"
    by auto
  with * show ?thesis by (intro that) auto
qed

lemma deploy_cmodel_None:
  "deploy_cmodel s m sessions = Inr (None, t) \<Longrightarrow> t = s"
  by (auto simp: deploy_cmodel_def result_simps split: if_splits option.splits)

lemma deploy_cmodel_step:
  assumes "deploy_cmodel s m sessions = Inr (best, t)"
    and "set (dkeys (current_backends_dict s)) \<subseteq> B" "set sessions \<subseteq> S"
  shows "policy_step B S s t"
proof (cases best)
  case None
  with assms(1) show ?thesis by (auto dest: deploy_cmodel_None)
next
  case (Some bn)
  with assms(1) obtain c req s1 where *: "bn \<in> set (dkeys (current_backends_dict s))"
    "eligible s req bn" "take_resource_from_backend s bn req = Inr s1"
    "foldE (\<lambda>s sess. add_scheduling_plan s sess c bn) s1 sessions = Inr t"
    by (auto elim: deploy_cmodel_Some)
  have "policy_step B S s1 t"
    using *(4) by (rule foldE_policy_step) (use * assms in \<open>auto intro: add_scheduling_plan_step\<close>)
  with take_resource_step [OF *(3,2)] show ?thesis by (rule policy_step_trans)
qed

lemma remove_cmodel_from_session_step:
  assumes "remove_cmodel_from_session c bn gen (s, found, rm) sess = Inr (t, found', rm')"
  shows "policy_step B S s t"
proof -
  from assms obtain refs where refs: "map_of (scheduling_plans_dict s) sess = Some refs"
    by (auto simp: remove_cmodel_from_session_def result_simps)
  show ?thesis
  proof (cases "find_first (\<lambda>a. cmodel_uuid c = model_at s a) refs")
    case None
    with assms refs show ?thesis
      by (auto simp: remove_cmodel_from_session_def dlookup_def)
  next
    case (Some a)
    define f where "f = (\<lambda>(new, found, u) it. bindE (item_backend_name it) (\<lambda>n.
             if n \<noteq> bn then Inr (new @ [it], found, u)
             else Inr (new, True,
                       if gen \<and> sess \<notin> set (dkeys u)
                       then AList.update sess [unscheduling_plan (cmodel_uuid c) sess n] u
                       else u)))"
    obtain new fd u where new: "foldE f ([], found, unscheduling_plans_dict s) (items_at s a) =
        Inr (new, fd, u)"
      and t: "t = (if new \<noteq> [] then set_items (s\<lparr>unscheduling_plans_dict := u\<rparr>) a new
                   else set_plans (set_items (s\<lparr>unscheduling_plans_dict := u\<rparr>) a
                     (map StrayItem (filter (\<lambda>b. model_at s b \<noteq> model_at s a) refs))) sess [])"
      using assms refs Some
      by (auto simp: remove_cmodel_from_session_def dlookup_def f_def bindE_eq_Inr Let_def
          split: if_splits)
    have "set (fst (new, fd, u)) \<subseteq> set (items_at s a)"
      using new by (rule foldE_invariant) (fastforce simp: f_def result_simps split: if_splits)+
    then have "items_names new \<subseteq> items_names (items_at s a)"
      by (simp add: items_names_mono)
    then have keep: "policy_step B S (s\<lparr>unscheduling_plans_dict := u\<rparr>)
        (set_items (s\<lparr>unscheduling_plans_dict := u\<rparr>) a new)"
      by (intro set_items_step) (auto simp: plan_within_def)
    have stray: "policy_step B S (s\<lparr>unscheduling_plans_dict := u\<rparr>)
        (set_items (s\<lparr>unscheduling_plans_dict := u\<rparr>) a (map StrayItem as))" for as
      by (intro set_items_step) auto
    have wipe: "policy_step B S v (set_plans v sess [])" 
      if "scheduling_plans_dict v = scheduling_plans_dict s" for v
      using that refs by (intro set_plans_step) (auto simp: in_dkeys_iff)
    have "policy_step B S (s\<lparr>unscheduling_plans_dict := u\<rparr>) t"
    proof (cases "new = []")
      case True
      have "scheduling_plans_dict (set_items (s\<lparr>unscheduling_plans_dict := u\<rparr>) a its) =
          scheduling_plans_dict s" for its
        by (simp add: set_items_def)
      from policy_step_trans [OF stray wipe [OF this]] True show ?thesis by (simp add: t)
    next
      case False
      with keep show ?thesis by (simp add: t)
    qed
    with unscheduling_step show ?thesis by (rule policy_step_trans)
  qed
qed

lemma foldl_delete_step:
  "policy_step B S s (s\<lparr>scheduling_plans_dict :=
     foldl (\<lambda>d sess. AList.delete sess d) (scheduling_plans_dict s) rm\<rparr>)"
proof (induction rm rule: rev_induct)
  case (snoc x rm)
  from policy_step_trans [OF snoc delete_session_step [of B S _ x]] show ?case by simp
qed simp

lemma remove_cmodel_from_backend_step:
  assumes "remove_cmodel_from_backend s c bn gen = Inr t"
  shows "policy_step B S s t"
proof -
  from assms obtain s1 found rm where
    1: "foldE (remove_cmodel_from_session c bn gen) (s, False, []) (dkeys (scheduling_plans_dict s))
        = Inr (s1, found, rm)"
    and t: "(if found then bindE (compute_required_resource_for_atomic_model c)
        (\<lambda>req. return_resource_to_backend (s1\<lparr>scheduling_plans_dict :=
           foldl (\<lambda>d sess. AList.delete sess d) (scheduling_plans_dict s1) rm\<rparr>) bn req)
      else Inr (s1\<lparr>scheduling_plans_dict :=
           foldl (\<lambda>d sess. AList.delete sess d) (scheduling_plans_dict s1) rm\<rparr>)) = Inr t"
    by (auto simp: remove_cmodel_from_backend_def bindE_eq_Inr Let_def)
  have "policy_step B S s s1"
    using 1 by (rule foldE_policy_step_fst) (auto dest: remove_cmodel_from_session_step)
  note s2 = policy_step_trans [OF this foldl_delete_step [of B S s1 rm]]
  show ?thesis
    using t by (auto simp: bindE_eq_Inr split: if_splits
        intro: s2 policy_step_trans [OF s2 return_resource_step])
qed

lemma remove_session_step:
  assumes "remove_session s sess = Inr t"
  shows "policy_step B S s t"
proof -
  from assms obtain u todo s1 where
    1: "foldE (\<lambda>s (c, n). remove_cmodel_from_backend s c n False)
          (s\<lparr>unscheduling_plans_dict := u\<rparr>) todo = Inr s1"
    and t: "t = s1\<lparr>scheduling_plans_dict := AList.delete sess (scheduling_plans_dict s1)\<rparr>"
    by (auto simp: remove_session_def Let_def bindE_eq_Inr)
  have "policy_step B S (s\<lparr>unscheduling_plans_dict := u\<rparr>) s1"
    using 1 by (rule foldE_policy_step) (auto dest: remove_cmodel_from_backend_step)
  from policy_step_trans [OF policy_step_trans [OF unscheduling_step this] delete_session_step]
  show ?thesis by (simp add: t)
qed

lemma remove_unused_sessions_step:
  "remove_unused_sessions s = Inr t \<Longrightarrow> policy_step B S s t"
  unfolding remove_unused_sessions_def
  by (erule foldE_policy_step) (rule remove_session_step)

lemma remove_session_keys:
  assumes "remove_session s sess = Inr t"
  shows "set (dkeys (scheduling_plans_dict t)) \<subseteq> set (dkeys (scheduling_plans_dict s)) - {sess}"
proof -
  from assms obtain s1 where "t = s1\<lparr>scheduling_plans_dict := AList.delete sess (scheduling_plans_dict s1)\<rparr>"
    by (auto simp: remove_session_def Let_def bindE_eq_Inr)
  then have "sess \<notin> set (dkeys (scheduling_plans_dict t))"
    by (simp add: dkeys_delete)
  with policy_step_fields(8) [OF remove_session_step [OF assms, of UNIV "{}"]] show ?thesis
    by auto
qed

lemma remove_unused_sessions_keys:
  assumes "remove_unused_sessions s = Inr t"
  shows "set (dkeys (scheduling_plans_dict t)) \<subseteq> set (dkeys (current_requests_dict s))"
proof -
  have "set (dkeys (scheduling_plans_dict t)) \<subseteq> set (dkeys (scheduling_plans_dict s)) - set xs"
    if "foldE remove_session s xs = Inr t" for s xs
    using that
  proof (induction xs arbitrary: s)
    case (Cons x xs)
    then obtain s' where "remove_session s x = Inr s'" "foldE remove_session s' xs = Inr t"
      by (auto simp: bindE_eq_Inr)
    with Cons.IH [of s'] remove_session_keys [of s x s'] show ?case by auto
  qed simp
  from this [of s] assms show ?thesis
    by (force simp: remove_unused_sessions_def compute_unused_session_uuids_def)
qed

lemma remove_unused_pipelines_step:
  assumes "remove_unused_pipelines s = Inr t"
  shows "policy_step B S s t"
proof -
  from assms obtain ms s1 d where
    1: "foldE (\<lambda>s (m, sessions). bindE (backends_of_cmodel s m sessions) (\<lambda>bns.
               foldE (\<lambda>s bn. bindE (dlookup (cmodels_dict s) m) (\<lambda>c.
                   bindE (dlookup (current_backends_dict s) bn) (\<lambda>_.
                     remove_cmodel_from_backend s c bn True)))
                 s bns))
               s (sessions_of_cmodels s ms) = Inr s1"
    and t: "t = s1\<lparr>last_requests_dict := d\<rparr>"
    unfolding remove_unused_pipelines_def Let_def bindE_eq_Inr by auto
  have "policy_step B S s s1"
    using 1
  proof (rule foldE_policy_step)
    fix s' x t'
    assume "(case x of (m, sessions) \<Rightarrow> bindE (backends_of_cmodel s' m sessions) (\<lambda>bns.
               foldE (\<lambda>s bn. bindE (dlookup (cmodels_dict s) m) (\<lambda>c.
                   bindE (dlookup (current_backends_dict s) bn) (\<lambda>_.
                     remove_cmodel_from_backend s c bn True))) s' bns)) = Inr t'"
    then show "policy_step B S s' t'"
      by (cases x) (auto simp: bindE_eq_Inr intro: remove_cmodel_from_backend_step
          elim!: foldE_policy_step)
  qed
  from policy_step_trans [OF this last_requests_step] show ?thesis by (simp add: t)
qed

lemma plans_of_model_refs: "a \<in> set (plans_of_model s m) \<Longrightarrow> a \<in> plan_refs s"
  by (force simp: plans_of_model_def plan_refs_def)

definition shared_within :: "string set \<Rightarrow> policy \<Rightarrow> (string, nat list) dict \<Rightarrow> bool" where
  "shared_within B s ex \<longleftrightarrow> (\<forall>p \<in> set ex. \<forall>a \<in> set (snd p). plan_within B s a)"

lemma shared_within_step: "policy_step B S s t \<Longrightarrow> shared_within B s ex \<Longrightarrow> shared_within B t ex"
  by (auto simp: shared_within_def policy_step_def)

lemma shared_within_dappend:
  assumes "shared_within B s ex" "plan_within B s a"
  shows "shared_within B s (dappend ex m a)"
proof -
  have "\<forall>b \<in> set (dget ex m [] @ [a]). plan_within B s b"
    using assms
    by (auto simp: dget_def shared_within_def split: option.splits dest!: map_of_SomeD [OF sym])
  with assms(1) set_update_subset [of m "dget ex m [] @ [a]" ex] show ?thesis
    by (fastforce simp: shared_within_def dappend_def)
qed

lemma deploy_models_step:
  assumes "deploy_models s sessions ex info cs = Inr (dep, t, ex', info')"
    and "set (dkeys (current_backends_dict s)) \<subseteq> B" "set sessions \<subseteq> S"
    and "plans_within B s" "shared_within B s ex"
  shows "policy_step B S s t \<and> shared_within B t ex'"
  using assms
proof (induction s sessions ex info cs rule: deploy_models.induct)
  case (1 s sessions ex info)
  then show ?case by auto
next
  case (2 s sessions ex info c cs)
  show ?case
  proof (cases "plans_of_model s (cmodel_uuid c)")
    case (Cons a as)
    have "plan_within B s b" if "b \<in> set (a # as)" for b
      using that Cons plans_of_model_refs [of b s "cmodel_uuid c"] 2(6)
      by (auto simp: plans_within_def)
    then have "shared_within B s (foldl (\<lambda>d a. dappend d (cmodel_uuid c) a) ex (a # as))"
      using 2(7)
      by (intro foldl_invariant [where P = "shared_within B s"]) (auto intro: shared_within_dappend)
    with 2(2) [OF Cons] 2(3-7) Cons show ?thesis by simp
  next
    case Nil
    with 2(3) obtain best s' where d: "deploy_cmodel s (cmodel_uuid c) sessions = Inr (best, s')"
      by (auto simp: bindE_eq_Inr)
    have st: "policy_step B S s s'" using deploy_cmodel_step [OF d 2(4,5)] .
    show ?thesis
    proof (cases best)
      case None
      with 2(3,7) Nil d st show ?thesis by (auto intro: shared_within_step)
    next
      case (Some bn)
      with 2(3) Nil d have "deploy_models s' sessions ex (info @ [(c, bn)]) cs = Inr (dep, t, ex', info')"
        by simp
      from 2(1) [OF Nil d refl Some this] 2(4-7) st
      have "policy_step B S s' t \<and> shared_within B t ex'"
        by (simp add: policy_step_fields [OF st] policy_step_within [OF st] shared_within_step [OF st])
      with st show ?thesis by (auto intro: policy_step_trans)
    qed
  qed
qed

lemma share_plans_step:
  assumes "shared_within B s ex" "set sessions \<subseteq> S"
  shows "policy_step B S s (share_plans s sessions ex)"
proof -
  define g where "g = (\<lambda>sess s a. s\<lparr>scheduling_plans_dict :=
      dappend (scheduling_plans_dict s) sess (a :: nat)\<rparr> :: policy)"
  have plan: "policy_step B S s (g sess s' a)"
    if "policy_step B S s s'" "plan_within B s a" "sess \<in> S" for s' sess a
    using that dappend_plan_step [of a s' B sess S]
    by (auto simp: g_def policy_step_def intro: policy_step_trans)
  have sess: "policy_step B S s (foldl (\<lambda>s (m, as). foldl (g x) s as) s' ex)"
    if "policy_step B S s s'" "x \<in> S" for s' x
    using that(1)
  proof (rule foldl_invariant [where P = "policy_step B S s"])
    fix s1 p assume "p \<in> set ex" "policy_step B S s s1"
    with that(2) assms(1) show "policy_step B S s (case p of (m, as) \<Rightarrow> foldl (g x) s1 as)"
      by (cases p) (auto simp: shared_within_def
          intro!: foldl_invariant [where P = "policy_step B S s"] plan)
  qed
  have eq: "share_plans s sessions ex =
      foldl (\<lambda>s x. foldl (\<lambda>s (m, as). foldl (g x) s as) s ex) s sessions"
    by (simp add: share_plans_def g_def)
  show ?thesis
    unfolding eq by (rule foldl_invariant) (use sess assms(2) in auto)
qed

lemma deploy_new_pipeline_step:
  assumes "deploy_new_pipeline s p = Inr t"
    and "set (dkeys (current_backends_dict s)) \<subseteq> B" "plans_within B s"
  shows "policy_step B (set (dkeys (current_requests_dict s))) s t"
proof -
  define sessions where "sessions = map fst
    (filter (\<lambda>(sess, r). request_pipeline r = p) (current_requests_dict s))"
  let ?S = "set (dkeys (current_requests_dict s))"
  have ses: "set sessions \<subseteq> ?S" by (auto simp: sessions_def dkeys_def)
  from assms(1) obtain info :: nxs_pipeline_info and dep s1 ex done_list where
    1: "deploy_models s sessions [] [] (pi_models info) = Inr (dep, s1, ex, done_list)"
    and t: "(if dep then Inr (share_plans s1 sessions ex)
             else foldE (\<lambda>s (c, bn). remove_cmodel_from_backend s c bn False) s1 done_list) = Inr t"
    by (auto simp: deploy_new_pipeline_def Let_def bindE_eq_Inr sessions_def [symmetric]
        split del: if_split)
  have 2: "policy_step B ?S s s1" "shared_within B s1 ex"
    using deploy_models_step [OF 1 assms(2) ses assms(3)] by (auto simp: shared_within_def)
  have "policy_step B ?S s1 t"
  proof (cases dep)
    case True
    with t share_plans_step [OF 2(2) ses] show ?thesis by simp
  next
    case False
    with t have "foldE (\<lambda>s (c, bn). remove_cmodel_from_backend s c bn False) s1 done_list = Inr t"
      by simp
    then show ?thesis
      by (rule foldE_policy_step) (auto dest: remove_cmodel_from_backend_step)
  qed
  with 2(1) show ?thesis by (rule policy_step_trans)
qed

lemma deploy_new_pipelines_step:
  assumes "deploy_new_pipelines s = Inr t"
    and "set (dkeys (current_backends_dict s)) \<subseteq> B" "plans_within B s"
  shows "policy_step B (set (dkeys (current_requests_dict s))) s t"
  using assms(1) unfolding deploy_new_pipelines_def
proof (rule foldE_policy_step)
  fix s' p t'
  assume st: "policy_step B (set (dkeys (current_requests_dict s))) s s'"
    and "deploy_new_pipeline s' p = Inr t'"
  then show "policy_step B (set (dkeys (current_requests_dict s))) s' t'"
    using deploy_new_pipeline_step [of s' p t' B] assms(2,3) policy_step_within [OF st]
    by (simp add: policy_step_fields [OF st])
qed

lemma dget_subset: "x \<in> set (dget d k []) \<Longrightarrow> \<exists>p \<in> set d. x \<in> set (snd p)"
  by (force simp: dget_def split: option.splits dest: map_of_SomeD [OF sym])

definition collected_within :: "string set \<Rightarrow> (string, (string \<times> plan_item) list) dict \<Rightarrow> bool" where
  "collected_within B d \<longleftrightarrow> (\<forall>p \<in> set d. \<forall>q \<in> set (snd p). item_names (snd q) \<subseteq> B)"

lemma collected_within_update:
  "collected_within B d \<Longrightarrow> (\<And>q. q \<in> set qs \<Longrightarrow> item_names (snd q) \<subseteq> B) \<Longrightarrow>
     collected_within B (AList.update m qs d)"
  using set_update_subset [of m qs d] by (fastforce simp: collected_within_def)

lemma collected_within_dappend:
  "collected_within B d \<Longrightarrow> item_names (snd q) \<subseteq> B \<Longrightarrow> collected_within B (dappend d m q)"
  unfolding dappend_def
  by (rule collected_within_update) (fastforce simp: collected_within_def dest: dget_subset)+

lemma collect_backend_plans_within:
  assumes "collect_backend_plans s sess cms = Inr d" "plans_within B s"
  shows "collected_within B d"
proof -
  define item where "item = (\<lambda>a d it. bindE (item_backend_name it) (\<lambda>n.
                    Inr (if n \<in> set (map fst (dget d (model_at s a) [])) then d
                         else dappend d (model_at s a) (n, it))) ::
      (string, (string \<times> plan_item) list) dict result)"
  have item: "collected_within B d'"
    if "a \<in> plan_refs s" "it \<in> set (items_at s a)" "collected_within B d" "item a d it = Inr d'"
    for a d it d'
  proof -
    have "item_names it \<subseteq> B"
      using that(1,2) assms(2)
      by (fastforce simp: plans_within_def plan_within_def items_names_def)
    then show ?thesis
      using that(3,4) by (auto simp: item_def result_simps intro!: collected_within_dappend split: if_splits)
  qed
  define plan where "plan = (\<lambda>c d a. if model_at s a \<noteq> cmodel_uuid c then Inr d
             else foldE (item a) (if model_at s a \<in> set (dkeys d) then d
                                  else AList.update (model_at s a) [] d) (items_at s a))"
  have plan: "collected_within B d'"
    if "a \<in> plan_refs s" "collected_within B d" "plan c d a = Inr d'" for c a d d'
  proof (cases "model_at s a = cmodel_uuid c")
    case True
    with that(3) have f: "foldE (item a) (if model_at s a \<in> set (dkeys d) then d
        else AList.update (model_at s a) [] d) (items_at s a) = Inr d'"
      by (simp add: plan_def)
    show ?thesis
      using f by (rule foldE_invariant [where P = "collected_within B"])
        (use that item in \<open>auto intro: collected_within_update\<close>)
  next
    case False
    with that show ?thesis by (simp add: plan_def)
  qed
  define other where "other = (\<lambda>c d (other, refs). if other = sess then Inr d
                                  else foldE (plan c) d refs)"
  have other: "collected_within B d'"
    if "p \<in> set (scheduling_plans_dict s)" "collected_within B d" "other c d p = Inr d'" for c p d d'
  proof (cases "fst p = sess")
    case False
    with that(3) have f: "foldE (plan c) d (snd p) = Inr d'"
      by (cases p) (simp add: other_def)
    have "a \<in> plan_refs s" if "a \<in> set (snd p)" for a
      using that \<open>p \<in> _\<close> by (auto simp: plan_refs_def)
    then show ?thesis
      using f plan that(2) by (blast intro: foldE_invariant [where P = "collected_within B"])
  next
    case True
    with that(2,3) show ?thesis by (cases p) (simp add: other_def)
  qed
  have "foldE (\<lambda>d c. foldE (other c) d (scheduling_plans_dict s)) [] cms = Inr d"
    using assms(1) unfolding collect_backend_plans_def other_def plan_def item_def .
  then show ?thesis
  proof (rule foldE_invariant)
    fix d c d' assume "collected_within B d" "foldE (other c) d (scheduling_plans_dict s) = Inr d'"
    then show "collected_within B d'"
      using other by (metis (no_types, lifting) foldE_invariant [where P = "collected_within B"])
  qed (simp add: collected_within_def)
qed

lemma assign_session_step:
  assumes "assign_session s (sess, r) = Inr t" "plans_within B s" "sess \<in> S"
  shows "policy_step B S s t"
proof (cases "t = s")
  case False
  with assms(1) obtain d where d: "collect_backend_plans s sess (request_models r) = Inr d"
    and t: "t = foldl (\<lambda>s (m, plans).
           let (a, s') = alloc_plan s \<lparr>cp_model_uuid = m, cp_session_uuid = sess,
                                        cp_backend_plans = map snd plans\<rparr>
           in s'\<lparr>scheduling_plans_dict := dappend (scheduling_plans_dict s') sess a\<rparr>)
         (set_plans s sess []) d"
    by (auto simp: assign_session_def bindE_eq_Inr split: if_splits)
  have within: "collected_within B d"
    using collect_backend_plans_within [OF d assms(2)] .
  have "policy_step B S s (set_plans s sess [])"
    using assms(3) by (intro set_plans_step) auto
  then show ?thesis
    unfolding t
  proof (rule foldl_invariant)
    fix s' p assume p: "p \<in> set d" and st: "policy_step B S s s'"
    obtain a s1 where al: "alloc_plan s' \<lparr>cp_model_uuid = fst p, cp_session_uuid = sess,
        cp_backend_plans = map snd (snd p)\<rparr> = (a, s1)"
      by force
    have "items_names (map snd (snd p)) \<subseteq> B"
      using within p by (auto simp: collected_within_def items_names_def)
    then have "policy_step B S s' s1" "plan_within B s1 a"
      using alloc_plan_step [OF al] by simp_all
    then have "policy_step B S s' (s1\<lparr>scheduling_plans_dict :=
        dappend (scheduling_plans_dict s1) sess a\<rparr>)"
      using assms(3) by (auto intro: policy_step_trans dappend_plan_step)
    with st al show "policy_step B S s (case p of (m, plans) \<Rightarrow>
        let (a, s') = alloc_plan s' \<lparr>cp_model_uuid = m, cp_session_uuid = sess,
                                      cp_backend_plans = map snd plans\<rparr>
        in s'\<lparr>scheduling_plans_dict := dappend (scheduling_plans_dict s') sess a\<rparr>)"
      by (cases p) (auto intro: policy_step_trans)
  qed
qed simp

lemma assign_backends_step:
  assumes "assign_backends_to_unscheduled_sessions s = Inr t" "plans_within B s"
  shows "policy_step B (set (dkeys (current_requests_dict s))) s t"
  using assms(1) unfolding assign_backends_to_unscheduled_sessions_def
proof (rule foldE_policy_step)
  fix s' p t'
  assume "p \<in> set (current_requests_dict s)" "assign_session s' p = Inr t'"
    and st: "policy_step B (set (dkeys (current_requests_dict s))) s s'"
  then show "policy_step B (set (dkeys (current_requests_dict s))) s' t'"
    using assign_session_step [of s' "fst p" "snd p" t' B] policy_step_within [OF st assms(2)]
    by (cases p) (auto simp: dkeys_def intro: image_eqI)
qed

subsection \<open>Scaling\<close>

lemma scale_down_step: "scale_down s m n = Inr t \<Longrightarrow> policy_step B S s t"
proof (induction s m n rule: scale_down.induct)
  case (2 s m n)
  then obtain bns where bns: "model_backends s m = Inr bns"
    by (auto simp: bindE_eq_Inr)
  show ?case
  proof (cases bns)
    case (Cons bn rest)
    with 2 bns show ?thesis
      by (auto simp: bindE_eq_Inr intro: policy_step_trans remove_cmodel_from_backend_step)
  qed (use 2 bns in auto)
qed auto

lemma scale_up_step:
  "scale_up s m sessions n = Inr t \<Longrightarrow> set (dkeys (current_backends_dict s)) \<subseteq> B \<Longrightarrow>
     set sessions \<subseteq> S \<Longrightarrow> policy_step B S s t"
proof (induction s m sessions n rule: scale_up.induct)
  case (2 s m sessions n)
  then obtain best s' where d: "deploy_cmodel s m sessions = Inr (best, s')"
    by (auto simp: bindE_eq_Inr)
  have st: "policy_step B S s s'" using d 2(3,4) by (rule deploy_cmodel_step)
  show ?case
  proof (cases best)
    case None
    with 2(2) d st show ?thesis by simp
  next
    case (Some bn)
    have "policy_step B S s' t"
      by (rule 2(1) [OF d refl Some]) (use 2(2-4) d Some policy_step_fields [OF st] in auto)
    with st show ?thesis by (rule policy_step_trans)
  qed
qed auto

definition scanned_within :: "string set \<Rightarrow> scaling \<Rightarrow> bool" where
  "scanned_within K d \<longleftrightarrow> (\<forall>p \<in> set (sc_sessions d). set (snd p) \<subseteq> K)"

lemma scan_plan_sessions:
  assumes "scan_plan s sess d a = Inr d'"
  shows "sc_sessions d' = AList.update (model_at s a)
           (add_new (dget (sc_sessions d) (model_at s a) []) sess) (sc_sessions d)"
proof -
  define c_step where "c_step = (\<lambda>fps d it. bindE (item_backend_name it) (\<lambda>n.
               let key = join_key (model_at s a) n in
               Inr (if key \<in> set (sc_counted d) then d
                    else d\<lparr>sc_counted := sc_counted d @ [key],
                           sc_scheduled := dict_add (sc_scheduled d) (model_at s a) fps\<rparr>)) ::
      scaling result)"
  from assms obtain d1 fps where d1: "sc_sessions d1 = AList.update (model_at s a)
      (add_new (dget (sc_sessions d) (model_at s a) []) sess) (sc_sessions d)"
    and f: "foldE (c_step fps) d1 (items_at s a) = Inr d'"
    unfolding scan_plan_def Let_def bindE_eq_Inr c_step_def by force
  from f have "sc_sessions d' = sc_sessions d1"
    by (rule foldE_invariant) (auto simp: c_step_def result_simps Let_def)
  with d1 show ?thesis by simp
qed

lemma scan_plan_within:
  assumes "scan_plan s sess d a = Inr d'" "scanned_within K d" "sess \<in> K"
  shows "scanned_within K d'"
proof -
  have "set (add_new (dget (sc_sessions d) (model_at s a) []) sess) \<subseteq> K"
    using assms(2,3) dget_subset [of _ "sc_sessions d" "model_at s a"]
    by (auto simp: add_new_def scanned_within_def) blast+
  then show ?thesis
    using assms(2) set_update_subset [of "model_at s a" _ "sc_sessions d"]
    unfolding scanned_within_def scan_plan_sessions [OF assms(1)] by fastforce
qed

lemma scan_plans_within:
  assumes "scan_plans s = Inr d"
  shows "scanned_within (set (dkeys (scheduling_plans_dict s))) d"
  using assms unfolding scan_plans_def
proof (rule foldE_invariant)
  let ?K = "set (dkeys (scheduling_plans_dict s))"
  fix d p d' assume "p \<in> set (scheduling_plans_dict s)" "scanned_within ?K d"
    and f: "(case p of (sess, refs) \<Rightarrow> foldE (scan_plan s sess) d refs) = Inr d'"
  moreover have "foldE (scan_plan s (fst p)) d (snd p) = Inr d'"
    using f by (cases p) simp
  moreover have "fst p \<in> ?K"
    using \<open>p \<in> _\<close> by (auto simp: dkeys_def)
  ultimately show "scanned_within ?K d'"
    by (blast intro: foldE_invariant [where P = "scanned_within ?K"] scan_plan_within)
qed (simp add: scanned_within_def)

lemma scale_model_step:
  assumes "scale_model d s mr = Inr t" "set (dkeys (current_backends_dict s)) \<subseteq> B"
    "scanned_within S d"
  shows "policy_step B S s t"
proof -
  have sub: "set refs \<subseteq> S" if "map_of (sc_sessions d) m = Some refs" for m refs
    using that assms(3) by (fastforce simp: scanned_within_def dest: map_of_SomeD)
  show ?thesis
    using assms(1)
    by (cases mr) (auto simp: scale_model_def result_simps Let_def split: if_splits
        intro: scale_down_step scale_up_step [OF _ assms(2) sub])
qed

lemma scale_sessions_step:
  assumes "scale_sessions s = Inr t" "set (dkeys (current_backends_dict s)) \<subseteq> B"
  shows "policy_step B (set (dkeys (scheduling_plans_dict s))) s t"
proof -
  from assms(1) obtain d where d: "scan_plans s = Inr d"
    and f: "foldE (scale_model d) s (requesting_fps s) = Inr t"
    by (auto simp: scale_sessions_def bindE_eq_Inr)
  note within = scan_plans_within [OF d]
  show ?thesis
    using f
  proof (rule foldE_policy_step)
    fix s' x t'
    assume st: "policy_step B (set (dkeys (scheduling_plans_dict s))) s s'"
      and m: "scale_model d s' x = Inr t'"
    from m show "policy_step B (set (dkeys (scheduling_plans_dict s))) s' t'"
      by (rule scale_model_step) (use within assms(2) policy_step_fields [OF st] in auto)
  qed
qed

subsection \<open>Backends that disappeared\<close>

lemma expire_items_eq:
  assumes "expire_items s E sess a = Inr (its, u)"
  shows "its = filter (\<lambda>it. item_names it \<inter> set E = {}) (items_at s a)"
proof -
  define f where "f = (\<lambda>(new, u) it. bindE (item_backend_name it) (\<lambda>n.
         if n \<notin> set E then Inr (new @ [it], u)
         else bindE (stale_backend_name s) (\<lambda>bn.
                Inr (new, dappend u sess (unscheduling_plan (model_at s a) sess bn)))))"
  have "fst r = fst z @ filter (\<lambda>it. item_names it \<inter> set E = {}) xs"
    if "foldE f z xs = Inr r" for z xs r
    using that
  proof (induction xs arbitrary: z)
    case (Cons x xs)
    then obtain z' where z': "f z x = Inr z'" "foldE f z' xs = Inr r"
      by (auto simp: result_simps)
    have "fst z' = fst z @ filter (\<lambda>it. item_names it \<inter> set E = {}) [x]"
      using z'(1) by (cases z) (auto simp: f_def result_simps split: if_splits)
    with Cons.IH [OF z'(2)] show ?case by simp
  qed simp
  from this [of "([], unscheduling_plans_dict s)"] assms show ?thesis
    by (fastforce simp: expire_items_def f_def)
qed

text \<open>One session: its plans are filtered, and those left without backends are dropped.\<close>

lemma expire_session_step:
  assumes "expire_session E (s, rm) sess = Inr (t, rm')" "plans_within UNIV s"
  obtains refs where "\<And>B. policy_step B S s t"
    "scheduling_plans_dict t = AList.update sess refs (scheduling_plans_dict s)"
    "sess \<in> set (dkeys (scheduling_plans_dict s))"
    "\<And>a. a \<in> set refs \<Longrightarrow> plan_within (- set E) t a"
    "rm' = (if refs = [] then rm @ [sess] else rm)"
proof -
  define f where "f = (\<lambda>(s, new_refs) a. bindE (expire_items s E sess a) (\<lambda>(its, u).
               Inr (set_items (s\<lparr>unscheduling_plans_dict := u\<rparr>) a its,
                    if its \<noteq> [] then new_refs @ [a] else new_refs)))"
  from assms(1) obtain refs s1 new_refs where
    refs: "map_of (scheduling_plans_dict s) sess = Some refs"
    and f: "foldE f (s, []) refs = Inr (s1, new_refs)"
    and t: "t = set_plans s1 sess new_refs" "rm' = (if new_refs = [] then rm @ [sess] else rm)"
    by (auto simp: expire_session_def f_def result_simps)
  define P where "P = (\<lambda>(s', ns). (\<forall>B. policy_step B S s s') \<and>
      scheduling_plans_dict s' = scheduling_plans_dict s \<and> set ns \<subseteq> set refs \<and>
      (\<forall>a \<in> set ns. plan_within (- set E) s' a))"
  have "P (s1, new_refs)"
    using f
  proof (rule foldE_invariant)
    fix z a z' assume a: "a \<in> set refs" and z: "P z" "f z a = Inr z'"
    obtain s' ns where [simp]: "z = (s', ns)" by (cases z)
    from z(2) obtain its u where its: "expire_items s' E sess a = Inr (its, u)"
      and z': "z' = (set_items (s'\<lparr>unscheduling_plans_dict := u\<rparr>) a its,
                 if its \<noteq> [] then ns @ [a] else ns)"
      by (auto simp: f_def bindE_eq_Inr)
    let ?t = "set_items (s'\<lparr>unscheduling_plans_dict := u\<rparr>) a its"
    have eq: "its = filter (\<lambda>it. item_names it \<inter> set E = {}) (items_at s' a)"
      using expire_items_eq [OF its] .
    have "items_names its \<subseteq> items_names (items_at s' a)"
      unfolding eq by (intro items_names_mono) auto
    then have "policy_step C S (s'\<lparr>unscheduling_plans_dict := u\<rparr>) ?t" for C
      by (intro set_items_step) (auto simp: plan_within_def)
    then have step: "policy_step C S s' ?t" for C
      using policy_step_trans [OF unscheduling_step] by blast
    have "a < next_ref s"
      using assms(2) map_of_plan_refs [OF refs a] by (simp add: plans_within_def plan_within_def)
    then have "a < next_ref s'"
      using z(1) by (auto simp: P_def policy_step_def)
    then have "plan_within (- set E) ?t a"
      by (auto simp: plan_within_def set_items_def eq items_names_def)
    moreover have "plan_within (- set E) ?t b" if "b \<in> set ns" for b
      using that z(1) step [of "- set E"] by (auto simp: P_def policy_step_def)
    moreover have "scheduling_plans_dict ?t = scheduling_plans_dict s'"
      by (simp add: set_items_def)
    ultimately show "P z'"
      using z(1) a step by (auto simp: P_def z' intro: policy_step_trans)
  qed (simp add: P_def)
  then have P: "\<And>B. policy_step B S s s1" "scheduling_plans_dict s1 = scheduling_plans_dict s"
    "set new_refs \<subseteq> set refs" "\<And>a. a \<in> set new_refs \<Longrightarrow> plan_within (- set E) s1 a"
    by (auto simp: P_def)
  have "policy_step B S s1 t" for B
    unfolding t using P(2,3) refs
    by (intro set_plans_step) (auto simp: in_dkeys_iff intro: map_of_plan_refs)
  then have step: "policy_step B S s t" for B
    using P(1) by (blast intro: policy_step_trans)
  show ?thesis
    by (rule that [of new_refs])
      (use step P t refs in \<open>auto simp: set_plans_def plan_within_def in_dkeys_iff\<close>)
qed

lemma pop_sessions_step:
  assumes "foldE (\<lambda>s sess. bindE (dpop (scheduling_plans_dict s) sess)
                   (\<lambda>d. Inr (s\<lparr>scheduling_plans_dict := d\<rparr>))) s rm = Inr t"
  shows "policy_step B S s t \<and> plan_heap t = plan_heap s \<and> next_ref t = next_ref s \<and>
     scheduling_plans_dict t =
       filter (\<lambda>p. fst p \<notin> set rm) (scheduling_plans_dict s)"
  using assms
proof (induction rm arbitrary: s)
  case (Cons x rm)
  let ?s = "s\<lparr>scheduling_plans_dict := AList.delete x (scheduling_plans_dict s)\<rparr>"
  from Cons.prems have "foldE (\<lambda>s sess. bindE (dpop (scheduling_plans_dict s) sess)
                   (\<lambda>d. Inr (s\<lparr>scheduling_plans_dict := d\<rparr>))) ?s rm = Inr t"
    by (cases "map_of (scheduling_plans_dict s) x") (simp_all add: dpop_def dlookup_def)
  from Cons.IH [OF this] have IH: "policy_step B S ?s t" "plan_heap t = plan_heap s" "next_ref t = next_ref s"
    "scheduling_plans_dict t =
       filter (\<lambda>p. fst p \<notin> set rm) (AList.delete x (scheduling_plans_dict s))"
    by simp_all
  have "AList.delete x d = filter (\<lambda>p. fst p \<noteq> x) d" for d :: "(string, nat list) dict"
    by (induction d) auto
  then have "scheduling_plans_dict t =
      filter (\<lambda>p. fst p \<notin> set (x # rm)) (scheduling_plans_dict s)"
    by (simp add: IH(4) conj_commute)
  with IH(2,3) policy_step_trans [OF delete_session_step IH(1)] show ?case by blast
qed simp

lemma remove_expired_backends_facts:
  assumes "remove_expired_backends s = Inr t" "dict_ok (scheduling_plans_dict s)"
    "plans_within UNIV s"
  shows "policy_step B S s t" "plans_within (- set (expired_backend_names s)) t"
    "\<forall>p \<in> set (scheduling_plans_dict t). snd p \<noteq> []"
proof -
  let ?E = "expired_backend_names s"
  from assms(1) obtain s1 rm where
    f: "foldE (expire_session ?E) (s, []) (dkeys (scheduling_plans_dict s)) = Inr (s1, rm)"
    and pop: "foldE (\<lambda>s sess. bindE (dpop (scheduling_plans_dict s) sess)
                   (\<lambda>d. Inr (s\<lparr>scheduling_plans_dict := d\<rparr>))) s1 rm = Inr t"
    by (auto simp: remove_expired_backends_def bindE_eq_Inr)
  define P where "P = (\<lambda>K (s', rm'). (\<forall>B. policy_step B S s s') \<and>
      dkeys (scheduling_plans_dict s') = dkeys (scheduling_plans_dict s) \<and>
      (\<forall>sess \<in> K. \<forall>refs. map_of (scheduling_plans_dict s') sess = Some refs \<longrightarrow>
         (refs = [] \<longrightarrow> sess \<in> set rm') \<and> (\<forall>a \<in> set refs. plan_within (- set ?E) s' a)))"
  have step: "P (insert sess K) z'" if z: "P K z" "expire_session ?E z sess = Inr z'" for K z sess z'
  proof -
    obtain s' rm' t' rm'' where [simp]: "z = (s', rm')" "z' = (t', rm'')"
      by (cases z; cases z')
    have fresh: "plans_within UNIV s'"
      using z(1) assms(3) policy_step_within [of UNIV S s s'] by (simp add: P_def)
    obtain refs where r: "\<And>B. policy_step B S s' t'"
      "scheduling_plans_dict t' = AList.update sess refs (scheduling_plans_dict s')"
      "sess \<in> set (dkeys (scheduling_plans_dict s'))"
      "\<And>a. a \<in> set refs \<Longrightarrow> plan_within (- set ?E) t' a"
      "rm'' = (if refs = [] then rm' @ [sess] else rm')"
      using expire_session_step [of ?E s' rm' sess t' rm'' S] z(2) fresh by auto
    have keep: "plan_within (- set ?E) s' a \<Longrightarrow> plan_within (- set ?E) t' a" for a
      using r(1) [of "- set ?E"] by (auto simp: policy_step_def)
    have "dkeys (scheduling_plans_dict t') = dkeys (scheduling_plans_dict s)"
      using z(1) r(2,3) by (simp add: P_def dkeys_update)
    moreover have "policy_step B S s t'" for B
      using z(1) r(1) by (auto simp: P_def intro: policy_step_trans)
    moreover have "(refs' = [] \<longrightarrow> x \<in> set rm'') \<and> (\<forall>a \<in> set refs'. plan_within (- set ?E) t' a)"
      if "x \<in> insert sess K" "map_of (scheduling_plans_dict t') x = Some refs'" for x refs'
      using that z(1) r(4,5) keep by (auto simp: r(2) map_of_update P_def split: if_splits)
    ultimately show ?thesis by (auto simp: P_def)
  qed
  have all: "P (K \<union> set ks) r" if "foldE (expire_session ?E) z ks = Inr r" "P K z" for z ks r K
    using that
  proof (induction ks arbitrary: z K)
    case (Cons k ks)
    then obtain z' where z': "expire_session ?E z k = Inr z'" "foldE (expire_session ?E) z' ks = Inr r"
      by (auto simp: result_simps)
    from Cons.IH [OF z'(2) step [OF Cons.prems(2) z'(1)]] show ?case by simp
  qed simp
  have "P {} (s, [])" by (simp add: P_def)
  from all [OF f this] have Pr: "P (set (dkeys (scheduling_plans_dict s1))) (s1, rm)"
    by (auto simp: P_def)
  then have P: "policy_step B S s s1"
    "dkeys (scheduling_plans_dict s1) = dkeys (scheduling_plans_dict s)"
    by (auto simp: P_def)
  have P3: "\<And>sess refs. map_of (scheduling_plans_dict s1) sess = Some refs \<Longrightarrow>
       (refs = [] \<longrightarrow> sess \<in> set rm) \<and> (\<forall>a \<in> set refs. plan_within (- set ?E) s1 a)"
    using Pr by (auto simp: P_def set_dkeys)
  note pop' = pop_sessions_step [OF pop]
  show "policy_step B S s t" using P(1) pop' by (blast intro: policy_step_trans)
  have "dict_ok (scheduling_plans_dict s1)" using assms(2) P(2) by (simp add: dict_ok_def)
  then have mem: "map_of (scheduling_plans_dict s1) (fst p) = Some (snd p) \<and> fst p \<notin> set rm"
    if "p \<in> set (scheduling_plans_dict t)" for p
    using that pop' dict_ok_mem_iff [of "scheduling_plans_dict s1" "fst p" "snd p"] by auto
  have "plan_within (- set ?E) t a" if "p \<in> set (scheduling_plans_dict t)" "a \<in> set (snd p)" for p a
    using P3 [of "fst p" "snd p"] mem [OF that(1)] that(2) pop'
    unfolding plan_within_def by metis
  then show "plans_within (- set ?E) t"
    by (auto simp: plans_within_def plan_refs_def)
  show "\<forall>p \<in> set (scheduling_plans_dict t). snd p \<noteq> []"
    using P3 mem by metis
qed

subsection \<open>A whole round\<close>

text \<open>What holds of the policy between rounds.\<close>

definition policy_inv :: "policy \<Rightarrow> bool" where
  "policy_inv s \<longleftrightarrow>
     dict_ok (scheduling_plans_dict s) \<and>
     plans_within (set (dkeys (last_backends_dict s))) s"

lemma begin_round_fields [simp]:
  "scheduling_plans_dict (begin_round s rs bs) = scheduling_plans_dict s"
  "last_backends_dict (begin_round s rs bs) = last_backends_dict s"
  "last_requests_dict (begin_round s rs bs) = last_requests_dict s"
  "unscheduling_plans_dict (begin_round s rs bs) = []"
  "plan_heap (begin_round s rs bs) = plan_heap s"
  by (simp_all add: begin_round_def Let_def)

lemma dkeys_foldl_update:
  "set (dkeys (foldl (\<lambda>d x. AList.update (k x) (v x) d) d xs)) = set (dkeys d) \<union> k ` set xs"
  by (induction xs arbitrary: d) (auto simp: dkeys_update)

lemma begin_round_backends:
  "set (dkeys (current_backends_dict (begin_round s rs bs))) = bi_backend_name ` set bs"
  by (simp add: begin_round_def Let_def dkeys_foldl_update)

lemma begin_round_requests:
  "set (dkeys (current_requests_dict (begin_round s rs bs))) =
     (\<lambda>r. join_key (request_pipeline r) (sr_session_uuid r)) ` set rs"
  by (simp add: begin_round_def Let_def dkeys_foldl_update qualify_request_def image_image)

lemma begin_round_gpus:
  assumes "\<forall>b \<in> set bs. gpu_nonneg b"
  shows "gpus_nonneg (begin_round s rs bs)"
proof -
  have "\<forall>p \<in> set (foldl (\<lambda>d b. AList.update (bi_backend_name b) b d) [] bs). gpu_nonneg (snd p)"
    by (rule foldl_invariant) (use assms set_update_subset in \<open>fastforce+\<close>)
  then show ?thesis by (simp add: gpus_nonneg_def begin_round_def Let_def)
qed

text \<open>The six phases, as one step with the round's backends and requests.\<close>

lemma schedule_phases_facts:
  assumes "schedule_phases s = Inr t" "dict_ok (scheduling_plans_dict s)"
    and "plans_within (set (dkeys (last_backends_dict s))) s"
    and B: "B = set (dkeys (current_backends_dict s))"
  shows "plans_within B t" "dkeys (current_backends_dict t) = dkeys (current_backends_dict s)"
    "current_requests_dict t = current_requests_dict s"
    "dict_ok (scheduling_plans_dict t)" "gpus_nonneg s \<Longrightarrow> gpus_nonneg t"
    "set (dkeys (scheduling_plans_dict t)) \<subseteq> set (dkeys (current_requests_dict s))"
proof -
  let ?S = "set (dkeys (current_requests_dict s))"
  from assms(1) obtain s1 s2 s3 s4 s5 where ph:
    "remove_expired_backends s = Inr s1" "remove_unused_sessions s1 = Inr s2"
    "remove_unused_pipelines s2 = Inr s3" "deploy_new_pipelines s3 = Inr s4"
    "assign_backends_to_unscheduled_sessions s4 = Inr s5" "scale_sessions s5 = Inr t"
    by (auto simp: schedule_phases_def bindE_eq_Inr)
  have "plans_within UNIV s"
    using assms(3) by (auto simp: plans_within_def plan_within_def)
  note e = remove_expired_backends_facts [OF ph(1) assms(2) this]
  have 1: "policy_step B ?S s s1" by (rule e(1))
  have "plans_within (set (dkeys (last_backends_dict s))) s1"
    using policy_step_within [OF e(1) assms(3)] .
  with e(2) have in1: "plans_within B s1"
    unfolding B plans_within_def plan_within_def expired_backend_names_def by fastforce
  have 2: "policy_step B ?S s1 s2" by (rule remove_unused_sessions_step [OF ph(2)])
  have 3: "policy_step B ?S s2 s3" by (rule remove_unused_pipelines_step [OF ph(3)])
  note 13 = policy_step_trans [OF 1 policy_step_trans [OF 2 3]]
  note f3 = policy_step_fields [OF 13]
  have in3: "plans_within B s3"
    using policy_step_within [OF policy_step_trans [OF 2 3] in1] .
  have 4: "policy_step B ?S s3 s4"
    using deploy_new_pipelines_step [OF ph(4), of B] f3 in3 B by simp
  have 5: "policy_step B ?S s4 s5"
    using assign_backends_step [OF ph(5) policy_step_within [OF 4 in3]] policy_step_fields [OF 4] f3
    by simp
  note 15 = policy_step_trans [OF 13 policy_step_trans [OF 4 5]]
  have keys2: "set (dkeys (scheduling_plans_dict s2)) \<subseteq> ?S"
    using remove_unused_sessions_keys [OF ph(2)] policy_step_fields(2) [OF 1] by simp
  then have keys5: "set (dkeys (scheduling_plans_dict s5)) \<subseteq> ?S"
    using policy_step_fields(8) [OF policy_step_trans [OF 3 policy_step_trans [OF 4 5]]] by blast
  have 6: "policy_step B ?S s5 t"
    using policy_step_mono [OF scale_sessions_step [OF ph(6)] keys5] policy_step_fields(1) [OF 15] B
    by simp
  note 16 = policy_step_trans [OF 15 6]
  note f = policy_step_fields [OF 16]
  show "dkeys (current_backends_dict t) = dkeys (current_backends_dict s)"
    "current_requests_dict t = current_requests_dict s"
    "dict_ok (scheduling_plans_dict t)" "gpus_nonneg s \<Longrightarrow> gpus_nonneg t"
    using f assms(2) by simp_all
  show "set (dkeys (scheduling_plans_dict t)) \<subseteq> ?S"
    using policy_step_fields(8) [OF 6] keys5 by blast
  show "plans_within B t"
    using policy_step_within [OF policy_step_trans [OF policy_step_trans [OF 4 5] 6] in3] .
qed

subsection \<open>What a deployment achieves\<close>

definition session_serves :: "policy \<Rightarrow> string \<Rightarrow> string \<Rightarrow> string \<Rightarrow> bool" where
  "session_serves s sess m bn \<longleftrightarrow>
     (\<exists>a \<in> set (dget (scheduling_plans_dict s) sess []).
        model_at s a = m \<and> bn \<in> items_names (items_at s a))"

lemma session_serves_grow:
  assumes "session_serves s sess m bn" "plans_within UNIV s"
    and "\<And>a. a < next_ref s \<Longrightarrow> model_at t a = model_at s a \<and> set (items_at s a) \<subseteq> set (items_at t a)"
    and "set (dget (scheduling_plans_dict s) sess []) \<subseteq> set (dget (scheduling_plans_dict t) sess [])"
  shows "session_serves t sess m bn"
proof -
  obtain a where a: "a \<in> set (dget (scheduling_plans_dict s) sess [])" "model_at s a = m"
    "bn \<in> items_names (items_at s a)"
    using assms(1) by (auto simp: session_serves_def)
  have "a < next_ref s"
    using dget_plan_refs [OF a(1)] assms(2) by (auto simp: plans_within_def plan_within_def)
  from assms(3) [OF this] a(2,3) items_names_mono [of "items_at s a" "items_at t a"]
  have "model_at t a = m" "bn \<in> items_names (items_at t a)" by auto
  with a(1) assms(4) show ?thesis by (auto simp: session_serves_def)
qed

lemma add_scheduling_plan_serves:
  assumes "add_scheduling_plan s sess c bn = Inr t" "plans_within UNIV s"
  shows "session_serves t sess (cmodel_uuid c) bn"
    "session_serves s sess' m bn' \<Longrightarrow> session_serves t sess' m bn'"
proof -
  obtain cps where cps: "component_plans c = Inr cps"
    using assms(1) by (auto simp: add_scheduling_plan_def result_simps)
  define s1 where "s1 = (if sess \<in> set (dkeys (scheduling_plans_dict s)) then s
                         else set_plans s sess [])"
  define refs where "refs = dget (scheduling_plans_dict s1) sess []"
  define new where "new = BackendItem \<lparr>bp_backend_name = bn, bp_component_models_plan = cps,
                               bp_duty_cycle = 1, bp_extra_info = ''''\<rparr>"
  have s1: "next_ref s1 = next_ref s" "plan_heap s1 = plan_heap s"
    "dget (scheduling_plans_dict s1) x [] = dget (scheduling_plans_dict s) x []" for x
    by (auto simp: s1_def set_plans_def dict_simps)
      (auto simp: dget_def in_dkeys_iff split: option.splits)
  have fresh: "a < next_ref s" if "a \<in> set (dget (scheduling_plans_dict s) x [])" for a x
    using dget_plan_refs [OF that] assms(2) by (auto simp: plans_within_def plan_within_def)
  have eq: "(Inr t :: policy result) = (case (case find_first (\<lambda>a. model_at s1 a = cmodel_uuid c) refs of
        Some a \<Rightarrow> (a, s1)
      | None \<Rightarrow> (case alloc_plan s1 \<lparr>cp_model_uuid = cmodel_uuid c, cp_session_uuid = sess,
                         cp_backend_plans = []\<rparr> of
                   (a, s') \<Rightarrow> (a, set_plans s' sess (refs @ [a])))) of
      (a, s2) \<Rightarrow> Inr (set_items s2 a (items_at s2 a @ [new])))"
    using assms(1) cps
    unfolding add_scheduling_plan_def Let_def s1_def refs_def new_def by simp
  have "session_serves t sess (cmodel_uuid c) bn \<and>
      (session_serves s sess' m bn' \<longrightarrow> session_serves t sess' m bn')"
  proof (cases "find_first (\<lambda>a. model_at s1 a = cmodel_uuid c) refs")
    case (Some a)
    then have t: "t = set_items s1 a (items_at s1 a @ [new])" using eq by simp
    have "session_serves t sess (cmodel_uuid c) bn"
      using find_first_Some [OF Some]
      by (auto simp: t session_serves_def set_items_def refs_def new_def)
    moreover have "session_serves t sess' m bn'" if "session_serves s sess' m bn'"
      by (rule session_serves_grow [OF that assms(2)]) (auto simp: t set_items_def s1)
    ultimately show ?thesis by blast
  next
    case None
    then have t: "t = (let s3 = s1\<lparr>plan_heap := (plan_heap s1)(next_ref s1 :=
          \<lparr>cp_model_uuid = cmodel_uuid c, cp_session_uuid = sess, cp_backend_plans = []\<rparr>),
          next_ref := Suc (next_ref s1)\<rparr>
        in set_items (set_plans s3 sess (refs @ [next_ref s1])) (next_ref s1) [new])"
      using eq by (simp add: alloc_plan_def Let_def set_plans_def set_items_def)
    have "session_serves t sess (cmodel_uuid c) bn"
      by (simp add: t session_serves_def set_items_def set_plans_def dict_simps new_def)
    moreover have "session_serves t sess' m bn'" if "session_serves s sess' m bn'"
      by (rule session_serves_grow [OF that assms(2)])
        (auto simp: t set_items_def set_plans_def s1 dict_simps refs_def)
    ultimately show ?thesis by blast
  qed
  then show "session_serves t sess (cmodel_uuid c) bn"
    "session_serves s sess' m bn' \<Longrightarrow> session_serves t sess' m bn'"
    by blast+
qed

lemma deploy_cmodel_serves:
  assumes "deploy_cmodel s m sessions = Inr (Some bn, t)" "plans_within UNIV s"
    and "map_of (cmodels_dict s) m = Some c" "sess \<in> set sessions"
  shows "session_serves t sess (cmodel_uuid c) bn"
proof -
  obtain req s1 where take: "take_resource_from_backend s bn req = Inr s1"
    and add: "foldE (\<lambda>s sess. add_scheduling_plan s sess c bn) s1 sessions = Inr t"
    and el: "eligible s req bn"
    using assms(1,3) by (auto elim: deploy_cmodel_Some)
  have s1: "plans_within UNIV s1"
    using policy_step_within [OF take_resource_step [OF take el] assms(2)] .
  define P where "P = (\<lambda>ys s'. plans_within UNIV s' \<and>
      (\<forall>x \<in> set ys. session_serves s' x (cmodel_uuid c) bn))"
  have "P sessions t"
    using add
  proof (rule foldE_prefix)
    fix ys x s' s'' assume "P ys s'" and a: "add_scheduling_plan s' x c bn = Inr s''"
    then have w: "plans_within UNIV s'" by (simp add: P_def)
    have "plans_within UNIV s''"
      using policy_step_within [OF add_scheduling_plan_step [OF a, of UNIV "{x}"] w] by simp
    with \<open>P ys s'\<close> add_scheduling_plan_serves [OF a w] show "P (ys @ [x]) s''"
      by (auto simp: P_def)
  qed (simp add: P_def s1)
  with assms(4) show ?thesis by (simp add: P_def)
qed

end
