(* ===== verification/Nxs_Policy_Convert.thy ===== *)
theory Nxs_Policy_Convert
  imports Nxs_Policy_Frame
begin

section \<open>From per-session plans to per-backend plans\<close>

text \<open>
  The second half of \<open>schedule\<close> regroups the plans. Its specification: seen as a sequence of
  deployments (backend, model, session), the per-session plans and the per-backend plans
  agree, and a backend occurs once, and a model once per backend.
\<close>

subsection \<open>Specification\<close>

type_synonym deployment = "string \<times> string \<times> string"

definition plan_deployments :: "simple_cmodel_plan \<Rightarrow> deployment list" where
  "plan_deployments p =
     concat (map (\<lambda>it. case it of
         BackendItem b \<Rightarrow> [(bp_backend_name b, cp_model_uuid p, short_session (cp_session_uuid p))]
       | StrayItem _ \<Rightarrow> []) (cp_backend_plans p))"

definition deployments :: "simple_cmodel_plan list \<Rightarrow> deployment list" where
  "deployments ps = concat (map plan_deployments ps)"

definition sessions_on :: "deployment list \<Rightarrow> string \<Rightarrow> string \<Rightarrow> string list" where
  "sessions_on ds bn m = map (\<lambda>(b, m', sess). sess) (filter (\<lambda>(b, m', sess). b = bn \<and> m' = m) ds)"

definition model_sessions :: "per_compository_model_plan list \<Rightarrow> string \<Rightarrow> string list" where
  "model_sessions ps m =
     concat (map scp_session_uuid_list (filter (\<lambda>p. scp_model_uuid p = m) ps))"

definition planned_sessions :: "per_backend_plan list \<Rightarrow> string \<Rightarrow> string \<Rightarrow> string list" where
  "planned_sessions bps bn m =
     concat (map (\<lambda>p. model_sessions (sbp_compository_model_plans p) m)
              (filter (\<lambda>p. sbp_backend_name p = bn) bps))"

definition well_formed_plan :: "per_backend_plan \<Rightarrow> bool" where
  "well_formed_plan p \<longleftrightarrow>
     distinct (map scp_model_uuid (sbp_compository_model_plans p)) \<and>
     length (sbp_compository_model_plans p) \<le> length (sbp_duty_cyles p)"

subsection \<open>One model list\<close>

lemma filter_eq_upt: "i < n \<Longrightarrow> filter (\<lambda>j. j = i) [0..<n] = [i]"
  by (induction n) (auto simp: less_Suc_eq filter_empty_conv)

lemma add_session_to_models_eq:
  assumes "distinct (map scp_model_uuid ps)"
  shows "add_session_to_models m sess cps ps =
     (if m \<in> set (map scp_model_uuid ps)
      then map (\<lambda>p. if scp_model_uuid p = m
                    then p\<lparr>scp_session_uuid_list := scp_session_uuid_list p @ [sess]\<rparr> else p) ps
      else ps @ [\<lparr>scp_model_uuid = m, scp_session_uuid_list = [sess],
                  scp_component_model_plans = cps, scp_extra_info = ''{}''\<rparr>])"
proof (cases "m \<in> set (map scp_model_uuid ps)")
  case True
  then obtain i where i: "i < length ps" "scp_model_uuid (ps ! i) = m"
    by (auto simp: in_set_conv_nth)
  have uniq: "j = i" if "j < length ps" "scp_model_uuid (ps ! j) = m" for j
    using assms that i by (metis distinct_conv_nth length_map nth_map)
  then have eq: "scp_model_uuid (ps ! j) = m \<longleftrightarrow> j = i" if "j < length ps" for j
    using that i by blast
  have "filter (\<lambda>i. scp_model_uuid (ps ! i) = m) [0..<length ps] = [i]"
  proof -
    have "filter (\<lambda>j. scp_model_uuid (ps ! j) = m) [0..<length ps] =
        filter (\<lambda>j. j = i) [0..<length ps]"
      by (rule filter_cong [OF refl]) (simp add: eq)
    also have "\<dots> = [i]"
      using i(1) by (rule filter_eq_upt)
    finally show ?thesis .
  qed
  moreover have "ps[i := (ps ! i)\<lparr>scp_session_uuid_list := scp_session_uuid_list (ps ! i) @ [sess]\<rparr>] =
      map (\<lambda>p. if scp_model_uuid p = m
               then p\<lparr>scp_session_uuid_list := scp_session_uuid_list p @ [sess]\<rparr> else p) ps"
    by (rule nth_equalityI) (simp_all add: nth_list_update eq)
  ultimately show ?thesis
    using True by (simp add: add_session_to_models_def)
qed (simp add: add_session_to_models_def)

lemma model_sessions_simps [simp]:
  "model_sessions [] m = []"
  "model_sessions (p # ps) m =
     (if scp_model_uuid p = m then scp_session_uuid_list p else []) @ model_sessions ps m"
  "model_sessions (ps @ qs) m = model_sessions ps m @ model_sessions qs m"
  by (simp_all add: model_sessions_def)

lemma model_sessions_notin: "m \<notin> scp_model_uuid ` set ps \<Longrightarrow> model_sessions ps m = []"
  by (induction ps) auto

lemma map_add_session_same:
  "m \<notin> scp_model_uuid ` set ps \<Longrightarrow>
     map (\<lambda>p. if scp_model_uuid p = m
              then p\<lparr>scp_session_uuid_list := scp_session_uuid_list p @ [sess]\<rparr> else p) ps = ps"
  by (induction ps) auto

lemma model_sessions_map_add:
  "distinct (map scp_model_uuid ps) \<Longrightarrow> m \<in> set (map scp_model_uuid ps) \<Longrightarrow>
     model_sessions (map (\<lambda>p. if scp_model_uuid p = m
         then p\<lparr>scp_session_uuid_list := scp_session_uuid_list p @ [sess]\<rparr> else p) ps) m' =
       model_sessions ps m' @ (if m' = m then [sess] else [])"
proof (induction ps)
  case (Cons p ps)
  show ?case
  proof (cases "scp_model_uuid p = m")
    case True
    with Cons.prems have "m \<notin> scp_model_uuid ` set ps" by auto
    with True show ?thesis
      by (auto simp: map_add_session_same model_sessions_notin)
  next
    case False
    with Cons show ?thesis by auto
  qed
qed simp

lemma model_sessions_add:
  assumes "distinct (map scp_model_uuid ps)"
  shows "model_sessions (add_session_to_models m sess cps ps) m' =
           model_sessions ps m' @ (if m' = m then [sess] else [])"
  using model_sessions_map_add [OF assms] model_sessions_notin [of m ps]
  by (auto simp: add_session_to_models_eq [OF assms])

lemma uuids_map_add [simp]:
  "map scp_model_uuid (map (\<lambda>p. if scp_model_uuid p = m
         then p\<lparr>scp_session_uuid_list := scp_session_uuid_list p @ [sess]\<rparr> else p) ps) =
     map scp_model_uuid ps"
  by (induction ps) auto

lemma distinct_add_session:
  assumes "distinct (map scp_model_uuid ps)"
  shows "distinct (map scp_model_uuid (add_session_to_models m sess cps ps))"
    "length (add_session_to_models m sess cps ps) \<le> Suc (length ps)"
  using assms by (auto simp: add_session_to_models_eq [OF assms] simp del: map_map)

subsection \<open>The whole conversion\<close>

definition conversion_inv ::
    "deployment list \<Rightarrow> (string, per_backend_plan) dict \<Rightarrow> bool" where
  "conversion_inv ds d \<longleftrightarrow>
     dict_ok d \<and> set (dkeys d) = fst ` set ds \<and>
     (\<forall>bn p. map_of d bn = Some p \<longrightarrow>
        sbp_backend_name p = bn \<and> well_formed_plan p \<and>
        length (sbp_duty_cyles p) = length (filter (\<lambda>x. fst x = bn) ds) \<and>
        (\<forall>m. model_sessions (sbp_compository_model_plans p) m = sessions_on ds bn m))"

lemma sessions_on_snoc:
  "sessions_on (ds @ [(bn, m, sess)]) bn' m' =
     sessions_on ds bn' m' @ (if bn' = bn \<and> m' = m then [sess] else [])"
  by (auto simp: sessions_on_def)

lemma sessions_on_empty: "bn \<notin> fst ` set ds \<Longrightarrow> sessions_on ds bn m = []"
  by (force simp: sessions_on_def filter_empty_conv)

lemma add_backend_item_inv:
  assumes inv: "conversion_inv ds d" and add: "add_backend_item m sess d it = Inr d'"
  shows "\<exists>b. it = BackendItem b \<and> conversion_inv (ds @ [(bp_backend_name b, m, sess)]) d'"
proof -
  from add obtain b where it: "it = BackendItem b"
    by (auto simp: add_backend_item_def split: plan_item.splits)
  let ?bn = "bp_backend_name b"
  define p where "p = dget d ?bn (empty_backend_plan ?bn)"
  define q where "q = p\<lparr>sbp_compository_model_plans :=
                    add_session_to_models m sess (bp_component_models_plan b)
                      (sbp_compository_model_plans p),
                  sbp_duty_cyles := sbp_duty_cyles p @ [1]\<rparr>"
  have d': "d' = AList.update ?bn q d"
    using add by (simp add: add_backend_item_def it Let_def p_def q_def)
  have "sbp_backend_name p = ?bn \<and> well_formed_plan p \<and>
    length (sbp_duty_cyles p) = length (filter (\<lambda>x. fst x = ?bn) ds) \<and>
    (\<forall>m. model_sessions (sbp_compository_model_plans p) m = sessions_on ds ?bn m)"
  proof (cases "map_of d ?bn")
    case None
    then have "?bn \<notin> fst ` set ds"
      using inv by (auto simp: conversion_inv_def set_dkeys)
    then have "filter (\<lambda>x. fst x = ?bn) ds = []"
      by (force simp: filter_empty_conv)
    with None \<open>?bn \<notin> _\<close> show ?thesis
      by (auto simp: p_def dget_def empty_backend_plan_def well_formed_plan_def sessions_on_empty)
  next
    case (Some p')
    with inv show ?thesis by (simp add: p_def dget_def conversion_inv_def)
  qed
  then have p: "sbp_backend_name p = ?bn" "well_formed_plan p"
    "length (sbp_duty_cyles p) = length (filter (\<lambda>x. fst x = ?bn) ds)"
    "\<And>m. model_sessions (sbp_compository_model_plans p) m = sessions_on ds ?bn m"
    by blast+
  have dist: "distinct (map scp_model_uuid (sbp_compository_model_plans p))"
    using p(2) by (simp add: well_formed_plan_def)
  have "well_formed_plan q"
    using p(2) distinct_add_session [OF dist, of m sess "bp_component_models_plan b"]
    by (auto simp: well_formed_plan_def q_def)
  then have "conversion_inv (ds @ [(?bn, m, sess)]) d'"
    using inv p model_sessions_add [OF dist, of m sess]
    by (auto simp: conversion_inv_def d' dict_simps sessions_on_snoc q_def dkeys_update
        simp flip: set_dkeys split: if_splits)
  with it show ?thesis by blast
qed

lemma convert_scheduling_plans_inv:
  assumes "convert_scheduling_plans ps = Inr d"
  shows "conversion_inv (deployments ps) d"
proof -
  define f where "f = (\<lambda>p :: simple_cmodel_plan. add_backend_item (cp_model_uuid p) (short_session (cp_session_uuid p)))"
  have outer: "foldE (\<lambda>d p. foldE (f p) d (cp_backend_plans p)) [] ps = Inr d"
    using assms by (simp add: convert_scheduling_plans_def f_def)
  have inner: "conversion_inv (ds @ plan_deployments (p\<lparr>cp_backend_plans := its\<rparr>)) d'"
    if "foldE (f p) d its = Inr d'" "conversion_inv ds d" for ds d d' its p
    using that(1)
  proof (rule foldE_prefix)
    fix its it d d' assume "conversion_inv (ds @ plan_deployments (p\<lparr>cp_backend_plans := its\<rparr>)) d"
      "f p d it = Inr d'"
    from add_backend_item_inv [OF this [unfolded f_def]]
    show "conversion_inv (ds @ plan_deployments (p\<lparr>cp_backend_plans := its @ [it]\<rparr>)) d'"
      by (auto simp: plan_deployments_def)
  qed (use that(2) in \<open>simp add: plan_deployments_def\<close>)
  show ?thesis
    using outer
  proof (rule foldE_prefix)
    show "conversion_inv (deployments []) []"
      by (simp add: conversion_inv_def deployments_def)
  next
    fix ps p d d' assume "conversion_inv (deployments ps) d" "foldE (f p) d (cp_backend_plans p) = Inr d'"
    from inner [OF this(2,1)] show "conversion_inv (deployments (ps @ [p])) d'"
      by (simp add: deployments_def)
  qed
qed

lemma planned_sessions_dict:
  assumes "dict_ok d" "\<And>bn p. map_of d bn = Some p \<Longrightarrow> sbp_backend_name p = bn"
  shows "planned_sessions (map snd d) bn m =
     (case map_of d bn of None \<Rightarrow> [] | Some p \<Rightarrow> model_sessions (sbp_compository_model_plans p) m)"
  using assms
proof (induction d)
  case (Cons kp d)
  obtain k p where kp: "kp = (k, p)" by (cases kp)
  from Cons.prems(1) have k: "k \<notin> set (dkeys d)" "dict_ok d" by (simp_all add: kp dict_ok_def)
  have name: "sbp_backend_name p = k" using Cons.prems(2) [of k p] by (simp add: kp)
  have rest: "map_of d b = Some q \<Longrightarrow> sbp_backend_name q = b" for b q
    using Cons.prems(2) [of b q] k(1) by (cases "b = k") (auto simp: kp in_dkeys_iff)
  from k(1) have "map_of d k = None" by (simp add: notin_dkeys_iff)
  with Cons.IH [OF k(2) rest] name show ?case
    by (cases "bn = k") (simp_all add: kp planned_sessions_def)
qed (simp add: planned_sessions_def)

text \<open>What the conversion of \<open>schedule\<close> returns, in terms of the list in the message.\<close>

lemma convert_scheduling_plans_spec:
  assumes "convert_scheduling_plans ps = Inr d"
  shows "planned_sessions (map snd d) bn m = sessions_on (deployments ps) bn m"
    "distinct (map sbp_backend_name (map snd d))"
    "set (map sbp_backend_name (map snd d)) = fst ` set (deployments ps)"
    "p \<in> set (map snd d) \<Longrightarrow> well_formed_plan p"
    "p \<in> set (map snd d) \<Longrightarrow> length (sbp_duty_cyles p) =
       length (filter (\<lambda>x. fst x = sbp_backend_name p) (deployments ps))"
proof -
  note inv = convert_scheduling_plans_inv [OF assms]
  have names: "map_of d bn = Some p \<Longrightarrow> sbp_backend_name p = bn" for bn p
    using inv by (simp add: conversion_inv_def)
  have ok: "dict_ok d" using inv by (simp add: conversion_inv_def)
  have keys: "map sbp_backend_name (map snd d) = dkeys d"
    using names ok by (auto simp: dkeys_def dict_ok_def)
  show "planned_sessions (map snd d) bn m = sessions_on (deployments ps) bn m"
    using inv sessions_on_empty [of bn "deployments ps" m]
    by (auto simp: planned_sessions_dict [OF ok names] conversion_inv_def simp flip: set_dkeys
        split: option.splits)
      (metis in_dkeys_iff option.distinct(1))
  show "distinct (map sbp_backend_name (map snd d))"
    "set (map sbp_backend_name (map snd d)) = fst ` set (deployments ps)"
    using inv unfolding keys by (simp_all add: conversion_inv_def dict_ok_def)
  show "p \<in> set (map snd d) \<Longrightarrow> well_formed_plan p"
    "p \<in> set (map snd d) \<Longrightarrow> length (sbp_duty_cyles p) =
       length (filter (\<lambda>x. fst x = sbp_backend_name p) (deployments ps))"
    using inv by (auto simp: conversion_inv_def dict_ok_mem_iff [OF ok])
qed

subsection \<open>Unscheduling plans\<close>

definition undeployments :: "simple_unscheduling_plan list \<Rightarrow> deployment list" where
  "undeployments us =
     map (\<lambda>u. (up_backend_name u, up_model_uuid u, short_session (up_session_uuid u))) us"

definition unmodel_sessions :: "unscheduling_compository_plan list \<Rightarrow> string \<Rightarrow> string list" where
  "unmodel_sessions ps m =
     concat (map ucp_session_uuid_list (filter (\<lambda>p. ucp_model_uuid p = m) ps))"

definition unplanned_sessions :: "unscheduling_backend_plan list \<Rightarrow> string \<Rightarrow> string \<Rightarrow> string list" where
  "unplanned_sessions bps bn m =
     concat (map (\<lambda>p. unmodel_sessions (ubp_compository_model_plans p) m)
              (filter (\<lambda>p. ubp_backend_name p = bn) bps))"

lemma unmodel_sessions_simps [simp]:
  "unmodel_sessions [] m = []"
  "unmodel_sessions (p # ps) m =
     (if ucp_model_uuid p = m then ucp_session_uuid_list p else []) @ unmodel_sessions ps m"
  by (simp_all add: unmodel_sessions_def)

lemma unmodel_sessions_notin: "m \<notin> ucp_model_uuid ` set ps \<Longrightarrow> unmodel_sessions ps m = []"
  by (induction ps) auto

lemma uuids_add_unscheduled:
  "ucp_model_uuid ` set (add_session_to_unscheduled m sess ps) = insert m (ucp_model_uuid ` set ps)"
  by (induction ps) auto

lemma distinct_add_unscheduled:
  "distinct (map ucp_model_uuid ps) \<Longrightarrow>
     distinct (map ucp_model_uuid (add_session_to_unscheduled m sess ps))"
proof (induction ps)
  case (Cons p ps)
  then show ?case using uuids_add_unscheduled [of m sess ps] by auto
qed simp

lemma unmodel_sessions_add:
  "distinct (map ucp_model_uuid ps) \<Longrightarrow>
     unmodel_sessions (add_session_to_unscheduled m sess ps) m' =
       unmodel_sessions ps m' @ (if m' = m then [sess] else [])"
  by (induction ps) (auto simp: unmodel_sessions_notin)

definition unconversion_inv ::
    "deployment list \<Rightarrow> (string, unscheduling_backend_plan) dict \<Rightarrow> bool" where
  "unconversion_inv ds d \<longleftrightarrow>
     dict_ok d \<and> set (dkeys d) = fst ` set ds \<and>
     (\<forall>bn p. map_of d bn = Some p \<longrightarrow>
        ubp_backend_name p = bn \<and> distinct (map ucp_model_uuid (ubp_compository_model_plans p)) \<and>
        (\<forall>m. unmodel_sessions (ubp_compository_model_plans p) m = sessions_on ds bn m))"

lemma convert_unscheduling_plans_inv:
  "unconversion_inv (undeployments us) (convert_unscheduling_plans us)"
  unfolding convert_unscheduling_plans_def
proof (rule foldl_prefix)
  show "unconversion_inv (undeployments []) []"
    by (simp add: unconversion_inv_def undeployments_def)
next
  fix us and u :: simple_unscheduling_plan and d assume inv: "unconversion_inv (undeployments us) d"
  let ?bn = "up_backend_name u" and ?m = "up_model_uuid u"
    and ?sess = "short_session (up_session_uuid u)"
  define p where "p = dget d ?bn \<lparr>ubp_backend_name = ?bn, ubp_compository_model_plans = []\<rparr>"
  define q where "q = p\<lparr>ubp_compository_model_plans :=
                   add_session_to_unscheduled ?m ?sess (ubp_compository_model_plans p)\<rparr>"
  have p: "ubp_backend_name p = ?bn \<and> distinct (map ucp_model_uuid (ubp_compository_model_plans p)) \<and>
        (\<forall>m. unmodel_sessions (ubp_compository_model_plans p) m = sessions_on (undeployments us) ?bn m)"
  proof (cases "map_of d ?bn")
    case None
    then have "?bn \<notin> fst ` set (undeployments us)"
      using inv by (auto simp: unconversion_inv_def set_dkeys)
    with None show ?thesis by (simp add: p_def dget_def sessions_on_empty)
  next
    case (Some p')
    with inv show ?thesis by (simp add: p_def dget_def unconversion_inv_def)
  qed
  then have q: "ubp_backend_name q = ?bn"
    "distinct (map ucp_model_uuid (ubp_compository_model_plans q))"
    "unmodel_sessions (ubp_compository_model_plans q) m =
       sessions_on (undeployments us @ [(?bn, ?m, ?sess)]) ?bn m" for m
    by (auto simp: q_def distinct_add_unscheduled unmodel_sessions_add sessions_on_snoc)
  have "undeployments (us @ [u]) = undeployments us @ [(?bn, ?m, ?sess)]"
    by (simp add: undeployments_def)
  then have "unconversion_inv (undeployments (us @ [u])) (AList.update ?bn q d)"
    using inv q
    by (auto simp: unconversion_inv_def dict_simps sessions_on_snoc simp flip: set_dkeys)
  then show "unconversion_inv (undeployments (us @ [u]))
       (let bn = up_backend_name u;
             p = dget d bn \<lparr>ubp_backend_name = bn, ubp_compository_model_plans = []\<rparr>
         in AList.update bn
              (p\<lparr>ubp_compository_model_plans :=
                   add_session_to_unscheduled (up_model_uuid u)
                     (short_session (up_session_uuid u)) (ubp_compository_model_plans p)\<rparr>) d)"
    by (simp add: Let_def p_def q_def)
qed

lemma unplanned_sessions_dict:
  assumes "dict_ok d" "\<And>bn p. map_of d bn = Some p \<Longrightarrow> ubp_backend_name p = bn"
  shows "unplanned_sessions (map snd d) bn m =
     (case map_of d bn of None \<Rightarrow> [] | Some p \<Rightarrow> unmodel_sessions (ubp_compository_model_plans p) m)"
  using assms
proof (induction d)
  case (Cons kp d)
  obtain k p where kp: "kp = (k, p)" by (cases kp)
  from Cons.prems(1) have k: "k \<notin> set (dkeys d)" "dict_ok d" by (simp_all add: kp dict_ok_def)
  have name: "ubp_backend_name p = k" using Cons.prems(2) [of k p] by (simp add: kp)
  have rest: "map_of d b = Some q \<Longrightarrow> ubp_backend_name q = b" for b q
    using Cons.prems(2) [of b q] k(1) by (cases "b = k") (auto simp: kp in_dkeys_iff)
  from k(1) have "map_of d k = None" by (simp add: notin_dkeys_iff)
  with Cons.IH [OF k(2) rest] name show ?case
    by (cases "bn = k") (simp_all add: kp unplanned_sessions_def)
qed (simp add: unplanned_sessions_def)

lemma convert_unscheduling_plans_spec:
  "unplanned_sessions (map snd (convert_unscheduling_plans us)) bn m =
     sessions_on (undeployments us) bn m"
  "distinct (map ubp_backend_name (map snd (convert_unscheduling_plans us)))"
proof -
  let ?d = "convert_unscheduling_plans us"
  note inv = convert_unscheduling_plans_inv [of us]
  have names: "map_of ?d bn = Some p \<Longrightarrow> ubp_backend_name p = bn" for bn p
    using inv by (simp add: unconversion_inv_def)
  have ok: "dict_ok ?d" using inv by (simp add: unconversion_inv_def)
  have keys: "map ubp_backend_name (map snd ?d) = dkeys ?d"
    using names ok by (auto simp: dkeys_def dict_ok_def)
  show "unplanned_sessions (map snd ?d) bn m = sessions_on (undeployments us) bn m"
    using inv sessions_on_empty [of bn "undeployments us" m]
    by (auto simp: unplanned_sessions_dict [OF ok names] unconversion_inv_def simp flip: set_dkeys
        split: option.splits)
      (metis in_dkeys_iff option.distinct(1))
  show "distinct (map ubp_backend_name (map snd ?d))"
    using ok unfolding keys by (simp add: dict_ok_def)
qed

end
