(* ===== verification/Nxs_External.thy ===== *)
theory Nxs_External
  imports Nxs_Types
begin

section \<open>Code outside the repository\<close>

text \<open>
  What the program calls but does not contain: the Redis server, the \<open>lru\<close> package and the
  document database. Each is a record of operations that the model takes as a parameter,
  with a predicate that states the documented behaviour the code relies on. The records are
  never fixed here; \<open>Nxs_Samples\<close> holds small implementations that meet the predicates.
\<close>

named_theorems external_simps \<open>laws of the parameters for code outside the repository\<close>

subsection \<open>Redis\<close>

text \<open>
  The commands \<open>SET\<close>, \<open>GET\<close>, \<open>DEL\<close>, \<open>RPUSH\<close>, \<open>LPOP\<close> (which \<open>BLPOP\<close> on one key performs when
  an element is there) and \<open>EXPIRE\<close> on a server state \<open>'r\<close>; string values and list elements
  are pickled objects, of type \<open>'v\<close> (pickling is the identity).
\<close>

record ('r, 'v) redis_ops =
  r_set :: "'r \<Rightarrow> string \<Rightarrow> 'v \<Rightarrow> 'r"
  r_get :: "'r \<Rightarrow> string \<Rightarrow> 'v option"
  r_delete :: "'r \<Rightarrow> string \<Rightarrow> 'r"
  r_rpush :: "'r \<Rightarrow> string \<Rightarrow> 'v \<Rightarrow> 'r"
  r_lpop :: "'r \<Rightarrow> string \<Rightarrow> 'v option \<times> 'r"
  r_list :: "'r \<Rightarrow> string \<Rightarrow> 'v list"
  r_expire :: "'r \<Rightarrow> string \<Rightarrow> int \<Rightarrow> 'r"

text \<open>
  \<open>r_list\<close> (\<open>LRANGE k 0 -1\<close>) is not called by the program; the laws of the list commands are
  stated with it.
\<close>

definition redis_ok :: "('r, 'v) redis_ops \<Rightarrow> bool" where
  "redis_ok R \<longleftrightarrow>
     (\<forall>r k v k'. r_get R (r_set R r k v) k' = (if k' = k then Some v else r_get R r k')) \<and>
     (\<forall>r k k'. r_get R (r_delete R r k) k' = (if k' = k then None else r_get R r k')) \<and>
     (\<forall>r k v k'. k' \<noteq> k \<longrightarrow> r_get R (r_rpush R r k v) k' = r_get R r k') \<and>
     (\<forall>r k n k'. r_get R (r_expire R r k n) k' = r_get R r k') \<and>
     (\<forall>r k v k'. r_list R (r_rpush R r k v) k' =
        (if k' = k then r_list R r k @ [v] else r_list R r k')) \<and>
     (\<forall>r k v k'. k' \<noteq> k \<longrightarrow> r_list R (r_set R r k v) k' = r_list R r k') \<and>
     (\<forall>r k n k'. r_list R (r_expire R r k n) k' = r_list R r k') \<and>
     (\<forall>r k. fst (r_lpop R r k) = (case r_list R r k of [] \<Rightarrow> None | v # _ \<Rightarrow> Some v)) \<and>
     (\<forall>r k k'. r_list R (snd (r_lpop R r k)) k' =
        (if k' = k then tl (r_list R r k) else r_list R r k')) \<and>
     (\<forall>r k k'. k' \<noteq> k \<longrightarrow> r_get R (snd (r_lpop R r k)) k' = r_get R r k')"

lemma redis_laws [external_simps]:
  assumes "redis_ok R"
  shows "r_get R (r_set R r k v) k' = (if k' = k then Some v else r_get R r k')"
    "r_get R (r_delete R r k) k' = (if k' = k then None else r_get R r k')"
    "k' \<noteq> k \<Longrightarrow> r_get R (r_rpush R r k v) k' = r_get R r k'"
    "r_get R (r_expire R r k n) k' = r_get R r k'"
    "r_list R (r_rpush R r k v) k' = (if k' = k then r_list R r k @ [v] else r_list R r k')"
    "k' \<noteq> k \<Longrightarrow> r_list R (r_set R r k v) k' = r_list R r k'"
    "r_list R (r_expire R r k n) k' = r_list R r k'"
    "fst (r_lpop R r k) = (case r_list R r k of [] \<Rightarrow> None | v # _ \<Rightarrow> Some v)"
    "r_list R (snd (r_lpop R r k)) k' = (if k' = k then tl (r_list R r k) else r_list R r k')"
    "k' \<noteq> k \<Longrightarrow> r_get R (snd (r_lpop R r k)) k' = r_get R r k'"
  using assms by (simp_all add: redis_ok_def)

text \<open>
  A call of the client can fail in two ways: the command is lost, or it is executed and the
  reply is lost; both raise in the caller.
\<close>

datatype call_fate = Completes | Lost | ReplyLost

subsection \<open>The \<open>lru\<close> package\<close>

record ('c, 'k, 'v) lru_ops =
  lru_has :: "'c \<Rightarrow> 'k \<Rightarrow> bool"
  lru_get :: "'c \<Rightarrow> 'k \<Rightarrow> 'v"
  lru_touch :: "'c \<Rightarrow> 'k \<Rightarrow> 'c"
  lru_put :: "'c \<Rightarrow> 'k \<Rightarrow> 'v \<Rightarrow> 'c"

text \<open>
  \<open>cache[k]\<close> is \<open>lru_get\<close>, and makes \<open>k\<close> the most recently used key (\<open>lru_touch\<close>);
  \<open>cache[k] = v\<close> stores \<open>v\<close> and may evict other keys, never \<open>k\<close>.
\<close>

definition lru_ok :: "('c, 'k, 'v) lru_ops \<Rightarrow> bool" where
  "lru_ok L \<longleftrightarrow>
     (\<forall>c k v. lru_has L (lru_put L c k v) k \<and> lru_get L (lru_put L c k v) k = v) \<and>
     (\<forall>c k v k'. k' \<noteq> k \<longrightarrow> lru_has L (lru_put L c k v) k' \<longrightarrow>
        lru_has L c k' \<and> lru_get L (lru_put L c k v) k' = lru_get L c k') \<and>
     (\<forall>c k k'. lru_has L (lru_touch L c k) k' = lru_has L c k') \<and>
     (\<forall>c k k'. lru_get L (lru_touch L c k) k' = lru_get L c k')"

lemma lru_laws [external_simps]:
  assumes "lru_ok L"
  shows "lru_has L (lru_put L c k v) k" "lru_get L (lru_put L c k v) k = v"
    "lru_has L (lru_touch L c k) k' = lru_has L c k'"
    "lru_get L (lru_touch L c k) k' = lru_get L c k'"
  using assms by (simp_all add: lru_ok_def)

lemma lru_put_other:
  assumes "lru_ok L" "k' \<noteq> k" "lru_has L (lru_put L c k v) k'"
  shows "lru_has L c k'" "lru_get L (lru_put L c k v) k' = lru_get L c k'"
  using assms by (simp_all add: lru_ok_def)

subsection \<open>The document database\<close>

text \<open>
  \<open>NxsDb.query\<close> on the two collections the scheduler reads, by uuid: the matching documents.
\<close>

record main_db =
  query_pipelines :: "string \<Rightarrow> nxs_pipeline list"
  query_models :: "string \<Rightarrow> nxs_model list"

end
