(* ===== verification/Nxs_Samples.thy ===== *)
theory Nxs_Samples
  imports Nxs_External
begin

section \<open>Concrete inputs\<close>

text \<open>Small models, pipelines, requests and backends on which the properties are instantiated.\<close>

definition sample_latency :: latency_measurement where
  "sample_latency = \<lparr>lm_mean = 1, lm_std = 0, lm_min = 1, lm_max = 1\<rparr>"

definition sample_desc :: model_description where
  "sample_desc = \<lparr>md_inputs = [], md_outputs = [], md_class_names = [],
     md_preprocessing_name = '''', md_postprocessing_name = '''', md_transforming_name = '''',
     md_extra_preprocessing_metadata = None, md_extra_postprocessing_metadata = None,
     md_extra_transforming_metadata = None\<rparr>"

definition sample_profile :: "rat \<Rightarrow> rat \<Rightarrow> profile_unit" where
  "sample_profile fps mem = \<lparr>pu_batch_size = 1, pu_fps = fps, pu_latency_e2e = sample_latency,
     pu_gpu_mem_usage = mem\<rparr>"

definition sample_model :: "string \<Rightarrow> rat \<Rightarrow> rat \<Rightarrow> nxs_model" where
  "sample_model u fps mem = \<lparr>bm_user_name = ''u'', bm_model_name = u, bm_framework = FW_ONNX,
     bm_model_desc = sample_desc, bm_profile = [sample_profile fps mem], bm_use_gpu = True,
     bm_batching = True, bm_cross_requests_batching = True, bm_is_public = True,
     bm_is_custom_model = False, m_model_uuid = u, m_model_status = MS_VALID,
     m_created_timestamp = None, m_created_time = None, m_model_type = MT_SINGLE,
     m_collocated_model_uuids = [], m_num_request_pullers = None, m_num_preprocessors = None,
     m_num_postprocessors = None\<rparr>"

definition sample_cmodel :: "string \<Rightarrow> rat \<Rightarrow> rat \<Rightarrow> nxs_compository_model" where
  "sample_cmodel u fps mem = \<lparr>cm_main_model = sample_model u fps mem,
     cm_component_models = [sample_model u fps mem]\<rparr>"

definition sample_pipeline :: "string \<Rightarrow> nxs_compository_model list \<Rightarrow> nxs_pipeline_info" where
  "sample_pipeline u ms = \<lparr>p_user_name = ''u'', p_pipeline_uuid = u, p_pipeline = map cmodel_uuid ms,
     p_is_public = True, pi_models = ms\<rparr>"

definition sample_request ::
    "string \<Rightarrow> string \<Rightarrow> nxs_compository_model list \<Rightarrow> rat \<Rightarrow> nxs_scheduling_request" where
  "sample_request p sess ms fps =
     \<lparr>sr_pipeline_info = sample_pipeline p ms, sr_session_uuid = sess, sr_requested_fps = fps\<rparr>"

definition sample_gpu_backend :: "string \<Rightarrow> rat \<Rightarrow> backend_info" where
  "sample_gpu_backend bn mem = \<lparr>bi_backend_name = bn, bi_state =
     \<lparr>bs_gpu_info = Some \<lparr>g_gpu_name = ''g'', g_gpu_total_mem = mem, g_gpu_available_mem = mem\<rparr>,
      bs_extra_data = None\<rparr>\<rparr>"

definition sample_cpu_backend :: "string \<Rightarrow> backend_info" where
  "sample_cpu_backend bn =
     \<lparr>bi_backend_name = bn, bi_state = \<lparr>bs_gpu_info = None, bs_extra_data = None\<rparr>\<rparr>"

subsection \<open>Implementations of the outside code\<close>

text \<open>A Redis server as two maps, an LRU dictionary of capacity one, a database with fixed
  contents.\<close>

type_synonym 'v sample_store = "(string \<Rightarrow> 'v option) \<times> (string \<Rightarrow> 'v list)"

definition sample_redis :: "('v sample_store, 'v) redis_ops" where
  "sample_redis = \<lparr>r_set = (\<lambda>(g, l) k v. (g(k := Some v), l)),
     r_get = (\<lambda>(g, l) k. g k),
     r_delete = (\<lambda>(g, l) k. (g(k := None), l(k := []))),
     r_rpush = (\<lambda>(g, l) k v. (g, l(k := l k @ [v]))),
     r_lpop = (\<lambda>(g, l) k. (case l k of [] \<Rightarrow> (None, (g, l)) | v # vs \<Rightarrow> (Some v, (g, l(k := vs))))),
     r_list = (\<lambda>(g, l) k. l k),
     r_expire = (\<lambda>s k n. s)\<rparr>"

lemma sample_redis_ok [simp]: "redis_ok sample_redis"
  by (auto simp: redis_ok_def sample_redis_def split: list.splits)

definition sample_lru :: "((string \<times> 'v) option, string, 'v) lru_ops" where
  "sample_lru = \<lparr>lru_has = (\<lambda>c k. (case c of None \<Rightarrow> False | Some (k', _) \<Rightarrow> k = k')),
     lru_get = (\<lambda>c k. snd (the c)),
     lru_touch = (\<lambda>c k. c),
     lru_put = (\<lambda>c k v. Some (k, v))\<rparr>"

lemma sample_lru_ok [simp]: "lru_ok sample_lru"
  by (auto simp: lru_ok_def sample_lru_def)

definition sample_db :: main_db where
  "sample_db = \<lparr>query_pipelines = (\<lambda>u. if u = ''p''
       then [\<lparr>p_user_name = ''u'', p_pipeline_uuid = ''p'', p_pipeline = [''a''], p_is_public = True\<rparr>]
       else []),
     query_models = (\<lambda>u. if u = ''a'' then [sample_model ''a'' 10 6] else [])\<rparr>"

end
