(* ===== verification/Nxs_Policy_Props.thy ===== *)
theory Nxs_Policy_Props
  imports Nxs_Policy_Convert Nxs_Samples
begin

section \<open>Properties of the scheduling policy\<close>

text \<open>
  The theorems about \<open>schedule\<close>, \<open>_deploy_cmodel\<close> and the phases of a round, each with a
  concrete round that meets its hypotheses. They follow from the step lemmas of
  \<open>Nxs_Policy_Frame\<close> and the conversion of \<open>Nxs_Policy_Convert\<close>.
\<close>

subsection \<open>One round\<close>

definition state_plans :: "policy \<Rightarrow> simple_cmodel_plan list" where
  "state_plans s = map (plan_heap s) (concat (map snd (scheduling_plans_dict s)))"

lemma scheduleE:
  assumes "schedule s rs bs = Inr (plan, t)"
  obtains t0 d where "schedule_phases (begin_round s rs bs) = Inr t0"
    "convert_scheduling_plans (state_plans t0) = Inr d" "sp_scheduling plan = map snd d"
    "t = t0\<lparr>last_backends_dict := current_backends_dict t0,
            last_requests_dict := current_requests_dict t0\<rparr>"
  using assms by (auto simp: schedule_def end_round_def state_plans_def Let_def bindE_eq_Inr)

lemma policy_inv_init [simp]: "policy_inv init_policy"
  by (simp add: policy_inv_def init_policy_def plans_within_def plan_refs_def)

lemma schedule_inv:
  assumes "policy_inv s" "schedule s rs bs = Inr (plan, t)"
  shows "policy_inv t" "plans_within (bi_backend_name ` set bs) t"
    "set (dkeys (scheduling_plans_dict t)) \<subseteq>
       (\<lambda>r. join_key (request_pipeline r) (sr_session_uuid r)) ` set rs"
    "\<forall>b \<in> set bs. gpu_nonneg b \<Longrightarrow> gpus_nonneg t"
    "last_backends_dict t = current_backends_dict t"
proof -
  from assms(2) obtain t0 where ph: "schedule_phases (begin_round s rs bs) = Inr t0"
    and t: "t = t0\<lparr>last_backends_dict := current_backends_dict t0,
            last_requests_dict := current_requests_dict t0\<rparr>"
    by (auto elim: scheduleE)
  have "plans_within (set (dkeys (last_backends_dict s))) (begin_round s rs bs)"
    using assms(1) by (simp add: policy_inv_def plans_within_def plan_refs_def plan_within_def
        begin_round_def Let_def)
  note facts = schedule_phases_facts [OF ph _ _ refl, simplified, OF _ this]
  have ok: "dict_ok (scheduling_plans_dict s)" using assms(1) by (simp add: policy_inv_def)
  note facts = facts [OF ok]
  have "plans_within (bi_backend_name ` set bs) t0"
    using facts(1) by (simp add: begin_round_backends)
  then show w: "plans_within (bi_backend_name ` set bs) t"
    by (simp add: t plans_within_def plan_refs_def plan_within_def)
  have "set (dkeys (current_backends_dict t0)) = bi_backend_name ` set bs"
    using facts(2) by (simp add: begin_round_backends)
  with w facts(4) show "policy_inv t"
    by (simp add: t policy_inv_def plans_within_def plan_refs_def plan_within_def)
  show "set (dkeys (scheduling_plans_dict t)) \<subseteq>
       (\<lambda>r. join_key (request_pipeline r) (sr_session_uuid r)) ` set rs"
    using facts(6) by (simp add: t begin_round_requests)
  show "\<forall>b \<in> set bs. gpu_nonneg b \<Longrightarrow> gpus_nonneg t"
    using facts(5) begin_round_gpus [of bs s rs] by (simp add: t gpus_nonneg_def)
  show "last_backends_dict t = current_backends_dict t" by (simp add: t)
qed

lemma schedule_plan_eq:
  assumes "schedule s rs bs = Inr (plan, t)"
  obtains d where "convert_scheduling_plans (state_plans t) = Inr d" "sp_scheduling plan = map snd d"
proof -
  from assms obtain t0 d where "convert_scheduling_plans (state_plans t0) = Inr d"
    "sp_scheduling plan = map snd d"
    "t = t0\<lparr>last_backends_dict := current_backends_dict t0,
            last_requests_dict := current_requests_dict t0\<rparr>"
    by (auto elim: scheduleE)
  then show ?thesis by (intro that) (auto simp: state_plans_def)
qed

lemma state_deployments_within:
  assumes "plans_within B s" "x \<in> set (deployments (state_plans s))"
  shows "fst x \<in> B"
proof -
  from assms(2) obtain a b where "a \<in> plan_refs s" "BackendItem b \<in> set (items_at s a)"
    "fst x = bp_backend_name b"
    by (fastforce simp: deployments_def plan_deployments_def state_plans_def plan_refs_def
        split: plan_item.splits)
  with assms(1) show ?thesis
    by (force simp: plans_within_def plan_within_def items_names_def)
qed

definition sample_round :: "(nxs_scheduling_plan \<times> policy) result" where
  "sample_round = schedule init_policy
     [sample_request ''p'' ''s'' [sample_cmodel ''a'' 10 6] 5]
     [sample_gpu_backend ''x'' 10, sample_gpu_backend ''y'' 20]"

lemma sample_round_plan:
  "bindE sample_round (\<lambda>(plan, t). Inr (map (\<lambda>p. (sbp_backend_name p, map scp_model_uuid
      (sbp_compository_model_plans p))) (sp_scheduling plan), dkeys (scheduling_plans_dict t),
      map (\<lambda>b. map_option g_gpu_total_mem (bs_gpu_info (bi_state (snd b)))) (current_backends_dict t)))
   = Inr ([(''y'', [''a''])], [''p_s''], [Some 10, Some 14])"
  by code_simp

lemma sample_round_returns:
  obtains plan t where "schedule init_policy
     [sample_request ''p'' ''s'' [sample_cmodel ''a'' 10 6] 5]
     [sample_gpu_backend ''x'' 10, sample_gpu_backend ''y'' 20] = Inr (plan, t)"
    "sample_round = Inr (plan, t)"
  using sample_round_plan by (cases sample_round) (auto simp: sample_round_def)



text \<open>C3: the per-backend plans in the message say exactly what the policy's state says: for
  every backend and model, the message lists the sessions of that deployment, each as often
  and in the same order as the state's plans; a backend occurs once and a model once per
  backend; and a backend's list of duty cycles is at least as long as its list of models, so
  the backend's \<open>zip\<close> of the two drops no model.\<close>

theorem schedule_reports_state:
  assumes "schedule s rs bs = Inr (plan, t)"
  shows "(\<forall>bn m. planned_sessions (sp_scheduling plan) bn m =
            sessions_on (deployments (state_plans t)) bn m) \<and>
    distinct (map sbp_backend_name (sp_scheduling plan)) \<and>
    (\<forall>p \<in> set (sp_scheduling plan). well_formed_plan p)"
proof -
  obtain d where d: "convert_scheduling_plans (state_plans t) = Inr d" "sp_scheduling plan = map snd d"
    using schedule_plan_eq [OF assms] .
  from convert_scheduling_plans_spec(1,2,4) [OF d(1)] show ?thesis
    unfolding d(2) by blast
qed

theorem schedule_reports_state_witness:
  "\<exists>plan t. sample_round = Inr (plan, t) \<and> planned_sessions (sp_scheduling plan) ''y'' ''a'' =
       sessions_on (deployments (state_plans t)) ''y'' ''a''"
proof -
  obtain plan t where r: "schedule init_policy
     [sample_request ''p'' ''s'' [sample_cmodel ''a'' 10 6] 5]
     [sample_gpu_backend ''x'' 10, sample_gpu_backend ''y'' 20] = Inr (plan, t)"
    "sample_round = Inr (plan, t)" by (rule sample_round_returns)
  from schedule_reports_state [OF r(1)] r(2) show ?thesis by blast
qed

text \<open>C2: no round drives the GPU memory of a backend below zero: if the backends come with
  non-negative memory, the memory that the round has left on each of them is non-negative.\<close>

theorem schedule_no_gpu_overcommit:
  assumes "policy_inv s" "\<forall>b \<in> set bs. gpu_nonneg b" "schedule s rs bs = Inr (plan, t)"
  shows "gpus_nonneg t"
  using schedule_inv(4) [OF assms(1,3,2)] .

theorem schedule_no_gpu_overcommit_witness:
  "\<exists>plan t. sample_round = Inr (plan, t) \<and> gpus_nonneg t"
proof -
  obtain plan t where r: "schedule init_policy
     [sample_request ''p'' ''s'' [sample_cmodel ''a'' 10 6] 5]
     [sample_gpu_backend ''x'' 10, sample_gpu_backend ''y'' 20] = Inr (plan, t)"
    "sample_round = Inr (plan, t)" by (rule sample_round_returns)
  from schedule_no_gpu_overcommit [OF policy_inv_init _ r(1)] have "gpus_nonneg t"
    by (simp add: gpu_nonneg_def sample_gpu_backend_def)
  with r(2) show ?thesis by blast
qed

text \<open>C4: after a round the policy keeps plans only for sessions that are requested in that
  round, under the name made of pipeline and session; a session that ended is forgotten.\<close>

theorem schedule_only_requested_sessions:
  assumes "policy_inv s" "schedule s rs bs = Inr (plan, t)"
  shows "set (dkeys (scheduling_plans_dict t)) \<subseteq>
    (\<lambda>r. join_key (request_pipeline r) (sr_session_uuid r)) ` set rs"
  using schedule_inv(3) [OF assms] .

theorem schedule_only_requested_sessions_witness:
  "\<exists>plan t. sample_round = Inr (plan, t) \<and> set (dkeys (scheduling_plans_dict t)) \<subseteq> {''p_s''}"
proof -
  obtain plan t where r: "schedule init_policy
     [sample_request ''p'' ''s'' [sample_cmodel ''a'' 10 6] 5]
     [sample_gpu_backend ''x'' 10, sample_gpu_backend ''y'' 20] = Inr (plan, t)"
    "sample_round = Inr (plan, t)" by (rule sample_round_returns)
  from schedule_only_requested_sessions [OF policy_inv_init r(1)]
  have "set (dkeys (scheduling_plans_dict t)) \<subseteq> {''p_s''}"
    by (simp add: sample_request_def sample_pipeline_def join_key_def)
  with r(2) show ?thesis by blast
qed

subsection \<open>Deploying one model\<close>

text \<open>when \<open>_deploy_cmodel\<close> deploys a model that needs GPU memory, it picks a known
  backend that does not run the model yet and has strictly more memory than the model
  needs, and among all such backends one with the most memory; it takes exactly the needed
  amount from it, so that a positive amount is left; and afterwards every session of the
  request is served by that backend.\<close>

theorem deploy_cmodel_gpu:
  assumes "deploy_cmodel s m sessions = Inr (Some bn, t)" "map_of (cmodels_dict s) m = Some c"
    and "compute_required_resource_for_atomic_model c = Inr req" "rr_max_gpu_mem req > 0"
    and "plans_within UNIV s"
  shows "bn \<in> set (dkeys (current_backends_dict s)) \<and> \<not> serves s (cmodel_uuid c) bn \<and>
    (\<exists>mem. backend_gpu_mem s bn = Inr mem \<and> mem > rr_max_gpu_mem req \<and>
       backend_gpu_mem t bn = Inr (mem - rr_max_gpu_mem req) \<and>
       (\<forall>bn' mem'. \<not> serves s (cmodel_uuid c) bn' \<and> backend_gpu_mem s bn' = Inr mem' \<and>
          mem' > rr_max_gpu_mem req \<longrightarrow> mem' \<le> mem)) \<and>
    (\<forall>sess \<in> set sessions. session_serves t sess (cmodel_uuid c) bn)"
proof -
  from assms(1-3) obtain bns s1 where pot: "find_potential_backends s c req = Inr bns"
    and best: "find_best_backend s bns req = Inr (Some bn)"
    and take: "take_resource_from_backend s bn req = Inr s1"
    and add: "foldE (\<lambda>s sess. add_scheduling_plan s sess c bn) s1 sessions = Inr t"
    by (auto simp: deploy_cmodel_def result_simps split: if_splits option.splits)
  note bns = find_potential_backends_eq [OF pot]
  have bn: "bn \<in> set bns" using find_best_backend_in [OF best] .
  from find_best_backend_gpu [OF best assms(4)] obtain mem where mem: "backend_gpu_mem s bn = Inr mem"
    and max: "\<forall>bn' \<in> set bns. \<forall>m'. backend_gpu_mem s bn' = Inr m' \<longrightarrow> m' \<le> mem"
    by auto
  have enough: "mem > rr_max_gpu_mem req"
    using bn mem unfolding bns by (auto simp: eligible_def backend_gpu_mem_eq_Inr split: option.splits)
  have others: "mem' \<le> mem" if "\<not> serves s (cmodel_uuid c) bn'" "backend_gpu_mem s bn' = Inr mem'"
    "mem' > rr_max_gpu_mem req" for bn' mem'
  proof -
    have "bn' \<in> set bns"
      using that assms(4) unfolding bns
      by (auto simp: eligible_def backend_gpu_mem_eq_Inr in_dkeys_iff)
    with max that(2) show ?thesis by blast
  qed
  have "backend_gpu_mem s1 bn = Inr (mem - rr_max_gpu_mem req)"
    using take mem assms(4)
    by (auto simp: take_resource_from_backend_def add_gpu_mem_eq_Inr backend_gpu_mem_eq_Inr dict_simps)
  moreover have "current_backends_dict t = current_backends_dict s1"
    using add by (rule foldE_invariant)
      (auto simp: add_scheduling_plan_def bindE_eq_Inr Let_def set_items_def set_plans_def
        alloc_plan_def split: prod.splits option.splits if_splits)
  ultimately have "backend_gpu_mem t bn = Inr (mem - rr_max_gpu_mem req)"
    by (simp add: backend_gpu_mem_def)
  moreover have "bn \<in> set (dkeys (current_backends_dict s))" "\<not> serves s (cmodel_uuid c) bn"
    using bn unfolding bns by auto
  moreover have "\<forall>sess \<in> set sessions. session_serves t sess (cmodel_uuid c) bn"
    using deploy_cmodel_serves [OF assms(1,5,2)] by blast
  ultimately show ?thesis using mem enough others by blast
qed

definition sample_state :: policy where
  "sample_state = begin_round init_policy
     [sample_request ''p'' ''s'' [sample_cmodel ''a'' 10 6] 5]
     [sample_gpu_backend ''x'' 10, sample_gpu_backend ''y'' 20]"

lemma plans_within_sample: "plans_within UNIV sample_state"
  by (simp add: plans_within_def plan_refs_def sample_state_def init_policy_def)

theorem deploy_cmodel_gpu_witness:
  "\<exists>t. deploy_cmodel sample_state ''a'' [''p_s''] = Inr (Some ''y'', t) \<and>
       session_serves t ''p_s'' ''a'' ''y'' \<and> backend_gpu_mem t ''y'' = Inr 14"
proof -
  have "bindE (deploy_cmodel sample_state ''a'' [''p_s'']) (\<lambda>(b, t). Inr b) = Inr (Some ''y'')"
    by code_simp
  then obtain t where t: "deploy_cmodel sample_state ''a'' [''p_s''] = Inr (Some ''y'', t)"
    by (auto simp: bindE_eq_Inr)
  have c: "map_of (cmodels_dict sample_state) ''a'' = Some (sample_cmodel ''a'' 10 6)"
    by code_simp
  have q: "compute_required_resource_for_atomic_model (sample_cmodel ''a'' 10 6) =
      Inr \<lparr>rr_max_gpu_mem = 6, rr_min_gpu_mem = 0\<rparr>"
    by code_simp
  have m: "backend_gpu_mem sample_state ''y'' = Inr 20" by code_simp
  from deploy_cmodel_gpu [OF t c q _ plans_within_sample] m t show ?thesis
    by (auto simp: sample_cmodel_def sample_model_def)
qed

text \<open>\<open>_deploy_cmodel\<close> gives up on a GPU model exactly when no backend is a candidate (all
  that have enough memory run the model already), and then it has changed nothing.\<close>

theorem deploy_cmodel_gives_up:
  assumes "deploy_cmodel s m sessions = Inr (best, t)" "map_of (cmodels_dict s) m = Some c"
    and "compute_required_resource_for_atomic_model c = Inr req" "rr_max_gpu_mem req > 0"
  shows "(best = None \<longleftrightarrow>
      (\<forall>bn \<in> set (dkeys (current_backends_dict s)).
         serves s (cmodel_uuid c) bn \<or> \<not> eligible s req bn)) \<and>
    (best = None \<longrightarrow> t = s)"
proof -
  from assms(1-3) obtain bns where pot: "find_potential_backends s c req = Inr bns"
    by (auto simp: deploy_cmodel_def result_simps split: if_splits option.splits)
  note bns = find_potential_backends_eq [OF pot]
  have cands: "bns = [] \<longleftrightarrow> (\<forall>bn \<in> set (dkeys (current_backends_dict s)).
         serves s (cmodel_uuid c) bn \<or> \<not> eligible s req bn)"
    unfolding bns by (auto simp: filter_empty_conv)
  have "bns = []" if "best = None"
  proof (rule ccontr)
    assume ne: "bns \<noteq> []"
    with that assms(1-3) pot have b: "find_best_backend s bns req = Inr None"
      by (auto simp: deploy_cmodel_def result_simps split: if_splits option.splits)
    from ne obtain bn where bn: "bn \<in> set bns" by (cases bns) auto
    then obtain mem where "backend_gpu_mem s bn = Inr mem" "mem > rr_max_gpu_mem req"
      using assms(4) unfolding bns
      by (auto simp: eligible_def backend_gpu_mem_eq_Inr split: option.splits)
    with find_best_backend_gpu [OF b assms(4)] bn assms(4) show False by fastforce
  qed
  moreover have "best = None" if "bns = []"
    using that assms(1-3) pot by (auto simp: deploy_cmodel_def result_simps)
  ultimately show ?thesis
    using cands assms(1) deploy_cmodel_None by blast
qed

theorem deploy_cmodel_gives_up_witness:
  "\<exists>t. deploy_cmodel (begin_round init_policy
       [sample_request ''p'' ''s'' [sample_cmodel ''a'' 10 6] 5] [sample_gpu_backend ''x'' 6]) ''a''
     [''p_s''] = Inr (None, t) \<and> t = begin_round init_policy
       [sample_request ''p'' ''s'' [sample_cmodel ''a'' 10 6] 5] [sample_gpu_backend ''x'' 6]"
    (is "\<exists>t. deploy_cmodel ?s _ _ = _ \<and> _")
proof -
  have "bindE (deploy_cmodel ?s ''a'' [''p_s'']) (\<lambda>(b, t). Inr b) = Inr None"
    by code_simp
  then obtain t where t: "deploy_cmodel ?s ''a'' [''p_s''] = Inr (None, t)"
    by (auto simp: bindE_eq_Inr)
  have c: "map_of (cmodels_dict ?s) ''a'' = Some (sample_cmodel ''a'' 10 6)"
    by code_simp
  have q: "compute_required_resource_for_atomic_model (sample_cmodel ''a'' 10 6) =
      Inr \<lparr>rr_max_gpu_mem = 6, rr_min_gpu_mem = 0\<rparr>"
    by code_simp
  from deploy_cmodel_gives_up [OF t c q] t show ?thesis by simp
qed

subsection \<open>Backends that disappeared, and pipelines that ended\<close>

text \<open>after \<open>_remove_expired_backends\<close> no plan names a backend that was there in the last
  round and is not there now, no session keeps an empty list of plans, and no plan names a
  backend that it did not name before.\<close>

theorem expired_backends_removed:
  assumes "policy_inv s" "remove_expired_backends s = Inr t"
  shows "plans_within (- set (expired_backend_names s)) t \<and>
    plans_within (set (dkeys (current_backends_dict s))) t \<and>
    (\<forall>p \<in> set (scheduling_plans_dict t). snd p \<noteq> [])"
proof -
  have "plans_within UNIV s"
    using assms(1) by (auto simp: policy_inv_def plans_within_def plan_within_def)
  note facts = remove_expired_backends_facts [OF assms(2) _ this]
  have ok: "dict_ok (scheduling_plans_dict s)" using assms(1) by (simp add: policy_inv_def)
  have "plans_within (set (dkeys (last_backends_dict s))) t"
    using policy_step_within [OF facts(1) [OF ok]] assms(1) by (simp add: policy_inv_def)
  with facts(2,3) [OF ok] show ?thesis
    by (fastforce simp: plans_within_def plan_within_def expired_backend_names_def)
qed

text \<open>The state after a round on two backends, at the start of a round on one of them.\<close>

definition sample_expiry :: "policy result" where
  "sample_expiry = bindE sample_round (\<lambda>(plan, t). Inr (begin_round t
     [sample_request ''p'' ''s'' [sample_cmodel ''a'' 10 6] 5] [sample_gpu_backend ''x'' 10]))"

theorem expired_backends_removed_witness:
  "\<exists>s t. sample_expiry = Inr s \<and> remove_expired_backends s = Inr t \<and> expired_backend_names s = [''y''] \<and>
     scheduling_plans_dict s \<noteq> [] \<and> plans_within {''x''} t"
proof -
  obtain plan t0 where r: "schedule init_policy
     [sample_request ''p'' ''s'' [sample_cmodel ''a'' 10 6] 5]
     [sample_gpu_backend ''x'' 10, sample_gpu_backend ''y'' 20] = Inr (plan, t0)"
    "sample_round = Inr (plan, t0)" by (rule sample_round_returns)
  define s where "s = begin_round t0
     [sample_request ''p'' ''s'' [sample_cmodel ''a'' 10 6] 5] [sample_gpu_backend ''x'' 10]"
  have s: "sample_expiry = Inr s"
    by (simp add: sample_expiry_def s_def) (subst r(2), simp)
  have inv: "policy_inv s"
    using schedule_inv(1) [OF policy_inv_init r(1)]
    by (simp add: s_def policy_inv_def plans_within_def plan_refs_def plan_within_def
        begin_round_def Let_def)
  have "bindE sample_expiry (\<lambda>s. bindE (remove_expired_backends s) (\<lambda>t.
      Inr (expired_backend_names s, dkeys (current_backends_dict s), scheduling_plans_dict s)))
    = Inr ([''y''], [''x''], [(''p_s'', [0])])"
    by code_simp
  then have "bindE (remove_expired_backends s) (\<lambda>t.
      Inr (expired_backend_names s, dkeys (current_backends_dict s), scheduling_plans_dict s))
    = Inr ([''y''], [''x''], [(''p_s'', [0])])"
    by (subst (asm) s) simp
  then obtain t where t: "remove_expired_backends s = Inr t" "expired_backend_names s = [''y'']"
    "dkeys (current_backends_dict s) = [''x'']" "scheduling_plans_dict s = [(''p_s'', [0])]"
    by (auto simp: bindE_eq_Inr)
  with expired_backends_removed [OF inv t(1)] s show ?thesis by auto
qed

text \<open>the unscheduling plans that \<open>_remove_expired_backends\<close> adds all name one backend: the
  last one of the previous round, whichever backend the dropped plan was on (the loop
  variable \<open>backend_name\<close> of the first loop is used in place of the plan's own backend).\<close>

theorem expiry_unschedules_last_backend:
  assumes "remove_expired_backends s = Inr t" "sess \<in> set (dkeys (unscheduling_plans_dict t))"
    and "unscheduling_plans_dict s = []" "u \<in> set (dget (unscheduling_plans_dict t) sess [])"
  shows "up_backend_name u = last (dkeys (last_backends_dict s))"
proof -
  define P where "P = (\<lambda>s' :: policy. last_backends_dict s' = last_backends_dict s \<and>
      (\<forall>p \<in> set (unscheduling_plans_dict s'). \<forall>u \<in> set (snd p).
         up_backend_name u = last (dkeys (last_backends_dict s))))"
  define Q where "Q = (\<lambda>d :: (string, simple_unscheduling_plan list) dict.
      \<forall>p \<in> set d. \<forall>u \<in> set (snd p). up_backend_name u = last (dkeys (last_backends_dict s)))"
  have items: "Q u'"
    if "expire_items s' E x a = Inr (its, u')" "P s'" for s' E x a its u'
  proof -
    have "Q (snd (its, u'))"
      using that(1) unfolding expire_items_def
    proof (rule foldE_invariant)
      fix z it z' assume "Q (snd z)"
        "(case z of (new, u) \<Rightarrow> \<lambda>it. bindE (item_backend_name it) (\<lambda>n.
           if n \<notin> set E then Inr (new @ [it], u)
           else bindE (stale_backend_name s') (\<lambda>bn.
                  Inr (new, dappend u x (unscheduling_plan (model_at s' a) x bn))))) it = Inr z'"
      then show "Q (snd z')"
        using that(2) set_update_subset [of x _ "snd z"] dget_subset [of _ "snd z" x]
        by (cases z) (fastforce simp: Q_def P_def result_simps stale_backend_name_def
            unscheduling_plan_def dappend_def split: if_splits)
    qed (use that(2) in \<open>simp add: P_def Q_def\<close>)
    then show ?thesis by simp
  qed
  have session: "P (fst z')" if "expire_session E z x = Inr z'" "P (fst z)" for E z x z'
  proof -
    obtain s' rm where z: "z = (s', rm)" by (cases z)
    from that(1) obtain refs s1 ns where
      f: "foldE (\<lambda>(s, new_refs) a. bindE (expire_items s E x a) (\<lambda>(its, u).
               Inr (set_items (s\<lparr>unscheduling_plans_dict := u\<rparr>) a its,
                    if its \<noteq> [] then new_refs @ [a] else new_refs))) (s', []) refs = Inr (s1, ns)"
      and z': "fst z' = set_plans s1 x ns"
      by (auto simp: expire_session_def z bindE_eq_Inr)
    from f have "P (fst (s1, ns))"
      by (rule foldE_invariant)
        (use that(2) items z in \<open>auto simp: bindE_eq_Inr P_def Q_def set_items_def\<close>)
    then show ?thesis by (simp add: z' P_def set_plans_def)
  qed
  from assms(1) obtain s1 rm where
    f: "foldE (expire_session (expired_backend_names s)) (s, []) (dkeys (scheduling_plans_dict s)) =
        Inr (s1, rm)"
    and pop: "foldE (\<lambda>s sess. bindE (dpop (scheduling_plans_dict s) sess)
                   (\<lambda>d. Inr (s\<lparr>scheduling_plans_dict := d\<rparr>))) s1 rm = Inr t"
    by (auto simp: remove_expired_backends_def bindE_eq_Inr)
  from f have "P (fst (s1, rm))"
    by (rule foldE_invariant) (use session assms(3) in \<open>auto simp: P_def\<close>)
  then have "P s1" by simp
  from pop this have "P t"
    by (rule foldE_invariant) (auto simp: P_def bindE_eq_Inr)
  with dget_subset [OF assms(4)] show ?thesis by (fastforce simp: P_def)
qed

text \<open>The model runs on \<open>y\<close>, which disappears; \<open>x\<close>, which stays, is told to unschedule it.\<close>

definition sample_stale_expiry :: "policy result" where
  "sample_stale_expiry = bindE (schedule init_policy
       [sample_request ''p'' ''s'' [sample_cmodel ''a'' 10 6] 5]
       [sample_gpu_backend ''y'' 20, sample_gpu_backend ''x'' 10])
     (\<lambda>(plan, t). Inr (begin_round t
       [sample_request ''p'' ''s'' [sample_cmodel ''a'' 10 6] 5] [sample_gpu_backend ''x'' 10]))"

theorem expiry_unschedules_last_backend_witness:
  "\<exists>s t u. sample_stale_expiry = Inr s \<and> remove_expired_backends s = Inr t \<and>
     expired_backend_names s = [''y''] \<and> dget (unscheduling_plans_dict t) ''p_s'' [] = [u] \<and>
     up_backend_name u = ''x''"
proof -
  have run: "bindE sample_stale_expiry (\<lambda>s. bindE (remove_expired_backends s) (\<lambda>t.
      Inr (expired_backend_names s, dkeys (last_backends_dict s), unscheduling_plans_dict s,
           dkeys (unscheduling_plans_dict t),
           length (dget (unscheduling_plans_dict t) ''p_s'' []))))
    = Inr ([''y''], [''y'', ''x''], [], [''p_s''], 1)"
    by code_simp
  then obtain s where s: "sample_stale_expiry = Inr s"
    by (auto simp: bindE_eq_Inr)
  from run have "bindE (remove_expired_backends s) (\<lambda>t.
      Inr (expired_backend_names s, dkeys (last_backends_dict s), unscheduling_plans_dict s,
           dkeys (unscheduling_plans_dict t),
           length (dget (unscheduling_plans_dict t) ''p_s'' [])))
    = Inr ([''y''], [''y'', ''x''], [], [''p_s''], 1)"
    by (subst (asm) s) simp
  then obtain t where t: "remove_expired_backends s = Inr t" "expired_backend_names s = [''y'']"
    "dkeys (last_backends_dict s) = [''y'', ''x'']" "unscheduling_plans_dict s = []"
    "dkeys (unscheduling_plans_dict t) = [''p_s'']"
    "length (dget (unscheduling_plans_dict t) ''p_s'' []) = 1"
    by (auto simp: bindE_eq_Inr)
  from t(6) obtain u where u: "dget (unscheduling_plans_dict t) ''p_s'' [] = [u]"
    by (auto simp: length_Suc_conv)
  from expiry_unschedules_last_backend [OF t(1) _ t(4), of "''p_s''" u] t u s show ?thesis
    by auto
qed

text \<open>
  After \<open>_remove_unused_sessions\<close> every session with a plan is requested, so no pipeline of
  such a session can have ended.
\<close>

definition requests_keyed :: "(string, nxs_scheduling_request) dict \<Rightarrow> bool" where
  "requests_keyed d \<longleftrightarrow>
     (\<forall>(k, r) \<in> set d. CHR ''_'' \<notin> set (request_pipeline r) \<and>
        (\<exists>x. k = join_key (request_pipeline r) x))"

lemma pipelines_to_remove_subset:
  "p \<in> set (compute_pipeline_uuids_to_remove s) \<Longrightarrow>
     p \<notin> (\<lambda>x. request_pipeline (snd x)) ` set (current_requests_dict s)"
proof -
  have current: "set (foldl (\<lambda>acc (sess, r). add_new acc (request_pipeline r)) acc xs) =
      set acc \<union> (\<lambda>x. request_pipeline (snd x)) ` set xs"
    for acc and xs :: "(string \<times> nxs_scheduling_request) list"
    by (induction xs arbitrary: acc) (auto simp: add_new_def)
  have "set (foldl (\<lambda>acc (sess, r). if request_pipeline r \<notin> C then add_new acc (request_pipeline r)
      else acc) acc xs) \<subseteq> set acc \<union> - C"
    for acc C and xs :: "(string \<times> nxs_scheduling_request) list"
    by (rule foldl_invariant) (auto simp: add_new_def)
  from this [of "set (foldl (\<lambda>acc (sess, r). add_new acc (request_pipeline r)) []
      (current_requests_dict s))" "[]" "last_requests_dict s"] current [of "[]" "current_requests_dict s"]
  show "p \<in> set (compute_pipeline_uuids_to_remove s) \<Longrightarrow>
     p \<notin> (\<lambda>x. request_pipeline (snd x)) ` set (current_requests_dict s)"
    by (auto simp: compute_pipeline_uuids_to_remove_def Let_def)
qed

lemma cmodels_to_remove_none:
  assumes "requests_keyed (last_requests_dict s)" "requests_keyed (current_requests_dict s)"
    and "set (dkeys (scheduling_plans_dict s)) \<subseteq> set (dkeys (current_requests_dict s))"
    and "set gone \<subseteq> set (compute_pipeline_uuids_to_remove s)"
  shows "cmodels_to_remove s gone = Inr []"
proof -
  have skip: "sess \<notin> set (dkeys (scheduling_plans_dict s)) \<or> request_pipeline r \<notin> set gone"
    if in_last: "(sess, r) \<in> set (last_requests_dict s)" for sess r
  proof (rule ccontr)
    assume "\<not> ?thesis"
    then obtain r' where r': "(sess, r') \<in> set (current_requests_dict s)"
      and gone: "request_pipeline r \<in> set gone"
      using assms(3) by (auto simp: dkeys_def)
    obtain x y where "sess = join_key (request_pipeline r) x" "sess = join_key (request_pipeline r') y"
      "CHR ''_'' \<notin> set (request_pipeline r)" "CHR ''_'' \<notin> set (request_pipeline r')"
      using in_last r' assms(1,2) by (fastforce simp: requests_keyed_def)
    then have "request_pipeline r = request_pipeline r'"
      using join_key_inject by metis
    with pipelines_to_remove_subset gone assms(4) r' show False by force
  qed
  show ?thesis
    unfolding cmodels_to_remove_def Let_def
    by (subst foldE_idle) (use skip in \<open>auto simp: bindE_def\<close>)
qed

text \<open>in a round, \<open>_remove_unused_pipelines\<close> changes nothing: it runs after
  \<open>_remove_unused_sessions\<close>, which already removed every session that is not requested, and
  the keys it then pops from \<open>last_requests_dict\<close> are pipeline uuids, which are not keys of
  that dictionary (pipeline uuids contain no underscore).\<close>

theorem remove_unused_pipelines_idle:
  assumes "requests_keyed (last_requests_dict s)" "requests_keyed (current_requests_dict s)"
    and "set (dkeys (scheduling_plans_dict s)) \<subseteq> set (dkeys (current_requests_dict s))"
  shows "remove_unused_pipelines s = Inr s"
proof -
  let ?gone = "compute_pipeline_uuids_to_remove s"
  have none: "cmodels_to_remove s ?gone = Inr []"
    using cmodels_to_remove_none [OF assms] by simp
  have sess: "sessions_of_cmodels s [] = []"
    by (auto simp: sessions_of_cmodels_def intro!: foldl_idle)
  have pipe: "AList.delete (request_pipeline r) (last_requests_dict s) = last_requests_dict s"
    if "(k, r) \<in> set (last_requests_dict s)" for k r
  proof -
    have "CHR ''_'' \<notin> set (request_pipeline r)"
      using that assms(1) by (auto simp: requests_keyed_def)
    then have "request_pipeline r \<notin> set (dkeys (last_requests_dict s))"
      using assms(1) by (force simp: requests_keyed_def dkeys_def join_key_def)
    then show ?thesis by (simp add: dkeys_def delete_idem)
  qed
  have "foldE (\<lambda>d sess. bindE (dlookup d sess) (\<lambda>r.
                Inr (if request_pipeline r \<in> set ?gone
                     then AList.delete (request_pipeline r) d else d)))
           (last_requests_dict s) ks = Inr (last_requests_dict s)"
    if "set ks \<subseteq> set (dkeys (last_requests_dict s))" for ks
    using that
  proof (induction ks)
    case (Cons k ks)
    then obtain r where r: "map_of (last_requests_dict s) k = Some r"
      by (auto simp: in_dkeys_iff)
    with Cons pipe [of k r] show ?case
      by (auto simp: dlookup_def dest: map_of_SomeD)
  qed simp
  with none sess show ?thesis
    by (simp add: remove_unused_pipelines_def Let_def)
qed

theorem remove_unused_pipelines_idle_witness:
  "\<exists>s. bindE sample_round (\<lambda>(plan, t). remove_unused_sessions (begin_round t
       [sample_request ''q'' ''s'' [sample_cmodel ''a'' 10 6] 5] [sample_gpu_backend ''y'' 20])) = Inr s \<and>
     compute_pipeline_uuids_to_remove s = [''p''] \<and> remove_unused_pipelines s = Inr s"
proof -
  let ?m = "bindE sample_round (\<lambda>(plan, t). remove_unused_sessions (begin_round t
       [sample_request ''q'' ''s'' [sample_cmodel ''a'' 10 6] 5] [sample_gpu_backend ''y'' 20]))"
  have run: "bindE ?m (\<lambda>s. Inr (map (\<lambda>(k, r). (k, request_pipeline r)) (last_requests_dict s),
       map (\<lambda>(k, r). (k, request_pipeline r)) (current_requests_dict s), scheduling_plans_dict s,
       compute_pipeline_uuids_to_remove s))
    = Inr ([(''p_s'', ''p'')], [(''q_s'', ''q'')], [], [''p''])"
    by code_simp
  from run obtain s where s: "?m = Inr s"
    unfolding bindE_eq_Inr [of ?m] by blast
  have f: "map (\<lambda>(k, r). (k, request_pipeline r)) (last_requests_dict s) = [(''p_s'', ''p'')]"
    "map (\<lambda>(k, r). (k, request_pipeline r)) (current_requests_dict s) = [(''q_s'', ''q'')]"
    "scheduling_plans_dict s = []" "compute_pipeline_uuids_to_remove s = [''p'']"
    using run unfolding s by simp_all
  have "requests_keyed (last_requests_dict s)" "requests_keyed (current_requests_dict s)"
    using f(1,2) by (auto simp: requests_keyed_def join_key_def Cons_eq_map_conv)
  from remove_unused_pipelines_idle [OF this] f s show ?thesis by simp
qed

subsection \<open>Undeploying the last backend of a model\<close>

lemma remove_last_backend_first:
  assumes "map_of (scheduling_plans_dict s) sess = Some refs"
    and "find_first (\<lambda>a. cmodel_uuid c = model_at s a) refs = Some a"
    and "items_at s a = [BackendItem b]" "bp_backend_name b = bn"
  shows "\<exists>t. remove_cmodel_from_session c bn gen (s, found, rm) sess = Inr (t, True, rm @ [sess]) \<and>
    scheduling_plans_dict t = AList.update sess [] (scheduling_plans_dict s) \<and>
    map_of (scheduling_plans_dict t) = (map_of (scheduling_plans_dict s))(sess \<mapsto> []) \<and>
    model_at t = model_at s \<and>
    items_at t a = map StrayItem (filter (\<lambda>x. model_at s x \<noteq> model_at s a) refs)"
  using assms
  by (auto simp: remove_cmodel_from_session_def dlookup_def Let_def set_plans_def set_items_def
      dict_simps fun_eq_iff)

text \<open>when \<open>_remove_cmodel_from_backend\<close> takes the last backend from a session's plan for a
  model, the session loses its plans for all other models too, and the removed plan's list of
  backends is filled with those plans: they were meant for \<open>new_cmodel_plans\<close> but are
  appended to \<open>new_backend_plans\<close>. Reading such a plan later raises \<open>AttributeError\<close>.\<close>

theorem remove_last_backend_wipes_session:
  assumes "map_of (scheduling_plans_dict s) sess = Some refs"
    and "find_first (\<lambda>a. cmodel_uuid c = model_at s a) refs = Some a"
    and "items_at s a = [BackendItem b]" "bp_backend_name b = bn"
  shows "\<exists>t. remove_cmodel_from_session c bn gen (s, found, rm) sess = Inr (t, True, rm @ [sess]) \<and>
    dget (scheduling_plans_dict t) sess [] = [] \<and>
    items_at t a = map StrayItem (filter (\<lambda>x. model_at s x \<noteq> model_at s a) refs)"
  using remove_last_backend_first [OF assms, of gen found rm] by (auto simp: dict_simps)

text \<open>Two models in one session, the first on one backend only.\<close>

definition sample_two_models :: "policy result" where
  "sample_two_models = bindE (schedule init_policy
       [sample_request ''p'' ''s'' [sample_cmodel ''a'' 10 1, sample_cmodel ''b'' 10 1] 5]
       [sample_gpu_backend ''x'' 10]) (\<lambda>(plan, t). Inr t)"

theorem remove_last_backend_wipes_session_witness:
  "\<exists>s t. sample_two_models = Inr s \<and> map_of (scheduling_plans_dict s) ''p_s'' = Some [0, 1] \<and>
     remove_cmodel_from_session (sample_cmodel ''a'' 10 1) ''x'' True (s, False, []) ''p_s''
       = Inr (t, True, [''p_s'']) \<and>
     dget (scheduling_plans_dict t) ''p_s'' [] = [] \<and> items_at t 0 = [StrayItem 1]"
proof -
  have run: "bindE sample_two_models (\<lambda>s. Inr (map_of (scheduling_plans_dict s) ''p_s'',
      map (model_at s) [0, 1], map (map item_backend_name) (map (items_at s) [0, 1])))
    = Inr (Some [0, 1], [''a'', ''b''], [[Inr ''x''], [Inr ''x'']])"
    by code_simp
  then obtain s where s: "sample_two_models = Inr s"
    "map_of (scheduling_plans_dict s) ''p_s'' = Some [0, 1]"
    "model_at s 0 = ''a''" "model_at s 1 = ''b''" "map item_backend_name (items_at s 0) = [Inr ''x'']"
    by (auto simp: bindE_eq_Inr)
  from s(5) obtain b where b: "items_at s 0 = [BackendItem b]" "bp_backend_name b = ''x''"
    by (auto simp: map_eq_Cons_conv item_backend_name_eq_Inr)
  have first: "find_first (\<lambda>a. cmodel_uuid (sample_cmodel ''a'' 10 1) = model_at s a) [0, 1] = Some 0"
    using s(3) by (simp add: sample_cmodel_def sample_model_def)
  from remove_last_backend_wipes_session [OF s(2) first b, of True False "[]"] s show ?thesis
    by auto
qed

text \<open>the policy can fail in normal operation. When two sessions share the plan object of a
  model (as sessions of a new pipeline do with a model that already runs), the model runs on
  one backend only and the first session also uses another model, then undeploying the model
  raises \<open>AttributeError\<close>: the first session turns the shared plan's list of backends into
  stray plans, and the second reads \<open>backend_name\<close> of one of them.\<close>

theorem shared_plan_removal_raises:
  assumes "scheduling_plans_dict s = [(k1, r1), (k2, r2)]" "k1 \<noteq> k2"
    and "find_first (\<lambda>a. cmodel_uuid c = model_at s a) r1 = Some a"
    and "find_first (\<lambda>a. cmodel_uuid c = model_at s a) r2 = Some a"
    and "items_at s a = [BackendItem b]" "bp_backend_name b = bn"
    and "x \<in> set r1" "model_at s x \<noteq> model_at s a"
  shows "remove_cmodel_from_backend s c bn gen = Inl AttributeError"
proof -
  have "map_of (scheduling_plans_dict s) k1 = Some r1" using assms(1) by simp
  from remove_last_backend_first [OF this assms(3,5,6), of gen False "[]"] obtain t where
    t: "remove_cmodel_from_session c bn gen (s, False, []) k1 = Inr (t, True, [k1])"
    "items_at t a = map StrayItem (filter (\<lambda>x. model_at s x \<noteq> model_at s a) r1)"
    "map_of (scheduling_plans_dict t) k2 = Some r2" "model_at t = model_at s"
    using assms(1,2) by fastforce
  from assms(7,8) obtain y ys where "items_at t a = StrayItem y # ys"
    unfolding t(2) by (cases "filter (\<lambda>x. model_at s x \<noteq> model_at s a) r1")
      (auto simp: filter_empty_conv)
  then have "remove_cmodel_from_session c bn gen (t, True, [k1]) k2 = Inl AttributeError"
    using t(3) assms(4)
    by (simp add: remove_cmodel_from_session_def dlookup_def fun_cong [OF t(4)])
  with t(1) assms(1) show ?thesis
    by (simp add: remove_cmodel_from_backend_def)
qed

definition sample_shared :: policy where
  "sample_shared = init_policy\<lparr>
     scheduling_plans_dict := [(''q_t'', [1, 0]), (''q_u'', [2, 0])],
     plan_heap := (plan_heap init_policy)(
       0 := \<lparr>cp_model_uuid = ''a'', cp_session_uuid = ''p_s'', cp_backend_plans = [BackendItem
         \<lparr>bp_backend_name = ''x'', bp_component_models_plan = [], bp_duty_cycle = 1,
          bp_extra_info = ''''\<rparr>]\<rparr>,
       1 := \<lparr>cp_model_uuid = ''b'', cp_session_uuid = ''q_t'', cp_backend_plans = []\<rparr>,
       2 := \<lparr>cp_model_uuid = ''b'', cp_session_uuid = ''q_u'', cp_backend_plans = []\<rparr>),
     next_ref := 3\<rparr>"

theorem shared_plan_removal_raises_witness:
  "remove_cmodel_from_backend sample_shared (sample_cmodel ''a'' 10 1) ''x'' True = Inl AttributeError"
proof -
  have items: "items_at sample_shared 0 = [BackendItem
         \<lparr>bp_backend_name = ''x'', bp_component_models_plan = [], bp_duty_cycle = 1,
          bp_extra_info = ''''\<rparr>]"
    by (simp add: sample_shared_def)
  show ?thesis
    by (rule shared_plan_removal_raises [OF _ _ _ _ items, of "''q_t''" "[1, 0]" "''q_u''" "[2, 0]" _ _ 1])
      (simp_all add: sample_shared_def sample_cmodel_def sample_model_def)
qed

subsection \<open>Session names\<close>

text \<open>the session name in the message is the one of the request exactly when it contains no
  underscore: the policy prefixes the pipeline's uuid and an underscore, and strips
  everything up to the last underscore.\<close>

theorem short_session_qualified:
  "short_session (sr_session_uuid (qualify_request r)) = sr_session_uuid r \<longleftrightarrow>
     CHR ''_'' \<notin> set (sr_session_uuid r)"
  by (simp add: short_session_def qualify_request_def last_split_join_key_iff)

subsection \<open>Profiles\<close>

lemma get_best_profile_fold:
  fixes ps :: "profile_unit list"
  shows "case foldl (\<lambda>(fps, best) pu. if pu_fps pu > fps then (pu_fps pu, Some pu) else (fps, best))
      (0, None) ps of
    (fps, None) \<Rightarrow> fps = 0 \<and> (\<forall>q \<in> set ps. pu_fps q \<le> 0)
  | (fps, Some p) \<Rightarrow> fps = pu_fps p \<and> 0 < fps \<and> p \<in> set ps \<and> (\<forall>q \<in> set ps. pu_fps q \<le> fps) \<and>
      find_first (\<lambda>q. pu_fps q = fps) ps = Some p"
proof (induction ps rule: rev_induct)
  case (snoc p ps)
  have app: "find_first f (ps @ [p]) = (case find_first f ps of None \<Rightarrow> if f p then Some p else None
      | Some x \<Rightarrow> Some x)" for f
    by (induction ps) auto
  show ?case
    using snoc
    by (auto simp: app find_first_None split: prod.splits option.splits dest: order.trans)
      (force simp: find_first_None dest: find_first_Some)+
qed simp

text \<open>\<open>_get_best_profile\<close> returns the first of the profile's entries with the highest
  frame rate, and none exactly when no entry has a positive one.\<close>

theorem get_best_profile_spec:
  "case get_best_profile m of
     None \<Rightarrow> list_all (\<lambda>q. pu_fps q \<le> 0) (bm_profile m)
   | Some p \<Rightarrow> 0 < pu_fps p \<and> list_all (\<lambda>q. pu_fps q \<le> pu_fps p) (bm_profile m) \<and>
       find_first (\<lambda>q. pu_fps q = pu_fps p) (bm_profile m) = Some p"
  using get_best_profile_fold [of "bm_profile m"]
  by (auto simp: get_best_profile_def list_all_iff split: prod.splits option.splits)

subsection \<open>Unscheduling\<close>

text \<open>the unscheduling part of the message says exactly what the policy recorded in the
  round: for every backend and model it lists the recorded sessions in order, and each
  backend occurs once. In particular the conversion cannot fail.\<close>

theorem schedule_reports_unscheduling:
  assumes "schedule s rs bs = Inr (plan, t)"
  shows "unplanned_sessions (sp_unscheduling plan) bn m =
      sessions_on (undeployments (concat (map snd (unscheduling_plans_dict t)))) bn m \<and>
    distinct (map ubp_backend_name (sp_unscheduling plan))"
proof -
  have "sp_unscheduling plan =
      map snd (convert_unscheduling_plans (concat (map snd (unscheduling_plans_dict t))))"
    using assms by (auto simp: schedule_def end_round_def Let_def bindE_eq_Inr)
  then show ?thesis
    using convert_unscheduling_plans_spec
      [where us = "concat (map snd (unscheduling_plans_dict t))"] by simp
qed

theorem schedule_reports_unscheduling_witness:
  "\<exists>plan t. sample_round = Inr (plan, t) \<and> unplanned_sessions (sp_unscheduling plan) ''y'' ''a'' =
      sessions_on (undeployments (concat (map snd (unscheduling_plans_dict t)))) ''y'' ''a''"
proof -
  obtain plan t where r: "schedule init_policy
     [sample_request ''p'' ''s'' [sample_cmodel ''a'' 10 6] 5]
     [sample_gpu_backend ''x'' 10, sample_gpu_backend ''y'' 20] = Inr (plan, t)"
    "sample_round = Inr (plan, t)" by (rule sample_round_returns)
  from schedule_reports_unscheduling [OF r(1)] r(2) show ?thesis by blast
qed

subsection \<open>Counting the backends of a model\<close>

text \<open>The (model, backend) pairs of the plans, in the order in which \<open>_scale_sessions\<close> meets them.\<close>

definition plan_pairs :: "policy \<Rightarrow> nat \<Rightarrow> plan_item list \<Rightarrow> (string \<times> string) list" where
  "plan_pairs s a its =
     concat (map (\<lambda>it. case it of BackendItem b \<Rightarrow> [(model_at s a, bp_backend_name b)]
                                | StrayItem _ \<Rightarrow> []) its)"

definition scan_inv ::
    "policy \<Rightarrow> nat list \<Rightarrow> (string \<times> string) list \<Rightarrow> scaling \<Rightarrow> bool" where
  "scan_inv s as ps d \<longleftrightarrow>
     set (sc_counted d) = (\<lambda>(m, n). join_key m n) ` set ps \<and>
     set (dkeys (sc_scheduled d)) = model_at s ` set as \<and>
     (\<forall>m \<in> model_at s ` set as. \<exists>c fps.
        map_of (cmodels_dict s) m = Some c \<and> cmodel_fps c = Inr fps \<and>
        map_of (sc_fps d) m = Some fps \<and>
        map_of (sc_scheduled d) m = Some (of_nat (card {n. (m, n) \<in> set ps}) * fps)) \<and>
     set (dkeys (sc_fps d)) = model_at s ` set as \<and> fst ` set ps \<subseteq> model_at s ` set as"

lemma scan_inv_capacity:
  assumes "scan_inv s as ps d" "m \<in> model_at s ` set as"
  shows "\<exists>c fps. map_of (cmodels_dict s) m = Some c \<and> cmodel_fps c = Inr fps \<and>
    map_of (sc_fps d) m = Some fps \<and>
    map_of (sc_scheduled d) m = Some (of_nat (card {n. (m, n) \<in> set ps}) * fps)"
  using assms unfolding scan_inv_def by blast

lemma finite_snd [simp]: "finite {n. (m, n) \<in> set ps}"
  by (rule finite_subset [of _ "snd ` set ps"]) force+

lemma scan_plan_inv:
  assumes inv: "scan_inv s as ps d" and scan: "scan_plan s sess d a = Inr d'"
    and names: "\<forall>b \<in> set (a # as). CHR ''_'' \<notin> set (model_at s b)"
  shows "scan_inv s (as @ [a]) (ps @ plan_pairs s a (items_at s a)) d'"
proof -
  let ?m = "model_at s a"
  define c_step where "c_step = (\<lambda>fps d it. bindE (item_backend_name it) (\<lambda>n.
               let key = join_key ?m n in
               Inr (if key \<in> set (sc_counted d) then d
                    else d\<lparr>sc_counted := sc_counted d @ [key],
                           sc_scheduled := dict_add (sc_scheduled d) ?m fps\<rparr>)) ::
      scaling result)"
  from scan obtain c fps where c: "map_of (cmodels_dict s) ?m = Some c" "cmodel_fps c = Inr fps"
    and loop: "foldE (c_step fps) (d\<lparr>sc_sessions := AList.update ?m
          (add_new (dget (sc_sessions d) ?m []) sess) (sc_sessions d),
        sc_fps := (if ?m \<in> set (dkeys (sc_fps d)) then sc_fps d
                   else AList.update ?m fps (sc_fps d)),
        sc_scheduled := dict_add (sc_scheduled d) ?m 0\<rparr>) (items_at s a) = Inr d'"
    unfolding scan_plan_def Let_def bindE_eq_Inr dlookup_eq_Inr c_step_def by blast
  define d1 where "d1 = d\<lparr>sc_sessions := AList.update ?m
          (add_new (dget (sc_sessions d) ?m []) sess) (sc_sessions d),
        sc_fps := (if ?m \<in> set (dkeys (sc_fps d)) then sc_fps d
                   else AList.update ?m fps (sc_fps d)),
        sc_scheduled := dict_add (sc_scheduled d) ?m 0\<rparr>"
  have start: "scan_inv s (as @ [a]) ps d1"
  proof (cases "?m \<in> model_at s ` set as")
    case True
    with inv c have "map_of (sc_scheduled d) ?m = Some (of_nat (card {n. (?m, n) \<in> set ps}) * fps)"
      "?m \<in> set (dkeys (sc_fps d))" "?m \<in> set (dkeys (sc_scheduled d))"
      by (auto simp: scan_inv_def)
    then have "map_of (sc_scheduled d1) = map_of (sc_scheduled d)" "sc_fps d1 = sc_fps d"
      "dkeys (sc_scheduled d1) = dkeys (sc_scheduled d)" "sc_counted d1 = sc_counted d"
      by (simp_all add: d1_def dict_add_def dget_def map_of_update dkeys_update fun_upd_idem)
    moreover have "model_at s ` set (as @ [a]) = model_at s ` set as"
      using True by auto
    ultimately show ?thesis
      using inv unfolding scan_inv_def by presburger
  next
    case False
    from inv have "fst ` set ps \<subseteq> model_at s ` set as"
      "set (dkeys (sc_scheduled d)) = model_at s ` set as"
      "set (dkeys (sc_fps d)) = model_at s ` set as"
      unfolding scan_inv_def by blast+
    note sub = this
    have "(?m, n) \<notin> set ps" for n
      using False subsetD [OF sub(1), of ?m] by (metis fst_conv image_eqI)
    then have none: "{n. (?m, n) \<in> set ps} = {}" "?m \<notin> set (dkeys (sc_scheduled d))"
      "?m \<notin> set (dkeys (sc_fps d))"
      unfolding sub(2,3) using False by blast+
    then have none_map: "map_of (sc_scheduled d) ?m = None" by (simp add: notin_dkeys_iff)
    have d1: "map_of (sc_scheduled d1) = (map_of (sc_scheduled d))(?m \<mapsto> 0)"
      "map_of (sc_fps d1) = (map_of (sc_fps d))(?m \<mapsto> fps)" "sc_counted d1 = sc_counted d"
      "set (dkeys (sc_scheduled d1)) = insert ?m (set (dkeys (sc_scheduled d)))"
      "set (dkeys (sc_fps d1)) = insert ?m (set (dkeys (sc_fps d)))"
      using none_map none(2,3)
      by (simp_all add: d1_def dict_add_def dget_def map_of_update dkeys_update)
    have img: "model_at s ` set (as @ [a]) = insert ?m (model_at s ` set as)" by simp
    show ?thesis
      unfolding scan_inv_def d1 img
    proof (intro conjI ballI)
      fix m assume "m \<in> insert ?m (model_at s ` set as)"
      then consider "m = ?m" | "m \<noteq> ?m" "m \<in> model_at s ` set as" by blast
      then show "\<exists>c fps'. map_of (cmodels_dict s) m = Some c \<and> cmodel_fps c = Inr fps' \<and>
          ((map_of (sc_fps d))(?m \<mapsto> fps)) m = Some fps' \<and>
          ((map_of (sc_scheduled d))(?m \<mapsto> 0)) m = Some (of_nat (card {n. (m, n) \<in> set ps}) * fps')"
      proof cases
        case 1
        with none(1) c show ?thesis by simp
      next
        case 2
        from inv 2(2) obtain c' fps' where "map_of (cmodels_dict s) m = Some c'"
          "cmodel_fps c' = Inr fps'" "map_of (sc_fps d) m = Some fps'"
          "map_of (sc_scheduled d) m = Some (of_nat (card {n. (m, n) \<in> set ps}) * fps')"
          unfolding scan_inv_def by blast
        with 2(1) show ?thesis by simp
      qed
    qed (use inv in \<open>auto simp: scan_inv_def\<close>)
  qed
  have step: "scan_inv s (as @ [a]) (qs @ plan_pairs s a [it]) e'"
    if e: "scan_inv s (as @ [a]) qs e" "c_step fps e it = Inr e'" for qs it e e'
  proof -
    from e(2) obtain b where it: "it = BackendItem b" by (auto simp: c_step_def result_simps)
    let ?n = "bp_backend_name b"
    have seen: "join_key ?m ?n \<in> set (sc_counted e) \<longleftrightarrow> (?m, ?n) \<in> set qs"
    proof -
      have "fst ` set qs \<subseteq> model_at s ` set (as @ [a])" using e(1) by (simp add: scan_inv_def)
      then have "CHR ''_'' \<notin> set m" if "(m, n) \<in> set qs" for m n
        using names that by force
      moreover have "CHR ''_'' \<notin> set ?m" using names by simp
      ultimately have "(m, n) \<in> set qs \<Longrightarrow> join_key ?m ?n = join_key m n \<longleftrightarrow> ?m = m \<and> ?n = n" for m n
        by (simp add: join_key_inject)
      moreover have "join_key ?m ?n \<in> set (sc_counted e) \<longleftrightarrow>
          (\<exists>(m, n) \<in> set qs. join_key ?m ?n = join_key m n)"
        using e(1) by (auto simp: scan_inv_def)
      ultimately show ?thesis by blast
    qed
    show ?thesis
    proof (cases "(?m, ?n) \<in> set qs")
      case True
      then have "e' = e" using e(2) seen by (simp add: c_step_def it)
      have "set (qs @ plan_pairs s a [it]) = set qs"
        using True by (auto simp: plan_pairs_def it)
      with e(1) show ?thesis by (simp add: scan_inv_def \<open>e' = e\<close> del: set_append)
    next
      case False
      then have e': "e' = e\<lparr>sc_counted := sc_counted e @ [join_key ?m ?n],
          sc_scheduled := dict_add (sc_scheduled e) ?m fps\<rparr>"
        using e(2) seen by (simp add: c_step_def it)
      have pairs: "set (qs @ plan_pairs s a [it]) = insert (?m, ?n) (set qs)"
        by (simp add: plan_pairs_def it)
      have card: "card {n. (?m, n) \<in> insert (?m, ?n) (set qs)} = Suc (card {n. (?m, n) \<in> set qs})"
      proof -
        have "{n. (?m, n) \<in> insert (?m, ?n) (set qs)} = insert ?n {n. (?m, n) \<in> set qs}" by auto
        with False show ?thesis by simp
      qed
      have other: "{n. (m, n) \<in> insert (?m, ?n) (set qs)} = {n. (m, n) \<in> set qs}" if "m \<noteq> ?m" for m
        using that by auto
      have m: "map_of (sc_scheduled e) ?m = Some (of_nat (card {n. (?m, n) \<in> set qs}) * fps)"
        "?m \<in> set (dkeys (sc_scheduled e))"
        using e(1) c by (auto simp: scan_inv_def)
      have sched: "map_of (dict_add (sc_scheduled e) ?m fps) =
          (map_of (sc_scheduled e))(?m \<mapsto> of_nat (Suc (card {n. (?m, n) \<in> set qs})) * fps)"
        using m by (simp add: dict_add_def dget_def map_of_update algebra_simps)
      have keys: "dkeys (dict_add (sc_scheduled e) ?m fps) = dkeys (sc_scheduled e)"
        using m(2) by (simp add: dict_add_def dkeys_update)
      show ?thesis
        unfolding scan_inv_def pairs
      proof (intro conjI ballI)
        fix m assume "m \<in> model_at s ` set (as @ [a])"
        with e(1) show "\<exists>c fps. map_of (cmodels_dict s) m = Some c \<and> cmodel_fps c = Inr fps \<and>
            map_of (sc_fps e') m = Some fps \<and>
            map_of (sc_scheduled e') m =
              Some (of_nat (card {n. (m, n) \<in> insert (?m, ?n) (set qs)}) * fps)"
          using c card other [of m] by (auto simp: scan_inv_def e' sched)
      qed (use e(1) keys in \<open>auto simp: scan_inv_def e'\<close>)
    qed
  qed
  have "scan_inv s (as @ [a]) (ps @ plan_pairs s a (items_at s a)) d'"
    using loop [folded d1_def]
  proof (rule foldE_prefix [where P = "\<lambda>its. scan_inv s (as @ [a]) (ps @ plan_pairs s a its)"])
    fix its it e e' assume "scan_inv s (as @ [a]) (ps @ plan_pairs s a its) e" "c_step fps e it = Inr e'"
    from step [OF this] show "scan_inv s (as @ [a]) (ps @ plan_pairs s a (its @ [it])) e'"
      by (simp add: plan_pairs_def)
  qed (simp add: plan_pairs_def start)
  then show ?thesis .
qed

definition serving_backends :: "policy \<Rightarrow> string \<Rightarrow> string set" where
  "serving_backends s m = {bn. serves s m bn}"

lemma plan_pairs_mem:
  "(m, n) \<in> set (plan_pairs s a its) \<longleftrightarrow> m = model_at s a \<and> n \<in> items_names its"
proof (induction its)
  case (Cons it its)
  then show ?case by (cases it) (auto simp: plan_pairs_def)
qed (simp add: plan_pairs_def)

lemma scan_plans_inv:
  assumes "scan_plans s = Inr d" "\<forall>a \<in> plan_refs s. CHR ''_'' \<notin> set (model_at s a)"
  shows "scan_inv s (concat (map snd (scheduling_plans_dict s)))
    (concat (map (\<lambda>a. plan_pairs s a (items_at s a)) (concat (map snd (scheduling_plans_dict s))))) d"
proof -
  let ?pairs = "\<lambda>as. concat (map (\<lambda>a. plan_pairs s a (items_at s a)) as)"
  have flat: "foldE (\<lambda>d (sess, a). scan_plan s sess d a)
      \<lparr>sc_sessions = [], sc_fps = [], sc_scheduled = [], sc_counted = []\<rparr>
      (concat (map (\<lambda>p. map (Pair (fst p)) (snd p)) (scheduling_plans_dict s))) = Inr d"
  proof -
    have "foldE (\<lambda>d (sess, refs). foldE (scan_plan s sess) d refs) z ps =
        foldE (\<lambda>d (sess, a). scan_plan s sess d a) z (concat (map (\<lambda>p. map (Pair (fst p)) (snd p)) ps))"
      for z ps
    proof (induction ps arbitrary: z)
      case (Cons p ps)
      have "foldE (scan_plan s sess) z refs = foldE (\<lambda>d (sess, a). scan_plan s sess d a) z (map (Pair sess) refs)"
        for sess refs z
        by (induction refs arbitrary: z) simp_all
      with Cons show ?case by (cases p) (simp add: foldE_append)
    qed simp
    with assms(1) show ?thesis by (simp add: scan_plans_def)
  qed
  have "\<forall>x \<in> set xs. CHR ''_'' \<notin> set (model_at s (snd x)) \<Longrightarrow>
      foldE (\<lambda>d (sess, a). scan_plan s sess d a)
      \<lparr>sc_sessions = [], sc_fps = [], sc_scheduled = [], sc_counted = []\<rparr> xs = Inr d \<Longrightarrow>
      scan_inv s (map snd xs) (?pairs (map snd xs)) d" for xs :: "(string \<times> nat) list"
  proof -
    assume names: "\<forall>x \<in> set xs. CHR ''_'' \<notin> set (model_at s (snd x))"
      and run: "foldE (\<lambda>d (sess, a). scan_plan s sess d a)
        \<lparr>sc_sessions = [], sc_fps = [], sc_scheduled = [], sc_counted = []\<rparr> xs = Inr d"
    have "(\<forall>x \<in> set xs. CHR ''_'' \<notin> set (model_at s (snd x))) \<longrightarrow>
        scan_inv s (map snd xs) (?pairs (map snd xs)) d"
      using run
    proof (rule foldE_prefix)
      fix ys :: "(string \<times> nat) list" and x e e'
      assume x: "x \<in> set xs" and ys: "(\<forall>x \<in> set ys. CHR ''_'' \<notin> set (model_at s (snd x))) \<longrightarrow>
          scan_inv s (map snd ys) (?pairs (map snd ys)) e"
        and st: "(case x of (sess, a) \<Rightarrow> scan_plan s sess e a) = Inr e'"
      show "(\<forall>x \<in> set (ys @ [x]). CHR ''_'' \<notin> set (model_at s (snd x))) \<longrightarrow>
          scan_inv s (map snd (ys @ [x])) (?pairs (map snd (ys @ [x]))) e'"
      proof
        assume n: "\<forall>x \<in> set (ys @ [x]). CHR ''_'' \<notin> set (model_at s (snd x))"
        have "scan_plan s (fst x) e (snd x) = Inr e'" using st by (cases x) simp
        from scan_plan_inv [OF _ this, of "map snd ys" "?pairs (map snd ys)"] ys n
        show "scan_inv s (map snd (ys @ [x])) (?pairs (map snd (ys @ [x]))) e'"
          by simp
      qed
    qed (simp add: scan_inv_def)
    with names show ?thesis by blast
  qed
  from this [OF _ flat] have "scan_inv s
      (map snd (concat (map (\<lambda>p. map (Pair (fst p)) (snd p)) (scheduling_plans_dict s))))
      (?pairs (map snd (concat (map (\<lambda>p. map (Pair (fst p)) (snd p)) (scheduling_plans_dict s))))) d"
    using assms(2) by (auto simp: plan_refs_def)
  moreover have "map snd (concat (map (\<lambda>p. map (Pair (fst p)) (snd p)) ps)) = concat (map snd ps)"
    for ps :: "(string, nat list) dict"
    by (induction ps) (simp_all add: comp_def)
  ultimately show ?thesis by simp
qed

text \<open>for every model with a plan, the scaling phase counts as its capacity the frame rate
  of one replica times the number of distinct backends that serve it, however many sessions
  and shared plan objects name the same backend (model uuids contain no underscore, so the
  keys \<open>model_backend\<close> do not clash).\<close>

theorem scan_counts_backends:
  assumes "scan_plans s = Inr d" "\<forall>a \<in> plan_refs s. CHR ''_'' \<notin> set (model_at s a)"
    and "a \<in> plan_refs s" "m = model_at s a"
  shows "\<exists>c fps. map_of (cmodels_dict s) m = Some c \<and> cmodel_fps c = Inr fps \<and>
    map_of (sc_fps d) m = Some fps \<and>
    map_of (sc_scheduled d) m = Some (of_nat (card (serving_backends s m)) * fps)"
proof -
  let ?as = "concat (map snd (scheduling_plans_dict s))"
  let ?ps = "concat (map (\<lambda>a. plan_pairs s a (items_at s a)) ?as)"
  have refs: "set ?as = plan_refs s" by (simp add: plan_refs_def)
  have "set ?ps = (\<Union>a \<in> set ?as. set (plan_pairs s a (items_at s a)))"
    by auto
  then have "{n. (m, n) \<in> set ?ps} = serving_backends s m"
    unfolding serving_backends_def serves_def refs by (auto simp: plan_pairs_mem)
  moreover have m: "m \<in> model_at s ` set ?as"
    using assms(3,4) unfolding refs by blast
  ultimately show ?thesis
    using scan_inv_capacity [OF scan_plans_inv [OF assms(1,2)] m] by simp
qed

theorem scan_counts_backends_witness:
  "bindE (scan_plans (sample_shared\<lparr>cmodels_dict :=
       [(''a'', sample_cmodel ''a'' 10 1), (''b'', sample_cmodel ''b'' 10 1)]\<rparr>))
     (\<lambda>d. Inr (map_of (sc_scheduled d) ''a'')) = Inr (Some 10)"
    (is "bindE (scan_plans ?s) _ = _")
proof -
  have "bindE (scan_plans ?s) (\<lambda>d. Inr ()) = Inr ()" by code_simp
  then obtain d where d: "scan_plans ?s = Inr d" by (auto simp: bindE_eq_Inr)
  have refs: "plan_refs ?s = {0, 1, 2}" by (auto simp: plan_refs_def sample_shared_def)
  have models: "model_at sample_shared 0 = ''a''" "model_at sample_shared 1 = ''b''"
    "model_at sample_shared 2 = ''b''" "model_at sample_shared (Suc 0) = ''b''"
    "items_names (items_at sample_shared 0) = {''x''}"
    by (simp_all add: sample_shared_def)
  have "serving_backends ?s ''a'' = {''x''}"
    unfolding serving_backends_def serves_def refs by (simp add: models)
  moreover have "cmodel_fps (sample_cmodel ''a'' 10 1) = Inr 10" by code_simp
  moreover have "\<exists>c fps. map_of (cmodels_dict ?s) ''a'' = Some c \<and> cmodel_fps c = Inr fps \<and>
      map_of (sc_fps d) ''a'' = Some fps \<and>
      map_of (sc_scheduled d) ''a'' = Some (of_nat (card (serving_backends ?s ''a'')) * fps)"
    by (rule scan_counts_backends [OF d, of 0]) (unfold refs, simp_all add: models)
  ultimately show ?thesis using d by simp
qed

end
