(* ===== verification/Nxs_Workload.thy ===== *)
theory Nxs_Workload
  imports Nxs_Types
begin

section \<open>The workload manager (\<open>nxs_libs/interface/workload_manager/\<close>)\<close>

text \<open>
  Frontends report the workloads they see; the manager sums the reports of a sliding window
  per pipeline and session and tells the scheduler. \<open>time.time()\<close> is a parameter: the
  sequence \<open>now\<close> of the readings, of which the state counts how many were taken, so that the
  several readings within one call are distinct. Logging has no effect on the state.
\<close>

subsection \<open>State\<close>

record workload_args =
  wa_model_timeout_secs :: rat
  wa_enable_instant_scheduling :: bool
  wa_report_workloads_interval :: rat

record workload_policy =
  uuid2throughput :: "(string, rat list) dict"
  uuid2timestamps :: "(string, rat list) dict"
  pinned_workloads :: "(string, rat) dict"
  wp_t0 :: rat
  clock_reads :: nat

type_synonym clock = "nat \<Rightarrow> rat"

definition init_workload_policy :: "clock \<Rightarrow> workload_policy" where
  "init_workload_policy now = \<lparr>uuid2throughput = [], uuid2timestamps = [], pinned_workloads = [],
     wp_t0 = now 0, clock_reads = 1\<rparr>"

text \<open>One reading of the clock.\<close>

definition tick :: "workload_policy \<Rightarrow> workload_policy" where
  "tick s = s\<lparr>clock_reads := Suc (clock_reads s)\<rparr>"

subsection \<open>Reports\<close>

definition workload_uuid :: "workload_report \<Rightarrow> string" where
  "workload_uuid w = join_key (wr_pipeline_uuid w) (wr_session_uuid w)"

definition add_workload ::
    "clock \<Rightarrow> workload_policy \<Rightarrow> workload_report \<Rightarrow> (bool \<times> workload_policy) result" where
  "add_workload now s w =
     (let u = workload_uuid w;
          is_new = u \<notin> set (dkeys (uuid2throughput s));
          s1 = (if is_new
                then s\<lparr>uuid2throughput := AList.update u [] (uuid2throughput s),
                       uuid2timestamps := AList.update u [] (uuid2timestamps s)\<rparr>
                else s)
      in bindE (dlookup (uuid2throughput s1) u) (\<lambda>fs.
         bindE (dlookup (uuid2timestamps s1) u) (\<lambda>ts.
           Inr (is_new, tick (s1\<lparr>
             uuid2throughput := AList.update u (fs @ [wr_fps w]) (uuid2throughput s1),
             uuid2timestamps := AList.update u (ts @ [now (clock_reads s1)])
                                  (uuid2timestamps s1)\<rparr>)))))"

text \<open>
  The loop of \<open>_remove_expired\<close> over \<open>range(len(timestamps))\<close>: it reads the clock, stops at
  the first report that is young enough, and pops the oldest report from both lists.
  Returns the number of clock readings and the two lists.
\<close>

fun drop_expired ::
    "clock \<Rightarrow> rat \<Rightarrow> nat \<Rightarrow> rat list \<Rightarrow> rat list \<Rightarrow> (nat \<times> rat list \<times> rat list) result" where
  "drop_expired now timeout i [] fs = Inr (i, [], fs)"
| "drop_expired now timeout i (t # ts) fs =
     (if now i - t < timeout then Inr (Suc i, t # ts, fs)
      else case fs of
             [] \<Rightarrow> Inl IndexError
           | _ # fs' \<Rightarrow> drop_expired now timeout (Suc i) ts fs')"

definition remove_expired_uuid ::
    "clock \<Rightarrow> workload_args \<Rightarrow> workload_policy \<Rightarrow> string \<Rightarrow> workload_policy result" where
  "remove_expired_uuid now args s u =
     (let ts = dget (uuid2timestamps s) u [] in
      bindE (dlookup (uuid2throughput s) u) (\<lambda>fs.
      bindE (drop_expired now (wa_model_timeout_secs args) (clock_reads s) ts fs) (\<lambda>(i, ts', fs').
        let s1 = s\<lparr>clock_reads := i,
                   uuid2throughput := AList.update u fs' (uuid2throughput s),
                   uuid2timestamps := AList.update u ts' (uuid2timestamps s)\<rparr>
        in if fs' \<noteq> [] then Inr s1
           else bindE (dpop (uuid2throughput s1) u) (\<lambda>tp.
                bindE (dpop (uuid2timestamps s1) u) (\<lambda>tt.
                  Inr (s1\<lparr>uuid2throughput := tp, uuid2timestamps := tt\<rparr>))))))"

definition remove_expired ::
    "clock \<Rightarrow> workload_args \<Rightarrow> workload_policy \<Rightarrow> workload_policy result" where
  "remove_expired now args s =
     foldE (remove_expired_uuid now args) s (dkeys (uuid2throughput s))"

definition get_workloads ::
    "clock \<Rightarrow> workload_args \<Rightarrow> workload_policy \<Rightarrow> ((string, rat) dict \<times> workload_policy) result" where
  "get_workloads now args s0 =
     bindE (remove_expired now args s0) (\<lambda>s1.
       foldE (\<lambda>(dat, s) (u, fs).
           let fps = sum_list fs in
           if fps > 0
           then bindE (dlookup (uuid2timestamps s) u) (\<lambda>ts.
                case ts of
                  [] \<Rightarrow> Inl IndexError
                | t # _ \<Rightarrow>
                    let duration = max 1 (now (clock_reads s) - t)
                    in Inr (AList.update u (fps / duration) dat, tick s))
           else Inr (dat, s))
         ([], s1) (uuid2throughput s1))"

subsection \<open>Messages to the scheduler\<close>

text \<open>\<open>pipeline_uuid, session_uuid = uuid.split("_")\<close>: raises unless there are two parts.\<close>

definition split_workload_uuid :: "string \<Rightarrow> (string \<times> string) result" where
  "split_workload_uuid u =
     (case split_on CHR ''_'' u of [p, sess] \<Rightarrow> Inr (p, sess) | _ \<Rightarrow> Inl ValueError)"

definition add_rates :: "(string, rat) dict \<Rightarrow> (string, rat) dict \<Rightarrow> (string, rat) dict" where
  "add_rates d e = foldl (\<lambda>d (u, fps). AList.update u (dget d u 0 + fps) d) d e"

definition generate_scheduling_msgs ::
    "clock \<Rightarrow> workload_args \<Rightarrow> workload_policy \<Rightarrow> (workload_report list \<times> workload_policy) result" where
  "generate_scheduling_msgs now args s =
     bindE (get_workloads now args s) (\<lambda>(rates, s1).
       let workloads = add_rates (add_rates [] rates) (pinned_workloads s1)
       in bindE (mapE (\<lambda>(u, fps). bindE (split_workload_uuid u) (\<lambda>(p, sess).
                    Inr \<lparr>wr_pipeline_uuid = p, wr_session_uuid = sess, wr_fps = fps,
                         wr_metadata = ''{}''\<rparr>)) workloads)
            (\<lambda>msgs. Inr (msgs, s1)))"

text \<open>
  One message of \<open>process_msgs\<close>. A \<open>NxsMsgRegisterWorkloads\<close> has the type of an input report
  but no field \<open>data\<close>.
\<close>

definition process_workload_msg ::
    "clock \<Rightarrow> workload_args \<Rightarrow> bool \<times> workload_policy \<Rightarrow> nxs_msg \<Rightarrow> (bool \<times> workload_policy) result"
  where
  "process_workload_msg now args = (\<lambda>(sched, s) msg.
     (case msg of
        MsgReportInputWorkloads r \<Rightarrow>
          foldE (\<lambda>(sched, s) w. bindE (add_workload now s w) (\<lambda>(is_new, s').
              Inr (sched \<or> (is_new \<and> wa_enable_instant_scheduling args), s')))
            (sched, s) (fw_workload_reports r)
      | MsgRegisterWorkloads _ \<Rightarrow> Inl AttributeError
      | MsgPinWorkload p sess fps \<Rightarrow>
          Inr (True, s\<lparr>pinned_workloads := AList.update (join_key p sess) fps (pinned_workloads s)\<rparr>)
      | MsgUnpinWorkload p sess \<Rightarrow>
          Inr (sched, s\<lparr>pinned_workloads := AList.delete (join_key p sess) (pinned_workloads s)\<rparr>)
      | _ \<Rightarrow> Inr (sched, s)))"

definition process_msgs ::
    "clock \<Rightarrow> workload_args \<Rightarrow> workload_policy \<Rightarrow> nxs_msg list \<Rightarrow>
     ((bool \<times> workload_report list) \<times> workload_policy) result" where
  "process_msgs now args s msgs =
     bindE (foldE (process_workload_msg now args) (False, s) msgs) (\<lambda>(sched, s1).
       let due = now (clock_reads s1) - wp_t0 s1 > wa_report_workloads_interval args;
           s2 = tick s1
       in if sched \<or> due
          then bindE (generate_scheduling_msgs now args s2) (\<lambda>(ms, s3).
                 Inr ((True, ms), tick (s3\<lparr>wp_t0 := now (clock_reads s3)\<rparr>)))
          else Inr ((False, []), s2))"

text \<open>
  One iteration of \<open>NxsWorkloadManager.run\<close>: the pushes, as (topic, message) pairs, that
  follow a \<open>pull\<close>.
\<close>

definition workload_manager_round ::
    "clock \<Rightarrow> workload_args \<Rightarrow> workload_policy \<Rightarrow> nxs_msg list \<Rightarrow>
     ((string \<times> nxs_msg) list \<times> workload_policy) result" where
  "workload_manager_round now args s msgs =
     bindE (process_msgs now args s msgs) (\<lambda>((to_schedule, ms), s').
       Inr (if to_schedule then [(SCHEDULER_QUEUE, MsgRegisterWorkloads ms)] else [], s'))"

end
