(* ===== verification/Nxs_Workload_Props.thy ===== *)
theory Nxs_Workload_Props
  imports Nxs_Workload
begin

section \<open>Properties of the workload manager\<close>

text \<open>
  The two dictionaries of the sliding window stay in step, the window is what the timeout
  says, the rate of a session is what its window holds, and the only exceptions are those of
  session names with underscores. A clock that does not go backwards is \<open>mono now\<close>.
\<close>

subsection \<open>The invariant of the window\<close>

definition window_ok :: "clock \<Rightarrow> nat \<Rightarrow> rat list \<Rightarrow> rat list \<Rightarrow> bool" where
  "window_ok now i fs ts \<longleftrightarrow>
     length ts = length fs \<and> fs \<noteq> [] \<and> sorted ts \<and> (\<forall>t \<in> set ts. t \<le> now i)"

definition workload_inv :: "clock \<Rightarrow> workload_policy \<Rightarrow> bool" where
  "workload_inv now s \<longleftrightarrow>
     dict_ok (uuid2throughput s) \<and> dkeys (uuid2timestamps s) = dkeys (uuid2throughput s) \<and>
     (\<forall>u fs ts. map_of (uuid2throughput s) u = Some fs \<longrightarrow> map_of (uuid2timestamps s) u = Some ts \<longrightarrow>
        window_ok now (clock_reads s) fs ts)"

lemma window_ok_later: "mono now \<Longrightarrow> window_ok now i fs ts \<Longrightarrow> i \<le> j \<Longrightarrow> window_ok now j fs ts"
  unfolding window_ok_def by (meson monoD order.trans)

lemma workload_inv_dict_ok: "workload_inv now s \<Longrightarrow> dict_ok (uuid2timestamps s)"
  by (simp add: workload_inv_def dict_ok_def)

text \<open>The windows of a session are there together.\<close>

lemma workload_inv_windows:
  assumes "workload_inv now s" "map_of (uuid2throughput s) u = Some fs"
  obtains ts where "map_of (uuid2timestamps s) u = Some ts" "window_ok now (clock_reads s) fs ts"
proof -
  have "u \<in> set (dkeys (uuid2throughput s))"
    using assms(2) by (auto simp: in_dkeys_iff)
  then have "u \<in> set (dkeys (uuid2timestamps s))"
    using assms(1) by (simp add: workload_inv_def)
  then obtain ts where "map_of (uuid2timestamps s) u = Some ts"
    by (auto simp: in_dkeys_iff)
  with assms that show ?thesis by (simp add: workload_inv_def)
qed

lemma workload_inv_tick: "mono now \<Longrightarrow> workload_inv now s \<Longrightarrow> workload_inv now (tick s)"
  by (auto simp: workload_inv_def tick_def intro: window_ok_later [of now "clock_reads s"])

text \<open>Replacing the two windows of one session keeps the invariant.\<close>

lemma workload_inv_update:
  assumes "mono now" "workload_inv now s" "clock_reads s \<le> i" "window_ok now i fs ts"
  shows "workload_inv now (s\<lparr>clock_reads := i, uuid2throughput := AList.update u fs (uuid2throughput s),
     uuid2timestamps := AList.update u ts (uuid2timestamps s)\<rparr>)"
  using assms
  by (auto simp: workload_inv_def map_of_update dkeys_update dest: window_ok_later split: if_splits)

lemma workload_inv_delete:
  assumes "mono now" "workload_inv now s" "clock_reads s \<le> i"
  shows "workload_inv now (s\<lparr>clock_reads := i, uuid2throughput := AList.delete u (uuid2throughput s),
     uuid2timestamps := AList.delete u (uuid2timestamps s)\<rparr>)"
  using assms
  by (auto simp: workload_inv_def map_of_delete' dkeys_delete dest: window_ok_later split: if_splits)

subsection \<open>Adding a report\<close>

lemma add_workload_spec:
  assumes "mono now" "workload_inv now s"
  shows "\<exists>s'. add_workload now s w = Inr (workload_uuid w \<notin> set (dkeys (uuid2throughput s)), s') \<and>
    workload_inv now s' \<and> pinned_workloads s' = pinned_workloads s \<and> wp_t0 s' = wp_t0 s \<and>
    uuid2throughput s' = dappend (uuid2throughput s) (workload_uuid w) (wr_fps w) \<and>
    uuid2timestamps s' = dappend (uuid2timestamps s) (workload_uuid w) (now (clock_reads s)) \<and>
    clock_reads s' = Suc (clock_reads s)"
proof -
  let ?u = "workload_uuid w" and ?i = "clock_reads s"
  have upd: "AList.update k x (AList.update k y d) = AList.update k x d" for k x y and d :: "(string, rat list) dict"
    by (induction d) auto
  define fs where "fs = dget (uuid2throughput s) ?u []"
  define ts where "ts = dget (uuid2timestamps s) ?u []"
  have "window_ok now (Suc ?i) (fs @ [wr_fps w]) (ts @ [now ?i])"
  proof (cases "map_of (uuid2throughput s) ?u")
    case None
    then have "map_of (uuid2timestamps s) ?u = None"
      using assms(2) by (metis notin_dkeys_iff workload_inv_def)
    with None monoD [OF assms(1), of ?i "Suc ?i"] show ?thesis
      by (simp add: fs_def ts_def dget_def window_ok_def)
  next
    case (Some fs')
    with assms(2) obtain ts' where "map_of (uuid2timestamps s) ?u = Some ts'" "window_ok now ?i fs' ts'"
      by (rule workload_inv_windows)
    with Some monoD [OF assms(1), of ?i "Suc ?i"] show ?thesis
      by (auto simp: fs_def ts_def dget_def window_ok_def sorted_append intro: order.trans)
  qed
  from workload_inv_update [OF assms(1,2) _ this, of ?u]
  have inv: "workload_inv now (s\<lparr>clock_reads := Suc ?i,
      uuid2throughput := dappend (uuid2throughput s) ?u (wr_fps w),
      uuid2timestamps := dappend (uuid2timestamps s) ?u (now ?i)\<rparr>)"
    by (simp add: dappend_def fs_def ts_def)
  have keys: "?u \<in> set (dkeys (uuid2timestamps s)) \<longleftrightarrow> ?u \<in> set (dkeys (uuid2throughput s))"
    using assms(2) by (simp add: workload_inv_def)
  have "add_workload now s w = Inr (?u \<notin> set (dkeys (uuid2throughput s)),
      s\<lparr>clock_reads := Suc ?i, uuid2throughput := dappend (uuid2throughput s) ?u (wr_fps w),
        uuid2timestamps := dappend (uuid2timestamps s) ?u (now ?i)\<rparr>)"
  proof (cases "?u \<in> set (dkeys (uuid2throughput s))")
    case True
    with keys obtain a b where "map_of (uuid2throughput s) ?u = Some a" "map_of (uuid2timestamps s) ?u = Some b"
      by (auto simp: in_dkeys_iff)
    with True show ?thesis
      by (simp add: add_workload_def Let_def dlookup_def tick_def dappend_def dget_def)
  next
    case False
    with keys have "map_of (uuid2throughput s) ?u = None" "map_of (uuid2timestamps s) ?u = None"
      by (simp_all add: notin_dkeys_iff)
    with False show ?thesis
      by (simp add: add_workload_def Let_def dlookup_def tick_def dappend_def dget_def map_of_update upd)
  qed
  with inv show ?thesis by simp
qed

subsection \<open>Expiry\<close>

lemma drop_expired_spec:
  assumes "length ts = length fs"
  shows "\<exists>k. drop_expired now T i ts fs = Inr (if k < length ts then Suc (i + k) else i + k, drop k ts, drop k fs) \<and>
    k \<le> length ts \<and> (\<forall>j < k. now (i + j) - ts ! j \<ge> T) \<and> (k < length ts \<longrightarrow> now (i + k) - ts ! k < T)"
  using assms
proof (induction ts arbitrary: i fs)
  case (Cons t ts)
  show ?case
  proof (cases "now i - t < T")
    case True
    then show ?thesis by (intro exI [of _ 0]) simp
  next
    case False
    from Cons.prems obtain f fs' where fs: "fs = f # fs'" "length ts = length fs'"
      by (cases fs) auto
    from Cons.IH [OF fs(2), of "Suc i"] obtain k where k:
      "drop_expired now T (Suc i) ts fs' =
         Inr (if k < length ts then Suc (Suc i + k) else Suc i + k, drop k ts, drop k fs')"
      "k \<le> length ts" "\<forall>j < k. now (Suc i + j) - ts ! j \<ge> T" "k < length ts \<longrightarrow> now (Suc i + k) - ts ! k < T"
      by blast
    have "\<forall>j < Suc k. now (i + j) - (t # ts) ! j \<ge> T"
      using False k(3) by (auto simp: less_Suc_eq_0_disj)
    with False fs k show ?thesis by (intro exI [of _ "Suc k"]) auto
  qed
qed auto

text \<open>
  What remains of a window: the reports from the first one that was young enough when the
  loop looked at it. \<open>window_cut\<close> is that position.
\<close>

definition window_cut :: "clock \<Rightarrow> rat \<Rightarrow> nat \<Rightarrow> rat list \<Rightarrow> nat \<Rightarrow> bool" where
  "window_cut now T i ts k \<longleftrightarrow> k \<le> length ts \<and> (\<forall>j < k. now (i + j) - ts ! j \<ge> T) \<and>
     (k < length ts \<longrightarrow> now (i + k) - ts ! k < T)"

lemma remove_expired_uuid_spec:
  assumes "mono now" "workload_inv now s" "map_of (uuid2throughput s) u = Some fs"
    and "map_of (uuid2timestamps s) u = Some ts"
  shows "\<exists>k s'. remove_expired_uuid now args s u = Inr s' \<and> workload_inv now s' \<and>
    window_cut now (wa_model_timeout_secs args) (clock_reads s) ts k \<and>
    clock_reads s \<le> clock_reads s' \<and> clock_reads s + k \<le> clock_reads s' \<and>
    pinned_workloads s' = pinned_workloads s \<and> wp_t0 s' = wp_t0 s \<and>
    dkeys (uuid2throughput s') = (if k < length ts then dkeys (uuid2throughput s)
                                  else removeAll u (dkeys (uuid2throughput s))) \<and>
    map_of (uuid2throughput s') = (map_of (uuid2throughput s))(u := if k < length ts then Some (drop k fs) else None) \<and>
    map_of (uuid2timestamps s') = (map_of (uuid2timestamps s))(u := if k < length ts then Some (drop k ts) else None)"
proof -
  let ?T = "wa_model_timeout_secs args" and ?i = "clock_reads s"
  have ok: "window_ok now ?i fs ts" using assms by (simp add: workload_inv_def)
  then have len: "length ts = length fs" by (simp add: window_ok_def)
  obtain k where k: "drop_expired now ?T ?i ts fs =
      Inr (if k < length ts then Suc (?i + k) else ?i + k, drop k ts, drop k fs)"
    "window_cut now ?T ?i ts k"
    using drop_expired_spec [OF len, of now ?T ?i] unfolding window_cut_def by blast
  have upd: "AList.delete u (AList.update u x d) = AList.delete u d" for x and d :: "(string, rat list) dict"
    by (induction d) auto
  show ?thesis
  proof (cases "k < length ts")
    case True
    let ?s = "s\<lparr>clock_reads := Suc (?i + k), uuid2throughput := AList.update u (drop k fs) (uuid2throughput s),
       uuid2timestamps := AList.update u (drop k ts) (uuid2timestamps s)\<rparr>"
    have "window_ok now (Suc (?i + k)) (drop k fs) (drop k ts)"
      using window_ok_later [OF assms(1) ok, of "Suc (?i + k)"] True len
      by (auto simp: window_ok_def sorted_wrt_drop dest: in_set_dropD)
    from workload_inv_update [OF assms(1,2) _ this, of u] have "workload_inv now ?s" by simp
    moreover have "remove_expired_uuid now args s u = Inr ?s"
      using k True assms(3,4) len
      by (simp add: remove_expired_uuid_def Let_def dget_def dlookup_def)
    ultimately show ?thesis
      using k(2) True assms(3)
      by (intro exI [of _ k] exI [of _ ?s])
        (auto simp: map_of_update dkeys_update in_dkeys_iff)
  next
    case False
    let ?s = "s\<lparr>clock_reads := ?i + k, uuid2throughput := AList.delete u (uuid2throughput s),
       uuid2timestamps := AList.delete u (uuid2timestamps s)\<rparr>"
    have "workload_inv now ?s"
      using workload_inv_delete [OF assms(1,2), of "?i + k" u] by simp
    moreover have "remove_expired_uuid now args s u = Inr ?s"
      using k False assms(3,4) len
      by (simp add: remove_expired_uuid_def Let_def dget_def dlookup_def dpop_def map_of_update upd)
    ultimately show ?thesis
      using k(2) False
      by (intro exI [of _ k] exI [of _ ?s]) (auto simp: map_of_delete' dkeys_delete)
  qed
qed

text \<open>The windows of all sessions, after the expiry that began at reading \<open>i\<close> and ended at \<open>i'\<close>.\<close>

definition expired_windows :: "clock \<Rightarrow> rat \<Rightarrow> nat \<Rightarrow> nat \<Rightarrow> workload_policy \<Rightarrow> workload_policy \<Rightarrow> string \<Rightarrow> bool"
  where
  "expired_windows now T i i' s s' u \<longleftrightarrow>
     (\<forall>fs ts. map_of (uuid2throughput s) u = Some fs \<longrightarrow> map_of (uuid2timestamps s) u = Some ts \<longrightarrow>
        (\<exists>k r. i \<le> r \<and> r + k \<le> i' \<and> window_cut now T r ts k \<and>
           map_of (uuid2throughput s') u = (if k < length ts then Some (drop k fs) else None) \<and>
           map_of (uuid2timestamps s') u = (if k < length ts then Some (drop k ts) else None)))"

lemma remove_expired_spec:
  assumes "mono now" "workload_inv now s"
  shows "\<exists>s'. remove_expired now args s = Inr s' \<and> workload_inv now s' \<and>
    clock_reads s \<le> clock_reads s' \<and> pinned_workloads s' = pinned_workloads s \<and>
    wp_t0 s' = wp_t0 s \<and> set (dkeys (uuid2throughput s')) \<subseteq> set (dkeys (uuid2throughput s)) \<and>
    (\<forall>u. expired_windows now (wa_model_timeout_secs args) (clock_reads s) (clock_reads s') s s' u)"
proof -
  let ?T = "wa_model_timeout_secs args"
  define P where "P = (\<lambda>ys s'. workload_inv now s' \<and> clock_reads s \<le> clock_reads s' \<and>
      pinned_workloads s' = pinned_workloads s \<and> wp_t0 s' = wp_t0 s \<and>
      set (dkeys (uuid2throughput s')) \<subseteq> set (dkeys (uuid2throughput s)) \<and>
      (\<forall>u. u \<notin> set ys \<longrightarrow> map_of (uuid2throughput s') u = map_of (uuid2throughput s) u \<and>
                           map_of (uuid2timestamps s') u = map_of (uuid2timestamps s) u) \<and>
      (\<forall>u \<in> set ys. expired_windows now ?T (clock_reads s) (clock_reads s') s s' u))"
  have step: "\<exists>s2. remove_expired_uuid now args s1 u = Inr s2 \<and> P (ys @ [u]) s2"
    if "P ys s1" "u \<in> set (dkeys (uuid2throughput s))" "u \<notin> set ys" for ys s1 u
  proof -
    note prems = that
    have inv: "workload_inv now s1" using prems(1) by (simp add: P_def)
    from prems(2) obtain fs where fs: "map_of (uuid2throughput s) u = Some fs"
      by (auto simp: in_dkeys_iff)
    with prems(1,3) have fs1: "map_of (uuid2throughput s1) u = Some fs" by (simp add: P_def)
    with inv obtain ts where ts1: "map_of (uuid2timestamps s1) u = Some ts"
      by (auto elim: workload_inv_windows)
    with prems(1,3) have ts: "map_of (uuid2timestamps s) u = Some ts" by (simp add: P_def)
    from remove_expired_uuid_spec [OF assms(1) inv fs1 ts1, of args] obtain k s2 where
      s2: "remove_expired_uuid now args s1 u = Inr s2" "workload_inv now s2"
      "window_cut now ?T (clock_reads s1) ts k"
      "clock_reads s1 \<le> clock_reads s2" "clock_reads s1 + k \<le> clock_reads s2"
      "pinned_workloads s2 = pinned_workloads s1" "wp_t0 s2 = wp_t0 s1"
      "dkeys (uuid2throughput s2) = (if k < length ts then dkeys (uuid2throughput s1)
                                     else removeAll u (dkeys (uuid2throughput s1)))"
      "map_of (uuid2throughput s2) = (map_of (uuid2throughput s1))(u := if k < length ts then Some (drop k fs) else None)"
      "map_of (uuid2timestamps s2) = (map_of (uuid2timestamps s1))(u := if k < length ts then Some (drop k ts) else None)"
      by blast
    have "expired_windows now ?T (clock_reads s) (clock_reads s2) s s2 u"
      using fs ts s2 prems(1) by (auto simp: expired_windows_def P_def)
    moreover have "expired_windows now ?T (clock_reads s) (clock_reads s2) s s2 v" if "v \<in> set ys" for v
    proof -
      have "v \<noteq> u" using that prems(3) by auto
      moreover have "expired_windows now ?T (clock_reads s) (clock_reads s1) s s1 v"
        using that prems(1) by (simp add: P_def)
      ultimately show ?thesis
        using s2(4,9,10) unfolding expired_windows_def by (simp, meson le_trans)
    qed
    ultimately have "P (ys @ [u]) s2"
      using prems(1) s2 by (auto simp: P_def split: if_splits)
    with s2(1) show ?thesis by blast
  qed
  have P0: "P [] s" using assms(2) by (simp add: P_def)
  have distinct: "distinct (dkeys (uuid2throughput s))"
    using assms(2) by (simp add: workload_inv_def dict_ok_def)
  obtain s' where s': "remove_expired now args s = Inr s'" "P (dkeys (uuid2throughput s)) s'"
    unfolding remove_expired_def
    using foldE_prefix_total [where P = P, OF P0, of "dkeys (uuid2throughput s)" "remove_expired_uuid now args"]
      step distinct by (metis distinct_append distinct.simps(2) in_set_conv_decomp list.set_intros(1)
        not_distinct_conv_prefix Un_iff disjoint_iff set_append)
  have "expired_windows now ?T (clock_reads s) (clock_reads s') s s' u" for u
  proof (cases "u \<in> set (dkeys (uuid2throughput s))")
    case True
    with s'(2) show ?thesis by (simp add: P_def)
  next
    case False
    then show ?thesis by (auto simp: expired_windows_def in_dkeys_iff)
  qed
  with s' show ?thesis by (auto simp: P_def)
qed

text \<open>C8: expiry keeps a window exactly: with a clock that does not go backwards, every report
  that was too old when the expiry began is gone, every report that is still young enough
  when it ends is kept, and the rates and times of a session stay aligned.\<close>

theorem expiry_is_sliding_window:
  assumes "mono now" "workload_inv now s" "remove_expired now args s = Inr s'"
    and "map_of (uuid2throughput s) u = Some fs" "map_of (uuid2timestamps s) u = Some ts"
  shows "\<exists>k \<le> length ts.
    (\<forall>t \<in> set (drop k ts). now (clock_reads s) - t < wa_model_timeout_secs args) \<and>
    (\<forall>t \<in> set (take k ts). wa_model_timeout_secs args \<le> now (clock_reads s') - t) \<and>
    map_of (uuid2throughput s') u = (if k < length ts then Some (drop k fs) else None) \<and>
    map_of (uuid2timestamps s') u = (if k < length ts then Some (drop k ts) else None)"
proof -
  let ?T = "wa_model_timeout_secs args"
  from remove_expired_spec [OF assms(1,2), of args]
  obtain s'' where "remove_expired now args s = Inr s''"
    "\<forall>u. expired_windows now ?T (clock_reads s) (clock_reads s'') s s'' u" by blast
  with assms(3) have "expired_windows now ?T (clock_reads s) (clock_reads s') s s' u" by simp
  with assms(4,5) obtain k r where k: "clock_reads s \<le> r" "r + k \<le> clock_reads s'" "window_cut now ?T r ts k"
    "map_of (uuid2throughput s') u = (if k < length ts then Some (drop k fs) else None)"
    "map_of (uuid2timestamps s') u = (if k < length ts then Some (drop k ts) else None)"
    unfolding expired_windows_def by blast
  have sorted: "sorted ts" using assms(2,4,5) by (auto simp: workload_inv_def window_ok_def)
  have young: "now (clock_reads s) - t < ?T" if "t \<in> set (drop k ts)" for t
  proof -
    from that obtain j where j: "j < length (drop k ts)" "t = drop k ts ! j"
      by (metis in_set_conv_nth)
    have "ts ! k \<le> t" using sorted j by (auto simp: sorted_iff_nth_mono)
    moreover have "now (r + k) - ts ! k < ?T" using k(3) j(1) by (simp add: window_cut_def)
    moreover have "now (clock_reads s) \<le> now (r + k)" using assms(1) k(1) by (simp add: monoD)
    ultimately show "now (clock_reads s) - t < ?T" by linarith
  qed
  have old: "?T \<le> now (clock_reads s') - t" if "t \<in> set (take k ts)" for t
  proof -
    from that obtain j where j: "j < k" "j < length ts" "t = ts ! j"
      by (auto simp: in_set_conv_nth)
    then have "?T \<le> now (r + j) - t" using k(3) by (simp add: window_cut_def)
    moreover have "now (r + j) \<le> now (clock_reads s')"
      using k(2) j(1) by (intro monoD [OF assms(1)]) simp
    ultimately show ?thesis by linarith
  qed
  from k(3) have "k \<le> length ts" by (simp add: window_cut_def)
  with k(4,5) young old show ?thesis by blast
qed

subsection \<open>Rates\<close>

text \<open>
  The rate of a session with window \<open>fs\<close>: the sum over the age of the oldest report, at
  least a second, at one of the clock readings \<open>i\<close> to \<open>i'\<close>; none when the sum is not positive.
\<close>

definition rate_ok ::
    "clock \<Rightarrow> workload_policy \<Rightarrow> nat \<Rightarrow> nat \<Rightarrow> (string, rat) dict \<Rightarrow> string \<Rightarrow> rat list \<Rightarrow> bool" where
  "rate_ok now s i i' rates u fs \<longleftrightarrow>
     (if sum_list fs > 0
      then \<exists>ts r. map_of (uuid2timestamps s) u = Some ts \<and> i \<le> r \<and> r < i' \<and>
             map_of rates u = Some (sum_list fs / max 1 (now r - hd ts))
      else map_of rates u = None)"

lemma get_workloads_spec:
  assumes "mono now" "workload_inv now s"
  shows "\<exists>rates s1 s'. remove_expired now args s = Inr s1 \<and> get_workloads now args s = Inr (rates, s') \<and>
    workload_inv now s' \<and> clock_reads s1 \<le> clock_reads s' \<and> uuid2throughput s' = uuid2throughput s1 \<and>
    uuid2timestamps s' = uuid2timestamps s1 \<and> pinned_workloads s' = pinned_workloads s \<and>
    wp_t0 s' = wp_t0 s \<and> dict_ok rates \<and>
    (\<forall>u. case map_of (uuid2throughput s1) u of
       None \<Rightarrow> map_of rates u = None
     | Some fs \<Rightarrow> rate_ok now s1 (clock_reads s1) (clock_reads s') rates u fs)"
proof -
  obtain s1 where s1: "remove_expired now args s = Inr s1" "workload_inv now s1"
    "pinned_workloads s1 = pinned_workloads s" "wp_t0 s1 = wp_t0 s"
    using remove_expired_spec [OF assms, of args] by blast
  define f where "f = (\<lambda>(dat, s) (u, fs).
           let fps = sum_list fs in
           if fps > 0
           then bindE (dlookup (uuid2timestamps s) u) (\<lambda>ts.
                case ts of
                  [] \<Rightarrow> Inl IndexError
                | t # _ \<Rightarrow>
                    let duration = max 1 (now (clock_reads s) - t)
                    in Inr (AList.update u (fps / duration) dat, tick s))
           else Inr (dat, s))"
  define P where "P = (\<lambda>ys (dat, s'). dict_ok dat \<and> workload_inv now s' \<and> clock_reads s1 \<le> clock_reads s' \<and>
      uuid2throughput s' = uuid2throughput s1 \<and> uuid2timestamps s' = uuid2timestamps s1 \<and>
      pinned_workloads s' = pinned_workloads s1 \<and> wp_t0 s' = wp_t0 s1 \<and>
      (\<forall>u. u \<notin> fst ` set ys \<longrightarrow> map_of dat u = None) \<and>
      (\<forall>x \<in> set ys. rate_ok now s1 (clock_reads s1) (clock_reads s') dat (fst x) (snd x)))"
  have ok1: "dict_ok (uuid2throughput s1)" using s1(2) by (simp add: workload_inv_def)
  have "\<exists>z'. foldE f ([], s1) (uuid2throughput s1) = Inr z' \<and> P (uuid2throughput s1) z'"
  proof (rule foldE_prefix_total)
    show "P [] ([], s1)" using s1(2) by (simp add: P_def)
  next
    fix ys x zs z
    assume split: "uuid2throughput s1 = ys @ x # zs" and Pz: "P ys z"
    obtain u fs dat s' where [simp]: "x = (u, fs)" "z = (dat, s')" by (cases x; cases z)
    have new: "u \<notin> fst ` set ys"
      using ok1 by (auto simp: split dict_ok_def dkeys_def)
    have map: "map_of (uuid2throughput s1) u = Some fs"
      using dict_ok_mem_iff [OF ok1, of u fs] by (simp add: split)
    show "\<exists>z'. f z x = Inr z' \<and> P (ys @ [x]) z'"
    proof (cases "sum_list fs > 0")
      case False
      with Pz new have "P (ys @ [x]) z" by (auto simp: P_def rate_ok_def)
      with False show ?thesis by (simp add: f_def)
    next
      case True
      from s1(2) map obtain ts where ts: "map_of (uuid2timestamps s1) u = Some ts"
        "window_ok now (clock_reads s1) fs ts" by (rule workload_inv_windows)
      then obtain t ts' where t: "ts = t # ts'" by (cases ts) (auto simp: window_ok_def)
      let ?z = "(AList.update u (sum_list fs / max 1 (now (clock_reads s') - t)) dat, tick s')"
      have "f z x = Inr ?z"
        using True Pz ts t by (simp add: f_def P_def dlookup_def Let_def)
      moreover have main: "rate_ok now s1 (clock_reads s1) (clock_reads (tick s')) (fst ?z) (fst y) (snd y)"
        if mem: "y \<in> set (ys @ [x])" for y
      proof (cases "y \<in> set ys")
        case True
        then have "fst y \<noteq> u" using new by force
        moreover have "rate_ok now s1 (clock_reads s1) (clock_reads s') dat (fst y) (snd y)"
          using True Pz by (auto simp: P_def)
        ultimately show ?thesis
          by (auto simp: rate_ok_def map_of_update tick_def less_Suc_eq split: if_splits)
      next
        case False
        with mem have "y = (u, fs)" by auto
        with True ts t Pz show ?thesis
          by (auto simp: rate_ok_def map_of_update tick_def P_def)
      qed
      have "dict_ok (fst ?z) \<and> workload_inv now (tick s') \<and> clock_reads s1 \<le> clock_reads (tick s') \<and>
          uuid2throughput (tick s') = uuid2throughput s1 \<and> uuid2timestamps (tick s') = uuid2timestamps s1 \<and>
          pinned_workloads (tick s') = pinned_workloads s1 \<and> wp_t0 (tick s') = wp_t0 s1 \<and>
          (\<forall>v. v \<notin> fst ` set (ys @ [x]) \<longrightarrow> map_of (fst ?z) v = None)"
        using Pz workload_inv_tick [OF assms(1), of s']
        by (auto simp: P_def tick_def map_of_update)
      then have "P (ys @ [x]) ?z"
        unfolding P_def prod.case fst_conv using main unfolding fst_conv by blast
      ultimately show ?thesis by blast
    qed
  qed
  then obtain dat s' where run: "foldE f ([], s1) (uuid2throughput s1) = Inr (dat, s')"
    and P: "P (uuid2throughput s1) (dat, s')" by auto
  have get: "get_workloads now args s = Inr (dat, s')"
    using s1(1) run by (simp add: get_workloads_def f_def)
  have rates: "case map_of (uuid2throughput s1) u of
       None \<Rightarrow> map_of dat u = None
     | Some fs \<Rightarrow> rate_ok now s1 (clock_reads s1) (clock_reads s') dat u fs" for u
  proof (cases "map_of (uuid2throughput s1) u")
    case None
    then have "u \<notin> fst ` set (uuid2throughput s1)" by (simp add: map_of_eq_None_iff)
    with P None show ?thesis by (simp add: P_def)
  next
    case (Some fs)
    from map_of_SomeD [OF this] P Some show ?thesis by (auto simp: P_def)
  qed
  have "workload_inv now s' \<and> clock_reads s1 \<le> clock_reads s' \<and> uuid2throughput s' = uuid2throughput s1 \<and>
    uuid2timestamps s' = uuid2timestamps s1 \<and> pinned_workloads s' = pinned_workloads s \<and>
    wp_t0 s' = wp_t0 s \<and> dict_ok dat"
    using P s1(3,4) by (simp add: P_def)
  with s1(1) get rates show ?thesis by blast
qed

subsection \<open>Names\<close>

lemma split_on_two:
  "split_on c u = [p, q] \<longleftrightarrow> u = p @ c # q \<and> c \<notin> set p \<and> c \<notin> set q"
proof
  assume "u = p @ c # q \<and> c \<notin> set p \<and> c \<notin> set q"
  then show "split_on c u = [p, q]" by (simp add: split_on_join split_on_notin)
next
  have one: "split_on c v = [q] \<Longrightarrow> v = q \<and> c \<notin> set q" for v q
    by (induction v arbitrary: q) (auto split: if_splits list.splits)
  assume "split_on c u = [p, q]"
  then show "u = p @ c # q \<and> c \<notin> set p \<and> c \<notin> set q"
  proof (induction u arbitrary: p)
    case (Cons x u)
    show ?case
    proof (cases "x = c")
      case True
      with Cons.prems one [of u q] show ?thesis by auto
    next
      case False
      with Cons.prems obtain p' where "p = x # p'" "split_on c u = [p', q]"
        by (auto split: list.splits)
      with Cons.IH [of p'] False show ?thesis by auto
    qed
  qed simp
qed

lemma split_workload_uuid_eq_Inr [result_simps]:
  "split_workload_uuid u = Inr (p, q) \<longleftrightarrow>
     u = join_key p q \<and> CHR ''_'' \<notin> set p \<and> CHR ''_'' \<notin> set q"
  unfolding split_workload_uuid_def join_key_def
  by (simp add: split_on_two [symmetric] split: list.splits)

lemma split_workload_uuid_eq_Inl: "split_workload_uuid u = Inl e \<Longrightarrow> e = ValueError"
  by (auto simp: split_workload_uuid_def split: list.splits)

definition clean_uuid :: "string \<Rightarrow> bool" where
  "clean_uuid u \<longleftrightarrow> length (split_on CHR ''_'' u) = 2"

lemma clean_uuid_iff: "clean_uuid u \<longleftrightarrow> (\<exists>p q. split_workload_uuid u = Inr (p, q))"
  by (auto simp: clean_uuid_def split_workload_uuid_def length_Suc_conv numeral_2_eq_2
      split: list.splits)

subsection \<open>Messages\<close>

lemma map_of_add_rates:
  "dict_ok e \<Longrightarrow> map_of (add_rates d e) u =
     (case map_of e u of None \<Rightarrow> map_of d u | Some f \<Rightarrow> Some (dget d u 0 + f))"
proof (induction e arbitrary: d)
  case (Cons kf e)
  obtain k f where kf: "kf = (k, f)" by (cases kf)
  with Cons.prems have k: "dict_ok e" "map_of e k = None"
    by (auto simp: dict_ok_def notin_dkeys_iff)
  have "add_rates d (kf # e) = add_rates (AList.update k (dget d k 0 + f) d) e"
    by (simp add: add_rates_def kf)
  with Cons.IH [OF k(1)] k(2) show ?case
    by (auto simp: kf map_of_update dget_def split: option.splits)
qed (simp add: add_rates_def)

lemma dkeys_add_rates: "set (dkeys (add_rates d e)) = set (dkeys d) \<union> set (dkeys e)"
  unfolding add_rates_def by (induction e arbitrary: d) (auto simp: dkeys_update split: if_splits)

lemma dict_ok_add_rates: "dict_ok d \<Longrightarrow> dict_ok (add_rates d e)"
  unfolding add_rates_def by (rule foldl_invariant) auto

text \<open>the scheduler is told, once for each pipeline and session with a positive rate or a
  pinned rate, exactly the sum of the two; the pipeline and session of each message are the
  parts of the key under which they were reported.\<close>

theorem scheduling_msgs_rates:
  assumes "mono now" "workload_inv now s" "dict_ok (pinned_workloads s)"
    and "generate_scheduling_msgs now args s = Inr (ms, t)"
  shows "\<exists>rates. get_workloads now args s = Inr (rates, t) \<and> distinct (map workload_uuid ms) \<and>
    workload_uuid ` set ms = set (dkeys rates) \<union> set (dkeys (pinned_workloads s)) \<and>
    (\<forall>w \<in> set ms. wr_fps w = dget rates (workload_uuid w) 0 + dget (pinned_workloads s) (workload_uuid w) 0)"
proof -
  obtain rates s' where g: "get_workloads now args s = Inr (rates, s')" "dict_ok rates"
    "pinned_workloads s' = pinned_workloads s"
    using get_workloads_spec [OF assms(1,2), of args] by blast
  define wl where "wl = add_rates (add_rates [] rates) (pinned_workloads s)"
  define conv where "conv = (\<lambda>(u, fps). bindE (split_workload_uuid u) (\<lambda>(p, sess).
      Inr \<lparr>wr_pipeline_uuid = p, wr_session_uuid = sess, wr_fps = fps, wr_metadata = ''{}''\<rparr> ::
        workload_report result))"
  from assms(4) g have t: "t = s'" and ms: "list_all2 (\<lambda>x y. conv x = Inr y) wl ms"
    by (auto simp: generate_scheduling_msgs_def Let_def bindE_eq_Inr mapE_eq_Inr wl_def conv_def)
  have conv: "workload_uuid y = fst x \<and> wr_fps y = snd x" if "conv x = Inr y" for x y
    using that by (cases x) (auto simp: conv_def bindE_eq_Inr split_workload_uuid_eq_Inr workload_uuid_def)
  have names: "map workload_uuid ms = dkeys wl"
    using ms by (induction rule: list_all2_induct) (auto dest: conv)
  have fps: "map_of wl (workload_uuid y) = Some (wr_fps y)" if "y \<in> set ms" for y
  proof -
    have ok: "dict_ok wl" by (simp add: wl_def dict_ok_add_rates)
    from list_all2_right [OF ms that] obtain x where x: "x \<in> set wl" "conv x = Inr y" by blast
    with conv [OF x(2)] dict_ok_mem_iff [OF ok, of "workload_uuid y" "wr_fps y"] show ?thesis
      by (cases x) simp
  qed
  have "wr_fps y = dget rates (workload_uuid y) 0 + dget (pinned_workloads s) (workload_uuid y) 0"
    if "y \<in> set ms" for y
    using fps [OF that] unfolding wl_def map_of_add_rates [OF assms(3)]
    by (auto simp: map_of_add_rates [OF g(2)] dget_def split: option.splits)
  moreover have "distinct (map workload_uuid ms)"
    unfolding names using dict_ok_add_rates [of "add_rates [] rates"] dict_ok_add_rates [of "[]"]
    by (simp add: wl_def dict_ok_def)
  moreover have "workload_uuid ` set ms = set (dkeys wl)"
    using arg_cong [OF names, of set] by simp
  ultimately show ?thesis
    using g(1) t by (auto simp: wl_def dkeys_add_rates)
qed

subsection \<open>A round\<close>

definition known_uuids :: "workload_policy \<Rightarrow> string set" where
  "known_uuids s = set (dkeys (uuid2throughput s)) \<union> set (dkeys (pinned_workloads s))"

definition msg_uuids :: "nxs_msg \<Rightarrow> string set" where
  "msg_uuids m = (case m of
      MsgReportInputWorkloads r \<Rightarrow> workload_uuid ` set (fw_workload_reports r)
    | MsgPinWorkload p sess fps \<Rightarrow> {join_key p sess}
    | _ \<Rightarrow> {})"

lemma process_workload_msg_spec:
  assumes "mono now" "workload_inv now s" "dict_ok (pinned_workloads s)"
    and "\<forall>ws. m \<noteq> MsgRegisterWorkloads ws"
  shows "\<exists>sched' s'. process_workload_msg now args (sched, s) m = Inr (sched', s') \<and>
    workload_inv now s' \<and> dict_ok (pinned_workloads s') \<and> known_uuids s' \<subseteq> known_uuids s \<union> msg_uuids m"
proof (cases m)
  case (MsgReportInputWorkloads r)
  define f where "f = (\<lambda>(sched, s) w. bindE (add_workload now s w) (\<lambda>(is_new, s').
              Inr (sched \<or> (is_new \<and> wa_enable_instant_scheduling args), s')) :: (bool \<times> workload_policy) result)"
  define P where "P = (\<lambda>ws (sched :: bool, s'). workload_inv now s' \<and>
      pinned_workloads s' = pinned_workloads s \<and>
      known_uuids s' \<subseteq> known_uuids s \<union> workload_uuid ` set (ws :: workload_report list))"
  have "\<exists>z. foldE f (sched, s) (fw_workload_reports r) = Inr z \<and> P (fw_workload_reports r) z"
  proof (rule foldE_prefix_total)
    show "P [] (sched, s)" using assms(2) by (simp add: P_def)
  next
    fix ys w zs z assume "P ys z"
    moreover obtain sc s1 where [simp]: "z = (sc, s1)" by (cases z)
    ultimately have inv: "workload_inv now s1" by (simp add: P_def)
    from add_workload_spec [OF assms(1) this, of w] obtain s2 where s2:
      "add_workload now s1 w = Inr (workload_uuid w \<notin> set (dkeys (uuid2throughput s1)), s2)"
      "workload_inv now s2" "pinned_workloads s2 = pinned_workloads s1"
      "uuid2throughput s2 = dappend (uuid2throughput s1) (workload_uuid w) (wr_fps w)" by blast
    have "known_uuids s2 \<subseteq> insert (workload_uuid w) (known_uuids s1)"
      by (auto simp: known_uuids_def s2(3,4) dappend_def dkeys_update split: if_splits)
    with s2 \<open>P ys z\<close> show "\<exists>z'. f z w = Inr z' \<and> P (ys @ [w]) z'"
      by (auto simp: f_def P_def)
  qed
  with MsgReportInputWorkloads show ?thesis
    using assms(3) by (auto simp: process_workload_msg_def f_def P_def msg_uuids_def)
next
  case (MsgPinWorkload p q fps)
  then show ?thesis
    using assms(2,3) by (auto simp: process_workload_msg_def known_uuids_def msg_uuids_def
        workload_inv_def dkeys_update split: if_splits)
next
  case (MsgUnpinWorkload p q)
  then show ?thesis
    using assms(2,3) by (auto simp: process_workload_msg_def known_uuids_def msg_uuids_def
        workload_inv_def dkeys_delete)
qed (use assms in \<open>auto simp: process_workload_msg_def msg_uuids_def\<close>)

lemma generate_scheduling_msgs_cases:
  assumes "mono now" "workload_inv now s"
  shows "case generate_scheduling_msgs now args s of
      Inl e \<Rightarrow> e = ValueError \<and> (\<exists>u \<in> known_uuids s. \<not> clean_uuid u)
    | Inr (ms, t) \<Rightarrow> workload_inv now t \<and> pinned_workloads t = pinned_workloads s"
proof -
  obtain s1 where s1: "remove_expired now args s = Inr s1"
    "set (dkeys (uuid2throughput s1)) \<subseteq> set (dkeys (uuid2throughput s))"
    using remove_expired_spec [OF assms, of args] by blast
  from get_workloads_spec [OF assms, of args] s1(1) obtain rates s' where
    g: "get_workloads now args s = Inr (rates, s')" "workload_inv now s'"
      "pinned_workloads s' = pinned_workloads s"
    and r: "\<And>u. case map_of (uuid2throughput s1) u of None \<Rightarrow> map_of rates u = None
       | Some fs \<Rightarrow> rate_ok now s1 (clock_reads s1) (clock_reads s') rates u fs"
    by fastforce
  have "u \<in> set (dkeys (uuid2throughput s1))" if "u \<in> set (dkeys rates)" for u
    using that r [of u] by (auto simp: in_dkeys_iff split: option.splits)
  then have keys: "set (dkeys (add_rates (add_rates [] rates) (pinned_workloads s))) \<subseteq> known_uuids s"
    using s1(2) by (auto simp: dkeys_add_rates known_uuids_def)
  define wl where "wl = add_rates (add_rates [] rates) (pinned_workloads s)"
  define conv where "conv = (\<lambda>(u, fps). bindE (split_workload_uuid u) (\<lambda>(p, sess).
      Inr \<lparr>wr_pipeline_uuid = p, wr_session_uuid = sess, wr_fps = fps, wr_metadata = ''{}''\<rparr> ::
        workload_report result))"
  have gen: "generate_scheduling_msgs now args s = bindE (mapE conv wl) (\<lambda>ms. Inr (ms, s'))"
    using g by (simp add: generate_scheduling_msgs_def wl_def conv_def)
  have "mapE conv xs = Inl e \<Longrightarrow> e = ValueError \<and> (\<exists>x \<in> set xs. \<not> clean_uuid (fst x))" for e xs
  proof (induction xs)
    case (Cons x xs)
    then show ?case
      by (cases x) (auto simp: bindE_eq_Inl conv_def clean_uuid_iff dest: split_workload_uuid_eq_Inl)
  qed simp
  note err = this
  show ?thesis
  proof (cases "mapE conv wl")
    case (Inl e)
    from err [OF Inl] obtain x where "e = ValueError" "x \<in> set wl" "\<not> clean_uuid (fst x)" by blast
    moreover from this(2) have "fst x \<in> known_uuids s"
      using keys by (auto simp: wl_def dkeys_def)
    ultimately show ?thesis using gen Inl by auto
  next
    case (Inr ms)
    with gen g(2,3) show ?thesis by simp
  qed
qed

text \<open>C9: a round of the manager keeps its invariant, and fails in one way only: with
  \<open>ValueError\<close>, and then some pipeline or session in the window, among the pins or in the
  messages has an underscore of its own. If all names are clean, it returns.\<close>

theorem process_msgs_safe:
  assumes "mono now" "workload_inv now s" "dict_ok (pinned_workloads s)"
    and "\<forall>ws. MsgRegisterWorkloads ws \<notin> set msgs"
  shows "case process_msgs now args s msgs of
      Inl e \<Rightarrow> e = ValueError \<and> (\<exists>u \<in> known_uuids s \<union> (\<Union>m \<in> set msgs. msg_uuids m). \<not> clean_uuid u)
    | Inr (r, t) \<Rightarrow> workload_inv now t \<and> dict_ok (pinned_workloads t)"
proof -
  define P where "P = (\<lambda>ms (sched :: bool, s'). workload_inv now s' \<and> dict_ok (pinned_workloads s') \<and>
      known_uuids s' \<subseteq> known_uuids s \<union> (\<Union>m \<in> set ms. msg_uuids m))"
  have "\<exists>z. foldE (process_workload_msg now args) (False, s) msgs = Inr z \<and> P msgs z"
  proof (rule foldE_prefix_total)
    show "P [] (False, s)" using assms(2,3) by (simp add: P_def)
  next
    fix ys m zs z assume split: "msgs = ys @ m # zs" and "P ys z"
    moreover obtain sc s1 where [simp]: "z = (sc, s1)" by (cases z)
    ultimately have "workload_inv now s1" "dict_ok (pinned_workloads s1)" by (simp_all add: P_def)
    moreover have "\<forall>ws. m \<noteq> MsgRegisterWorkloads ws" using assms(4) split by auto
    ultimately obtain sched' s2 where "process_workload_msg now args z m = Inr (sched', s2)"
      "workload_inv now s2" "dict_ok (pinned_workloads s2)" "known_uuids s2 \<subseteq> known_uuids s1 \<union> msg_uuids m"
      using process_workload_msg_spec [OF assms(1), of s1 m args sc] by auto
    with \<open>P ys z\<close> show "\<exists>z'. process_workload_msg now args z m = Inr z' \<and> P (ys @ [m]) z'"
      by (auto simp: P_def)
  qed
  then obtain sched s1 where run: "foldE (process_workload_msg now args) (False, s) msgs = Inr (sched, s1)"
    and s1: "workload_inv now s1" "dict_ok (pinned_workloads s1)"
      "known_uuids s1 \<subseteq> known_uuids s \<union> (\<Union>m \<in> set msgs. msg_uuids m)"
    by (auto simp: P_def)
  have tick: "workload_inv now (tick s1)" "known_uuids (tick s1) = known_uuids s1"
    using workload_inv_tick [OF assms(1) s1(1)] by (simp_all add: tick_def known_uuids_def)
  have t0: "workload_inv now (tick (u\<lparr>wp_t0 := x\<rparr>))" if "workload_inv now u" for u x
    using workload_inv_tick [OF assms(1), of "u\<lparr>wp_t0 := x\<rparr>"] that by (simp add: workload_inv_def)
  show ?thesis
    using generate_scheduling_msgs_cases [OF assms(1) tick(1), of args] run s1 tick t0
    by (auto simp: process_msgs_def Let_def tick_def bindE_def split: sum.splits)
qed

subsection \<open>Concrete windows\<close>

definition sample_clock :: clock where
  "sample_clock i = of_nat i"

lemma mono_sample_clock: "mono sample_clock"
  by (simp add: mono_def sample_clock_def)

definition sample_window :: workload_policy where
  "sample_window = \<lparr>uuid2throughput = [(''p_s'', [30, 60])], uuid2timestamps = [(''p_s'', [1, 9])],
     pinned_workloads = [(''q_t'', 5)], wp_t0 = 0, clock_reads = 10\<rparr>"

lemma sample_window_inv: "workload_inv sample_clock sample_window"
  by (simp add: workload_inv_def sample_window_def window_ok_def sample_clock_def dict_ok_def)

definition sample_workload_args :: workload_args where
  "sample_workload_args = \<lparr>wa_model_timeout_secs = 5, wa_enable_instant_scheduling = True,
     wa_report_workloads_interval = 1\<rparr>"

theorem expiry_is_sliding_window_witness:
  "\<exists>s'. remove_expired sample_clock sample_workload_args sample_window = Inr s' \<and>
     map_of (uuid2throughput s') ''p_s'' = Some [60] \<and>
     (\<exists>k \<le> 2. map_of (uuid2throughput s') ''p_s'' = (if k < 2 then Some (drop k [30, 60]) else None) \<and>
       (\<forall>t \<in> set (drop k [1, 9]). sample_clock 10 - t < 5))"
proof -
  have run: "bindE (remove_expired sample_clock sample_workload_args sample_window)
      (\<lambda>s'. Inr (map_of (uuid2throughput s') ''p_s'')) = Inr (Some [60])"
    by code_simp
  then obtain s' where s': "remove_expired sample_clock sample_workload_args sample_window = Inr s'"
    "map_of (uuid2throughput s') ''p_s'' = Some [60]"
    by (auto simp: bindE_eq_Inr)
  have w: "map_of (uuid2throughput sample_window) ''p_s'' = Some [30, 60]"
    "map_of (uuid2timestamps sample_window) ''p_s'' = Some [1, 9]"
    by (simp_all add: sample_window_def)
  have n: "clock_reads sample_window = 10" "wa_model_timeout_secs sample_workload_args = 5"
    "length [1, 9 :: rat] = 2"
    by (simp_all add: sample_window_def sample_workload_args_def)
  from expiry_is_sliding_window [OF mono_sample_clock sample_window_inv s'(1) w, unfolded n] s'
  show ?thesis by blast
qed

theorem scheduling_msgs_rates_witness:
  "\<exists>ms t rates. generate_scheduling_msgs sample_clock sample_workload_args sample_window = Inr (ms, t) \<and>
     get_workloads sample_clock sample_workload_args sample_window = Inr (rates, t) \<and>
     workload_uuid ` set ms = set (dkeys rates) \<union> {''q_t''}"
proof -
  have "bindE (generate_scheduling_msgs sample_clock sample_workload_args sample_window)
      (\<lambda>(ms, t). Inr ()) = Inr ()"
    by code_simp
  then obtain ms t where g: "generate_scheduling_msgs sample_clock sample_workload_args sample_window = Inr (ms, t)"
    by (auto simp: bindE_eq_Inr)
  have "dict_ok (pinned_workloads sample_window)" by (simp add: sample_window_def dict_ok_def)
  from scheduling_msgs_rates [OF mono_sample_clock sample_window_inv this g] g show ?thesis
    by (auto simp: sample_window_def)
qed

theorem process_msgs_safe_witness:
  "process_msgs sample_clock sample_workload_args sample_window [MsgPinWorkload ''q'' ''a_b'' 3] = Inl ValueError"
proof -
  have "bindE (process_msgs sample_clock sample_workload_args sample_window [MsgPinWorkload ''q'' ''a_b'' 3])
      (\<lambda>(r, t). Inr ()) \<noteq> Inr ()"
    by code_simp
  moreover have "dict_ok (pinned_workloads sample_window)" by (simp add: sample_window_def dict_ok_def)
  note process_msgs_safe [OF mono_sample_clock sample_window_inv this,
      of "[MsgPinWorkload ''q'' ''a_b'' 3]" sample_workload_args]
  ultimately show ?thesis by (auto split: sum.splits)
qed

end
