(* ===== verification/Nxs_Redis.thy ===== *)
theory Nxs_Redis
  imports Nxs_External
begin

section \<open>The Redis client wrapper and the key-value store\<close>

text \<open>
  \<open>nxs_libs/simple_key_value_db/nxs_redis_kv_db.py\<close> and the retry loops that
  \<open>nxs_libs/queue/nxs_redis_queue.py\<close> repeats. A client object holds the server's operations,
  the server's state and the fates of the calls still to come while the connection is
  unreliable (\<open>rc_faults\<close>); when the list is used up every call completes. The
  \<open>while True: try ... except: sleep; recreate\<close> loops therefore end after a finite outage
  (during an endless one the code never returns). \<open>_recreate_client\<close> makes a new connection
  to the same server and does not change the state.
\<close>

subsection \<open>Calls\<close>

record ('r, 'v) redis_client =
  rc_ops :: "('r, 'v) redis_ops"
  rc_store :: 'r
  rc_faults :: "call_fate list"

text \<open>One command that changes the server: whether it returned, and the client afterwards.\<close>

definition call :: "('r \<Rightarrow> 'r) \<Rightarrow> ('r, 'v) redis_client \<Rightarrow> bool \<times> ('r, 'v) redis_client" where
  "call f c =
     (case rc_faults c of
        [] \<Rightarrow> (True, c\<lparr>rc_store := f (rc_store c)\<rparr>)
      | Completes # fs \<Rightarrow> (True, c\<lparr>rc_store := f (rc_store c), rc_faults := fs\<rparr>)
      | Lost # fs \<Rightarrow> (False, c\<lparr>rc_faults := fs\<rparr>)
      | ReplyLost # fs \<Rightarrow> (False, c\<lparr>rc_store := f (rc_store c), rc_faults := fs\<rparr>))"

lemma call_faults:
  "call f c = (ok, c') \<Longrightarrow> rc_ops c' = rc_ops c \<and> length (rc_faults c') \<le> length (rc_faults c) \<and>
     (\<not> ok \<longrightarrow> length (rc_faults c') < length (rc_faults c))"
  by (auto simp: call_def split: list.splits call_fate.splits)

lemma call_store: "call f c = (ok, c') \<Longrightarrow>
    rc_store c' = rc_store c \<and> \<not> ok \<or> rc_store c' = f (rc_store c)"
  by (auto simp: call_def split: list.splits call_fate.splits)

lemma call_True: "call f c = (True, c') \<Longrightarrow> rc_store c' = f (rc_store c)"
  by (auto simp: call_def split: list.splits call_fate.splits)

subsection \<open>Retry loops\<close>

text \<open>\<open>_set_with_retry\<close>: \<open>SET\<close>, then \<open>EXPIRE\<close> when a duration is given; either may be repeated.\<close>

function set_with_retry ::
    "('r, 'v) redis_client \<Rightarrow> string \<Rightarrow> 'v \<Rightarrow> int \<Rightarrow> ('r, 'v) redis_client" where
  "set_with_retry c k v secs =
     (let (ok, c1) = call (\<lambda>r. r_set (rc_ops c) r k v) c
      in if \<not> ok then set_with_retry c1 k v secs
         else if secs \<le> 0 then c1
         else let (ok', c2) = call (\<lambda>r. r_expire (rc_ops c) r k secs) c1
              in if ok' then c2 else set_with_retry c2 k v secs)"
  by pat_completeness auto

termination
proof (relation "measure (\<lambda>(c, k, v, secs). length (rc_faults c))", goal_cases)
  case (2 c k v secs x ok c1)
  then show ?case using call_faults [of "\<lambda>r. r_set (rc_ops c) r k v" c ok c1] by auto
next
  case (3 c k v secs x ok c1 y ok' c2)
  then show ?case
    using call_faults [of "\<lambda>r. r_set (rc_ops c) r k v" c ok c1]
      call_faults [of "\<lambda>r. r_expire (rc_ops c) r k secs" c1 ok' c2] by auto
qed auto

function delete_with_retry :: "('r, 'v) redis_client \<Rightarrow> string \<Rightarrow> ('r, 'v) redis_client" where
  "delete_with_retry c k =
     (let (ok, c1) = call (\<lambda>r. r_delete (rc_ops c) r k) c
      in if ok then c1 else delete_with_retry c1 k)"
  by pat_completeness auto

termination
proof (relation "measure (\<lambda>(c, k). length (rc_faults c))", goal_cases)
  case (2 c k x ok c1)
  then show ?case using call_faults [of "\<lambda>r. r_delete (rc_ops c) r k" c ok c1] by auto
qed auto

text \<open>\<open>_get_with_retry\<close>: reading changes nothing, so only the fates are consumed.\<close>

function get_with_retry :: "('r, 'v) redis_client \<Rightarrow> string \<Rightarrow> 'v option \<times> ('r, 'v) redis_client"
  where
  "get_with_retry c k =
     (let (ok, c1) = call (\<lambda>r. r) c
      in if ok then (r_get (rc_ops c) (rc_store c) k, c1) else get_with_retry c1 k)"
  by pat_completeness auto

termination
proof (relation "measure (\<lambda>(c, k). length (rc_faults c))", goal_cases)
  case (2 c k x ok c1)
  then show ?case using call_faults [of "\<lambda>r. r" c ok c1] by auto
qed auto

declare set_with_retry.simps [simp del] delete_with_retry.simps [simp del]
  get_with_retry.simps [simp del]

subsection \<open>\<open>NxsRedisSimpleKeyValueDb\<close>\<close>

definition set_value :: "('r, 'v) redis_client \<Rightarrow> string \<Rightarrow> 'v \<Rightarrow> ('r, 'v) redis_client" where
  "set_value c k v = set_with_retry c k v 0"

definition get_value :: "('r, 'v) redis_client \<Rightarrow> string \<Rightarrow> 'v option \<times> ('r, 'v) redis_client" where
  "get_value c k = get_with_retry c k"

definition delete_key :: "('r, 'v) redis_client \<Rightarrow> string \<Rightarrow> ('r, 'v) redis_client" where
  "delete_key c k = delete_with_retry c k"

text \<open>A client is sound when its server behaves as documented; its contents are what \<open>GET\<close> returns.\<close>

definition client_ok :: "('r, 'v) redis_client \<Rightarrow> bool" where
  "client_ok c \<longleftrightarrow> redis_ok (rc_ops c)"

definition contents :: "('r, 'v) redis_client \<Rightarrow> string \<Rightarrow> 'v option" where
  "contents c k = r_get (rc_ops c) (rc_store c) k"


lemma call_set:
  assumes "call (\<lambda>r. r_set (rc_ops c) r k v) c = (ok, c1)" "client_ok c"
  shows "rc_ops c1 = rc_ops c"
    "contents c1 = contents c \<and> \<not> ok \<or> contents c1 = (contents c)(k \<mapsto> v)"
proof -
  show ops: "rc_ops c1 = rc_ops c" using call_faults [OF assms(1)] by simp
  show "contents c1 = contents c \<and> \<not> ok \<or> contents c1 = (contents c)(k \<mapsto> v)"
    using call_store [OF assms(1)] ops assms(2)
    by (auto simp: contents_def client_ok_def fun_eq_iff external_simps)
qed

lemma call_expire:
  assumes "call (\<lambda>r. r_expire (rc_ops c0) r k n) c = (ok, c1)" "client_ok c" "rc_ops c0 = rc_ops c"
  shows "rc_ops c1 = rc_ops c" "contents c1 = contents c"
proof -
  show ops: "rc_ops c1 = rc_ops c" using call_faults [OF assms(1)] by simp
  show "contents c1 = contents c"
    using call_store [OF assms(1)] ops assms(2,3)
    by (auto simp: contents_def client_ok_def fun_eq_iff external_simps)
qed

lemma set_with_retry_spec:
  assumes "client_ok c"
  shows "rc_ops (set_with_retry c k v n) = rc_ops c \<and>
    contents (set_with_retry c k v n) = (contents c)(k \<mapsto> v)"
  using assms
proof (induction c k v n rule: set_with_retry.induct)
  case (1 c k v n)
  obtain ok c1 where c1: "call (\<lambda>r. r_set (rc_ops c) r k v) c = (ok, c1)" by force
  obtain ok' c2 where c2: "call (\<lambda>r. r_expire (rc_ops c) r k n) c1 = (ok', c2)" by force
  note s1 = call_set [OF c1 1(3)]
  have o1: "client_ok c1" using s1(1) 1(3) by (simp add: client_ok_def)
  note s2 = call_expire [OF c2 o1 s1(1) [symmetric]]
  have o2: "client_ok c2" using s2(1) o1 by (simp add: client_ok_def)
  have eq: "set_with_retry c k v n = (if \<not> ok then set_with_retry c1 k v n
      else if n \<le> 0 then c1 else if ok' then c2 else set_with_retry c2 k v n)"
    by (subst set_with_retry.simps) (simp only: c1 c2 Let_def prod.case)
  show ?case
  proof (cases "ok \<and> n > 0 \<and> \<not> ok'")
    case True
    then have "rc_ops (set_with_retry c2 k v n) = rc_ops c2 \<and>
        contents (set_with_retry c2 k v n) = (contents c2)(k \<mapsto> v)"
      by (intro 1(2) [OF c1 [symmetric] refl _ _ c2 [symmetric] refl _ o2]) auto
    with True s1 s2 show ?thesis by (simp add: eq)
  next
    case False
    have "\<not> ok \<Longrightarrow> rc_ops (set_with_retry c1 k v n) = rc_ops c1 \<and>
        contents (set_with_retry c1 k v n) = (contents c1)(k \<mapsto> v)"
      by (rule 1(1) [OF c1 [symmetric] refl _ o1])
    with False s1 s2 show ?thesis by (cases ok; cases ok') (auto simp: eq)
  qed
qed

lemma delete_with_retry_spec:
  assumes "client_ok c"
  shows "rc_ops (delete_with_retry c k) = rc_ops c \<and>
    contents (delete_with_retry c k) = (contents c)(k := None)"
  using assms
proof (induction c k rule: delete_with_retry.induct)
  case (1 c k)
  obtain ok c1 where c1: "call (\<lambda>r. r_delete (rc_ops c) r k) c = (ok, c1)" by force
  have ops: "rc_ops c1 = rc_ops c" using call_faults [OF c1] by simp
  have s1: "contents c1 = contents c \<and> \<not> ok \<or> contents c1 = (contents c)(k := None)"
    using call_store [OF c1] ops 1(2)
    by (auto simp: contents_def client_ok_def fun_eq_iff external_simps)
  have o1: "client_ok c1" using ops 1(2) by (simp add: client_ok_def)
  have "\<not> ok \<Longrightarrow> rc_ops (delete_with_retry c1 k) = rc_ops c1 \<and>
      contents (delete_with_retry c1 k) = (contents c1)(k := None)"
    by (rule 1(1) [OF c1 [symmetric] refl _ o1])
  moreover have "delete_with_retry c k = (if ok then c1 else delete_with_retry c1 k)"
    by (subst delete_with_retry.simps) (simp only: c1 Let_def prod.case)
  ultimately show ?case using s1 ops by (cases ok) auto
qed

lemma get_with_retry_spec:
  "fst (get_with_retry c k) = contents c k \<and> rc_ops (snd (get_with_retry c k)) = rc_ops c \<and>
   contents (snd (get_with_retry c k)) = contents c"
proof (induction c k rule: get_with_retry.induct)
  case (1 c k)
  obtain ok c1 where c1: "call (\<lambda>r. r) c = (ok, c1)" by force
  have ops: "rc_ops c1 = rc_ops c" "rc_store c1 = rc_store c"
    using call_faults [OF c1] call_store [OF c1] by auto
  then have s1: "contents c1 = contents c" by (simp add: contents_def fun_eq_iff)
  have "\<not> ok \<Longrightarrow> fst (get_with_retry c1 k) = contents c1 k \<and>
      rc_ops (snd (get_with_retry c1 k)) = rc_ops c1 \<and>
      contents (snd (get_with_retry c1 k)) = contents c1"
    by (rule 1 [OF c1 [symmetric] refl])
  moreover have "get_with_retry c k =
      (if ok then (contents c k, c1) else get_with_retry c1 k)"
    by (subst get_with_retry.simps) (simp only: c1 Let_def prod.case contents_def)
  ultimately show ?case using s1 ops by (cases ok) auto
qed

subsection \<open>The interface of key-value stores\<close>

text \<open>
  \<open>NxsSimpleKeyValueDb\<close>: what its clients rely on. \<open>content\<close> is the dictionary a store stands
  for, \<open>sound\<close> the states in which it works.
\<close>

locale key_value_db =
  fixes sound :: "'d \<Rightarrow> bool"
    and content :: "'d \<Rightarrow> string \<Rightarrow> 'v option"
    and store :: "'d \<Rightarrow> string \<Rightarrow> 'v \<Rightarrow> 'd"
    and fetch :: "'d \<Rightarrow> string \<Rightarrow> 'v option \<times> 'd"
    and erase :: "'d \<Rightarrow> string \<Rightarrow> 'd"
  assumes sound_store: "sound d \<Longrightarrow> sound (store d k v)"
    and sound_fetch: "sound d \<Longrightarrow> sound (snd (fetch d k))"
    and sound_erase: "sound d \<Longrightarrow> sound (erase d k)"
    and content_store: "sound d \<Longrightarrow> content (store d k v) = (content d)(k \<mapsto> v)"
    and fetch_content: "sound d \<Longrightarrow> fst (fetch d k) = content d k"
    and content_fetch: "sound d \<Longrightarrow> content (snd (fetch d k)) = content d"
    and content_erase: "sound d \<Longrightarrow> content (erase d k) = (content d)(k := None)"
begin

text \<open>Writing a list of pairs, and erasing a list of keys.\<close>

lemma content_stores:
  "sound d \<Longrightarrow> sound (foldl (\<lambda>d (k, v). store d k v) d kvs) \<and>
     content (foldl (\<lambda>d (k, v). store d k v) d kvs) = content d ++ map_of (rev kvs)"
proof (induction kvs arbitrary: d)
  case (Cons p kvs)
  obtain k v where p: "p = (k, v)" by force
  have "sound (store d k v)" using Cons.prems by (rule sound_store)
  from Cons.IH [OF this] show ?case
    by (simp add: p content_store Cons.prems map_add_def fun_eq_iff split: option.splits)
qed simp

lemma content_erases:
  "sound d \<Longrightarrow> sound (foldl erase d ks) \<and>
     content (foldl erase d ks) = (\<lambda>k. if k \<in> set ks then None else content d k)"
  by (induction ks arbitrary: d) (auto simp: sound_erase content_erase fun_eq_iff)

text \<open>A fetch returns the last value written, whatever happened to other keys in between.\<close>

lemma fetch_after_store:
  assumes "sound d" "k \<notin> set (map fst kvs)" "k \<notin> set ks"
  shows "fst (fetch (foldl erase (foldl (\<lambda>d (k, v). store d k v) (store d k v) kvs) ks) k) = Some v"
proof -
  let ?d = "foldl (\<lambda>d (k, v). store d k v) (store d k v) kvs"
  have "map_of (rev kvs) k = None" using assms(2) by (simp add: map_of_eq_None_iff)
  then have d: "sound ?d" "content ?d k = Some v"
    using content_stores [OF sound_store [OF assms(1)], where kvs = kvs]
    by (simp_all add: content_store assms(1) map_add_def)
  then show ?thesis
    using content_erases [OF d(1), of ks] assms(3) by (simp add: fetch_content)
qed

end

interpretation kv: key_value_db client_ok contents set_value get_value delete_key
proof (unfold_locales, goal_cases)
  case (1 d k v)
  then show ?case using set_with_retry_spec [of d k v 0] by (simp add: set_value_def client_ok_def)
next
  case (2 d k)
  then show ?case using get_with_retry_spec [of d k] by (simp add: get_value_def client_ok_def)
next
  case (3 d k)
  then show ?case using delete_with_retry_spec [of d k] by (simp add: delete_key_def client_ok_def)
next
  case (4 d k v)
  then show ?case using set_with_retry_spec [of d k v 0] by (simp add: set_value_def client_ok_def)
next
  case (5 d k)
  then show ?case using get_with_retry_spec [of d k] by (simp add: get_value_def client_ok_def)
next
  case (6 d k)
  then show ?case using get_with_retry_spec [of d k] by (simp add: get_value_def client_ok_def)
next
  case (7 d k)
  then show ?case using delete_with_retry_spec [of d k] by (simp add: delete_key_def client_ok_def)
qed

lemmas kv_simps = kv.sound_store kv.sound_fetch kv.sound_erase kv.content_store kv.fetch_content
  kv.content_fetch kv.content_erase

end
