(* ===== verification/Nxs_Runtime.thy ===== *)
theory Nxs_Runtime
  imports Nxs_Redis
begin

section \<open>Runtime objects (\<open>nxs_libs/object/\<close>)\<close>

text \<open>
  \<open>NxsBackendRuntime\<close> is the scheduler's record of a backend, mirrored in the key-value store
  so that a restarted scheduler finds it; \<open>NxsPipelineRuntime\<close> loads a pipeline and its models
  from the main database. The values of the store are pickled Python objects; \<open>kv_value\<close>
  lists the types the modelled components store.
\<close>

datatype kv_value =
    KvNames "string list"
  | KvBackend backend_info
  | KvTime rat
  | KvSchedulerLog nxs_scheduler_log
  | KvBackendLogs "backend_throughput_log list"

subsection \<open>Backends\<close>

text \<open>
  \<open>last_alive_ts\<close> is whatever object was found under its key: a time, unless another backend's
  key collides with it. The GPU flag is computed once, by the constructor.
\<close>

record backend_runtime =
  br_backend_info :: backend_info
  br_last_alive_ts :: kv_value
  br_has_gpu :: bool

definition new_backend_runtime :: "backend_info \<Rightarrow> kv_value \<Rightarrow> backend_runtime" where
  "new_backend_runtime info ts =
     \<lparr>br_backend_info = info, br_last_alive_ts = ts,
      br_has_gpu = (bs_gpu_info (bi_state info) \<noteq> None)\<rparr>"

definition update_info_from_heartbeat ::
    "backend_runtime \<Rightarrow> backend_stat \<Rightarrow> rat \<Rightarrow> backend_runtime" where
  "update_info_from_heartbeat b st now =
     b\<lparr>br_backend_info := (br_backend_info b)\<lparr>bi_state := st\<rparr>, br_last_alive_ts := KvTime now\<rparr>"

definition backend_topic :: "string \<Rightarrow> string" where
  "backend_topic bn = ''backend_'' @ bn"

definition backend_ts_topic :: "string \<Rightarrow> string" where
  "backend_ts_topic bn = backend_topic bn @ ''_ts''"

type_synonym 'r kv_client = "('r, kv_value) redis_client"

definition update_entry_in_db :: "'r kv_client \<Rightarrow> backend_runtime \<Rightarrow> 'r kv_client" where
  "update_entry_in_db db b =
     (let bn = bi_backend_name (br_backend_info b)
      in set_value (set_value db (backend_topic bn) (KvBackend (br_backend_info b)))
           (backend_ts_topic bn) (br_last_alive_ts b))"

definition remove_backend_entry :: "'r kv_client \<Rightarrow> backend_runtime \<Rightarrow> 'r kv_client" where
  "remove_backend_entry db b = delete_key db (backend_topic (bi_backend_name (br_backend_info b)))"

text \<open>
  \<open>get_data_from_db\<close>; \<open>now\<close> is the clock reading of the constructor when no time is stored. An
  object of another type has no field \<open>state\<close>.
\<close>

definition get_data_from_db ::
    "'r kv_client \<Rightarrow> string \<Rightarrow> rat \<Rightarrow> (backend_runtime option \<times> 'r kv_client) result" where
  "get_data_from_db db bn now =
     (let (v, db1) = get_value db (backend_topic bn)
      in case v of
           None \<Rightarrow> Inr (None, db1)
         | Some v \<Rightarrow>
             let (t, db2) = get_value db1 (backend_ts_topic bn);
                 ts = (case t of None \<Rightarrow> KvTime now | Some t \<Rightarrow> t)
             in case v of
                  KvBackend info \<Rightarrow> Inr (Some (new_backend_runtime info ts), db2)
                | _ \<Rightarrow> Inl AttributeError)"

subsection \<open>Pipelines\<close>

text \<open>\<open>db.query(...)[0]\<close>.\<close>

definition query_model :: "main_db \<Rightarrow> string \<Rightarrow> nxs_model result" where
  "query_model db u = (case query_models db u of [] \<Rightarrow> Inl IndexError | m # _ \<Rightarrow> Inr m)"

definition load_cmodel :: "main_db \<Rightarrow> string \<Rightarrow> nxs_compository_model result" where
  "load_cmodel db u =
     bindE (query_model db u) (\<lambda>m.
       if m_model_type m = MT_COMPOSITE
       then bindE (mapE (query_model db) (m_collocated_model_uuids m)) (\<lambda>ms.
              Inr \<lparr>cm_main_model = m, cm_component_models = m # ms\<rparr>)
       else Inr \<lparr>cm_main_model = m, cm_component_models = [m]\<rparr>)"

definition get_from_db :: "main_db \<Rightarrow> string \<Rightarrow> rat \<Rightarrow> nxs_pipeline_runtime_info option result"
  where
  "get_from_db db u now =
     (case query_pipelines db u of
        [] \<Rightarrow> Inr None
      | p # _ \<Rightarrow>
          bindE (mapE (load_cmodel db) (p_pipeline p)) (\<lambda>ms.
            Inr (Some \<lparr>p_user_name = p_user_name p, p_pipeline_uuid = p_pipeline_uuid p,
              p_pipeline = p_pipeline p, p_is_public = p_is_public p, pi_models = ms,
              pr_last_alive_ts = now\<rparr>)))"

text \<open>\<open>get_pipeline_info\<close>: a clone of class \<open>NxsPipelineInfo\<close>, without the time stamp.\<close>

definition get_pipeline_info :: "nxs_pipeline_runtime_info \<Rightarrow> nxs_pipeline_info" where
  "get_pipeline_info p =
     \<lparr>p_user_name = p_user_name p, p_pipeline_uuid = p_pipeline_uuid p, p_pipeline = p_pipeline p,
      p_is_public = p_is_public p, pi_models = pi_models p\<rparr>"

subsection \<open>Facts\<close>

lemma backend_topic_inject [simp]: "backend_topic a = backend_topic b \<longleftrightarrow> a = b"
  by (simp add: backend_topic_def)

lemma backend_ts_topic_inject [simp]: "backend_ts_topic a = backend_ts_topic b \<longleftrightarrow> a = b"
  by (simp add: backend_ts_topic_def)

lemma backend_topic_ts: "backend_topic a = backend_ts_topic b \<longleftrightarrow> a = b @ ''_ts''"
  by (simp add: backend_topic_def backend_ts_topic_def)

lemma update_entry_ok [simp]: "client_ok db \<Longrightarrow> client_ok (update_entry_in_db db b)"
  by (simp add: update_entry_in_db_def Let_def kv_simps)

lemma contents_update_entry:
  assumes "client_ok db"
  shows "contents (update_entry_in_db db b) =
    (contents db)(backend_topic (bi_backend_name (br_backend_info b)) \<mapsto> KvBackend (br_backend_info b),
      backend_ts_topic (bi_backend_name (br_backend_info b)) \<mapsto> br_last_alive_ts b)"
  using assms by (simp add: update_entry_in_db_def Let_def kv_simps)

lemma remove_entry_ok [simp]: "client_ok db \<Longrightarrow> client_ok (remove_backend_entry db b)"
  by (simp add: remove_backend_entry_def kv_simps)

lemma contents_remove_entry:
  "client_ok db \<Longrightarrow> contents (remove_backend_entry db b) =
     (contents db)(backend_topic (bi_backend_name (br_backend_info b)) := None)"
  by (simp add: remove_backend_entry_def kv_simps)

text \<open>What a restarted process finds of a stored backend.\<close>

lemma get_data_from_db_spec:
  assumes "client_ok db" "contents db (backend_topic bn) = Some (KvBackend info)"
    "contents db (backend_ts_topic bn) = Some t"
  obtains db' where "get_data_from_db db bn now = Inr (Some (new_backend_runtime info t), db')"
    "client_ok db'" "contents db' = contents db"
proof -
  obtain v db1 where g1: "get_value db (backend_topic bn) = (v, db1)" by force
  obtain w db2 where g2: "get_value db1 (backend_ts_topic bn) = (w, db2)" by force
  have 1: "v = Some (KvBackend info)" "client_ok db1" "contents db1 = contents db"
    using kv.fetch_content [OF assms(1), of "backend_topic bn"] kv.sound_fetch [OF assms(1)]
      kv.content_fetch [OF assms(1), of "backend_topic bn"] g1 assms(2)
    by (metis fst_conv, metis snd_conv, simp)
  have 2: "w = Some t" "client_ok db2" "contents db2 = contents db"
    using kv.fetch_content [OF 1(2), of "backend_ts_topic bn"] kv.sound_fetch [OF 1(2)]
      kv.content_fetch [OF 1(2), of "backend_ts_topic bn"] g2 assms(3) 1(3)
    by (metis fst_conv, metis snd_conv, simp)
  show ?thesis
    by (rule that [of db2]) (simp_all add: get_data_from_db_def g1 g2 1 2)
qed

lemma get_pipeline_info_models [simp]: "pi_models (get_pipeline_info p) = pi_models p"
  by (simp add: get_pipeline_info_def)

end
