(* ===== verification/Nxs_Scheduler.thy ===== *)
theory Nxs_Scheduler
  imports Nxs_Runtime Nxs_Policy
begin

section \<open>The scheduler process (\<open>main_processes/scheduler/main.py\<close>)\<close>

text \<open>
  \<open>NxsSchedulerProcess\<close>: the registry of backends, the handlers of the messages it pulls, the
  expiry check, and the rounds in which it asks a scheduling policy for plans and sends them
  out. The policy is a parameter, as it is in the constructor; \<open>policy_v2\<close> is the one that
  \<open>__main__\<close> passes.

  A message pushed to a topic is an element (topic, message) of \<open>sc_sent\<close>. \<open>state_db\<close> and
  \<open>kv_store\<close> are clients of the same Redis server, so they share one state. The values of
  \<open>cpu_backends\<close> and \<open>gpu_backends\<close> are the objects of \<open>backends\<close>, so only their keys are
  kept. \<open>time.time()\<close> is the sequence \<open>now\<close> of readings; \<open>sc_clock\<close> counts them.
\<close>

subsection \<open>State and parameters\<close>

text \<open>
  A policy mutates \<open>session_uuid\<close> of the requests it is given, so the parameter also returns
  the requests as it leaves them.
\<close>

type_synonym 'p policy_op =
  "'p \<Rightarrow> nxs_scheduling_request list \<Rightarrow> backend_info list \<Rightarrow>
   ((nxs_scheduling_plan \<times> nxs_scheduling_request list) \<times> 'p) result"

definition policy_v2 :: "policy policy_op" where
  "policy_v2 s rs bs =
     bindE (schedule s rs bs) (\<lambda>(plan, t). Inr ((plan, map qualify_request rs), t))"

record ('c, 'm, 'p) scheduler_env =
  se_heartbeat_interval :: rat
  se_backend_timeout_secs :: rat
  se_pipeline_lru :: "('c, string, nxs_pipeline_runtime_info) lru_ops"
  se_cmodel_lru :: "('m, string, nxs_compository_model) lru_ops"
  se_main_db :: main_db
  se_policy :: "'p policy_op"
  se_now :: "nat \<Rightarrow> rat"

record ('c, 'm, 'p, 'r) scheduler =
  sc_backends :: "(string, backend_runtime) dict"
  sc_cpu_backends :: "string list"
  sc_gpu_backends :: "string list"
  sc_pipeline_cache :: 'c
  sc_cmodel_cache :: 'm
  sc_last_requests :: "nxs_scheduling_request list"
  sc_db :: "'r kv_client"
  sc_policy :: 'p
  sc_sent :: "(string \<times> nxs_msg) list"
  sc_clock :: nat

definition new_scheduler ::
    "'c \<Rightarrow> 'm \<Rightarrow> 'p \<Rightarrow> 'r kv_client \<Rightarrow> ('c, 'm, 'p, 'r) scheduler" where
  "new_scheduler pc mc p db =
     \<lparr>sc_backends = [], sc_cpu_backends = [], sc_gpu_backends = [], sc_pipeline_cache = pc,
      sc_cmodel_cache = mc, sc_last_requests = [], sc_db = db, sc_policy = p, sc_sent = [],
      sc_clock = 0\<rparr>"

definition BACKEND_ROOT_TOPIC :: string where
  "BACKEND_ROOT_TOPIC = ''backends''"

definition push_msg ::
    "string \<Rightarrow> nxs_msg \<Rightarrow> ('c, 'm, 'p, 'r) scheduler \<Rightarrow> ('c, 'm, 'p, 'r) scheduler" where
  "push_msg topic m s = s\<lparr>sc_sent := sc_sent s @ [(topic, m)]\<rparr>"

definition read_clock ::
    "('c, 'm, 'p) scheduler_env \<Rightarrow> ('c, 'm, 'p, 'r) scheduler \<Rightarrow> rat \<times> ('c, 'm, 'p, 'r) scheduler"
  where
  "read_clock E s = (se_now E (sc_clock s), s\<lparr>sc_clock := Suc (sc_clock s)\<rparr>)"

subsection \<open>Registration and heartbeats\<close>

definition update_backend_name_list_in_db ::
    "('c, 'm, 'p, 'r) scheduler \<Rightarrow> ('c, 'm, 'p, 'r) scheduler" where
  "update_backend_name_list_in_db s =
     s\<lparr>sc_db := set_value (sc_db s) BACKEND_ROOT_TOPIC (KvNames (dkeys (sc_backends s)))\<rparr>"

text \<open>\<open>self.backends[name] = backend\<close> and the entry in one of the two other dictionaries.\<close>

definition put_backend ::
    "string \<Rightarrow> backend_runtime \<Rightarrow> ('c, 'm, 'p, 'r) scheduler \<Rightarrow> ('c, 'm, 'p, 'r) scheduler" where
  "put_backend bn b s =
     s\<lparr>sc_backends := AList.update bn b (sc_backends s),
       sc_cpu_backends := (if br_has_gpu b then sc_cpu_backends s
                           else add_new (sc_cpu_backends s) bn),
       sc_gpu_backends := (if br_has_gpu b then add_new (sc_gpu_backends s) bn
                           else sc_gpu_backends s)\<rparr>"

text \<open>\<open>BackendInfo(...)\<close> raises a validation error when the message carries no state.\<close>

definition add_new_backend ::
    "('c, 'm, 'p) scheduler_env \<Rightarrow> string \<Rightarrow> backend_stat option \<Rightarrow> ('c, 'm, 'p, 'r) scheduler \<Rightarrow>
     ('c, 'm, 'p, 'r) scheduler result" where
  "add_new_backend E bn st s =
     (case st of
        None \<Rightarrow> Inl (Raised ''ValidationError'')
      | Some st \<Rightarrow>
          let (now, s1) = read_clock E s;
              b = new_backend_runtime \<lparr>bi_backend_name = bn, bi_state = st\<rparr> (KvTime now);
              s2 = put_backend bn b s1
          in Inr (s2\<lparr>sc_db := update_entry_in_db (sc_db s2) b\<rparr>))"

text \<open>\<open>interval: int\<close> truncates the configured number towards zero.\<close>

definition truncate_int :: "rat \<Rightarrow> int" where
  "truncate_int x = (if x \<ge> 0 then \<lfloor>x\<rfloor> else \<lceil>x\<rceil>)"

definition send_heartbeat_interval ::
    "('c, 'm, 'p) scheduler_env \<Rightarrow> string \<Rightarrow> ('c, 'm, 'p, 'r) scheduler \<Rightarrow>
     ('c, 'm, 'p, 'r) scheduler" where
  "send_heartbeat_interval E bn =
     push_msg bn (MsgChangeHeartbeatInterval (truncate_int (se_heartbeat_interval E)))"

text \<open>\<open>deploy_models_on_single_backend\<close> does nothing: its body is commented out.\<close>

definition process_register_backend ::
    "('c, 'm, 'p) scheduler_env \<Rightarrow> string \<Rightarrow> backend_stat option \<Rightarrow> ('c, 'm, 'p, 'r) scheduler \<Rightarrow>
     ('c, 'm, 'p, 'r) scheduler result" where
  "process_register_backend E bn st s =
     (if bn \<in> set (dkeys (sc_backends s)) then Inr (send_heartbeat_interval E bn s)
      else bindE (add_new_backend E bn st s) (\<lambda>s1.
             Inr (update_backend_name_list_in_db (send_heartbeat_interval E bn s1))))"

text \<open>
  A heartbeat without a state makes \<open>get_runtime_info\<close> raise a validation error, when
  \<open>update_entry_in_db\<close> builds the entry.
\<close>

definition process_heartbeat_msg ::
    "('c, 'm, 'p) scheduler_env \<Rightarrow> string \<Rightarrow> backend_stat option \<Rightarrow> ('c, 'm, 'p, 'r) scheduler \<Rightarrow>
     ('c, 'm, 'p, 'r) scheduler result" where
  "process_heartbeat_msg E bn st s =
     (case map_of (sc_backends s) bn of
        None \<Rightarrow> Inr (push_msg bn MsgRequestRegisterBackend s)
      | Some b \<Rightarrow>
          (case st of
             None \<Rightarrow> Inl (Raised ''ValidationError'')
           | Some st \<Rightarrow>
               let (now, s1) = read_clock E s; b' = update_info_from_heartbeat b st now
               in Inr (s1\<lparr>sc_backends := AList.update bn b' (sc_backends s1),
                          sc_db := update_entry_in_db (sc_db s1) b'\<rparr>)))"

subsection \<open>Workloads\<close>

definition get_pipeline_runtime ::
    "('c, 'm, 'p) scheduler_env \<Rightarrow> string \<Rightarrow> ('c, 'm, 'p, 'r) scheduler \<Rightarrow>
     (nxs_pipeline_runtime_info \<times> ('c, 'm, 'p, 'r) scheduler) result" where
  "get_pipeline_runtime E u s =
     (let L = se_pipeline_lru E in
      if lru_has L (sc_pipeline_cache s) u
      then Inr (lru_get L (sc_pipeline_cache s) u,
                s\<lparr>sc_pipeline_cache := lru_touch L (sc_pipeline_cache s) u\<rparr>)
      else let (now, s1) = read_clock E s in
           bindE (get_from_db (se_main_db E) u now) (\<lambda>p.
             case p of
               None \<Rightarrow> Inl AttributeError
             | Some p \<Rightarrow>
                 Inr (p, s1\<lparr>sc_pipeline_cache := lru_put L (sc_pipeline_cache s1) u p,
                       sc_cmodel_cache :=
                         foldl (\<lambda>c m. lru_put (se_cmodel_lru E) c (cmodel_uuid m) m)
                           (sc_cmodel_cache s1) (pi_models p)\<rparr>)))"

text \<open>\<open>_get_compository_model_info\<close> is defined but never called.\<close>

definition get_compository_model_info ::
    "('c, 'm, 'p) scheduler_env \<Rightarrow> string \<Rightarrow> ('c, 'm, 'p, 'r) scheduler \<Rightarrow>
     nxs_compository_model option" where
  "get_compository_model_info E u s =
     (if lru_has (se_cmodel_lru E) (sc_cmodel_cache s) u
      then Some (lru_get (se_cmodel_lru E) (sc_cmodel_cache s) u) else None)"

definition clone_nxs_compository_model :: "nxs_compository_model \<Rightarrow> nxs_compository_model" where
  "clone_nxs_compository_model c =
     \<lparr>cm_main_model = cm_main_model c, cm_component_models = map (\<lambda>m. m) (cm_component_models c)\<rparr>"

definition clone_nxs_scheduling_request :: "nxs_scheduling_request \<Rightarrow> nxs_scheduling_request" where
  "clone_nxs_scheduling_request r =
     (let p = sr_pipeline_info r in
      \<lparr>sr_pipeline_info = \<lparr>p_user_name = p_user_name p, p_pipeline_uuid = p_pipeline_uuid p,
         p_pipeline = p_pipeline p, p_is_public = p_is_public p,
         pi_models = map clone_nxs_compository_model (pi_models p)\<rparr>,
       sr_session_uuid = sr_session_uuid r, sr_requested_fps = sr_requested_fps r\<rparr>)"

definition scheduling_log ::
    "nxs_scheduling_request list \<Rightarrow> per_backend_plan list \<Rightarrow> nxs_scheduler_log" where
  "scheduling_log rs plans =
     \<lparr>sl_scheduling_requests = map (\<lambda>r.
        \<lparr>ssr_pipeline_uuid = request_pipeline r, ssr_session_uuid = sr_session_uuid r,
         ssr_cmodel_uuid_list = map cmodel_uuid (request_models r),
         ssr_requested_fps = sr_requested_fps r\<rparr>) rs,
      sl_scheduling_plans = map (\<lambda>p.
        \<lparr>sbl_backend_name = sbp_backend_name p,
         sbl_cmodel_uuid_list = map scp_model_uuid (sbp_compository_model_plans p)\<rparr>) plans\<rparr>"

definition schedule_workloads ::
    "('c, 'm, 'p) scheduler_env \<Rightarrow> nxs_scheduling_request list \<Rightarrow> ('c, 'm, 'p, 'r) scheduler \<Rightarrow>
     ('c, 'm, 'p, 'r) scheduler result" where
  "schedule_workloads E rs s =
     (let clones = map clone_nxs_scheduling_request rs;
          infos = map (\<lambda>(bn, b). br_backend_info b) (sc_backends s)
      in bindE (se_policy E (sc_policy s) rs infos) (\<lambda>((plan, rs'), p').
           let s1 = s\<lparr>sc_policy := p'\<rparr>;
               s2 = foldl (\<lambda>s p. push_msg (ubp_backend_name p) (MsgUnschedulePlans p) s)
                      s1 (sp_unscheduling plan);
               s3 = foldl (\<lambda>s p. push_msg (sbp_backend_name p) (MsgSchedulePlans p) s)
                      s2 (sp_scheduling plan)
           in Inr (s3\<lparr>sc_last_requests := clones,
                      sc_db := set_value (sc_db s3) SCHEDULER_LOGS
                        (KvSchedulerLog (scheduling_log rs' (sp_scheduling plan)))\<rparr>)))"

definition reschedule_workloads ::
    "('c, 'm, 'p) scheduler_env \<Rightarrow> ('c, 'm, 'p, 'r) scheduler \<Rightarrow> ('c, 'm, 'p, 'r) scheduler result"
  where
  "reschedule_workloads E s = schedule_workloads E (sc_last_requests s) s"

definition workload_request ::
    "workload_report \<Rightarrow> nxs_pipeline_runtime_info \<Rightarrow> nxs_scheduling_request" where
  "workload_request w p =
     \<lparr>sr_pipeline_info = get_pipeline_info p, sr_session_uuid = wr_session_uuid w,
      sr_requested_fps = wr_fps w\<rparr>"

definition collect_requests ::
    "('c, 'm, 'p) scheduler_env \<Rightarrow> workload_report list \<Rightarrow> ('c, 'm, 'p, 'r) scheduler \<Rightarrow>
     (nxs_scheduling_request list \<times> ('c, 'm, 'p, 'r) scheduler) result" where
  "collect_requests E ws s =
     foldE (\<lambda>(rs, s) w. bindE (get_pipeline_runtime E (wr_pipeline_uuid w) s) (\<lambda>(p, s').
         Inr (rs @ [workload_request w p], s'))) ([], s) ws"

definition process_register_workloads ::
    "('c, 'm, 'p) scheduler_env \<Rightarrow> workload_report list \<Rightarrow> ('c, 'm, 'p, 'r) scheduler \<Rightarrow>
     ('c, 'm, 'p, 'r) scheduler result" where
  "process_register_workloads E ws s =
     bindE (collect_requests E ws s) (\<lambda>(rs, s1). schedule_workloads E rs s1)"

subsection \<open>Expiry\<close>

text \<open>\<open>current_ts - backend.get_last_alive_ts()\<close> raises unless a number is stored.\<close>

definition is_expired ::
    "('c, 'm, 'p) scheduler_env \<Rightarrow> rat \<Rightarrow> backend_runtime \<Rightarrow> bool result" where
  "is_expired E now b =
     (case br_last_alive_ts b of
        KvTime t \<Rightarrow> Inr (now - t > se_backend_timeout_secs E)
      | _ \<Rightarrow> Inl TypeError)"

definition expired_names ::
    "('c, 'm, 'p) scheduler_env \<Rightarrow> rat \<Rightarrow> (string, backend_runtime) dict \<Rightarrow> string list result" where
  "expired_names E now d =
     foldE (\<lambda>acc (bn, b). bindE (is_expired E now b)
         (\<lambda>e. Inr (if e then acc @ [bn] else acc))) [] d"

definition drop_backend ::
    "('c, 'm, 'p, 'r) scheduler \<Rightarrow> string \<Rightarrow> ('c, 'm, 'p, 'r) scheduler result" where
  "drop_backend s bn =
     bindE (dlookup (sc_backends s) bn) (\<lambda>b.
       Inr (s\<lparr>sc_backends := AList.delete bn (sc_backends s),
              sc_cpu_backends := removeAll bn (sc_cpu_backends s),
              sc_gpu_backends := removeAll bn (sc_gpu_backends s),
              sc_db := remove_backend_entry (sc_db s) b\<rparr>))"

definition has_expired_backends ::
    "('c, 'm, 'p) scheduler_env \<Rightarrow> ('c, 'm, 'p, 'r) scheduler \<Rightarrow>
     (bool \<times> ('c, 'm, 'p, 'r) scheduler) result" where
  "has_expired_backends E s =
     (let (now, s1) = read_clock E s in
      bindE (expired_names E now (sc_backends s1)) (\<lambda>names.
        if names = [] then Inr (False, s1)
        else bindE (foldE drop_backend s1 names) (\<lambda>s2.
               Inr (True, update_backend_name_list_in_db s2))))"

subsection \<open>Restarting\<close>

definition restore_backend_from_state_db ::
    "('c, 'm, 'p) scheduler_env \<Rightarrow> ('c, 'm, 'p, 'r) scheduler \<Rightarrow> string \<Rightarrow>
     ('c, 'm, 'p, 'r) scheduler result" where
  "restore_backend_from_state_db E s bn =
     (let (now, s1) = read_clock E s in
      bindE (get_data_from_db (sc_db s1) bn now) (\<lambda>(b, db).
        let s2 = s1\<lparr>sc_db := db\<rparr>
        in Inr (case b of None \<Rightarrow> s2 | Some b \<Rightarrow> put_backend bn b s2)))"

text \<open>Nothing but lists of names is ever stored under \<open>BACKEND_ROOT_TOPIC\<close>.\<close>

definition restore_scheduler_states ::
    "('c, 'm, 'p) scheduler_env \<Rightarrow> ('c, 'm, 'p, 'r) scheduler \<Rightarrow> ('c, 'm, 'p, 'r) scheduler result"
  where
  "restore_scheduler_states E s =
     (let (names, db) = get_value (sc_db s) BACKEND_ROOT_TOPIC; s1 = s\<lparr>sc_db := db\<rparr>
      in case names of
           None \<Rightarrow> Inr s1
         | Some (KvNames bns) \<Rightarrow> foldE (restore_backend_from_state_db E) s1 bns
         | Some _ \<Rightarrow> Inl TypeError)"

subsection \<open>The main loop\<close>

text \<open>
  The four \<open>if msg.type == ...\<close> tests. A \<open>NxsMsgReportInputWorkloads\<close> has the type
  \<open>REGISTER_WORKLOADS\<close> but no field \<open>workloads\<close>. \<open>process_backend_stats\<close> calls a method that
  does nothing in the policy.
\<close>

definition process_scheduler_msg ::
    "('c, 'm, 'p) scheduler_env \<Rightarrow> ('c, 'm, 'p, 'r) scheduler \<Rightarrow> nxs_msg \<Rightarrow>
     ('c, 'm, 'p, 'r) scheduler result" where
  "process_scheduler_msg E s msg =
     (case msg of
        MsgRegisterBackend bn st \<Rightarrow> process_register_backend E bn st s
      | MsgRegisterWorkloads ws \<Rightarrow> process_register_workloads E ws s
      | MsgReportInputWorkloads _ \<Rightarrow> Inl AttributeError
      | MsgReportHeartbeat bn st \<Rightarrow> process_heartbeat_msg E bn st s
      | _ \<Rightarrow> Inr s)"

text \<open>
  One iteration of \<open>run\<close> on the pulled messages; \<open>t0\<close> is \<open>check_expired_backend_t0\<close>.
\<close>

definition scheduler_iteration ::
    "('c, 'm, 'p) scheduler_env \<Rightarrow> rat \<times> ('c, 'm, 'p, 'r) scheduler \<Rightarrow> nxs_msg list \<Rightarrow>
     (rat \<times> ('c, 'm, 'p, 'r) scheduler) result" where
  "scheduler_iteration E = (\<lambda>(t0, s) msgs.
     bindE (foldE (process_scheduler_msg E) s msgs) (\<lambda>s1.
       let (now, s2) = read_clock E s1
       in if now - t0 > se_backend_timeout_secs E / 3
          then bindE (has_expired_backends E s2) (\<lambda>(expired, s3).
               bindE (if expired then reschedule_workloads E s3 else Inr s3) (\<lambda>s4.
                 Inr (read_clock E s4)))
          else Inr (t0, s2)))"

text \<open>\<open>run\<close> on a sequence of pulls: the process starts, restores its state and iterates.\<close>

definition scheduler_run ::
    "('c, 'm, 'p) scheduler_env \<Rightarrow> ('c, 'm, 'p, 'r) scheduler \<Rightarrow> nxs_msg list list \<Rightarrow>
     (rat \<times> ('c, 'm, 'p, 'r) scheduler) result" where
  "scheduler_run E s pulls =
     (let (t0, s1) = read_clock E s in
      bindE (restore_scheduler_states E s1) (\<lambda>s2. foldE (scheduler_iteration E) (t0, s2) pulls))"

end
