(* ===== verification/Nxs_Scheduler_Inv.thy ===== *)
theory Nxs_Scheduler_Inv
  imports Nxs_Scheduler
begin

section \<open>The registry of the scheduler: its invariant and its mirror in the store\<close>

text \<open>
  Each handler is shown to keep the invariant of the three dictionaries of backends, and to
  keep the key-value store a faithful copy of them: what a restarted scheduler reads is what
  the old one had.
\<close>

subsection \<open>The invariant\<close>

text \<open>
  The entry of backend \<open>x_ts\<close> and the time stamp of backend \<open>x\<close> have the same key, so a set of
  names is usable when no name is another one followed by \<open>_ts\<close>.
\<close>

definition collision_free :: "string set \<Rightarrow> bool" where
  "collision_free N \<longleftrightarrow> (\<forall>a \<in> N. \<forall>b \<in> N. a \<noteq> b @ ''_ts'')"

definition entry_stored :: "(string \<Rightarrow> kv_value option) \<Rightarrow> string \<times> backend_runtime \<Rightarrow> bool" where
  "entry_stored kv = (\<lambda>(bn, b).
     kv (backend_topic bn) = Some (KvBackend (br_backend_info b)) \<and>
     kv (backend_ts_topic bn) = Some (br_last_alive_ts b))"

definition entry_ok :: "string \<times> backend_runtime \<Rightarrow> bool" where
  "entry_ok = (\<lambda>(bn, b). bi_backend_name (br_backend_info b) = bn \<and>
     (\<exists>t. br_last_alive_ts b = KvTime t))"

definition names_stored :: "(string \<Rightarrow> kv_value option) \<Rightarrow> string list \<Rightarrow> bool" where
  "names_stored kv names \<longleftrightarrow>
     kv BACKEND_ROOT_TOPIC = Some (KvNames names) \<or> kv BACKEND_ROOT_TOPIC = None \<and> names = []"

definition registry_inv :: "string set \<Rightarrow> ('c, 'm, 'p, 'r) scheduler \<Rightarrow> bool" where
  "registry_inv N s \<longleftrightarrow>
     collision_free N \<and> client_ok (sc_db s) \<and>
     dict_ok (sc_backends s) \<and> set (dkeys (sc_backends s)) \<subseteq> N \<and>
     (\<forall>x \<in> set (sc_backends s). entry_ok x \<and> entry_stored (contents (sc_db s)) x) \<and>
     names_stored (contents (sc_db s)) (dkeys (sc_backends s)) \<and>
     distinct (sc_cpu_backends s) \<and> distinct (sc_gpu_backends s) \<and>
     set (sc_cpu_backends s) = {bn. \<exists>b. map_of (sc_backends s) bn = Some b \<and> \<not> br_has_gpu b} \<and>
     set (sc_gpu_backends s) = {bn. \<exists>b. map_of (sc_backends s) bn = Some b \<and> br_has_gpu b}"

lemma topics_apart [simp]:
  "backend_topic bn \<noteq> BACKEND_ROOT_TOPIC" "BACKEND_ROOT_TOPIC \<noteq> backend_topic bn"
  "backend_ts_topic bn \<noteq> BACKEND_ROOT_TOPIC" "BACKEND_ROOT_TOPIC \<noteq> backend_ts_topic bn"
  "backend_topic bn \<noteq> SCHEDULER_LOGS" "SCHEDULER_LOGS \<noteq> backend_topic bn"
  "backend_ts_topic bn \<noteq> SCHEDULER_LOGS" "SCHEDULER_LOGS \<noteq> backend_ts_topic bn"
  "BACKEND_ROOT_TOPIC \<noteq> SCHEDULER_LOGS" "SCHEDULER_LOGS \<noteq> BACKEND_ROOT_TOPIC"
  by (simp_all add: backend_topic_def backend_ts_topic_def BACKEND_ROOT_TOPIC_def SCHEDULER_LOGS_def)

lemma collision_freeD:
  "collision_free N \<Longrightarrow> a \<in> N \<Longrightarrow> b \<in> N \<Longrightarrow> backend_topic a \<noteq> backend_ts_topic b"
  by (auto simp: collision_free_def backend_topic_ts)

text \<open>The invariant reads only these fields.\<close>

lemma registry_inv_cong:
  assumes "sc_backends s' = sc_backends s" "sc_cpu_backends s' = sc_cpu_backends s"
    "sc_gpu_backends s' = sc_gpu_backends s" "client_ok (sc_db s) \<Longrightarrow> client_ok (sc_db s')"
    "client_ok (sc_db s) \<Longrightarrow> contents (sc_db s') = contents (sc_db s)" "registry_inv N s"
  shows "registry_inv N s'"
  using assms by (simp add: registry_inv_def)

lemma registry_inv_new:
  assumes "collision_free N" "client_ok db" "contents db BACKEND_ROOT_TOPIC = None"
  shows "registry_inv N (new_scheduler pc mc p db)"
  using assms by (simp add: registry_inv_def new_scheduler_def names_stored_def)

lemma registry_inv_fields:
  assumes "registry_inv N s"
  shows "dict_ok (sc_backends s)" "client_ok (sc_db s)" "collision_free N"
    "set (dkeys (sc_backends s)) \<subseteq> N"
    "map_of (sc_backends s) bn = Some b \<Longrightarrow> bi_backend_name (br_backend_info b) = bn"
    "map_of (sc_backends s) bn = Some b \<Longrightarrow> bn \<in> N"
  using assms
  by (auto simp: registry_inv_def entry_ok_def dict_simps dest!: map_of_SomeD)
    (metis (no_types, lifting) domI map_of_SomeD set_dkeys subsetD weak_map_of_SomeI)

subsection \<open>Writing one backend\<close>

text \<open>
  Storing an entry under the name of a backend keeps the other entries: their keys differ
  because the names are collision free.
\<close>

lemma entry_stored_update:
  assumes "collision_free N" "a \<in> N" "bn \<in> N" "a \<noteq> bn" "client_ok db"
    "bi_backend_name (br_backend_info b) = bn" "entry_stored (contents db) (a, c)"
  shows "entry_stored (contents (update_entry_in_db db b)) (a, c)"
  using assms collision_freeD [OF assms(1,2,3)] collision_freeD [OF assms(1,3,2)]
  by (simp add: entry_stored_def contents_update_entry)

lemma entry_stored_same:
  assumes "client_ok db" "bi_backend_name (br_backend_info b) = bn"
  shows "entry_stored (contents (update_entry_in_db db b)) (bn, b)"
  using assms by (simp add: entry_stored_def contents_update_entry backend_topic_ts)

lemma names_stored_update [simp]:
  assumes "client_ok db"
  shows "names_stored (contents (update_entry_in_db db b)) names = names_stored (contents db) names"
  using assms by (simp add: names_stored_def contents_update_entry)

text \<open>The dictionary after \<open>d[bn] = b\<close>.\<close>

lemma ball_update:
  assumes "dict_ok d" "P (bn, b)" "\<And>a c. (a, c) \<in> set d \<Longrightarrow> a \<noteq> bn \<Longrightarrow> P (a, c)"
  shows "\<forall>x \<in> set (AList.update bn b d). P x"
proof
  fix x assume x: "x \<in> set (AList.update bn b d)"
  obtain a c where p: "x = (a, c)" by force
  have "map_of (AList.update bn b d) a = Some c"
    using x unfolding p by (subst (asm) dict_ok_mem_iff) (use assms(1) in simp_all)
  then have "(a = bn \<and> c = b) \<or> (a \<noteq> bn \<and> (a, c) \<in> set d)"
    using assms(1) by (auto simp: dict_simps dict_ok_mem_iff split: if_splits)
  then show "P x" using assms(2,3) p by auto
qed

lemma set_add_new [simp]: "set (add_new xs x) = insert x (set xs)"
  by (auto simp: add_new_def)

lemma distinct_add_new [simp]: "distinct xs \<Longrightarrow> distinct (add_new xs x)"
  by (simp add: add_new_def)

subsection \<open>Registration and heartbeats\<close>

lemma put_backend_inv:
  assumes "registry_inv N s" "bn \<in> N" "entry_ok (bn, b)" "bn \<notin> set (dkeys (sc_backends s))"
  shows "registry_inv N (update_backend_name_list_in_db
     ((put_backend bn b s)\<lparr>sc_db := update_entry_in_db (sc_db s) b\<rparr>))"
proof -
  let ?db = "update_entry_in_db (sc_db s) b"
  let ?d = "AList.update bn b (sc_backends s)"
  let ?db2 = "set_value ?db BACKEND_ROOT_TOPIC (KvNames (dkeys ?d))"
  note f = registry_inv_fields [OF assms(1)]
  have name: "bi_backend_name (br_backend_info b) = bn" using assms(3) by (simp add: entry_ok_def)
  have none: "map_of (sc_backends s) bn = None" using assms(4) by (simp add: notin_dkeys_iff)
  have db2: "client_ok ?db2" "contents ?db2 = (contents ?db)(BACKEND_ROOT_TOPIC \<mapsto> KvNames (dkeys ?d))"
    using f(2) by (simp_all add: kv_simps)
  have "\<forall>x \<in> set ?d. entry_ok x \<and> entry_stored (contents ?db) x"
  proof (rule ball_update [OF f(1)])
    show "entry_ok (bn, b) \<and> entry_stored (contents ?db) (bn, b)"
      using assms(3) entry_stored_same [OF f(2) name] by simp
  next
    fix a c assume a: "(a, c) \<in> set (sc_backends s)" "a \<noteq> bn"
    then have "a \<in> N" using f(1,6) by (simp add: dict_ok_mem_iff)
    with a assms(1,2) show "entry_ok (a, c) \<and> entry_stored (contents ?db) (a, c)"
      by (auto simp: registry_inv_def intro: entry_stored_update [OF f(3) _ assms(2) _ f(2) name])
  qed
  then have "\<forall>x \<in> set ?d. entry_ok x \<and> entry_stored (contents ?db2) x"
    by (auto simp: db2 entry_stored_def)
  moreover have "names_stored (contents ?db2) (dkeys ?d)"
    by (simp add: db2 names_stored_def)
  ultimately show ?thesis
    using assms(1,2) db2(1) none
    by (auto simp: registry_inv_def update_backend_name_list_in_db_def put_backend_def dict_simps)
qed

lemma read_clock_inv [simp]:
  "registry_inv N (s\<lparr>sc_clock := n\<rparr>) = registry_inv N s"
  "registry_inv N (s\<lparr>sc_policy := p\<rparr>) = registry_inv N s"
  "registry_inv N (s\<lparr>sc_sent := ms\<rparr>) = registry_inv N s"
  "registry_inv N (s\<lparr>sc_last_requests := rs\<rparr>) = registry_inv N s"
  "registry_inv N (s\<lparr>sc_pipeline_cache := pc\<rparr>) = registry_inv N s"
  "registry_inv N (s\<lparr>sc_cmodel_cache := mc\<rparr>) = registry_inv N s"
  by (simp_all add: registry_inv_def)

lemma process_register_backend_eq:
  assumes "bn \<notin> set (dkeys (sc_backends s))"
  shows "process_register_backend E bn (Some st) s =
    (let b = new_backend_runtime \<lparr>bi_backend_name = bn, bi_state = st\<rparr> (KvTime (se_now E (sc_clock s)))
     in Inr ((update_backend_name_list_in_db
           ((put_backend bn b s)\<lparr>sc_db := update_entry_in_db (sc_db s) b\<rparr>))
         \<lparr>sc_clock := Suc (sc_clock s), sc_sent := sc_sent s @
            [(bn, MsgChangeHeartbeatInterval (truncate_int (se_heartbeat_interval E)))]\<rparr>))"
  using assms
  by (simp add: process_register_backend_def add_new_backend_def read_clock_def Let_def
      put_backend_def send_heartbeat_interval_def push_msg_def update_backend_name_list_in_db_def)

lemma process_register_backend_inv:
  assumes "registry_inv N s" "bn \<in> N" "process_register_backend E bn st s = Inr s'"
  shows "registry_inv N s'"
proof (cases "bn \<in> set (dkeys (sc_backends s))")
  case True
  then show ?thesis
    using assms by (auto simp: process_register_backend_def send_heartbeat_interval_def push_msg_def)
next
  case False
  then obtain st' where "st = Some st'"
    using assms(3) by (cases st) (auto simp: process_register_backend_def add_new_backend_def)
  with assms(3) False have s': "s' = (update_backend_name_list_in_db ((put_backend bn
         (new_backend_runtime \<lparr>bi_backend_name = bn, bi_state = st'\<rparr> (KvTime (se_now E (sc_clock s)))) s)
       \<lparr>sc_db := update_entry_in_db (sc_db s)
         (new_backend_runtime \<lparr>bi_backend_name = bn, bi_state = st'\<rparr> (KvTime (se_now E (sc_clock s))))\<rparr>))
         \<lparr>sc_clock := Suc (sc_clock s), sc_sent := sc_sent s @
            [(bn, MsgChangeHeartbeatInterval (truncate_int (se_heartbeat_interval E)))]\<rparr>"
    by (simp add: process_register_backend_eq Let_def)
  show ?thesis
    unfolding s' read_clock_inv
    by (rule put_backend_inv [OF assms(1,2) _ False])
      (simp add: entry_ok_def new_backend_runtime_def)
qed

lemma process_heartbeat_inv:
  assumes "registry_inv N s" "process_heartbeat_msg E bn st s = Inr s'"
  shows "registry_inv N s'"
proof (cases "map_of (sc_backends s) bn")
  case None
  then show ?thesis using assms by (auto simp: process_heartbeat_msg_def push_msg_def)
next
  case (Some b)
  then obtain st' where st: "st = Some st'"
    using assms(2) by (cases st) (auto simp: process_heartbeat_msg_def)
  define b' where "b' = update_info_from_heartbeat b st' (se_now E (sc_clock s))"
  let ?db = "update_entry_in_db (sc_db s) b'"
  let ?d = "AList.update bn b' (sc_backends s)"
  note f = registry_inv_fields [OF assms(1)]
  have s': "s' = s\<lparr>sc_clock := Suc (sc_clock s), sc_backends := ?d, sc_db := ?db\<rparr>"
    using assms(2) by (auto simp: process_heartbeat_msg_def Some st read_clock_def Let_def b'_def)
  have name: "bi_backend_name (br_backend_info b') = bn"
    using f(5) [OF Some] by (simp add: b'_def update_info_from_heartbeat_def)
  have flag: "br_has_gpu b' = br_has_gpu b"
    by (simp add: b'_def update_info_from_heartbeat_def)
  have "\<forall>x \<in> set ?d. entry_ok x \<and> entry_stored (contents ?db) x"
  proof (rule ball_update [OF f(1)])
    show "entry_ok (bn, b') \<and> entry_stored (contents ?db) (bn, b')"
      using entry_stored_same [OF f(2) name] name
      by (simp add: entry_ok_def b'_def update_info_from_heartbeat_def)
  next
    fix a c assume a: "(a, c) \<in> set (sc_backends s)" "a \<noteq> bn"
    then have "a \<in> N" using f(1,6) by (simp add: dict_ok_mem_iff)
    with a assms(1) show "entry_ok (a, c) \<and> entry_stored (contents ?db) (a, c)"
      by (auto simp: registry_inv_def intro: entry_stored_update [OF f(3) _ f(6) [OF Some] _ f(2) name])
  qed
  moreover have "dkeys ?d = dkeys (sc_backends s)"
    using Some by (simp add: dict_simps domI)
  ultimately show ?thesis
    using assms(1) f(2) Some flag
    by (auto simp: s' registry_inv_def dict_simps)
qed

subsection \<open>Scheduling rounds\<close>

definition plan_messages :: "nxs_scheduling_plan \<Rightarrow> (string \<times> nxs_msg) list" where
  "plan_messages plan =
     map (\<lambda>p. (ubp_backend_name p, MsgUnschedulePlans p)) (sp_unscheduling plan) @
     map (\<lambda>p. (sbp_backend_name p, MsgSchedulePlans p)) (sp_scheduling plan)"

lemma foldl_push: "foldl (\<lambda>s p. push_msg (f p) (g p) s) s ps =
    s\<lparr>sc_sent := sc_sent s @ map (\<lambda>p. (f p, g p)) ps\<rparr>"
  by (induction ps arbitrary: s) (simp_all add: push_msg_def)

lemma clone_model_id [simp]: "clone_nxs_compository_model c = c"
  by (cases c) (simp add: clone_nxs_compository_model_def)

lemma clone_request_id [simp]: "clone_nxs_scheduling_request r = r"
proof -
  have "map clone_nxs_compository_model cs = cs" for cs by (induction cs) simp_all
  then show ?thesis
    by (cases r; cases "sr_pipeline_info r") (simp add: clone_nxs_scheduling_request_def Let_def)
qed

definition backend_infos :: "('c, 'm, 'p, 'r) scheduler \<Rightarrow> backend_info list" where
  "backend_infos s = map (\<lambda>(bn, b). br_backend_info b) (sc_backends s)"

lemma schedule_workloads_eq:
  "schedule_workloads E rs s = Inr s' \<longleftrightarrow>
     (\<exists>plan rs' p'. se_policy E (sc_policy s) rs (backend_infos s) = Inr ((plan, rs'), p') \<and>
        s' = s\<lparr>sc_policy := p', sc_sent := sc_sent s @ plan_messages plan, sc_last_requests := rs,
               sc_db := set_value (sc_db s) SCHEDULER_LOGS
                 (KvSchedulerLog (scheduling_log rs' (sp_scheduling plan)))\<rparr>)"
proof -
  have [simp]: "map clone_nxs_scheduling_request rs = rs" by (induction rs) simp_all
  show ?thesis
    by (auto simp: schedule_workloads_def Let_def bindE_eq_Inr foldl_push plan_messages_def
        backend_infos_def)
qed

lemma registry_inv_log:
  assumes "registry_inv N s"
  shows "registry_inv N (s\<lparr>sc_db := set_value (sc_db s) SCHEDULER_LOGS v\<rparr>)"
  using assms by (simp add: registry_inv_def kv_simps entry_stored_def names_stored_def case_prod_unfold)

lemma schedule_workloads_inv:
  assumes "registry_inv N s" "schedule_workloads E rs s = Inr s'"
  shows "registry_inv N s'"
proof -
  from assms(2) obtain plan rs' p' where s': "s' = s\<lparr>sc_policy := p',
      sc_sent := sc_sent s @ plan_messages plan, sc_last_requests := rs,
      sc_db := set_value (sc_db s) SCHEDULER_LOGS
        (KvSchedulerLog (scheduling_log rs' (sp_scheduling plan)))\<rparr>"
    unfolding schedule_workloads_eq by blast
  let ?s1 = "s\<lparr>sc_policy := p', sc_sent := sc_sent s @ plan_messages plan, sc_last_requests := rs\<rparr>"
  have "registry_inv N ?s1" using assms(1) by simp
  from registry_inv_log [OF this, of "KvSchedulerLog (scheduling_log rs' (sp_scheduling plan))"]
  show ?thesis by (simp add: s')
qed

text \<open>Looking up pipelines touches the caches and the clock only.\<close>

definition same_but_caches :: "('c, 'm, 'p, 'r) scheduler \<Rightarrow> ('c, 'm, 'p, 'r) scheduler \<Rightarrow> bool" where
  "same_but_caches s s' \<longleftrightarrow>
     sc_backends s' = sc_backends s \<and> sc_cpu_backends s' = sc_cpu_backends s \<and>
     sc_gpu_backends s' = sc_gpu_backends s \<and> sc_last_requests s' = sc_last_requests s \<and>
     sc_db s' = sc_db s \<and> sc_policy s' = sc_policy s \<and> sc_sent s' = sc_sent s"

lemma same_but_caches_refl [simp]: "same_but_caches s s"
  by (simp add: same_but_caches_def)

lemma same_but_caches_trans:
  "same_but_caches s t \<Longrightarrow> same_but_caches t u \<Longrightarrow> same_but_caches s u"
  by (auto simp: same_but_caches_def)

lemma same_but_caches_fields:
  assumes "same_but_caches s t"
  shows "sc_backends t = sc_backends s" "sc_sent t = sc_sent s" "sc_policy t = sc_policy s"
    "sc_db t = sc_db s" "sc_last_requests t = sc_last_requests s"
    "backend_infos t = backend_infos s" "registry_inv N t = registry_inv N s"
  using assms by (simp_all add: same_but_caches_def backend_infos_def registry_inv_def)

lemma get_pipeline_runtime_same:
  assumes "get_pipeline_runtime E u s = Inr (p, s')"
  shows "same_but_caches s s'"
proof (cases "lru_has (se_pipeline_lru E) (sc_pipeline_cache s) u")
  case True
  with assms show ?thesis by (auto simp: get_pipeline_runtime_def Let_def same_but_caches_def)
next
  case False
  with assms obtain q where "get_from_db (se_main_db E) u (se_now E (sc_clock s)) = Inr (Some q)"
    by (auto simp: get_pipeline_runtime_def Let_def read_clock_def bindE_eq_Inr split: option.splits)
  with assms False show ?thesis
    by (auto simp: get_pipeline_runtime_def Let_def read_clock_def same_but_caches_def)
qed

lemma collect_requests_same:
  assumes "collect_requests E ws s = Inr (rs, s')"
  shows "same_but_caches s s'"
proof -
  have "same_but_caches s (snd (rs, s'))"
    by (rule foldE_invariant [OF assms [unfolded collect_requests_def]])
      (auto simp: bindE_eq_Inr intro: same_but_caches_trans dest!: get_pipeline_runtime_same)
  then show ?thesis by simp
qed

lemma collect_requests_sessions:
  assumes "collect_requests E ws s = Inr (rs, s')"
  shows "map sr_session_uuid rs = map wr_session_uuid ws \<and>
    map sr_requested_fps rs = map wr_fps ws"
proof -
  have "map sr_session_uuid (fst (rs, s')) = map wr_session_uuid ws \<and>
      map sr_requested_fps (fst (rs, s')) = map wr_fps ws"
    by (rule foldE_prefix [OF assms [unfolded collect_requests_def]])
      (auto simp: bindE_eq_Inr workload_request_def)
  then show ?thesis by simp
qed

lemma process_register_workloads_inv:
  assumes "registry_inv N s" "process_register_workloads E ws s = Inr s'"
  shows "registry_inv N s'"
proof -
  from assms(2) obtain rs s1 where "collect_requests E ws s = Inr (rs, s1)"
    "schedule_workloads E rs s1 = Inr s'"
    by (auto simp: process_register_workloads_def bindE_eq_Inr)
  with assms(1) show ?thesis
    using same_but_caches_fields(7) [OF collect_requests_same] schedule_workloads_inv by metis
qed

subsection \<open>Expiry\<close>

definition alive :: "('c, 'm, 'p) scheduler_env \<Rightarrow> rat \<Rightarrow> string \<times> backend_runtime \<Rightarrow> bool" where
  "alive E now = (\<lambda>(bn, b). case br_last_alive_ts b of
     KvTime t \<Rightarrow> now - t \<le> se_backend_timeout_secs E | _ \<Rightarrow> False)"

lemma expired_names_eq:
  assumes "\<forall>x \<in> set d. entry_ok x"
  shows "expired_names E now d = Inr (map fst (filter (\<lambda>x. \<not> alive E now x) d))"
proof -
  have "foldE (\<lambda>acc (bn, b). bindE (is_expired E now b) (\<lambda>e. Inr (if e then acc @ [bn] else acc)))
      acc d = Inr (acc @ map fst (filter (\<lambda>x. \<not> alive E now x) d))" for acc
    using assms
  proof (induction d arbitrary: acc)
    case (Cons x d)
    obtain bn b t where x: "x = (bn, b)" "br_last_alive_ts b = KvTime t"
      using Cons.prems by (auto simp: entry_ok_def)
    then have "is_expired E now b = Inr (\<not> alive E now x)"
      by (simp add: is_expired_def alive_def not_le)
    with Cons x(1) show ?case by simp
  qed simp
  from this [of "[]"] show ?thesis by (simp add: expired_names_def)
qed

lemma delete_filter: "AList.delete k d = filter (\<lambda>x. fst x \<noteq> k) d"
  by (auto simp: AList.delete_eq case_prod_unfold intro: filter_cong)

text \<open>Dropping the backends \<open>names\<close>, in any order, keeps the rest in place.\<close>

lemma drop_backends:
  assumes "distinct names" "set names \<subseteq> set (dkeys (sc_backends s))" "client_ok (sc_db s)"
    "\<forall>x \<in> set (sc_backends s). entry_ok x"
  obtains s' where "foldE drop_backend s names = Inr s'"
    "sc_backends s' = filter (\<lambda>x. fst x \<notin> set names) (sc_backends s)"
    "sc_cpu_backends s' = filter (\<lambda>bn. bn \<notin> set names) (sc_cpu_backends s)"
    "sc_gpu_backends s' = filter (\<lambda>bn. bn \<notin> set names) (sc_gpu_backends s)"
    "client_ok (sc_db s')"
    "contents (sc_db s') =
       (\<lambda>k. if k \<in> backend_topic ` set names then None else contents (sc_db s) k)"
    "sc_policy s' = sc_policy s" "sc_last_requests s' = sc_last_requests s"
    "sc_sent s' = sc_sent s" "sc_clock s' = sc_clock s"
  using assms
proof (induction names arbitrary: s thesis)
  case Nil
  from Nil.prems(1) [of s] show ?case using Nil.prems by simp
next
  case (Cons bn names)
  from Cons.prems(3) obtain b where b: "map_of (sc_backends s) bn = Some b"
    by (auto simp: in_dkeys_iff)
  have name: "bi_backend_name (br_backend_info b) = bn"
    using Cons.prems(5) map_of_SomeD [OF b] by (auto simp: entry_ok_def)
  let ?s1 = "s\<lparr>sc_backends := AList.delete bn (sc_backends s),
      sc_cpu_backends := removeAll bn (sc_cpu_backends s),
      sc_gpu_backends := removeAll bn (sc_gpu_backends s),
      sc_db := remove_backend_entry (sc_db s) b\<rparr>"
  have step: "drop_backend s bn = Inr ?s1"
    using b by (simp add: drop_backend_def dlookup_def)
  have sub: "set names \<subseteq> set (dkeys (sc_backends ?s1))" "distinct names"
    using Cons.prems(2,3) by (auto simp: dkeys_delete)
  have ok: "client_ok (sc_db ?s1)" "\<forall>x \<in> set (sc_backends ?s1). entry_ok x"
    using Cons.prems(4,5) set_delete_subset [of bn "sc_backends s"] by auto
  obtain s' where s': "foldE drop_backend ?s1 names = Inr s'"
    "sc_backends s' = filter (\<lambda>x. fst x \<notin> set names) (sc_backends ?s1)"
    "sc_cpu_backends s' = filter (\<lambda>bn. bn \<notin> set names) (sc_cpu_backends ?s1)"
    "sc_gpu_backends s' = filter (\<lambda>bn. bn \<notin> set names) (sc_gpu_backends ?s1)"
    "client_ok (sc_db s')"
    "contents (sc_db s') =
       (\<lambda>k. if k \<in> backend_topic ` set names then None else contents (sc_db ?s1) k)"
    "sc_policy s' = sc_policy ?s1" "sc_last_requests s' = sc_last_requests ?s1"
    "sc_sent s' = sc_sent ?s1" "sc_clock s' = sc_clock ?s1"
    using Cons.IH [OF _ sub(2,1) ok] by blast
  show ?case
    by (rule Cons.prems(1) [of s'])
      (use s' in \<open>auto simp: step delete_filter removeAll_filter_not_eq contents_remove_entry
         Cons.prems(4) name fun_eq_iff intro!: filter_cong\<close>)
qed

text \<open>The expiry check never raises, and keeps exactly the backends that are alive.\<close>

lemma has_expired_backends_spec:
  assumes inv: "registry_inv N s"
  obtains s' where
    "has_expired_backends E s = Inr (\<not> list_all (alive E (se_now E (sc_clock s))) (sc_backends s), s')"
    "sc_backends s' = filter (alive E (se_now E (sc_clock s))) (sc_backends s)"
    "registry_inv N s'" "sc_policy s' = sc_policy s" "sc_last_requests s' = sc_last_requests s"
    "sc_sent s' = sc_sent s" "sc_clock s' = Suc (sc_clock s)"
proof -
  define now where "now = se_now E (sc_clock s)"
  define s1 where "s1 = s\<lparr>sc_clock := Suc (sc_clock s)\<rparr>"
  define names where "names = map fst (filter (\<lambda>x. \<not> alive E now x) (sc_backends s))"
  note f = registry_inv_fields [OF inv]
  have ok: "\<forall>x \<in> set (sc_backends s). entry_ok x" using inv by (simp add: registry_inv_def)
  have dist: "distinct (map fst (sc_backends s))" using f(1) by (simp add: dict_ok_def dkeys_def)
  have names: "expired_names E now (sc_backends s1) = Inr names"
    using expired_names_eq [OF ok] by (simp add: names_def s1_def)
  have mem: "x \<in> set (sc_backends s) \<Longrightarrow> fst x \<notin> set names \<longleftrightarrow> alive E now x" for x
    using dist by (cases x) (auto simp: names_def image_iff dest: eq_key_imp_eq_value)
  show thesis
  proof (cases "names = []")
    case True
    then have all: "list_all (alive E now) (sc_backends s)"
      by (auto simp: names_def filter_empty_conv list_all_iff)
    then have "filter (alive E now) (sc_backends s) = sc_backends s"
      by (simp add: filter_id_conv list_all_iff)
    with all True names inv show thesis
      by (intro that [of s1])
        (simp_all add: has_expired_backends_def read_clock_def s1_def now_def)
  next
    case False
    then have some: "\<not> list_all (alive E now) (sc_backends s)"
      by (auto simp: names_def filter_empty_conv list_all_iff)
    have prems: "distinct names" "set names \<subseteq> set (dkeys (sc_backends s1))"
      "client_ok (sc_db s1)" "\<forall>x \<in> set (sc_backends s1). entry_ok x"
      using dist ok f(2)
      by (auto simp: names_def s1_def dkeys_def distinct_map inj_on_def dest: distinct_filter)
    obtain s2 where s2: "foldE drop_backend s1 names = Inr s2"
      "sc_backends s2 = filter (\<lambda>x. fst x \<notin> set names) (sc_backends s1)"
      "sc_cpu_backends s2 = filter (\<lambda>bn. bn \<notin> set names) (sc_cpu_backends s1)"
      "sc_gpu_backends s2 = filter (\<lambda>bn. bn \<notin> set names) (sc_gpu_backends s1)"
      "client_ok (sc_db s2)"
      "contents (sc_db s2) =
         (\<lambda>k. if k \<in> backend_topic ` set names then None else contents (sc_db s1) k)"
      "sc_policy s2 = sc_policy s1" "sc_last_requests s2 = sc_last_requests s1"
      "sc_sent s2 = sc_sent s1" "sc_clock s2 = sc_clock s1"
      using drop_backends [OF prems] by blast
    have bs: "sc_backends s2 = filter (alive E now) (sc_backends s)"
      unfolding s2(2) s1_def by (simp, rule filter_cong [OF refl mem])
    have sub: "set (sc_backends s2) \<subseteq> set (sc_backends s)" by (auto simp: bs)
    have dist2: "distinct (map fst (sc_backends s2))"
      unfolding bs by (rule distinct_map_filter [OF dist])
    then have d2: "dict_ok (sc_backends s2)" by (simp add: dict_ok_def dkeys_def)
    have map2: "map_of (sc_backends s2) bn = Some b \<longleftrightarrow>
        map_of (sc_backends s) bn = Some b \<and> bn \<notin> set names" for bn b
      using dict_ok_mem_iff [OF d2, of bn b] dict_ok_mem_iff [OF f(1), of bn b]
      by (auto simp: s2(2) s1_def)
    have stored: "entry_stored (contents (sc_db s2)) x" if x: "x \<in> set (sc_backends s2)" for x
    proof -
      obtain bn b where p: "x = (bn, b)" by force
      have bn: "(bn, b) \<in> set (sc_backends s)" "bn \<notin> set names"
        using x p sub by (auto simp: s2(2))
      then have "bn \<in> N" using f(1,6) by (simp add: dict_ok_mem_iff)
      moreover have "set names \<subseteq> N"
        using prems(2) f(4) by (auto simp: s1_def)
      ultimately have "backend_ts_topic bn \<notin> backend_topic ` set names"
        using collision_freeD [OF f(3), of _ bn] by (metis imageE subsetD)
      with bn inv show ?thesis
        by (auto simp: p entry_stored_def s2(6) s1_def registry_inv_def)
    qed
    define s3 where "s3 = update_backend_name_list_in_db s2"
    have "registry_inv N s3"
      unfolding s3_def registry_inv_def
    proof (intro conjI ballI)
      show "entry_ok x" "entry_stored (contents (sc_db (update_backend_name_list_in_db s2))) x"
        if "x \<in> set (sc_backends (update_backend_name_list_in_db s2))" for x
        using that ok sub stored s2(5)
        by (auto simp: update_backend_name_list_in_db_def kv_simps entry_stored_def case_prod_unfold)
      show "set (dkeys (sc_backends (update_backend_name_list_in_db s2))) \<subseteq> N"
        using f(4) sub by (auto simp: update_backend_name_list_in_db_def dkeys_def)
      show "names_stored (contents (sc_db (update_backend_name_list_in_db s2)))
          (dkeys (sc_backends (update_backend_name_list_in_db s2)))"
        using s2(5) by (simp add: update_backend_name_list_in_db_def kv_simps names_stored_def)
      show "set (sc_cpu_backends (update_backend_name_list_in_db s2)) =
          {bn. \<exists>b. map_of (sc_backends (update_backend_name_list_in_db s2)) bn = Some b \<and> \<not> br_has_gpu b}"
        "set (sc_gpu_backends (update_backend_name_list_in_db s2)) =
          {bn. \<exists>b. map_of (sc_backends (update_backend_name_list_in_db s2)) bn = Some b \<and> br_has_gpu b}"
        using inv by (auto simp: update_backend_name_list_in_db_def map2 s2(3,4) s1_def registry_inv_def)
    qed (use inv s2(5) d2 f(3) in \<open>auto simp: update_backend_name_list_in_db_def s2(3,4) s1_def
          registry_inv_def kv_simps\<close>)
    then show thesis
      using some False names s2 bs
      by (intro that [of s3])
        (simp_all add: has_expired_backends_def read_clock_def s1_def [symmetric] now_def [symmetric]
          s3_def update_backend_name_list_in_db_def, simp_all add: s1_def now_def)
  qed
qed

subsection \<open>Restarting\<close>

text \<open>What a new process makes of an entry: the GPU flag is computed again.\<close>

definition restored :: "string \<times> backend_runtime \<Rightarrow> string \<times> backend_runtime" where
  "restored = (\<lambda>(bn, b). (bn, new_backend_runtime (br_backend_info b) (br_last_alive_ts b)))"

lemma fst_restored [simp]: "fst (restored x) = fst x"
  by (simp add: restored_def case_prod_unfold)

lemma update_new_key: "k \<notin> set (dkeys d) \<Longrightarrow> AList.update k v d = d @ [(k, v)]"
  by (induction d) auto

definition restored_from :: "'r kv_client \<Rightarrow> (string \<times> backend_runtime) list \<Rightarrow>
    ('c, 'm, 'p, 'r) scheduler \<Rightarrow> ('c, 'm, 'p, 'r) scheduler \<Rightarrow> bool" where
  "restored_from db ys s0 t \<longleftrightarrow>
     client_ok (sc_db t) \<and> contents (sc_db t) = contents db \<and>
     sc_backends t = map restored ys \<and>
     sc_cpu_backends t = map fst (filter (\<lambda>(bn, b). \<not> br_has_gpu b) (map restored ys)) \<and>
     sc_gpu_backends t = map fst (filter (\<lambda>(bn, b). br_has_gpu b) (map restored ys)) \<and>
     sc_sent t = sc_sent s0 \<and> sc_policy t = sc_policy s0 \<and>
     sc_last_requests t = sc_last_requests s0"

lemma restore_backend_step:
  assumes t: "restored_from db ys s0 t" and "client_ok db" "entry_stored (contents db) x"
    "fst x \<notin> fst ` set ys"
  shows "\<exists>t'. restore_backend_from_state_db E t (fst x) = Inr t' \<and> restored_from db (ys @ [x]) s0 t'"
proof -
  obtain bn b where x: "x = (bn, b)" by force
  let ?t1 = "t\<lparr>sc_clock := Suc (sc_clock t)\<rparr>"
  let ?b = "new_backend_runtime (br_backend_info b) (br_last_alive_ts b)"
  have kv: "client_ok (sc_db t)"
    "contents (sc_db t) (backend_topic bn) = Some (KvBackend (br_backend_info b))"
    "contents (sc_db t) (backend_ts_topic bn) = Some (br_last_alive_ts b)"
    using t assms(3) by (simp_all add: restored_from_def entry_stored_def x)
  obtain db' where db': "get_data_from_db (sc_db t) bn (se_now E (sc_clock t)) = Inr (Some ?b, db')"
    "client_ok db'" "contents db' = contents (sc_db t)"
    using get_data_from_db_spec [OF kv] by blast
  have new: "bn \<notin> set (dkeys (map restored ys))"
    using assms(4) by (auto simp: x dkeys_def)
  have "bn \<notin> set (map fst (filter (\<lambda>(bn, b). br_has_gpu b) (map restored ys)))"
    "bn \<notin> set (map fst (filter (\<lambda>(bn, b). \<not> br_has_gpu b) (map restored ys)))"
    using new by (force simp: dkeys_def)+
  then have "add_new (sc_gpu_backends t) bn = sc_gpu_backends t @ [bn]"
    "add_new (sc_cpu_backends t) bn = sc_cpu_backends t @ [bn]"
    using t by (simp_all add: add_new_def restored_from_def)
  with t db' new show ?thesis
    by (auto simp: restore_backend_from_state_db_def read_clock_def x Let_def put_backend_def
        update_new_key restored_from_def restored_def)
qed

text \<open>A fresh process on the store of \<open>s\<close> finds the backends of \<open>s\<close>, in the same order.\<close>

lemma restore_scheduler_states_spec:
  assumes inv: "registry_inv N s" and fresh: "client_ok (sc_db s0)"
    "contents (sc_db s0) = contents (sc_db s)"
    "sc_backends s0 = []" "sc_cpu_backends s0 = []" "sc_gpu_backends s0 = []"
  obtains t where "restore_scheduler_states E s0 = Inr t"
    "restored_from (sc_db s) (sc_backends s) s0 t"
proof -
  obtain v db where g: "get_value (sc_db s0) BACKEND_ROOT_TOPIC = (v, db)" by force
  have v: "v = contents (sc_db s) BACKEND_ROOT_TOPIC" "client_ok db" "contents db = contents (sc_db s)"
    using kv.fetch_content [OF fresh(1), of BACKEND_ROOT_TOPIC] kv.sound_fetch [OF fresh(1)]
      kv.content_fetch [OF fresh(1), of BACKEND_ROOT_TOPIC] g fresh(2)
    by (metis fst_conv, metis snd_conv, simp)
  let ?s1 = "s0\<lparr>sc_db := db\<rparr>"
  have start: "restored_from (sc_db s) [] s0 ?s1"
    using fresh v by (simp add: restored_from_def)
  note f = registry_inv_fields [OF inv]
  have dist: "distinct (map fst (sc_backends s))" using f(1) by (simp add: dict_ok_def dkeys_def)
  have "\<exists>t. foldE (\<lambda>t x. restore_backend_from_state_db E t (fst x)) ?s1 (sc_backends s) = Inr t \<and>
      restored_from (sc_db s) (sc_backends s) s0 t"
  proof (rule foldE_prefix_total [where P = "\<lambda>ys t. restored_from (sc_db s) ys s0 t"])
    show "restored_from (sc_db s) [] s0 ?s1" by (rule start)
  next
    fix ys x zs t assume eq: "sc_backends s = ys @ x # zs" and t: "restored_from (sc_db s) ys s0 t"
    have "entry_stored (contents (sc_db s)) x" "fst x \<notin> fst ` set ys"
      using inv dist by (auto simp: eq registry_inv_def)
    with t f(2) show "\<exists>t'. restore_backend_from_state_db E t (fst x) = Inr t' \<and>
        restored_from (sc_db s) (ys @ [x]) s0 t'"
      by (intro restore_backend_step)
  qed
  moreover have loop: "foldE (\<lambda>t x. restore_backend_from_state_db E t (fst x)) u xs =
      foldE (restore_backend_from_state_db E) u (dkeys xs)" for u and xs :: "(string \<times> backend_runtime) list"
    by (induction xs arbitrary: u) simp_all
  ultimately obtain t where t: "foldE (restore_backend_from_state_db E) ?s1 (dkeys (sc_backends s)) = Inr t"
    "restored_from (sc_db s) (sc_backends s) s0 t"
    unfolding loop by blast
  have "v = Some (KvNames (dkeys (sc_backends s))) \<or> v = None \<and> dkeys (sc_backends s) = []"
    using inv v(1) by (simp add: registry_inv_def names_stored_def)
  then show thesis
    using t start that
    by (auto simp: restore_scheduler_states_def g Let_def dkeys_def)
qed

lemma restored_from_inv:
  assumes inv: "registry_inv N s" and t: "restored_from (sc_db s) (sc_backends s) s0 t"
  shows "registry_inv N t"
proof -
  have keys: "dkeys (sc_backends t) = dkeys (sc_backends s)"
    using t by (simp add: restored_from_def dkeys_def)
  note f = registry_inv_fields [OF inv]
  have d: "dict_ok (sc_backends t)" using f(1) keys by (simp add: dict_ok_def)
  then have dist: "distinct (map fst (sc_backends t))" by (simp add: dict_ok_def dkeys_def)
  have set: "set (sc_backends t) = restored ` set (sc_backends s)"
    using t by (simp add: restored_from_def)
  have sets: "{bn. \<exists>b. map_of (sc_backends t) bn = Some b \<and> P b} =
      fst ` set (filter (\<lambda>(bn, b). P b) (sc_backends t))" for P
    using dict_ok_mem_iff [OF d] by force
  have "entry_ok (restored x) \<and> entry_stored (contents (sc_db s)) (restored x)"
    if "x \<in> set (sc_backends s)" for x
    using inv that
    by (auto simp: registry_inv_def restored_def entry_ok_def entry_stored_def new_backend_runtime_def
        case_prod_unfold)
  then have "\<forall>x \<in> set (sc_backends t). entry_ok x \<and> entry_stored (contents (sc_db t)) x"
    using t by (simp add: set restored_from_def)
  moreover have "names_stored (contents (sc_db t)) (dkeys (sc_backends t))"
    using inv t unfolding keys by (simp add: registry_inv_def restored_from_def)
  moreover have "distinct (map fst (filter P (sc_backends t)))" for P
    by (rule distinct_map_filter [OF dist])
  moreover have "sc_cpu_backends t = map fst (filter (\<lambda>(bn, b). \<not> br_has_gpu b) (sc_backends t))"
    "sc_gpu_backends t = map fst (filter (\<lambda>(bn, b). br_has_gpu b) (sc_backends t))"
    "client_ok (sc_db t)"
    using t by (simp_all add: restored_from_def)
  ultimately show ?thesis
    using d f(3,4) by (simp add: registry_inv_def sets keys)
qed

end
