(* ===== verification/Nxs_Scheduler_Props.thy ===== *)
theory Nxs_Scheduler_Props
  imports Nxs_Scheduler_Inv Nxs_Policy_Props
begin

section \<open>Properties of the scheduler process\<close>

text \<open>
  The scheduler relies on its policy through the locale \<open>scheduling_policy\<close>; its lemmas there
  hold for every policy with these laws, and the interpretation shows that
  \<open>SimpleSchedulingPolicyv2\<close> is one. The properties then speak of the process that
  \<open>__main__\<close> starts.
\<close>

subsection \<open>The scheduler for any policy\<close>

definition scheduler_inv :: "('p \<Rightarrow> bool) \<Rightarrow> string set \<Rightarrow> ('c, 'm, 'p, 'r) scheduler \<Rightarrow> bool" where
  "scheduler_inv I N s \<longleftrightarrow> registry_inv N s \<and> I (sc_policy s)"

text \<open>A plan is sent to the backend it names, and that backend is one of \<open>K\<close>.\<close>

definition addressed :: "string set \<Rightarrow> (string \<times> nxs_msg) list \<Rightarrow> bool" where
  "addressed K ms \<longleftrightarrow> (\<forall>(t, m) \<in> set ms. case m of
     MsgSchedulePlans p \<Rightarrow> t = sbp_backend_name p \<and> t \<in> K
   | MsgUnschedulePlans p \<Rightarrow> t = ubp_backend_name p
   | _ \<Rightarrow> True)"

definition registers_in :: "string set \<Rightarrow> nxs_msg \<Rightarrow> bool" where
  "registers_in N m = (case m of MsgRegisterBackend bn _ \<Rightarrow> bn \<in> N | _ \<Rightarrow> True)"

text \<open>What one step sends, and that it keeps the invariant.\<close>

definition sends_addressed ::
    "('p \<Rightarrow> bool) \<Rightarrow> string set \<Rightarrow> ('c, 'm, 'p, 'r) scheduler \<Rightarrow> ('c, 'm, 'p, 'r) scheduler \<Rightarrow> bool"
  where
  "sends_addressed I N s s' \<longleftrightarrow> scheduler_inv I N s' \<and>
     (\<exists>ms. sc_sent s' = sc_sent s @ ms \<and> addressed (set (dkeys (sc_backends s'))) ms)"

lemma addressed_append [simp]: "addressed K (ms @ ns) \<longleftrightarrow> addressed K ms \<and> addressed K ns"
  by (auto simp: addressed_def)

lemma addressed_Nil [simp]: "addressed K []"
  by (simp add: addressed_def)

lemma addressed_mono: "addressed K ms \<Longrightarrow> K \<subseteq> K' \<Longrightarrow> addressed K' ms"
  by (fastforce simp: addressed_def split: nxs_msg.splits)

text \<open>A whole run: the invariant holds and every plan ever sent was addressed within \<open>N\<close>.\<close>

definition run_inv :: "('p \<Rightarrow> bool) \<Rightarrow> string set \<Rightarrow> ('c, 'm, 'p, 'r) scheduler \<Rightarrow> bool" where
  "run_inv I N s \<longleftrightarrow> scheduler_inv I N s \<and> addressed N (sc_sent s)"

lemma sends_nothing: "scheduler_inv I N s' \<Longrightarrow> sc_sent s' = sc_sent s \<Longrightarrow> sends_addressed I N s s'"
  by (auto simp: sends_addressed_def)

lemma backend_infos_names:
  assumes "registry_inv N s"
  shows "bi_backend_name ` set (backend_infos s) = set (dkeys (sc_backends s))"
proof -
  have "map bi_backend_name (backend_infos s) = dkeys (sc_backends s)"
    using assms by (auto simp: registry_inv_def backend_infos_def dkeys_def entry_ok_def)
  then show ?thesis by (metis set_map)
qed

lemma process_register_backend_sends:
  assumes "process_register_backend E bn st s = Inr s'"
  shows "sc_policy s' = sc_policy s \<and> sc_last_requests s' = sc_last_requests s \<and>
    sc_sent s' = sc_sent s @ [(bn, MsgChangeHeartbeatInterval (truncate_int (se_heartbeat_interval E)))]"
proof (cases "bn \<in> set (dkeys (sc_backends s))")
  case True
  with assms show ?thesis
    by (auto simp: process_register_backend_def send_heartbeat_interval_def push_msg_def)
next
  case False
  moreover from False assms obtain st' where "st = Some st'"
    by (cases st) (auto simp: process_register_backend_def add_new_backend_def)
  ultimately show ?thesis
    using assms by (auto simp: process_register_backend_eq Let_def put_backend_def
        update_backend_name_list_in_db_def)
qed

lemma process_heartbeat_sends:
  assumes "process_heartbeat_msg E bn st s = Inr s'"
  shows "sc_policy s' = sc_policy s \<and> sc_last_requests s' = sc_last_requests s \<and>
    sc_sent s' = sc_sent s @ (if bn \<in> set (dkeys (sc_backends s)) then []
                              else [(bn, MsgRequestRegisterBackend)])"
  using assms
  by (auto simp: process_heartbeat_msg_def push_msg_def read_clock_def Let_def set_dkeys
      split: option.splits)

locale scheduling_policy =
  fixes plan_round :: "'p policy_op"
    and keeps :: "'p \<Rightarrow> bool"
  assumes keeps_round: "keeps p \<Longrightarrow> plan_round p rs bs = Inr ((plan, rs'), p') \<Longrightarrow> keeps p'"
    and plans_given: "keeps p \<Longrightarrow> plan_round p rs bs = Inr ((plan, rs'), p') \<Longrightarrow>
      sbp_backend_name ` set (sp_scheduling plan) \<subseteq> bi_backend_name ` set bs"
    and requests_kept: "plan_round p rs bs = Inr ((plan, rs'), p') \<Longrightarrow>
      map sr_pipeline_info rs' = map sr_pipeline_info rs"
begin

lemma addressed_plans:
  assumes "keeps (sc_policy s)" "registry_inv N s"
    "plan_round (sc_policy s) rs (backend_infos s) = Inr ((plan, rs'), p')"
  shows "addressed (set (dkeys (sc_backends s))) (plan_messages plan)"
  using plans_given [OF assms(1,3)] backend_infos_names [OF assms(2)]
  by (auto simp: addressed_def plan_messages_def)

lemma schedule_workloads_sends:
  assumes "se_policy E = plan_round" "scheduler_inv keeps N s" "schedule_workloads E rs s = Inr s'"
  shows "sends_addressed keeps N s s' \<and> sc_last_requests s' = rs \<and> sc_backends s' = sc_backends s"
proof -
  from assms(3) obtain plan rs' p' where
    round: "plan_round (sc_policy s) rs (backend_infos s) = Inr ((plan, rs'), p')"
    and s': "s' = s\<lparr>sc_policy := p', sc_sent := sc_sent s @ plan_messages plan, sc_last_requests := rs,
               sc_db := set_value (sc_db s) SCHEDULER_LOGS
                 (KvSchedulerLog (scheduling_log rs' (sp_scheduling plan)))\<rparr>"
    unfolding schedule_workloads_eq assms(1) by blast
  have inv: "registry_inv N s" "keeps (sc_policy s)"
    using assms(2) by (simp_all add: scheduler_inv_def)
  have "registry_inv N s'" using schedule_workloads_inv [OF inv(1) assms(3)] .
  moreover have "keeps p'" using keeps_round [OF inv(2) round] .
  ultimately show ?thesis
    using addressed_plans [OF inv(2,1) round]
    by (auto simp: s' sends_addressed_def scheduler_inv_def)
qed

lemma process_scheduler_msg_sends:
  assumes E: "se_policy E = plan_round" and inv: "scheduler_inv keeps N s"
    and "registers_in N m" and m: "process_scheduler_msg E s m = Inr s'"
  shows "sends_addressed keeps N s s'"
proof -
  have reg: "registry_inv N s" "keeps (sc_policy s)" using inv by (simp_all add: scheduler_inv_def)
  consider (wl) ws where "m = MsgRegisterWorkloads ws"
    | (rb) bn st where "m = MsgRegisterBackend bn st"
    | (hb) bn st where "m = MsgReportHeartbeat bn st"
    | (nop) "s' = s"
    using m by (cases m) (auto simp: process_scheduler_msg_def)
  then show ?thesis
  proof cases
    case wl
    with m obtain rs s1 where c: "collect_requests E ws s = Inr (rs, s1)"
      "schedule_workloads E rs s1 = Inr s'"
      by (auto simp: process_scheduler_msg_def process_register_workloads_def bindE_eq_Inr)
    note same = same_but_caches_fields [OF collect_requests_same [OF c(1)]]
    have "scheduler_inv keeps N s1" using inv same by (simp add: scheduler_inv_def)
    from schedule_workloads_sends [OF E this c(2)] same(2) show ?thesis
      by (auto simp: sends_addressed_def)
  next
    case rb
    then have p: "process_register_backend E bn st s = Inr s'" "bn \<in> N"
      using m assms(3) by (simp_all add: process_scheduler_msg_def registers_in_def)
    from process_register_backend_sends [OF p(1)] process_register_backend_inv [OF reg(1) p(2,1)] reg(2)
    show ?thesis by (simp add: sends_addressed_def scheduler_inv_def addressed_def)
  next
    case hb
    then have p: "process_heartbeat_msg E bn st s = Inr s'"
      using m by (simp add: process_scheduler_msg_def)
    from process_heartbeat_sends [OF p] process_heartbeat_inv [OF reg(1) p] reg(2)
    show ?thesis by (simp add: sends_addressed_def scheduler_inv_def addressed_def)
  next
    case nop
    with inv show ?thesis by (simp add: sends_nothing)
  qed
qed

lemma read_clock_run_inv: "run_inv keeps N (snd (read_clock E s)) = run_inv keeps N s"
  by (simp add: read_clock_def run_inv_def scheduler_inv_def)

lemma sends_run_inv:
  assumes "sends_addressed keeps N s s'" "run_inv keeps N s"
  shows "run_inv keeps N s'"
proof -
  from assms(1) obtain ms where ms: "sc_sent s' = sc_sent s @ ms"
    "addressed (set (dkeys (sc_backends s'))) ms" "scheduler_inv keeps N s'"
    by (auto simp: sends_addressed_def)
  moreover have "set (dkeys (sc_backends s')) \<subseteq> N"
    using ms(3) registry_inv_fields(4) by (auto simp: scheduler_inv_def)
  ultimately show ?thesis
    using assms(2) addressed_mono [OF ms(2)] by (simp add: run_inv_def)
qed

lemma scheduler_iteration_run_inv:
  assumes E: "se_policy E = plan_round" and inv: "run_inv keeps N s"
    and msgs: "\<forall>m \<in> set msgs. registers_in N m"
    and run: "scheduler_iteration E (t0, s) msgs = Inr (t1, s')"
  shows "run_inv keeps N s'"
proof -
  from run obtain s1 where s1: "foldE (process_scheduler_msg E) s msgs = Inr s1"
    by (auto simp: scheduler_iteration_def bindE_eq_Inr)
  have 1: "run_inv keeps N s1"
  proof (rule foldE_invariant [where P = "run_inv keeps N", OF s1 inv])
    fix u m u' assume u: "m \<in> set msgs" "run_inv keeps N u" "process_scheduler_msg E u m = Inr u'"
    with msgs have "sends_addressed keeps N u u'"
      by (intro process_scheduler_msg_sends [OF E]) (auto simp: run_inv_def)
    with u(2) show "run_inv keeps N u'" by (rule sends_run_inv [rotated])
  qed
  define s2 where "s2 = snd (read_clock E s1)"
  have 2: "run_inv keeps N s2" using 1 by (simp add: s2_def read_clock_run_inv)
  then have reg: "registry_inv N s2" "keeps (sc_policy s2)"
    by (simp_all add: run_inv_def scheduler_inv_def)
  obtain e s3 where h: "has_expired_backends E s2 = Inr (e, s3)" "registry_inv N s3"
    "sc_policy s3 = sc_policy s2" "sc_sent s3 = sc_sent s2"
    using has_expired_backends_spec [OF reg(1)] by metis
  have 3: "run_inv keeps N s3" "scheduler_inv keeps N s3"
    using h reg(2) 2 by (simp_all add: run_inv_def scheduler_inv_def)
  consider "s' = s2" | s4 where "(if e then reschedule_workloads E s3 else Inr s3) = Inr s4"
      "s' = snd (read_clock E s4)"
    using run s1 h(1)
    by (auto simp: scheduler_iteration_def bindE_eq_Inr read_clock_def s2_def split: if_splits)
  then show ?thesis
  proof cases
    case 1
    with 2 show ?thesis by simp
  next
    case (2 s4)
    have "run_inv keeps N s4"
    proof (cases e)
      case True
      with 2(1) have "schedule_workloads E (sc_last_requests s3) s3 = Inr s4"
        by (simp add: reschedule_workloads_def)
      from schedule_workloads_sends [OF E 3(2) this] 3(1) show ?thesis
        using sends_run_inv by blast
    qed (use 2(1) 3(1) in auto)
    with 2(2) show ?thesis by (simp add: read_clock_run_inv)
  qed
qed

end

subsection \<open>The policy that the process is started with\<close>

interpretation v2: scheduling_policy policy_v2 policy_inv
proof (unfold_locales, goal_cases)
  case (1 p rs bs plan rs' p')
  then show ?case by (auto simp: policy_v2_def bindE_eq_Inr intro: schedule_inv(1))
next
  case (2 p rs bs plan rs' p')
  then have s: "schedule p rs bs = Inr (plan, p')" by (auto simp: policy_v2_def bindE_eq_Inr)
  obtain d where d: "convert_scheduling_plans (state_plans p') = Inr d" "sp_scheduling plan = map snd d"
    using schedule_plan_eq [OF s] .
  have "sbp_backend_name ` set (sp_scheduling plan) = fst ` set (deployments (state_plans p'))"
    using convert_scheduling_plans_spec(3) [OF d(1)] d(2) by (simp add: image_image)
  with state_deployments_within [OF schedule_inv(2) [OF 2(1) s]] show ?case by auto
next
  case (3 p rs bs plan rs' p')
  then show ?case by (auto simp: policy_v2_def bindE_eq_Inr qualify_request_def)
qed

subsection \<open>A small system\<close>

text \<open>
  One GPU backend, one pipeline with one model, a Redis server whose first calls fail.
\<close>

definition sample_client :: "call_fate list \<Rightarrow> ('v sample_store, 'v) redis_client" where
  "sample_client faults =
     \<lparr>rc_ops = sample_redis, rc_store = (\<lambda>_. None, \<lambda>_. []), rc_faults = faults\<rparr>"

lemma sample_client_simps [simp]:
  "client_ok (sample_client faults)" "contents (sample_client faults) k = None"
  by (simp_all add: client_ok_def contents_def sample_client_def, simp add: sample_redis_def)

type_synonym 'v sample_cache = "(string \<times> 'v) option"

definition sample_env ::
    "(nxs_pipeline_runtime_info sample_cache, nxs_compository_model sample_cache, policy) scheduler_env"
  where
  "sample_env = \<lparr>se_heartbeat_interval = 3, se_backend_timeout_secs = 30,
     se_pipeline_lru = sample_lru, se_cmodel_lru = sample_lru, se_main_db = sample_db,
     se_policy = policy_v2, se_now = (\<lambda>n. 10 * of_nat n)\<rparr>"

type_synonym sample_scheduler_state =
  "(nxs_pipeline_runtime_info sample_cache, nxs_compository_model sample_cache, policy,
    kv_value sample_store) scheduler"

definition sample_scheduler :: sample_scheduler_state where
  "sample_scheduler =
     new_scheduler None None init_policy (sample_client [Lost, ReplyLost, Completes, Lost])"

definition sample_stat :: backend_stat where
  "sample_stat = bi_state (sample_gpu_backend ''x'' 10)"

definition sample_workload :: "string \<Rightarrow> workload_report" where
  "sample_workload p =
     \<lparr>wr_pipeline_uuid = p, wr_session_uuid = ''s'', wr_fps = 5, wr_metadata = ''{}''\<rparr>"

abbreviation sample_registration :: nxs_msg where
  "sample_registration \<equiv> MsgRegisterBackend ''x'' (Some sample_stat)"

abbreviation sample_workloads :: nxs_msg where
  "sample_workloads \<equiv> MsgRegisterWorkloads [sample_workload ''p'']"

definition sample_registered :: "sample_scheduler_state result" where
  "sample_registered = process_scheduler_msg sample_env sample_scheduler sample_registration"

lemma sample_env_policy [simp]: "se_policy sample_env = policy_v2"
  by (simp add: sample_env_def)

lemma sample_inv: "registry_inv {''x''} sample_scheduler" "sc_sent sample_scheduler = []"
  "policy_inv (sc_policy sample_scheduler)"
  using registry_inv_new [of "{''x''}" "sample_client [Lost, ReplyLost, Completes, Lost]"]
  by (simp_all add: sample_scheduler_def collision_free_def) (simp_all add: new_scheduler_def)

lemma sample_run:
  "bindE sample_registered (\<lambda>s1. bindE (process_scheduler_msg sample_env s1 sample_workloads)
     (\<lambda>s2. bindE (reschedule_workloads sample_env s2) (\<lambda>s3.
       Inr (map fst (sc_backends s1), sc_clock s1, map br_last_alive_ts (map snd (sc_backends s1)),
         map (\<lambda>(t, m). (t, msg_type m)) (sc_sent s2))))) =
   Inr ([''x''], 1, [KvTime 0], [(''x'', CHANGE_HEARTBEAT_INTERVAL), (''x'', SCHEDULE_PLAN)])"
  by code_simp

lemma sample_runE:
  obtains s1 s2 s3 where
    "process_scheduler_msg sample_env sample_scheduler sample_registration = Inr s1"
    "process_scheduler_msg sample_env s1 sample_workloads = Inr s2"
    "reschedule_workloads sample_env s2 = Inr s3"
    "registry_inv {''x''} s1" "policy_inv (sc_policy s1)" "map fst (sc_backends s1) = [''x'']"
    "map (\<lambda>(t, m). (t, msg_type m)) (sc_sent s2) =
       [(''x'', CHANGE_HEARTBEAT_INTERVAL), (''x'', SCHEDULE_PLAN)]"
    "map (br_last_alive_ts \<circ> snd) (sc_backends s1) = [KvTime 0]"
proof -
  obtain s1 s2 s3 where s: "sample_registered = Inr s1"
    "process_scheduler_msg sample_env s1 sample_workloads = Inr s2"
    "reschedule_workloads sample_env s2 = Inr s3" "map fst (sc_backends s1) = [''x'']"
    "map (\<lambda>(t, m). (t, msg_type m)) (sc_sent s2) =
       [(''x'', CHANGE_HEARTBEAT_INTERVAL), (''x'', SCHEDULE_PLAN)]"
    "map (br_last_alive_ts \<circ> snd) (sc_backends s1) = [KvTime 0]"
    using sample_run by (auto simp: bindE_eq_Inr)
  have r: "process_register_backend sample_env ''x'' (Some sample_stat) sample_scheduler = Inr s1"
    using s(1) by (simp add: sample_registered_def process_scheduler_msg_def)
  have "registry_inv {''x''} s1" "sc_policy s1 = sc_policy sample_scheduler"
    using process_register_backend_inv [OF sample_inv(1) _ r] process_register_backend_sends [OF r]
    by simp_all
  with s show thesis
    using sample_inv(3) by (intro that) (simp_all add: sample_registered_def)
qed

subsection \<open>Messages\<close>





text \<open>C7: a restarted scheduler finds in the store exactly the backends that the old one had, in
  the same order, with their states and times; it sends nothing while it restores them, and
  the invariant of the registry holds for it.\<close>

theorem restart_restores_backends:
  fixes s :: "('c, 'm, 'p, 'r) scheduler" and db :: "'r kv_client"
    and E :: "('c, 'm, 'p) scheduler_env"
  assumes "registry_inv N s" "client_ok db" "contents db = contents (sc_db s)"
  shows "\<exists>t. restore_scheduler_states E (new_scheduler pc mc p db) = Inr t \<and>
    map (\<lambda>(bn, b). (bn, br_backend_info b, br_last_alive_ts b)) (sc_backends t) =
      map (\<lambda>(bn, b). (bn, br_backend_info b, br_last_alive_ts b)) (sc_backends s) \<and>
    registry_inv N t \<and> sc_sent t = []"
proof -
  let ?s0 = "new_scheduler pc mc p db"
  have fresh: "client_ok (sc_db ?s0)" "contents (sc_db ?s0) = contents (sc_db s)"
    "sc_backends ?s0 = []" "sc_cpu_backends ?s0 = []" "sc_gpu_backends ?s0 = []"
    using assms by (simp_all add: new_scheduler_def)
  obtain t where t: "restore_scheduler_states E ?s0 = Inr t"
    "restored_from (sc_db s) (sc_backends s) ?s0 t"
    using restore_scheduler_states_spec [OF assms(1) fresh] by blast
  moreover have "map (\<lambda>(bn, b). (bn, br_backend_info b, br_last_alive_ts b)) (map restored xs) =
      map (\<lambda>(bn, b). (bn, br_backend_info b, br_last_alive_ts b)) xs" for xs
    by (simp add: restored_def new_backend_runtime_def case_prod_unfold)
  ultimately show ?thesis
    using restored_from_inv [OF assms(1) t(2)]
    by (auto simp: restored_from_def new_scheduler_def)
qed

theorem restart_restores_backends_witness:
  "\<exists>s t. registry_inv {''x''} (s :: sample_scheduler_state) \<and> map fst (sc_backends s) = [''x''] \<and>
     restore_scheduler_states sample_env (new_scheduler None None init_policy (sc_db s)) = Inr t \<and>
     map fst (sc_backends t) = [''x'']"
proof -
  obtain s1 where s: "registry_inv {''x''} (s1 :: sample_scheduler_state)"
    "map fst (sc_backends s1) = [''x'']"
    using sample_runE by metis
  obtain t :: sample_scheduler_state where
    t: "restore_scheduler_states sample_env (new_scheduler None None init_policy (sc_db s1)) = Inr t"
    "map (\<lambda>(bn, b). (bn, br_backend_info b, br_last_alive_ts b)) (sc_backends t) =
       map (\<lambda>(bn, b). (bn, br_backend_info b, br_last_alive_ts b)) (sc_backends s1)"
    using restart_restores_backends [OF s(1) registry_inv_fields(2) [OF s(1)] refl,
        of sample_env None None init_policy] by blast
  from t(2) have "map fst (sc_backends t) = map fst (sc_backends s1)"
    by (auto simp: list_eq_iff_nth_eq case_prod_unfold)
  with s t(1) show ?thesis by metis
qed

subsection \<open>Expiry and heartbeats\<close>

text \<open>the expiry check never raises; it keeps exactly the backends heard of within the
  timeout, in their order, reports whether it dropped any, and keeps the invariant, so the
  store no longer holds the dropped ones.\<close>

theorem expiry_keeps_alive_backends:
  assumes "registry_inv N s"
  shows "\<exists>s'. has_expired_backends E s =
      Inr (\<not> list_all (alive E (se_now E (sc_clock s))) (sc_backends s), s') \<and>
    sc_backends s' = filter (alive E (se_now E (sc_clock s))) (sc_backends s) \<and>
    registry_inv N s' \<and> sc_sent s' = sc_sent s"
  using has_expired_backends_spec [OF assms] by metis

theorem expiry_keeps_alive_backends_witness:
  "\<exists>s s'. sc_backends (s :: sample_scheduler_state) \<noteq> [] \<and>
     has_expired_backends sample_env s = Inr (True, s') \<and> sc_backends s' = []"
proof -
  obtain s1 where s1: "registry_inv {''x''} (s1 :: sample_scheduler_state)"
    "map fst (sc_backends s1) = [''x'']" "map (br_last_alive_ts \<circ> snd) (sc_backends s1) = [KvTime 0]"
    using sample_runE by metis
  let ?s = "s1\<lparr>sc_clock := 5\<rparr>"
  have dead: "\<not> alive sample_env (se_now sample_env (sc_clock ?s)) x" if "x \<in> set (sc_backends s1)" for x
    using s1(3) that by (cases "sc_backends s1") (auto simp: alive_def sample_env_def)
  have ne: "sc_backends s1 \<noteq> []" using s1(2) by auto
  from expiry_keeps_alive_backends [of "{''x''}" ?s sample_env] s1(1) obtain s' where
    "has_expired_backends sample_env ?s = Inr (\<not> list_all (alive sample_env
       (se_now sample_env (sc_clock ?s))) (sc_backends ?s), s')"
    "sc_backends s' = filter (alive sample_env (se_now sample_env (sc_clock ?s))) (sc_backends ?s)"
    by auto
  with dead ne show ?thesis
    by (intro exI [of _ ?s] exI [of _ s']) (cases "sc_backends s1"; auto simp: filter_empty_conv)
qed

text \<open>a heartbeat of a registered backend refreshes its time, so a check that comes within the
  timeout keeps it, with the reported state; a heartbeat of an unknown backend is answered by a
  request to register again and changes nothing else.\<close>

theorem heartbeat_refreshes_or_asks:
  assumes "registry_inv N s" "process_heartbeat_msg E bn (Some st) s = Inr s'"
  shows "if bn \<in> set (dkeys (sc_backends s))
    then (\<exists>b. map_of (sc_backends s') bn = Some b \<and> bi_state (br_backend_info b) = st \<and>
        (now - se_now E (sc_clock s) \<le> se_backend_timeout_secs E \<longrightarrow> alive E now (bn, b))) \<and>
      sc_sent s' = sc_sent s \<and> registry_inv N s'
    else s' = s\<lparr>sc_sent := sc_sent s @ [(bn, MsgRequestRegisterBackend)]\<rparr>"
proof (cases "map_of (sc_backends s) bn")
  case None
  with assms(2) show ?thesis
    by (auto simp: process_heartbeat_msg_def push_msg_def set_dkeys)
next
  case (Some b)
  with assms(2) process_heartbeat_inv [OF assms] show ?thesis
    by (auto simp: process_heartbeat_msg_def read_clock_def Let_def set_dkeys dict_simps
        update_info_from_heartbeat_def alive_def)
qed

theorem heartbeat_refreshes_or_asks_witness:
  "process_heartbeat_msg sample_env ''y'' (Some sample_stat) sample_scheduler =
     Inr (sample_scheduler\<lparr>sc_sent := [(''y'', MsgRequestRegisterBackend)]\<rparr>)"
proof -
  have 1: "sc_backends sample_scheduler = []"
    by (simp add: sample_scheduler_def new_scheduler_def)
  then obtain s' where s': "process_heartbeat_msg sample_env ''y'' (Some sample_stat) sample_scheduler = Inr s'"
    by (simp add: process_heartbeat_msg_def)
  from heartbeat_refreshes_or_asks [OF sample_inv(1) s'] show ?thesis
    by (simp add: s' 1 sample_inv(2))
qed

subsection \<open>Workloads\<close>

lemma scheduling_log_qualified:
  "map ssr_session_uuid (sl_scheduling_requests (scheduling_log (map qualify_request rs) plans)) =
     map (\<lambda>r. join_key (request_pipeline r) (sr_session_uuid r)) rs"
  by (simp add: scheduling_log_def qualify_request_def comp_def)

text \<open>the requests kept for the next round carry the session names of the workloads, not the
  qualified ones that the policy writes into the requests it is given; so rescheduling, any
  number of times, asks for the same requests, and names do not grow. The log in the store
  shows the qualified names.\<close>

theorem last_requests_not_qualified:
  fixes s :: "('c, 'm, policy, 'r) scheduler"
  assumes "se_policy E = policy_v2" "client_ok (sc_db s)"
    "process_register_workloads E ws s = Inr s'" "reschedule_workloads E s' = Inr s''"
  shows "map sr_session_uuid (sc_last_requests s') = map wr_session_uuid ws \<and>
    sc_last_requests s'' = sc_last_requests s' \<and>
    (\<exists>log. contents (sc_db s') SCHEDULER_LOGS = Some (KvSchedulerLog log) \<and>
      map ssr_session_uuid (sl_scheduling_requests log) =
        map (\<lambda>r. join_key (request_pipeline r) (sr_session_uuid r)) (sc_last_requests s'))"
proof -
  from assms(3) obtain rs s1 where c: "collect_requests E ws s = Inr (rs, s1)"
    "schedule_workloads E rs s1 = Inr s'"
    by (auto simp: process_register_workloads_def bindE_eq_Inr)
  note same = same_but_caches_fields [OF collect_requests_same [OF c(1)]]
  from c(2) obtain plan rs' p' where
    round: "policy_v2 (sc_policy s1) rs (backend_infos s1) = Inr ((plan, rs'), p')"
    and s': "s' = s1\<lparr>sc_policy := p', sc_sent := sc_sent s1 @ plan_messages plan, sc_last_requests := rs,
               sc_db := set_value (sc_db s1) SCHEDULER_LOGS
                 (KvSchedulerLog (scheduling_log rs' (sp_scheduling plan)))\<rparr>"
    unfolding schedule_workloads_eq assms(1) by blast
  have rs': "rs' = map qualify_request rs" using round by (auto simp: policy_v2_def bindE_eq_Inr)
  have "sc_last_requests s'' = rs"
    using assms(4) by (auto simp: reschedule_workloads_def schedule_workloads_eq s')
  moreover have "contents (sc_db s') SCHEDULER_LOGS =
      Some (KvSchedulerLog (scheduling_log rs' (sp_scheduling plan)))"
    using assms(2) same(4) by (simp add: s' kv_simps)
  ultimately show ?thesis
    using collect_requests_sessions [OF c(1)] by (simp add: s' rs' scheduling_log_qualified)
qed

theorem last_requests_not_qualified_witness:
  "\<exists>s s' s''. process_register_workloads sample_env [sample_workload ''p''] s = Inr s' \<and>
     reschedule_workloads sample_env s' = Inr s'' \<and>
     map sr_session_uuid (sc_last_requests (s'' :: sample_scheduler_state)) = [''s'']"
proof -
  obtain s1 s2 s3 where s: "process_scheduler_msg sample_env s1 sample_workloads = Inr s2"
    "reschedule_workloads sample_env s2 = Inr s3" "registry_inv {''x''} (s1 :: sample_scheduler_state)"
    using sample_runE by metis
  then have p: "process_register_workloads sample_env [sample_workload ''p''] s1 = Inr s2"
    by (simp add: process_scheduler_msg_def)
  from last_requests_not_qualified [OF sample_env_policy registry_inv_fields(2) [OF s(3)] p s(2)]
  have "map sr_session_uuid (sc_last_requests s3) = [''s'']"
    by (simp add: sample_workload_def)
  with p s(2) show ?thesis by (intro exI conjI)
qed

text \<open>a workload of a pipeline that is neither cached nor in the database stops the scheduler:
  \<open>_get_pipeline_info\<close> reads a field of \<open>None\<close>.\<close>

theorem unknown_pipeline_raises:
  assumes "\<not> lru_has (se_pipeline_lru E) (sc_pipeline_cache s) (wr_pipeline_uuid w)"
    "query_pipelines (se_main_db E) (wr_pipeline_uuid w) = []"
  shows "process_scheduler_msg E s (MsgRegisterWorkloads (w # ws)) = Inl AttributeError"
  using assms
  by (simp add: process_scheduler_msg_def process_register_workloads_def collect_requests_def
      get_pipeline_runtime_def read_clock_def Let_def get_from_db_def)

theorem unknown_pipeline_raises_witness:
  "process_scheduler_msg sample_env sample_scheduler
     (MsgRegisterWorkloads [sample_workload ''q'', sample_workload ''p'']) = Inl AttributeError"
  by (rule unknown_pipeline_raises)
    (simp_all add: sample_env_def sample_lru_def sample_scheduler_def new_scheduler_def
      sample_workload_def sample_db_def)

text \<open>Every cached pipeline was read from the database at some time.\<close>

definition cache_coherent :: "('c, 'm, 'p) scheduler_env \<Rightarrow> ('c, 'm, 'p, 'r) scheduler \<Rightarrow> bool" where
  "cache_coherent E s \<longleftrightarrow>
     (\<forall>u. lru_has (se_pipeline_lru E) (sc_pipeline_cache s) u \<longrightarrow>
        (\<exists>t. get_from_db (se_main_db E) u t =
           Inr (Some (lru_get (se_pipeline_lru E) (sc_pipeline_cache s) u))))"

lemma get_from_db_time:
  assumes "get_from_db db u t = Inr (Some p)"
  obtains q where "get_from_db db u t' = Inr (Some q)" "get_pipeline_info q = get_pipeline_info p"
  using assms by (auto simp: get_from_db_def bindE_eq_Inr get_pipeline_info_def split: list.splits)

text \<open>whether or not the pipeline is in the cache, and whatever the cache evicts, the scheduler
  uses the pipeline that the database holds, and the cache stays coherent with it.\<close>

theorem pipeline_cache_transparent:
  assumes "lru_ok (se_pipeline_lru E)" "cache_coherent E s"
    "get_pipeline_runtime E u s = Inr (p, s')"
  shows "cache_coherent E s' \<and>
    (\<exists>q. get_from_db (se_main_db E) u t = Inr (Some q) \<and> get_pipeline_info q = get_pipeline_info p)"
proof (cases "lru_has (se_pipeline_lru E) (sc_pipeline_cache s) u")
  case True
  with assms obtain t0 where "get_from_db (se_main_db E) u t0 = Inr (Some p)"
    by (auto simp: get_pipeline_runtime_def Let_def cache_coherent_def)
  then obtain q where "get_from_db (se_main_db E) u t = Inr (Some q)"
    "get_pipeline_info q = get_pipeline_info p"
    by (rule get_from_db_time)
  moreover have "cache_coherent E s'"
    using assms True
    by (auto simp: get_pipeline_runtime_def Let_def cache_coherent_def external_simps)
  ultimately show ?thesis by blast
next
  case False
  with assms(3) obtain p' where p': "get_from_db (se_main_db E) u (se_now E (sc_clock s)) = Inr (Some p')"
    by (auto simp: get_pipeline_runtime_def Let_def read_clock_def bindE_eq_Inr split: option.splits)
  with assms(3) False have p: "get_from_db (se_main_db E) u (se_now E (sc_clock s)) = Inr (Some p)"
    "sc_pipeline_cache s' = lru_put (se_pipeline_lru E) (sc_pipeline_cache s) u p"
    by (auto simp: get_pipeline_runtime_def Let_def read_clock_def)
  obtain q where "get_from_db (se_main_db E) u t = Inr (Some q)"
    "get_pipeline_info q = get_pipeline_info p"
    using p(1) by (rule get_from_db_time)
  moreover have "cache_coherent E s'"
    unfolding cache_coherent_def p(2)
  proof (intro allI impI)
    fix v assume v: "lru_has (se_pipeline_lru E) (lru_put (se_pipeline_lru E) (sc_pipeline_cache s) u p) v"
    show "\<exists>t. get_from_db (se_main_db E) v t = Inr (Some (lru_get (se_pipeline_lru E)
        (lru_put (se_pipeline_lru E) (sc_pipeline_cache s) u p) v))"
    proof (cases "v = u")
      case True
      with p(1) assms(1) show ?thesis by (auto simp: external_simps)
    next
      case False
      with lru_put_other [OF assms(1) False v] assms(2) show ?thesis
        by (auto simp: cache_coherent_def)
    qed
  qed
  ultimately show ?thesis by blast
qed

theorem pipeline_cache_transparent_witness:
  "\<exists>p s'. get_pipeline_runtime sample_env ''p'' sample_scheduler = Inr (p, s') \<and>
     cache_coherent sample_env s' \<and>
     (\<exists>q. get_from_db sample_db ''p'' 99 = Inr (Some q) \<and> get_pipeline_info q = get_pipeline_info p)"
proof -
  have "bindE (get_pipeline_runtime sample_env ''p'' sample_scheduler) (\<lambda>_. Inr ()) = Inr ()"
    by code_simp
  then obtain p s' where p: "get_pipeline_runtime sample_env ''p'' sample_scheduler = Inr (p, s')"
    by (auto simp: bindE_eq_Inr)
  have "lru_ok (se_pipeline_lru sample_env)" "se_main_db sample_env = sample_db"
    by (simp_all add: sample_env_def)
  moreover have "cache_coherent sample_env sample_scheduler"
    by (simp add: cache_coherent_def sample_env_def sample_lru_def sample_scheduler_def
        new_scheduler_def)
  moreover note p
  ultimately show ?thesis using pipeline_cache_transparent [OF _ _ p, of 99] by auto
qed

end
