(* ===== verification/Nxs_Queue.thy ===== *)
theory Nxs_Queue
  imports Nxs_Redis "HOL-Library.Sublist"
begin

section \<open>Queues on Redis (\<open>nxs_libs/queue/nxs_redis_queue.py\<close>)\<close>

text \<open>
  A topic is spread over partitions: the key \<open>topic\<close> holds their number, the lists
  \<open>topic_0\<close>, \<open>topic_1\<close>, ... hold the items. \<open>NxsRedisQueuePusher\<close> appends to the partitions
  in turn; \<open>NxsRedisQueuePuller\<close> runs one reader thread per partition and a monitor thread
  that follows changes of the number of partitions.
\<close>

subsection \<open>Names of partitions\<close>

definition partitioned_topic :: "string \<Rightarrow> int \<Rightarrow> string" where
  "partitioned_topic topic i = join_key topic (string_of_int i)"

lemma partitioned_topic_inject [simp]:
  "0 \<le> i \<Longrightarrow> 0 \<le> j \<Longrightarrow> partitioned_topic t i = partitioned_topic t j \<longleftrightarrow> i = j"
  by (auto simp: partitioned_topic_def join_key_def string_of_int_def)

lemma partitioned_topic_neq [simp]: "partitioned_topic t i \<noteq> t" "t \<noteq> partitioned_topic t i"
proof -
  have "length t < length (partitioned_topic t i)" by (simp add: partitioned_topic_def join_key_def)
  then show "partitioned_topic t i \<noteq> t" "t \<noteq> partitioned_topic t i" by auto
qed

subsection \<open>The pusher\<close>

datatype 'a queue_value = PartitionCount int | Item 'a

record ('r, 'a) pusher =
  pu_client :: "('r, 'a queue_value) redis_client"
  pu_partitions :: "(string, int) dict"
  pu_partition_idx :: "(string, int) dict"
  pu_timestamp :: "(string, rat) dict"
  pu_expiration :: "(string, rat) dict"
  pu_check_period_secs :: rat
  pu_new_topic_num_partitions :: int
  pu_expiration_secs :: int
  pu_clock :: nat

definition new_pusher :: "('r, 'a queue_value) redis_client \<Rightarrow> ('r, 'a) pusher" where
  "new_pusher c = \<lparr>pu_client = c, pu_partitions = [], pu_partition_idx = [], pu_timestamp = [],
     pu_expiration = [], pu_check_period_secs = 3, pu_new_topic_num_partitions = 1,
     pu_expiration_secs = 3600, pu_clock = 0\<rparr>"

definition create_topic ::
    "(nat \<Rightarrow> rat) \<Rightarrow> ('r, 'a) pusher \<Rightarrow> string \<Rightarrow> ('r, 'a) pusher" where
  "create_topic now p topic =
     p\<lparr>pu_client := set_with_retry (pu_client p) topic
                     (PartitionCount (pu_new_topic_num_partitions p)) 0,
       pu_partitions := AList.update topic (pu_new_topic_num_partitions p) (pu_partitions p),
       pu_timestamp := AList.update topic (now (pu_clock p)) (pu_timestamp p),
       pu_partition_idx := AList.update topic 0 (pu_partition_idx p),
       pu_clock := Suc (pu_clock p)\<rparr>"

text \<open>
  \<open>_push_with_retry\<close>. The default of \<open>get(topic, time.time())\<close> is evaluated in any case, so
  the clock is read twice before the comparison.
\<close>

function push_with_retry ::
    "(nat \<Rightarrow> rat) \<Rightarrow> ('r, 'a) pusher \<Rightarrow> string \<Rightarrow> 'a \<Rightarrow> int \<Rightarrow> ('r, 'a) pusher" where
  "push_with_retry now p topic v secs =
     (let (ok, c1) = call (\<lambda>r. r_rpush (rc_ops (pu_client p)) r topic (Item v)) (pu_client p)
      in if \<not> ok then push_with_retry now (p\<lparr>pu_client := c1\<rparr>) topic v secs
         else let n = pu_clock p;
                  t0 = dget (pu_expiration p) topic (now n);
                  p1 = p\<lparr>pu_client := c1, pu_clock := n + 2\<rparr>
              in if now (n + 1) - t0 > of_int (pu_expiration_secs p) / 2
                 then let (ok', c2) = call (\<lambda>r. r_expire (rc_ops (pu_client p)) r topic secs) c1
                      in if ok'
                         then p1\<lparr>pu_client := c2, pu_clock := n + 3,
                                 pu_expiration := AList.update topic (now (n + 2)) (pu_expiration p)\<rparr>
                         else push_with_retry now (p1\<lparr>pu_client := c2\<rparr>) topic v secs
                 else p1)"
  by pat_completeness auto

termination
proof (relation "measure (\<lambda>(now, p, topic, v, secs). length (rc_faults (pu_client p)))", goal_cases)
  case (2 now p topic v secs x ok c1)
  then show ?case
    using call_faults [of "\<lambda>r. r_rpush (rc_ops (pu_client p)) r topic (Item v)" "pu_client p" ok c1]
    by auto
next
  case (3 now p topic v secs x ok c1 n t0 p1 y ok' c2)
  then show ?case
    using call_faults [of "\<lambda>r. r_rpush (rc_ops (pu_client p)) r topic (Item v)" "pu_client p" ok c1]
      call_faults [of "\<lambda>r. r_expire (rc_ops (pu_client p)) r topic secs" c1 ok' c2]
    by auto
qed auto

declare push_with_retry.simps [simp del]

text \<open>\<open>_get_topic_num_partitions\<close>: the stored object, or 1.\<close>

definition get_topic_num_partitions ::
    "('r, 'a queue_value) redis_client \<Rightarrow> string \<Rightarrow> 'a queue_value \<times> ('r, 'a queue_value) redis_client"
  where
  "get_topic_num_partitions c topic =
     (let (v, c') = get_with_retry c topic
      in (case v of None \<Rightarrow> PartitionCount 1 | Some v \<Rightarrow> v, c'))"

text \<open>
  The first part of \<open>push\<close>: the number of partitions is read when the topic is new or the
  last reading is too old. An object that is no number would make \<open>%\<close> raise.
\<close>

definition refresh_partitions ::
    "(nat \<Rightarrow> rat) \<Rightarrow> ('r, 'a) pusher \<Rightarrow> string \<Rightarrow> ('r, 'a) pusher result" where
  "refresh_partitions now p topic =
     (let (due, p1) = (case map_of (pu_timestamp p) topic of
            None \<Rightarrow> (True, p)
          | Some t \<Rightarrow> (now (pu_clock p) - t > pu_check_period_secs p,
                       p\<lparr>pu_clock := Suc (pu_clock p)\<rparr>))
      in if \<not> due then Inr p1
         else let (n, c) = get_topic_num_partitions (pu_client p1) topic
              in case n of
                   Item _ \<Rightarrow> Inl TypeError
                 | PartitionCount n \<Rightarrow>
                     Inr (p1\<lparr>pu_client := c,
                             pu_partitions := AList.update topic n (pu_partitions p1),
                             pu_partition_idx := AList.update topic 0 (pu_partition_idx p1),
                             pu_timestamp := AList.update topic (now (pu_clock p1)) (pu_timestamp p1),
                             pu_clock := Suc (pu_clock p1)\<rparr>))"

definition push ::
    "(nat \<Rightarrow> rat) \<Rightarrow> ('r, 'a) pusher \<Rightarrow> string \<Rightarrow> 'a \<Rightarrow> ('r, 'a) pusher result" where
  "push now p topic v =
     bindE (refresh_partitions now p topic) (\<lambda>p1.
     bindE (dlookup (pu_partition_idx p1) topic) (\<lambda>i.
     bindE (dlookup (pu_partitions p1) topic) (\<lambda>n.
       if n = 0 then Inl ZeroDivisionError
       else Inr (push_with_retry now
              (p1\<lparr>pu_partition_idx := AList.update topic ((i + 1) mod n) (pu_partition_idx p1)\<rparr>)
              (partitioned_topic topic i) v (pu_expiration_secs p1)))))"

definition push_to_session ::
    "(nat \<Rightarrow> rat) \<Rightarrow> ('r, 'a) pusher \<Rightarrow> string \<Rightarrow> string \<Rightarrow> 'a \<Rightarrow> ('r, 'a) pusher result" where
  "push_to_session now p topic sess v = push now p (join_key topic sess) v"

definition update_new_topic_num_partitions ::
    "('r, 'a) pusher \<Rightarrow> int \<Rightarrow> ('r, 'a) pusher result" where
  "update_new_topic_num_partitions p n =
     (if n \<ge> 1 then Inr (p\<lparr>pu_new_topic_num_partitions := n\<rparr>) else Inl AssertionError)"

text \<open>\<open>int(duration_secs)\<close> of a number that is at least 30.\<close>

definition update_expiration_duration_secs ::
    "('r, 'a) pusher \<Rightarrow> rat \<Rightarrow> ('r, 'a) pusher result" where
  "update_expiration_duration_secs p d =
     (if d \<ge> 30 then Inr (p\<lparr>pu_expiration_secs := \<lfloor>d\<rfloor>\<rparr>) else Inl AssertionError)"

definition update_check_num_partition_period :: "('r, 'a) pusher \<Rightarrow> rat \<Rightarrow> ('r, 'a) pusher" where
  "update_check_num_partition_period p secs = p\<lparr>pu_check_period_secs := secs\<rparr>"

text \<open>What a puller calls to spread a topic over \<open>n\<close> partitions (\<open>set_num_partitions\<close>).\<close>

definition set_topic_num_partitions ::
    "('r, 'a queue_value) redis_client \<Rightarrow> string \<Rightarrow> int \<Rightarrow> ('r, 'a queue_value) redis_client" where
  "set_topic_num_partitions c topic n = set_with_retry c topic (PartitionCount n) 0"

text \<open>\<open>update_config\<close>: unlike the method above, it does not check the number.\<close>

definition update_config :: "('r, 'a) pusher \<Rightarrow> (string, int) dict \<Rightarrow> ('r, 'a) pusher" where
  "update_config p config =
     (case map_of config ''num_partitions'' of
        None \<Rightarrow> p | Some n \<Rightarrow> p\<lparr>pu_new_topic_num_partitions := n\<rparr>)"

end
