(* ===== verification/Nxs_Queue_Props.thy ===== *)
theory Nxs_Queue_Props
  imports Nxs_Queue Nxs_Samples
begin

section \<open>Properties of the queues\<close>

subsection \<open>What a push does to the lists of the server\<close>

definition lists :: "('r, 'v) redis_client \<Rightarrow> string \<Rightarrow> 'v list" where
  "lists c k = r_list (rc_ops c) (rc_store c) k"

lemma call_rpush:
  assumes "call (\<lambda>r. r_rpush (rc_ops c) r k v) c = (ok, c1)" "client_ok c"
  shows "rc_ops c1 = rc_ops c" "client_ok c1"
    "\<exists>n. (n = 0 \<and> \<not> ok \<or> n = 1) \<and> (\<forall>t. lists c1 t = lists c t @ (if t = k then replicate n v else []))"
    "t \<noteq> k \<Longrightarrow> contents c1 t = contents c t"
    "rc_faults c = [] \<Longrightarrow> ok \<and> rc_faults c1 = []"
proof -
  show ops: "rc_ops c1 = rc_ops c" using call_faults [OF assms(1)] by simp
  then show "client_ok c1" using assms(2) by (simp add: client_ok_def)
  have st: "rc_store c1 = rc_store c \<and> \<not> ok \<or> rc_store c1 = r_rpush (rc_ops c) (rc_store c) k v"
    using call_store [OF assms(1)] .
  have r: "redis_ok (rc_ops c)" using assms(2) by (simp add: client_ok_def)
  show "\<exists>n. (n = 0 \<and> \<not> ok \<or> n = 1) \<and> (\<forall>t. lists c1 t = lists c t @ (if t = k then replicate n v else []))"
  proof (cases "rc_store c1 = r_rpush (rc_ops c) (rc_store c) k v")
    case True
    then show ?thesis
      by (intro exI [of _ 1]) (simp add: lists_def ops redis_laws(5) [OF r])
  next
    case False
    with st show ?thesis by (intro exI [of _ 0]) (simp add: lists_def ops)
  qed
  show "t \<noteq> k \<Longrightarrow> contents c1 t = contents c t"
    using st by (auto simp: contents_def ops redis_laws(3) [OF r])
  show "rc_faults c = [] \<Longrightarrow> ok \<and> rc_faults c1 = []"
    using assms(1) by (auto simp: call_def)
qed

lemma call_expire_lists:
  assumes "call (\<lambda>r. r_expire (rc_ops c0) r k n) c = (ok, c1)" "client_ok c" "rc_ops c0 = rc_ops c"
  shows "lists c1 = lists c" "rc_faults c = [] \<Longrightarrow> ok \<and> rc_faults c1 = []"
proof -
  have ops: "rc_ops c1 = rc_ops c" using call_faults [OF assms(1)] by simp
  have r: "redis_ok (rc_ops c)" using assms(2) by (simp add: client_ok_def)
  show "lists c1 = lists c"
    using call_store [OF assms(1)] assms(3) by (auto simp: lists_def ops fun_eq_iff redis_laws(7) [OF r])
  show "rc_faults c = [] \<Longrightarrow> ok \<and> rc_faults c1 = []"
    using assms(1) by (auto simp: call_def)
qed

text \<open>The effect of \<open>_push_with_retry\<close>: the item is appended at least once, to one list only.\<close>

definition appended :: "('r, 'a) pusher \<Rightarrow> ('r, 'a) pusher \<Rightarrow> string \<Rightarrow> 'a \<Rightarrow> nat \<Rightarrow> bool" where
  "appended p p' k v n \<longleftrightarrow>
     rc_ops (pu_client p') = rc_ops (pu_client p) \<and>
     (\<forall>t. lists (pu_client p') t = lists (pu_client p) t @ (if t = k then replicate n (Item v) else [])) \<and>
     (\<forall>t. t \<noteq> k \<longrightarrow> contents (pu_client p') t = contents (pu_client p) t) \<and>
     pu_partitions p' = pu_partitions p \<and> pu_partition_idx p' = pu_partition_idx p \<and>
     pu_timestamp p' = pu_timestamp p \<and> pu_check_period_secs p' = pu_check_period_secs p \<and>
     pu_expiration_secs p' = pu_expiration_secs p \<and>
     (rc_faults (pu_client p) = [] \<longrightarrow> n \<le> 1 \<and> rc_faults (pu_client p') = [])"

lemma appended_again:
  assumes "appended p q k v n" "appended q p' k v m" "rc_faults (pu_client p) \<noteq> []"
  shows "appended p p' k v (n + m)"
  using assms by (auto simp: appended_def replicate_add)

lemma push_with_retry_appends:
  assumes "client_ok (pu_client p)"
  shows "\<exists>n \<ge> 1. appended p (push_with_retry now p k v secs) k v n"
  using assms
proof (induction now p k v secs rule: push_with_retry.induct)
  case (1 now p k v secs)
  let ?c = "pu_client p"
  obtain ok c1 where c1: "call (\<lambda>r. r_rpush (rc_ops ?c) r k (Item v)) ?c = (ok, c1)" by force
  define p1 where "p1 = p\<lparr>pu_client := c1, pu_clock := pu_clock p + 2\<rparr>"
  obtain ok' c2 where c2: "call (\<lambda>r. r_expire (rc_ops ?c) r k secs) c1 = (ok', c2)" by force
  note s1 = call_rpush [OF c1 1(3)]
  note s2 = call_expire [OF c2 s1(2) s1(1) [symmetric]] call_expire_lists [OF c2 s1(2) s1(1) [symmetric]]
  define due where "due \<longleftrightarrow> now (pu_clock p + 1) - dget (pu_expiration p) k (now (pu_clock p)) >
      of_int (pu_expiration_secs p) / 2"
  have eq: "push_with_retry now p k v secs =
      (if \<not> ok then push_with_retry now (p\<lparr>pu_client := c1\<rparr>) k v secs
       else if \<not> due then p1
       else if ok' then p1\<lparr>pu_client := c2, pu_clock := pu_clock p + 3,
              pu_expiration := AList.update k (now (pu_clock p + 2)) (pu_expiration p)\<rparr>
       else push_with_retry now (p1\<lparr>pu_client := c2\<rparr>) k v secs)"
    by (subst push_with_retry.simps) (simp add: c1 c2 Let_def due_def p1_def)
  obtain n where n: "n = 0 \<and> \<not> ok \<or> n = 1"
    "\<forall>t. lists c1 t = lists ?c t @ (if t = k then replicate n (Item v) else [])"
    using s1(3) by blast
  have a1: "appended p (p\<lparr>pu_client := c1\<rparr>) k v n" "appended p p1 k v n"
    using s1 n by (auto simp: appended_def p1_def)
  have o2: "client_ok c2" using s2(1) s1(2) by (simp add: client_ok_def)
  have a2: "appended p (p1\<lparr>pu_client := c2\<rparr>) k v n"
    using a1(2) s1 s2 by (auto simp: appended_def p1_def fun_eq_iff)
  show ?case
  proof (cases ok)
    case False
    then have "\<exists>m \<ge> 1. appended (p\<lparr>pu_client := c1\<rparr>) (push_with_retry now (p\<lparr>pu_client := c1\<rparr>) k v secs) k v m"
      by (intro 1(1) [OF c1 [symmetric] refl]) (use s1(2) in simp_all)
    then obtain m where "m \<ge> 1"
      "appended (p\<lparr>pu_client := c1\<rparr>) (push_with_retry now (p\<lparr>pu_client := c1\<rparr>) k v secs) k v m"
      by blast
    with appended_again [OF a1(1) this(2)] s1(5) False show ?thesis
      by (intro exI [of _ "n + m"]) (auto simp: eq)
  next
    case True
    with n(1) have "n = 1" by simp
    show ?thesis
    proof (cases "due \<and> \<not> ok'")
      case False
      with True a1(2) a2 \<open>n = 1\<close> show ?thesis
        by (intro exI [of _ 1]) (auto simp: eq appended_def)
    next
      case redo: True
      have "\<exists>m \<ge> 1. appended (p1\<lparr>pu_client := c2\<rparr>) (push_with_retry now (p1\<lparr>pu_client := c2\<rparr>) k v secs) k v m"
        unfolding p1_def
        by (rule 1(2) [OF c1 [symmetric] refl _ refl refl refl _ c2 [symmetric] refl])
          (use True redo o2 in \<open>simp_all add: due_def\<close>)
      then obtain m where "m \<ge> 1"
        "appended (p1\<lparr>pu_client := c2\<rparr>) (push_with_retry now (p1\<lparr>pu_client := c2\<rparr>) k v secs) k v m"
        by blast
      with appended_again [OF a2 this(2)] s1(5) s2(4) redo True show ?thesis
        by (intro exI [of _ "n + m"]) (auto simp: eq)
    qed
  qed
qed


lemma get_with_retry_store: "rc_store (snd (get_with_retry c k)) = rc_store c"
proof (induction c k rule: get_with_retry.induct)
  case (1 c k)
  obtain ok c1 where c1: "call (\<lambda>r. r) c = (ok, c1)" by force
  have "rc_store c1 = rc_store c" using call_store [OF c1] by auto
  moreover have "\<not> ok \<Longrightarrow> rc_store (snd (get_with_retry c1 k)) = rc_store c1"
    by (rule 1 [OF c1 [symmetric] refl])
  ultimately show ?case by (subst get_with_retry.simps) (simp add: c1)
qed

subsection \<open>Topics never expire\<close>

text \<open>a topic that the pusher has not set an expiration for never gets one: the default of the
  look-up is the current time, so unless half the expiration period passes between two
  consecutive readings of the clock, \<open>EXPIRE\<close> is not called and nothing is recorded. All that
  happens to the server is a number of \<open>RPUSH\<close> commands.\<close>

theorem push_never_sets_expiration:
  assumes "map_of (pu_expiration p) k = None"
    "\<forall>n. now (Suc n) - now n \<le> of_int (pu_expiration_secs p) / 2"
  shows "pu_expiration (push_with_retry now p k v secs) = pu_expiration p \<and>
    (\<exists>n \<ge> 1. rc_store (pu_client (push_with_retry now p k v secs)) =
       ((\<lambda>r. r_rpush (rc_ops (pu_client p)) r k (Item v)) ^^ n) (rc_store (pu_client p)))"
  using assms
proof (induction now p k v secs rule: push_with_retry.induct)
  case (1 now p k v secs)
  let ?push = "\<lambda>r. r_rpush (rc_ops (pu_client p)) r k (Item v)"
  obtain ok c1 where c1: "call ?push (pu_client p) = (ok, c1)" by force
  note f = call_faults [OF c1] and st = call_store [OF c1]
  have eq: "push_with_retry now p k v secs =
      (if \<not> ok then push_with_retry now (p\<lparr>pu_client := c1\<rparr>) k v secs
       else p\<lparr>pu_client := c1, pu_clock := pu_clock p + 2\<rparr>)"
    using 1(3) spec [OF 1(4), of "pu_clock p"]
    by (subst push_with_retry.simps) (simp add: c1 Let_def dget_def not_less)
  show ?case
  proof (cases ok)
    case True
    with call_True [of ?push "pu_client p" c1] c1 show ?thesis
      by (auto simp: eq intro!: exI [of _ 1])
  next
    case False
    have "pu_expiration (push_with_retry now (p\<lparr>pu_client := c1\<rparr>) k v secs) = pu_expiration p \<and>
        (\<exists>n \<ge> 1. rc_store (pu_client (push_with_retry now (p\<lparr>pu_client := c1\<rparr>) k v secs)) =
          (?push ^^ n) (rc_store c1))"
      using 1(1) [OF c1 [symmetric] refl] False 1(3,4) f by simp
    then obtain n where n: "n \<ge> 1"
      "rc_store (pu_client (push_with_retry now (p\<lparr>pu_client := c1\<rparr>) k v secs)) = (?push ^^ n) (rc_store c1)"
      "pu_expiration (push_with_retry now (p\<lparr>pu_client := c1\<rparr>) k v secs) = pu_expiration p"
      by blast
    from st show ?thesis
    proof
      assume "rc_store c1 = rc_store (pu_client p) \<and> \<not> ok"
      with n False show ?thesis by (auto simp: eq)
    next
      assume "rc_store c1 = ?push (rc_store (pu_client p))"
      with n False show ?thesis
        by (intro conjI exI [of _ "Suc n"]) (simp_all add: eq funpow_Suc_right del: funpow.simps)
    qed
  qed
qed

subsection \<open>Round robin\<close>

text \<open>The items of \<open>xs\<close> that fall to partition \<open>i\<close> of \<open>n\<close>.\<close>

definition share :: "int \<Rightarrow> int \<Rightarrow> 'a list \<Rightarrow> 'a list" where
  "share n i xs = map snd (filter (\<lambda>(j, x). int j mod n = i) (enumerate 0 xs))"

lemma share_Nil [simp]: "share n i [] = []"
  by (simp add: share_def)

lemma share_snoc: "share n i (xs @ [x]) = share n i xs @ (if int (length xs) mod n = i then [x] else [])"
  by (simp add: share_def enumerate_append_eq)

definition topic_ready :: "(nat \<Rightarrow> rat) \<Rightarrow> ('r, 'a) pusher \<Rightarrow> string \<Rightarrow> int \<Rightarrow> int \<Rightarrow> bool" where
  "topic_ready now p topic n i \<longleftrightarrow> client_ok (pu_client p) \<and> rc_faults (pu_client p) = [] \<and>
     map_of (pu_partitions p) topic = Some n \<and> map_of (pu_partition_idx p) topic = Some i \<and>
     (\<exists>t. map_of (pu_timestamp p) topic = Some t \<and> (\<forall>k. now k - t \<le> pu_check_period_secs p))"

lemma push_ready:
  assumes "topic_ready now p topic n i" "0 \<le> i" "i < n"
  shows "\<exists>p'. push now p topic v = Inr p' \<and> topic_ready now p' topic n ((i + 1) mod n) \<and>
    (\<forall>t. lists (pu_client p') t = lists (pu_client p) t @
       (if t = partitioned_topic topic i then [Item v] else []))"
proof -
  from assms(1) obtain t where t: "map_of (pu_timestamp p) topic = Some t"
    "\<And>k. now k - t \<le> pu_check_period_secs p"
    by (auto simp: topic_ready_def)
  define p1 where "p1 = p\<lparr>pu_clock := Suc (pu_clock p),
      pu_partition_idx := AList.update topic ((i + 1) mod n) (pu_partition_idx p)\<rparr>"
  have push: "push now p topic v =
      Inr (push_with_retry now p1 (partitioned_topic topic i) v (pu_expiration_secs p))"
    using assms t
    by (simp add: push_def refresh_partitions_def topic_ready_def dlookup_def p1_def not_less
        split: if_splits) (meson not_less)?
  have ok: "client_ok (pu_client p1)" "rc_faults (pu_client p1) = []"
    using assms(1) by (simp_all add: p1_def topic_ready_def)
  obtain m where "m \<ge> 1"
    and a: "appended p1 (push_with_retry now p1 (partitioned_topic topic i) v (pu_expiration_secs p))
          (partitioned_topic topic i) v m"
    using push_with_retry_appends [OF ok(1)] by blast
  moreover from a ok(2) have "m \<le> 1" by (simp add: appended_def)
  ultimately have a: "appended p1 (push_with_retry now p1 (partitioned_topic topic i) v (pu_expiration_secs p))
          (partitioned_topic topic i) v 1"
    by (metis le_antisym)
  then show ?thesis
    unfolding push using assms(1) t ok(2)
    by (auto simp: appended_def topic_ready_def p1_def client_ok_def dict_simps)
qed

text \<open>while the number of partitions is not read again, pushed items go to the partitions in
  turn: each partition receives its share of the items, in order, and nothing else changes.\<close>

theorem push_round_robin:
  assumes "topic_ready now p topic n 0" "0 < n"
  shows "\<exists>p'. foldE (\<lambda>p v. push now p topic v) p xs = Inr p' \<and>
    (\<forall>i. 0 \<le> i \<and> i < n \<longrightarrow> lists (pu_client p') (partitioned_topic topic i) =
       lists (pu_client p) (partitioned_topic topic i) @ map Item (share n i xs)) \<and>
    (\<forall>t. (\<forall>i. 0 \<le> i \<and> i < n \<longrightarrow> t \<noteq> partitioned_topic topic i) \<longrightarrow>
       lists (pu_client p') t = lists (pu_client p) t)"
proof -
  let ?P = "\<lambda>ys p'. topic_ready now p' topic n (int (length ys) mod n) \<and>
    (\<forall>i. 0 \<le> i \<and> i < n \<longrightarrow> lists (pu_client p') (partitioned_topic topic i) =
       lists (pu_client p) (partitioned_topic topic i) @ map Item (share n i ys)) \<and>
    (\<forall>t. (\<forall>i. 0 \<le> i \<and> i < n \<longrightarrow> t \<noteq> partitioned_topic topic i) \<longrightarrow>
       lists (pu_client p') t = lists (pu_client p) t)"
  have "\<exists>p'. foldE (\<lambda>p v. push now p topic v) p xs = Inr p' \<and> ?P xs p'"
  proof (rule foldE_prefix_total [where P = ?P])
    show "?P [] p" using assms by simp
  next
    fix ys x zs q assume q: "?P ys q"
    have idx: "0 \<le> int (length ys) mod n" "int (length ys) mod n < n" using assms(2) by simp_all
    obtain q' where q': "push now q topic x = Inr q'"
      "topic_ready now q' topic n ((int (length ys) mod n + 1) mod n)"
      "\<forall>t. lists (pu_client q') t = lists (pu_client q) t @
         (if t = partitioned_topic topic (int (length ys) mod n) then [Item x] else [])"
      using push_ready [OF conjunct1 [OF q] idx] by blast
    have "(int (length ys) mod n + 1) mod n = int (length (ys @ [x])) mod n"
      by (simp add: mod_simps add.commute)
    with q' q idx show "\<exists>q'. push now q topic x = Inr q' \<and> ?P (ys @ [x]) q'"
      by (intro exI [of _ q']) (auto simp: share_snoc)
  qed
  then show ?thesis by blast
qed

text \<open>when the last reading is too old, or there was none, a push reads the number of
  partitions again and starts over at partition 0, so a change made by a puller is followed
  after the check period.\<close>

theorem push_follows_partition_count:
  assumes "client_ok (pu_client p)" "contents (pu_client p) topic = Some (PartitionCount n)" "n > 0"
    "case map_of (pu_timestamp p) topic of None \<Rightarrow> True
     | Some t \<Rightarrow> now (pu_clock p) - t > pu_check_period_secs p"
  shows "\<exists>p' m. push now p topic v = Inr p' \<and> map_of (pu_partitions p') topic = Some n \<and>
    map_of (pu_partition_idx p') topic = Some (1 mod n) \<and> m \<ge> 1 \<and>
    lists (pu_client p') (partitioned_topic topic 0) =
      lists (pu_client p) (partitioned_topic topic 0) @ replicate m (Item v)"
proof -
  obtain w c where g: "get_with_retry (pu_client p) topic = (w, c)" by force
  have w: "w = Some (PartitionCount n)" "rc_ops c = rc_ops (pu_client p)"
    using get_with_retry_spec [of "pu_client p" topic] g assms(2) by simp_all
  have st: "rc_store c = rc_store (pu_client p)"
    using get_with_retry_store [of "pu_client p" topic] g by simp
  obtain p1 where p1: "refresh_partitions now p topic = Inr p1" "pu_client p1 = c"
    "map_of (pu_partitions p1) topic = Some n" "map_of (pu_partition_idx p1) topic = Some 0"
    using assms(4) g w(1)
    by (cases "map_of (pu_timestamp p) topic")
      (auto simp: refresh_partitions_def get_topic_num_partitions_def dict_simps Let_def)
  define p2 where "p2 = p1\<lparr>pu_partition_idx := AList.update topic (1 mod n) (pu_partition_idx p1)\<rparr>"
  have push: "push now p topic v =
      Inr (push_with_retry now p2 (partitioned_topic topic 0) v (pu_expiration_secs p1))"
    using p1 assms(3) by (simp add: push_def dlookup_def p2_def)
  have "client_ok (pu_client p2)" using assms(1) w(2) p1(2) by (simp add: p2_def client_ok_def)
  from push_with_retry_appends [OF this] obtain m where m: "m \<ge> 1"
    "appended p2 (push_with_retry now p2 (partitioned_topic topic 0) v (pu_expiration_secs p1))
       (partitioned_topic topic 0) v m" by blast
  moreover have "lists (pu_client p2) t = lists (pu_client p) t" for t
    using st w(2) p1(2) by (simp add: lists_def p2_def)
  ultimately show ?thesis
    unfolding push using p1(3)
    by (intro exI [of _ "push_with_retry now p2 (partitioned_topic topic 0) v (pu_expiration_secs p1)"]
        exI [of _ m]) (simp add: appended_def p2_def dict_simps)
qed

subsection \<open>Concrete pushes\<close>

definition sample_queue_client ::
    "call_fate list \<Rightarrow> (nat queue_value sample_store, nat queue_value) redis_client" where
  "sample_queue_client faults =
     \<lparr>rc_ops = sample_redis, rc_store = ((\<lambda>_. None)(''t'' := Some (PartitionCount 2)), \<lambda>_. []),
      rc_faults = faults\<rparr>"

definition sample_pusher :: "call_fate list \<Rightarrow> (nat queue_value sample_store, nat) pusher" where
  "sample_pusher faults = new_pusher (sample_queue_client faults)"

definition sample_now :: "nat \<Rightarrow> rat" where
  "sample_now n = 0"

lemma sample_queue_client_ok [simp]: "client_ok (pu_client (sample_pusher faults))"
  by (simp add: sample_pusher_def new_pusher_def sample_queue_client_def client_ok_def)


theorem push_never_sets_expiration_witness:
  "pu_expiration (push_with_retry sample_now (sample_pusher [Lost, ReplyLost]) ''t_0'' 5 3600) = []"
proof -
  have "map_of (pu_expiration (sample_pusher [Lost, ReplyLost])) ''t_0'' = None"
    "\<forall>n. sample_now (Suc n) - sample_now n \<le>
       of_int (pu_expiration_secs (sample_pusher [Lost, ReplyLost])) / 2"
    by (simp_all add: sample_pusher_def new_pusher_def sample_now_def)
  from push_never_sets_expiration [OF this] show ?thesis
    by (simp add: sample_pusher_def new_pusher_def)
qed

definition sample_ready :: "(nat queue_value sample_store, nat) pusher" where
  "sample_ready = (sample_pusher [])\<lparr>pu_partitions := [(''t'', 2)], pu_partition_idx := [(''t'', 0)],
     pu_timestamp := [(''t'', 0)]\<rparr>"

theorem push_round_robin_witness:
  "\<exists>p'. foldE (\<lambda>p v. push sample_now p ''t'' v) sample_ready [1, 2, 3] = Inr p' \<and>
     lists (pu_client p') (partitioned_topic ''t'' 0) = [Item 1, Item 3] \<and>
     lists (pu_client p') (partitioned_topic ''t'' 1) = [Item 2]"
proof -
  have "topic_ready sample_now sample_ready ''t'' 2 0"
    by (simp add: topic_ready_def sample_ready_def sample_pusher_def new_pusher_def
        sample_queue_client_def client_ok_def sample_now_def)
  moreover have "share 2 0 [1, 2, 3] = [1, 3 :: nat]" "share 2 1 [1, 2, 3] = [2 :: nat]"
    by (simp_all add: share_def)
  moreover have "lists (pu_client sample_ready) t = []" for t
    by (simp add: sample_ready_def sample_pusher_def new_pusher_def sample_queue_client_def
        lists_def sample_redis_def)
  ultimately show ?thesis
    using push_round_robin [of sample_now sample_ready "''t''" 2 "[1, 2, 3]"] by fastforce
qed

theorem push_follows_partition_count_witness:
  "\<exists>p' m. push sample_now (sample_pusher [Lost, Lost]) ''t'' 9 = Inr p' \<and>
     map_of (pu_partitions p') ''t'' = Some 2 \<and> m \<ge> 1 \<and>
     lists (pu_client p') (partitioned_topic ''t'' 0) = replicate m (Item 9)"
proof -
  have "contents (pu_client (sample_pusher [Lost, Lost])) ''t'' = Some (PartitionCount 2)"
    "lists (pu_client (sample_pusher [Lost, Lost])) (partitioned_topic ''t'' 0) = []"
    "map_of (pu_timestamp (sample_pusher [Lost, Lost])) ''t'' = None"
    by (simp_all add: sample_pusher_def new_pusher_def sample_queue_client_def contents_def
        lists_def sample_redis_def)
  then show ?thesis
    using push_follows_partition_count [of "sample_pusher [Lost, Lost]" "''t''" 2 sample_now 9]
    by auto
qed

end
