(* ===== verification/Nxs_Puller.thy ===== *)
theory Nxs_Puller
  imports Nxs_Queue_Props
begin

section \<open>The queue puller: concurrent readers\<close>

text \<open>
  \<open>NxsRedisQueuePuller\<close> has one reader thread per partition, a monitor thread that follows the
  number of partitions, and the thread that calls \<open>pull\<close>; producers push to the server at the
  same time. The model is a step relation whose steps interleave freely. A reader's loop
  body is not atomic: it checks the size of the buffer (\<open>Polling\<close> to \<open>Popping\<close>), pops
  (\<open>Popping\<close> to \<open>Holding\<close>), and appends. A pop can fail before or after the server executed it.

  The fields from \<open>pl_pushed\<close> on record history; no step reads them.
\<close>

subsection \<open>State\<close>

datatype 'v reader = Polling | Popping | Holding 'v

text \<open>
  An element of the buffer is kept with the index of the reader that appended it; \<open>pull\<close>
  returns only the data. \<open>pl_scaling\<close> is the number of reader threads the monitor has still to
  add (positive) or to remove (negative).
\<close>

record ('r, 'v) puller =
  pl_server :: 'r
  pl_readers :: "'v reader list"
  pl_alive :: "bool list"
  pl_buf :: "(nat \<times> 'v) list"
  pl_buf_size :: nat
  pl_num_partitions :: nat
  pl_scaling :: int
  pl_monitor_alive :: bool
  pl_pushed :: "nat \<Rightarrow> 'v list"
  pl_taken :: "nat \<Rightarrow> 'v list"
  pl_delivered :: "(nat \<times> 'v) list"
  pl_lost :: nat

definition reader_topic :: "string \<Rightarrow> nat \<Rightarrow> string" where
  "reader_topic topic i = partitioned_topic topic (int i)"

definition new_puller :: "('r, 'v) redis_ops \<Rightarrow> string \<Rightarrow> nat \<Rightarrow> 'r \<Rightarrow> ('r, 'v) puller" where
  "new_puller R topic n r = \<lparr>pl_server = r, pl_readers = replicate n Polling,
     pl_alive = replicate n True, pl_buf = [], pl_buf_size = 1, pl_num_partitions = n,
     pl_scaling = 0, pl_monitor_alive = True,
     pl_pushed = (\<lambda>i. r_list R r (reader_topic topic i)), pl_taken = (\<lambda>_. []),
     pl_delivered = [], pl_lost = 0\<rparr>"

subsection \<open>Steps\<close>

text \<open>
  \<open>pull\<close>: everything that is in the buffer, in order. Its loop pops as many elements as it
  found at its start; readers only append, so it acts as one step at its start.
\<close>

definition pull :: "('r, 'v) puller \<Rightarrow> 'v list \<times> ('r, 'v) puller" where
  "pull s = (map snd (pl_buf s),
     s\<lparr>pl_buf := [], pl_delivered := pl_delivered s @ pl_buf s\<rparr>)"

definition update_buf_size :: "('r, 'v) puller \<Rightarrow> nat \<Rightarrow> ('r, 'v) puller result" where
  "update_buf_size s n = (if n > 0 then Inr (s\<lparr>pl_buf_size := n\<rparr>) else Inl AssertionError)"

definition set_buf_size :: "('r, 'v) puller \<Rightarrow> int \<Rightarrow> ('r, 'v) puller result" where
  "set_buf_size s n = (if n > 0 then update_buf_size s (nat n) else Inr s)"

definition stop_all :: "('r, 'v) puller \<Rightarrow> ('r, 'v) puller" where
  "stop_all s = s\<lparr>pl_buf_size := 0, pl_monitor_alive := False,
     pl_alive := map (\<lambda>_. False) (pl_alive s)\<rparr>"

text \<open>All threads have left their loops: \<open>pull_buffered_and_close\<close> has joined them.\<close>

definition all_joined :: "('r, 'v) puller \<Rightarrow> bool" where
  "all_joined s \<longleftrightarrow> \<not> pl_monitor_alive s \<and> pl_scaling s = 0 \<and>
     list_all2 (\<lambda>t alive. t = Polling \<and> \<not> alive) (pl_readers s) (pl_alive s)"

definition put_reader :: "('r, 'v) puller \<Rightarrow> nat \<Rightarrow> 'v reader \<Rightarrow> ('r, 'v) puller" where
  "put_reader s i t = s\<lparr>pl_readers := (pl_readers s)[i := t]\<rparr>"

inductive puller_step ::
    "('r, 'v) redis_ops \<Rightarrow> string \<Rightarrow> ('r, 'v) puller \<Rightarrow> ('r, 'v) puller \<Rightarrow> bool"
  for R :: "('r, 'v) redis_ops" and topic :: string where
  producer: "puller_step R topic s
     (s\<lparr>pl_server := r_rpush R (pl_server s) (reader_topic topic i) v,
        pl_pushed := (pl_pushed s)(i := pl_pushed s i @ [v])\<rparr>)"
| check: "i < length (pl_readers s) \<Longrightarrow> pl_readers s ! i = Polling \<Longrightarrow> pl_alive s ! i \<Longrightarrow>
     length (pl_buf s) < pl_buf_size s \<Longrightarrow> puller_step R topic s (put_reader s i Popping)"
| pop: "i < length (pl_readers s) \<Longrightarrow> pl_readers s ! i = Popping \<Longrightarrow>
     r_lpop R (pl_server s) (reader_topic topic i) = (Some v, r') \<Longrightarrow>
     puller_step R topic s ((put_reader s i (Holding v))\<lparr>pl_server := r',
       pl_taken := (pl_taken s)(i := pl_taken s i @ [v])\<rparr>)"
| pop_timeout: "i < length (pl_readers s) \<Longrightarrow> pl_readers s ! i = Popping \<Longrightarrow>
     r_lpop R (pl_server s) (reader_topic topic i) = (None, r') \<Longrightarrow>
     puller_step R topic s ((put_reader s i Polling)\<lparr>pl_server := r'\<rparr>)"
| pop_fails: "i < length (pl_readers s) \<Longrightarrow> pl_readers s ! i = Popping \<Longrightarrow>
     puller_step R topic s (put_reader s i Polling)"
| pop_reply_lost: "i < length (pl_readers s) \<Longrightarrow> pl_readers s ! i = Popping \<Longrightarrow>
     r_lpop R (pl_server s) (reader_topic topic i) = (Some v, r') \<Longrightarrow>
     puller_step R topic s ((put_reader s i Polling)\<lparr>pl_server := r',
       pl_taken := (pl_taken s)(i := pl_taken s i @ [v]), pl_lost := Suc (pl_lost s)\<rparr>)"
| append: "i < length (pl_readers s) \<Longrightarrow> pl_readers s ! i = Holding v \<Longrightarrow>
     puller_step R topic s ((put_reader s i Polling)\<lparr>pl_buf := pl_buf s @ [(i, v)]\<rparr>)"
| caller_pulls: "pull s = (vs, s') \<Longrightarrow> puller_step R topic s s'"
| caller_resizes: "set_buf_size s n = Inr s' \<Longrightarrow> puller_step R topic s s'"
| caller_stops: "puller_step R topic s (stop_all s)"
| monitor_reads: "pl_monitor_alive s \<Longrightarrow> pl_scaling s = 0 \<Longrightarrow>
     puller_step R topic s (s\<lparr>pl_scaling := int n - int (pl_num_partitions s),
       pl_num_partitions := n\<rparr>)"
| monitor_adds: "pl_scaling s > 0 \<Longrightarrow>
     puller_step R topic s (s\<lparr>pl_readers := pl_readers s @ [Polling],
       pl_alive := pl_alive s @ [True], pl_scaling := pl_scaling s - 1\<rparr>)"
| monitor_flags: "pl_scaling s < 0 \<Longrightarrow> pl_alive s \<noteq> [] \<Longrightarrow>
     puller_step R topic s (s\<lparr>pl_alive := butlast (pl_alive s) @ [False]\<rparr>)"
| monitor_joins: "pl_scaling s < 0 \<Longrightarrow> pl_alive s \<noteq> [] \<Longrightarrow> \<not> last (pl_alive s) \<Longrightarrow>
     pl_readers s \<noteq> [] \<Longrightarrow> last (pl_readers s) = Polling \<Longrightarrow>
     puller_step R topic s (s\<lparr>pl_readers := butlast (pl_readers s),
       pl_alive := butlast (pl_alive s), pl_scaling := pl_scaling s + 1\<rparr>)"

inductive_cases puller_stepE: "puller_step R topic s s'"

inductive puller_reach ::
    "('r, 'v) redis_ops \<Rightarrow> string \<Rightarrow> ('r, 'v) puller \<Rightarrow> ('r, 'v) puller \<Rightarrow> bool"
  for R :: "('r, 'v) redis_ops" and topic :: string and s0 :: "('r, 'v) puller" where
  start: "puller_reach R topic s0 s0"
| more: "puller_reach R topic s0 s \<Longrightarrow> puller_step R topic s s' \<Longrightarrow> puller_reach R topic s0 s'"

subsection \<open>The history invariant\<close>

text \<open>What reader \<open>i\<close> has popped but not appended, and what of partition \<open>i\<close> is in a list.\<close>

definition in_flight :: "('r, 'v) puller \<Rightarrow> nat \<Rightarrow> 'v list" where
  "in_flight s i = (if i < length (pl_readers s)
     then (case pl_readers s ! i of Holding v \<Rightarrow> [v] | _ \<Rightarrow> []) else [])"

definition from_partition :: "nat \<Rightarrow> (nat \<times> 'v) list \<Rightarrow> 'v list" where
  "from_partition i xs = map snd (filter (\<lambda>(j, v). j = i) xs)"

lemma from_partition_simps [simp]:
  "from_partition i [] = []"
  "from_partition i (xs @ ys) = from_partition i xs @ from_partition i ys"
  "from_partition i [(j, v)] = (if j = i then [v] else [])"
  by (simp_all add: from_partition_def)

text \<open>
  Everything pushed was either taken from the server, in order, or is still there; everything
  taken was delivered, is in the buffer, or is held by its reader, in this order, except what
  was lost.
\<close>

definition kept :: "('r, 'v) puller \<Rightarrow> nat \<Rightarrow> 'v list" where
  "kept s i = from_partition i (pl_delivered s) @ from_partition i (pl_buf s) @ in_flight s i"

definition puller_inv :: "('r, 'v) redis_ops \<Rightarrow> string \<Rightarrow> ('r, 'v) puller \<Rightarrow> bool" where
  "puller_inv R topic s \<longleftrightarrow>
     length (pl_alive s) = length (pl_readers s) \<and>
     (\<forall>i. pl_pushed s i = pl_taken s i @ r_list R (pl_server s) (reader_topic topic i)) \<and>
     (\<forall>i. subseq (kept s i) (pl_taken s i)) \<and>
     (pl_lost s = 0 \<longrightarrow> (\<forall>i. kept s i = pl_taken s i))"

lemma reader_topic_inject [simp]: "reader_topic t i = reader_topic t j \<longleftrightarrow> i = j"
  by (simp add: reader_topic_def)

lemma in_flight_put [simp]:
  "i < length (pl_readers s) \<Longrightarrow> in_flight (put_reader s i t) j =
     (if j = i then (case t of Holding v \<Rightarrow> [v] | _ \<Rightarrow> []) else in_flight s j)"
  by (simp add: in_flight_def put_reader_def)

lemma in_flight_cong: "pl_readers s' = pl_readers s \<Longrightarrow> in_flight s' i = in_flight s i"
  by (simp add: in_flight_def)

lemma put_reader_fields [simp]:
  "pl_server (put_reader s i t) = pl_server s" "pl_alive (put_reader s i t) = pl_alive s"
  "pl_buf (put_reader s i t) = pl_buf s" "pl_pushed (put_reader s i t) = pl_pushed s"
  "pl_taken (put_reader s i t) = pl_taken s" "pl_delivered (put_reader s i t) = pl_delivered s"
  "pl_lost (put_reader s i t) = pl_lost s" "pl_buf_size (put_reader s i t) = pl_buf_size s"
  "length (pl_readers (put_reader s i t)) = length (pl_readers s)"
  by (simp_all add: put_reader_def)

lemma puller_inv_new: "puller_inv R topic (new_puller R topic n r)"
  by (simp add: puller_inv_def new_puller_def kept_def in_flight_def)

lemma kept_cong:
  assumes "pl_delivered s' = pl_delivered s" "pl_buf s' = pl_buf s" "in_flight s' i = in_flight s i"
  shows "kept s' i = kept s i"
  using assms by (simp add: kept_def)

lemma kept_same:
  assumes "pl_delivered s' = pl_delivered s" "pl_buf s' = pl_buf s" "pl_readers s' = pl_readers s"
  shows "kept s' i = kept s i"
  using assms by (simp add: kept_def in_flight_def)

lemma in_flight_Holding:
  "i < length (pl_readers s) \<Longrightarrow> pl_readers s ! i = Holding v \<Longrightarrow> in_flight s i = [v]"
  by (simp add: in_flight_def)

lemma in_flight_idle:
  "i < length (pl_readers s) \<Longrightarrow> \<forall>v. pl_readers s ! i \<noteq> Holding v \<Longrightarrow> in_flight s i = []"
  by (auto simp: in_flight_def split: reader.splits)

text \<open>Steps that move no item between the server, the readers and the lists.\<close>

definition no_move :: "('r, 'v) puller \<Rightarrow> ('r, 'v) puller \<Rightarrow> bool" where
  "no_move s s' \<longleftrightarrow> pl_server s' = pl_server s \<and> pl_pushed s' = pl_pushed s \<and>
     pl_taken s' = pl_taken s \<and> pl_lost s' = pl_lost s \<and>
     (length (pl_alive s) = length (pl_readers s) \<longrightarrow>
        length (pl_alive s') = length (pl_readers s')) \<and>
     (\<forall>i. kept s' i = kept s i)"

lemma no_move_inv: "no_move s s' \<Longrightarrow> puller_inv R topic s \<Longrightarrow> puller_inv R topic s'"
  by (simp add: no_move_def puller_inv_def)

text \<open>A pop: the item goes from the server to the reader, or is lost.\<close>

lemma puller_inv_pop:
  assumes inv: "puller_inv R topic s" and R: "redis_ok R"
    and i: "i < length (pl_readers s)" "pl_readers s ! i = Popping"
    and pop: "r_lpop R (pl_server s) (reader_topic topic i) = (Some v, r')"
  shows "puller_inv R topic ((put_reader s i (Holding v))\<lparr>pl_server := r',
      pl_taken := (pl_taken s)(i := pl_taken s i @ [v])\<rparr>)" (is "puller_inv R topic ?h")
    and "puller_inv R topic ((put_reader s i Polling)\<lparr>pl_server := r',
      pl_taken := (pl_taken s)(i := pl_taken s i @ [v]), pl_lost := Suc (pl_lost s)\<rparr>)"
      (is "puller_inv R topic ?l")
proof -
  have flight: "in_flight s i = []" using i by (intro in_flight_idle) auto
  have srv: "r_list R (pl_server s) (reader_topic topic i) = v # r_list R r' (reader_topic topic i)"
    using redis_laws(8,9) [OF R, of "pl_server s" "reader_topic topic i"] pop
    by (auto split: list.splits)
  have other: "r_list R r' (reader_topic topic j) = r_list R (pl_server s) (reader_topic topic j)"
    if "j \<noteq> i" for j
    using redis_laws(9) [OF R, of "pl_server s" "reader_topic topic i" "reader_topic topic j"] pop that
    by simp
  have kh: "kept ?h j = (if j = i then kept s i @ [v] else kept s j)" for j
    using i flight in_flight_cong [of ?h "put_reader s i (Holding v)"] by (simp add: kept_def)
  have kl: "kept ?l j = kept s j" for j
    using i flight in_flight_cong [of ?l "put_reader s i Polling"] by (simp add: kept_def)
  show "puller_inv R topic ?h"
    using inv srv other by (auto simp: puller_inv_def kh)
  show "puller_inv R topic ?l"
    using inv srv other by (auto simp: puller_inv_def kl)
qed

lemma puller_inv_step:
  assumes "puller_step R topic s s'" "redis_ok R" "puller_inv R topic s"
  shows "puller_inv R topic s'"
  using assms
proof (induction rule: puller_step.induct)
  case (producer s i v)
  let ?s' = "s\<lparr>pl_server := r_rpush R (pl_server s) (reader_topic topic i) v,
      pl_pushed := (pl_pushed s)(i := pl_pushed s i @ [v])\<rparr>"
  have "kept ?s' j = kept s j" for j by (rule kept_same) simp_all
  with producer show ?case by (simp add: puller_inv_def redis_laws(5))
next
  case (check i s)
  then have "in_flight s i = []" by (intro in_flight_idle) auto
  with check(1) have "no_move s (put_reader s i Popping)" by (simp add: no_move_def kept_def)
  then show ?case using check.prems no_move_inv by blast
next
  case (pop i s v r')
  then show ?case by (intro puller_inv_pop)
next
  case (pop_timeout i s r')
  let ?s' = "(put_reader s i Polling)\<lparr>pl_server := r'\<rparr>"
  have "in_flight s i = []" using pop_timeout by (intro in_flight_idle) auto
  then have "kept ?s' j = kept s j" for j
    using pop_timeout(1) in_flight_cong [of ?s' "put_reader s i Polling"] by (simp add: kept_def)
  moreover have "r_list R r' (reader_topic topic j) = r_list R (pl_server s) (reader_topic topic j)" for j
    using redis_laws(8,9) [OF pop_timeout(4), of "pl_server s" "reader_topic topic i"] pop_timeout(3)
    by (auto split: list.splits)
  ultimately show ?case using pop_timeout.prems(2) by (simp add: puller_inv_def)
next
  case (pop_fails i s)
  then have "in_flight s i = []" by (intro in_flight_idle) auto
  with pop_fails(1) have "no_move s (put_reader s i Polling)" by (simp add: no_move_def kept_def)
  then show ?case using pop_fails.prems no_move_inv by blast
next
  case (pop_reply_lost i s v r')
  then show ?case by (intro puller_inv_pop)
next
  case (append i s v)
  let ?s' = "(put_reader s i Polling)\<lparr>pl_buf := pl_buf s @ [(i, v)]\<rparr>"
  have "in_flight s i = [v]" using append by (intro in_flight_Holding)
  with append(1) have "no_move s ?s'"
    using in_flight_cong [of ?s' "put_reader s i Polling"] by (simp add: no_move_def kept_def)
  then show ?case using append.prems no_move_inv by blast
next
  case (caller_pulls s vs s')
  then have "no_move s s'"
    by (auto simp: no_move_def kept_def pull_def in_flight_def)
  then show ?case using caller_pulls.prems no_move_inv by blast
next
  case (caller_resizes s n s')
  then have "no_move s s'"
    by (auto simp: no_move_def set_buf_size_def update_buf_size_def split: if_splits intro!: kept_same)
  then show ?case using caller_resizes.prems no_move_inv by blast
next
  case (caller_stops s)
  have "no_move s (stop_all s)" by (auto simp: no_move_def stop_all_def intro!: kept_same)
  then show ?case using caller_stops.prems no_move_inv by blast
next
  case (monitor_reads s n)
  have "no_move s (s\<lparr>pl_scaling := int n - int (pl_num_partitions s), pl_num_partitions := n\<rparr>)"
    by (auto simp: no_move_def intro!: kept_same)
  then show ?case using monitor_reads.prems no_move_inv by blast
next
  case (monitor_adds s)
  have "no_move s (s\<lparr>pl_readers := pl_readers s @ [Polling], pl_alive := pl_alive s @ [True],
      pl_scaling := pl_scaling s - 1\<rparr>)"
    by (simp add: no_move_def kept_def in_flight_def nth_append)
  then show ?case using monitor_adds.prems no_move_inv by blast
next
  case (monitor_flags s)
  then have "no_move s (s\<lparr>pl_alive := butlast (pl_alive s) @ [False]\<rparr>)"
    by (cases "pl_alive s" rule: rev_cases) (auto simp: no_move_def intro!: kept_same)
  then show ?case using monitor_flags.prems no_move_inv by blast
next
  case (monitor_joins s)
  have "in_flight (s\<lparr>pl_readers := butlast (pl_readers s), pl_alive := butlast (pl_alive s),
      pl_scaling := pl_scaling s + 1\<rparr>) i = in_flight s i" for i
    using monitor_joins(4,5)
    by (cases "pl_readers s" rule: rev_cases)
      (auto simp: in_flight_def nth_append split: reader.splits)
  then have "no_move s (s\<lparr>pl_readers := butlast (pl_readers s), pl_alive := butlast (pl_alive s),
      pl_scaling := pl_scaling s + 1\<rparr>)"
    by (simp add: no_move_def kept_def)
  then show ?case using monitor_joins.prems no_move_inv by blast
qed

lemma puller_inv_reach:
  assumes "puller_reach R topic s0 s" "redis_ok R" "puller_inv R topic s0"
  shows "puller_inv R topic s"
  using assms by (induction rule: puller_reach.induct) (auto intro: puller_inv_step)

subsection \<open>Properties\<close>

text \<open>C11: in every state that any interleaving of producers, readers, the monitor and the caller
  can reach, each partition is read in order and without duplicates: what \<open>pull\<close> has
  returned, followed by what is buffered and what a reader holds, is the beginning of what
  was pushed, as long as no reply of the server got lost; otherwise it is a subsequence of
  it. Changing the number of readers loses nothing.\<close>

theorem puller_fifo:
  assumes "redis_ok R" "puller_reach R topic (new_puller R topic n r) s"
  shows "subseq (kept s i) (pl_pushed s i) \<and>
    (pl_lost s = 0 \<longrightarrow>
       pl_pushed s i = kept s i @ r_list R (pl_server s) (reader_topic topic i))"
proof -
  have "puller_inv R topic s"
    by (rule puller_inv_reach [OF assms(2,1) puller_inv_new])
  then have "pl_pushed s i = pl_taken s i @ r_list R (pl_server s) (reader_topic topic i)"
    "subseq (kept s i) (pl_taken s i)" "pl_lost s = 0 \<Longrightarrow> kept s i = pl_taken s i"
    by (simp_all add: puller_inv_def)
  moreover from this have "subseq (kept s i) (pl_pushed s i)"
    by (metis append_Nil2 list_emb_append_mono list_emb_Nil)
  ultimately show ?thesis by simp
qed


subsection \<open>A run\<close>

text \<open>One reader takes one of two items; then the caller closes the puller.\<close>

definition sample_server :: "nat sample_store" where
  "sample_server = (\<lambda>_. None, (\<lambda>_. [])(reader_topic ''t'' 0 := [7, 8]))"

lemma sample_pop:
  "r_lpop sample_redis sample_server (reader_topic ''t'' 0) =
     (Some 7, (\<lambda>_. None, (\<lambda>_. [])(reader_topic ''t'' 0 := [8])))"
  by (simp add: sample_redis_def sample_server_def)

definition sample_puller :: "(nat sample_store, nat) puller" where
  "sample_puller = new_puller sample_redis ''t'' 1 sample_server"

definition sample_popped :: "(nat sample_store, nat) puller" where
  "sample_popped = (put_reader (put_reader sample_puller 0 Popping) 0 (Holding 7))
     \<lparr>pl_server := (\<lambda>_. None, (\<lambda>_. [])(reader_topic ''t'' 0 := [8])),
      pl_taken := (\<lambda>_. [])(0 := [7])\<rparr>"

definition sample_closed :: "(nat sample_store, nat) puller" where
  "sample_closed = stop_all ((put_reader sample_popped 0 Polling)\<lparr>pl_buf := [(0, 7)]\<rparr>)"

lemma sample_reaches:
  "puller_reach sample_redis ''t'' sample_puller sample_popped"
  "puller_reach sample_redis ''t'' sample_puller sample_closed"
proof -
  let ?s1 = "put_reader sample_puller 0 Popping"
  let ?s3 = "(put_reader sample_popped 0 Polling)\<lparr>pl_buf := [(0, 7)]\<rparr>"
  have "puller_step sample_redis ''t'' sample_puller ?s1"
    by (rule check) (simp_all add: sample_puller_def new_puller_def)
  then have 1: "puller_reach sample_redis ''t'' sample_puller ?s1" by (rule more [OF start])
  have "puller_step sample_redis ''t'' ?s1 sample_popped"
    using pop [of 0 ?s1 sample_redis "''t''" 7 "(\<lambda>_. None, (\<lambda>_. [])(reader_topic ''t'' 0 := [8]))"]
    by (simp add: sample_popped_def sample_puller_def new_puller_def put_reader_def sample_pop)
  with 1 show 2: "puller_reach sample_redis ''t'' sample_puller sample_popped" by (rule more)
  have "puller_step sample_redis ''t'' sample_popped ?s3"
    using append [of 0 sample_popped 7 sample_redis "''t''"]
    by (simp add: sample_popped_def sample_puller_def new_puller_def put_reader_def)
  with 2 have 3: "puller_reach sample_redis ''t'' sample_puller ?s3" by (rule more)
  have "puller_step sample_redis ''t'' ?s3 sample_closed"
    unfolding sample_closed_def by (rule caller_stops)
  with 3 show "puller_reach sample_redis ''t'' sample_puller sample_closed" by (rule more)
qed

theorem puller_fifo_witness:
  "kept sample_popped 0 = [7] \<and>
   pl_pushed sample_popped 0 = kept sample_popped 0 @
     r_list sample_redis (pl_server sample_popped) (reader_topic ''t'' 0)"
proof -
  have "pl_lost sample_popped = 0" "kept sample_popped 0 = [7]"
    by (simp_all add: sample_popped_def sample_puller_def new_puller_def kept_def in_flight_def
        put_reader_def)
  with puller_fifo [OF sample_redis_ok sample_reaches(1) [unfolded sample_puller_def], of 0]
  show ?thesis by simp
qed


end
