(* ===== verification/Nxs_Value.thy ===== *)
theory Nxs_Value
  imports Nxs_Workload
begin

section \<open>Dynamic values, requests and the metadata of a task\<close>

text \<open>
  Inside a backend a request travels through a chain of processes together with dictionaries
  whose contents the users' functions decide. Such values are \<open>py_value\<close>; a dictionary of
  them keeps its order (\<open>pydict\<close>). A pickled object is the object itself, marked, so that
  bytes from elsewhere are told apart. \<open>json\<close>, the conversions of pydantic and the texts of
  exceptions are parameters, in the record \<open>backend_env\<close>, with the clock.
\<close>

subsection \<open>Values\<close>

datatype py_value =
    PyNone
  | PyBool bool
  | PyInt int
  | PyFloat rat
  | PyStr string
  | PyBytes string
  | PyList "py_value list"
  | PyDict "(py_value \<times> py_value) list"

type_synonym pydict = "(py_value, py_value) dict"

datatype py_bytes = Pickled py_value | RawBytes string

fun pickle_loads :: "py_bytes \<Rightarrow> py_value result" where
  "pickle_loads (Pickled v) = Inr v"
| "pickle_loads (RawBytes _) = Inl (Raised ''UnpicklingError'')"

text \<open>\<open>for k in v\<close> and \<open>v[k]\<close>. Negative indices count from the end.\<close>

fun py_iter :: "py_value \<Rightarrow> py_value list result" where
  "py_iter (PyList xs) = Inr xs"
| "py_iter (PyDict d) = Inr (dkeys d)"
| "py_iter (PyStr s) = Inr (map (\<lambda>c. PyStr [c]) s)"
| "py_iter (PyBytes s) = Inr (map (\<lambda>c. PyInt (of_char c)) s)"
| "py_iter _ = Inl TypeError"

definition seq_index :: "'a list \<Rightarrow> int \<Rightarrow> 'a result" where
  "seq_index xs i =
     (if 0 \<le> i \<and> i < int (length xs) then Inr (xs ! nat i)
      else if - int (length xs) \<le> i \<and> i < 0 then Inr (xs ! nat (int (length xs) + i))
      else Inl IndexError)"

fun py_as_index :: "py_value \<Rightarrow> int result" where
  "py_as_index (PyInt i) = Inr i"
| "py_as_index (PyBool b) = Inr (of_bool b)"
| "py_as_index _ = Inl TypeError"

fun hashable :: "py_value \<Rightarrow> bool" where
  "hashable (PyList _) = False"
| "hashable (PyDict _) = False"
| "hashable _ = True"

fun py_getitem :: "py_value \<Rightarrow> py_value \<Rightarrow> py_value result" where
  "py_getitem (PyDict d) k = (if hashable k then dlookup d k else Inl TypeError)"
| "py_getitem (PyList xs) k = bindE (py_as_index k) (seq_index xs)"
| "py_getitem (PyStr s) k = bindE (py_as_index k) (\<lambda>i. bindE (seq_index s i) (\<lambda>c. Inr (PyStr [c])))"
| "py_getitem (PyBytes s) k =
     bindE (py_as_index k) (\<lambda>i. bindE (seq_index s i) (\<lambda>c. Inr (PyInt (of_char c))))"
| "py_getitem _ _ = Inl TypeError"

fun py_number :: "py_value \<Rightarrow> rat result" where
  "py_number (PyFloat x) = Inr x"
| "py_number (PyInt i) = Inr (of_int i)"
| "py_number (PyBool b) = Inr (of_bool b)"
| "py_number _ = Inl TypeError"

text \<open>The loop that copies the entries of \<open>u\<close> into a dictionary: \<open>for k in u: d[k] = u[k]\<close>.\<close>

definition copy_entries :: "pydict \<Rightarrow> py_value \<Rightarrow> pydict result" where
  "copy_entries d u =
     bindE (py_iter u) (foldE (\<lambda>d k. bindE (py_getitem u k) (\<lambda>v. Inr (AList.update k v d))) d)"

subsection \<open>\<open>nxs_types/infer.py\<close> and \<open>nxs_types/infer_result.py\<close>\<close>

datatype infer_input_type = IT_NUMPY_TENSOR | IT_ENCODED_IMAGE | IT_PICKLED_DATA

datatype infer_status = PENDING | PROCESSING | FAILED | COMPLETED

record infer_input =
  ii_name :: string
  ii_type :: infer_input_type
  ii_data :: py_bytes

record infer_request_metadata =
  rm_task_uuid :: string
  rm_session_uuid :: string
  rm_extra_preproc_params :: "string option"
  rm_extra_transform_params :: "string option"
  rm_extra_postproc_params :: "string option"
  rm_exec_pipelines :: "string list"
  rm_extra_params :: "py_bytes option"
  rm_carry_over_extras :: "py_bytes option"

record infer_request = infer_request_metadata +
  rq_inputs :: "infer_input list"
  rq_status :: infer_status

datatype infer_result_type =
  RT_CLASSIFICATION | RT_DETECTION | RT_OCR | RT_CUSTOM | RT_EMBEDDING | RT_SPEECH_TRANSCRIPTION

text \<open>
  The optional fields of \<open>NxsInferResult\<close> as one payload. The values inside are instances of
  the classes \<open>NxsInferDetectorResult\<close> and so on, as pydantic has validated them.
\<close>

datatype result_payload =
    Detections "py_value list"
  | Classification py_value
  | Ocr "py_value list"
  | Embedding py_value int
  | Transcription py_value
  | Custom string

record infer_result =
  ir_type :: infer_result_type
  ir_status :: infer_status
  ir_task_uuid :: string
  ir_error_msgs :: "string list"
  ir_payload :: result_payload
  ir_e2e_latency :: rat
  ir_metadata :: "py_bytes option"

subsection \<open>What a backend process uses of other software\<close>

text \<open>
  \<open>be_validate c v\<close> is the instance of class \<open>c\<close> built from the dictionary \<open>v\<close>, or the
  \<open>ValidationError\<close>; \<open>be_str_field\<close> is the conversion of a value given to a field of type
  \<open>str\<close>; \<open>be_decode_image\<close> is \<open>cv2.imdecode\<close> with the check that follows it; \<open>be_pickle\<close> are
  the bytes that \<open>pickle.dumps\<close> returns, for the code that passes them on as they are.
\<close>

record backend_env =
  be_now :: clock
  be_json_loads :: "string \<Rightarrow> py_value result"
  be_json_dumps :: "py_value \<Rightarrow> string result"
  be_validate :: "string \<Rightarrow> py_value \<Rightarrow> py_value result"
  be_str_field :: "py_value \<Rightarrow> string result"
  be_decode_image :: "string \<Rightarrow> py_value result"
  be_exn_text :: "py_error \<Rightarrow> string"
  be_pickle :: "py_value \<Rightarrow> string"

fun raw_bytes :: "backend_env \<Rightarrow> py_bytes \<Rightarrow> string" where
  "raw_bytes E (RawBytes s) = s"
| "raw_bytes E (Pickled v) = be_pickle E v"

text \<open>\<open>json.loads\<close> of an optional text, as the code calls it under \<open>try\<close>: None raises too.\<close>

definition loads_params :: "backend_env \<Rightarrow> string option \<Rightarrow> py_value" where
  "loads_params E t =
     (case t of None \<Rightarrow> PyDict []
      | Some s \<Rightarrow> (case be_json_loads E s of Inl _ \<Rightarrow> PyDict [] | Inr v \<Rightarrow> v))"

subsection \<open>The metadata of a task\<close>

text \<open>
  The dictionary \<open>metadata\<close> that accompanies the data between the processes. Its keys are those
  of \<open>NXS_BACKEND_CONFIG\<close> and \<open>BACKEND_INTERNAL_CONFIG\<close>; a key that may be missing is an
  option. What the users' functions add is in \<open>tm_others\<close>.
\<close>

record task_metadata =
  tm_user :: infer_request_metadata
  tm_extra :: pydict
  tm_status :: "infer_status option"
  tm_error_msgs :: "string list option"
  tm_skip_compute :: "bool option"
  tm_skip_result :: "py_value option"
  tm_forward_inputs :: "py_value list option"
  tm_others :: pydict

text \<open>\<open>metadata.get(TASK_STATUS, PROCESSING)\<close> and \<open>metadata.get(TASK_ERROR_MSGS, [])\<close>.\<close>

definition task_status :: "task_metadata \<Rightarrow> infer_status" where
  "task_status m = (case tm_status m of None \<Rightarrow> PROCESSING | Some s \<Rightarrow> s)"

definition task_errors :: "task_metadata \<Rightarrow> string list" where
  "task_errors m = (case tm_error_msgs m of None \<Rightarrow> [] | Some e \<Rightarrow> e)"

text \<open>A text between single quotes, as the error messages have it.\<close>

definition quoted :: "string \<Rightarrow> string" where
  "quoted s = CHR 0x27 # s @ [CHR 0x27]"

text \<open>What every process does with a failure: status and message.\<close>

definition task_fails :: "task_metadata \<Rightarrow> string \<Rightarrow> task_metadata" where
  "task_fails m msg = m\<lparr>tm_status := Some FAILED, tm_error_msgs := Some (task_errors m @ [msg])\<rparr>"

lemma task_fails_simps [simp]:
  "task_status (task_fails m msg) = FAILED"
  "task_errors (task_fails m msg) = task_errors m @ [msg]"
  "tm_user (task_fails m msg) = tm_user m"
  "tm_extra (task_fails m msg) = tm_extra m"
  by (simp_all add: task_fails_def task_status_def task_errors_def)

text \<open>\<open>extra[uuid][k] = v\<close> and \<open>extra[uuid].pop(k)\<close>.\<close>

definition set_model_key :: "string \<Rightarrow> string \<Rightarrow> py_value \<Rightarrow> pydict \<Rightarrow> pydict result" where
  "set_model_key uuid k v extra =
     bindE (dlookup extra (PyStr uuid)) (\<lambda>m.
       case m of
         PyDict d \<Rightarrow> Inr (AList.update (PyStr uuid) (PyDict (AList.update (PyStr k) v d)) extra)
       | _ \<Rightarrow> Inl TypeError)"

definition pop_model_key :: "string \<Rightarrow> string \<Rightarrow> pydict \<Rightarrow> (py_value \<times> pydict) result" where
  "pop_model_key uuid k extra =
     bindE (dlookup extra (PyStr uuid)) (\<lambda>m.
       case m of
         PyDict d \<Rightarrow> bindE (dlookup d (PyStr k)) (\<lambda>v.
           Inr (v, AList.update (PyStr uuid) (PyDict (AList.delete (PyStr k) d)) extra))
       | _ \<Rightarrow> Inl TypeError)"

text \<open>A stage has begun: the model's dictionary has its time stamp \<open>k\<close>.\<close>

definition stage_open :: "string \<Rightarrow> string \<Rightarrow> pydict \<Rightarrow> bool" where
  "stage_open uuid k extra \<longleftrightarrow>
     (\<exists>d t. map_of extra (PyStr uuid) = Some (PyDict d) \<and> map_of d (PyStr k) = Some (PyFloat t))"

definition has_model_dict :: "string \<Rightarrow> pydict \<Rightarrow> bool" where
  "has_model_dict uuid extra \<longleftrightarrow> (\<exists>d. map_of extra (PyStr uuid) = Some (PyDict d))"

definition has_time :: "string \<Rightarrow> pydict \<Rightarrow> bool" where
  "has_time k extra \<longleftrightarrow> (\<exists>t. map_of extra (PyStr k) = Some (PyFloat t))"

lemma set_model_key_total:
  assumes "has_model_dict uuid extra"
  shows "\<exists>d. map_of extra (PyStr uuid) = Some (PyDict d) \<and> set_model_key uuid k v extra =
    Inr (AList.update (PyStr uuid) (PyDict (AList.update (PyStr k) v d)) extra)"
  using assms by (auto simp: has_model_dict_def set_model_key_def dlookup_def)

lemma map_of_key_total:
  assumes "has_model_dict uuid extra"
  obtains d extra' where "set_model_key uuid k v extra = Inr extra'"
    "map_of extra' = (map_of extra)(PyStr uuid \<mapsto> PyDict d)" "map_of d (PyStr k) = Some v"
  using set_model_key_total [OF assms, of k v] by (force simp: dict_simps)

end
