(* ===== verification/Nxs_Dispatcher.thy ===== *)
theory Nxs_Dispatcher
  imports Nxs_Value Nxs_Puller
begin

section \<open>Dispatchers and interfaces between processes (\<open>nxs_libs/interface/backend/\<close>)\<close>

text \<open>
  The input process asks a dispatcher in which order requests go on; the dispatcher keeps
  statistics that the output processes report, and the backend's global dispatcher keeps the
  last log of each model. Processes are connected by interfaces: a Redis queue, a list or a
  queue shared between processes.
\<close>

subsection \<open>Statistics\<close>

record latency_stats =
  ls_mean :: rat
  ls_min :: rat
  ls_max :: rat

record output_stats =
  os_output_pid :: nat
  os_duration :: rat
  os_num_reqs :: nat
  os_fps :: rat
  os_latency :: latency_stats

text \<open>\<open>np.mean\<close>: \<open>nan\<close> (None) for an empty list.\<close>

definition np_mean :: "rat list \<Rightarrow> rat option" where
  "np_mean xs = (if xs = [] then None else Some (sum_list xs / of_nat (length xs)))"

record stats_summary =
  ss_total_reqs :: nat
  ss_fps :: rat
  ss_mean :: "rat option"
  ss_min :: "rat option"
  ss_max :: "rat option"

subsection \<open>Dispatchers\<close>

record dispatcher_result =
  dr_to_schedule :: "infer_request list"
  dr_to_delay :: "infer_request list"
  dr_to_drop :: "infer_request list"

record monitoring_state =
  ms_max_cache_size :: nat
  ms_states_cache :: "output_stats list"
  ms_total_processed_reqs :: nat
  ms_last_stats :: "output_stats option"

datatype dispatcher =
    BasicDispatcher "output_stats option"
  | MonitoringDispatcher monitoring_state
  | SlaDispatcher "output_stats option"

datatype dispatcher_type = DT_BASIC | DT_BASIC_SLA | DT_BASIC_MONITORING

definition new_monitoring_state :: "nat \<Rightarrow> monitoring_state" where
  "new_monitoring_state n = \<lparr>ms_max_cache_size = n, ms_states_cache = [],
     ms_total_processed_reqs = 0, ms_last_stats = None\<rparr>"

fun create_dispatcher :: "dispatcher_type \<Rightarrow> dispatcher result" where
  "create_dispatcher DT_BASIC = Inr (BasicDispatcher None)"
| "create_dispatcher DT_BASIC_MONITORING = Inr (MonitoringDispatcher (new_monitoring_state 30))"
| "create_dispatcher DT_BASIC_SLA = Inl InvalidTypeError"

text \<open>
  The requested latency of a request: \<open>extra_params["sla"]\<close> as a number, where
  \<open>parse_float\<close> is \<open>float\<close> on a text. Anything that is no positive number means none.
\<close>

definition request_sla :: "(string \<Rightarrow> rat result) \<Rightarrow> infer_request \<Rightarrow> rat option" where
  "request_sla parse_float r =
     (case rm_extra_params r of
        Some (Pickled (PyDict d)) \<Rightarrow>
          (case map_of d (PyStr ''sla'') of
             None \<Rightarrow> None
           | Some v \<Rightarrow>
               (case (case v of PyStr s \<Rightarrow> parse_float s | PyBytes s \<Rightarrow> parse_float s | _ \<Rightarrow> py_number v) of
                  Inl _ \<Rightarrow> None
                | Inr x \<Rightarrow> if x > 0 then Some x else None))
      | _ \<Rightarrow> None)"

text \<open>
  \<open>BackendBasicSlaDispatcher.dispatch\<close>: requests with a latency first, the shortest first.
  Unpacking \<open>zip(*[])\<close> into two variables raises when there is none. Sorting pairs compares
  the requests when two latencies are equal, which their class does not support.
\<close>

definition sla_dispatch ::
    "(string \<Rightarrow> rat result) \<Rightarrow> infer_request list \<Rightarrow> dispatcher_result result" where
  "sla_dispatch parse_float rs =
     (let slas = List.map_filter (\<lambda>r. map_option (\<lambda>x. (x, r)) (request_sla parse_float r)) rs;
          nonsla = filter (\<lambda>r. request_sla parse_float r = None) rs
      in if list_ex (\<lambda>(x, r). list_ex (\<lambda>(y, q). x = y \<and> r \<noteq> q) slas) slas then Inl TypeError
         else if slas = [] then Inl ValueError
         else Inr \<lparr>dr_to_schedule = map snd (sort_key fst slas) @ nonsla, dr_to_delay = [],
                   dr_to_drop = []\<rparr>)"

definition dispatch ::
    "(string \<Rightarrow> rat result) \<Rightarrow> dispatcher \<Rightarrow> infer_request list \<Rightarrow> dispatcher_result result" where
  "dispatch parse_float d rs =
     (case d of
        SlaDispatcher _ \<Rightarrow> sla_dispatch parse_float rs
      | _ \<Rightarrow> Inr \<lparr>dr_to_schedule = rs, dr_to_delay = [], dr_to_drop = []\<rparr>)"

definition monitoring_update :: "monitoring_state \<Rightarrow> output_stats \<Rightarrow> monitoring_state" where
  "monitoring_update m s =
     m\<lparr>ms_last_stats := Some s,
       ms_total_processed_reqs := ms_total_processed_reqs m + os_num_reqs s,
       ms_states_cache :=
         (if length (ms_states_cache m) > ms_max_cache_size m then tl (ms_states_cache m)
          else ms_states_cache m) @ [s]\<rparr>"

fun update_stats :: "dispatcher \<Rightarrow> output_stats \<Rightarrow> dispatcher" where
  "update_stats (BasicDispatcher _) s = BasicDispatcher (Some s)"
| "update_stats (SlaDispatcher _) s = SlaDispatcher (Some s)"
| "update_stats (MonitoringDispatcher m) s = MonitoringDispatcher (monitoring_update m s)"

text \<open>\<open>update_stats_from_global_dispatcher\<close>: no dispatcher does anything.\<close>

definition update_stats_from_global_dispatcher :: "dispatcher \<Rightarrow> pydict \<Rightarrow> dispatcher" where
  "update_stats_from_global_dispatcher d stats = d"

fun report_stats_to_global_dispatcher :: "dispatcher \<Rightarrow> output_stats option" where
  "report_stats_to_global_dispatcher (BasicDispatcher s) = s"
| "report_stats_to_global_dispatcher (SlaDispatcher s) = s"
| "report_stats_to_global_dispatcher (MonitoringDispatcher _) = None"

text \<open>The cache grouped by output process, and what it says on average.\<close>

definition stats_by_pid :: "output_stats list \<Rightarrow> (nat, output_stats list) dict" where
  "stats_by_pid cache = foldl (\<lambda>d s. dappend d (os_output_pid s) s) [] cache"

definition group_fps :: "output_stats list \<Rightarrow> rat" where
  "group_fps ss = (case np_mean (map os_fps ss) of None \<Rightarrow> 0 | Some x \<Rightarrow> x)"

definition monitoring_summary :: "monitoring_state \<Rightarrow> stats_summary" where
  "monitoring_summary m =
     (let groups = stats_by_pid (ms_states_cache m);
          lats = concat (map (\<lambda>(_, ss). map os_latency ss) groups)
      in \<lparr>ss_total_reqs = ms_total_processed_reqs m,
          ss_fps = sum_list (map (\<lambda>(_, ss). group_fps ss) groups),
          ss_mean = np_mean (map ls_mean lats),
          ss_min = np_mean (map ls_min lats),
          ss_max = np_mean (map ls_max lats)\<rparr>)"

text \<open>\<open>get_stats_summary\<close>: the other dispatchers return an empty dictionary (None).\<close>

fun get_stats_summary :: "dispatcher \<Rightarrow> stats_summary option" where
  "get_stats_summary (MonitoringDispatcher m) = Some (monitoring_summary m)"
| "get_stats_summary _ = None"

subsection \<open>The global dispatcher\<close>

type_synonym global_dispatcher = "(string, cmodel_throughput_log list) dict"

definition update_minidispatcher_stats ::
    "global_dispatcher \<Rightarrow> string \<Rightarrow> cmodel_throughput_log list \<Rightarrow> global_dispatcher" where
  "update_minidispatcher_stats g uuid logs = AList.update uuid logs g"

definition generate_minidispatcher_updates :: "global_dispatcher \<Rightarrow> (string \<times> pydict) list" where
  "generate_minidispatcher_updates g = []"

definition generate_backend_stats_report_in_json_str :: "global_dispatcher \<Rightarrow> string" where
  "generate_backend_stats_report_in_json_str g = ''{}''"

definition generate_backend_monitoring_log :: "global_dispatcher \<Rightarrow> cmodel_throughput_log list" where
  "generate_backend_monitoring_log g =
     List.map_filter (\<lambda>(_, logs). if logs = [] then None else Some (last logs)) g"

definition remove_state :: "global_dispatcher \<Rightarrow> string \<Rightarrow> global_dispatcher" where
  "remove_state g uuid = AList.delete uuid g"

subsection \<open>Input and output interfaces\<close>

datatype interface_type = IF_SHARED_LIST | IF_QUEUE | IF_REDIS

text \<open>
  Reading a shared list or queue takes at most \<open>max_items\<close> of what is there. A read can also
  end early, because another process took the items or \<open>get\<close> timed out: \<open>got\<close> is how many it
  delivers at most. The default of \<open>max_items\<close> depends on the class; closing an
  interface reads with the default.
\<close>

fun default_max_items :: "interface_type \<Rightarrow> nat" where
  "default_max_items IF_SHARED_LIST = 9999"
| "default_max_items IF_QUEUE = 32"
| "default_max_items IF_REDIS = 0"

definition get_batch :: "nat \<Rightarrow> nat \<Rightarrow> 'a list \<Rightarrow> 'a list \<times> 'a list" where
  "get_batch got max_items q =
     (let n = min (min (length q) max_items) got in (take n q, drop n q))"

definition close_and_get_remains :: "nat \<Rightarrow> interface_type \<Rightarrow> 'a list \<Rightarrow> 'a list \<times> 'a list" where
  "close_and_get_remains got t q = get_batch got (default_max_items t) q"

text \<open>\<open>put_batch\<close> on a list or queue, and on a Redis queue.\<close>

definition put_batch_shared :: "'a list \<Rightarrow> 'a list \<Rightarrow> 'a list" where
  "put_batch_shared q batch = foldl (\<lambda>q x. q @ [x]) q batch"

definition put_batch_redis ::
    "clock \<Rightarrow> ('r, 'a) pusher \<Rightarrow> string \<Rightarrow> 'a list \<Rightarrow> ('r, 'a) pusher result" where
  "put_batch_redis now p topic batch = foldE (\<lambda>p x. push now p topic x) p batch"

lemma put_batch_shared_append: "put_batch_shared q batch = q @ batch"
  by (induction batch arbitrary: q) (simp_all add: put_batch_shared_def)

lemma get_batch_split: "get_batch got m q = (xs, ys) \<Longrightarrow> q = xs @ ys"
  by (auto simp: get_batch_def Let_def)

subsection \<open>What the monitoring dispatcher has seen\<close>

lemma monitoring_update_fields:
  "ms_states_cache (monitoring_update m s) =
     (if length (ms_states_cache m) > ms_max_cache_size m then tl (ms_states_cache m)
      else ms_states_cache m) @ [s]"
  "ms_max_cache_size (monitoring_update m s) = ms_max_cache_size m"
  by (simp_all add: monitoring_update_def)

lemma ms_cache_updates:
  "ms_states_cache (foldl monitoring_update (new_monitoring_state n) ss) =
     drop (length ss - Suc n) ss \<and>
   ms_max_cache_size (foldl monitoring_update (new_monitoring_state n) ss) = n"
proof (induction ss rule: rev_induct)
  case Nil
  then show ?case by (simp add: new_monitoring_state_def)
next
  case (snoc s ss)
  show ?case
  proof (cases "n < length ss")
    case True
    then have "Suc (length ss - Suc n) = length ss - n" by simp
    then have "tl (drop (length ss - Suc n) ss) = drop (length ss - n) ss"
      by (metis drop_Suc tl_drop)
    with True snoc show ?thesis by (simp add: monitoring_update_fields)
  next
    case False
    with snoc show ?thesis by (simp add: monitoring_update_fields)
  qed
qed

lemma ms_total_updates:
  "ms_total_processed_reqs (foldl monitoring_update m ss) =
     ms_total_processed_reqs m + sum_list (map os_num_reqs ss)"
  by (induction ss arbitrary: m) (simp_all add: monitoring_update_def)


end
