(* ===== verification/Nxs_Output.thy ===== *)
theory Nxs_Output
  imports Nxs_Dispatcher
begin

section \<open>Output processes (\<open>main_processes/backend/output_process.py\<close>)\<close>

text \<open>
  The last process of a component model: it runs the user's post-processing function on what
  the compute process produced and sends the result to the next component model, to the next
  pipeline stage, or back to the caller. The step for one item is \<open>process_output_item\<close>;
  \<open>output_iteration\<close> is one round of the loop of \<open>_run\<close>, given the batch it read.
\<close>

subsection \<open>Configuration and state\<close>

text \<open>
  The post-processing function is the user's: it gets the data, the parameters and the
  metadata, which it may change, and returns a value or raises (the text of the exception).
\<close>

type_synonym postproc_fn =
  "py_value \<Rightarrow> pydict \<Rightarrow> task_metadata \<Rightarrow> task_metadata \<times> (string + py_value)"

record output_config =
  oc_model_uuid :: string
  oc_pid :: nat
  oc_postproc_fn :: "postproc_fn option"
  oc_postproc_extra_params :: pydict
  oc_has_next :: bool
  oc_reports :: bool

datatype out_item = OutRequest infer_request | OutResult infer_result

record log_metadata =
  lg_metadata :: infer_request_metadata
  lg_extra :: pydict

record output_state =
  op_clock :: nat
  op_sent :: "(string \<times> out_item) list"
  op_metadata_list :: "log_metadata list"
  op_metadata_t0 :: rat
  op_updates :: "output_stats list"

definition put_out :: "string \<Rightarrow> out_item \<Rightarrow> output_state \<Rightarrow> output_state" where
  "put_out topic x s = s\<lparr>op_sent := op_sent s @ [(topic, x)]\<rparr>"

text \<open>\<open>NxsInferRequest(**(user_metadata.dict()), inputs=..., status=...)\<close>\<close>

definition request_of :: "infer_request_metadata \<Rightarrow> infer_input list \<Rightarrow> infer_status \<Rightarrow> infer_request"
  where
  "request_of u inputs st =
     infer_request_metadata.extend u (infer_request.fields inputs st)"

definition error_list :: "string list \<Rightarrow> py_value" where
  "error_list msgs = PyList (map PyStr msgs)"

subsection \<open>Items that failed earlier\<close>

definition failed_result :: "infer_request_metadata \<Rightarrow> string list \<Rightarrow> infer_result" where
  "failed_result u msgs = \<lparr>ir_type = RT_CUSTOM, ir_status = FAILED, ir_task_uuid = rm_task_uuid u,
     ir_error_msgs = msgs, ir_payload = Custom ''{}'', ir_e2e_latency = 0, ir_metadata = None\<rparr>"

definition forward_failed ::
    "output_config \<Rightarrow> task_metadata \<Rightarrow> output_state \<Rightarrow> output_state result" where
  "forward_failed C m s =
     (let extras = AList.update (PyStr ''task_errror_msgs'') (error_list (task_errors m)) (tm_extra m);
          u = (tm_user m)\<lparr>rm_carry_over_extras := Some (Pickled (PyDict extras))\<rparr>
      in if oc_has_next C then Inr (put_out ''error'' (OutRequest (request_of u [] FAILED)) s)
         else bindE (last_item (rm_exec_pipelines u)) (\<lambda>topic.
                Inr (put_out topic (OutResult (failed_result u (task_errors m))) s)))"

subsection \<open>Time stamps\<close>

definition output_entering ::
    "backend_env \<Rightarrow> output_config \<Rightarrow> nat \<Rightarrow> pydict \<Rightarrow> pydict result" where
  "output_entering E C n extra =
     set_model_key (oc_model_uuid C) ''postprocessing_t0'' (PyFloat (be_now E n)) extra"

definition output_exiting ::
    "backend_env \<Rightarrow> output_config \<Rightarrow> nat \<Rightarrow> pydict \<Rightarrow> pydict result" where
  "output_exiting E C n extra =
     bindE (pop_model_key (oc_model_uuid C) ''postprocessing_t0'' extra) (\<lambda>(v, extra).
     bindE (py_number v) (\<lambda>t0.
     bindE (set_model_key (oc_model_uuid C) ''postprocessing_lat'' (PyFloat (be_now E n - t0)) extra)
       (\<lambda>extra. Inr (AList.update (PyStr ''postprocessing_t1'') (PyFloat (be_now E n)) extra))))"

definition generate_output_metadata :: "backend_env \<Rightarrow> nat \<Rightarrow> pydict \<Rightarrow> pydict result" where
  "generate_output_metadata E n extra =
     bindE (dlookup extra (PyStr ''preprocessing_t0'')) (\<lambda>v.
     bindE (py_number v) (\<lambda>t0.
       Inr (AList.update (PyStr ''e2e_lat'') (PyFloat (be_now E n - t0))
              (AList.delete (PyStr ''preprocessing_t0'') extra))))"

subsection \<open>Post-processing\<close>

text \<open>The parameters of the model, overwritten by those of the request.\<close>

definition postproc_params ::
    "backend_env \<Rightarrow> output_config \<Rightarrow> infer_request_metadata \<Rightarrow> pydict result" where
  "postproc_params E C u =
     copy_entries (oc_postproc_extra_params C) (loads_params E (rm_extra_postproc_params u))"

definition run_postproc ::
    "output_config \<Rightarrow> py_value \<Rightarrow> pydict \<Rightarrow> task_metadata \<Rightarrow> task_metadata \<times> py_value" where
  "run_postproc C data params m =
     (case oc_postproc_fn C of
        None \<Rightarrow> (m, if data \<noteq> PyNone then data else PyDict [])
      | Some f \<Rightarrow>
          (case f data params m of
             (m', Inr r) \<Rightarrow> (m', r)
           | (m', Inl msg) \<Rightarrow>
               (task_fails m' (oc_model_uuid C @ '': postproc failed with exception '' @ quoted msg),
                PyDict [])))"

text \<open>The inputs of the next request: one per key of the result.\<close>

definition result_inputs :: "backend_env \<Rightarrow> py_value \<Rightarrow> infer_input list result" where
  "result_inputs E r =
     bindE (py_iter r) (mapE (\<lambda>k.
       bindE (py_getitem r k) (\<lambda>v.
       bindE (be_str_field E k) (\<lambda>name.
         Inr \<lparr>ii_name = name, ii_type = IT_PICKLED_DATA, ii_data = Pickled v\<rparr>))))"

subsection \<open>The next component model\<close>

definition carried_extras :: "infer_request_metadata \<Rightarrow> py_value" where
  "carried_extras u =
     (case rm_carry_over_extras u of
        None \<Rightarrow> PyDict []
      | Some b \<Rightarrow> (case pickle_loads b of Inl _ \<Rightarrow> PyDict [] | Inr v \<Rightarrow> v))"

definition to_next_model ::
    "backend_env \<Rightarrow> task_metadata \<Rightarrow> py_value \<Rightarrow> output_state \<Rightarrow>
       (infer_request_metadata \<times> output_state) result" where
  "to_next_model E m r s =
     (case carried_extras (tm_user m) of
        PyDict carried \<Rightarrow>
          (let extras = AList.update (PyStr ''task_errror_msgs'') (error_list (task_errors m))
                          (foldl (\<lambda>d (k, v). AList.update k v d) carried (tm_extra m));
               u = (tm_user m)\<lparr>rm_carry_over_extras := Some (Pickled (PyDict extras))\<rparr>
           in bindE (result_inputs E r) (\<lambda>inputs.
              case tm_status m of
                None \<Rightarrow> Inl KeyError
              | Some st \<Rightarrow> Inr (u, put_out ''tmp_next'' (OutRequest (request_of u inputs st)) s)))
      | _ \<Rightarrow> Inl TypeError)"

subsection \<open>Results\<close>

definition typed_result ::
    "task_metadata \<Rightarrow> infer_status \<Rightarrow> infer_result_type \<Rightarrow> result_payload \<Rightarrow> infer_result" where
  "typed_result m st ty p = \<lparr>ir_type = ty, ir_status = st, ir_task_uuid = rm_task_uuid (tm_user m),
     ir_error_msgs = task_errors m, ir_payload = p, ir_e2e_latency = 0, ir_metadata = None\<rparr>"

text \<open>\<open>len(v)\<close>\<close>

fun py_len :: "py_value \<Rightarrow> int result" where
  "py_len (PyList xs) = Inr (int (length xs))"
| "py_len (PyDict d) = Inr (int (length d))"
| "py_len (PyStr s) = Inr (int (length s))"
| "py_len (PyBytes s) = Inr (int (length s))"
| "py_len _ = Inl TypeError"

definition validate_all :: "backend_env \<Rightarrow> string \<Rightarrow> py_value \<Rightarrow> py_value list result" where
  "validate_all E cls v = bindE (py_iter v) (mapE (be_validate E cls))"

text \<open>The keyword arguments built from entries of a dictionary: name and key of each.\<close>

definition keyword_args :: "py_value \<Rightarrow> (string \<times> string) list \<Rightarrow> pydict result" where
  "keyword_args v = mapE (\<lambda>(name, key).
     bindE (py_getitem v (PyStr key)) (\<lambda>x. Inr (PyStr name, x)))"

definition transcription_segment :: "backend_env \<Rightarrow> py_value \<Rightarrow> py_value result" where
  "transcription_segment E s =
     bindE (keyword_args s [(''segment_id'', ''id''), (''seek'', ''seek''), (''start'', ''start''),
              (''end'', ''end''), (''text'', ''text''), (''avg_logprob'', ''avg_logprob''),
              (''no_speech_prob'', ''no_speech_prob'')])
       (\<lambda>d. be_validate E ''NxsInferSpeechTranscriptionSegment'' (PyDict d))"

definition transcription :: "backend_env \<Rightarrow> py_value \<Rightarrow> py_value result" where
  "transcription E r =
     bindE (keyword_args r [(''text'', ''text''), (''language'', ''language'')]) (\<lambda>d.
     bindE (py_getitem r (PyStr ''segments'')) (\<lambda>segs.
     bindE (py_iter segs) (\<lambda>segs.
     bindE (mapE (transcription_segment E) segs) (\<lambda>segs.
       be_validate E ''NxsInferSpeechTranscriptionResult''
         (PyDict (d @ [(PyStr ''segments'', PyList segs)]))))))"

text \<open>Which key of the result decides the type of the answer: the first that is present.\<close>

definition format_result ::
    "backend_env \<Rightarrow> task_metadata \<Rightarrow> infer_status \<Rightarrow> py_value \<Rightarrow> infer_result result" where
  "format_result E m st r =
     (let entry = (\<lambda>k. case r of PyDict d \<Rightarrow> map_of d (PyStr k) | _ \<Rightarrow> None)
      in case entry ''detections'' of
           Some v \<Rightarrow> bindE (validate_all E ''NxsInferDetectorResult'' v) (\<lambda>xs.
             Inr (typed_result m st RT_DETECTION (Detections xs)))
         | None \<Rightarrow> (case entry ''classification'' of
           Some v \<Rightarrow> bindE (be_validate E ''NxsInferClassificationResult'' v) (\<lambda>x.
             Inr (typed_result m st RT_CLASSIFICATION (Classification x)))
         | None \<Rightarrow> (case entry ''ocr'' of
           Some v \<Rightarrow> bindE (validate_all E ''NxsInferOcrResult'' v) (\<lambda>xs.
             Inr (typed_result m st RT_OCR (Ocr xs)))
         | None \<Rightarrow> (case entry ''embedding'' of
           Some v \<Rightarrow> bindE (py_len v) (\<lambda>n.
             bindE (be_validate E ''NxsInferEmbeddingResult''
               (PyDict [(PyStr ''embedding'', v), (PyStr ''length'', PyInt n)])) (\<lambda>x.
             Inr (typed_result m st RT_EMBEDDING (Embedding x n))))
         | None \<Rightarrow> (case entry ''transcription'' of
           Some v \<Rightarrow> bindE (transcription E v) (\<lambda>x.
             Inr (typed_result m st RT_SPEECH_TRANSCRIPTION (Transcription x)))
         | None \<Rightarrow> bindE (be_json_dumps E r) (\<lambda>txt.
             Inr (typed_result m st RT_CUSTOM (Custom txt))))))))"

text \<open>A result that cannot be formatted: the status variable is not changed.\<close>

definition formatted_result ::
    "backend_env \<Rightarrow> output_config \<Rightarrow> task_metadata \<Rightarrow> infer_status \<Rightarrow> py_value \<Rightarrow>
       task_metadata \<times> infer_result" where
  "formatted_result E C m st r =
     (case format_result E m st r of
        Inr res \<Rightarrow> (m, res)
      | Inl e \<Rightarrow>
          (let m' = task_fails m (oc_model_uuid C @
                 '': postproc output is not in correct format with exception '' @
                 quoted (be_exn_text E e))
           in (m', typed_result m' st RT_CUSTOM (Custom ''{}''))))"

subsection \<open>Leaving the component model\<close>

text \<open>
  \<open>exec_pipelines.pop(0)\<close> names the next topic. A request that has not failed and has stages
  left goes there, to its session; otherwise the result goes to the caller: to the topic just
  popped when it was the last one, else to the last one.
\<close>

definition send_outside ::
    "backend_env \<Rightarrow> output_config \<Rightarrow> task_metadata \<Rightarrow> py_value \<Rightarrow> output_state \<Rightarrow>
       (task_metadata \<times> output_state) result" where
  "send_outside E C m r s =
     (case rm_exec_pipelines (tm_user m) of
        [] \<Rightarrow> Inl IndexError
      | topic # rest \<Rightarrow>
          (let st = task_status m;
               u = (tm_user m)\<lparr>rm_exec_pipelines := rest\<rparr>;
               m1 = m\<lparr>tm_user := u\<rparr>
           in if st \<noteq> FAILED \<and> rest \<noteq> []
              then bindE (result_inputs E r) (\<lambda>inputs.
                     Inr (m1, put_out (join_key topic (rm_session_uuid u))
                                (OutRequest (request_of u inputs PENDING)) s))
              else
                (let (m2, res) = formatted_result E C m1 st r
                 in bindE (generate_output_metadata E (op_clock s) (tm_extra m2)) (\<lambda>extra.
                      let m3 = m2\<lparr>tm_extra := extra\<rparr>;
                          s1 = s\<lparr>op_clock := Suc (op_clock s)\<rparr>;
                          res1 = res\<lparr>ir_metadata := Some (Pickled (PyDict extra))\<rparr>
                      in if rest = []
                         then Inr (m3, put_out topic (OutResult
                                (if st \<noteq> FAILED then res1\<lparr>ir_status := COMPLETED\<rparr> else res1)) s1)
                         else Inr (m3, put_out (last rest) (OutResult res1) s1)))))"

subsection \<open>One item\<close>

text \<open>
  The user's function may change the metadata, but not the request's own part of it
  (\<open>USER_METADATA\<close>), which the process holds in a variable.
\<close>

definition process_output_item ::
    "backend_env \<Rightarrow> output_config \<Rightarrow> py_value \<times> task_metadata \<Rightarrow> output_state \<Rightarrow>
       output_state result" where
  "process_output_item E C item s =
     (let (data, m) = item
      in if task_status m = FAILED then forward_failed C m s
         else
           bindE (output_entering E C (op_clock s) (tm_extra m)) (\<lambda>extra.
           bindE (postproc_params E C (tm_user m)) (\<lambda>params.
             let (m1, r) = run_postproc C data params (m\<lparr>tm_extra := extra\<rparr>);
                 m1 = m1\<lparr>tm_user := tm_user m\<rparr>
             in bindE (output_exiting E C (Suc (op_clock s)) (tm_extra m1)) (\<lambda>extra.
                  let m2 = m1\<lparr>tm_extra := extra\<rparr>;
                      s1 = s\<lparr>op_clock := op_clock s + 2\<rparr>
                  in if oc_has_next C
                     then bindE (to_next_model E m2 r s1) (\<lambda>(u, s2).
                            Inr (s2\<lparr>op_metadata_list := op_metadata_list s2 @
                                   [\<lparr>lg_metadata = u, lg_extra = extra\<rparr>]\<rparr>))
                     else bindE (send_outside E C m2 r s1) (\<lambda>(m3, s2).
                            Inr (s2\<lparr>op_metadata_list := op_metadata_list s2 @
                                   [\<lparr>lg_metadata = tm_user m3, lg_extra = tm_extra m3\<rparr>]\<rparr>))))))"

subsection \<open>Statistics\<close>

definition request_latency :: "log_metadata \<Rightarrow> rat result" where
  "request_latency l =
     bindE (bindE (dlookup (lg_extra l) (PyStr ''input_t0'')) py_number) (\<lambda>t0.
     bindE (bindE (dlookup (lg_extra l) (PyStr ''postprocessing_t1'')) py_number) (\<lambda>t1.
       Inr (t1 - t0)))"

definition process_metadata_list ::
    "output_config \<Rightarrow> log_metadata list \<Rightarrow> rat \<Rightarrow> output_stats result" where
  "process_metadata_list C logs d =
     (if d = 0 then Inl ZeroDivisionError
      else bindE (mapE request_latency logs) (\<lambda>lats.
        Inr \<lparr>os_output_pid = oc_pid C, os_duration = d, os_num_reqs = length logs,
             os_fps = of_nat (length logs) / d,
             os_latency =
               (if lats = [] then \<lparr>ls_mean = 0, ls_min = 0, ls_max = 0\<rparr>
                else \<lparr>ls_mean = sum_list lats / of_nat (length lats),
                      ls_min = foldr min (tl lats) (hd lats),
                      ls_max = foldr max (tl lats) (hd lats)\<rparr>)\<rparr>))"

text \<open>Every second the list of logs is summarised for the dispatcher and emptied.\<close>

definition report_metadata :: "backend_env \<Rightarrow> output_config \<Rightarrow> output_state \<Rightarrow> output_state result" where
  "report_metadata E C s =
     (let n = op_clock s
      in if be_now E n - op_metadata_t0 s > 1
         then bindE (process_metadata_list C (op_metadata_list s) (be_now E (n + 1) - op_metadata_t0 s))
                (\<lambda>stats. Inr (s\<lparr>op_clock := n + 3, op_metadata_list := [],
                   op_metadata_t0 := be_now E (n + 2),
                   op_updates := (if oc_reports C then op_updates s @ [stats] else op_updates s)\<rparr>))
         else Inr (s\<lparr>op_clock := n + 1\<rparr>))"

text \<open>One round of the loop: the items read, then the report.\<close>

definition output_iteration ::
    "backend_env \<Rightarrow> output_config \<Rightarrow> output_state \<Rightarrow> (py_value \<times> task_metadata) list \<Rightarrow>
       output_state result" where
  "output_iteration E C s batch =
     bindE (foldE (\<lambda>s item. process_output_item E C item s) s batch) (report_metadata E C)"

end
