(* ===== verification/Nxs_Backend_Samples.thy ===== *)
theory Nxs_Backend_Samples
  imports Nxs_Value
begin

section \<open>Concrete inputs for the processes of a backend\<close>

text \<open>
  The clock counts the readings. The text \<open>null\<close> is the only one that is JSON, values without
  bytes are the ones that JSON can write, and pydantic accepts every value as it is.
\<close>

definition sample_backend_env :: backend_env where
  "sample_backend_env = \<lparr>be_now = rat_of_nat,
     be_json_loads = (\<lambda>s. if s = ''null'' then Inr PyNone else Inl ValueError),
     be_json_dumps = (\<lambda>v. case v of PyBytes _ \<Rightarrow> Inl TypeError | _ \<Rightarrow> Inr ''{}''),
     be_validate = (\<lambda>c v. Inr v),
     be_str_field = (\<lambda>v. case v of PyStr s \<Rightarrow> Inr s | _ \<Rightarrow> Inl ValueError),
     be_decode_image = (\<lambda>s. Inr (PyBytes s)),
     be_exn_text = (\<lambda>_. ''error''),
     be_pickle = (\<lambda>_. ''pickle'')\<rparr>"

definition sample_user :: "string \<Rightarrow> string list \<Rightarrow> infer_request_metadata" where
  "sample_user params pipelines = \<lparr>rm_task_uuid = ''task'', rm_session_uuid = ''sess'',
     rm_extra_preproc_params = Some ''-'', rm_extra_transform_params = Some ''-'',
     rm_extra_postproc_params = Some params, rm_exec_pipelines = pipelines,
     rm_extra_params = None, rm_carry_over_extras = None\<rparr>"

definition sample_task :: "string \<Rightarrow> string list \<Rightarrow> task_metadata" where
  "sample_task params pipelines = \<lparr>tm_user = sample_user params pipelines,
     tm_extra = [(PyStr ''input_t0'', PyFloat 0), (PyStr ''preprocessing_t0'', PyFloat 0),
                 (PyStr ''m'', PyDict [])],
     tm_status = Some PROCESSING, tm_error_msgs = None, tm_skip_compute = None,
     tm_skip_result = None, tm_forward_inputs = None, tm_others = []\<rparr>"

end
