(* ===== verification/Nxs_Output_Props.thy ===== *)
theory Nxs_Output_Props
  imports Nxs_Output Nxs_Backend_Samples
begin

section \<open>What an output process sends\<close>

text \<open>
  Every item leads to one message; where it goes and with which status; results that
  cannot be formatted; parameters that stop the process; the statistics of a period.
\<close>

subsection \<open>The parts of a step\<close>

named_theorems output_simps \<open>what the helper functions leave unchanged\<close>

lemma put_out_fields [simp]:
  "op_sent (put_out t x s) = op_sent s @ [(t, x)]"
  "op_clock (put_out t x s) = op_clock s"
  "op_metadata_list (put_out t x s) = op_metadata_list s"
  "op_updates (put_out t x s) = op_updates s"
  by (simp_all add: put_out_def)

lemma request_of_fields [simp]:
  "infer_request_metadata.truncate (request_of u ins st) = u"
  "rq_inputs (request_of u ins st) = ins" "rq_status (request_of u ins st) = st"
  "rm_exec_pipelines (request_of u ins st) = rm_exec_pipelines u"
  "rm_task_uuid (request_of u ins st) = rm_task_uuid u"
  "rm_session_uuid (request_of u ins st) = rm_session_uuid u"
  by (simp_all add: request_of_def infer_request_metadata.defs infer_request.defs)

lemma typed_result_fields [simp]:
  "ir_status (typed_result m st ty p) = st"
  "ir_task_uuid (typed_result m st ty p) = rm_task_uuid (tm_user m)"
  "ir_error_msgs (typed_result m st ty p) = task_errors m"
  "ir_payload (typed_result m st ty p) = p"
  by (simp_all add: typed_result_def)

lemma format_result_fields:
  assumes "format_result E m st r = Inr res"
  shows "ir_status res = st" "ir_task_uuid res = rm_task_uuid (tm_user m)"
    "ir_error_msgs res = task_errors m"
  using assms
  by (auto simp: format_result_def Let_def bindE_eq_Inr split: option.splits)

lemma formatted_result_fields:
  assumes "formatted_result E C m st r = (m', res)"
  shows "ir_status res = st" "ir_task_uuid res = rm_task_uuid (tm_user m)"
    "ir_error_msgs res = task_errors m'" "tm_user m' = tm_user m"
  using assms format_result_fields [of E m st r res]
  by (auto simp: formatted_result_def Let_def split: sum.splits)

lemma task_status_extra [simp]:
  "task_status (m\<lparr>tm_extra := e\<rparr>) = task_status m" "task_status (m\<lparr>tm_user := u\<rparr>) = task_status m"
  "task_errors (m\<lparr>tm_extra := e\<rparr>) = task_errors m" "task_errors (m\<lparr>tm_user := u\<rparr>) = task_errors m"
  by (simp_all add: task_status_def task_errors_def)

text \<open>A message that leaves the backend for good, as the caller or the next stage sees it.\<close>

definition outside_message :: "infer_request_metadata \<Rightarrow> string \<times> out_item \<Rightarrow> bool" where
  "outside_message u msg \<longleftrightarrow>
     (case msg of
        (topic, OutResult r) \<Rightarrow>
          rm_exec_pipelines u \<noteq> [] \<and> topic = last (rm_exec_pipelines u) \<and>
          ir_task_uuid r = rm_task_uuid u \<and> ir_status r \<in> {FAILED, COMPLETED} \<and>
          (ir_status r = COMPLETED \<longrightarrow> tl (rm_exec_pipelines u) = [])
      | (topic, OutRequest q) \<Rightarrow>
          tl (rm_exec_pipelines u) \<noteq> [] \<and> rm_task_uuid q = rm_task_uuid u \<and>
          topic = join_key (hd (rm_exec_pipelines u)) (rm_session_uuid u) \<and>
          rm_exec_pipelines q = tl (rm_exec_pipelines u) \<and>
          rm_session_uuid q = rm_session_uuid u \<and> rq_status q = PENDING)"

lemma forward_failed_sends:
  assumes "forward_failed C m s = Inr s'"
  shows "\<exists>msg. op_sent s' = op_sent s @ [msg] \<and> op_metadata_list s' = op_metadata_list s \<and>
    (if oc_has_next C then \<exists>q. msg = (''error'', OutRequest q) \<and> rq_status q = FAILED
     else outside_message (tm_user m) msg \<and> (\<exists>r. snd msg = OutResult r \<and> ir_status r = FAILED \<and>
       ir_error_msgs r = task_errors m))"
  using assms
  by (auto simp: forward_failed_def Let_def bindE_eq_Inr outside_message_def failed_result_def
      split: if_splits)

text \<open>What \<open>send_outside\<close> sends depends on the status it finds.\<close>

lemma send_outside_sends:
  assumes "send_outside E C m r s = Inr (m', s')"
  shows "\<exists>msg. op_sent s' = op_sent s @ [msg] \<and> outside_message (tm_user m) msg \<and>
    op_metadata_list s' = op_metadata_list s \<and>
    (task_status m = FAILED \<longrightarrow> (\<exists>x. snd msg = OutResult x \<and> ir_status x = FAILED)) \<and>
    (task_status m \<noteq> FAILED \<longrightarrow> (case snd msg of OutResult x \<Rightarrow> ir_status x = COMPLETED | _ \<Rightarrow> True))"
proof (cases "rm_exec_pipelines (tm_user m)")
  case Nil
  with assms show ?thesis by (simp add: send_outside_def)
next
  case (Cons topic rest)
  define m1 where "m1 = m\<lparr>tm_user := (tm_user m)\<lparr>rm_exec_pipelines := rest\<rparr>\<rparr>"
  obtain m2 res where f: "formatted_result E C m1 (task_status m) r = (m2, res)" by force
  note fields = formatted_result_fields [OF f]
  show ?thesis
  proof (cases "task_status m \<noteq> FAILED \<and> rest \<noteq> []")
    case True
    with assms Cons show ?thesis
      by (auto simp: send_outside_def Let_def bindE_eq_Inr outside_message_def)
  next
    case False
    with assms Cons f obtain extra where "generate_output_metadata E (op_clock s) (tm_extra m2) = Inr extra"
      by (auto simp: send_outside_def Let_def bindE_eq_Inr m1_def)
    with False assms Cons f fields show ?thesis
      by (auto simp: send_outside_def Let_def outside_message_def m1_def [symmetric]
          split: if_splits) (simp_all add: m1_def)
  qed
qed

subsection \<open>One item, one message\<close>

lemma run_postproc_fails:
  assumes "run_postproc C data params m = (m', r)"
  shows "oc_postproc_fn C = None \<Longrightarrow> m' = m"
  using assms by (simp add: run_postproc_def)

definition item_message :: "output_config \<Rightarrow> py_value \<times> task_metadata \<Rightarrow> string \<times> out_item \<Rightarrow> bool" where
  "item_message C item msg \<longleftrightarrow>
     (if oc_has_next C then \<exists>q. snd msg = OutRequest q else outside_message (tm_user (snd item)) msg) \<and>
     (task_status (snd item) = FAILED \<longrightarrow>
        (case snd msg of OutRequest q \<Rightarrow> rq_status q = FAILED
         | OutResult r \<Rightarrow> ir_status r = FAILED \<and> ir_error_msgs r = task_errors (snd item)))"

lemma to_next_model_sends:
  assumes "to_next_model E m r s = Inr (u, s')"
  shows "\<exists>q. op_sent s' = op_sent s @ [(''tmp_next'', OutRequest q)] \<and>
    op_metadata_list s' = op_metadata_list s"
  using assms by (auto simp: to_next_model_def Let_def bindE_eq_Inr split: py_value.splits option.splits)

lemma process_output_item_sends:
  assumes "process_output_item E C (data, m) s = Inr s'"
  shows "\<exists>msg. op_sent s' = op_sent s @ [msg] \<and> item_message C (data, m) msg"
proof (cases "task_status m = FAILED")
  case True
  with assms have "forward_failed C m s = Inr s'" by (simp add: process_output_item_def)
  from forward_failed_sends [OF this] True show ?thesis
    by (auto simp: item_message_def split: if_splits)
next
  case False
  with assms obtain extra params where
    1: "output_entering E C (op_clock s) (tm_extra m) = Inr extra"
    "postproc_params E C (tm_user m) = Inr params"
    by (auto simp: process_output_item_def bindE_eq_Inr)
  obtain m1 r where r: "run_postproc C data params (m\<lparr>tm_extra := extra\<rparr>) = (m1, r)" by force
  from assms False 1 r obtain extra2 where
    2: "output_exiting E C (Suc (op_clock s)) (tm_extra m1) = Inr extra2"
    by (auto simp: process_output_item_def bindE_eq_Inr Let_def)
  let ?m = "m1\<lparr>tm_user := tm_user m, tm_extra := extra2\<rparr>"
  let ?s = "s\<lparr>op_clock := op_clock s + 2\<rparr>"
  show ?thesis
  proof (cases "oc_has_next C")
    case True
    with assms False 1 2 r obtain u s2 where "to_next_model E ?m r ?s = Inr (u, s2)"
      "op_sent s' = op_sent s2"
      by (auto simp: process_output_item_def bindE_eq_Inr Let_def)
    with to_next_model_sends [OF this(1)] True False show ?thesis
      by (auto simp: item_message_def)
  next
    case nonext: False
    with assms False 1 2 r obtain m3 s2 where "send_outside E C ?m r ?s = Inr (m3, s2)"
      "op_sent s' = op_sent s2"
      by (auto simp: process_output_item_def bindE_eq_Inr Let_def)
    with send_outside_sends [OF this(1)] nonext False show ?thesis
      by (auto simp: item_message_def)
  qed
qed

lemma report_metadata_sent:
  "report_metadata E C s = Inr s' \<Longrightarrow> op_sent s' = op_sent s"
  by (auto simp: report_metadata_def Let_def bindE_eq_Inr split: if_splits)

lemma output_iteration_sends:
  assumes "output_iteration E C s batch = Inr s'"
  shows "\<exists>msgs. op_sent s' = op_sent s @ msgs \<and> list_all2 (item_message C) batch msgs"
proof -
  obtain s1 where loop: "foldE (\<lambda>s item. process_output_item E C item s) s batch = Inr s1"
    and rep: "report_metadata E C s1 = Inr s'"
    using assms by (auto simp: output_iteration_def bindE_eq_Inr)
  have "\<exists>msgs. op_sent s1 = op_sent s @ msgs \<and> list_all2 (item_message C) batch msgs"
    using loop
  proof (rule foldE_prefix)
    fix ys x t t'
    assume "\<exists>msgs. op_sent t = op_sent s @ msgs \<and> list_all2 (item_message C) ys msgs"
      and x: "process_output_item E C x t = Inr t'"
    then obtain msgs where msgs: "op_sent t = op_sent s @ msgs" "list_all2 (item_message C) ys msgs"
      by blast
    obtain data m where [simp]: "x = (data, m)" by force
    from process_output_item_sends [of E C data m t t'] x obtain msg where
      "op_sent t' = op_sent t @ [msg]" "item_message C x msg" by auto
    with msgs show "\<exists>msgs. op_sent t' = op_sent s @ msgs \<and> list_all2 (item_message C) (ys @ [x]) msgs"
      by (intro exI [of _ "msgs @ [msg]"]) (simp add: list_all2_appendI)
  qed simp
  with report_metadata_sent [OF rep] show ?thesis by simp
qed

subsection \<open>Errors\<close>

text \<open>C17: a round of the output process that does not raise sends exactly one message per item it
  read, in the order of the items. At the last component model of a stage a message is either a
  request for the next stage, to the session's queue and with the remaining stages, or a
  result, addressed to the last topic of the task and marked FAILED or COMPLETED; a task that
  had failed before is always answered with FAILED and its error messages.\<close>

theorem output_sends_one_message_per_item:
  assumes "output_iteration E C s batch = Inr s'"
  shows "\<exists>msgs. op_sent s' = op_sent s @ msgs \<and> list_all2 (item_message C) batch msgs"
  using assms by (rule output_iteration_sends)

text \<open>a result that cannot be formatted as the type its keys announce is answered with its error
  message but with status COMPLETED: only the metadata of the task is marked FAILED, not the
  status that the answer takes.\<close>

theorem misformatted_result_completed:
  assumes "rm_exec_pipelines (tm_user m) = [topic]" "task_status m \<noteq> FAILED"
    "format_result E (m\<lparr>tm_user := (tm_user m)\<lparr>rm_exec_pipelines := []\<rparr>\<rparr>) (task_status m) r = Inl e"
    "send_outside E C m r s = Inr (m', s')"
  shows "task_status m' = FAILED \<and>
    (\<exists>res. op_sent s' = op_sent s @ [(topic, OutResult res)] \<and> ir_status res = COMPLETED \<and>
       ir_error_msgs res = task_errors m @ [oc_model_uuid C @
         '': postproc output is not in correct format with exception '' @ quoted (be_exn_text E e)])"
  using assms by (auto simp: send_outside_def formatted_result_def Let_def bindE_eq_Inr)

text \<open>post-processing parameters that are JSON but nothing to iterate over, such as
  \<open>null\<close> or a number, make the process raise outside of every \<open>try\<close>: one such request that
  has not failed before stops the output process, whatever else is in the batch.\<close>

theorem scalar_params_stop_output:
  assumes "rm_extra_postproc_params (tm_user m) = Some js" "be_json_loads E js = Inr v"
    "py_iter v = Inl e" "task_status m \<noteq> FAILED"
  shows "\<exists>e'. output_iteration E C s (xs @ (data, m) # ys) = Inl e'"
proof -
  have "postproc_params E C (tm_user m) = Inl e"
    using assms by (simp add: postproc_params_def loads_params_def copy_entries_def)
  then have "\<exists>e'. process_output_item E C (data, m) t = Inl e'" for t
    using assms(4)
    by (cases "output_entering E C (op_clock t) (tm_extra m)") (auto simp: process_output_item_def)
  then have "\<exists>e'. foldE (\<lambda>s item. process_output_item E C item s) s (xs @ (data, m) # ys) = Inl e'"
    by (cases "foldE (\<lambda>s item. process_output_item E C item s) s xs")
      (auto simp: foldE_append, metis bindE_simps(1))
  then show ?thesis by (auto simp: output_iteration_def)
qed

subsection \<open>Statistics\<close>

lemma foldr_min_le: "foldr min xs x \<le> (x :: rat)" "y \<in> set xs \<Longrightarrow> foldr min xs x \<le> y"
  by (induction xs) (auto intro: min.coboundedI2)

lemma foldr_max_ge: "(x :: rat) \<le> foldr max xs x" "y \<in> set xs \<Longrightarrow> y \<le> foldr max xs x"
  by (induction xs) (auto intro: max.coboundedI2)

lemma sum_list_bounds:
  fixes xs :: "rat list"
  assumes "\<And>x. x \<in> set xs \<Longrightarrow> a \<le> x \<and> x \<le> b"
  shows "of_nat (length xs) * a \<le> sum_list xs \<and> sum_list xs \<le> of_nat (length xs) * b"
  using assms by (induction xs) (auto simp: algebra_simps intro: add_mono)

lemma mean_between:
  fixes xs :: "rat list"
  assumes "xs \<noteq> []"
  shows "foldr min (tl xs) (hd xs) \<le> sum_list xs / of_nat (length xs) \<and>
    sum_list xs / of_nat (length xs) \<le> foldr max (tl xs) (hd xs)"
proof -
  have "foldr min (tl xs) (hd xs) \<le> x \<and> x \<le> foldr max (tl xs) (hd xs)" if "x \<in> set xs" for x
    using that assms foldr_min_le [where xs = "tl xs" and x = "hd xs"]
      foldr_max_ge [where xs = "tl xs" and x = "hd xs"]
    by (cases xs) auto
  from sum_list_bounds [OF this] assms show ?thesis by (simp add: field_simps)
qed

text \<open>the statistics of a period count every item that was not forwarded as failed, and their
  mean latency lies between the smallest and the largest.\<close>

theorem output_stats_bounds:
  assumes "process_metadata_list C logs d = Inr st" "d > 0"
  shows "os_num_reqs st = length logs \<and> os_fps st * d = of_nat (length logs) \<and>
    ls_min (os_latency st) \<le> ls_mean (os_latency st) \<and>
    ls_mean (os_latency st) \<le> ls_max (os_latency st)"
  using assms mean_between by (auto simp: process_metadata_list_def bindE_eq_Inr)

subsection \<open>Concrete rounds\<close>

definition sample_output :: output_config where
  "sample_output = \<lparr>oc_model_uuid = ''m'', oc_pid = 0, oc_postproc_fn = None,
     oc_postproc_extra_params = [], oc_has_next = False, oc_reports = True\<rparr>"

definition sample_output_state :: output_state where
  "sample_output_state = \<lparr>op_clock = 5, op_sent = [], op_metadata_list = [], op_metadata_t0 = 0,
     op_updates = []\<rparr>"

lemmas sample_output_defs = sample_output_def sample_output_state_def sample_backend_env_def
  sample_task_def sample_user_def

lemmas output_step_defs = output_iteration_def process_output_item_def forward_failed_def
  output_entering_def output_exiting_def postproc_params_def loads_params_def copy_entries_def
  run_postproc_def send_outside_def result_inputs_def formatted_result_def format_result_def
  generate_output_metadata_def report_metadata_def process_metadata_list_def request_latency_def
  set_model_key_def pop_model_key_def dlookup_def task_status_def task_errors_def

lemma sample_output_round:
  "\<exists>s'. output_iteration sample_backend_env sample_output sample_output_state
     [(PyDict [(PyStr ''x'', PyInt 1)], sample_task ''-'' [''back''])] = Inr s'"
  by (simp add: output_step_defs sample_output_defs Let_def put_out_def typed_result_def)

theorem output_sends_one_message_per_item_witness:
  "\<exists>s' msgs. output_iteration sample_backend_env sample_output sample_output_state
       [(PyDict [(PyStr ''x'', PyInt 1)], sample_task ''-'' [''back''])] = Inr s' \<and>
     op_sent s' = msgs \<and> list_all2 (item_message sample_output)
       [(PyDict [(PyStr ''x'', PyInt 1)], sample_task ''-'' [''back''])] msgs"
proof -
  obtain s' where s: "output_iteration sample_backend_env sample_output sample_output_state
     [(PyDict [(PyStr ''x'', PyInt 1)], sample_task ''-'' [''back''])] = Inr s'"
    using sample_output_round by blast
  from output_sends_one_message_per_item [OF s] s show ?thesis
    by (auto simp: sample_output_state_def)
qed

lemma sample_misformatted:
  "format_result sample_backend_env ((sample_task ''-'' [''back''])\<lparr>tm_user :=
     (tm_user (sample_task ''-'' [''back'']))\<lparr>rm_exec_pipelines := []\<rparr>\<rparr>) PROCESSING (PyBytes ''b'')
   = Inl TypeError"
  "\<exists>m' s'. send_outside sample_backend_env sample_output (sample_task ''-'' [''back'']) (PyBytes ''b'')
     sample_output_state = Inr (m', s')"
  by (simp_all add: output_step_defs sample_output_defs Let_def put_out_def typed_result_def
      task_fails_def)

theorem misformatted_result_completed_witness:
  "\<exists>m' s' res. send_outside sample_backend_env sample_output (sample_task ''-'' [''back''])
       (PyBytes ''b'') sample_output_state = Inr (m', s') \<and>
     task_status m' = FAILED \<and> op_sent s' = [(''back'', OutResult res)] \<and> ir_status res = COMPLETED"
proof -
  obtain m' s' where s: "send_outside sample_backend_env sample_output (sample_task ''-'' [''back''])
      (PyBytes ''b'') sample_output_state = Inr (m', s')"
    using sample_misformatted(2) by blast
  have st: "task_status (sample_task ''-'' [''back'']) = PROCESSING"
    "rm_exec_pipelines (tm_user (sample_task ''-'' [''back''])) = [''back'']"
    by (simp_all add: sample_task_def sample_user_def task_status_def)
  from misformatted_result_completed [OF st(2) _ _ s, of TypeError] st(1) sample_misformatted(1)
  have "task_status m' = FAILED \<and> (\<exists>res. op_sent s' = [(''back'', OutResult res)] \<and>
      ir_status res = COMPLETED)"
    by (auto simp: sample_output_state_def)
  with s show ?thesis by blast
qed

theorem scalar_params_stop_output_witness:
  "\<exists>e. output_iteration sample_backend_env sample_output sample_output_state
     ([] @ (PyNone, sample_task ''null'' [''back'']) # []) = Inl e"
  by (rule scalar_params_stop_output [where js = "''null''" and v = PyNone and e = TypeError])
    (simp_all add: sample_output_defs task_status_def)

definition sample_log :: "rat \<Rightarrow> log_metadata" where
  "sample_log t = \<lparr>lg_metadata = sample_user ''-'' [], lg_extra =
     [(PyStr ''input_t0'', PyFloat 0), (PyStr ''postprocessing_t1'', PyFloat t)]\<rparr>"

theorem output_stats_bounds_witness:
  "\<exists>st. process_metadata_list sample_output [sample_log 1, sample_log 4] 2 = Inr st \<and>
     os_fps st * 2 = 2 \<and> ls_min (os_latency st) \<le> ls_mean (os_latency st)"
proof -
  obtain st where st: "process_metadata_list sample_output [sample_log 1, sample_log 4] 2 = Inr st"
    by (simp add: process_metadata_list_def request_latency_def sample_log_def dlookup_def)
  from output_stats_bounds [OF st] st show ?thesis by simp
qed

end
