(* ===== verification/Nxs_Preproc.thy ===== *)
theory Nxs_Preproc
  imports Nxs_Dispatcher
begin

section \<open>Preprocessing processes (\<open>main_processes/backend/preprocessing_process.py\<close>)\<close>

text \<open>
  A preprocessor decodes the inputs of each request, runs the user's preprocessing function and
  sends batches on to the compute process; requests that fail take the shortcut to the output
  process. \<open>prepare_request\<close> is the body of the loop over requests, \<open>send_batches\<close> the loop
  that empties the current batch. That loop may run forever, so it is a partial function: None
  means that it does not end.
\<close>

subsection \<open>Configuration and state\<close>

type_synonym preproc_fn =
  "pydict \<Rightarrow> pydict \<Rightarrow> task_metadata \<Rightarrow> task_metadata \<times> (string + py_value \<times> bool)"

record preproc_config =
  pc_model_uuid :: string
  pc_preproc_fn :: preproc_fn
  pc_preproc_extra_params :: pydict
  pc_max_batch_size :: int
  pc_cross_requests_batching :: bool
  pc_supported_batch_sizes :: "int list"

text \<open>The batch sizes of the model's profile that the plan allows, the largest first.\<close>

definition supported_batch_sizes :: "profile_unit list \<Rightarrow> int \<Rightarrow> int list" where
  "supported_batch_sizes profile max_bs =
     rev (sort (map pu_batch_size (filter (\<lambda>p. \<not> pu_batch_size p > max_bs) profile)))"

type_synonym batch = "(py_value, py_value list) dict \<times> task_metadata list"

record preproc_state =
  pp_clock :: nat
  pp_sent :: "batch list"
  pp_errors :: "task_metadata list"

subsection \<open>Time stamps\<close>

definition preproc_entering :: "backend_env \<Rightarrow> string \<Rightarrow> nat \<Rightarrow> pydict \<Rightarrow> pydict \<times> nat" where
  "preproc_entering E uuid n extra =
     (let (extra, n) =
        (if PyStr ''preprocessing_t0'' \<in> set (dkeys extra) then (extra, n)
         else (AList.update (PyStr ''preprocessing_t0'') (PyFloat (be_now E n)) extra, n + 1))
      in (AList.update (PyStr uuid) (PyDict [(PyStr ''preprocessing_t0'', PyFloat (be_now E n))]) extra,
          n + 1))"

definition preproc_exiting :: "backend_env \<Rightarrow> string \<Rightarrow> nat \<Rightarrow> pydict \<Rightarrow> pydict result" where
  "preproc_exiting E uuid n extra =
     bindE (pop_model_key uuid ''preprocessing_t0'' extra) (\<lambda>(v, extra).
     bindE (py_number v) (\<lambda>t0.
       set_model_key uuid ''preprocessing_lat'' (PyFloat (be_now E n - t0)) extra))"

subsection \<open>One request\<close>

text \<open>The metadata that a request gets; the transform parameters are passed under a name that the
  class does not have, so its default stays.\<close>

definition request_metadata :: "infer_request \<Rightarrow> infer_request_metadata" where
  "request_metadata r = \<lparr>rm_task_uuid = rm_task_uuid r, rm_session_uuid = rm_session_uuid r,
     rm_extra_preproc_params = Some ''{}'', rm_extra_transform_params = Some ''{}'',
     rm_extra_postproc_params = rm_extra_postproc_params r,
     rm_exec_pipelines = rm_exec_pipelines r, rm_extra_params = None, rm_carry_over_extras = None\<rparr>"

definition initial_status :: "infer_status \<Rightarrow> infer_status" where
  "initial_status st = (if st = PENDING then PROCESSING else st)"

definition new_metadata :: "infer_request \<Rightarrow> pydict \<Rightarrow> task_metadata" where
  "new_metadata r extra = \<lparr>tm_user = request_metadata r, tm_extra = extra,
     tm_status = Some (initial_status (rq_status r)), tm_error_msgs = None, tm_skip_compute = None,
     tm_skip_result = None, tm_forward_inputs = None, tm_others = []\<rparr>"

text \<open>The texts in the list that an earlier stage put into the extras.\<close>

definition carried_errors :: "pydict \<Rightarrow> string list" where
  "carried_errors extra =
     (case map_of extra (PyStr ''task_errror_msgs'') of
        Some (PyList xs) \<Rightarrow> List.map_filter (\<lambda>v. case v of PyStr s \<Rightarrow> Some s | _ \<Rightarrow> None) xs
      | _ \<Rightarrow> [])"

text \<open>One input: an image is also kept encoded when it is the only input.\<close>

definition decode_input ::
    "backend_env \<Rightarrow> bool \<Rightarrow> pydict \<Rightarrow> infer_input \<Rightarrow> pydict result" where
  "decode_input E single d i =
     (case ii_type i of
        IT_ENCODED_IMAGE \<Rightarrow>
          (let s = raw_bytes E (ii_data i)
           in bindE (be_decode_image E s) (\<lambda>img.
                let d1 = AList.update (PyStr (ii_name i)) img d;
                    key = (if ii_name i \<noteq> ''encoded_image'' then ''encoded_image''
                           else ii_name i @ ''_encoded'')
                in Inr (if single then AList.update (PyStr key) (PyBytes s) d1 else d1)))
      | IT_PICKLED_DATA \<Rightarrow>
          bindE (pickle_loads (ii_data i)) (\<lambda>v. Inr (AList.update (PyStr (ii_name i)) v d))
      | IT_NUMPY_TENSOR \<Rightarrow> Inr d)"

definition decode_inputs ::
    "backend_env \<Rightarrow> string \<Rightarrow> infer_input list \<Rightarrow> task_metadata \<Rightarrow> pydict \<times> task_metadata \<times> bool"
  where
  "decode_inputs E uuid inputs m =
     foldl (\<lambda>(d, m, bad) i.
        case decode_input E (length inputs = 1) d i of
          Inr d' \<Rightarrow> (d', m, bad)
        | Inl _ \<Rightarrow> (d, task_fails m (uuid @ '': Failed to decode input '' @ quoted (ii_name i)), True))
       ([], m, False) inputs"

datatype prepared = Rejected task_metadata | Ready py_value task_metadata

definition prepare_request ::
    "backend_env \<Rightarrow> preproc_config \<Rightarrow> nat \<Rightarrow> infer_request \<Rightarrow> (prepared \<times> nat) result" where
  "prepare_request E C n r =
     (case (case rm_carry_over_extras r of
              None \<Rightarrow> PyDict []
            | Some b \<Rightarrow> (case pickle_loads b of Inl _ \<Rightarrow> PyDict [] | Inr v \<Rightarrow> v)) of
        PyDict carried \<Rightarrow>
          (let (extra, n) = preproc_entering E (pc_model_uuid C) n carried;
               m = new_metadata r extra
           in if rq_status r = FAILED
              then Inr (Rejected (m\<lparr>tm_error_msgs := Some (carried_errors extra)\<rparr>), n)
              else
                (let (inputs, m, bad) = decode_inputs E (pc_model_uuid C) (rq_inputs r) m
                 in if bad then Inr (Rejected m, n)
                    else bindE (copy_entries (pc_preproc_extra_params C)
                                  (loads_params E (rm_extra_preproc_params r))) (\<lambda>params.
                      case pc_preproc_fn C inputs params m of
                        (m, Inl msg) \<Rightarrow>
                          Inr (Rejected (task_fails m (pc_model_uuid C @
                            '': Preproc failed with exception '' @ quoted msg)), n)
                      | (m, Inr (data, skip)) \<Rightarrow>
                          bindE (be_json_dumps E (PyDict params)) (\<lambda>js.
                            Inr (Ready data (m\<lparr>tm_user := (request_metadata r)
                                     \<lparr>rm_extra_preproc_params := Some js\<rparr>,
                                   tm_skip_compute := Some skip,
                                   tm_skip_result := (if skip then Some data else tm_skip_result m)\<rparr>),
                                 n)))))
      | _ \<Rightarrow> Inl TypeError)"

subsection \<open>Batches\<close>

text \<open>\<open>np.max\<close> raises on an empty array; otherwise sizes that are too large count as 0.\<close>

definition choose_batch_size :: "bool \<Rightarrow> int \<Rightarrow> int list \<Rightarrow> nat \<Rightarrow> int result" where
  "choose_batch_size cross max_bs supported n =
     (if \<not> cross then Inr 1
      else if int n \<ge> max_bs then Inr max_bs
      else if supported = [] then Inl ValueError
      else Inr (Max (set (map (\<lambda>b. if b \<le> int n then b else 0) supported))))"

text \<open>From a list of dictionaries to a dictionary of lists.\<close>

definition extend_entry ::
    "(py_value, py_value list) dict \<Rightarrow> py_value \<Rightarrow> py_value list \<Rightarrow> (py_value, py_value list) dict" where
  "extend_entry d k xs = AList.update k (dget d k [] @ xs) d"

definition transform_batch :: "py_value list \<Rightarrow> (py_value, py_value list) dict result" where
  "transform_batch items =
     foldE (\<lambda>d item. bindE (py_iter item) (foldE (\<lambda>d k.
        bindE (py_getitem item k) (\<lambda>v. bindE (py_iter v) (\<lambda>xs. Inr (extend_entry d k xs)))) d))
       [] items"

text \<open>The time stamps of the requests of a batch, one reading of the clock each.\<close>

definition stamp_all ::
    "(nat \<Rightarrow> pydict \<Rightarrow> pydict result) \<Rightarrow> nat \<Rightarrow> task_metadata list \<Rightarrow> (task_metadata list \<times> nat) result"
  where
  "stamp_all f n ms =
     foldE (\<lambda>(done, n) m. bindE (f n (tm_extra m)) (\<lambda>extra.
              Inr (done @ [m\<lparr>tm_extra := extra\<rparr>], n + 1))) ([], n) ms"

definition exit_batch ::
    "backend_env \<Rightarrow> string \<Rightarrow> nat \<Rightarrow> task_metadata list \<Rightarrow> (task_metadata list \<times> nat) result" where
  "exit_batch E uuid = stamp_all (preproc_exiting E uuid)"

text \<open>The first \<open>b\<close> items leave as one batch.\<close>

definition send_batch ::
    "backend_env \<Rightarrow> string \<Rightarrow> (py_value \<times> task_metadata) list \<Rightarrow> preproc_state \<Rightarrow> preproc_state result"
  where
  "send_batch E uuid items s =
     bindE (transform_batch (map fst items)) (\<lambda>b.
     bindE (exit_batch E uuid (pp_clock s) (map snd items)) (\<lambda>(ms, n).
       Inr (s\<lparr>pp_clock := n, pp_sent := pp_sent s @ [(b, ms)]\<rparr>)))"

partial_function (option) send_batches ::
    "backend_env \<Rightarrow> preproc_config \<Rightarrow> (py_value \<times> task_metadata) list \<Rightarrow> preproc_state \<Rightarrow>
       preproc_state result option" where
  "send_batches E C current s =
     (if current = [] then Some (Inr s)
      else case choose_batch_size (pc_cross_requests_batching C) (pc_max_batch_size C)
                  (pc_supported_batch_sizes C) (length current) of
             Inl e \<Rightarrow> Some (Inl e)
           | Inr b \<Rightarrow>
               (case send_batch E (pc_model_uuid C) (take (nat b) current) s of
                  Inl e \<Rightarrow> Some (Inl e)
                | Inr s' \<Rightarrow> send_batches E C (drop (nat b) current) s'))"

subsection \<open>One round\<close>

definition add_prepared ::
    "backend_env \<Rightarrow> preproc_config \<Rightarrow>
       preproc_state \<times> (py_value \<times> task_metadata) list \<Rightarrow> infer_request \<Rightarrow>
       (preproc_state \<times> (py_value \<times> task_metadata) list) result" where
  "add_prepared E C = (\<lambda>(s, current) r.
     bindE (prepare_request E C (pp_clock s) r) (\<lambda>(p, n).
       case p of
         Rejected m \<Rightarrow> Inr (s\<lparr>pp_clock := n, pp_errors := pp_errors s @ [m]\<rparr>, current)
       | Ready data m \<Rightarrow> Inr (s\<lparr>pp_clock := n\<rparr>, current @ [(data, m)])))"

definition preproc_iteration ::
    "backend_env \<Rightarrow> preproc_config \<Rightarrow> preproc_state \<Rightarrow> infer_request list \<Rightarrow>
       preproc_state result option" where
  "preproc_iteration E C s requests =
     (case foldE (add_prepared E C) (s, []) requests of
        Inl e \<Rightarrow> Some (Inl e)
      | Inr (s', current) \<Rightarrow> send_batches E C current s')"

end
