(* ===== verification/Nxs_Preproc_Props.thy ===== *)
theory Nxs_Preproc_Props
  imports Nxs_Preproc Nxs_Backend_Samples
begin

section \<open>How a preprocessor forms batches\<close>

text \<open>
  When the batch size 1 is in the model's profile, the loop over the current batch ends, loses
  nothing and keeps the order; without it, the loop can run forever.
\<close>

subsection \<open>The chosen size\<close>

definition batch_size_ok :: "bool \<Rightarrow> int \<Rightarrow> int list \<Rightarrow> bool" where
  "batch_size_ok cross max_bs supported \<longleftrightarrow> \<not> cross \<or> 1 \<le> max_bs \<and> 1 \<in> set supported"

lemma choose_batch_size_ok:
  assumes "batch_size_ok cross max_bs supported" "0 < n"
  shows "\<exists>b. choose_batch_size cross max_bs supported n = Inr b \<and> 1 \<le> b \<and> b \<le> int n \<and>
    b \<in> insert 1 (insert max_bs (set supported)) \<and> (cross \<longrightarrow> b \<le> max_bs) \<and> (\<not> cross \<longrightarrow> b = 1)"
proof (cases "\<not> cross \<or> max_bs \<le> int n")
  case True
  with assms show ?thesis by (auto simp: choose_batch_size_def batch_size_ok_def)
next
  case False
  define f where "f = (\<lambda>b. if b \<le> int n then b else 0)"
  have one: "1 \<in> set supported" "supported \<noteq> []" using assms False by (auto simp: batch_size_ok_def)
  with assms(2) have "1 \<in> f ` set supported" by (force simp: f_def)
  then have max1: "1 \<le> Max (f ` set supported)" by (intro Max_ge) simp_all
  have "Max (f ` set supported) \<in> f ` set supported" using one by (intro Max_in) simp_all
  then obtain b where "b \<in> set supported" "Max (f ` set supported) = f b" by blast
  with max1 have "Max (f ` set supported) = b" "b \<le> int n" by (auto simp: f_def split: if_splits)
  with False one max1 \<open>b \<in> set supported\<close> show ?thesis
    by (auto simp: choose_batch_size_def f_def [symmetric])
qed

lemma choose_batch_size_zero:
  assumes "cross" "int n < max_bs" "supported \<noteq> []" "list_all (\<lambda>b. int n < b) supported"
  shows "choose_batch_size cross max_bs supported n = Inr 0"
proof -
  define f where "f = (\<lambda>b. if b \<le> int n then b else 0)"
  have "f b = 0" if "b \<in> set supported" for b using assms(4) that by (auto simp: f_def list_all_iff)
  with assms(3) have "f ` set supported = {0}" by (auto simp: neq_Nil_conv)
  with assms(1-3) show ?thesis by (simp add: choose_batch_size_def f_def [symmetric])
qed

subsection \<open>Time stamps leave everything else alone\<close>

definition unstamped :: "task_metadata \<Rightarrow> task_metadata" where
  "unstamped m = m\<lparr>tm_extra := []\<rparr>"

lemma unstamped_fields:
  assumes "unstamped m = unstamped m'"
  shows "tm_user m = tm_user m'" "tm_status m = tm_status m'" "tm_error_msgs m = tm_error_msgs m'"
    "tm_skip_compute m = tm_skip_compute m'" "tm_skip_result m = tm_skip_result m'"
    "tm_forward_inputs m = tm_forward_inputs m'" "tm_others m = tm_others m'"
  using assms by (cases m; cases m'; simp add: unstamped_def)+

lemma unstamped_update [simp]: "unstamped (m\<lparr>tm_extra := e\<rparr>) = unstamped m"
  by (simp add: unstamped_def)

lemma stamp_all_unstamped:
  assumes "stamp_all f n ms = Inr (ms', n')"
  shows "map unstamped ms' = map unstamped ms"
proof -
  have "map unstamped (fst (ms', n')) = map unstamped ms"
    using assms unfolding stamp_all_def by (rule foldE_prefix) (auto simp: bindE_eq_Inr)
  then show ?thesis by simp
qed

lemma stamp_all_length:
  assumes "stamp_all f n ms = Inr (ms', n')"
  shows "length ms' = length ms"
  using stamp_all_unstamped [OF assms] by (metis length_map)

text \<open>Stamping works when each step keeps what the next one needs.\<close>

lemma stamp_all_total:
  assumes "list_all (\<lambda>m. P (tm_extra m)) ms"
    and step: "\<And>e k. P e \<Longrightarrow> \<exists>e'. f k e = Inr e' \<and> Q e'"
  shows "\<exists>ms' n'. stamp_all f n ms = Inr (ms', n') \<and> list_all (\<lambda>m. Q (tm_extra m)) ms'"
proof -
  have "\<exists>r. stamp_all f n ms = Inr r \<and> list_all (\<lambda>m. Q (tm_extra m)) (fst r)"
    unfolding stamp_all_def
  proof (rule foldE_total)
    fix s :: "task_metadata list \<times> nat" and m
    assume "m \<in> set ms" and s: "list_all (\<lambda>m. Q (tm_extra m)) (fst s)"
    with assms(1) have "P (tm_extra m)" by (simp add: list_all_iff)
    from step [OF this, of "snd s"] obtain e where "f (snd s) (tm_extra m) = Inr e" "Q e" by blast
    with s show "\<exists>s'. (case s of (done, n) \<Rightarrow> \<lambda>m. bindE (f n (tm_extra m))
        (\<lambda>extra. Inr (done @ [m\<lparr>tm_extra := extra\<rparr>], n + 1))) m = Inr s' \<and>
        list_all (\<lambda>m. Q (tm_extra m)) (fst s')"
      by (cases s) simp
  qed simp
  then show ?thesis by auto
qed

subsection \<open>One batch\<close>

lemma set_model_key_opens:
  assumes "set_model_key uuid k v extra = Inr e"
  shows "has_model_dict uuid e"
proof -
  from assms obtain m where m: "dlookup extra (PyStr uuid) = Inr m"
    "(case m of PyDict d \<Rightarrow>
        Inr (AList.update (PyStr uuid) (PyDict (AList.update (PyStr k) v d)) extra)
      | _ \<Rightarrow> Inl TypeError) = Inr e"
    by (auto simp: set_model_key_def bindE_eq_Inr)
  then obtain d where "e = AList.update (PyStr uuid) (PyDict (AList.update (PyStr k) v d)) extra"
    by (cases m) auto
  then show ?thesis by (simp add: has_model_dict_def dict_simps)
qed

lemma preproc_exiting_opens: "preproc_exiting E uuid k extra = Inr e \<Longrightarrow> has_model_dict uuid e"
  by (auto simp: preproc_exiting_def bindE_eq_Inr intro: set_model_key_opens)

lemma exit_batch_opens:
  assumes "stamp_all (preproc_exiting E uuid) n ms = Inr (ms', n')"
  shows "list_all (\<lambda>m. has_model_dict uuid (tm_extra m)) ms'"
proof -
  have "list_all (\<lambda>m. has_model_dict uuid (tm_extra m)) (fst (ms', n'))"
    using assms unfolding stamp_all_def
    by (rule foldE_invariant) (auto simp: bindE_eq_Inr, rule preproc_exiting_opens)
  then show ?thesis by simp
qed

lemma send_batch_empty: "send_batch E uuid [] s = Inr (s\<lparr>pp_sent := pp_sent s @ [([], [])]\<rparr>)"
  by (simp add: send_batch_def transform_batch_def exit_batch_def stamp_all_def)

subsection \<open>The loop\<close>

definition batch_fits :: "preproc_config \<Rightarrow> nat \<Rightarrow> bool" where
  "batch_fits C n \<longleftrightarrow> 0 < n \<and>
     int n \<in> insert 1 (insert (pc_max_batch_size C) (set (pc_supported_batch_sizes C))) \<and>
     (if pc_cross_requests_batching C then int n \<le> pc_max_batch_size C else n = 1)"

text \<open>The batch \<open>bm\<close> holds the tensors and the metadata of the items \<open>part\<close>.\<close>

definition batch_from :: "preproc_config \<Rightarrow> (py_value \<times> task_metadata) list \<Rightarrow> batch \<Rightarrow> bool" where
  "batch_from C part bm \<longleftrightarrow>
     batch_fits C (length part) \<and> transform_batch (map fst part) = Inr (fst bm) \<and>
     map unstamped (snd bm) = map (unstamped \<circ> snd) part \<and>
     list_all (\<lambda>m. has_model_dict (pc_model_uuid C) (tm_extra m)) (snd bm)"

text \<open>The batches sent since \<open>s\<close> divide the items \<open>current\<close>, in their order.\<close>

definition batches_of :: "preproc_config \<Rightarrow> preproc_state \<Rightarrow> preproc_state \<Rightarrow>
    (py_value \<times> task_metadata) list \<Rightarrow> bool" where
  "batches_of C s s' current \<longleftrightarrow>
     (\<exists>bs parts. pp_sent s' = pp_sent s @ bs \<and> concat parts = current \<and>
        list_all2 (batch_from C) parts bs)"

lemma send_batch_sent:
  assumes "send_batch E (pc_model_uuid C) part s = Inr s'" "batch_fits C (length part)"
  shows "\<exists>bm. pp_sent s' = pp_sent s @ [bm] \<and> batch_from C part bm"
  using assms stamp_all_unstamped exit_batch_opens
  by (fastforce simp: send_batch_def exit_batch_def bindE_eq_Inr batch_from_def)

lemma batches_of_step:
  assumes "batches_of C s1 s' current" "pp_sent s1 = pp_sent s @ [bm]" "batch_from C part bm"
  shows "batches_of C s s' (part @ current)"
proof -
  from assms(1) obtain bs parts where "pp_sent s' = pp_sent s1 @ bs" "concat parts = current"
    "list_all2 (batch_from C) parts bs" unfolding batches_of_def by blast
  with assms(2,3) show ?thesis
    unfolding batches_of_def
    by (intro exI [of _ "bm # bs"], intro exI [of _ "part # parts"]) simp
qed

lemma send_batches_ends:
  assumes "batch_size_ok (pc_cross_requests_batching C) (pc_max_batch_size C)
    (pc_supported_batch_sizes C)"
  shows "\<exists>r. send_batches E C current s = Some r \<and>
    (case r of Inl _ \<Rightarrow> True | Inr s' \<Rightarrow> batches_of C s s' current)"
proof (induction "length current" arbitrary: current s rule: less_induct)
  case less
  show ?case
  proof (cases "current = []")
    case True
    then show ?thesis by (simp add: send_batches.simps batches_of_def)
  next
    case False
    from choose_batch_size_ok [OF assms, of "length current"] False obtain b where
      b: "choose_batch_size (pc_cross_requests_batching C) (pc_max_batch_size C)
            (pc_supported_batch_sizes C) (length current) = Inr b" "1 \<le> b" "b \<le> int (length current)"
      "b \<in> insert 1 (insert (pc_max_batch_size C) (set (pc_supported_batch_sizes C)))"
      "pc_cross_requests_batching C \<Longrightarrow> b \<le> pc_max_batch_size C"
      "\<not> pc_cross_requests_batching C \<Longrightarrow> b = 1" by auto
    let ?now = "take (nat b) current" and ?later = "drop (nat b) current"
    show ?thesis
    proof (cases "send_batch E (pc_model_uuid C) ?now s")
      case (Inl e)
      with False b show ?thesis by (subst send_batches.simps) simp
    next
      case (Inr s1)
      have "length ?later < length current" using b False by simp
      from less [OF this, of s1] obtain r where r: "send_batches E C ?later s1 = Some r"
        "case r of Inl _ \<Rightarrow> True | Inr s' \<Rightarrow> batches_of C s1 s' ?later" by blast
      have eq: "send_batches E C current s = Some r"
        using False b Inr r by (subst send_batches.simps) simp
      have "batch_fits C (length ?now)" using b unfolding batch_fits_def by auto
      from send_batch_sent [OF Inr this] obtain bm where
        bm: "pp_sent s1 = pp_sent s @ [bm]" "batch_from C ?now bm" by blast
      have "batches_of C s s' (?now @ ?later)" if "batches_of C s1 s' ?later" for s'
        using that bm by (rule batches_of_step)
      with r(2) eq show ?thesis by (cases r) simp_all
    qed
  qed
qed

text \<open>An item that can be sent: a dictionary of lists, and metadata with the stage's time stamp.\<close>

fun tensor_dict :: "py_value \<Rightarrow> bool" where
  "tensor_dict (PyDict d) = list_all (\<lambda>(k, v). hashable k \<and> v \<in> range PyList) d"
| "tensor_dict _ = False"

definition sendable :: "string \<Rightarrow> py_value \<times> task_metadata \<Rightarrow> bool" where
  "sendable uuid x \<longleftrightarrow>
     tensor_dict (fst x) \<and> stage_open uuid ''preprocessing_t0'' (tm_extra (snd x))"

lemma tensor_dict_items:
  assumes "tensor_dict x"
  shows "\<exists>ks. py_iter x = Inr ks \<and> (\<forall>k \<in> set ks. \<exists>xs. py_getitem x k = Inr (PyList xs))"
proof -
  from assms obtain d where d: "x = PyDict d" by (cases x) auto
  have "\<exists>xs. py_getitem x k = Inr (PyList xs)" if "k \<in> set (dkeys d)" for k
  proof -
    from that obtain v where v: "map_of d k = Some v" by (auto simp: in_dkeys_iff)
    with assms d have "hashable k \<and> v \<in> range PyList"
      by (auto simp: list_all_iff dest: map_of_SomeD)
    with d v show ?thesis by (auto simp: dlookup_def)
  qed
  then have "\<forall>k \<in> set (dkeys d). \<exists>xs. py_getitem x k = Inr (PyList xs)" by (rule ballI)
  moreover have "py_iter x = Inr (dkeys d)" by (simp add: d)
  ultimately show ?thesis by (intro exI conjI)
qed

lemma extend_all_total:
  assumes "tensor_dict x"
  shows "\<exists>d'. bindE (py_iter x) (foldE (\<lambda>d k. bindE (py_getitem x k)
      (\<lambda>v. bindE (py_iter v) (\<lambda>xs. Inr (extend_entry d k xs)))) d) = Inr d' \<and> True"
proof -
  from tensor_dict_items [OF assms] obtain ks where e: "py_iter x = Inr ks"
    "\<forall>k \<in> set ks. \<exists>xs. py_getitem x k = Inr (PyList xs)" by blast
  have "\<exists>r. foldE (\<lambda>d k. bindE (py_getitem x k)
      (\<lambda>v. bindE (py_iter v) (\<lambda>xs. Inr (extend_entry d k xs)))) d ks = Inr r \<and> True"
  proof (rule foldE_total)
    fix d k assume "k \<in> set ks"
    with e(2) obtain xs where "py_getitem x k = Inr (PyList xs)" by blast
    then show "\<exists>s'. bindE (py_getitem x k) (\<lambda>v. bindE (py_iter v) (\<lambda>xs. Inr (extend_entry d k xs))) =
        Inr s' \<and> True" by simp
  qed simp
  with e(1) show ?thesis by simp
qed

lemma transform_batch_total:
  assumes "list_all (sendable uuid) items"
  shows "\<exists>b. transform_batch (map fst items) = Inr b"
proof -
  have "\<exists>b. transform_batch (map fst items) = Inr b \<and> True"
    unfolding transform_batch_def
  proof (rule foldE_total)
    fix d x assume "x \<in> set (map fst items)"
    with assms have "tensor_dict x" by (auto simp: list_all_iff sendable_def)
    then show "\<exists>d'. bindE (py_iter x) (foldE (\<lambda>d k. bindE (py_getitem x k)
      (\<lambda>v. bindE (py_iter v) (\<lambda>xs. Inr (extend_entry d k xs)))) d) = Inr d' \<and> True"
      by (rule extend_all_total)
  qed simp
  then show ?thesis by blast
qed

lemma preproc_exiting_total:
  assumes "stage_open uuid ''preprocessing_t0'' extra"
  shows "\<exists>e. preproc_exiting E uuid k extra = Inr e \<and> has_model_dict uuid e"
proof -
  from assms obtain d t where "map_of extra (PyStr uuid) = Some (PyDict d)"
    "map_of d (PyStr ''preprocessing_t0'') = Some (PyFloat t)"
    by (auto simp: stage_open_def)
  then show ?thesis
    by (simp add: preproc_exiting_def pop_model_key_def set_model_key_def dlookup_def dict_simps
        has_model_dict_def)
qed

lemma exit_batch_total:
  assumes "list_all (\<lambda>m. stage_open uuid ''preprocessing_t0'' (tm_extra m)) ms"
  shows "\<exists>ms' n'. exit_batch E uuid n ms = Inr (ms', n') \<and>
    list_all (\<lambda>m. has_model_dict uuid (tm_extra m)) ms'"
  unfolding exit_batch_def by (rule stamp_all_total [OF assms preproc_exiting_total])

lemma send_batches_returns:
  assumes "list_all (sendable (pc_model_uuid C)) current" "send_batches E C current s = Some r"
  shows "\<not> isl r \<or> (\<exists>n. isl (choose_batch_size (pc_cross_requests_batching C) (pc_max_batch_size C)
    (pc_supported_batch_sizes C) n) \<and> 0 < n)"
proof -
  have "list_all (sendable (pc_model_uuid C')) xs \<longrightarrow> \<not> isl r \<or>
      (\<exists>n. isl (choose_batch_size (pc_cross_requests_batching C') (pc_max_batch_size C')
        (pc_supported_batch_sizes C') n) \<and> 0 < n)"
    if "send_batches E' C' xs s' = Some r" for E' C' xs s' r
  proof (rule send_batches.raw_induct [where P = "\<lambda>_ C' xs _ r.
      list_all (sendable (pc_model_uuid C')) xs \<longrightarrow> \<not> isl r \<or>
      (\<exists>n. isl (choose_batch_size (pc_cross_requests_batching C') (pc_max_batch_size C')
        (pc_supported_batch_sizes C') n) \<and> 0 < n)", OF _ that], goal_cases)
    case (1 loop E' C' xs s' r)
    show ?case
    proof (intro impI)
      assume ok: "list_all (sendable (pc_model_uuid C')) xs"
      show "\<not> isl r \<or> (\<exists>n. isl (choose_batch_size (pc_cross_requests_batching C')
        (pc_max_batch_size C') (pc_supported_batch_sizes C') n) \<and> 0 < n)"
      proof (cases "xs = [] \<or> isl (choose_batch_size (pc_cross_requests_batching C')
          (pc_max_batch_size C') (pc_supported_batch_sizes C') (length xs))")
        case True
        with 1(2) show ?thesis by (cases "xs = []") auto
      next
        case False
        then obtain b where b: "choose_batch_size (pc_cross_requests_batching C')
            (pc_max_batch_size C') (pc_supported_batch_sizes C') (length xs) = Inr b"
          by (metis isl_def sum.exhaust)
        have now: "list_all (sendable (pc_model_uuid C')) (take (nat b) xs)"
          "list_all (sendable (pc_model_uuid C')) (drop (nat b) xs)"
          using ok by (auto simp: list_all_iff dest: in_set_takeD in_set_dropD)
        then have "list_all (\<lambda>m. stage_open (pc_model_uuid C') ''preprocessing_t0'' (tm_extra m))
            (map snd (take (nat b) xs))"
          by (auto simp: list_all_iff sendable_def)
        from exit_batch_total [OF this, of E' "pp_clock s'"] obtain ms n where
          "exit_batch E' (pc_model_uuid C') (pp_clock s') (map snd (take (nat b) xs)) = Inr (ms, n)"
          by force
        with transform_batch_total [OF now(1)] obtain s1 where
          "send_batch E' (pc_model_uuid C') (take (nat b) xs) s' = Inr s1"
          unfolding send_batch_def by auto
        with 1(2) b False have "loop E' C' (drop (nat b) xs) s1 = Some r" by simp
        with 1(1) now(2) show ?thesis by blast
      qed
    qed
  qed
  from this [OF assms(2)] assms(1) show ?thesis by blast
qed

lemma send_batches_total:
  assumes "batch_size_ok (pc_cross_requests_batching C) (pc_max_batch_size C)
    (pc_supported_batch_sizes C)" "list_all (sendable (pc_model_uuid C)) current"
  shows "\<exists>s'. send_batches E C current s = Some (Inr s') \<and>
    batches_of C s s' current"
proof -
  from send_batches_ends [OF assms(1)] obtain r where r: "send_batches E C current s = Some r"
    "case r of Inl _ \<Rightarrow> True | Inr s' \<Rightarrow> batches_of C s s' current" by blast
  have "\<not> isl r"
    using send_batches_returns [OF assms(2) r(1)]
  proof (elim disjE exE conjE)
    fix n assume "isl (choose_batch_size (pc_cross_requests_batching C) (pc_max_batch_size C)
      (pc_supported_batch_sizes C) n)" "0 < n"
    with choose_batch_size_ok [OF assms(1), of n] show ?thesis by auto
  qed
  with r show ?thesis by (cases r) auto
qed

text \<open>C22: when the profile of the model has the batch size 1 (or requests are not batched together)
  and the preprocessing function returned dictionaries of lists, the loop that sends the
  current batch ends without raising. The batches it sends divide the current batch in the
  order of arrival: each holds the tensors and the metadata of its requests (unchanged but for
  the time stamps), is non-empty, of a size that the profile supports, and not larger than the
  plan allows.\<close>

theorem send_batches_partitions:
  assumes "batch_size_ok (pc_cross_requests_batching C) (pc_max_batch_size C)
    (pc_supported_batch_sizes C)" "list_all (sendable (pc_model_uuid C)) current"
  shows "\<exists>s'. send_batches E C current s = Some (Inr s') \<and>
    batches_of C s s' current"
  using assms by (rule send_batches_total)

lemma hanging_batches:
  assumes "pc_cross_requests_batching C" "current \<noteq> []" "pc_supported_batch_sizes C \<noteq> []"
    "int (length current) < pc_max_batch_size C"
    "list_all (\<lambda>b. int (length current) < b) (pc_supported_batch_sizes C)"
  shows "send_batches E C current s = None"
proof -
  have z: "choose_batch_size True (pc_max_batch_size C) (pc_supported_batch_sizes C)
      (length current) = Inr 0"
    by (rule choose_batch_size_zero) (use assms in simp_all)
  have "C' = C \<longrightarrow> xs = current \<longrightarrow> False" if "send_batches E' C' xs s' = Some r" for E' C' xs s' r
    by (rule send_batches.raw_induct
        [where P = "\<lambda>_ C' xs _ _. C' = C \<longrightarrow> xs = current \<longrightarrow> False", OF _ that])
      (auto simp: assms(1,2) z send_batch_empty, blast)
  from this [of E C current s] show "send_batches E C current s = None"
    by (cases "send_batches E C current s") simp_all
qed

text \<open>C23: with batching across requests and a profile whose sizes are all larger than what is left
  of the current batch, the loop chooses the size 0 again and again: it sends empty batches
  and never ends, so the preprocessor hangs.\<close>

theorem send_batches_hangs:
  assumes "pc_cross_requests_batching C" "current \<noteq> []" "pc_supported_batch_sizes C \<noteq> []"
    "int (length current) < pc_max_batch_size C"
    "list_all (\<lambda>b. int (length current) < b) (pc_supported_batch_sizes C)"
  shows "send_batches E C current s = None"
  using assms by (rule hanging_batches)

subsection \<open>Concrete batches\<close>

definition sample_preproc :: "int list \<Rightarrow> preproc_config" where
  "sample_preproc supported = \<lparr>pc_model_uuid = ''m'',
     pc_preproc_fn = (\<lambda>d p m. (m, Inr (PyDict d, False))), pc_preproc_extra_params = [],
     pc_max_batch_size = 4, pc_cross_requests_batching = True,
     pc_supported_batch_sizes = supported\<rparr>"

definition sample_preproc_state :: preproc_state where
  "sample_preproc_state = \<lparr>pp_clock = 0, pp_sent = [], pp_errors = []\<rparr>"

definition sample_item :: "py_value \<times> task_metadata" where
  "sample_item = (PyDict [(PyStr ''x'', PyList [PyInt 1])],
     (sample_task ''-'' [''back''])\<lparr>tm_extra :=
        [(PyStr ''m'', PyDict [(PyStr ''preprocessing_t0'', PyFloat 0)])]\<rparr>)"

theorem send_batches_partitions_witness:
  "\<exists>s'. send_batches sample_backend_env (sample_preproc [4, 1]) [sample_item, sample_item, sample_item]
     sample_preproc_state = Some (Inr s') \<and>
   batches_of (sample_preproc [4, 1]) sample_preproc_state s'
     [sample_item, sample_item, sample_item]"
  by (rule send_batches_partitions)
    (simp_all add: sample_preproc_def batch_size_ok_def sample_item_def sendable_def stage_open_def)

theorem send_batches_hangs_witness:
  "send_batches sample_backend_env (sample_preproc [4]) [sample_item] sample_preproc_state = None"
  by (rule send_batches_hangs) (simp_all add: sample_preproc_def)

end
