(* ===== verification/Nxs_Input.thy ===== *)
theory Nxs_Input
  imports Nxs_Preproc
begin

section \<open>Input processes (\<open>main_processes/backend/input_process.py\<close>, \<open>input_process_basic.py\<close>)\<close>

text \<open>
  The first process of a component model: it reads the queues of its sessions, lets the
  dispatcher order the requests and passes them to the preprocessors. The backend's main
  process adds and removes sessions through a list of commands. \<open>input_iteration\<close> is one
  round of the loop of \<open>_run\<close>; what the queues deliver is an argument of the round.
\<close>

subsection \<open>Sessions, as the main process sees them\<close>

datatype session_cmd = AddSession string | RemoveSession string

text \<open>\<open>input_interface_args_dict\<close> (its keys) and \<open>process_update_shared_list\<close>.\<close>

record session_control =
  sc_sessions :: "string list"
  sc_commands :: "session_cmd list"

definition add_session :: "session_control \<Rightarrow> string \<Rightarrow> session_control" where
  "add_session c u =
     (if u \<in> set (sc_sessions c) then c
      else c\<lparr>sc_commands := sc_commands c @ [AddSession u], sc_sessions := sc_sessions c @ [u]\<rparr>)"

definition remove_session_uuid :: "session_control \<Rightarrow> string \<Rightarrow> session_control" where
  "remove_session_uuid c u =
     (if u \<in> set (sc_sessions c)
      then c\<lparr>sc_commands := sc_commands c @ [RemoveSession u],
             sc_sessions := removeAll u (sc_sessions c)\<rparr>
      else c)"

subsection \<open>State\<close>

record input_state =
  in_clock :: nat
  in_sessions :: "string list"
  in_delaying :: "infer_request list"
  in_dispatcher :: dispatcher
  in_sent :: "infer_request list"
  in_logs :: "cmodel_throughput_log list"
  in_process_t0 :: rat
  in_dispatcher_t0 :: rat

text \<open>
  What a round finds: the commands, the reports of the output processes (None when the process
  has no such list), whether it has to stop, and what each session's queue delivers when it
  is read or closed.
\<close>

record input_round =
  rd_commands :: "session_cmd list"
  rd_reports :: "output_stats list option"
  rd_stop :: bool
  rd_reads :: "string \<Rightarrow> infer_request list"
  rd_remains :: "string \<Rightarrow> infer_request list"

subsection \<open>Limits\<close>

text \<open>The latency of the plan's batch size in seconds, 1 when the profile does not have it.\<close>

definition input_max_latency :: "profile_unit list \<Rightarrow> int \<Rightarrow> rat" where
  "input_max_latency profile max_bs =
     (case find_first (\<lambda>p. pu_batch_size p = max_bs) profile of
        None \<Rightarrow> 1
      | Some p \<Rightarrow> lm_max (pu_latency_e2e p) / 1000)"

definition input_max_queue_size :: "profile_unit list \<Rightarrow> int \<Rightarrow> int result" where
  "input_max_queue_size profile max_bs =
     (let l = input_max_latency profile max_bs; q = 1 / l * of_int max_bs
      in if l = 0 then Inl ZeroDivisionError
         else Inr (max 1 (if q < 0 then \<lceil>q\<rceil> else \<lfloor>q\<rfloor>)))"

subsection \<open>Time stamps\<close>

definition input_entering :: "backend_env \<Rightarrow> string \<Rightarrow> nat \<Rightarrow> pydict \<Rightarrow> pydict \<times> nat" where
  "input_entering E uuid n extra =
     (let (extra, n) =
        (if PyStr ''input_t0'' \<in> set (dkeys extra) then (extra, n)
         else (AList.update (PyStr ''input_t0'') (PyFloat (be_now E n)) extra, n + 1))
      in (AList.update (PyStr uuid) (PyDict [(PyStr ''input_t0'', PyFloat (be_now E n))]) extra, n + 1))"

definition input_exiting :: "backend_env \<Rightarrow> string \<Rightarrow> nat \<Rightarrow> pydict \<Rightarrow> pydict result" where
  "input_exiting E uuid n extra =
     bindE (pop_model_key uuid ''input_t0'' extra) (\<lambda>(v, extra).
     bindE (py_number v) (\<lambda>t0.
       set_model_key uuid ''input_lat'' (PyFloat (be_now E n - t0)) extra))"

text \<open>A request gets its stamp: extras that cannot be unpickled are replaced.\<close>

definition enter_request ::
    "backend_env \<Rightarrow> string \<Rightarrow> nat \<Rightarrow> infer_request \<Rightarrow> (infer_request \<times> nat) result" where
  "enter_request E uuid n r =
     (case (case rm_carry_over_extras r of
              None \<Rightarrow> PyDict []
            | Some b \<Rightarrow> (case pickle_loads b of Inl _ \<Rightarrow> PyDict [] | Inr v \<Rightarrow> v)) of
        PyDict d \<Rightarrow>
          (let (extra, n) = input_entering E uuid n d
           in Inr (r\<lparr>rm_carry_over_extras := Some (Pickled (PyDict extra))\<rparr>, n))
      | _ \<Rightarrow> Inl TypeError)"

text \<open>On the way out the extras must be there: \<open>pickle.loads(None)\<close> raises.\<close>

definition exit_request ::
    "backend_env \<Rightarrow> string \<Rightarrow> nat \<Rightarrow> infer_request \<Rightarrow> (infer_request \<times> nat) result" where
  "exit_request E uuid n r =
     (case rm_carry_over_extras r of
        None \<Rightarrow> Inl TypeError
      | Some b \<Rightarrow> bindE (pickle_loads b) (\<lambda>v.
          case v of
            PyDict d \<Rightarrow> bindE (input_exiting E uuid n d) (\<lambda>extra.
              Inr (r\<lparr>rm_carry_over_extras := Some (Pickled (PyDict extra))\<rparr>, n + 1))
          | _ \<Rightarrow> Inl TypeError))"

definition stamp_requests ::
    "(nat \<Rightarrow> infer_request \<Rightarrow> (infer_request \<times> nat) result) \<Rightarrow> nat \<Rightarrow> infer_request list \<Rightarrow>
       (infer_request list \<times> nat) result" where
  "stamp_requests f n rs =
     foldE (\<lambda>(done, n) r. bindE (f n r) (\<lambda>(r', n'). Inr (done @ [r'], n'))) ([], n) rs"

subsection \<open>Commands and reports\<close>

definition run_command ::
    "(string \<Rightarrow> infer_request list) \<Rightarrow> infer_request list \<times> string list \<Rightarrow> session_cmd \<Rightarrow>
       infer_request list \<times> string list" where
  "run_command remains = (\<lambda>(incoming, sessions) cmd.
     case cmd of
       RemoveSession u \<Rightarrow>
         (if u \<in> set sessions then (incoming @ remains u, removeAll u sessions)
          else (incoming, sessions))
     | AddSession u \<Rightarrow>
         (if u \<in> set sessions then (incoming, sessions) else (incoming, sessions @ [u])))"

definition update_sessions ::
    "backend_env \<Rightarrow> input_round \<Rightarrow> rat \<Rightarrow> infer_request list \<Rightarrow> input_state \<Rightarrow>
       infer_request list \<times> input_state" where
  "update_sessions E R cur incoming s =
     (if cur - in_process_t0 s > 1
      then (let (incoming, sessions) =
                  foldl (run_command (rd_remains R)) (incoming, in_sessions s) (rd_commands R)
            in (incoming, s\<lparr>in_sessions := sessions, in_process_t0 := be_now E (in_clock s),
                            in_clock := Suc (in_clock s)\<rparr>))
      else (incoming, s))"

definition throughput_log :: "string \<Rightarrow> stats_summary \<Rightarrow> cmodel_throughput_log" where
  "throughput_log uuid ss = \<lparr>tl_model_uuid = uuid, tl_total_reqs = int (ss_total_reqs ss),
     tl_fps = ss_fps ss, tl_latency_mean = ss_mean ss, tl_latency_min = ss_min ss,
     tl_latency_max = ss_max ss, tl_extra = []\<rparr>"

text \<open>The summary of a dispatcher without one is an empty dictionary: reading it raises.\<close>

definition update_dispatcher ::
    "backend_env \<Rightarrow> string \<Rightarrow> input_round \<Rightarrow> rat \<Rightarrow> input_state \<Rightarrow> input_state result" where
  "update_dispatcher E uuid R cur s =
     (if cur - in_dispatcher_t0 s > 1
      then bindE
        (case rd_reports R of
           None \<Rightarrow> Inr s
         | Some reports \<Rightarrow>
             (let d = foldl update_stats (in_dispatcher s) reports
              in case get_stats_summary d of
                   None \<Rightarrow> Inl KeyError
                 | Some ss \<Rightarrow> Inr (s\<lparr>in_dispatcher := d, in_logs := in_logs s @ [throughput_log uuid ss]\<rparr>)))
        (\<lambda>s. Inr (s\<lparr>in_dispatcher_t0 := be_now E (in_clock s), in_clock := Suc (in_clock s)\<rparr>))
      else Inr s)"

subsection \<open>One round\<close>

text \<open>
  Each session is read in turn, and everything read is dispatched; but the variable
  \<open>new_requests\<close> holds only what the last session delivered when the loop that stamps the
  new requests runs.
\<close>

definition read_sessions :: "(string \<Rightarrow> infer_request list) \<Rightarrow> string list \<Rightarrow>
    infer_request list \<times> infer_request list" where
  "read_sessions reads sessions =
     (if sessions = [] then ([], [])
      else (concat (map reads (butlast sessions)), reads (last sessions)))"

definition schedule_requests ::
    "backend_env \<Rightarrow> string \<Rightarrow> dispatcher_result \<Rightarrow> input_state \<Rightarrow> input_state result" where
  "schedule_requests E uuid dr s =
     bindE (stamp_requests (exit_request E uuid) (in_clock s) (dr_to_schedule dr)) (\<lambda>(rs, n).
       Inr (s\<lparr>in_clock := n, in_sent := in_sent s @ rs, in_delaying := dr_to_delay dr\<rparr>))"

definition input_iteration ::
    "backend_env \<Rightarrow> (string \<Rightarrow> rat result) \<Rightarrow> string \<Rightarrow> input_round \<Rightarrow> input_state \<Rightarrow>
       (input_state \<times> bool) result" where
  "input_iteration E parse_float uuid R s =
     (let cur = be_now E (in_clock s);
          (incoming, s1) = update_sessions E R cur (in_delaying s)
                             (s\<lparr>in_clock := Suc (in_clock s), in_delaying := []\<rparr>)
      in bindE (update_dispatcher E uuid R cur s1) (\<lambda>s2.
           let (earlier, new) =
                 read_sessions (if rd_stop R then rd_remains R else rd_reads R) (in_sessions s2)
           in bindE (stamp_requests (enter_request E uuid) (in_clock s2) new) (\<lambda>(new, n).
              bindE (dispatch parse_float (in_dispatcher s2) (incoming @ earlier @ new)) (\<lambda>dr.
              bindE (schedule_requests E uuid dr (s2\<lparr>in_clock := n\<rparr>)) (\<lambda>s3.
                Inr (s3, rd_stop R))))))"

end
