(* ===== verification/Nxs_Input_Props.thy ===== *)
theory Nxs_Input_Props
  imports Nxs_Input Nxs_Backend_Samples
begin

section \<open>What an input process forwards\<close>

text \<open>
  With one session, every request read is forwarded in order with its time stamps. With
  several sessions, a request of any session but the last makes the process raise.
\<close>

subsection \<open>Stamps\<close>

text \<open>The extras of a request are absent, unreadable, or a dictionary.\<close>

definition extras_ok :: "infer_request \<Rightarrow> bool" where
  "extras_ok r \<longleftrightarrow>
     (case rm_carry_over_extras r of Some (Pickled v) \<Rightarrow> v \<in> range PyDict | _ \<Rightarrow> True)"

text \<open>The same request but for its extras.\<close>

definition same_request :: "infer_request \<Rightarrow> infer_request \<Rightarrow> bool" where
  "same_request r q \<longleftrightarrow>
     r\<lparr>rm_carry_over_extras := None\<rparr> = q\<lparr>rm_carry_over_extras := None\<rparr>"

definition entered :: "string \<Rightarrow> infer_request \<Rightarrow> bool" where
  "entered uuid r \<longleftrightarrow>
     (\<exists>d. rm_carry_over_extras r = Some (Pickled (PyDict d)) \<and> stage_open uuid ''input_t0'' d)"

lemma input_entering_open: "stage_open uuid ''input_t0'' (fst (input_entering E uuid n d))"
  by (simp add: input_entering_def stage_open_def dict_simps split: prod.splits)

lemma input_exiting_total:
  assumes "stage_open uuid ''input_t0'' d"
  shows "\<exists>e. input_exiting E uuid n d = Inr e"
proof -
  from assms obtain m t where "map_of d (PyStr uuid) = Some (PyDict m)"
    "map_of m (PyStr ''input_t0'') = Some (PyFloat t)" by (auto simp: stage_open_def)
  then show ?thesis
    by (simp add: input_exiting_def pop_model_key_def set_model_key_def dlookup_def dict_simps)
qed

lemma enter_request_total:
  assumes "extras_ok r"
  shows "\<exists>r' n'. enter_request E uuid n r = Inr (r', n') \<and> same_request r r' \<and> entered uuid r'"
proof -
  obtain d where d: "(case rm_carry_over_extras r of None \<Rightarrow> PyDict []
      | Some b \<Rightarrow> (case pickle_loads b of Inl _ \<Rightarrow> PyDict [] | Inr v \<Rightarrow> v)) = PyDict d"
    using assms by (auto simp: extras_ok_def split: option.splits py_bytes.splits)
  obtain e n' where "input_entering E uuid n d = (e, n')" by force
  with d input_entering_open [of uuid E n d] show ?thesis
    by (auto simp: enter_request_def same_request_def entered_def)
qed

lemma exit_request_total:
  assumes "entered uuid r"
  shows "\<exists>r' n'. exit_request E uuid n r = Inr (r', n') \<and> same_request r r'"
proof -
  from assms obtain d where d: "rm_carry_over_extras r = Some (Pickled (PyDict d))"
    "stage_open uuid ''input_t0'' d" by (auto simp: entered_def)
  from input_exiting_total [OF d(2)] obtain e where "input_exiting E uuid n d = Inr e" by blast
  with d(1) show ?thesis by (simp add: exit_request_def same_request_def)
qed

text \<open>A loop that stamps requests, each of which can be stamped.\<close>

lemma stamp_requests_total:
  assumes "\<And>n r. r \<in> set rs \<Longrightarrow> \<exists>r' n'. f n r = Inr (r', n') \<and> Q r r'"
  shows "\<exists>rs' n'. stamp_requests f n rs = Inr (rs', n') \<and> list_all2 Q rs rs'"
proof -
  have "\<exists>x. stamp_requests f n rs = Inr x \<and> list_all2 Q rs (fst x)"
    unfolding stamp_requests_def
  proof (rule foldE_prefix_total)
    fix ys r zs and s :: "infer_request list \<times> nat"
    assume rs: "rs = ys @ r # zs" and ys: "list_all2 Q ys (fst s)"
    from rs assms [of r "snd s"] obtain r' n' where "f (snd s) r = Inr (r', n')" "Q r r'" by auto
    with ys show "\<exists>s'. (case s of (done, n) \<Rightarrow> \<lambda>r. bindE (f n r) (\<lambda>(r', n'). Inr (done @ [r'], n'))) r =
        Inr s' \<and> list_all2 Q (ys @ [r]) (fst s')"
      by (cases s) (simp add: list_all2_appendI)
  qed simp
  then show ?thesis by force
qed

lemma stamp_requests_raises:
  assumes "\<And>n. \<exists>e. f n r = Inl e"
  shows "\<exists>e. stamp_requests f n (xs @ r # ys) = Inl e"
proof (cases "stamp_requests f n xs")
  case (Inl e)
  then show ?thesis by (simp add: stamp_requests_def foldE_append)
next
  case (Inr x)
  from assms [of "snd x"] obtain e where "f (snd x) r = Inl e" by blast
  with Inr show ?thesis by (cases x) (simp add: stamp_requests_def foldE_append)
qed

subsection \<open>One session\<close>

definition monitoring :: "dispatcher \<Rightarrow> bool" where
  "monitoring d \<longleftrightarrow> (\<exists>m. d = MonitoringDispatcher m)"

lemma foldl_update_stats_monitoring:
  "monitoring d \<Longrightarrow> monitoring (foldl update_stats d ss)"
  by (induction ss arbitrary: d) (auto simp: monitoring_def)

lemma update_dispatcher_total:
  assumes "monitoring (in_dispatcher s)"
  shows "\<exists>s'. update_dispatcher E uuid R cur s = Inr s' \<and> monitoring (in_dispatcher s') \<and>
    in_sessions s' = in_sessions s \<and> in_sent s' = in_sent s \<and> in_delaying s' = in_delaying s"
proof (cases "rd_reports R")
  case None
  with assms show ?thesis by (simp add: update_dispatcher_def)
next
  case (Some reports)
  from foldl_update_stats_monitoring [OF assms, of reports] obtain m where
    "foldl update_stats (in_dispatcher s) reports = MonitoringDispatcher m"
    by (auto simp: monitoring_def)
  with Some assms show ?thesis by (simp add: update_dispatcher_def monitoring_def)
qed

lemma update_sessions_idle:
  assumes "rd_commands R = []"
  shows "\<exists>s1. update_sessions E R cur incoming s = (incoming, s1) \<and> in_sessions s1 = in_sessions s \<and>
    in_dispatcher s1 = in_dispatcher s \<and> in_sent s1 = in_sent s \<and> in_delaying s1 = in_delaying s"
  using assms by (cases "cur - in_process_t0 s > 1") (simp_all add: update_sessions_def)

text \<open>an input process that serves one session, with the monitoring dispatcher it is given in a
  deployment, never raises: it forwards what it had delayed and exactly what the session's
  queue delivers, in order, unchanged but for the time stamps in the extras.\<close>

theorem input_forwards_session:
  assumes "in_sessions s = [u]" "monitoring (in_dispatcher s)" "rd_commands R = []"
    "in_delaying s = []"
    "list_all extras_ok ((if rd_stop R then rd_remains R else rd_reads R) u)"
  shows "\<exists>s' rs. input_iteration E parse_float uuid R s = Inr (s', rd_stop R) \<and>
    in_sent s' = in_sent s @ rs \<and> in_delaying s' = [] \<and>
    list_all2 same_request ((if rd_stop R then rd_remains R else rd_reads R) u) rs"
proof -
  define cur where "cur = be_now E (in_clock s)"
  let ?new = "(if rd_stop R then rd_remains R else rd_reads R) u"
  obtain s1 where s1: "update_sessions E R cur [] (s\<lparr>in_clock := Suc (in_clock s), in_delaying := []\<rparr>)
      = ([], s1)" "in_sessions s1 = [u]" "in_dispatcher s1 = in_dispatcher s"
    "in_sent s1 = in_sent s" "in_delaying s1 = []"
    using update_sessions_idle [OF assms(3), of E cur "[]"
        "s\<lparr>in_clock := Suc (in_clock s), in_delaying := []\<rparr>"] assms(1) by auto
  from assms(2) s1(3) have "monitoring (in_dispatcher s1)" by simp
  from update_dispatcher_total [OF this, of E uuid R cur] obtain s2 where
    s2: "update_dispatcher E uuid R cur s1 = Inr s2" "monitoring (in_dispatcher s2)"
    "in_sessions s2 = [u]" "in_sent s2 = in_sent s" "in_delaying s2 = []" using s1 by auto
  have "\<exists>rs n'. stamp_requests (enter_request E uuid) (in_clock s2) ?new = Inr (rs, n') \<and>
      list_all2 (\<lambda>r r'. same_request r r' \<and> entered uuid r') ?new rs"
    by (rule stamp_requests_total, rule enter_request_total)
      (use assms(5) in \<open>simp add: list_all_iff\<close>)
  then obtain es n where es: "stamp_requests (enter_request E uuid) (in_clock s2) ?new = Inr (es, n)"
    "list_all2 (\<lambda>r r'. same_request r r' \<and> entered uuid r') ?new es" by blast
  from s2(2) have d: "dispatch parse_float (in_dispatcher s2) es =
      Inr \<lparr>dr_to_schedule = es, dr_to_delay = [], dr_to_drop = []\<rparr>"
    by (auto simp: dispatch_def monitoring_def)
  have "\<exists>rs n'. stamp_requests (exit_request E uuid) n es = Inr (rs, n') \<and>
      list_all2 same_request es rs"
  proof (rule stamp_requests_total, rule exit_request_total)
    fix r assume "r \<in> set es"
    with list_all2_right [OF es(2)] show "entered uuid r" by blast
  qed
  then obtain rs n' where rs: "stamp_requests (exit_request E uuid) n es = Inr (rs, n')"
    "list_all2 same_request es rs" by blast
  have "list_all2 same_request ?new rs"
    using list_all2_trans [OF _ es(2) rs(2), of same_request] by (auto simp: same_request_def)
  moreover have "input_iteration E parse_float uuid R s =
      Inr (s2\<lparr>in_clock := n', in_sent := in_sent s2 @ rs, in_delaying := []\<rparr>, rd_stop R)"
    using s1(1) s2(1,3) es(1) d rs(1) assms(4)
    by (simp add: input_iteration_def Let_def read_sessions_def schedule_requests_def
        cur_def [symmetric] split: if_splits)
  ultimately show ?thesis using s2(4) by auto
qed

subsection \<open>Several sessions\<close>

text \<open>when the process serves several sessions, a request without extras, as the frontend sends
  them, that comes from any session but the last is dispatched without having been stamped;
  unpickling its extras then raises and stops the input process.\<close>

theorem earlier_session_stops_input:
  assumes "in_sessions s = us @ [u]" "rd_commands R = []" "monitoring (in_dispatcher s)"
    "concat (map (if rd_stop R then rd_remains R else rd_reads R) us) = xs @ r # ys"
    "rm_carry_over_extras r = None"
  shows "\<exists>e. input_iteration E parse_float uuid R s = Inl e"
proof -
  define cur where "cur = be_now E (in_clock s)"
  obtain s1 where s1: "update_sessions E R cur (in_delaying s)
      (s\<lparr>in_clock := Suc (in_clock s), in_delaying := []\<rparr>) = (in_delaying s, s1)"
    "in_sessions s1 = us @ [u]" "in_dispatcher s1 = in_dispatcher s"
    using update_sessions_idle [OF assms(2), of E cur "in_delaying s"
        "s\<lparr>in_clock := Suc (in_clock s), in_delaying := []\<rparr>"] assms(1) by auto
  from assms(3) s1(3) have "monitoring (in_dispatcher s1)" by simp
  from update_dispatcher_total [OF this, of E uuid R cur] obtain s2 where
    s2: "update_dispatcher E uuid R cur s1 = Inr s2" "monitoring (in_dispatcher s2)"
    "in_sessions s2 = us @ [u]" using s1 by auto
  have read: "read_sessions (if rd_stop R then rd_remains R else rd_reads R) (us @ [u]) =
      (xs @ r # ys, (if rd_stop R then rd_remains R else rd_reads R) u)"
    by (simp only: read_sessions_def butlast_snoc last_snoc assms(4)) simp
  have raise: "\<exists>e. schedule_requests E uuid \<lparr>dr_to_schedule = as @ r # bs, dr_to_delay = [],
      dr_to_drop = []\<rparr> t = Inl e" for as bs t
    using stamp_requests_raises [of "exit_request E uuid" r "in_clock t" as bs] assms(5)
    by (auto simp: schedule_requests_def exit_request_def)
  have "\<exists>e. bindE (dispatch parse_float (in_dispatcher s2) (in_delaying s @ (xs @ r # ys) @ new))
      (\<lambda>dr. bindE (schedule_requests E uuid dr t) (\<lambda>s3. Inr (s3, rd_stop R))) = Inl e" for new t
    using s2(2) raise [of "in_delaying s @ xs" "ys @ new" t]
    by (auto simp: dispatch_def monitoring_def)
  then show ?thesis
    using s1(1) s2(1,3) read
    by (cases "stamp_requests (enter_request E uuid) (in_clock s2)
          ((if rd_stop R then rd_remains R else rd_reads R) u)")
      (auto simp: input_iteration_def Let_def cur_def [symmetric])
qed

subsection \<open>Concrete rounds\<close>

definition sample_infer_request :: infer_request where
  "sample_infer_request = infer_request_metadata.extend (sample_user ''-'' [''back''])
     (infer_request.fields [] PENDING)"

definition sample_input :: "string list \<Rightarrow> input_state" where
  "sample_input us = \<lparr>in_clock = 0, in_sessions = us, in_delaying = [],
     in_dispatcher = MonitoringDispatcher (new_monitoring_state 30), in_sent = [], in_logs = [],
     in_process_t0 = 0, in_dispatcher_t0 = 0\<rparr>"

definition sample_input_round :: input_round where
  "sample_input_round = \<lparr>rd_commands = [], rd_reports = Some [], rd_stop = False,
     rd_reads = (\<lambda>u. if u = ''a'' then [sample_infer_request] else []), rd_remains = (\<lambda>_. [])\<rparr>"

lemma sample_infer_request_extras: "rm_carry_over_extras sample_infer_request = None"
  by (simp add: sample_infer_request_def infer_request_metadata.defs infer_request.defs sample_user_def)

theorem input_forwards_session_witness:
  "\<exists>s' rs. input_iteration sample_backend_env (\<lambda>_. Inl ValueError) ''m'' sample_input_round
      (sample_input [''a'']) = Inr (s', False) \<and> in_sent s' = rs \<and>
    list_all2 same_request [sample_infer_request] rs"
proof -
  have "in_sessions (sample_input [''a'']) = [''a'']" "monitoring (in_dispatcher (sample_input [''a'']))"
    "rd_commands sample_input_round = []" "in_delaying (sample_input [''a'']) = []"
    by (simp_all add: sample_input_def sample_input_round_def monitoring_def)
  from input_forwards_session [OF this, of sample_backend_env "\<lambda>_. Inl ValueError" "''m''"]
  show ?thesis
    by (auto simp: sample_input_round_def sample_input_def extras_ok_def sample_infer_request_extras)
qed

theorem earlier_session_stops_input_witness:
  "\<exists>e. input_iteration sample_backend_env (\<lambda>_. Inl ValueError) ''m'' sample_input_round
     (sample_input [''a'', ''b'']) = Inl e"
  by (rule earlier_session_stops_input [where us = "[''a'']" and u = "''b''" and xs = "[]" and ys = "[]"
        and r = sample_infer_request])
    (simp_all add: sample_input_def sample_input_round_def monitoring_def sample_infer_request_extras)

end
