(* ===== verification/Nxs_Monitor.thy ===== *)
theory Nxs_Monitor
  imports Nxs_Types Nxs_Workload
begin

section \<open>The backend monitor (\<open>main_processes/backend_monitor/main.py\<close>)\<close>

text \<open>
  The monitor collects the throughput logs of the backends, keeps the last log of each
  backend for half a minute, publishes them, and counts requests: once a minute it adds what
  each model's counter has gained since the last minute, and at a longer interval it stores
  the sums. The clock, the logs that arrive and the failures of the database are arguments.
\<close>

subsection \<open>State\<close>

record minute_stats =
  mi_interval_reqs :: int
  mi_interval_stats :: "(string, int) dict"

record stored_stats =
  st_utc_ts :: rat
  st_lifetime_reqs :: int
  st_interval_reqs :: int
  st_stats :: "(string, int) dict"

record monitor =
  mo_clock :: nat
  mo_logs_dict :: "(string, backend_throughput_log) dict"
  mo_logs_ts_dict :: "(string, rat) dict"
  mo_last_num_reqs :: "(string, int) dict"
  mo_total_reqs :: int
  mo_merge_ts :: rat
  mo_last_sync_ts :: rat
  mo_log_cache :: "minute_stats list"
  mo_published :: "backend_throughput_log list list"
  mo_database :: "stored_stats list"

definition new_monitor :: "clock \<Rightarrow> monitor" where
  "new_monitor now = \<lparr>mo_clock = 2, mo_logs_dict = [], mo_logs_ts_dict = [], mo_last_num_reqs = [],
     mo_total_reqs = 0, mo_merge_ts = now 0, mo_last_sync_ts = now 1, mo_log_cache = [],
     mo_published = [], mo_database = []\<rparr>"

text \<open>What \<open>run\<close> reads at its start: the newest record of the database, if it can be read.\<close>

definition restore_monitor :: "stored_stats option \<Rightarrow> monitor \<Rightarrow> monitor" where
  "restore_monitor newest s =
     (case newest of
        None \<Rightarrow> s
      | Some r \<Rightarrow> s\<lparr>mo_total_reqs := st_lifetime_reqs r, mo_last_num_reqs := st_stats r\<rparr>)"

subsection \<open>Logs\<close>

definition process_logs :: "clock \<Rightarrow> monitor \<Rightarrow> backend_throughput_log list \<Rightarrow> monitor result" where
  "process_logs now s logs =
     (let ts = now (mo_clock s)
      in bindE (foldE (\<lambda>ks k. bindE (dlookup (mo_logs_ts_dict s) k) (\<lambda>t.
                  Inr (if ts - t > 30 then ks @ [k] else ks))) [] (dkeys (mo_logs_dict s))) (\<lambda>old.
         bindE (foldE (\<lambda>(d, td) k. bindE (dpop d k) (\<lambda>d. bindE (dpop td k) (\<lambda>td. Inr (d, td))))
                  (mo_logs_dict s, mo_logs_ts_dict s) old) (\<lambda>(d, td).
           Inr (s\<lparr>mo_clock := Suc (mo_clock s),
                  mo_logs_dict := foldl (\<lambda>d l. AList.update (bl_backend_name l) l d) d logs,
                  mo_logs_ts_dict := foldl (\<lambda>td l. AList.update (bl_backend_name l) ts td) td logs\<rparr>))))"

definition get_stored_logs :: "monitor \<Rightarrow> backend_throughput_log list" where
  "get_stored_logs s = map snd (mo_logs_dict s)"

subsection \<open>Counting requests\<close>

definition merged_key :: "backend_throughput_log \<Rightarrow> cmodel_throughput_log \<Rightarrow> string" where
  "merged_key b m = join_key (bl_backend_name b) (tl_model_uuid m)"

definition count_model ::
    "(string, int) dict \<Rightarrow> (string, int) dict \<times> int \<Rightarrow> string \<times> int \<Rightarrow> (string, int) dict \<times> int" where
  "count_model prev = (\<lambda>(cur, extra) (k, n). (AList.update k n cur, extra + max 0 (n - dget prev k 0)))"

text \<open>The counters of all models of all backends, in the order of the loops.\<close>

definition model_counters :: "backend_throughput_log list \<Rightarrow> (string \<times> int) list" where
  "model_counters logs =
     concat (map (\<lambda>b. map (\<lambda>m. (merged_key b m, tl_total_reqs m)) (bl_model_logs b)) logs)"

definition merge_logs :: "clock \<Rightarrow> backend_throughput_log list \<Rightarrow> monitor \<Rightarrow> monitor" where
  "merge_logs now logs s =
     (if now (mo_clock s) - mo_merge_ts s \<ge> 60
      then let (cur, extra) = foldl (count_model (mo_last_num_reqs s)) ([], 0) (model_counters logs)
           in s\<lparr>mo_total_reqs := mo_total_reqs s + extra, mo_last_num_reqs := cur,
                mo_merge_ts := now (Suc (mo_clock s)), mo_clock := mo_clock s + 2,
                mo_log_cache := mo_log_cache s @ [\<lparr>mi_interval_reqs = extra, mi_interval_stats = cur\<rparr>]\<rparr>
      else s\<lparr>mo_clock := Suc (mo_clock s)\<rparr>)"

definition interval_sum :: "minute_stats list \<Rightarrow> int \<times> (string, int) dict" where
  "interval_sum cache =
     foldl (\<lambda>(n, d) l. (n + mi_interval_reqs l,
              foldl (\<lambda>d (k, v). AList.update k v d) d (mi_interval_stats l))) (0, []) cache"

text \<open>Storing: when the database fails, the exception is caught and nothing else is done.\<close>

definition sync_db :: "clock \<Rightarrow> rat \<Rightarrow> bool \<Rightarrow> monitor \<Rightarrow> monitor" where
  "sync_db now interval db_ok s =
     (let n = mo_clock s
      in if now n - mo_last_sync_ts s > interval
         then if mo_log_cache s = []
              then s\<lparr>mo_last_sync_ts := now (n + 1), mo_clock := n + 2\<rparr>
              else if db_ok
                   then let (reqs, stats) = interval_sum (mo_log_cache s)
                        in s\<lparr>mo_database := mo_database s @ [\<lparr>st_utc_ts = now (n + 1),
                               st_lifetime_reqs = mo_total_reqs s, st_interval_reqs = reqs,
                               st_stats = stats\<rparr>],
                             mo_log_cache := [], mo_last_sync_ts := now (n + 2), mo_clock := n + 3\<rparr>
                   else s\<lparr>mo_clock := n + 2\<rparr>
         else s\<lparr>mo_clock := n + 1\<rparr>)"

text \<open>One round of the loop of \<open>run\<close>.\<close>

definition monitor_iteration ::
    "clock \<Rightarrow> rat \<Rightarrow> bool \<Rightarrow> backend_throughput_log list \<Rightarrow> monitor \<Rightarrow> monitor result" where
  "monitor_iteration now interval db_ok logs s =
     bindE (process_logs now s logs) (\<lambda>s.
       let stored = get_stored_logs s
       in Inr (sync_db now interval db_ok
                 (merge_logs now stored (s\<lparr>mo_published := mo_published s @ [stored]\<rparr>))))"

end
