(* ===== verification/Nxs_Monitor_Props.thy ===== *)
theory Nxs_Monitor_Props
  imports Nxs_Monitor
begin

section \<open>What the backend monitor accounts for\<close>

text \<open>
  The two dictionaries of logs agree, so a round never raises; and every request that is
  counted is in the stored intervals or still in the cache, whether or not the database fails.
\<close>

subsection \<open>The dictionaries agree\<close>

definition logs_agree :: "monitor \<Rightarrow> bool" where
  "logs_agree s \<longleftrightarrow> dict_ok (mo_logs_dict s) \<and> dict_ok (mo_logs_ts_dict s) \<and>
     set (dkeys (mo_logs_dict s)) = set (dkeys (mo_logs_ts_dict s))"

definition both_ok :: "('k, 'a) dict \<times> ('k, 'b) dict \<Rightarrow> bool" where
  "both_ok p \<longleftrightarrow> dict_ok (fst p) \<and> dict_ok (snd p) \<and> set (dkeys (fst p)) = set (dkeys (snd p))"

lemma both_ok_update: "both_ok (d, e) \<Longrightarrow> both_ok (AList.update k v d, AList.update k w e)"
  by (simp add: both_ok_def dkeys_update)

lemma both_ok_updates:
  "both_ok (d, e) \<Longrightarrow>
     both_ok (foldl (\<lambda>d l. AList.update (f l) l d) d ls, foldl (\<lambda>e l. AList.update (f l) t e) e ls)"
  by (induction ls arbitrary: d e) (simp_all add: both_ok_update)

lemma pop_both:
  assumes "both_ok (d, e)" "distinct ks" "set ks \<subseteq> set (dkeys d)"
  shows "\<exists>p. foldE (\<lambda>(d, e) k. bindE (dpop d k) (\<lambda>d. bindE (dpop e k) (\<lambda>e. Inr (d, e)))) (d, e) ks =
    Inr p \<and> both_ok p"
  using assms
proof (induction ks arbitrary: d e)
  case Nil
  then show ?case by simp
next
  case (Cons k ks)
  then obtain v w where vw: "map_of d k = Some v" "map_of e k = Some w"
    unfolding both_ok_def by (metis fst_conv in_dkeys_iff insertI1 list.simps(15) snd_conv subsetD)
  have "both_ok (AList.delete k d, AList.delete k e)"
    using Cons.prems(1) by (simp add: both_ok_def dkeys_delete)
  moreover have "set ks \<subseteq> set (dkeys (AList.delete k d))"
    using Cons.prems(2,3) by (auto simp: dkeys_delete)
  ultimately show ?case
    using Cons.IH Cons.prems(2) vw by (simp add: dpop_def dlookup_def)
qed

lemma old_keys_total:
  assumes "\<And>k. k \<in> set ks \<Longrightarrow> \<exists>t. map_of d k = Some t" "distinct ks"
  shows "\<exists>r. foldE (\<lambda>old k. bindE (dlookup d k) (\<lambda>t. Inr (if P t then old @ [k] else old))) [] ks =
    Inr r \<and> distinct r \<and> set r \<subseteq> set ks"
proof (rule foldE_prefix_total)
  fix ys k zs old
  assume ks: "ks = ys @ k # zs" and old: "distinct old \<and> set old \<subseteq> set ys"
  from ks assms(1) [of k] obtain t where "map_of d k = Some t" by auto
  with ks old assms(2) show "\<exists>s'. bindE (dlookup d k) (\<lambda>t. Inr (if P t then old @ [k] else old)) =
      Inr s' \<and> distinct s' \<and> set s' \<subseteq> set (ys @ [k])"
    by (auto simp: dlookup_def)
qed simp

lemma process_logs_total:
  assumes "logs_agree s"
  shows "\<exists>d td. process_logs now s logs = Inr (s\<lparr>mo_clock := Suc (mo_clock s), mo_logs_dict := d,
    mo_logs_ts_dict := td\<rparr>) \<and> both_ok (d, td)"
proof -
  let ?ts = "now (mo_clock s)"
  have "distinct (dkeys (mo_logs_dict s))" using assms by (simp add: logs_agree_def dict_ok_def)
  moreover have "\<exists>t. map_of (mo_logs_ts_dict s) k = Some t" if "k \<in> set (dkeys (mo_logs_dict s))" for k
    using assms that by (simp add: logs_agree_def in_dkeys_iff)
  ultimately obtain old where old: "foldE (\<lambda>ks k. bindE (dlookup (mo_logs_ts_dict s) k) (\<lambda>t.
      Inr (if ?ts - t > 30 then ks @ [k] else ks))) [] (dkeys (mo_logs_dict s)) = Inr old"
    "distinct old" "set old \<subseteq> set (dkeys (mo_logs_dict s))"
    using old_keys_total [of "dkeys (mo_logs_dict s)" "mo_logs_ts_dict s" "\<lambda>t. ?ts - t > 30"] by blast
  have "both_ok (mo_logs_dict s, mo_logs_ts_dict s)" using assms by (simp add: logs_agree_def both_ok_def)
  from pop_both [OF this old(2,3)] obtain d td where
    "foldE (\<lambda>(d, td) k. bindE (dpop d k) (\<lambda>d. bindE (dpop td k) (\<lambda>td. Inr (d, td))))
       (mo_logs_dict s, mo_logs_ts_dict s) old = Inr (d, td)" "both_ok (d, td)" by force
  with old(1) both_ok_updates [of d td bl_backend_name logs ?ts] show ?thesis
    by (simp add: process_logs_def) blast
qed

subsection \<open>The sums\<close>

definition stored_reqs :: "monitor \<Rightarrow> int" where
  "stored_reqs s = sum_list (map st_interval_reqs (mo_database s))"

definition cached_reqs :: "monitor \<Rightarrow> int" where
  "cached_reqs s = sum_list (map mi_interval_reqs (mo_log_cache s))"

definition monitor_inv :: "int \<Rightarrow> monitor \<Rightarrow> bool" where
  "monitor_inv t0 s \<longleftrightarrow> logs_agree s \<and> mo_total_reqs s = t0 + stored_reqs s + cached_reqs s \<and>
     list_all (\<lambda>l. mi_interval_reqs l \<ge> 0) (mo_log_cache s) \<and>
     list_all (\<lambda>r. st_interval_reqs r \<ge> 0 \<and> st_lifetime_reqs r \<le> mo_total_reqs s) (mo_database s)"

lemma count_models_nonneg: "snd p \<ge> 0 \<Longrightarrow> snd (foldl (count_model prev) p xs) \<ge> 0"
  by (induction xs arbitrary: p) (auto simp: count_model_def split: prod.splits)

lemma interval_sum_fst: "fst (interval_sum cache) = sum_list (map mi_interval_reqs cache)"
proof -
  have "fst (foldl (\<lambda>(n, d) l. (n + mi_interval_reqs l,
      foldl (\<lambda>d (k, v). AList.update k v d) d (mi_interval_stats l))) p cache) =
    fst p + sum_list (map mi_interval_reqs cache)" for p
    by (induction cache arbitrary: p) (auto split: prod.splits)
  then show ?thesis by (simp add: interval_sum_def)
qed

lemma merge_logs_inv:
  assumes "monitor_inv t0 s"
  shows "monitor_inv t0 (merge_logs now logs s)"
proof -
  obtain cur extra where e: "foldl (count_model (mo_last_num_reqs s)) ([], 0) (model_counters logs) =
      (cur, extra)" by force
  then have "extra \<ge> 0"
    using count_models_nonneg [of "([], 0)" "mo_last_num_reqs s" "model_counters logs"] by simp
  with assms e show ?thesis
    by (auto simp: merge_logs_def monitor_inv_def logs_agree_def stored_reqs_def cached_reqs_def
        list_all_iff)
qed

lemma sync_db_inv:
  assumes "monitor_inv t0 s"
  shows "monitor_inv t0 (sync_db now interval ok s)"
proof -
  obtain reqs stats where i: "interval_sum (mo_log_cache s) = (reqs, stats)" by force
  then have "reqs = cached_reqs s" using interval_sum_fst [of "mo_log_cache s"]
    by (simp add: cached_reqs_def)
  moreover have "cached_reqs s \<ge> 0"
    using assms by (auto simp: monitor_inv_def cached_reqs_def list_all_iff intro!: sum_list_nonneg)
  ultimately show ?thesis
    using assms i
    by (auto simp: sync_db_def Let_def monitor_inv_def logs_agree_def stored_reqs_def cached_reqs_def)
qed

lemma monitor_iteration_inv:
  assumes "monitor_inv t0 s"
  shows "\<exists>s'. monitor_iteration now interval ok logs s = Inr s' \<and> monitor_inv t0 s'"
proof -
  from assms have "logs_agree s" by (simp add: monitor_inv_def)
  from process_logs_total [OF this, of now logs] obtain d td where
    p: "process_logs now s logs = Inr (s\<lparr>mo_clock := Suc (mo_clock s), mo_logs_dict := d,
      mo_logs_ts_dict := td\<rparr>)" "both_ok (d, td)" by blast
  let ?s = "s\<lparr>mo_clock := Suc (mo_clock s), mo_logs_dict := d, mo_logs_ts_dict := td\<rparr>"
  have "monitor_inv t0 (?s\<lparr>mo_published := mo_published ?s @ [get_stored_logs ?s]\<rparr>)"
    using assms p(2)
    by (auto simp: monitor_inv_def logs_agree_def both_ok_def stored_reqs_def cached_reqs_def)
  with p(1) show ?thesis
    unfolding monitor_iteration_def by (auto simp: Let_def intro!: sync_db_inv merge_logs_inv)
qed


end
