(* ===== verification/Nxs_Deploy.thy ===== *)
theory Nxs_Deploy
  imports Nxs_Types
begin

section \<open>Wiring the processes of a model (\<open>main_processes/backend/main.py\<close>)\<close>

text \<open>
  The backend runs each component model as a chain of processes: one input process,
  preprocessors, one compute process, output processes; a custom model has one process in the
  place of preprocessors and compute process. They are connected by queues, and a stop flag
  runs down the chain when the model is removed. A queue or flag is modelled by a number that
  is drawn when the code creates the object; the two lists \<open>shared_queues\<close> and \<open>stop_flags\<close> are
  as in the code, which takes the last element of either to find the end of the chain.
\<close>

subsection \<open>Processes\<close>

datatype source = FromRedis string string | FromQueue nat

datatype sink = ToQueue nat | ToRedis

text \<open>
  The arguments that matter for the wiring. An input process has one source per session and
  says whether it gets the monitoring dispatcher with the three shared lists; an output
  process says whether it reports to the dispatcher.
\<close>

datatype process =
    InputProcess (pr_uuid: string) (pr_sources: "(string, source) dict") (pr_out: nat)
      (pr_stop: nat) (pr_next: nat) bool
  | PreprocProcess (pr_uuid: string) (pr_pid: nat) (pr_in: nat) (pr_out: nat) (pr_error_out: nat)
      (pr_stop: nat) (pr_next: nat)
  | ComputeProcess (pr_uuid: string) framework (pr_ins: "nat list") (pr_out: nat)
      (pr_stops: "nat list") (pr_next: nat) (pr_allow: nat)
  | CustomProcess (pr_uuid: string) (pr_dir: string) (pr_in: nat) (pr_out: nat)
      (pr_stop: nat) (pr_next: nat)
  | OutputProcess (pr_uuid: string) (pr_pid: nat) (pr_in: nat) (pr_sink: sink)
      (pr_stop: nat) (pr_next_opt: "nat option") bool

record wiring =
  wi_fresh_queue :: nat
  wi_fresh_flag :: nat
  wi_queues :: "nat list"
  wi_stop_flags :: "nat list"
  wi_allow_flags :: "nat list"
  wi_processes :: "process list"

definition empty_wiring :: "nat \<Rightarrow> nat \<Rightarrow> wiring" where
  "empty_wiring q f = \<lparr>wi_fresh_queue = q, wi_fresh_flag = f, wi_queues = [], wi_stop_flags = [],
     wi_allow_flags = [], wi_processes = []\<rparr>"

subsection \<open>New objects\<close>

definition new_queue :: "wiring \<Rightarrow> nat \<times> wiring" where
  "new_queue w = (wi_fresh_queue w, w\<lparr>wi_fresh_queue := Suc (wi_fresh_queue w)\<rparr>)"

definition append_queue :: "nat \<Rightarrow> wiring \<Rightarrow> wiring" where
  "append_queue q w = w\<lparr>wi_queues := wi_queues w @ [q]\<rparr>"

text \<open>A new flag, appended to \<open>stop_flags\<close>.\<close>

definition new_stop_flag :: "wiring \<Rightarrow> nat \<times> wiring" where
  "new_stop_flag w = (wi_fresh_flag w,
     w\<lparr>wi_fresh_flag := Suc (wi_fresh_flag w), wi_stop_flags := wi_stop_flags w @ [wi_fresh_flag w]\<rparr>)"

definition new_allow_flag :: "wiring \<Rightarrow> nat \<times> wiring" where
  "new_allow_flag w = (wi_fresh_flag w,
     w\<lparr>wi_fresh_flag := Suc (wi_fresh_flag w), wi_allow_flags := wi_allow_flags w @ [wi_fresh_flag w]\<rparr>)"

definition last_queue :: "wiring \<Rightarrow> nat result" where
  "last_queue w = (if wi_queues w = [] then Inl IndexError else Inr (last (wi_queues w)))"

definition last_stop_flag :: "wiring \<Rightarrow> nat result" where
  "last_stop_flag w = (if wi_stop_flags w = [] then Inl IndexError else Inr (last (wi_stop_flags w)))"

text \<open>\<open>range(n)\<close> for an optional number.\<close>

definition range_opt :: "int option \<Rightarrow> nat list result" where
  "range_opt n = (case n of None \<Rightarrow> Inl TypeError | Some k \<Rightarrow> Inr [0..<nat k])"

subsection \<open>The parts of a chain\<close>

definition deploy_input_process ::
    "nat \<Rightarrow> nxs_model \<Rightarrow> string list \<Rightarrow> wiring \<Rightarrow> (process \<times> wiring) result" where
  "deploy_input_process idx m sessions w =
     bindE (if idx = 0
            then Inr (foldl (\<lambda>d u. AList.update u (FromRedis (m_model_uuid m) u) d) [] sessions)
            else bindE (last_queue w) (\<lambda>q. Inr [(''global'', FromQueue q)])) (\<lambda>sources.
     let (out, w) = new_queue w; w = append_queue out w
     in bindE (if idx = 0 then Inr (new_stop_flag w)
               else bindE (last_stop_flag w) (\<lambda>f. Inr (f, w))) (\<lambda>(stop, w).
        let (nxt, w) = new_stop_flag w
        in Inr (InputProcess (m_model_uuid m) sources out stop nxt (idx = 0), w)))"

text \<open>The preprocessors, with their output queues and the flags they set.\<close>

definition add_preproc :: "string \<Rightarrow> nat \<Rightarrow> nat \<Rightarrow> nat \<Rightarrow>
    (process list \<times> nat list \<times> nat list) \<times> wiring \<Rightarrow> nat \<Rightarrow>
    (process list \<times> nat list \<times> nat list) \<times> wiring" where
  "add_preproc u inq shared_out stop = (\<lambda>((ps, qs, fs), w) pid.
     let (q, w) = new_queue w; w = append_queue q w; (f, w) = new_stop_flag w
     in ((ps @ [PreprocProcess u pid inq q shared_out stop f], qs @ [q], fs @ [f]), w))"

definition deploy_pipelined_preproc_process ::
    "nxs_model \<Rightarrow> nat \<Rightarrow> wiring \<Rightarrow> ((process list \<times> nat list \<times> nat list) \<times> wiring) result" where
  "deploy_pipelined_preproc_process m shared_out w =
     bindE (last_stop_flag w) (\<lambda>stop.
     bindE (last_queue w) (\<lambda>inq.
     bindE (range_opt (m_num_preprocessors m)) (\<lambda>pids.
       Inr (foldl (add_preproc (m_model_uuid m) inq shared_out stop) (([], [], []), w) pids))))"

text \<open>Which class runs the model: BATCHED_TVM and TF_PB override, everything else but TVM is ONNX.\<close>

definition get_compute_process_cls :: "framework \<Rightarrow> framework" where
  "get_compute_process_cls fw =
     (let cls = (if fw = FW_TVM then FW_TVM else FW_ONNX)
      in if fw = FW_BATCHED_TVM then FW_BATCHED_TVM else if fw = FW_TF_PB then FW_TF_PB else cls)"

definition deploy_pipelined_compute_process ::
    "nxs_model \<Rightarrow> nat \<Rightarrow> nat list \<Rightarrow> nat list \<Rightarrow> wiring \<Rightarrow> process \<times> wiring" where
  "deploy_pipelined_compute_process m shared_out ins stops w =
     (let w = append_queue shared_out w;
          (allow, w) = new_allow_flag w;
          (f, w) = new_stop_flag w
      in (ComputeProcess (m_model_uuid m) (get_compute_process_cls (bm_framework m)) ins shared_out
            stops f allow, w))"

definition deploy_arbitrary_model_process ::
    "nxs_model \<Rightarrow> string \<Rightarrow> nat \<Rightarrow> wiring \<Rightarrow> (process \<times> wiring) result" where
  "deploy_arbitrary_model_process m dir shared_out w =
     bindE (last_stop_flag w) (\<lambda>stop.
     bindE (last_queue w) (\<lambda>inq.
       let w = append_queue shared_out w; (f, w) = new_stop_flag w
       in Inr (CustomProcess (m_model_uuid m) dir inq shared_out stop f, w)))"

definition deploy_output_process ::
    "nat \<Rightarrow> nat \<Rightarrow> nxs_model \<Rightarrow> nat \<Rightarrow> wiring \<Rightarrow> (process list \<times> wiring) result" where
  "deploy_output_process idx n m shared_out w =
     bindE (last_stop_flag w) (\<lambda>stop.
     let more = (idx + 1 < n);
         (out, w) = (if more then let (q, w) = new_queue w in (ToQueue q, append_queue q w)
                     else (ToRedis, w));
         (nxt, w) = (if more then let (f, w) = new_stop_flag w in (Some f, w) else (None, w))
     in bindE (range_opt (m_num_postprocessors m)) (\<lambda>pids.
          Inr (map (\<lambda>pid. OutputProcess (m_model_uuid m) pid shared_out out stop nxt (\<not> more)) pids, w)))"

subsection \<open>A component model\<close>

definition add_processes :: "process list \<Rightarrow> wiring \<Rightarrow> wiring" where
  "add_processes ps w = w\<lparr>wi_processes := wi_processes w @ ps\<rparr>"

definition deploy_pipelined_component_model ::
    "nat \<Rightarrow> nat \<Rightarrow> nxs_model \<Rightarrow> string list \<Rightarrow> wiring \<Rightarrow> wiring result" where
  "deploy_pipelined_component_model idx n m sessions w =
     (let (shared_out, w) = new_queue w
      in bindE (deploy_input_process idx m sessions w) (\<lambda>(inp, w).
         bindE (deploy_pipelined_preproc_process m shared_out w) (\<lambda>((pres, qs, fs), w).
         let (comp, w) = deploy_pipelined_compute_process m shared_out qs fs w
         in bindE (deploy_output_process idx n m shared_out w) (\<lambda>(outs, w).
              Inr (add_processes (inp # pres @ comp # outs) w)))))"

definition deploy_arbitrary_component_model ::
    "nat \<Rightarrow> nat \<Rightarrow> nxs_model \<Rightarrow> string list \<Rightarrow> string \<Rightarrow> wiring \<Rightarrow> wiring result" where
  "deploy_arbitrary_component_model idx n m sessions dir w =
     (let (shared_out, w) = new_queue w
      in bindE (deploy_input_process idx m sessions w) (\<lambda>(inp, w).
         bindE (deploy_arbitrary_model_process m dir shared_out w) (\<lambda>(proc, w).
         bindE (deploy_output_process idx n m shared_out w) (\<lambda>(outs, w).
              Inr (add_processes (inp # proc # outs) w)))))"

text \<open>All component models in turn; each must have a plan of the same index.\<close>

definition deploy_component ::
    "nat \<Rightarrow> nat \<Rightarrow> string list \<Rightarrow> wiring \<Rightarrow> nat \<times> nxs_model \<times> string \<Rightarrow> wiring result" where
  "deploy_component n plans sessions w = (\<lambda>(idx, m, path).
     if idx \<ge> plans then Inl IndexError
     else if \<not> bm_is_custom_model m then deploy_pipelined_component_model idx n m sessions w
     else deploy_arbitrary_component_model idx n m sessions path w)"

definition deploy_components ::
    "(nxs_model \<times> string) list \<Rightarrow> nat \<Rightarrow> string list \<Rightarrow> wiring \<Rightarrow> wiring result" where
  "deploy_components ms plans sessions w =
     foldE (deploy_component (length ms) plans sessions) w (enumerate 0 ms)"

end
