(* ===== verification/Nxs_Deploy_Props.thy ===== *)
theory Nxs_Deploy_Props
  imports Nxs_Deploy Nxs_Samples
begin

section \<open>A deployed model is wired correctly\<close>

text \<open>
  Every queue that a process writes is read by a process of the same deployment, and setting
  the first stop flag stops every process, one after the other.
\<close>

subsection \<open>Queues and flags of a process\<close>

fun source_queues :: "(string, source) dict \<Rightarrow> nat list" where
  "source_queues [] = []"
| "source_queues ((_, FromQueue q) # d) = q # source_queues d"
| "source_queues ((_, FromRedis _ _) # d) = source_queues d"

fun reads :: "process \<Rightarrow> nat list" where
  "reads (InputProcess _ src _ _ _ _) = source_queues src"
| "reads (PreprocProcess _ _ q _ _ _ _) = [q]"
| "reads (ComputeProcess _ _ qs _ _ _ _) = qs"
| "reads (CustomProcess _ _ q _ _ _) = [q]"
| "reads (OutputProcess _ _ q _ _ _ _) = [q]"

fun writes :: "process \<Rightarrow> nat list" where
  "writes (InputProcess _ _ q _ _ _) = [q]"
| "writes (PreprocProcess _ _ _ q e _ _) = [q, e]"
| "writes (ComputeProcess _ _ _ q _ _ _) = [q]"
| "writes (CustomProcess _ _ _ q _ _) = [q]"
| "writes (OutputProcess _ _ _ (ToQueue q) _ _ _) = [q]"
| "writes (OutputProcess _ _ _ ToRedis _ _ _) = []"

text \<open>The flags that a process waits for (all of them), and the one it sets when it ends.\<close>

fun watched :: "process \<Rightarrow> nat list" where
  "watched (InputProcess _ _ _ f _ _) = [f]"
| "watched (PreprocProcess _ _ _ _ _ f _) = [f]"
| "watched (ComputeProcess _ _ _ _ fs _ _) = fs"
| "watched (CustomProcess _ _ _ _ f _) = [f]"
| "watched (OutputProcess _ _ _ _ f _ _) = [f]"

fun sets :: "process \<Rightarrow> nat option" where
  "sets (InputProcess _ _ _ _ f _) = Some f"
| "sets (PreprocProcess _ _ _ _ _ _ f) = Some f"
| "sets (ComputeProcess _ _ _ _ _ f _) = Some f"
| "sets (CustomProcess _ _ _ _ _ f) = Some f"
| "sets (OutputProcess _ _ _ _ _ f _) = f"

text \<open>The flags that are set, sooner or later, once \<open>f0\<close> is set.\<close>

inductive flag_set :: "process list \<Rightarrow> nat \<Rightarrow> nat \<Rightarrow> bool" for ps :: "process list" and f0 :: nat where
  first: "flag_set ps f0 f0"
| passed_on: "p \<in> set ps \<Longrightarrow> (\<And>f. f \<in> set (watched p) \<Longrightarrow> flag_set ps f0 f) \<Longrightarrow> sets p = Some g \<Longrightarrow>
     flag_set ps f0 g"

lemma flag_set_mono: "flag_set ps f0 f \<Longrightarrow> set ps \<subseteq> set qs \<Longrightarrow> flag_set qs f0 f"
  by (induction rule: flag_set.induct) (auto intro: flag_set.intros)

definition all_stop :: "process list \<Rightarrow> process list \<Rightarrow> nat \<Rightarrow> bool" where
  "all_stop ps all f0 \<longleftrightarrow> (\<forall>p \<in> set ps. \<forall>f \<in> set (watched p). flag_set all f0 f)"

definition read_in :: "process list \<Rightarrow> nat \<Rightarrow> bool" where
  "read_in ps q \<longleftrightarrow> (\<exists>p \<in> set ps. q \<in> set (reads p))"

subsection \<open>The middle of a chain\<close>

text \<open>What lies between the input process and the output processes: it reads the queue \<open>q\<close>,
  writes to \<open>so\<close> or within itself, and passes on the stop flag from \<open>f\<close> to \<open>g\<close>.\<close>

definition middle_ok :: "nat \<Rightarrow> nat \<Rightarrow> nat \<Rightarrow> nat \<Rightarrow> process list \<Rightarrow> bool" where
  "middle_ok q so f g mids \<longleftrightarrow>
     read_in mids q \<and>
     (\<forall>p \<in> set mids. \<forall>x \<in> set (writes p). x = so \<or> read_in mids x) \<and>
     (\<forall>all f0. set mids \<subseteq> set all \<longrightarrow> flag_set all f0 f \<longrightarrow> all_stop mids all f0 \<and> flag_set all f0 g)"

lemma middle_ok_custom: "middle_ok q so f g [CustomProcess u d q so f g]"
proof -
  have "flag_set all f0 g" if "CustomProcess u d q so f g \<in> set all" "flag_set all f0 f" for all f0
    by (rule passed_on [OF that(1)]) (use that(2) in simp_all)
  then show ?thesis by (simp add: middle_ok_def read_in_def all_stop_def)
qed

definition preprocs :: "string \<Rightarrow> nat \<Rightarrow> nat \<Rightarrow> nat \<Rightarrow> nat list \<Rightarrow> nat list \<Rightarrow> process list" where
  "preprocs u q so f qs fs =
     map (\<lambda>i. PreprocProcess u i q (qs ! i) so f (fs ! i)) [0..<length qs]"

lemma middle_ok_pipelined:
  assumes "qs \<noteq> []" "length fs = length qs"
  shows "middle_ok q so f g (preprocs u q so f qs fs @ [ComputeProcess u fw qs so fs g a])"
    (is "middle_ok _ _ _ _ (?pre @ [?comp])")
proof -
  have pre: "PreprocProcess u i q (qs ! i) so f (fs ! i) \<in> set ?pre" if "i < length qs" for i
    using that by (simp add: preprocs_def)
  have shape: "\<exists>i < length qs. p = PreprocProcess u i q (qs ! i) so f (fs ! i)" if "p \<in> set ?pre" for p
    using that by (auto simp: preprocs_def)
  have stop: "all_stop (?pre @ [?comp]) all f0 \<and> flag_set all f0 g"
    if all: "set (?pre @ [?comp]) \<subseteq> set all" and f: "flag_set all f0 f" for all f0
  proof -
    have fs: "flag_set all f0 y" if "y \<in> set fs" for y
    proof -
      from that assms(2) obtain i where i: "i < length qs" "y = fs ! i" by (auto simp: in_set_conv_nth)
      with pre [of i] all have "PreprocProcess u i q (qs ! i) so f (fs ! i) \<in> set all" by auto
      then show ?thesis by (rule passed_on) (use f i in simp_all)
    qed
    have "?comp \<in> set all" using all by simp
    then have "flag_set all f0 g" by (rule passed_on) (use fs in auto)
    with f fs shape show ?thesis by (fastforce simp: all_stop_def)
  qed
  have "\<forall>p \<in> set (?pre @ [?comp]). \<forall>x \<in> set (writes p). x = so \<or> read_in (?pre @ [?comp]) x"
    using shape by (fastforce simp: read_in_def)
  moreover have "read_in (?pre @ [?comp]) q"
    using pre [of 0] assms(1) by (force simp: read_in_def)
  ultimately show ?thesis using stop by (auto simp: middle_ok_def)
qed

subsection \<open>The shape of a component model\<close>

lemmas deploy_simps = new_queue_def append_queue_def new_stop_flag_def new_allow_flag_def
  last_queue_def last_stop_flag_def Let_def

lemma preprocs_snoc:
  "length fs = length qs \<Longrightarrow> preprocs u q so f (qs @ [x]) (fs @ [y]) =
     preprocs u q so f qs fs @ [PreprocProcess u (length qs) q x so f y]"
  by (simp add: preprocs_def nth_append)

lemma preproc_fold:
  "\<exists>qs fs w'. foldl (add_preproc u inq so stop) (([], [], []), w) [0..<k] =
    ((preprocs u inq so stop qs fs, qs, fs), w') \<and> length qs = k \<and> length fs = k \<and>
    wi_queues w' = wi_queues w @ qs \<and> wi_stop_flags w' = wi_stop_flags w @ fs \<and>
    wi_processes w' = wi_processes w"
proof (induction k)
  case 0
  then show ?case by (simp add: preprocs_def)
next
  case (Suc k)
  then obtain qs fs w' where IH: "foldl (add_preproc u inq so stop) (([], [], []), w) [0..<k] =
    ((preprocs u inq so stop qs fs, qs, fs), w')" "length qs = k" "length fs = k"
    "wi_queues w' = wi_queues w @ qs" "wi_stop_flags w' = wi_stop_flags w @ fs"
    "wi_processes w' = wi_processes w" by blast
  let ?q = "wi_fresh_queue w'" and ?f = "wi_fresh_flag w'"
  obtain w2 where w2: "add_preproc u inq so stop ((preprocs u inq so stop qs fs, qs, fs), w') k =
      ((preprocs u inq so stop (qs @ [?q]) (fs @ [?f]), qs @ [?q], fs @ [?f]), w2)"
    "wi_queues w2 = wi_queues w' @ [?q]" "wi_stop_flags w2 = wi_stop_flags w' @ [?f]"
    "wi_processes w2 = wi_processes w'"
    using IH(2,3) by (simp add: add_preproc_def deploy_simps preprocs_snoc)
  show ?case
    by (rule exI [of _ "qs @ [?q]"], rule exI [of _ "fs @ [?f]"], rule exI [of _ w2])
      (use IH w2 in simp)
qed

definition input_shape :: "nat \<Rightarrow> wiring \<Rightarrow> wiring \<Rightarrow> (string, source) dict \<Rightarrow> nat \<Rightarrow> bool" where
  "input_shape idx w w' src s0 \<longleftrightarrow>
     (if idx = 0 then source_queues src = [] \<and> (wi_stop_flags w = [] \<longrightarrow> hd (wi_stop_flags w') = s0)
      else wi_stop_flags w \<noteq> [] \<and> wi_queues w \<noteq> [] \<and> source_queues src = [last (wi_queues w)] \<and>
           s0 = last (wi_stop_flags w) \<and> hd (wi_stop_flags w') = hd (wi_stop_flags w))"

definition component_shape :: "nat \<Rightarrow> nat \<Rightarrow> wiring \<Rightarrow> wiring \<Rightarrow> bool" where
  "component_shape idx n w w' \<longleftrightarrow> (\<exists>u src q s0 so f g mids outs snk nxt.
     wi_processes w' = wi_processes w @ InputProcess u src q s0 f (idx = 0) # mids @ outs \<and>
     middle_ok q so f g mids \<and> outs \<noteq> [] \<and>
     (\<forall>p \<in> set outs. \<exists>i. p = OutputProcess u i so snk g nxt (\<not> idx + 1 < n)) \<and>
     input_shape idx w w' src s0 \<and> wi_stop_flags w' \<noteq> [] \<and> wi_queues w' \<noteq> [] \<and>
     (if idx + 1 < n then snk = ToQueue (last (wi_queues w')) \<and> nxt = Some (last (wi_stop_flags w'))
      else snk = ToRedis))"

text \<open>The redis sources of the first component model.\<close>

lemma source_queues_redis:
  "source_queues d = [] \<Longrightarrow> source_queues (AList.update k (FromRedis t u) d) = []"
proof (induction d)
  case (Cons a d)
  obtain k' v where "a = (k', v)" by force
  with Cons show ?case by (cases v) (auto split: if_splits)
qed simp

lemma source_queues_sessions:
  "source_queues d = [] \<Longrightarrow> source_queues (foldl (\<lambda>d u. AList.update u (FromRedis t u) d) d us) = []"
  by (induction us arbitrary: d) (simp_all add: source_queues_redis)

lemma deploy_input_shape:
  assumes "deploy_input_process idx m sessions w = Inr (p, w')"
  shows "\<exists>src q s0 f. p = InputProcess (m_model_uuid m) src q s0 f (idx = 0) \<and>
    input_shape idx w w' src s0 \<and> wi_processes w' = wi_processes w \<and>
    wi_queues w' = wi_queues w @ [q] \<and> wi_stop_flags w' \<noteq> [] \<and> last (wi_stop_flags w') = f"
  using assms source_queues_sessions [of "[]" "m_model_uuid m" sessions]
  by (auto simp: deploy_input_process_def bindE_eq_Inr deploy_simps input_shape_def split: if_splits)

lemma input_shape_extend:
  "input_shape idx w w1 src s0 \<Longrightarrow> wi_stop_flags w1 \<noteq> [] \<Longrightarrow> wi_stop_flags w2 = wi_stop_flags w1 @ fs \<Longrightarrow>
     input_shape idx w w2 src s0"
  by (auto simp: input_shape_def split: if_splits)

lemma deploy_output_shape:
  assumes "deploy_output_process idx n m so w = Inr (ps, w')" "m_num_postprocessors m = Some j" "j > 0"
    "wi_queues w \<noteq> []"
  shows "\<exists>snk nxt fs. ps \<noteq> [] \<and>
    (\<forall>p \<in> set ps. \<exists>i. p = OutputProcess (m_model_uuid m) i so snk (last (wi_stop_flags w)) nxt
       (\<not> idx + 1 < n)) \<and>
    wi_processes w' = wi_processes w \<and> wi_queues w' \<noteq> [] \<and> wi_stop_flags w' = wi_stop_flags w @ fs \<and>
    (if idx + 1 < n then snk = ToQueue (last (wi_queues w')) \<and> nxt = Some (last (wi_stop_flags w'))
     else snk = ToRedis)"
  using assms
  by (auto simp: deploy_output_process_def bindE_eq_Inr deploy_simps range_opt_def split: if_splits)

lemma pipelined_shape:
  assumes "deploy_pipelined_component_model idx n m sessions w = Inr w'"
    "m_num_preprocessors m = Some k" "k > 0" "m_num_postprocessors m = Some j" "j > 0"
  shows "component_shape idx n w w'"
proof -
  obtain so w0 where so: "new_queue w = (so, w0)" by force
  then have w0: "wi_processes w0 = wi_processes w" "wi_queues w0 = wi_queues w"
    "wi_stop_flags w0 = wi_stop_flags w" by (auto simp: new_queue_def)
  from assms(1) so obtain inp w1 where inp: "deploy_input_process idx m sessions w0 = Inr (inp, w1)"
    by (auto simp: deploy_pipelined_component_model_def bindE_eq_Inr)
  have "input_shape idx w0 w1 src s0 \<longleftrightarrow> input_shape idx w w1 src s0" for src s0
    by (simp add: input_shape_def w0)
  with deploy_input_shape [OF inp] w0 obtain src q s0 f where
    1: "inp = InputProcess (m_model_uuid m) src q s0 f (idx = 0)" "input_shape idx w w1 src s0"
    "wi_processes w1 = wi_processes w" "wi_queues w1 = wi_queues w @ [q]" "wi_stop_flags w1 \<noteq> []"
    "last (wi_stop_flags w1) = f" by auto
  from preproc_fold [of "m_model_uuid m" q so f w1 "nat k"] obtain qs fs w2 where
    2: "deploy_pipelined_preproc_process m so w1 = Inr ((preprocs (m_model_uuid m) q so f qs fs, qs, fs), w2)"
    "length qs = nat k" "length fs = nat k" "wi_stop_flags w2 = wi_stop_flags w1 @ fs"
    "wi_processes w2 = wi_processes w1"
    using 1 assms(2) by (auto simp: deploy_pipelined_preproc_process_def last_queue_def
        last_stop_flag_def range_opt_def)
  obtain comp w3 where comp: "deploy_pipelined_compute_process m so qs fs w2 = (comp, w3)" by force
  then obtain g a where
    3: "comp = ComputeProcess (m_model_uuid m) (get_compute_process_cls (bm_framework m)) qs so fs g a"
    "wi_stop_flags w3 = wi_stop_flags w2 @ [g]" "wi_processes w3 = wi_processes w2" "wi_queues w3 \<noteq> []"
    by (auto simp: deploy_pipelined_compute_process_def deploy_simps)
  from assms(1) so inp 2(1) comp obtain outs w4 where
    4: "deploy_output_process idx n m so w3 = Inr (outs, w4)" "w' = add_processes
      (inp # preprocs (m_model_uuid m) q so f qs fs @ comp # outs) w4"
    by (auto simp: deploy_pipelined_component_model_def bindE_eq_Inr)
  from deploy_output_shape [OF 4(1) assms(4,5) 3(4)] obtain snk nxt hs where
    5: "outs \<noteq> []"
    "\<forall>p \<in> set outs. \<exists>i. p = OutputProcess (m_model_uuid m) i so snk g nxt (\<not> idx + 1 < n)"
    "wi_processes w4 = wi_processes w3" "wi_queues w4 \<noteq> []" "wi_stop_flags w4 = wi_stop_flags w3 @ hs"
    "if idx + 1 < n then snk = ToQueue (last (wi_queues w4)) \<and> nxt = Some (last (wi_stop_flags w4))
     else snk = ToRedis"
    using 3(2) by auto
  have "middle_ok q so f g (preprocs (m_model_uuid m) q so f qs fs @ [comp])"
    unfolding 3(1) using 2(2,3) assms(3) by (intro middle_ok_pipelined) auto
  moreover have "input_shape idx w w4 src s0"
    using 1(2,5) 2(4) 3(2) 5(5) by (intro input_shape_extend [of idx w w1 src s0 w4]) auto
  moreover have "wi_stop_flags w4 \<noteq> []" using 3(2) 5(5) by simp
  moreover have "wi_processes w' = wi_processes w @ InputProcess (m_model_uuid m) src q s0 f (idx = 0) #
      (preprocs (m_model_uuid m) q so f qs fs @ [comp]) @ outs"
    using 4(2) 1(1,3) 2(5) 3(3) 5(3) by (simp add: add_processes_def)
  moreover have "wi_stop_flags w' = wi_stop_flags w4" "wi_queues w' = wi_queues w4"
    "input_shape idx w w' src s0 \<longleftrightarrow> input_shape idx w w4 src s0"
    using 4(2) by (simp_all add: add_processes_def input_shape_def)
  ultimately show ?thesis
    unfolding component_shape_def using 5 by metis
qed

lemma custom_shape:
  assumes "deploy_arbitrary_component_model idx n m sessions dir w = Inr w'"
    "m_num_postprocessors m = Some j" "j > 0"
  shows "component_shape idx n w w'"
proof -
  obtain so w0 where so: "new_queue w = (so, w0)" by force
  then have w0: "wi_processes w0 = wi_processes w" "wi_queues w0 = wi_queues w"
    "wi_stop_flags w0 = wi_stop_flags w" by (auto simp: new_queue_def)
  from assms(1) so obtain inp w1 where inp: "deploy_input_process idx m sessions w0 = Inr (inp, w1)"
    by (auto simp: deploy_arbitrary_component_model_def bindE_eq_Inr)
  have "input_shape idx w0 w1 src s0 \<longleftrightarrow> input_shape idx w w1 src s0" for src s0
    by (simp add: input_shape_def w0)
  with deploy_input_shape [OF inp] w0 obtain src q s0 f where
    1: "inp = InputProcess (m_model_uuid m) src q s0 f (idx = 0)" "input_shape idx w w1 src s0"
    "wi_processes w1 = wi_processes w" "wi_queues w1 = wi_queues w @ [q]" "wi_stop_flags w1 \<noteq> []"
    "last (wi_stop_flags w1) = f" by auto
  then obtain g w3 where
    3: "deploy_arbitrary_model_process m dir so w1 = Inr (CustomProcess (m_model_uuid m) dir q so f g, w3)"
    "wi_stop_flags w3 = wi_stop_flags w1 @ [g]" "wi_processes w3 = wi_processes w1" "wi_queues w3 \<noteq> []"
    by (auto simp: deploy_arbitrary_model_process_def deploy_simps)
  from assms(1) so inp 3(1) obtain outs w4 where
    4: "deploy_output_process idx n m so w3 = Inr (outs, w4)" "w' = add_processes
      (inp # CustomProcess (m_model_uuid m) dir q so f g # outs) w4"
    by (auto simp: deploy_arbitrary_component_model_def bindE_eq_Inr)
  from deploy_output_shape [OF 4(1) assms(2,3) 3(4)] obtain snk nxt hs where
    5: "outs \<noteq> []"
    "\<forall>p \<in> set outs. \<exists>i. p = OutputProcess (m_model_uuid m) i so snk g nxt (\<not> idx + 1 < n)"
    "wi_processes w4 = wi_processes w3" "wi_queues w4 \<noteq> []" "wi_stop_flags w4 = wi_stop_flags w3 @ hs"
    "if idx + 1 < n then snk = ToQueue (last (wi_queues w4)) \<and> nxt = Some (last (wi_stop_flags w4))
     else snk = ToRedis"
    using 3(2) by auto
  have "input_shape idx w w4 src s0"
    using 1(2,5) 3(2) 5(5) by (intro input_shape_extend [of idx w w1 src s0 w4]) auto
  moreover have "wi_stop_flags w4 \<noteq> []" using 3(2) 5(5) by simp
  moreover have "wi_processes w' = wi_processes w @ InputProcess (m_model_uuid m) src q s0 f (idx = 0) #
      [CustomProcess (m_model_uuid m) dir q so f g] @ outs"
    using 4(2) 1(1,3) 3(3) 5(3) by (simp add: add_processes_def)
  moreover have "wi_stop_flags w' = wi_stop_flags w4" "wi_queues w' = wi_queues w4"
    "input_shape idx w w' src s0 \<longleftrightarrow> input_shape idx w w4 src s0"
    using 4(2) by (simp_all add: add_processes_def input_shape_def)
  ultimately show ?thesis
    unfolding component_shape_def using 5 middle_ok_custom by metis
qed

subsection \<open>All component models\<close>

text \<open>After \<open>idx\<close> component models: all is wired but the queue and flag at the end of the chain,
  which the next component model takes.\<close>

definition wired :: "nat \<Rightarrow> nat \<Rightarrow> wiring \<Rightarrow> bool" where
  "wired idx n w \<longleftrightarrow>
     (let ps = wi_processes w; f0 = hd (wi_stop_flags w)
      in if idx = 0 then ps = [] \<and> wi_stop_flags w = []
         else wi_stop_flags w \<noteq> [] \<and> wi_queues w \<noteq> [] \<and> all_stop ps ps f0 \<and>
              (idx < n \<longrightarrow> flag_set ps f0 (last (wi_stop_flags w))) \<and>
              (\<forall>p \<in> set ps. \<forall>x \<in> set (writes p).
                 read_in ps x \<or> (idx < n \<and> x = last (wi_queues w))))"

lemma all_stop_mono: "all_stop ps as f0 \<Longrightarrow> set as \<subseteq> set bs \<Longrightarrow> all_stop ps bs f0"
  by (auto simp: all_stop_def intro: flag_set_mono)

lemma read_in_mono: "read_in ps x \<Longrightarrow> set ps \<subseteq> set qs \<Longrightarrow> read_in qs x"
  by (auto simp: read_in_def)

lemma wired_step:
  assumes w: "wired idx n w" and sh: "component_shape idx n w w'" and idx: "idx < n"
  shows "wired (Suc idx) n w'"
proof -
  from sh obtain u src q s0 so f g mids outs snk nxt where
    ps: "wi_processes w' = wi_processes w @ InputProcess u src q s0 f (idx = 0) # mids @ outs"
    and mid: "middle_ok q so f g mids" and outs: "outs \<noteq> []"
    "\<forall>p \<in> set outs. \<exists>i. p = OutputProcess u i so snk g nxt (\<not> idx + 1 < n)"
    and inp: "input_shape idx w w' src s0" and ne: "wi_stop_flags w' \<noteq> []" "wi_queues w' \<noteq> []"
    and end_: "if idx + 1 < n then snk = ToQueue (last (wi_queues w')) \<and>
      nxt = Some (last (wi_stop_flags w')) else snk = ToRedis"
    unfolding component_shape_def by blast
  let ?ps = "wi_processes w'" and ?f0 = "hd (wi_stop_flags w')"
  let ?inp = "InputProcess u src q s0 f (idx = 0)"
  have sub: "set (wi_processes w) \<subseteq> set ?ps" "set mids \<subseteq> set ?ps" "?inp \<in> set ?ps"
    "set outs \<subseteq> set ?ps" by (auto simp: ps)
  have old: "all_stop (wi_processes w) ?ps ?f0" and s0: "flag_set ?ps ?f0 s0"
  proof -
    show "all_stop (wi_processes w) ?ps ?f0"
    proof (cases "idx = 0")
      case True
      with w show ?thesis by (simp add: wired_def all_stop_def)
    next
      case False
      with w inp have "all_stop (wi_processes w) (wi_processes w) ?f0"
        by (simp add: wired_def input_shape_def Let_def)
      then show ?thesis using sub(1) by (rule all_stop_mono)
    qed
    show "flag_set ?ps ?f0 s0"
    proof (cases "idx = 0")
      case True
      with w inp show ?thesis by (simp add: wired_def input_shape_def first)
    next
      case False
      with w inp idx have "flag_set (wi_processes w) ?f0 s0"
        by (simp add: wired_def input_shape_def Let_def)
      then show ?thesis using sub(1) by (rule flag_set_mono)
    qed
  qed
  have f: "flag_set ?ps ?f0 f" by (rule passed_on [OF sub(3)]) (use s0 in simp_all)
  from mid sub(2) f have m: "all_stop mids ?ps ?f0" "flag_set ?ps ?f0 g"
    by (auto simp: middle_ok_def)
  have "all_stop ?ps ?ps ?f0"
    unfolding all_stop_def
  proof (intro ballI)
    fix p x assume p: "p \<in> set ?ps" and x: "x \<in> set (watched p)"
    consider "p \<in> set (wi_processes w)" | "p = ?inp" | "p \<in> set mids" | "p \<in> set outs"
      using p by (auto simp: ps)
    then show "flag_set ?ps ?f0 x"
      using x old s0 m outs(2) by cases (auto simp: all_stop_def)
  qed
  moreover have "flag_set ?ps ?f0 (last (wi_stop_flags w'))" if "Suc idx < n"
  proof -
    from outs obtain i p where p: "p \<in> set outs" "p = OutputProcess u i so snk g nxt (\<not> idx + 1 < n)"
      by (meson last_in_set)
    with sub(4) have "p \<in> set ?ps" by auto
    then show ?thesis by (rule passed_on) (use p(2) m(2) end_ that in simp_all)
  qed
  moreover have "read_in ?ps x \<or> (Suc idx < n \<and> x = last (wi_queues w'))"
    if p: "p \<in> set ?ps" and x: "x \<in> set (writes p)" for p x
  proof -
    from outs obtain i r where "r \<in> set outs" "r = OutputProcess u i so snk g nxt (\<not> idx + 1 < n)"
      by (meson last_in_set)
    with sub(4) have so: "read_in ?ps so" unfolding read_in_def by (intro bexI [of _ r]) auto
    consider "p \<in> set (wi_processes w)" | "p = ?inp" | "p \<in> set mids" | "p \<in> set outs"
      using p by (auto simp: ps)
    then show ?thesis
    proof cases
      case 1
      with w idx x inp have "read_in (wi_processes w) x \<or> (0 < idx \<and> x = last (wi_queues w))"
        by (auto simp: wired_def Let_def split: if_splits)
      moreover have "read_in ?ps (last (wi_queues w))" if "0 < idx"
        using that inp sub(3) by (force simp: read_in_def input_shape_def)
      ultimately show ?thesis using read_in_mono [OF _ sub(1)] by blast
    next
      case 2
      with x mid show ?thesis using read_in_mono [OF _ sub(2)] by (auto simp: middle_ok_def)
    next
      case 3
      with x mid have "x = so \<or> read_in mids x" unfolding middle_ok_def by blast
      with so show ?thesis using read_in_mono [OF _ sub(2)] by blast
    next
      case 4
      with outs(2) x end_ show ?thesis by (auto split: if_splits)
    qed
  qed
  ultimately show ?thesis using ne by (simp add: wired_def Let_def)
qed

text \<open>A model that can be run: a positive number of postprocessors, and of preprocessors unless it
  is a custom model.\<close>

definition runnable :: "nxs_model \<Rightarrow> bool" where
  "runnable m \<longleftrightarrow> (\<exists>j > 0. m_num_postprocessors m = Some j) \<and>
     (bm_is_custom_model m \<or> (\<exists>k > 0. m_num_preprocessors m = Some k))"

lemma deploy_component_shape:
  assumes "deploy_component n plans sessions w (idx, m, path) = Inr w'" "runnable m"
  shows "component_shape idx n w w'"
proof -
  from assms(2) obtain j where j: "m_num_postprocessors m = Some j" "j > 0"
    by (auto simp: runnable_def)
  show ?thesis
  proof (cases "bm_is_custom_model m")
    case True
    with assms(1) have "deploy_arbitrary_component_model idx n m sessions path w = Inr w'"
      by (simp add: deploy_component_def split: if_splits)
    then show ?thesis using j by (rule custom_shape)
  next
    case False
    with assms(2) obtain k where k: "m_num_preprocessors m = Some k" "k > 0"
      by (auto simp: runnable_def)
    from False assms(1) have "deploy_pipelined_component_model idx n m sessions w = Inr w'"
      by (simp add: deploy_component_def split: if_splits)
    then show ?thesis using k j by (rule pipelined_shape)
  qed
qed

text \<open>C18: the deployment of a model whose component models have processes to run wires them
  correctly: every queue that a process writes is read by a process of the deployment, so no
  request gets stuck between two component models; and once the first stop flag is set, the
  flag of every process is set in turn, so all of them end.\<close>

theorem deployment_wired:
  assumes "deploy_components ms plans sessions (empty_wiring q0 f0) = Inr w" "ms \<noteq> []"
    "list_all (\<lambda>(m, path). runnable m) ms"
  shows "list_all (\<lambda>p. list_all (read_in (wi_processes w)) (writes p)) (wi_processes w) \<and>
    list_all (\<lambda>p. list_all (flag_set (wi_processes w) (hd (wi_stop_flags w))) (watched p))
      (wi_processes w)"
proof -
  let ?n = "length ms"
  have step: "wired (length ys) ?n w \<Longrightarrow> deploy_component ?n plans sessions w x = Inr w' \<Longrightarrow>
      wired (Suc (length ys)) ?n w'" if "enumerate 0 ms = ys @ x # zs" for ys x zs w w'
  proof -
    obtain idx m path where x: "x = (idx, m, path)" by (cases x) auto
    from that have "enumerate 0 ms ! length ys = x" "length ys < ?n"
      by (simp, metis length_append length_Cons length_enumerate less_add_Suc1 add_Suc_right)
    then have "idx = length ys" "(m, path) = ms ! length ys" by (auto simp: x nth_enumerate_eq)
    with \<open>length ys < ?n\<close> assms(3) have "runnable m" "idx < ?n" "idx = length ys"
      by (auto simp: list_all_length)
    then show "wired (length ys) ?n w \<Longrightarrow> deploy_component ?n plans sessions w x = Inr w' \<Longrightarrow>
        wired (Suc (length ys)) ?n w'"
      using wired_step deploy_component_shape x by blast
  qed
  have "wired (length ys) ?n v" if "foldE (deploy_component ?n plans sessions) (empty_wiring q0 f0) ys = Inr v"
    "enumerate 0 ms = ys @ zs" for ys zs v
    using that
  proof (induction ys arbitrary: zs v rule: rev_induct)
    case Nil
    then show ?case by (auto simp: wired_def empty_wiring_def)
  next
    case (snoc x ys)
    then show ?case using step [of ys x zs] by (force simp: foldE_append bindE_eq_Inr)
  qed
  from this [of "enumerate 0 ms" w "[]"] assms(1) have "wired ?n ?n w"
    by (simp add: deploy_components_def)
  with assms(2) show ?thesis
    by (auto simp: wired_def Let_def all_stop_def list_all_iff)
qed

subsection \<open>A concrete deployment\<close>

text \<open>Two component models, the second one a custom model.\<close>

definition sample_runnable :: "bool \<Rightarrow> nxs_model" where
  "sample_runnable custom = (sample_model ''m'' 1 1)
     \<lparr>bm_is_custom_model := custom, m_num_preprocessors := Some 2, m_num_postprocessors := Some 1\<rparr>"

lemma sample_deployment:
  "\<exists>w. deploy_components [(sample_runnable False, ''p''), (sample_runnable True, ''d'')] 2 [''s'']
     (empty_wiring 0 0) = Inr w"
  by (simp add: deploy_components_def deploy_component_def sample_runnable_def sample_model_def
      deploy_pipelined_component_model_def deploy_input_process_def deploy_pipelined_preproc_process_def
      deploy_arbitrary_component_model_def deploy_arbitrary_model_process_def
      deploy_pipelined_compute_process_def deploy_output_process_def range_opt_def add_preproc_def
      deploy_simps empty_wiring_def add_processes_def numeral_2_eq_2 upt_rec)

theorem deployment_wired_witness:
  "\<exists>w. deploy_components [(sample_runnable False, ''p''), (sample_runnable True, ''d'')] 2 [''s'']
     (empty_wiring 0 0) = Inr w \<and>
   list_all (\<lambda>p. list_all (flag_set (wi_processes w) (hd (wi_stop_flags w))) (watched p)) (wi_processes w)"
proof -
  obtain w where w: "deploy_components [(sample_runnable False, ''p''), (sample_runnable True, ''d'')]
      2 [''s''] (empty_wiring 0 0) = Inr w"
    using sample_deployment by blast
  have "list_all (\<lambda>(m, path). runnable m) [(sample_runnable False, ''p''), (sample_runnable True, ''d'')]"
    by (simp add: runnable_def sample_runnable_def)
  from deployment_wired [OF w _ this] w show ?thesis by blast
qed

end
