(* ===== verification/Nxs_Storage_Cache.thy ===== *)
theory Nxs_Storage_Cache
  imports Nxs_Prelude
begin

section \<open>The local cache of model files (\<open>nxs_libs/storage_cache/\<close>)\<close>

text \<open>
  \<open>NxsLocalStorageCache\<close> downloads model files into a directory and removes the least recently
  used one when there are too many. Its \<open>OrderedDict\<close> is a dictionary in order of use; of the
  disk, the model keeps which files exist. \<open>store u\<close> says whether the storage has a file.
\<close>

record storage_cache =
  lc_max_cache_size :: nat
  lc_dir :: string
  lc_cache :: "(string, string) dict"
  lc_files :: "string list"

definition new_storage_cache :: "string \<Rightarrow> nat \<Rightarrow> storage_cache" where
  "new_storage_cache dir n =
     \<lparr>lc_max_cache_size = n, lc_dir = dir, lc_cache = [], lc_files = []\<rparr>"

text \<open>\<open>os.path.join\<close> for a name that is not absolute.\<close>

definition join_path :: "string \<Rightarrow> string \<Rightarrow> string" where
  "join_path a b = a @ CHR ''/'' # b"

definition move_to_end :: "string \<Rightarrow> (string, string) dict \<Rightarrow> (string, string) dict" where
  "move_to_end k d =
     (case map_of d k of None \<Rightarrow> d | Some v \<Rightarrow> AList.delete k d @ [(k, v)])"

text \<open>The oldest entry leaves, and its file when it exists.\<close>

definition evict :: "storage_cache \<Rightarrow> storage_cache" where
  "evict c =
     (case lc_cache c of
        [] \<Rightarrow> c
      | (k, p) # d \<Rightarrow>
          if length (lc_cache c) > lc_max_cache_size c
          then c\<lparr>lc_cache := d, lc_files := removeAll p (lc_files c)\<rparr>
          else c)"

definition get_model_path ::
    "(string \<Rightarrow> bool) \<Rightarrow> storage_cache \<Rightarrow> string \<Rightarrow> (string \<times> storage_cache) result" where
  "get_model_path store c u =
     (case map_of (lc_cache c) u of
        Some p \<Rightarrow> Inr (p, c\<lparr>lc_cache := move_to_end u (lc_cache c)\<rparr>)
      | None \<Rightarrow>
          let p = join_path (lc_dir c) u
          in if \<not> store (''models/'' @ u) then Inl (Raised ''StorageException'')
             else Inr (p, evict (c\<lparr>lc_files := List.insert p (lc_files c),
                     lc_cache := move_to_end u (AList.update u p (lc_cache c))\<rparr>)))"

subsection \<open>The files of cached models exist\<close>

definition cache_inv :: "storage_cache \<Rightarrow> bool" where
  "cache_inv c \<longleftrightarrow> dict_ok (lc_cache c) \<and> length (lc_cache c) \<le> lc_max_cache_size c \<and>
     (\<forall>(k, p) \<in> set (lc_cache c). p = join_path (lc_dir c) k \<and> p \<in> set (lc_files c))"

lemma join_path_inject [simp]: "join_path a b = join_path a c \<longleftrightarrow> b = c"
  by (simp add: join_path_def)

lemma dict_ok_move_to_end: "dict_ok d \<Longrightarrow> dict_ok (move_to_end k d)"
  by (auto simp: move_to_end_def dict_ok_def dkeys_delete distinct_removeAll split: option.splits)

lemma set_move_to_end: "dict_ok d \<Longrightarrow> set (move_to_end k d) = set d"
  by (auto simp: move_to_end_def dict_ok_mem_iff AList.delete_eq split: option.splits)

lemma length_move_to_end: "dict_ok d \<Longrightarrow> length (move_to_end k d) = length d"
  using set_move_to_end [of d k] dict_ok_move_to_end [of d k]
  by (metis dict_ok_def distinct_card dkeys_def length_map list.set_map)

lemma move_to_end_new:
  "map_of d u = None \<Longrightarrow> move_to_end u (AList.update u p d) = d @ [(u, p)]"
proof -
  assume u: "map_of d u = None"
  then have "AList.update u p d = d @ [(u, p)]" by (induction d) (auto split: if_splits)
  moreover have "AList.delete u (d @ [(u, p)]) = d"
    using u by (induction d) (auto split: if_splits)
  ultimately show ?thesis using u by (simp add: move_to_end_def map_add_def)
qed

lemma evict_idle: "length (lc_cache c) \<le> lc_max_cache_size c \<Longrightarrow> evict c = c"
  by (auto simp: evict_def split: list.splits)

lemma get_model_path_inv:
  assumes inv: "cache_inv c" and pos: "lc_max_cache_size c > 0"
    and get: "get_model_path store c u = Inr (p, c')"
  shows "cache_inv c' \<and> lc_max_cache_size c' = lc_max_cache_size c \<and> lc_dir c' = lc_dir c \<and>
    p = join_path (lc_dir c) u \<and> p \<in> set (lc_files c') \<and> map_of (lc_cache c') u = Some p"
proof (cases "map_of (lc_cache c) u")
  case (Some q)
  then have "(u, q) \<in> set (lc_cache c)" by (rule map_of_SomeD)
  moreover have ok: "dict_ok (lc_cache c)" using inv by (simp add: cache_inv_def)
  moreover have "map_of (move_to_end u (lc_cache c)) u = Some q"
    using Some by (simp add: move_to_end_def map_of_delete' map_add_def)
  ultimately show ?thesis
    using inv get Some
    by (auto simp: get_model_path_def cache_inv_def dict_ok_move_to_end set_move_to_end
        length_move_to_end)
next
  case None
  let ?p = "join_path (lc_dir c) u"
  let ?d = "lc_cache c @ [(u, ?p)]"
  have ok: "dict_ok ?d" using inv None by (auto simp: cache_inv_def dict_ok_def notin_dkeys_iff)
  from None get have c': "p = ?p"
    "c' = evict (c\<lparr>lc_files := List.insert ?p (lc_files c), lc_cache := ?d\<rparr>)"
    by (auto simp: get_model_path_def Let_def move_to_end_new split: if_splits)
  show ?thesis
  proof (cases "length ?d > lc_max_cache_size c")
    case False
    with c' have "c' = c\<lparr>lc_files := List.insert ?p (lc_files c), lc_cache := ?d\<rparr>"
      by (simp add: evict_idle)
    with c'(1) inv ok None False show ?thesis
      by (auto simp: cache_inv_def map_add_def)
  next
    case True
    with pos obtain k q d where d: "lc_cache c = (k, q) # d" by (cases "lc_cache c") auto
    from True d c' have ev: "c' = c\<lparr>lc_files := removeAll q (List.insert ?p (lc_files c)),
        lc_cache := d @ [(u, ?p)]\<rparr>" by (simp add: evict_def)
    have "u \<notin> set (dkeys (lc_cache c))" using None by (simp add: notin_dkeys_iff)
    with d have "k \<noteq> u" "u \<notin> fst ` set d" by (auto simp: dkeys_def)
    moreover have "q = join_path (lc_dir c) k" "k \<notin> fst ` set d"
      using inv d by (auto simp: cache_inv_def dict_ok_def dkeys_def)
    moreover have "map_of d u = None"
      using \<open>u \<notin> fst ` set d\<close> by (simp add: map_of_eq_None_iff)
    moreover have "(a, q) \<notin> set d" for a
    proof
      assume a: "(a, q) \<in> set d"
      with inv d have "q = join_path (lc_dir c) a" by (auto simp: cache_inv_def)
      with \<open>q = join_path (lc_dir c) k\<close> have "a = k" by simp
      with a \<open>k \<notin> fst ` set d\<close> show False by force
    qed
    ultimately show ?thesis
      using inv ok d ev c'(1)
      by (auto simp: cache_inv_def dict_ok_def map_add_def image_iff)
  qed
qed

text \<open>C21: in a cache with room for at least one model, the path that \<open>get_model_path\<close> returns is
  that of an existing file, after any sequence of look-ups; the cache never exceeds its size.\<close>

theorem cached_model_path_exists:
  assumes "lc_max_cache_size c0 > 0" "c0 = new_storage_cache dir n"
    "foldE (\<lambda>c u. bindE (get_model_path store c u) (\<lambda>(_, c). Inr c)) c0 us = Inr c"
    "get_model_path store c u = Inr (p, c')"
  shows "p = join_path dir u \<and> p \<in> set (lc_files c') \<and> length (lc_cache c') \<le> n"
proof -
  let ?I = "\<lambda>c. cache_inv c \<and> lc_max_cache_size c = n \<and> lc_dir c = dir"
  have n: "n > 0" using assms(1,2) by (simp add: new_storage_cache_def)
  have "?I c"
    using assms(3)
  proof (rule foldE_invariant)
    show "?I c0" using assms(2) by (simp add: cache_inv_def new_storage_cache_def)
  next
    fix c u c' assume I: "?I c" and get: "bindE (get_model_path store c u) (\<lambda>(_, c). Inr c) = Inr c'"
    from get obtain p where "get_model_path store c u = Inr (p, c')" by (auto simp: bindE_eq_Inr)
    with get_model_path_inv [of c store u p c'] I n show "?I c'" by simp
  qed
  with get_model_path_inv [of c store u p c'] assms(4) n show ?thesis by (auto simp: cache_inv_def)
qed

theorem cached_model_path_exists_witness:
  "\<exists>c c' p. foldE (\<lambda>c u. bindE (get_model_path (\<lambda>_. True) c u) (\<lambda>(_, c). Inr c))
       (new_storage_cache ''tmp'' 1) [''a'', ''b''] = Inr c \<and>
     get_model_path (\<lambda>_. True) c ''a'' = Inr (p, c') \<and> p \<in> set (lc_files c')"
proof -
  let ?s = "\<lambda>_ :: string. True"
  obtain c where c: "foldE (\<lambda>c u. bindE (get_model_path ?s c u) (\<lambda>(_, c). Inr c))
      (new_storage_cache ''tmp'' 1) [''a'', ''b''] = Inr c"
    by (simp add: get_model_path_def new_storage_cache_def evict_def move_to_end_def Let_def)
  obtain p c' where g: "get_model_path ?s c ''a'' = Inr (p, c')"
    by (cases "map_of (lc_cache c) ''a''") (simp_all add: get_model_path_def Let_def)
  have "lc_max_cache_size (new_storage_cache ''tmp'' 1) > 0" by (simp add: new_storage_cache_def)
  from cached_model_path_exists [OF this refl c g] c g show ?thesis by blast
qed

end
