(* ===== verification/Nxs_Backend.thy ===== *)
theory Nxs_Backend
  imports Nxs_Deploy Nxs_Input Nxs_Storage_Cache Nxs_External
begin

section \<open>The backend's main process (\<open>main_processes/backend/main.py\<close>)\<close>

text \<open>
  The backend registers with the scheduler, sends heartbeats, and deploys and removes models as
  the scheduler's plans say. \<open>handle_msg\<close> is the body of the loop of \<open>run\<close>; \<open>heartbeat_tick\<close>
  and \<open>dispatcher_tick\<close> are the bodies of the loops of the other two threads. The state keeps
  what was pushed to the queues, the running models, and which directories of component
  models exist on disk.
\<close>

subsection \<open>State\<close>

datatype backend_push = PushMsg nxs_msg | PushLog backend_throughput_log

text \<open>\<open>InferRuntimeInfo\<close>; \<open>rt_control\<close> holds the sessions of the first input process.\<close>

record infer_runtime =
  rt_cmodel :: nxs_compository_model
  rt_plan :: per_compository_model_plan
  rt_control :: session_control
  rt_wiring :: wiring

record 'c backend =
  bk_name :: string
  bk_use_gpu :: bool
  bk_heartbeat_interval :: int
  bk_heartbeat_running :: bool
  bk_runtime_map :: "(string, infer_runtime) dict"
  bk_global_dispatcher :: global_dispatcher
  bk_model_info_cache :: 'c
  bk_model_store_cache :: storage_cache
  bk_dirs :: "string list"
  bk_fresh_queue :: nat
  bk_fresh_flag :: nat
  bk_sent :: "(string \<times> backend_push) list"

text \<open>
  What the process uses: the \<open>lru\<close> package, the database, the storage (which files it has),
  \<open>zipfile.is_zipfile\<close> of a model's file, the GPU that \<open>GPUtil\<close> finds, and the directory of
  the program.
\<close>

record 'c backend_deps =
  bd_lru :: "('c, string, nxs_compository_model) lru_ops"
  bd_db :: main_db
  bd_storage :: "string \<Rightarrow> bool"
  bd_is_zip :: "string \<Rightarrow> bool"
  bd_gpu :: "gpu_info option"
  bd_dir :: string

definition push_scheduler :: "nxs_msg \<Rightarrow> 'c backend \<Rightarrow> 'c backend" where
  "push_scheduler m s = s\<lparr>bk_sent := bk_sent s @ [(SCHEDULER_QUEUE, PushMsg m)]\<rparr>"

definition get_backend_stat :: "'c backend_deps \<Rightarrow> backend_stat" where
  "get_backend_stat D = \<lparr>bs_gpu_info = bd_gpu D, bs_extra_data = Some ''{}''\<rparr>"

definition register_backend :: "'c backend_deps \<Rightarrow> 'c backend \<Rightarrow> 'c backend" where
  "register_backend D s =
     push_scheduler (MsgRegisterBackend (bk_name s) (Some (get_backend_stat D))) s"

definition init_backend :: "'c backend_deps \<Rightarrow> string \<Rightarrow> 'c \<Rightarrow> storage_cache \<Rightarrow> 'c backend" where
  "init_backend D name cache store = register_backend D
     \<lparr>bk_name = name, bk_use_gpu = (bd_gpu D \<noteq> None), bk_heartbeat_interval = 10,
      bk_heartbeat_running = False, bk_runtime_map = [], bk_global_dispatcher = [],
      bk_model_info_cache = cache, bk_model_store_cache = store, bk_dirs = [],
      bk_fresh_queue = 0, bk_fresh_flag = 0, bk_sent = []\<rparr>"

subsection \<open>Heartbeats\<close>

text \<open>The old thread is stopped and joined before the new one starts.\<close>

definition process_change_heartbeat_interval :: "int \<Rightarrow> 'c backend \<Rightarrow> 'c backend" where
  "process_change_heartbeat_interval i s =
     s\<lparr>bk_heartbeat_interval := i, bk_heartbeat_running := True\<rparr>"

text \<open>One round of the heartbeat thread, \<open>t0\<close> being the time of the last heartbeat.\<close>

definition heartbeat_tick :: "'c backend_deps \<Rightarrow> rat \<Rightarrow> rat \<Rightarrow> 'c backend \<Rightarrow> rat \<times> 'c backend" where
  "heartbeat_tick D now t0 s =
     (if now - t0 > of_int (bk_heartbeat_interval s)
      then (now, push_scheduler (MsgReportHeartbeat (bk_name s) (Some (get_backend_stat D))) s)
      else (t0, s))"

subsection \<open>Loading a model\<close>

definition query_plan_model :: "main_db \<Rightarrow> string \<Rightarrow> nxs_model result" where
  "query_plan_model db u = (case query_models db u of [] \<Rightarrow> Inl IndexError | m # _ \<Rightarrow> Inr m)"

definition get_compository_model_from_plan ::
    "'c backend_deps \<Rightarrow> per_compository_model_plan \<Rightarrow> 'c backend \<Rightarrow>
       (nxs_compository_model \<times> 'c backend) result" where
  "get_compository_model_from_plan D plan s =
     (let u = scp_model_uuid plan; L = bd_lru D; c = bk_model_info_cache s
      in if lru_has L c u then Inr (lru_get L c u, s\<lparr>bk_model_info_cache := lru_touch L c u\<rparr>)
         else bindE (query_plan_model (bd_db D) u) (\<lambda>main.
              bindE (mapE (\<lambda>p. query_plan_model (bd_db D) (cmp_model_uuid p)) (scp_component_model_plans plan))
                (\<lambda>comps. let cm = \<lparr>cm_main_model = main, cm_component_models = comps\<rparr>
                   in Inr (cm, s\<lparr>bk_model_info_cache := lru_put L c u cm\<rparr>))))"

text \<open>The name of the model file, by framework.\<close>

definition model_file :: "framework \<Rightarrow> string \<Rightarrow> string" where
  "model_file fw dir =
     (case fw of
        FW_ONNX \<Rightarrow> join_path dir ''model.onnx''
      | FW_TVM \<Rightarrow> join_path dir ''model.so''
      | FW_BATCHED_TVM \<Rightarrow> dir
      | FW_TF_PB \<Rightarrow> join_path dir ''model.pb'')"

definition component_dir :: "'c backend_deps \<Rightarrow> nxs_model \<Rightarrow> string" where
  "component_dir D m = join_path (bd_dir D) (m_model_uuid m)"

definition create_dir_if_needed :: "string \<Rightarrow> 'c backend \<Rightarrow> 'c backend" where
  "create_dir_if_needed d s = s\<lparr>bk_dirs := List.insert d (bk_dirs s)\<rparr>"

definition storage_download :: "'c backend_deps \<Rightarrow> string \<Rightarrow> string \<Rightarrow> unit result" where
  "storage_download D dir name =
     (if bd_storage D (dir @ name @ ''.py'') then Inr () else Inl (Raised ''StorageException''))"

text \<open>The directory and the model file, from the local cache.\<close>

definition fetch_model :: "'c backend_deps \<Rightarrow> nxs_model \<Rightarrow> 'c backend \<Rightarrow> 'c backend result" where
  "fetch_model D m s =
     (let s1 = create_dir_if_needed (component_dir D m) s
      in bindE (get_model_path (bd_storage D) (bk_model_store_cache s1) (m_model_uuid m))
           (\<lambda>(_, c). Inr (s1\<lparr>bk_model_store_cache := c\<rparr>)))"

definition download_pipelined_component_model ::
    "'c backend_deps \<Rightarrow> nxs_model \<Rightarrow> 'c backend \<Rightarrow> (string \<times> 'c backend) result" where
  "download_pipelined_component_model D m s =
     (let desc = bm_model_desc m
      in bindE (fetch_model D m s) (\<lambda>s1.
         bindE (storage_download D ''preprocessing/'' (md_preprocessing_name desc)) (\<lambda>_.
         bindE (storage_download D ''postprocessing/'' (md_postprocessing_name desc)) (\<lambda>_.
         bindE (if lower (md_transforming_name desc) \<notin> {'''', ''none''}
                then storage_download D ''transforming/'' (md_transforming_name desc)
                else Inr ()) (\<lambda>_.
           Inr (model_file (bm_framework m) (component_dir D m), s1))))))"

text \<open>A custom model must be a zip file; otherwise its path is empty.\<close>

definition download_arbitrary_component_model ::
    "'c backend_deps \<Rightarrow> nxs_model \<Rightarrow> 'c backend \<Rightarrow> (string \<times> 'c backend) result" where
  "download_arbitrary_component_model D m s =
     bindE (fetch_model D m s) (\<lambda>s1.
       Inr (if bd_is_zip D (m_model_uuid m) then component_dir D m else '''', s1))"

text \<open>All component models; None when a custom model could not be unpacked.\<close>

fun download_models ::
    "'c backend_deps \<Rightarrow> nxs_model list \<Rightarrow> 'c backend \<Rightarrow> (string list option \<times> 'c backend) result" where
  "download_models D [] s = Inr (Some [], s)"
| "download_models D (m # ms) s =
     bindE (if \<not> bm_is_custom_model m then download_pipelined_component_model D m s
            else download_arbitrary_component_model D m s) (\<lambda>(path, s1).
       if bm_is_custom_model m \<and> path = '''' then Inr (None, s1)
       else bindE (download_models D ms s1) (\<lambda>(paths, s2).
              Inr (map_option ((#) path) paths, s2)))"

subsection \<open>Scheduling\<close>

text \<open>A session that is new to a running model. The code copies the arguments of an existing
  session, so there must be one.\<close>

definition add_model_session :: "session_control \<Rightarrow> string \<Rightarrow> session_control result" where
  "add_model_session c u =
     (if u \<in> set (sc_sessions c) then Inr c
      else if sc_sessions c = [] then Inl IndexError
      else Inr (add_session c u))"

definition deploy_compository_model_plan ::
    "'c backend_deps \<Rightarrow> per_compository_model_plan \<Rightarrow> 'c backend \<Rightarrow> 'c backend result" where
  "deploy_compository_model_plan D plan s =
     (case map_of (bk_runtime_map s) (scp_model_uuid plan) of
        Some rt \<Rightarrow>
          bindE (foldE add_model_session (rt_control rt) (scp_session_uuid_list plan)) (\<lambda>c.
            Inr (s\<lparr>bk_runtime_map :=
              AList.update (scp_model_uuid plan) (rt\<lparr>rt_control := c\<rparr>) (bk_runtime_map s)\<rparr>))
      | None \<Rightarrow>
          bindE (get_compository_model_from_plan D plan s) (\<lambda>(cm, s1).
          bindE (download_models D (cm_component_models cm) s1) (\<lambda>(paths, s2).
            case paths of
              None \<Rightarrow> Inr s2
            | Some paths \<Rightarrow>
                bindE (deploy_components (zip (cm_component_models cm) paths)
                         (length (scp_component_model_plans plan)) (scp_session_uuid_list plan)
                         (empty_wiring (bk_fresh_queue s2) (bk_fresh_flag s2))) (\<lambda>w.
                  Inr (s2\<lparr>bk_fresh_queue := wi_fresh_queue w, bk_fresh_flag := wi_fresh_flag w,
                     bk_runtime_map := AList.update (cmodel_uuid cm)
                       \<lparr>rt_cmodel = cm, rt_plan = plan,
                        rt_control = \<lparr>sc_sessions = foldl (\<lambda>us u.
                            if u \<in> set us then us else us @ [u]) [] (scp_session_uuid_list plan),
                          sc_commands = []\<rparr>,
                        rt_wiring = w\<rparr> (bk_runtime_map s2)\<rparr>)))))"

text \<open>\<open>_process_scheduling_plan_v2\<close>: \<open>zip\<close> stops at the shorter list.\<close>

definition process_scheduling_plan ::
    "'c backend_deps \<Rightarrow> per_backend_plan \<Rightarrow> 'c backend \<Rightarrow> 'c backend result" where
  "process_scheduling_plan D plan s =
     foldE (\<lambda>s (p, _). deploy_compository_model_plan D p s) s
       (zip (sbp_compository_model_plans plan) (sbp_duty_cyles plan))"

subsection \<open>Unscheduling\<close>

text \<open>\<open>shutil.rmtree\<close> raises when the directory is not there.\<close>

definition remove_dir :: "string \<Rightarrow> 'c backend \<Rightarrow> 'c backend result" where
  "remove_dir d s =
     (if d \<in> set (bk_dirs s) then Inr (s\<lparr>bk_dirs := removeAll d (bk_dirs s)\<rparr>)
      else Inl (Raised ''FileNotFoundError''))"

definition unschedule_cmodel ::
    "'c backend_deps \<Rightarrow> 'c backend \<Rightarrow> unscheduling_compository_plan \<Rightarrow> 'c backend result" where
  "unschedule_cmodel D s plan =
     (let u = ucp_model_uuid plan
      in case map_of (bk_runtime_map s) u of
           None \<Rightarrow> Inr s
         | Some rt \<Rightarrow>
             (let c = foldl remove_session_uuid (rt_control rt) (ucp_session_uuid_list plan);
                  s1 = s\<lparr>bk_runtime_map :=
                         AList.update u (rt\<lparr>rt_control := c\<rparr>) (bk_runtime_map s)\<rparr>
              in if sc_sessions c \<noteq> [] then Inr s1
                 else bindE (foldE (\<lambda>s m. remove_dir (component_dir D m) s) s1
                               (cm_component_models (rt_cmodel rt))) (\<lambda>s2.
                        Inr (s2\<lparr>bk_global_dispatcher := remove_state (bk_global_dispatcher s2) u,
                                bk_runtime_map := AList.delete u (bk_runtime_map s2)\<rparr>))))"

definition process_unscheduling_plan ::
    "'c backend_deps \<Rightarrow> unscheduling_backend_plan \<Rightarrow> 'c backend \<Rightarrow> 'c backend result" where
  "process_unscheduling_plan D plan s =
     foldE (unschedule_cmodel D) s (ubp_compository_model_plans plan)"

subsection \<open>Messages\<close>

text \<open>Registering again: every running model is unscheduled, with the sessions of its first plan.\<close>

definition reregister :: "'c backend_deps \<Rightarrow> 'c backend \<Rightarrow> 'c backend result" where
  "reregister D s =
     foldE (\<lambda>s k. bindE (dlookup (bk_runtime_map s) k) (\<lambda>rt.
              process_unscheduling_plan D \<lparr>ubp_backend_name = bk_name s,
                ubp_compository_model_plans = [\<lparr>ucp_model_uuid = scp_model_uuid (rt_plan rt),
                  ucp_session_uuid_list = scp_session_uuid_list (rt_plan rt), ucp_extra_info = ''''\<rparr>]\<rparr> s))
       (register_backend D s) (dkeys (bk_runtime_map s))"

definition handle_msg :: "'c backend_deps \<Rightarrow> 'c backend \<Rightarrow> nxs_msg \<Rightarrow> 'c backend result" where
  "handle_msg D s msg =
     (case msg of
        MsgChangeHeartbeatInterval i \<Rightarrow> Inr (process_change_heartbeat_interval i s)
      | MsgRequestRegisterBackend \<Rightarrow> reregister D s
      | MsgSchedulePlans plan \<Rightarrow> process_scheduling_plan D plan s
      | MsgUnschedulePlans plan \<Rightarrow> process_unscheduling_plan D plan s
      | _ \<Rightarrow> Inr s)"

definition backend_round :: "'c backend_deps \<Rightarrow> 'c backend \<Rightarrow> nxs_msg list \<Rightarrow> 'c backend result" where
  "backend_round D s msgs = foldE (handle_msg D) s msgs"

subsection \<open>The thread of the global dispatcher\<close>

definition BACKEND_LOGS :: string where
  "BACKEND_LOGS = ''nxs_backend_logs''"

record dispatcher_timers =
  dt_t0 :: rat
  dt_t1 :: rat
  dt_upload_t0 :: rat

text \<open>
  One round, given the times it reads and the logs that each model's input process has put
  into its list. No updates come back from the global dispatcher.
\<close>

definition dispatcher_tick ::
    "(nat \<Rightarrow> rat) \<Rightarrow> (string \<Rightarrow> cmodel_throughput_log list) \<Rightarrow> dispatcher_timers \<Rightarrow> 'c backend \<Rightarrow>
       dispatcher_timers \<times> 'c backend" where
  "dispatcher_tick now logs t s =
     (if now 0 - dt_t0 t < 3 then (t, s)
      else let g = foldl (\<lambda>g u. update_minidispatcher_stats g u (logs u)) (bk_global_dispatcher s)
                     (dkeys (bk_runtime_map s));
               s = s\<lparr>bk_global_dispatcher := g\<rparr>;
               (t, s) = (if now 1 - dt_t1 t > 10
                 then (t\<lparr>dt_t1 := now 2\<rparr>, push_scheduler (MsgBackendStatsReport (bk_name s)
                         (generate_backend_stats_report_in_json_str g)) s)
                 else (t, s));
               (t, s) = (if now 3 - dt_upload_t0 t \<ge> 5
                 then (t\<lparr>dt_upload_t0 := now 4\<rparr>, s\<lparr>bk_sent := bk_sent s @ [(BACKEND_LOGS, PushLog
                         \<lparr>bl_backend_name = bk_name s,
                          bl_backend_type = (if bk_use_gpu s then BT_GPU else BT_CPU),
                          bl_model_logs = generate_backend_monitoring_log g\<rparr>)]\<rparr>)
                 else (t, s))
           in (t\<lparr>dt_t0 := now 5\<rparr>, s))"

end
