(* ===== verification/Nxs_Backend_Props.thy ===== *)
theory Nxs_Backend_Props
  imports Nxs_Backend Nxs_Samples
begin

section \<open>Deploying and removing models\<close>

text \<open>
  Removing a model undoes its deployment, unless it shares a component model with another
  model; registering again does not remove a model that got sessions after its deployment.
\<close>

lemma update_new: "k \<notin> set (dkeys d) \<Longrightarrow> AList.update k v d = d @ [(k, v)]"
  by (induction d) auto

lemma delete_last: "k \<notin> set (dkeys d) \<Longrightarrow> AList.delete k (d @ [(k, v)]) = d"
  by (induction d) auto

lemma update_last: "k \<notin> set (dkeys d) \<Longrightarrow> AList.update k v (d @ [(k, w)]) = d @ [(k, v)]"
  by (induction d) auto

subsection \<open>Directories\<close>

definition dirs_of :: "'c backend_deps \<Rightarrow> nxs_model list \<Rightarrow> string set" where
  "dirs_of D ms = component_dir D ` set ms"

lemma dirs_of_simps: "dirs_of D [] = {}" "dirs_of D (m # ms) = insert (component_dir D m) (dirs_of D ms)"
  by (simp_all add: dirs_of_def)

text \<open>What downloading leaves alone.\<close>

definition same_models :: "'c backend \<Rightarrow> 'c backend \<Rightarrow> bool" where
  "same_models s s' \<longleftrightarrow> bk_runtime_map s' = bk_runtime_map s \<and> bk_name s' = bk_name s \<and>
     bk_global_dispatcher s' = bk_global_dispatcher s"

lemma fetch_model_dirs:
  "fetch_model D m s = Inr s' \<Longrightarrow>
     same_models s s' \<and> set (bk_dirs s') = insert (component_dir D m) (set (bk_dirs s))"
  by (auto simp: fetch_model_def Let_def bindE_eq_Inr create_dir_if_needed_def same_models_def)

lemma download_model_dirs:
  assumes "(if \<not> bm_is_custom_model m then download_pipelined_component_model D m s
    else download_arbitrary_component_model D m s) = Inr (path, s')"
  shows "same_models s s' \<and> set (bk_dirs s') = insert (component_dir D m) (set (bk_dirs s))"
  using assms fetch_model_dirs [of D m s s']
  by (auto simp: download_pipelined_component_model_def download_arbitrary_component_model_def
      Let_def bindE_eq_Inr split: if_splits)

lemma download_models_dirs:
  assumes "download_models D ms s = Inr (Some paths, s')"
  shows "same_models s s' \<and> set (bk_dirs s') = dirs_of D ms \<union> set (bk_dirs s)"
  using assms
proof (induction ms arbitrary: s paths)
  case Nil
  then show ?case by (simp add: same_models_def dirs_of_def)
next
  case (Cons m ms)
  from Cons.prems obtain path s1 ps where
    1: "(if \<not> bm_is_custom_model m then download_pipelined_component_model D m s
       else download_arbitrary_component_model D m s) = Inr (path, s1)"
    "download_models D ms s1 = Inr (Some ps, s')"
    by (auto simp: bindE_eq_Inr split: if_splits)
  from download_model_dirs [OF 1(1)] Cons.IH [OF 1(2)] show ?case
    by (auto simp: same_models_def dirs_of_def)
qed

lemma get_model_same:
  "get_compository_model_from_plan D plan s = Inr (cm, s') \<Longrightarrow> same_models s s' \<and> bk_dirs s' = bk_dirs s"
  by (auto simp: get_compository_model_from_plan_def Let_def bindE_eq_Inr same_models_def
      split: if_splits)

lemma remove_dirs:
  assumes "distinct (map (component_dir D) ms)" "dirs_of D ms \<subseteq> set (bk_dirs s)"
  shows "\<exists>s'. foldE (\<lambda>s m. remove_dir (component_dir D m) s) s ms = Inr s' \<and> same_models s s' \<and>
    set (bk_dirs s') = set (bk_dirs s) - dirs_of D ms"
  using assms
proof (induction ms arbitrary: s)
  case Nil
  then show ?case by (simp add: same_models_def dirs_of_def)
next
  case (Cons m ms)
  let ?s = "s\<lparr>bk_dirs := removeAll (component_dir D m) (bk_dirs s)\<rparr>"
  have "component_dir D m \<notin> dirs_of D ms" using Cons.prems(1) by (simp add: dirs_of_def)
  with Cons.prems(2) have "dirs_of D ms \<subseteq> set (bk_dirs ?s)" by (auto simp: dirs_of_simps)
  from Cons.IH [OF _ this] Cons.prems show ?case
    by (auto simp: remove_dir_def dirs_of_simps same_models_def)
qed

text \<open>A directory that is not there stays missing, and is missed.\<close>

lemma remove_missing_dir:
  assumes "m \<in> set ms" "component_dir D m \<notin> set (bk_dirs s)"
  shows "\<exists>e. foldE (\<lambda>s m. remove_dir (component_dir D m) s) s ms = Inl e"
  using assms by (induction ms arbitrary: s) (auto simp: remove_dir_def)

lemma removed_dirs_gone:
  assumes "foldE (\<lambda>s m. remove_dir (component_dir D m) s) s ms = Inr s'" "m \<in> set ms"
  shows "component_dir D m \<notin> set (bk_dirs s') \<and> same_models s s'"
proof -
  have sub: "set (bk_dirs t') \<subseteq> set (bk_dirs t) \<and> same_models t t'"
    if "foldE (\<lambda>s m. remove_dir (component_dir D m) s) t xs = Inr t'" for xs t t'
    using that by (induction xs arbitrary: t) (fastforce simp: remove_dir_def same_models_def split: if_splits)+
  show ?thesis
    using assms
  proof (induction ms arbitrary: s)
    case (Cons x xs)
    from Cons.prems(1) have x: "foldE (\<lambda>s m. remove_dir (component_dir D m) s)
        (s\<lparr>bk_dirs := removeAll (component_dir D x) (bk_dirs s)\<rparr>) xs = Inr s'"
      by (auto simp: remove_dir_def split: if_splits)
    from sub [OF x] Cons.IH [OF x] Cons.prems(2) show ?case
      by (cases "m = x") (auto simp: same_models_def)
  qed simp
qed

subsection \<open>Sessions\<close>

lemma remove_sessions:
  "set (sc_sessions (foldl remove_session_uuid c us)) = set (sc_sessions c) - set us"
  by (induction us arbitrary: c) (auto simp: remove_session_uuid_def)

lemma deployed_sessions:
  "set (foldl (\<lambda>us u. if u \<in> set us then us else us @ [u]) vs us) = set vs \<union> set us"
  by (induction us arbitrary: vs) auto

subsection \<open>Deploying and removing\<close>

text \<open>C19: unscheduling all sessions of a model undoes its deployment: when none of its component
  models was in use and they are distinct, the directories and the running models are
  afterwards what they were before, and the global dispatcher has forgotten the model.\<close>

theorem unschedule_undoes_deployment:
  assumes "scp_model_uuid plan \<notin> set (dkeys (bk_runtime_map s))"
    "deploy_compository_model_plan D plan s = Inr s1"
    "map_of (bk_runtime_map s1) (scp_model_uuid plan) = Some rt"
    "distinct (map (component_dir D) (cm_component_models (rt_cmodel rt)))"
    "dirs_of D (cm_component_models (rt_cmodel rt)) \<inter> set (bk_dirs s) = {}"
    "set (scp_session_uuid_list plan) \<subseteq> set us"
  shows "\<exists>s2. process_unscheduling_plan D \<lparr>ubp_backend_name = b, ubp_compository_model_plans =
      [\<lparr>ucp_model_uuid = scp_model_uuid plan, ucp_session_uuid_list = us, ucp_extra_info = x\<rparr>]\<rparr> s1 =
      Inr s2 \<and>
    bk_runtime_map s2 = bk_runtime_map s \<and> set (bk_dirs s2) = set (bk_dirs s) \<and>
    map_of (bk_global_dispatcher s2) (scp_model_uuid plan) = None"
proof -
  let ?u = "scp_model_uuid plan"
  have none: "map_of (bk_runtime_map s) ?u = None" using assms(1) by (simp add: notin_dkeys_iff)
  from assms(2) none obtain cm t1 paths t2 where
    1: "get_compository_model_from_plan D plan s = Inr (cm, t1)"
    "download_models D (cm_component_models cm) t1 = Inr (paths, t2)"
    by (auto simp: deploy_compository_model_plan_def bindE_eq_Inr)
  from get_model_same [OF 1(1)] have t1: "bk_runtime_map t1 = bk_runtime_map s" "bk_dirs t1 = bk_dirs s"
    by (auto simp: same_models_def)
  have "paths \<noteq> None"
  proof
    assume "paths = None"
    with assms(2) none 1 have "s1 = t2" by (simp add: deploy_compository_model_plan_def)
    moreover have "bk_runtime_map t2 = bk_runtime_map t1"
      if "download_models D ms t1 = Inr (paths, t2)" for ms
      using that
    proof (induction ms arbitrary: t1 paths)
      case (Cons m ms)
      from Cons.prems obtain path v where v: "(if \<not> bm_is_custom_model m
          then download_pipelined_component_model D m t1
          else download_arbitrary_component_model D m t1) = Inr (path, v)"
        "v = t2 \<or> (\<exists>ps. download_models D ms v = Inr (ps, t2))"
        by (auto simp: bindE_eq_Inr split: if_splits)
      from v(2) Cons.IH [of v] have "bk_runtime_map t2 = bk_runtime_map v" by auto
      with download_model_dirs [OF v(1)] show ?case by (simp add: same_models_def)
    qed simp
    ultimately show False using 1(2) t1 none assms(3) by simp
  qed
  then obtain ps where ps: "paths = Some ps" by blast
  from download_models_dirs [of D "cm_component_models cm" t1 ps t2] 1(2) ps t1 have
    t2: "bk_runtime_map t2 = bk_runtime_map s"
    "set (bk_dirs t2) = dirs_of D (cm_component_models cm) \<union> set (bk_dirs s)"
    by (auto simp: same_models_def)
  from assms(2) none 1 ps obtain w c where
    s1: "s1 = t2\<lparr>bk_fresh_queue := wi_fresh_queue w, bk_fresh_flag := wi_fresh_flag w,
      bk_runtime_map := AList.update (cmodel_uuid cm) \<lparr>rt_cmodel = cm, rt_plan = plan,
        rt_control = c, rt_wiring = w\<rparr> (bk_runtime_map s)\<rparr>"
    "set (sc_sessions c) = set (scp_session_uuid_list plan)"
    by (auto simp: deploy_compository_model_plan_def bindE_eq_Inr t2(1) deployed_sessions)
  have u: "cmodel_uuid cm = ?u" "rt = \<lparr>rt_cmodel = cm, rt_plan = plan, rt_control = c, rt_wiring = w\<rparr>"
    using assms(3) s1(1) none by (auto simp: map_of_update split: if_splits)
  let ?c = "foldl remove_session_uuid c us"
  let ?s = "s1\<lparr>bk_runtime_map := AList.update ?u (rt\<lparr>rt_control := ?c\<rparr>) (bk_runtime_map s1)\<rparr>"
  have "set (sc_sessions ?c) = {}"
    unfolding remove_sessions s1(2) using assms(6) by auto
  then have "sc_sessions ?c = []" by simp
  moreover have "set (bk_dirs ?s) = dirs_of D (cm_component_models cm) \<union> set (bk_dirs s)"
    using s1(1) t2(2) by simp
  moreover from this obtain s2 where s2: "foldE (\<lambda>s m. remove_dir (component_dir D m) s) ?s
      (cm_component_models cm) = Inr s2" "same_models ?s s2"
    "set (bk_dirs s2) = set (bk_dirs ?s) - dirs_of D (cm_component_models cm)"
    using remove_dirs [of D "cm_component_models cm" ?s] assms(4) u(2) by auto
  moreover have "AList.delete ?u (AList.update ?u r (AList.update ?u r' (bk_runtime_map s))) =
      bk_runtime_map s" for r r'
    using assms(1) by (simp add: update_new update_last delete_last)
  ultimately show ?thesis
    using assms(3,5) u s1(1)
    by (auto simp: process_unscheduling_plan_def unschedule_cmodel_def Let_def remove_state_def
        same_models_def map_of_delete')
qed

subsection \<open>Shared component models\<close>

text \<open>A running model all of whose sessions a plan removes, and one of whose directories is
  missing.\<close>

lemma unschedule_missing_dir:
  assumes "map_of (bk_runtime_map s) (ucp_model_uuid p) = Some rt"
    "set (sc_sessions (rt_control rt)) \<subseteq> set (ucp_session_uuid_list p)"
    "m \<in> set (cm_component_models (rt_cmodel rt))" "component_dir D m \<notin> set (bk_dirs s)"
  shows "\<exists>e. unschedule_cmodel D s p = Inl e"
proof -
  let ?c = "foldl remove_session_uuid (rt_control rt) (ucp_session_uuid_list p)"
  have "set (sc_sessions ?c) = {}" unfolding remove_sessions using assms(2) by auto
  then have "sc_sessions ?c = []" by simp
  moreover have "\<exists>e. foldE (\<lambda>s m. remove_dir (component_dir D m) s)
      (s\<lparr>bk_runtime_map := AList.update (ucp_model_uuid p) (rt\<lparr>rt_control := ?c\<rparr>) (bk_runtime_map s)\<rparr>)
      (cm_component_models (rt_cmodel rt)) = Inl e"
    by (rule remove_missing_dir [OF assms(3)]) (simp add: assms(4))
  ultimately show ?thesis using assms(1) by (auto simp: unschedule_cmodel_def Let_def)
qed

lemma unschedule_removes_dirs:
  assumes "map_of (bk_runtime_map s) (ucp_model_uuid p) = Some rt"
    "set (sc_sessions (rt_control rt)) \<subseteq> set (ucp_session_uuid_list p)"
    "unschedule_cmodel D s p = Inr s'" "m \<in> set (cm_component_models (rt_cmodel rt))"
  shows "component_dir D m \<notin> set (bk_dirs s') \<and>
    (\<forall>u. u \<noteq> ucp_model_uuid p \<longrightarrow> map_of (bk_runtime_map s') u = map_of (bk_runtime_map s) u)"
proof -
  let ?c = "foldl remove_session_uuid (rt_control rt) (ucp_session_uuid_list p)"
  let ?s = "s\<lparr>bk_runtime_map := AList.update (ucp_model_uuid p) (rt\<lparr>rt_control := ?c\<rparr>) (bk_runtime_map s)\<rparr>"
  have "set (sc_sessions ?c) = {}" unfolding remove_sessions using assms(2) by auto
  then have "sc_sessions ?c = []" by simp
  with assms(1,3) obtain t where t: "foldE (\<lambda>s m. remove_dir (component_dir D m) s) ?s
      (cm_component_models (rt_cmodel rt)) = Inr t" "s' = t\<lparr>bk_global_dispatcher :=
      remove_state (bk_global_dispatcher t) (ucp_model_uuid p),
      bk_runtime_map := AList.delete (ucp_model_uuid p) (bk_runtime_map t)\<rparr>"
    by (auto simp: unschedule_cmodel_def Let_def bindE_eq_Inr)
  from removed_dirs_gone [OF t(1) assms(4)] t(2) show ?thesis
    by (auto simp: same_models_def map_of_update map_of_delete')
qed

text \<open>two running models that share a component model share its directory: a plan that removes
  both deletes the directory with the first one, and the attempt to delete it again with the
  second one raises and stops the backend.\<close>

theorem shared_component_stops_backend:
  assumes "map_of (bk_runtime_map s) (ucp_model_uuid p) = Some rt"
    "map_of (bk_runtime_map s) (ucp_model_uuid q) = Some rt'" "ucp_model_uuid p \<noteq> ucp_model_uuid q"
    "m \<in> set (cm_component_models (rt_cmodel rt))" "m \<in> set (cm_component_models (rt_cmodel rt'))"
    "set (sc_sessions (rt_control rt)) \<subseteq> set (ucp_session_uuid_list p)"
    "set (sc_sessions (rt_control rt')) \<subseteq> set (ucp_session_uuid_list q)"
  shows "\<exists>e. process_unscheduling_plan D
    \<lparr>ubp_backend_name = b, ubp_compository_model_plans = [p, q]\<rparr> s = Inl e"
proof (cases "unschedule_cmodel D s p")
  case (Inl e)
  then show ?thesis by (simp add: process_unscheduling_plan_def)
next
  case (Inr s1)
  from unschedule_removes_dirs [OF assms(1,6) Inr assms(4)] assms(2,3)
  have "component_dir D m \<notin> set (bk_dirs s1)" "map_of (bk_runtime_map s1) (ucp_model_uuid q) = Some rt'"
    by auto
  from unschedule_missing_dir [OF this(2) assms(7,5) this(1)] Inr show ?thesis
    by (auto simp: process_unscheduling_plan_def)
qed

subsection \<open>Registering again\<close>

text \<open>when the scheduler asks for a new registration, the backend means to remove all models, but
  it unschedules the sessions of the plan that deployed the model: a session that was added
  later stays, and with it the model, although the backend has registered as if it were
  empty.\<close>

theorem reregister_keeps_added_sessions:
  assumes "bk_runtime_map s = [(scp_model_uuid (rt_plan rt), rt)]"
    "v \<in> set (sc_sessions (rt_control rt))" "v \<notin> set (scp_session_uuid_list (rt_plan rt))"
  shows "\<exists>s' rt'. reregister D s = Inr s' \<and> bk_runtime_map s' = [(scp_model_uuid (rt_plan rt), rt')] \<and>
    v \<in> set (sc_sessions (rt_control rt')) \<and> bk_dirs s' = bk_dirs s \<and>
    last (bk_sent s') = (SCHEDULER_QUEUE,
      PushMsg (MsgRegisterBackend (bk_name s) (Some (get_backend_stat D))))"
proof -
  let ?c = "foldl remove_session_uuid (rt_control rt) (scp_session_uuid_list (rt_plan rt))"
  have v: "v \<in> set (sc_sessions ?c)" unfolding remove_sessions using assms(2,3) by auto
  then have "sc_sessions ?c \<noteq> []" by auto
  with assms(1) v show ?thesis
    by (simp add: reregister_def dlookup_def process_unscheduling_plan_def unschedule_cmodel_def
        register_backend_def push_scheduler_def Let_def)
qed

subsection \<open>Concrete backends\<close>

definition sample_component :: "string \<Rightarrow> nxs_model" where
  "sample_component u = (sample_model u 1 1)
     \<lparr>m_num_preprocessors := Some 1, m_num_postprocessors := Some 1\<rparr>"

definition sample_deps :: "(string \<times> nxs_compository_model) option backend_deps" where
  "sample_deps = \<lparr>bd_lru = sample_lru,
     bd_db = \<lparr>query_pipelines = (\<lambda>_. []), query_models = (\<lambda>u. [sample_component u])\<rparr>,
     bd_storage = (\<lambda>_. True), bd_is_zip = (\<lambda>_. True), bd_gpu = None, bd_dir = ''nxs''\<rparr>"

definition sample_backend :: "(string \<times> nxs_compository_model) option backend" where
  "sample_backend = init_backend sample_deps ''b'' None (new_storage_cache ''tmp'' 50)"

definition sample_cmodel_plan :: "string \<Rightarrow> per_compository_model_plan" where
  "sample_cmodel_plan u = \<lparr>scp_model_uuid = u, scp_session_uuid_list = [''s''],
     scp_component_model_plans = [\<lparr>cmp_model_uuid = ''x'', cmp_batch_size = 1, cmp_extra_info = ''''\<rparr>],
     scp_extra_info = ''''\<rparr>"

lemma sample_backend_map: "bk_runtime_map sample_backend = []" "bk_dirs sample_backend = []"
  by (simp_all add: sample_backend_def init_backend_def register_backend_def push_scheduler_def)

lemmas deploy_eval = deploy_compository_model_plan_def get_compository_model_from_plan_def
  query_plan_model_def download_pipelined_component_model_def fetch_model_def create_dir_if_needed_def
  storage_download_def get_model_path_def evict_def move_to_end_def deploy_components_def
  deploy_component_def deploy_pipelined_component_model_def deploy_input_process_def
  deploy_pipelined_preproc_process_def deploy_pipelined_compute_process_def
  deploy_output_process_def range_opt_def add_preproc_def new_queue_def append_queue_def
  new_stop_flag_def new_allow_flag_def last_queue_def last_stop_flag_def add_processes_def
  empty_wiring_def Let_def

lemmas sample_eval = sample_deps_def sample_cmodel_plan_def sample_lru_def sample_component_def
  sample_model_def sample_desc_def component_dir_def

lemma sample_store: "bk_model_store_cache sample_backend = new_storage_cache ''tmp'' 50"
  "bk_model_info_cache sample_backend = None"
  by (simp_all add: sample_backend_def init_backend_def register_backend_def push_scheduler_def)

lemma sample_deployed:
  "\<exists>s1 rt. deploy_compository_model_plan sample_deps (sample_cmodel_plan ''x'') sample_backend = Inr s1 \<and>
     map_of (bk_runtime_map s1) ''x'' = Some rt \<and>
     rt_cmodel rt = \<lparr>cm_main_model = sample_component ''x'', cm_component_models = [sample_component ''x'']\<rparr>"
  by (simp add: deploy_eval sample_eval sample_store sample_backend_map new_storage_cache_def
      upt_rec lower_def)

theorem unschedule_undoes_deployment_witness:
  "\<exists>s1 s2. deploy_compository_model_plan sample_deps (sample_cmodel_plan ''x'') sample_backend = Inr s1 \<and>
     process_unscheduling_plan sample_deps \<lparr>ubp_backend_name = ''b'', ubp_compository_model_plans =
       [\<lparr>ucp_model_uuid = scp_model_uuid (sample_cmodel_plan ''x''), ucp_session_uuid_list = [''s''],
         ucp_extra_info = ''''\<rparr>]\<rparr> s1 = Inr s2 \<and>
     bk_runtime_map s2 = bk_runtime_map sample_backend"
proof -
  obtain s1 rt where s1: "deploy_compository_model_plan sample_deps (sample_cmodel_plan ''x'')
      sample_backend = Inr s1" "map_of (bk_runtime_map s1) ''x'' = Some rt"
    "rt_cmodel rt = \<lparr>cm_main_model = sample_component ''x'', cm_component_models = [sample_component ''x'']\<rparr>"
    using sample_deployed by blast
  have u: "scp_model_uuid (sample_cmodel_plan ''x'') \<notin> set (dkeys (bk_runtime_map sample_backend))"
    by (simp add: sample_backend_map)
  have r: "map_of (bk_runtime_map s1) (scp_model_uuid (sample_cmodel_plan ''x'')) = Some rt"
    using s1(2) by (simp add: sample_cmodel_plan_def)
  from unschedule_undoes_deployment [OF u s1(1) r, of "[''s'']"] s1 show ?thesis
    by (auto simp: sample_backend_map sample_cmodel_plan_def)
qed

definition sample_runtime :: "string \<Rightarrow> infer_runtime" where
  "sample_runtime u = \<lparr>rt_cmodel = \<lparr>cm_main_model = sample_component u,
     cm_component_models = [sample_component ''x'']\<rparr>, rt_plan = sample_cmodel_plan u,
     rt_control = \<lparr>sc_sessions = [''s'', ''later''], sc_commands = []\<rparr>, rt_wiring = empty_wiring 0 0\<rparr>"

definition sample_unplan :: "string \<Rightarrow> unscheduling_compository_plan" where
  "sample_unplan u = \<lparr>ucp_model_uuid = u, ucp_session_uuid_list = [''s'', ''later''], ucp_extra_info = ''''\<rparr>"

theorem shared_component_stops_backend_witness:
  "\<exists>e. process_unscheduling_plan sample_deps \<lparr>ubp_backend_name = ''b'',
     ubp_compository_model_plans = [sample_unplan ''a'', sample_unplan ''c'']\<rparr>
     (sample_backend\<lparr>bk_runtime_map := [(''a'', sample_runtime ''a''), (''c'', sample_runtime ''c'')],
        bk_dirs := [component_dir sample_deps (sample_component ''x'')]\<rparr>) = Inl e"
  by (rule shared_component_stops_backend [where rt = "sample_runtime ''a''"
        and rt' = "sample_runtime ''c''" and m = "sample_component ''x''"])
    (simp_all add: sample_unplan_def sample_runtime_def)

theorem reregister_keeps_added_sessions_witness:
  "\<exists>s' rt'. reregister sample_deps
     (sample_backend\<lparr>bk_runtime_map := [(''x'', sample_runtime ''x'')]\<rparr>) = Inr s' \<and>
     bk_runtime_map s' = [(''x'', rt')] \<and> ''later'' \<in> set (sc_sessions (rt_control rt'))"
proof -
  have "scp_model_uuid (rt_plan (sample_runtime ''x'')) = ''x''"
    "''later'' \<in> set (sc_sessions (rt_control (sample_runtime ''x'')))"
    "''later'' \<notin> set (scp_session_uuid_list (rt_plan (sample_runtime ''x'')))"
    by (simp_all add: sample_runtime_def sample_cmodel_plan_def)
  with reregister_keeps_added_sessions [of "sample_backend\<lparr>bk_runtime_map := [(''x'', sample_runtime ''x'')]\<rparr>"
      "sample_runtime ''x''" "''later''" sample_deps]
  show ?thesis by auto
qed

end
