(* ===== verification/Nxs_Compute.thy ===== *)
theory Nxs_Compute
  imports Nxs_Preproc
begin

section \<open>Compute processes (\<open>main_processes/backend/compute_process.py\<close> and its subclasses)\<close>

text \<open>
  A compute process runs the model on the batches that the preprocessors send and passes one
  item per request on to the output processes. The model itself is a parameter (\<open>_infer\<close> of
  the subclasses calls ONNX, TVM or TensorFlow), as is the user's transform function.
  Metadata objects are shared between the batch and the output buffer, so the steps carry the
  index of the metadata that belongs to an output.
\<close>

subsection \<open>Configuration\<close>

type_synonym feed = "(string, py_value list) dict"

text \<open>One list of rows per output tensor.\<close>

type_synonym infer_fn = "feed \<Rightarrow> string list \<Rightarrow> py_value list list result"

type_synonym transform_fn =
  "pydict \<Rightarrow> py_value \<Rightarrow> task_metadata \<Rightarrow> task_metadata \<times> feed list result"

record compute_config =
  cc_model_uuid :: string
  cc_input_names :: "string list"
  cc_output_names :: "string list"
  cc_batching :: bool
  cc_infer :: infer_fn
  cc_transform_fn :: "transform_fn option"
  cc_transform_extra_params :: py_value

text \<open>
  The parameters of the transform function. Loading the function replaces them by the value of
  the last entry of the model's metadata, where an entry was meant to be added.
\<close>

definition initial_transform_params :: "int \<Rightarrow> profile_unit list \<Rightarrow> py_value" where
  "initial_transform_params max_bs profile =
     PyDict [(PyStr ''max_batch_size'', PyInt max_bs),
       (PyStr ''supported_batch_sizes'', PyList (map PyInt (sort (map pu_batch_size
          (filter (\<lambda>p. pu_batch_size p \<le> max_bs) profile)))))]"

definition load_transform_params :: "backend_env \<Rightarrow> string option \<Rightarrow> py_value \<Rightarrow> py_value" where
  "load_transform_params E metadata params =
     (case metadata of
        None \<Rightarrow> params
      | Some s \<Rightarrow>
          (case be_json_loads E s of
             Inr (PyDict d) \<Rightarrow> foldl (\<lambda>_ (k, v). v) params d
           | _ \<Rightarrow> params))"

text \<open>\<open>transforming_name.lower() not in [None, "", "none"]\<close> decides whether it is loaded.\<close>

subsection \<open>Time stamps\<close>

definition compute_entering :: "backend_env \<Rightarrow> string \<Rightarrow> nat \<Rightarrow> pydict \<Rightarrow> pydict result" where
  "compute_entering E uuid n = set_model_key uuid ''model_t0'' (PyFloat (be_now E n))"

definition compute_exiting :: "backend_env \<Rightarrow> string \<Rightarrow> nat \<Rightarrow> pydict \<Rightarrow> pydict result" where
  "compute_exiting E uuid n extra =
     bindE (pop_model_key uuid ''model_t0'' extra) (\<lambda>(v, extra).
     bindE (py_number v) (\<lambda>t0. set_model_key uuid ''model_lat'' (PyFloat (be_now E n - t0)) extra))"

subsection \<open>Running the model\<close>

definition feed_dict :: "string list \<Rightarrow> (py_value, py_value list) dict \<Rightarrow> feed result" where
  "feed_dict names b = mapE (\<lambda>t. bindE (dlookup b (PyStr t)) (\<lambda>v. Inr (t, v))) names"

text \<open>Row \<open>i\<close> of every output, with the metadata of the same index, which must exist.\<close>

definition output_row ::
    "string list \<Rightarrow> py_value list list \<Rightarrow> nat \<Rightarrow> nat \<Rightarrow> (py_value \<times> nat) result" where
  "output_row names outs k i =
     bindE (mapE (\<lambda>(t, rows). bindE (seq_index rows (int i)) (\<lambda>v. Inr (PyStr t, v))) (zip names outs))
       (\<lambda>d. if i < k then Inr (PyDict d, i) else Inl IndexError)"

text \<open>One output per row of the first output tensor, \<open>k\<close> being the number of requests.\<close>

definition infer_rows ::
    "compute_config \<Rightarrow> (py_value, py_value list) dict \<Rightarrow> nat \<Rightarrow> (py_value \<times> nat) list result" where
  "infer_rows C b k =
     bindE (feed_dict (cc_input_names C) b) (\<lambda>f.
     bindE (cc_infer C f (cc_output_names C)) (\<lambda>outs.
       case outs of
         [] \<Rightarrow> Inl IndexError
       | o1 # _ \<Rightarrow> mapE (output_row (cc_output_names C) outs k) [0..<length o1]))"

definition process_normal_batchable ::
    "compute_config \<Rightarrow> (py_value, py_value list) dict \<Rightarrow> task_metadata list \<Rightarrow>
       ((py_value \<times> nat) list \<times> task_metadata list) result" where
  "process_normal_batchable C b ms = bindE (infer_rows C b (length ms)) (\<lambda>outs. Inr (outs, ms))"

text \<open>\<open>results[key][0] = batch[key][0]\<close>\<close>

definition forward_input ::
    "(py_value, py_value list) dict \<Rightarrow> py_value \<Rightarrow> py_value \<Rightarrow> py_value result" where
  "forward_input b res key =
     bindE (bindE (dlookup b key) (\<lambda>xs. seq_index xs 0)) (\<lambda>v.
     bindE (py_getitem res key) (\<lambda>old.
       case (res, old) of
         (PyDict d, PyList (y # ys)) \<Rightarrow> Inr (PyDict (AList.update key (PyList (v # ys)) d))
       | (PyDict _, PyList []) \<Rightarrow> Inl IndexError
       | _ \<Rightarrow> Inl TypeError))"

definition transformer_args :: "backend_env \<Rightarrow> py_value \<Rightarrow> infer_request_metadata \<Rightarrow> py_value result" where
  "transformer_args E params u =
     (let user = loads_params E (rm_extra_transform_params u)
      in bindE (py_iter user) (\<lambda>ks.
           if ks = [] then Inr params
           else case params of
                  PyDict d \<Rightarrow> bindE (copy_entries d user) (\<lambda>d. Inr (PyDict d))
                | _ \<Rightarrow> Inl TypeError))"

text \<open>The outputs of all transformed inputs, one list per output tensor.\<close>

definition add_outputs ::
    "string list \<Rightarrow> py_value list list \<Rightarrow> (py_value, py_value list) dict \<Rightarrow>
       (py_value, py_value list) dict" where
  "add_outputs names outs acc = foldl (\<lambda>d (t, rows). extend_entry d (PyStr t) rows) acc (zip names outs)"

text \<open>
  \<open>_process_unbatchable\<close>: a request that skips the model, the model without a transform
  function, or a single request through the transform function. The first and the last look
  only at the first request of the batch.
\<close>

definition process_unbatchable ::
    "backend_env \<Rightarrow> compute_config \<Rightarrow> (py_value, py_value list) dict \<Rightarrow> task_metadata list \<Rightarrow>
       ((py_value \<times> nat) list \<times> task_metadata list) result" where
  "process_unbatchable E C b ms =
     (case ms of
        [] \<Rightarrow> Inl IndexError
      | m # rest \<Rightarrow>
          if tm_skip_compute m = Some True
          then (case tm_skip_result m of
                  None \<Rightarrow> Inl KeyError
                | Some r \<Rightarrow>
                    bindE (foldE (forward_input b) r
                             (case tm_forward_inputs m of None \<Rightarrow> [] | Some ks \<Rightarrow> ks)) (\<lambda>r.
                      Inr ([(r, 0)], ms)))
          else (case cc_transform_fn C of
                  None \<Rightarrow> process_normal_batchable C b ms
                | Some tf \<Rightarrow>
                    bindE (mapE (\<lambda>(k, xs). bindE (seq_index xs 0) (\<lambda>x. Inr (k, x))) b) (\<lambda>item.
                    bindE (transformer_args E (cc_transform_extra_params C) (tm_user m)) (\<lambda>args.
                      let (m', feeds) = tf item args m
                      in bindE feeds (\<lambda>feeds.
                         bindE (foldE (\<lambda>acc f. bindE (cc_infer C f (cc_output_names C)) (\<lambda>outs.
                                  Inr (add_outputs (cc_output_names C) outs acc))) [] feeds) (\<lambda>acc.
                           Inr ([(PyDict (map (\<lambda>(k, xs). (k, PyList xs)) acc), 0)], m' # rest)))))))"

subsection \<open>One batch\<close>

definition run_model ::
    "backend_env \<Rightarrow> compute_config \<Rightarrow> (py_value, py_value list) dict \<Rightarrow> task_metadata list \<Rightarrow>
       ((py_value \<times> nat) list \<times> task_metadata list) result" where
  "run_model E C b ms =
     (if cc_batching C \<and> cc_transform_fn C = None then process_normal_batchable C b ms
      else process_unbatchable E C b ms)"

text \<open>The items that leave, with the metadata as it is after the time stamps.\<close>

definition compute_batch ::
    "backend_env \<Rightarrow> compute_config \<Rightarrow> nat \<Rightarrow> batch \<Rightarrow> ((py_value \<times> task_metadata) list \<times> nat) result"
  where
  "compute_batch E C n bm =
     (let (b, ms) = bm
      in bindE (stamp_all (compute_entering E (cc_model_uuid C)) n ms) (\<lambda>(ms, n).
         bindE (run_model E C b ms) (\<lambda>(outs, ms).
         bindE (stamp_all (compute_exiting E (cc_model_uuid C)) n ms) (\<lambda>(ms, n).
           Inr (map (\<lambda>(r, i). (r, ms ! i)) outs, n)))))"

text \<open>One round of the loop: all batches that the reader threads have put into the buffer.\<close>

definition compute_iteration ::
    "backend_env \<Rightarrow> compute_config \<Rightarrow> (py_value \<times> task_metadata) list \<times> nat \<Rightarrow> batch list \<Rightarrow>
       ((py_value \<times> task_metadata) list \<times> nat) result" where
  "compute_iteration E C = foldE (\<lambda>(sent, n) bm.
     bindE (compute_batch E C n bm) (\<lambda>(items, n). Inr (sent @ items, n)))"

end
