(* ===== verification/Nxs_Compute_Props.thy ===== *)
theory Nxs_Compute_Props
  imports Nxs_Compute Nxs_Preproc_Props Nxs_Output_Props
begin

section \<open>What a compute process passes on\<close>

text \<open>
  Without a transform function a batch leads to one item per request, with the request's own
  metadata; with one, only the first request of a batch is answered. The first result is then
  composed with the preprocessors before and the output processes behind.
\<close>

subsection \<open>Time stamps\<close>

lemma compute_entering_total:
  assumes "has_model_dict uuid extra"
  shows "\<exists>e. compute_entering E uuid n extra = Inr e \<and> stage_open uuid ''model_t0'' e"
proof -
  from set_model_key_total [OF assms, of "''model_t0''" "PyFloat (be_now E n)"]
  show ?thesis by (auto simp: compute_entering_def stage_open_def dict_simps)
qed

lemma compute_exiting_total:
  assumes "stage_open uuid ''model_t0'' extra"
  shows "\<exists>e. compute_exiting E uuid n extra = Inr e \<and> has_model_dict uuid e"
proof -
  from assms obtain d t where "map_of extra (PyStr uuid) = Some (PyDict d)"
    "map_of d (PyStr ''model_t0'') = Some (PyFloat t)"
    by (auto simp: stage_open_def)
  then show ?thesis
    by (simp add: compute_exiting_def pop_model_key_def set_model_key_def dlookup_def dict_simps
        has_model_dict_def)
qed

subsection \<open>Rows and requests\<close>

text \<open>The model returns one row per request for every output tensor it is asked for.\<close>

definition row_per_request :: "compute_config \<Rightarrow> (py_value, py_value list) dict \<Rightarrow> nat \<Rightarrow> bool" where
  "row_per_request C b k \<longleftrightarrow>
     (case feed_dict (cc_input_names C) b of
        Inl _ \<Rightarrow> False
      | Inr f \<Rightarrow>
          (case cc_infer C f (cc_output_names C) of
             Inl _ \<Rightarrow> False
           | Inr outs \<Rightarrow> outs \<noteq> [] \<and> list_all (\<lambda>rows. length rows = k) outs))"

lemma output_row_total:
  assumes "list_all (\<lambda>rows. length rows = k) outs" "i < k"
  shows "output_row names outs k i =
    Inr (PyDict (map (\<lambda>(t, rows). (PyStr t, rows ! i)) (zip names outs)), i)"
proof -
  have "mapE (\<lambda>(t, rows). bindE (seq_index rows (int i)) (\<lambda>v. Inr (PyStr t, v))) (zip names outs) =
    Inr (map (\<lambda>(t, rows). (PyStr t, rows ! i)) (zip names outs))"
    using assms
    by (auto simp: mapE_eq_Inr list_all2_conv_all_nth seq_index_def list_all_length)
  with assms(2) show ?thesis by (simp add: output_row_def)
qed

lemma infer_rows_total:
  assumes "row_per_request C b k"
  shows "\<exists>outs. infer_rows C b k = Inr outs \<and> map snd outs = [0..<k]"
proof -
  from assms obtain f outs where f: "feed_dict (cc_input_names C) b = Inr f"
    "cc_infer C f (cc_output_names C) = Inr outs" "outs \<noteq> []" "list_all (\<lambda>rows. length rows = k) outs"
    by (auto simp: row_per_request_def split: sum.splits)
  then obtain o1 os where o1: "outs = o1 # os" "length o1 = k" by (cases outs) auto
  let ?row = "\<lambda>i. (PyDict (map (\<lambda>(t, rows). (PyStr t, rows ! i)) (zip (cc_output_names C) outs)), i)"
  have "mapE (output_row (cc_output_names C) outs k) [0..<k] = Inr (map ?row [0..<k])"
    using output_row_total [OF f(4)]
    by (auto simp: mapE_eq_Inr list_all2_conv_all_nth)
  moreover have "map snd (map ?row [0..<k]) = [0..<k]" by (simp add: comp_def)
  ultimately show ?thesis using f o1 by (simp add: infer_rows_def del: map_map)
qed

definition plain_model :: "compute_config \<Rightarrow> bool" where
  "plain_model C \<longleftrightarrow> cc_batching C \<and> cc_transform_fn C = None"

lemma compute_batch_total:
  assumes "plain_model C" "row_per_request C b (length ms)"
    "list_all (\<lambda>m. has_model_dict (cc_model_uuid C) (tm_extra m)) ms"
  shows "\<exists>items n'. compute_batch E C n (b, ms) = Inr (items, n') \<and>
    map (unstamped \<circ> snd) items = map unstamped ms"
proof -
  let ?u = "cc_model_uuid C"
  from stamp_all_total [where f = "compute_entering E ?u", OF assms(3) compute_entering_total]
  obtain ms1 n1 where s1: "stamp_all (compute_entering E ?u) n ms = Inr (ms1, n1)"
    "list_all (\<lambda>m. stage_open ?u ''model_t0'' (tm_extra m)) ms1" by blast
  from stamp_all_total [where f = "compute_exiting E ?u", OF s1(2) compute_exiting_total]
  obtain ms2 n2 where s2: "stamp_all (compute_exiting E ?u) n1 ms1 = Inr (ms2, n2)" by blast
  note len = stamp_all_length [OF s1(1)] stamp_all_length [OF s2]
  from infer_rows_total [OF assms(2)] obtain outs where
    outs: "infer_rows C b (length ms) = Inr outs" "map snd outs = [0..<length ms]" by blast
  have "compute_batch E C n (b, ms) = Inr (map (\<lambda>(r, i). (r, ms2 ! i)) outs, n2)"
    using assms(1) s1(1) s2 outs len
    by (simp add: compute_batch_def run_model_def plain_model_def process_normal_batchable_def)
  moreover have "map (unstamped \<circ> snd) (map (\<lambda>(r, i). (r, ms2 ! i)) outs) =
    map (\<lambda>i. unstamped (ms2 ! i)) (map snd outs)"
    by (simp add: comp_def case_prod_unfold)
  moreover have "map (\<lambda>i. unstamped (ms2 ! i)) [0..<length ms] = map unstamped ms2"
    using len by (intro nth_equalityI) simp_all
  ultimately show ?thesis
    using outs(2) stamp_all_unstamped [OF s1(1)] stamp_all_unstamped [OF s2] by simp
qed

lemma compute_iteration_items:
  assumes "plain_model C"
    "list_all (\<lambda>(b, ms). row_per_request C b (length ms) \<and>
       list_all (\<lambda>m. has_model_dict (cc_model_uuid C) (tm_extra m)) ms) bs"
  shows "\<exists>items n'. compute_iteration E C (sent, n) bs = Inr (sent @ items, n') \<and>
    map (unstamped \<circ> snd) items = map unstamped (concat (map snd bs))"
proof -
  have "\<exists>r. compute_iteration E C (sent, n) bs = Inr r \<and>
    (\<exists>items. fst r = sent @ items \<and>
      map (unstamped \<circ> snd) items = map unstamped (concat (map snd bs)))"
    unfolding compute_iteration_def
  proof (rule foldE_prefix_total)
    fix ys bm zs and s :: "(py_value \<times> task_metadata) list \<times> nat"
    assume split: "bs = ys @ bm # zs"
      and IH: "\<exists>items. fst s = sent @ items \<and>
        map (unstamped \<circ> snd) items = map unstamped (concat (map snd ys))"
    obtain b ms where bm: "bm = (b, ms)" by force
    obtain sent1 n1 where s: "s = (sent1, n1)" by force
    from assms(2) split bm have ok: "row_per_request C b (length ms)"
      "list_all (\<lambda>m. has_model_dict (cc_model_uuid C) (tm_extra m)) ms" by simp_all
    from compute_batch_total [OF assms(1) ok] obtain new n2 where
      new: "compute_batch E C n1 (b, ms) = Inr (new, n2)"
      "map (unstamped \<circ> snd) new = map unstamped ms" by blast
    from IH s obtain items where items: "sent1 = sent @ items"
      "map (unstamped \<circ> snd) items = map unstamped (concat (map snd ys))" by auto
    have "fst (sent1 @ new, n2) = sent @ (items @ new) \<and>
      map (unstamped \<circ> snd) (items @ new) = map unstamped (concat (map snd (ys @ [bm])))"
      using items new(2) bm by simp
    with new(1) s bm show "\<exists>s'. (case s of (sent, n) \<Rightarrow> \<lambda>bm. bindE (compute_batch E C n bm)
        (\<lambda>(items, n). Inr (sent @ items, n))) bm = Inr s' \<and>
      (\<exists>items. fst s' = sent @ items \<and>
        map (unstamped \<circ> snd) items = map unstamped (concat (map snd (ys @ [bm]))))"
      by (auto simp del: comp_apply)
  qed simp
  then show ?thesis by auto
qed

text \<open>a compute process whose model is run on whole batches (no transform function) and returns
  one row per request handles any number of batches without raising: every request leaves as
  exactly one item, in order, with its metadata as they were but for the time stamps.\<close>

theorem compute_item_per_request:
  assumes "plain_model C"
    "list_all (\<lambda>(b, ms). row_per_request C b (length ms) \<and>
       list_all (\<lambda>m. has_model_dict (cc_model_uuid C) (tm_extra m)) ms) bs"
  shows "\<exists>items n'. compute_iteration E C (sent, n) bs = Inr (sent @ items, n') \<and>
    map (unstamped \<circ> snd) items = map unstamped (concat (map snd bs))"
  using assms by (rule compute_iteration_items)

subsection \<open>With a transform function\<close>

text \<open>a model with a transform function is run for the first request of a batch only: whatever
  the size of the batch, at most one item leaves, so the callers of the other requests never
  get an answer.\<close>

theorem transform_answers_first_request:
  assumes "cc_transform_fn C = Some tf" "compute_batch E C n (b, ms) = Inr (items, n')"
  shows "length items = 1 \<and> ms \<noteq> []"
proof -
  from assms(2) obtain ms1 n1 outs ms2 where
    "stamp_all (compute_entering E (cc_model_uuid C)) n ms = Inr (ms1, n1)"
    "run_model E C b ms1 = Inr (outs, ms2)" "length items = length outs"
    by (auto simp: compute_batch_def bindE_eq_Inr)
  with assms(1) stamp_all_length [of "compute_entering E (cc_model_uuid C)" n ms] show ?thesis
    by (cases ms1)
      (auto simp: run_model_def process_unbatchable_def bindE_eq_Inr Let_def case_prod_unfold
        split: if_splits option.splits)
qed

subsection \<open>Concrete batches\<close>

text \<open>A model that copies its first input to each output, and one that runs it per row.\<close>

definition sample_compute :: compute_config where
  "sample_compute = \<lparr>cc_model_uuid = ''m'', cc_input_names = [''x''], cc_output_names = [''y''],
     cc_batching = True,
     cc_infer = (\<lambda>f names. case f of [] \<Rightarrow> Inl ValueError
                  | (_, rows) # _ \<Rightarrow> Inr (map (\<lambda>_. rows) names)),
     cc_transform_fn = None, cc_transform_extra_params = PyDict []\<rparr>"

definition sample_transform :: compute_config where
  "sample_transform = sample_compute
     \<lparr>cc_transform_fn := Some (\<lambda>item args m. (m, Inr [[(''x'', map snd item)]]))\<rparr>"

definition sample_pair :: batch where
  "sample_pair = ([(PyStr ''x'', [PyInt 1, PyInt 2])],
     [sample_task ''-'' [''back''], sample_task ''-'' [''next'', ''back'']])"

lemmas sample_compute_defs = sample_compute_def sample_transform_def sample_pair_def
  sample_task_def sample_user_def sample_backend_env_def

theorem compute_item_per_request_witness:
  "\<exists>items n'. compute_iteration sample_backend_env sample_compute ([], 0) [sample_pair, sample_pair] =
     Inr ([] @ items, n') \<and>
   map (unstamped \<circ> snd) items = map unstamped (concat (map snd [sample_pair, sample_pair]))"
  by (rule compute_item_per_request)
    (simp_all add: sample_compute_defs plain_model_def row_per_request_def feed_dict_def dlookup_def
      has_model_dict_def)

theorem transform_answers_first_request_witness:
  "\<exists>items n'. compute_batch sample_backend_env sample_transform 0 sample_pair = Inr (items, n') \<and>
     length (snd sample_pair) = 2 \<and> length items = 1"
proof -
  have "\<exists>items n'. compute_batch sample_backend_env sample_transform 0
      (fst sample_pair, snd sample_pair) = Inr (items, n')"
    by (simp add: sample_compute_defs compute_batch_def stamp_all_def compute_entering_def
        compute_exiting_def set_model_key_def pop_model_key_def dlookup_def run_model_def
        process_unbatchable_def seq_index_def transformer_args_def loads_params_def add_outputs_def
        extend_entry_def dget_def)
  then obtain items n' where
    run: "compute_batch sample_backend_env sample_transform 0 (fst sample_pair, snd sample_pair) =
      Inr (items, n')" by blast
  have "cc_transform_fn sample_transform = Some (\<lambda>item args m. (m, Inr [[(''x'', map snd item)]]))"
    by (simp add: sample_transform_def)
  from transform_answers_first_request [OF this run] run show ?thesis
    by (auto simp: sample_pair_def)
qed

end
