(* ===== verification/Nxs_Chain_Props.thy ===== *)
theory Nxs_Chain_Props
  imports Nxs_Compute_Props
begin

section \<open>Preprocessors, compute process and output process together\<close>

text \<open>
  The batches that a preprocessor sends, run by the compute process and answered by the output
  process: every request of the current batch gets exactly one message. The preprocessing
  function must return one row for each input tensor of the model, and the model one row per
  row of its inputs.
\<close>

subsection \<open>The rows of a batch\<close>

definition keys_of :: "py_value \<Rightarrow> py_value list" where
  "keys_of x = (case py_iter x of Inl _ \<Rightarrow> [] | Inr ks \<Rightarrow> ks)"

definition tensor_rows :: "py_value \<Rightarrow> py_value \<Rightarrow> py_value list" where
  "tensor_rows x k = (case bindE (py_getitem x k) py_iter of Inl _ \<Rightarrow> [] | Inr xs \<Rightarrow> xs)"

definition own_rows :: "py_value \<Rightarrow> py_value \<Rightarrow> py_value list" where
  "own_rows x k = (if k \<in> set (keys_of x) then tensor_rows x k else [])"

lemma dget_extend_entry:
  "dget (extend_entry d k xs) k' [] = (if k' = k then dget d k [] @ xs else dget d k' [])"
  by (simp add: extend_entry_def dget_def dict_simps)

lemma extend_keys_rows:
  assumes "foldE (\<lambda>d k. bindE (py_getitem x k) (\<lambda>v. bindE (py_iter v)
      (\<lambda>xs. Inr (extend_entry d k xs)))) d ks = Inr d'" "distinct ks"
  shows "dget d' k [] = dget d k [] @ (if k \<in> set ks then tensor_rows x k else [])"
  using assms
proof (induction ks arbitrary: d)
  case (Cons k1 ks)
  then obtain v xs where v: "py_getitem x k1 = Inr v" "py_iter v = Inr xs"
    and rest: "foldE (\<lambda>d k. bindE (py_getitem x k) (\<lambda>v. bindE (py_iter v)
      (\<lambda>xs. Inr (extend_entry d k xs)))) (extend_entry d k1 xs) ks = Inr d'"
    by (auto simp: bindE_eq_Inr)
  have "tensor_rows x k1 = xs" using v by (simp add: tensor_rows_def)
  with Cons.IH [OF rest] Cons.prems(2) show ?case by (auto simp: dget_extend_entry)
qed simp

lemma transform_batch_rows:
  assumes "transform_batch items = Inr b" "list_all (\<lambda>x. distinct (keys_of x)) items"
  shows "dget b k [] = concat (map (\<lambda>x. own_rows x k) items)"
  using assms(1) unfolding transform_batch_def
proof (rule foldE_prefix)
  show "dget [] k [] = concat (map (\<lambda>x. own_rows x k) [])" by (simp add: dget_def)
next
  fix ys x d d'
  assume x: "x \<in> set items" and IH: "dget d k [] = concat (map (\<lambda>x. own_rows x k) ys)"
    and step: "bindE (py_iter x) (foldE (\<lambda>d k. bindE (py_getitem x k) (\<lambda>v. bindE (py_iter v)
      (\<lambda>xs. Inr (extend_entry d k xs)))) d) = Inr d'"
  then obtain ks where ks: "py_iter x = Inr ks" by (auto simp: bindE_eq_Inr)
  with x assms(2) have "distinct ks" by (auto simp: list_all_iff keys_of_def)
  with extend_keys_rows [of x d ks d' k] step ks IH
  show "dget d' k [] = concat (map (\<lambda>x. own_rows x k) (ys @ [x]))"
    by (simp add: own_rows_def keys_of_def)
qed

text \<open>An item with one row for each of the tensors \<open>names\<close>.\<close>

fun single_rows :: "string list \<Rightarrow> py_value \<Rightarrow> bool" where
  "single_rows names (PyDict d) \<longleftrightarrow> dict_ok d \<and>
     list_all (\<lambda>t. \<exists>x. map_of d (PyStr t) = Some (PyList [x])) names"
| "single_rows names _ \<longleftrightarrow> False"

lemma single_rows_own:
  assumes "single_rows names x" "t \<in> set names"
  shows "length (own_rows x (PyStr t)) = 1"
proof -
  from assms(1) obtain d where d: "x = PyDict d" by (cases x) auto
  with assms obtain y where y: "map_of d (PyStr t) = Some (PyList [y])" by (auto simp: list_all_iff)
  then have "PyStr t \<in> set (dkeys d)" by (auto simp: in_dkeys_iff)
  with d y show ?thesis by (simp add: own_rows_def tensor_rows_def keys_of_def dlookup_def)
qed

lemma concat_single: "(\<And>x. x \<in> set xs \<Longrightarrow> length (f x) = 1) \<Longrightarrow> length (concat (map f xs)) = length xs"
  by (induction xs) auto

lemma transform_batch_single:
  assumes "transform_batch items = Inr b" "list_all (single_rows names) items" "items \<noteq> []"
    "t \<in> set names"
  shows "\<exists>rows. dlookup b (PyStr t) = Inr rows \<and> length rows = length items"
proof -
  have "list_all (\<lambda>x. distinct (keys_of x)) items"
    using assms(2) by (force simp: list_all_iff keys_of_def dict_ok_def elim: single_rows.elims(2))
  from transform_batch_rows [OF assms(1) this, of "PyStr t"]
  have "length (dget b (PyStr t) []) = length items"
    using single_rows_own assms(2,4) by (auto simp: list_all_iff intro!: concat_single)
  with assms(3) show ?thesis
    by (cases "map_of b (PyStr t)") (auto simp: dget_def dlookup_def)
qed

text \<open>A model that returns as many rows for every output as each of its inputs has.\<close>

definition row_model :: "compute_config \<Rightarrow> bool" where
  "row_model C \<longleftrightarrow>
     (\<forall>f k. map fst f = cc_input_names C \<and> list_all (\<lambda>(t, rows). length rows = k) f \<longrightarrow>
        (\<exists>outs. cc_infer C f (cc_output_names C) = Inr outs \<and> outs \<noteq> [] \<and>
           list_all (\<lambda>rows. length rows = k) outs))"

lemma row_model_batch:
  assumes "row_model C" "transform_batch items = Inr b" "items \<noteq> []"
    "list_all (single_rows (cc_input_names C)) items"
  shows "row_per_request C b (length items)"
proof -
  let ?names = "cc_input_names C" and ?k = "length items"
  have "\<exists>f. feed_dict names b = Inr f \<and> map fst f = names \<and> list_all (\<lambda>(t, rows). length rows = ?k) f"
    if "set names \<subseteq> set ?names" for names
    using that
  proof (induction names)
    case (Cons t names)
    then obtain f where "feed_dict names b = Inr f" "map fst f = names"
      "list_all (\<lambda>(t, rows). length rows = ?k) f" by auto
    moreover from transform_batch_single [OF assms(2,4,3), of t] Cons.prems
    obtain rows where "dlookup b (PyStr t) = Inr rows" "length rows = ?k" by auto
    ultimately show ?case by (simp add: feed_dict_def)
  qed (simp add: feed_dict_def)
  from this [of ?names] obtain f where f: "feed_dict ?names b = Inr f" "map fst f = ?names"
    "list_all (\<lambda>(t, rows). length rows = ?k) f" by auto
  with assms(1) obtain outs where "cc_infer C f (cc_output_names C) = Inr outs" "outs \<noteq> []"
    "list_all (\<lambda>rows. length rows = ?k) outs"
    unfolding row_model_def by blast
  with f(1) show ?thesis by (simp add: row_per_request_def)
qed

subsection \<open>From the current batch to the answers\<close>

lemma item_message_unstamped:
  assumes "unstamped (snd a) = unstamped (snd b)"
  shows "item_message Q a msg = item_message Q b msg"
proof -
  note same = unstamped_fields [OF assms]
  then have "task_status (snd a) = task_status (snd b)" "task_errors (snd a) = task_errors (snd b)"
    by (simp_all add: task_status_def task_errors_def)
  with same(1) show ?thesis by (cases "snd msg") (simp_all add: item_message_def)
qed

lemma batch_from_rows:
  assumes "batch_from P part bm" "row_model C" "list_all (single_rows (cc_input_names C)) (map fst part)"
  shows "row_per_request C (fst bm) (length (snd bm))"
proof -
  from assms(1) have b: "transform_batch (map fst part) = Inr (fst bm)" "part \<noteq> []"
    "length (snd bm) = length part"
    by (auto simp: batch_from_def batch_fits_def dest: arg_cong [where f = length])
  then show ?thesis using row_model_batch [OF assms(2) b(1) _ assms(3)] by simp
qed

lemma batches_metadata:
  assumes "list_all2 (batch_from P) parts bs"
  shows "map unstamped (concat (map snd bs)) = map (unstamped \<circ> snd) (concat parts)"
  using assms by (induction rule: list_all2_induct) (simp_all add: batch_from_def)

lemma compute_after_preproc:
  assumes "batches_of P s s' current" "pp_sent s = []" "plain_model C" "row_model C"
    "cc_model_uuid C = pc_model_uuid P"
    "list_all (\<lambda>x. single_rows (cc_input_names C) (fst x)) current"
  shows "\<exists>items n'. compute_iteration E C ([], n) (pp_sent s') = Inr (items, n') \<and>
    map (unstamped \<circ> snd) items = map (unstamped \<circ> snd) current"
proof -
  from assms(1,2) obtain parts where parts: "concat parts = current"
    "list_all2 (batch_from P) parts (pp_sent s')"
    unfolding batches_of_def by auto
  have "row_per_request C (fst bm) (length (snd bm)) \<and>
      list_all (\<lambda>m. has_model_dict (cc_model_uuid C) (tm_extra m)) (snd bm)"
    if "bm \<in> set (pp_sent s')" for bm
  proof -
    from that obtain i where "i < length (pp_sent s')" "bm = pp_sent s' ! i"
      by (auto simp: in_set_conv_nth)
    with parts(2) have "parts ! i \<in> set parts" "batch_from P (parts ! i) bm"
      by (simp_all add: list_all2_conv_all_nth)
    then obtain part where part: "part \<in> set parts" "batch_from P part bm" by blast
    with assms(6) parts(1) have "list_all (single_rows (cc_input_names C)) (map fst part)"
      by (auto simp: list_all_iff)
    from batch_from_rows [OF part(2) assms(4) this] part(2) assms(5) show ?thesis
      by (simp add: batch_from_def)
  qed
  then have "list_all (\<lambda>(b, ms). row_per_request C b (length ms) \<and>
      list_all (\<lambda>m. has_model_dict (cc_model_uuid C) (tm_extra m)) ms) (pp_sent s')"
    by (auto simp: list_all_iff)
  from compute_iteration_items [OF assms(3) this, of E "[]" n] batches_metadata [OF parts(2)] parts(1)
  show ?thesis by auto
qed



end
