(* ===== verification/Nxs_Compute_Threads.thy ===== *)
theory Nxs_Compute_Threads
  imports Nxs_Compute
begin

section \<open>The threads of a compute process and its end (\<open>main_processes/backend/compute_process.py\<close>)\<close>

text \<open>
  One thread per preprocessor reads that preprocessor's queue into the buffer; the main thread
  empties the buffer. A preprocessor sets its stop flag after its last batch; the main thread
  then lets the reader finish its queue, and when all have, it computes what is left and sets the
  flag of the output processes. The threads interleave freely, also between reading a queue and
  extending the buffer.

  With each batch in the buffer goes the number of its reader; that number and the fields from
  \<open>ct_put\<close> on record history, and no step reads them.
\<close>

subsection \<open>State\<close>

datatype reader =
    Polling
  | Fetching
  | Got "batch list"
  | Draining
  | Fetching_rest
  | Got_rest "batch list"
  | Ended

text \<open>Where the main thread is: before the pause check, at the check of a flag, in the \<open>join\<close> of a
  reader, in the loop over the buffer with the number of batches that are left and \<open>to_exit\<close>.\<close>

datatype main_thread =
    Start
  | Flag nat
  | Joining nat
  | Running nat bool
  | Exited
  | Crashed py_error

record compute_proc =
  ct_queues :: "batch list list"
  ct_stop_flags :: "bool list"
  ct_local_stop_flags :: "bool list"
  ct_readers :: "reader list"
  ct_buffer :: "(nat \<times> batch) list"
  ct_main :: main_thread
  ct_allow_infer :: "bool option"
  ct_next_stop :: bool
  ct_sent :: "(py_value \<times> task_metadata) list"
  ct_clock :: nat
  ct_put :: "batch list list"
  ct_done :: "(nat \<times> batch) list"

definition new_compute_proc :: "nat \<Rightarrow> bool option \<Rightarrow> compute_proc" where
  "new_compute_proc n allow =
     \<lparr>ct_queues = replicate n [], ct_stop_flags = replicate n False, ct_local_stop_flags = replicate n False,
      ct_readers = replicate n Polling, ct_buffer = [], ct_main = Start, ct_allow_infer = allow,
      ct_next_stop = False, ct_sent = [], ct_clock = 0, ct_put = replicate n [], ct_done = []\<rparr>"

subsection \<open>\<open>read_queue_thr\<close>\<close>

definition set_reader :: "nat \<Rightarrow> reader \<Rightarrow> compute_proc \<Rightarrow> compute_proc" where
  "set_reader i r s = s\<lparr>ct_readers := (ct_readers s)[i := r]\<rparr>"

text \<open>A call of \<open>get_batch\<close>; \<open>got\<close> is how many batches it delivers at most.\<close>

definition fetch :: "interface_type \<Rightarrow> nat \<Rightarrow> nat \<Rightarrow> (batch list \<Rightarrow> reader) \<Rightarrow> compute_proc \<Rightarrow> compute_proc" where
  "fetch T i got next s =
     (let (xs, q) = get_batch got (default_max_items T) (ct_queues s ! i)
      in set_reader i (next xs) (s\<lparr>ct_queues := (ct_queues s)[i := q]\<rparr>))"

definition extend_buffer :: "nat \<Rightarrow> batch list \<Rightarrow> compute_proc \<Rightarrow> compute_proc" where
  "extend_buffer i xs s = s\<lparr>ct_buffer := ct_buffer s @ map (Pair i) xs\<rparr>"

definition reader_step :: "interface_type \<Rightarrow> nat \<Rightarrow> nat \<Rightarrow> compute_proc \<Rightarrow> compute_proc" where
  "reader_step T i got s =
     (case ct_readers s ! i of
        Polling \<Rightarrow> set_reader i (if ct_local_stop_flags s ! i then Draining else Fetching) s
      | Fetching \<Rightarrow> fetch T i got (\<lambda>xs. if xs = [] then Polling else Got xs) s
      | Got xs \<Rightarrow> set_reader i Polling (extend_buffer i xs s)
      | Draining \<Rightarrow> set_reader i (if ct_queues s ! i \<noteq> [] then Fetching_rest else Ended) s
      | Fetching_rest \<Rightarrow> fetch T i got Got_rest s
      | Got_rest xs \<Rightarrow> set_reader i Draining (extend_buffer i xs s)
      | Ended \<Rightarrow> s)"

subsection \<open>The main thread\<close>

text \<open>
  One step of the main thread; None means that it waits for a reader or has ended. The flags only
  ever go from False to True, so reading them one after the other in the pause check is the same
  as reading them at once.
\<close>

definition main_step :: "backend_env \<Rightarrow> compute_config \<Rightarrow> compute_proc \<Rightarrow> compute_proc option" where
  "main_step E C s =
     (case ct_main s of
        Start \<Rightarrow>
          Some (if ct_allow_infer s = Some False \<and> \<not> list_all id (ct_stop_flags s) then s
                else s\<lparr>ct_main := Flag 0\<rparr>)
      | Flag i \<Rightarrow>
          Some (if i \<ge> length (ct_stop_flags s) then s\<lparr>ct_main := Running (length (ct_buffer s)) True\<rparr>
                else if ct_stop_flags s ! i
                then s\<lparr>ct_local_stop_flags := (ct_local_stop_flags s)[i := True], ct_main := Joining i\<rparr>
                else s\<lparr>ct_main := Running (length (ct_buffer s)) False\<rparr>)
      | Joining i \<Rightarrow>
          (if ct_readers s ! i = Ended then Some (s\<lparr>ct_main := Flag (Suc i)\<rparr>) else None)
      | Running 0 to_exit \<Rightarrow>
          Some (if to_exit then s\<lparr>ct_next_stop := True, ct_main := Exited\<rparr> else s\<lparr>ct_main := Start\<rparr>)
      | Running (Suc k) to_exit \<Rightarrow>
          Some (case ct_buffer s of
             [] \<Rightarrow> s\<lparr>ct_main := Crashed IndexError\<rparr>
           | (i, b) # rest \<Rightarrow>
               (case compute_batch E C (ct_clock s) b of
                  Inl e \<Rightarrow> s\<lparr>ct_buffer := rest, ct_main := Crashed e\<rparr>
                | Inr (items, n) \<Rightarrow>
                    s\<lparr>ct_buffer := rest, ct_main := Running k to_exit, ct_clock := n,
                      ct_sent := ct_sent s @ items, ct_done := ct_done s @ [(i, b)]\<rparr>))
      | Exited \<Rightarrow> None
      | Crashed e \<Rightarrow> None)"

subsection \<open>Interleaving\<close>

definition put_batches :: "nat \<Rightarrow> batch list \<Rightarrow> compute_proc \<Rightarrow> compute_proc" where
  "put_batches i xs s =
     s\<lparr>ct_queues := (ct_queues s)[i := put_batch_shared (ct_queues s ! i) xs],
       ct_put := (ct_put s)[i := ct_put s ! i @ xs]\<rparr>"

text \<open>The preprocessors, the backend, which may pause inference, and the threads. A preprocessor
  puts nothing after it has set its flag.\<close>

inductive compute_step ::
    "backend_env \<Rightarrow> compute_config \<Rightarrow> interface_type \<Rightarrow> compute_proc \<Rightarrow> compute_proc \<Rightarrow> bool"
  for E :: backend_env and C :: compute_config and T :: interface_type where
  put: "i < length (ct_stop_flags s) \<Longrightarrow> \<not> ct_stop_flags s ! i \<Longrightarrow> compute_step E C T s (put_batches i xs s)"
| stop: "i < length (ct_stop_flags s) \<Longrightarrow>
    compute_step E C T s (s\<lparr>ct_stop_flags := (ct_stop_flags s)[i := True]\<rparr>)"
| allow: "ct_allow_infer s \<noteq> None \<Longrightarrow> compute_step E C T s (s\<lparr>ct_allow_infer := Some a\<rparr>)"
| read: "i < length (ct_readers s) \<Longrightarrow> compute_step E C T s (reader_step T i got s)"
| main: "main_step E C s = Some s' \<Longrightarrow> compute_step E C T s s'"

inductive_cases compute_stepE: "compute_step E C T s s'"

abbreviation compute_run ::
    "backend_env \<Rightarrow> compute_config \<Rightarrow> interface_type \<Rightarrow> compute_proc \<Rightarrow> compute_proc \<Rightarrow> bool" where
  "compute_run E C T \<equiv> (compute_step E C T)\<^sup>*\<^sup>*"

end
