(* ===== verification/Nxs_Compute_Threads_Props.thy ===== *)
theory Nxs_Compute_Threads_Props
  imports Nxs_Compute_Threads Nxs_Compute_Props
begin

section \<open>What every interleaving of the threads of a compute process keeps\<close>

text \<open>
  Every batch put into a queue is at exactly one place, in order; the process ends only when all
  of them are computed; a process that is told to stop can end; and one whose model raised never
  tells the output processes to stop.
\<close>

subsection \<open>The invariant\<close>

fun held :: "reader \<Rightarrow> batch list" where
  "held (Got xs) = xs"
| "held (Got_rest xs) = xs"
| "held _ = []"

fun finishing :: "reader \<Rightarrow> bool" where
  "finishing Draining = True"
| "finishing Fetching_rest = True"
| "finishing (Got_rest xs) = True"
| "finishing Ended = True"
| "finishing _ = False"

definition from_reader :: "nat \<Rightarrow> (nat \<times> batch) list \<Rightarrow> batch list" where
  "from_reader i xs = map snd (filter (\<lambda>x. fst x = i) xs)"

lemma from_reader_simps [simp]:
  "from_reader i [] = []"
  "from_reader i (x # xs) = (if fst x = i then snd x # from_reader i xs else from_reader i xs)"
  "from_reader i (xs @ ys) = from_reader i xs @ from_reader i ys"
  "from_reader i (map (Pair j) bs) = (if i = j then bs else [])"
  by (auto simp: from_reader_def filter_map o_def intro: map_idI)

text \<open>Where the batches of one preprocessor are, from the computed ones to those in its queue.\<close>

definition places :: "compute_proc \<Rightarrow> nat \<Rightarrow> batch list" where
  "places s i = from_reader i (ct_done s @ ct_buffer s) @ held (ct_readers s ! i) @ ct_queues s ! i"

definition shapes_ok :: "compute_proc \<Rightarrow> bool" where
  "shapes_ok s \<longleftrightarrow> (let n = length (ct_stop_flags s) in
     length (ct_local_stop_flags s) = n \<and> length (ct_readers s) = n \<and> length (ct_queues s) = n
     \<and> length (ct_put s) = n)"

text \<open>A reader that is finishing was told so, and only after its preprocessor has stopped.\<close>

definition reader_ok :: "compute_proc \<Rightarrow> nat \<Rightarrow> bool" where
  "reader_ok s i \<longleftrightarrow>
     (ct_local_stop_flags s ! i \<longrightarrow> ct_stop_flags s ! i) \<and>
     (finishing (ct_readers s ! i) \<longrightarrow> ct_local_stop_flags s ! i) \<and>
     (ct_readers s ! i = Ended \<longrightarrow> ct_queues s ! i = [])"

definition main_ok :: "compute_proc \<Rightarrow> bool" where
  "main_ok s \<longleftrightarrow> (let n = length (ct_stop_flags s); ended = (\<lambda>i. \<forall>j<i. ct_readers s ! j = Ended) in
     (ct_next_stop s \<longleftrightarrow> ct_main s = Exited) \<and>
     (case ct_main s of
        Flag i \<Rightarrow> i \<le> n \<and> ended i
      | Joining i \<Rightarrow> i < n \<and> ended i \<and> ct_local_stop_flags s ! i
      | Running k ex \<Rightarrow> k \<le> length (ct_buffer s) \<and> (ex \<longrightarrow> ended n \<and> k = length (ct_buffer s))
      | Exited \<Rightarrow> ended n \<and> ct_buffer s = []
      | _ \<Rightarrow> True))"

definition books_ok :: "backend_env \<Rightarrow> compute_config \<Rightarrow> compute_proc \<Rightarrow> bool" where
  "books_ok E C s \<longleftrightarrow>
     compute_iteration E C ([], 0) (map snd (ct_done s)) = Inr (ct_sent s, ct_clock s) \<and>
     ((\<forall>e. ct_main s \<noteq> Crashed e) \<longrightarrow> (\<forall>i < length (ct_stop_flags s). ct_put s ! i = places s i))"

definition compute_inv :: "backend_env \<Rightarrow> compute_config \<Rightarrow> compute_proc \<Rightarrow> bool" where
  "compute_inv E C s \<longleftrightarrow>
     shapes_ok s \<and> (\<forall>i < length (ct_stop_flags s). reader_ok s i) \<and> main_ok s \<and> books_ok E C s"

lemmas compute_inv_defs = compute_inv_def shapes_ok_def reader_ok_def main_ok_def books_ok_def places_def Let_def

lemma compute_inv_init: "compute_inv E C (new_compute_proc n allow)"
  by (simp add: compute_inv_def shapes_ok_def reader_ok_def main_ok_def books_ok_def places_def
      new_compute_proc_def compute_iteration_def)

subsection \<open>Every step keeps it\<close>

lemma inv_put:
  assumes "compute_inv E C s" "i < length (ct_stop_flags s)" "\<not> ct_stop_flags s ! i"
  shows "compute_inv E C (put_batches i xs s)"
proof -
  have "ct_readers s ! i \<noteq> Ended" using assms by (auto simp: compute_inv_def reader_ok_def)
  with assms show ?thesis
    by (auto simp: compute_inv_def shapes_ok_def reader_ok_def main_ok_def books_ok_def places_def
        put_batches_def put_batch_shared_append Let_def nth_list_update split: main_thread.splits)
qed

lemma inv_stop:
  assumes "compute_inv E C s" "i < length (ct_stop_flags s)"
  shows "compute_inv E C (s\<lparr>ct_stop_flags := (ct_stop_flags s)[i := True]\<rparr>)"
  using assms by (auto simp: compute_inv_defs nth_list_update split: main_thread.splits)

lemma inv_allow: "compute_inv E C s \<Longrightarrow> compute_inv E C (s\<lparr>ct_allow_infer := a\<rparr>)"
  by (auto simp: compute_inv_defs split: main_thread.splits)

text \<open>A step of one reader moves batches of its own queue only.\<close>

lemma reader_step_places:
  assumes "i < length (ct_readers s)" "i < length (ct_queues s)"
  shows "places (reader_step T i got s) j = places s j"
  using assms
  by (auto simp: reader_step_def set_reader_def fetch_def extend_buffer_def places_def nth_list_update
      split: reader.splits prod.splits dest!: get_batch_split)

lemma reader_step_fields:
  "ct_stop_flags (reader_step T i got s) = ct_stop_flags s"
  "ct_local_stop_flags (reader_step T i got s) = ct_local_stop_flags s"
  "ct_main (reader_step T i got s) = ct_main s"
  "ct_next_stop (reader_step T i got s) = ct_next_stop s"
  "ct_sent (reader_step T i got s) = ct_sent s"
  "ct_clock (reader_step T i got s) = ct_clock s"
  "ct_put (reader_step T i got s) = ct_put s"
  "ct_done (reader_step T i got s) = ct_done s"
  "length (ct_readers (reader_step T i got s)) = length (ct_readers s)"
  "length (ct_queues (reader_step T i got s)) = length (ct_queues s)"
  "length (ct_buffer s) \<le> length (ct_buffer (reader_step T i got s))"
  by (auto simp: reader_step_def set_reader_def fetch_def extend_buffer_def split: reader.splits prod.splits)

text \<open>A reader that has ended does nothing, and the others leave it alone.\<close>

lemma reader_step_ended:
  "ct_readers s ! j = Ended \<Longrightarrow> ct_readers (reader_step T i got s) ! j = Ended"
  "i < length (ct_readers s) \<Longrightarrow> ct_readers s ! i = Ended \<Longrightarrow> reader_step T i got s = s"
  by (auto simp: reader_step_def set_reader_def fetch_def extend_buffer_def nth_list_update
      split: reader.splits prod.splits) (metis nth_list_update_neq reader.distinct)+

lemma reader_step_ok:
  assumes "i < length (ct_readers s)" "i < length (ct_queues s)" "reader_ok s i" "reader_ok s j"
  shows "reader_ok (reader_step T i got s) j"
  using assms
  by (cases "i = j") (auto simp: reader_ok_def reader_step_def set_reader_def fetch_def extend_buffer_def
      split: reader.splits prod.splits if_splits)

lemma inv_read:
  assumes inv: "compute_inv E C s" and i: "i < length (ct_readers s)"
  shows "compute_inv E C (reader_step T i got s)"
proof (cases "ct_readers s ! i = Ended")
  case True
  then show ?thesis using inv i by (simp add: reader_step_ended)
next
  case False
  have shapes: "shapes_ok s" using inv by (simp add: compute_inv_def)
  then have len: "i < length (ct_stop_flags s)" "i < length (ct_queues s)"
    using i by (auto simp: shapes_ok_def Let_def)
  have "reader_ok (reader_step T i got s) j" if "j < length (ct_stop_flags s)" for j
    using inv len(1) that by (intro reader_step_ok [OF i len(2)]) (auto simp: compute_inv_def)
  moreover have "main_ok (reader_step T i got s)"
    using inv False len(1) reader_step_ended(1) [of s _ T i got]
    by (auto simp: compute_inv_def main_ok_def reader_step_fields(1-10) Let_def split: main_thread.splits
        intro: le_trans [OF _ reader_step_fields(11)])
  moreover have "books_ok E C (reader_step T i got s)"
    using inv by (simp add: compute_inv_def books_ok_def reader_step_fields reader_step_places [OF i len(2)])
  ultimately show ?thesis
    using shapes by (simp add: compute_inv_def shapes_ok_def reader_step_fields Let_def)
qed

lemma compute_iteration_snoc:
  assumes "compute_iteration E C ([], 0) bs = Inr (sent, n)" "compute_batch E C n b = Inr (items, n')"
  shows "compute_iteration E C ([], 0) (bs @ [b]) = Inr (sent @ items, n')"
  using assms by (simp add: compute_iteration_def foldE_append)

lemma inv_run_batch:
  assumes inv: "compute_inv E C s" and main: "ct_main s = Running (Suc k) ex"
    and step: "main_step E C s = Some s'"
  shows "compute_inv E C s'"
proof -
  obtain i b rest where buf: "ct_buffer s = (i, b) # rest"
    using inv main by (cases "ct_buffer s") (auto simp: compute_inv_def main_ok_def Let_def)
  show ?thesis
  proof (cases "compute_batch E C (ct_clock s) b")
    case (Inl e)
    then have "s' = s\<lparr>ct_buffer := rest, ct_main := Crashed e\<rparr>"
      using step by (simp add: main_step_def main buf)
    then show ?thesis using inv main by (simp add: compute_inv_defs)
  next
    case (Inr r)
    obtain items n where r: "r = (items, n)" by (cases r)
    have s': "s' = s\<lparr>ct_buffer := rest, ct_main := Running k ex, ct_clock := n,
        ct_sent := ct_sent s @ items, ct_done := ct_done s @ [(i, b)]\<rparr>"
      using step by (simp add: main_step_def main buf Inr r)
    have "compute_iteration E C ([], 0) (map snd (ct_done s)) = Inr (ct_sent s, ct_clock s)"
      using inv by (simp add: compute_inv_def books_ok_def)
    from compute_iteration_snoc [OF this Inr [unfolded r]] show ?thesis
      using inv main buf by (auto simp: compute_inv_defs s')
  qed
qed

lemma inv_main:
  assumes inv: "compute_inv E C s" and step: "main_step E C s = Some s'"
  shows "compute_inv E C s'"
proof (cases "ct_main s")
  case Start
  then show ?thesis using inv step by (auto simp: compute_inv_defs main_step_def split: if_splits)
next
  case (Flag i)
  show ?thesis
  proof (cases "i < length (ct_stop_flags s) \<and> ct_stop_flags s ! i")
    case True
    then have "s' = s\<lparr>ct_local_stop_flags := (ct_local_stop_flags s)[i := True], ct_main := Joining i\<rparr>"
      using step Flag by (simp add: main_step_def)
    then show ?thesis using inv Flag True by (auto simp: compute_inv_defs nth_list_update)
  next
    case False
    then have "s' = s\<lparr>ct_main := Running (length (ct_buffer s)) (i \<ge> length (ct_stop_flags s))\<rparr>"
      using step Flag by (auto simp: main_step_def split: if_splits)
    then show ?thesis using inv Flag by (auto simp: compute_inv_defs)
  qed
next
  case (Joining i)
  then show ?thesis
    using inv step by (auto simp: compute_inv_defs main_step_def less_Suc_eq split: if_splits)
next
  case (Running k ex)
  then show ?thesis
    using inv_run_batch [OF inv _ step] inv step
    by (cases k) (auto simp: compute_inv_defs main_step_def split: if_splits)
qed (use step in \<open>simp_all add: main_step_def\<close>)

lemma compute_step_inv: "compute_step E C T s s' \<Longrightarrow> compute_inv E C s \<Longrightarrow> compute_inv E C s'"
  by (erule compute_stepE) (auto intro: inv_put inv_stop inv_allow inv_read inv_main)

interpretation compute: step_invariant "compute_step E C T" "compute_inv E C" for E C T
  by unfold_locales (rule compute_step_inv)

lemma compute_step_length: "compute_step E C T s s' \<Longrightarrow> length (ct_stop_flags s') = length (ct_stop_flags s)"
  by (erule compute_stepE)
    (auto simp: put_batches_def reader_step_fields main_step_def split: main_thread.splits nat.splits
      list.splits sum.splits if_splits)

interpretation preprocessors: step_invariant "compute_step E C T" "\<lambda>s. length (ct_stop_flags s) = n" for E C T n
  by unfold_locales (simp add: compute_step_length)

lemma new_compute_run:
  assumes "compute_run E C T (new_compute_proc n allow) s"
  shows "compute_inv E C s" "length (ct_stop_flags s) = n"
  using compute.run_keeps_inv [OF assms compute_inv_init] preprocessors.run_keeps_inv [OF assms, of n]
  by (simp_all add: new_compute_proc_def)

subsection \<open>A process that is told to stop can end\<close>

text \<open>Steps of one reader.\<close>

definition reader_run :: "interface_type \<Rightarrow> nat \<Rightarrow> compute_proc \<Rightarrow> compute_proc \<Rightarrow> bool" where
  "reader_run T i = (\<lambda>s s'. \<exists>got. s' = reader_step T i got s)\<^sup>*\<^sup>*"

lemma reader_run_step: "reader_run T i (reader_step T i got s) s' \<Longrightarrow> reader_run T i s s'"
  unfolding reader_run_def by (rule converse_rtranclp_into_rtranclp) auto

lemma reader_run_refl: "reader_run T i s s"
  by (simp add: reader_run_def)

lemma reader_run_keeps:
  assumes "reader_run T i s s'" "i < length (ct_readers s)"
  shows "compute_run E C T s s' \<and> ct_stop_flags s' = ct_stop_flags s \<and> ct_main s' = ct_main s
    \<and> length (ct_readers s') = length (ct_readers s)"
  using assms(1) unfolding reader_run_def
proof (induction rule: rtranclp_induct)
  case (step t u)
  then obtain got where u: "u = reader_step T i got t" by blast
  have "compute_step E C T t u"
    unfolding u by (rule compute_step.read) (use step.IH assms(2) in simp)
  with step.IH show ?case by (auto simp: u reader_step_fields)
qed simp

text \<open>A reader in the state \<open>r\<close> takes a step; with \<open>got = 1\<close> a read takes the first batch.\<close>

lemma after_got_rest:
  assumes "ct_readers s ! i = Got_rest xs" "i < length (ct_readers s)"
  shows "ct_readers (reader_step T i got s) ! i = Draining" "ct_queues (reader_step T i got s) = ct_queues s"
  using assms by (simp_all add: reader_step_def set_reader_def extend_buffer_def)

lemma get_batch_one: "0 < m \<Longrightarrow> get_batch 1 m (b # bs) = ([b], bs)"
proof -
  assume "0 < m"
  then have "min (min (length (b # bs)) m) 1 = 1" by (auto simp: min_def)
  then show ?thesis unfolding get_batch_def by (simp only: Let_def) simp
qed

lemma get_batch_zero: "get_batch 0 m q = ([], q)"
  by (simp add: get_batch_def)

lemma drains:
  assumes "ct_readers s ! i = Draining" "i < length (ct_readers s)" "i < length (ct_queues s)" "T \<noteq> IF_REDIS"
  shows "\<exists>s'. reader_run T i s s' \<and> ct_readers s' ! i = Ended"
  using assms
proof (induction "length (ct_queues s ! i)" arbitrary: s rule: less_induct)
  case less
  show ?case
  proof (cases "ct_queues s ! i")
    case Nil
    then show ?thesis using less.prems
      by (intro exI [of _ "reader_step T i 0 s"] conjI reader_run_step [OF reader_run_refl])
        (simp_all add: reader_step_def set_reader_def)
  next
    case (Cons b bs)
    let ?s1 = "reader_step T i 0 s" let ?s2 = "reader_step T i 1 ?s1" let ?s3 = "reader_step T i 0 ?s2"
    have max: "0 < default_max_items T" using less.prems(4) by (cases T) auto
    have s1: "ct_readers ?s1 ! i = Fetching_rest" "ct_queues ?s1 = ct_queues s"
      using less.prems Cons by (simp_all add: reader_step_def set_reader_def)
    have s2: "ct_readers ?s2 ! i = Got_rest [b]" "ct_queues ?s2 ! i = bs"
      using less.prems Cons s1 max
      by (simp_all add: reader_step_def [where s = ?s1] fetch_def set_reader_def get_batch_one [unfolded One_nat_def]
          reader_step_fields)
    have s3: "ct_readers ?s3 ! i = Draining" "ct_queues ?s3 ! i = bs"
      using after_got_rest [OF s2(1)] s2(2) less.prems(2) by (simp_all add: reader_step_fields)
    have "\<exists>s'. reader_run T i ?s3 s' \<and> ct_readers s' ! i = Ended"
      by (rule less.hyps) (use less.prems s3 Cons in \<open>simp_all add: reader_step_fields\<close>)
    then show ?thesis by (blast intro: reader_run_step)
  qed
qed

lemma told_reader_ends:
  assumes told: "ct_local_stop_flags s ! i"
    and i: "i < length (ct_readers s)" "i < length (ct_queues s)" and T: "T \<noteq> IF_REDIS"
  shows "\<exists>s'. reader_run T i s s' \<and> ct_readers s' ! i = Ended"
proof -
  note defs = reader_step_def set_reader_def extend_buffer_def fetch_def get_batch_zero
  have start: "\<exists>s'. reader_run T i u s' \<and> ct_readers s' ! i = Ended"
    if "ct_readers u ! i \<in> {Draining, Polling}" "ct_local_stop_flags u ! i"
      "i < length (ct_readers u)" "i < length (ct_queues u)" for u
  proof (cases "ct_readers u ! i = Draining")
    case True
    then show ?thesis by (rule drains [OF _ that(3,4) T])
  next
    case False
    then have "ct_readers (reader_step T i 0 u) ! i = Draining" using that by (simp add: defs)
    from drains [OF this _ _ T] show ?thesis
      using that by (auto simp: reader_step_fields intro: reader_run_step)
  qed
  let ?s1 = "reader_step T i 0 s" let ?s2 = "reader_step T i 0 ?s1"
  have len: "i < length (ct_readers ?s1)" "i < length (ct_queues ?s1)" "ct_local_stop_flags ?s1 ! i"
    using told i by (simp_all add: reader_step_fields)
  consider "ct_readers s ! i = Ended" | "ct_readers s ! i \<in> {Draining, Polling}"
    | "ct_readers ?s1 ! i \<in> {Draining, Polling}" | "ct_readers s ! i = Fetching_rest"
    using i by (cases "ct_readers s ! i") (simp_all add: defs)
  then show ?thesis
  proof cases
    case 1
    then show ?thesis by (auto intro: reader_run_refl)
  next
    case 2
    then show ?thesis using told i by (rule start)
  next
    case 3
    from start [OF 3 len(3,1,2)] show ?thesis by (auto intro: reader_run_step)
  next
    case 4
    then have "ct_readers ?s1 ! i = Got_rest []" using i by (simp add: defs)
    then have "ct_readers ?s2 ! i \<in> {Draining, Polling}"
      using after_got_rest(1) [of ?s1 i] len(1) by simp
    from start [OF this] show ?thesis
      using len by (auto simp: reader_step_fields intro!: reader_run_step [of T i 0] dest: reader_run_step)
  qed
qed

text \<open>Where the main thread can get, with the flags of the preprocessors as they are.\<close>

definition gets_to ::
    "backend_env \<Rightarrow> compute_config \<Rightarrow> interface_type \<Rightarrow> compute_proc \<Rightarrow> (main_thread \<Rightarrow> bool) \<Rightarrow> bool" where
  "gets_to E C T s P \<longleftrightarrow>
     (\<exists>s'. compute_run E C T s s' \<and> ct_stop_flags s' = ct_stop_flags s \<and>
        (P (ct_main s') \<or> (\<exists>e. ct_main s' = Crashed e)))"

lemma gets_to_refl: "P (ct_main s) \<Longrightarrow> gets_to E C T s P"
  by (auto simp: gets_to_def)

lemma gets_to_crashed: "ct_main s = Crashed e \<Longrightarrow> gets_to E C T s P"
  by (auto simp: gets_to_def)

lemma gets_to_step:
  assumes "main_step E C s = Some s'" "ct_stop_flags s' = ct_stop_flags s" "gets_to E C T s' P"
  shows "gets_to E C T s P"
proof -
  have "compute_run E C T s t" if "compute_run E C T s' t" for t
    by (rule converse_rtranclp_into_rtranclp [where r = "compute_step E C T"])
      (fact compute_step.main [OF assms(1)], fact that)
  then show ?thesis using assms(2,3) unfolding gets_to_def by metis
qed

lemma gets_to_trans:
  assumes "gets_to E C T s P" "compute_inv E C s"
    and "\<And>t. P (ct_main t) \<Longrightarrow> compute_inv E C t \<Longrightarrow> ct_stop_flags t = ct_stop_flags s \<Longrightarrow> gets_to E C T t Q"
  shows "gets_to E C T s Q"
proof -
  obtain t where t: "compute_run E C T s t" "ct_stop_flags t = ct_stop_flags s"
      "P (ct_main t) \<or> (\<exists>e. ct_main t = Crashed e)"
    using assms(1) by (auto simp: gets_to_def)
  have "gets_to E C T t Q"
    using t assms(3) compute.run_keeps_inv [OF t(1) assms(2)] by (auto intro: gets_to_crashed)
  then show ?thesis
    using t(1,2) unfolding gets_to_def by (metis rtranclp_trans)
qed

lemma running_gets_to: "ct_main s = Running k ex \<Longrightarrow> gets_to E C T s (\<lambda>m. m = Running 0 ex)"
proof (induction k arbitrary: s)
  case 0
  then show ?case by (simp add: gets_to_refl)
next
  case (Suc k)
  then obtain s' where s': "main_step E C s = Some s'" "ct_stop_flags s' = ct_stop_flags s"
      "ct_main s' = Running k ex \<or> (\<exists>e. ct_main s' = Crashed e)"
    by (auto simp: main_step_def split: list.splits sum.splits prod.splits)
  show ?case
    by (rule gets_to_step [OF s'(1,2)]) (use s'(3) Suc.IH in \<open>auto intro: gets_to_crashed\<close>)
qed

lemma joining_gets_to:
  assumes "compute_inv E C s" "ct_main s = Joining i" "T \<noteq> IF_REDIS"
  shows "gets_to E C T s (\<lambda>m. m = Flag (Suc i))"
proof -
  have i: "ct_local_stop_flags s ! i" "i < length (ct_readers s)" "i < length (ct_queues s)"
    using assms(1,2) by (auto simp: compute_inv_def main_ok_def shapes_ok_def Let_def)
  from told_reader_ends [OF i assms(3)] obtain t where t: "reader_run T i s t" "ct_readers t ! i = Ended"
    by blast
  note k = reader_run_keeps [OF t(1) i(2), of E C]
  have "main_step E C t = Some (t\<lparr>ct_main := Flag (Suc i)\<rparr>)"
    using t(2) k assms(2) by (simp add: main_step_def)
  then have "compute_run E C T s (t\<lparr>ct_main := Flag (Suc i)\<rparr>)"
    using k by (meson compute_step.main rtranclp.rtrancl_into_rtrancl)
  then show ?thesis using k by (auto simp: gets_to_def)
qed

lemma flags_get_to:
  assumes "compute_inv E C s" "ct_main s = Flag i" "list_all id (ct_stop_flags s)" "T \<noteq> IF_REDIS"
  shows "gets_to E C T s (\<lambda>m. \<exists>k. m = Running k True)"
  using assms
proof (induction "length (ct_stop_flags s) - i" arbitrary: s i)
  case 0
  then have "main_step E C s = Some (s\<lparr>ct_main := Running (length (ct_buffer s)) True\<rparr>)"
    by (simp add: main_step_def)
  then show ?case by (rule gets_to_step) (auto intro: gets_to_refl)
next
  case (Suc m)
  let ?t = "s\<lparr>ct_local_stop_flags := (ct_local_stop_flags s)[i := True], ct_main := Joining i\<rparr>"
  have i: "i < length (ct_stop_flags s)" using Suc.hyps(2) by linarith
  then have step: "main_step E C s = Some ?t"
    using Suc.prems by (simp add: main_step_def list_all_length)
  have inv: "compute_inv E C ?t" by (rule inv_main [OF Suc.prems(1) step])
  show ?case
  proof (rule gets_to_step [OF step])
    show "gets_to E C T ?t (\<lambda>m. \<exists>k. m = Running k True)"
    proof (rule gets_to_trans [OF joining_gets_to [OF inv _ Suc.prems(4)] inv])
      fix u :: compute_proc assume u: "ct_main u = Flag (Suc i)" "compute_inv E C u" "ct_stop_flags u = ct_stop_flags ?t"
      show "gets_to E C T u (\<lambda>m. \<exists>k. m = Running k True)"
        by (rule Suc.hyps(1) [of _ "Suc i"]) (use Suc.hyps(2) Suc.prems u i in auto)
    qed simp_all
  qed simp
qed

lemma exits_from_running:
  assumes "compute_inv E C s" "ct_main s = Running k True"
  shows "gets_to E C T s (\<lambda>m. m = Exited)"
proof (rule gets_to_trans [OF running_gets_to [OF assms(2)] assms(1)])
  fix t :: compute_proc assume "ct_main t = Running 0 True"
  then have "main_step E C t = Some (t\<lparr>ct_next_stop := True, ct_main := Exited\<rparr>)"
    by (simp add: main_step_def)
  then show "gets_to E C T t (\<lambda>m. m = Exited)" by (rule gets_to_step) (auto intro: gets_to_refl)
qed

lemma exits_from_flag:
  assumes "compute_inv E C s" "ct_main s = Flag i" "list_all id (ct_stop_flags s)" "T \<noteq> IF_REDIS"
  shows "gets_to E C T s (\<lambda>m. m = Exited)"
  by (rule gets_to_trans [OF flags_get_to [OF assms] assms(1)]) (auto intro: exits_from_running)

lemma exits_from_start:
  assumes "compute_inv E C s" "ct_main s = Start" "list_all id (ct_stop_flags s)" "T \<noteq> IF_REDIS"
  shows "gets_to E C T s (\<lambda>m. m = Exited)"
proof -
  have step: "main_step E C s = Some (s\<lparr>ct_main := Flag 0\<rparr>)"
    using assms(2,3) by (simp add: main_step_def)
  show ?thesis
    by (rule gets_to_step [OF step])
      (use assms inv_main [OF assms(1) step] in \<open>auto intro: exits_from_flag\<close>)
qed

lemma told_process_exits:
  assumes inv: "compute_inv E C s" and told: "list_all id (ct_stop_flags s)" and T: "T \<noteq> IF_REDIS"
  shows "gets_to E C T s (\<lambda>m. m = Exited)"
proof (cases "ct_main s")
  case (Joining i)
  show ?thesis
    by (rule gets_to_trans [OF joining_gets_to [OF inv Joining T] inv]) (use told T in \<open>auto intro: exits_from_flag\<close>)
next
  case (Running k ex)
  show ?thesis
  proof (cases ex)
    case True
    then show ?thesis using exits_from_running [OF inv] Running by simp
  next
    case False
    show ?thesis
    proof (rule gets_to_trans [OF running_gets_to [OF Running] inv])
      fix t :: compute_proc assume t: "ct_main t = Running 0 ex" "compute_inv E C t" "ct_stop_flags t = ct_stop_flags s"
      have step: "main_step E C t = Some (t\<lparr>ct_main := Start\<rparr>)" using t(1) False by (simp add: main_step_def)
      show "gets_to E C T t (\<lambda>m. m = Exited)"
        by (rule gets_to_step [OF step])
          (use told T t inv_main [OF t(2) step] in \<open>auto intro: exits_from_start\<close>)
    qed
  qed
qed (use assms in \<open>auto intro: exits_from_start exits_from_flag gets_to_refl gets_to_crashed\<close>)

subsection \<open>The properties\<close>

text \<open>C14: Whatever the interleaving of a compute process with its preprocessors: unless it crashed,
  every batch put into a queue is computed, in the buffer, with a reader or still in the queue, in
  this order and once; what was sent is the result of the computed batches in their order; and when
  the process has told the output processes to stop, all preprocessors had stopped and every batch
  of each was computed, in order.
\<close>

theorem compute_process_drains:
  assumes "compute_run E C T (new_compute_proc n allow) s"
  shows "((\<forall>e. ct_main s \<noteq> Crashed e) \<longrightarrow>
      (\<forall>i<n. ct_put s ! i = from_reader i (ct_done s @ ct_buffer s) @ held (ct_readers s ! i) @ ct_queues s ! i)) \<and>
    compute_iteration E C ([], 0) (map snd (ct_done s)) = Inr (ct_sent s, ct_clock s) \<and>
    (ct_next_stop s \<longrightarrow> list_all id (ct_stop_flags s) \<and> (\<forall>i<n. from_reader i (ct_done s) = ct_put s ! i))"
proof -
  note inv = new_compute_run [OF assms]
  then have books: "compute_iteration E C ([], 0) (map snd (ct_done s)) = Inr (ct_sent s, ct_clock s)"
    "(\<forall>e. ct_main s \<noteq> Crashed e) \<longrightarrow> (\<forall>i<n. ct_put s ! i = places s i)"
    by (simp_all add: compute_inv_def books_ok_def)
  have "list_all id (ct_stop_flags s) \<and> (\<forall>i<n. from_reader i (ct_done s) = ct_put s ! i)" if "ct_next_stop s"
  proof -
    have ex: "ct_main s = Exited" "ct_buffer s = []" "\<And>i. i < n \<Longrightarrow> ct_readers s ! i = Ended"
      using inv that by (auto simp: compute_inv_def main_ok_def Let_def split: main_thread.splits)
    then have "ct_stop_flags s ! i \<and> ct_queues s ! i = []" if "i < n" for i
      using inv that by (auto simp: compute_inv_def reader_ok_def)
    then show ?thesis using books(2) ex inv(2) by (auto simp: places_def list_all_length)
  qed
  with books show ?thesis by (simp add: places_def)
qed

text \<open>C15: From every state in which all preprocessors have set their stop flag, however the threads
  got there and whether or not inference is paused, the process can end and tell the output processes to stop,
  unless the model raises on a batch. So neither a join nor the pause blocks it.
\<close>

theorem told_compute_process_can_end:
  assumes "compute_run E C T (new_compute_proc n allow) s" "list_all id (ct_stop_flags s)" "T \<noteq> IF_REDIS"
  shows "\<exists>s'. compute_run E C T s s' \<and> (ct_next_stop s' \<or> (\<exists>e. ct_main s' = Crashed e))"
proof -
  note inv = new_compute_run(1) [OF assms(1)]
  from told_process_exits [OF inv assms(2,3)] obtain s' where s': "compute_run E C T s s'"
      "ct_main s' = Exited \<or> (\<exists>e. ct_main s' = Crashed e)"
    by (auto simp: gets_to_def)
  then show ?thesis using compute.run_keeps_inv [OF s'(1) inv] by (auto simp: compute_inv_def main_ok_def Let_def)
qed

text \<open>A crash is for ever, and so is what the readers have been told.\<close>

lemma crashed_step:
  assumes "compute_step E C T s s'" "ct_main s = Crashed e"
  shows "ct_main s' = Crashed e" "ct_local_stop_flags s' = ct_local_stop_flags s"
    "ct_next_stop s' = ct_next_stop s"
  using assms by (auto elim!: compute_stepE simp: put_batches_def reader_step_fields main_step_def)

interpretation crashed: step_invariant "compute_step E C T"
  "\<lambda>s. ct_main s = Crashed e \<and> ct_local_stop_flags s = told \<and> ct_next_stop s = b" for E C T e told b
  by unfold_locales (auto simp: crashed_step)


subsection \<open>Runs\<close>

definition perform_main :: "backend_env \<Rightarrow> compute_config \<Rightarrow> compute_proc \<Rightarrow> compute_proc" where
  "perform_main E C s = (case main_step E C s of None \<Rightarrow> s | Some s' \<Rightarrow> s')"

lemma compute_run_step: "compute_run E C T r s \<Longrightarrow> compute_step E C T s t \<Longrightarrow> compute_run E C T r t"
  by (rule rtranclp.rtrancl_into_rtrancl)

lemma perform_main_run: "compute_run E C T r s \<Longrightarrow> compute_run E C T r (perform_main E C s)"
  by (auto simp: perform_main_def split: option.splits intro: compute_run_step compute_step.main)

lemma reader_step_run:
  assumes "compute_run E C T (new_compute_proc n allow) s" "i < n"
  shows "compute_run E C T (new_compute_proc n allow) (reader_step T i got s)"
proof -
  have "i < length (ct_readers s)"
    using new_compute_run [OF assms(1)] assms(2) by (simp add: compute_inv_def shapes_ok_def Let_def)
  then show ?thesis by (rule compute_run_step [OF assms(1) compute_step.read])
qed

text \<open>One preprocessor puts a batch and stops while its reader is about to poll.\<close>

definition sample_told :: "batch \<Rightarrow> compute_proc" where
  "sample_told b = (let s = put_batches 0 [b] (new_compute_proc 1 (Some False))
     in s\<lparr>ct_stop_flags := (ct_stop_flags s)[0 := True]\<rparr>)"

lemma sample_told_run: "compute_run E C T (new_compute_proc 1 (Some False)) (sample_told b)"
  unfolding sample_told_def Let_def
  by (rule compute_run_step [OF compute_run_step [OF rtranclp.rtrancl_refl compute_step.put] compute_step.stop])
    (simp_all add: new_compute_proc_def put_batches_def)

abbreviation sample_main :: "nat \<Rightarrow> compute_proc \<Rightarrow> compute_proc" where
  "sample_main k \<equiv> (perform_main sample_backend_env sample_compute ^^ k)"

abbreviation sample_read :: "nat \<Rightarrow> compute_proc \<Rightarrow> compute_proc" where
  "sample_read k \<equiv> (reader_step IF_QUEUE 0 1 ^^ k)"

definition sample_ended :: "batch \<Rightarrow> compute_proc" where
  "sample_ended b = sample_main 4 (sample_read 3 (sample_main 2 (sample_read 2 (sample_told b))))"

lemma sample_main_run:
  "compute_run sample_backend_env sample_compute T r s \<Longrightarrow>
     compute_run sample_backend_env sample_compute T r (sample_main k s)"
  by (induction k) (auto intro: perform_main_run)

lemma sample_read_run:
  "compute_run E C IF_QUEUE (new_compute_proc 1 allow) s \<Longrightarrow>
     compute_run E C IF_QUEUE (new_compute_proc 1 allow) (sample_read k s)"
  by (induction k) (auto intro: reader_step_run)

lemma sample_ended_run:
  "compute_run sample_backend_env sample_compute IF_QUEUE (new_compute_proc 1 (Some False)) (sample_ended b)"
  unfolding sample_ended_def by (intro sample_main_run sample_read_run sample_told_run)

lemmas sample_step_defs = perform_main_def main_step_def reader_step_def set_reader_def extend_buffer_def
  fetch_def get_batch_def put_batches_def put_batch_shared_def new_compute_proc_def

lemma sample_joining: "sample_main 2 (sample_read 2 (sample_told b)) =
    \<lparr>ct_queues = [[]], ct_stop_flags = [True], ct_local_stop_flags = [True], ct_readers = [Got [b]],
      ct_buffer = [], ct_main = Joining 0, ct_allow_infer = Some False, ct_next_stop = False,
      ct_sent = [], ct_clock = 0, ct_put = [[b]], ct_done = []\<rparr>"
  by (simp add: sample_told_def sample_step_defs numeral_2_eq_2)

lemma sample_joined: "sample_read 3 (sample_main 2 (sample_read 2 (sample_told b))) =
    \<lparr>ct_queues = [[]], ct_stop_flags = [True], ct_local_stop_flags = [True], ct_readers = [Ended],
      ct_buffer = [(0, b)], ct_main = Joining 0, ct_allow_infer = Some False, ct_next_stop = False,
      ct_sent = [], ct_clock = 0, ct_put = [[b]], ct_done = []\<rparr>"
  unfolding sample_joining by (simp add: sample_step_defs numeral_3_eq_3)

lemma sample_ended:
  "compute_batch sample_backend_env sample_compute 0 b = Inr (items, n) \<Longrightarrow>
     ct_next_stop (sample_ended b) \<and> ct_put (sample_ended b) = [[b]] \<and> ct_sent (sample_ended b) = items"
  unfolding sample_ended_def sample_joined by (simp add: sample_step_defs eval_nat_numeral)

lemma sample_pair_computes:
  "\<exists>items n. compute_batch sample_backend_env sample_compute 0 sample_pair = Inr (items, n) \<and> length items = 2"
proof -
  have "\<exists>items n. compute_batch sample_backend_env sample_compute 0 (fst sample_pair, snd sample_pair) = Inr (items, n) \<and>
      map (unstamped \<circ> snd) items = map unstamped (snd sample_pair)"
    by (rule compute_batch_total)
      (simp_all add: sample_compute_defs plain_model_def row_per_request_def feed_dict_def dlookup_def
        has_model_dict_def)
  then obtain items n where r: "compute_batch sample_backend_env sample_compute 0 sample_pair = Inr (items, n)"
      "map (unstamped \<circ> snd) items = map unstamped (snd sample_pair)"
    by auto
  from arg_cong [OF r(2), of length] have "length items = 2" by (simp add: sample_pair_def)
  with r(1) show ?thesis by blast
qed

theorem compute_process_drains_witness:
  "ct_next_stop (sample_ended sample_pair) \<and> length (ct_sent (sample_ended sample_pair)) = 2 \<and>
     from_reader 0 (ct_done (sample_ended sample_pair)) = [sample_pair]"
proof -
  obtain items n where "compute_batch sample_backend_env sample_compute 0 sample_pair = Inr (items, n)"
      "length items = 2"
    using sample_pair_computes by blast
  with sample_ended [of sample_pair items n] compute_process_drains [OF sample_ended_run [of sample_pair]]
  show ?thesis by auto
qed

theorem told_compute_process_can_end_witness:
  "\<exists>s'. compute_run sample_backend_env sample_compute IF_QUEUE (sample_told sample_pair) s' \<and>
     (ct_next_stop s' \<or> (\<exists>e. ct_main s' = Crashed e))"
  by (rule told_compute_process_can_end [OF sample_told_run])
    (simp_all add: sample_told_def put_batches_def new_compute_proc_def)

text \<open>A batch without the model's input makes the process crash.\<close>

definition sample_broken :: compute_proc where
  "sample_broken = sample_main 3 (sample_read 3 (put_batches 0 [([], [])] (new_compute_proc 1 None)))"

lemma sample_broken_run:
  "compute_run sample_backend_env sample_compute IF_QUEUE (new_compute_proc 1 None) sample_broken"
  unfolding sample_broken_def
  by (intro sample_main_run sample_read_run compute_run_step [OF rtranclp.rtrancl_refl compute_step.put])
    (simp_all add: new_compute_proc_def)

lemma sample_broken: "ct_main sample_broken = Crashed KeyError \<and> \<not> ct_local_stop_flags sample_broken ! 0"
  by (simp add: sample_broken_def sample_step_defs eval_nat_numeral compute_batch_def stamp_all_def run_model_def
      sample_compute_def process_normal_batchable_def infer_rows_def feed_dict_def dlookup_def)


end
