(* ===== verification/Nxs_Compute_Runtimes.thy ===== *)
theory Nxs_Compute_Runtimes
  imports Nxs_Compute Nxs_Preproc_Props
begin

section \<open>The runtimes of compute processes (\<open>compute_process_tvm.py\<close> and others)\<close>

text \<open>
  What the subclasses do around the calls of TVM and TensorFlow. A TVM module is a parameter:
  \<open>run f i\<close> are the rows of output \<open>i\<close> after \<open>set_input\<close> for every entry of \<open>f\<close> and \<open>run\<close>;
  an entry that is missing would keep its value of the last call, which is left out.
\<close>

subsection \<open>TVM\<close>

type_synonym tvm_module = "feed \<Rightarrow> nat \<Rightarrow> py_value list"

definition tvm_infer :: "tvm_module \<Rightarrow> infer_fn" where
  "tvm_infer run f names = Inr (map (run f) [0..<length names])"

text \<open>One module for every batch size of the profile that the plan allows. \<open>load\<close> is the file
  \<open>bs_{bs}.so\<close>, which may be missing.\<close>

definition load_modules ::
    "(int \<Rightarrow> tvm_module result) \<Rightarrow> profile_unit list \<Rightarrow> int \<Rightarrow> (int, tvm_module) dict result" where
  "load_modules load profile max_bs =
     foldE (\<lambda>d p. let bs = pu_batch_size p in
       if bs \<le> max_bs then bindE (load bs) (\<lambda>m. Inr (AList.update bs m d)) else Inr d) [] profile"

text \<open>The batch size is the length of the first input.\<close>

definition batched_tvm_infer :: "(int, tvm_module) dict \<Rightarrow> infer_fn" where
  "batched_tvm_infer modules f names =
     (let bs = (case f of [] \<Rightarrow> 1 | (_, rows) # _ \<Rightarrow> int (length rows))
      in bindE (dlookup modules bs) (\<lambda>run. tvm_infer run f names))"

subsection \<open>TensorFlow\<close>

text \<open>\<open>per_process_gpu_memory_fraction\<close>\<close>

definition gpu_memory_fraction :: "profile_unit list \<Rightarrow> int \<Rightarrow> rat \<Rightarrow> rat result" where
  "gpu_memory_fraction profile batch_size memory =
     (let used = foldl (\<lambda>m p. if pu_batch_size p \<le> batch_size then max m (pu_gpu_mem_usage p) else m) 0 profile
      in if memory = 0 then Inl ZeroDivisionError else Inr (used / memory))"

subsection \<open>Every batch has a module\<close>

lemma load_modules_found:
  assumes "load_modules load profile max_bs = Inr d"
  shows "(\<exists>m. dlookup d bs = Inr m) \<longleftrightarrow> bs \<le> max_bs \<and> bs \<in> pu_batch_size ` set profile"
proof -
  have "bs \<in> dom (map_of d) \<longleftrightarrow> bs \<le> max_bs \<and> bs \<in> pu_batch_size ` set profile"
    using assms unfolding load_modules_def
  proof (rule foldE_prefix)
    fix ys :: "profile_unit list" and p :: profile_unit and d' d''
    assume "bs \<in> dom (map_of d') \<longleftrightarrow> bs \<le> max_bs \<and> bs \<in> pu_batch_size ` set ys"
      and "(let bs = pu_batch_size p in if bs \<le> max_bs then bindE (load bs) (\<lambda>m. Inr (AList.update bs m d'))
        else Inr d') = Inr d''"
    then show "bs \<in> dom (map_of d'') \<longleftrightarrow> bs \<le> max_bs \<and> bs \<in> pu_batch_size ` set (ys @ [p])"
      by (auto simp: Let_def bindE_eq_Inr map_of_update split: if_splits)
  qed simp
  then show ?thesis
    by (auto simp: result_simps)
qed

text \<open>The plan's batch size is one of the profile and size 1 is another, so every batch that the
  preprocessors form finds its module.\<close>

lemma batches_have_modules:
  assumes "load_modules load profile max_bs = Inr d" "1 \<in> pu_batch_size ` set profile"
    "max_bs \<in> pu_batch_size ` set profile" "1 \<le> max_bs" "0 < n"
  shows "\<exists>b m. choose_batch_size cross max_bs (supported_batch_sizes profile max_bs) n = Inr b \<and>
    b \<le> int n \<and> dlookup d b = Inr m"
proof -
  have sizes: "set (supported_batch_sizes profile max_bs) = {b \<in> pu_batch_size ` set profile. b \<le> max_bs}"
    by (auto simp: supported_batch_sizes_def)
  then have "batch_size_ok cross max_bs (supported_batch_sizes profile max_bs)"
    using assms by (auto simp: batch_size_ok_def)
  from choose_batch_size_ok [OF this assms(5)] obtain b where
    b: "choose_batch_size cross max_bs (supported_batch_sizes profile max_bs) n = Inr b" "b \<le> int n"
      "b \<in> insert 1 (insert max_bs (set (supported_batch_sizes profile max_bs)))"
    by blast
  then have "b \<le> max_bs \<and> b \<in> pu_batch_size ` set profile" using assms sizes by auto
  with load_modules_found [OF assms(1), of b] b show ?thesis by auto
qed

end
