(* ===== verification/Nxs_Batcher.thy ===== *)
theory Nxs_Batcher
  imports Nxs_Preproc
begin

section \<open>The batcher (\<open>main_processes/backend/batcher_process.py\<close>)\<close>

text \<open>
  An alternative to the batching in the preprocessors: it collects items until the batch is full
  or has waited for half the model's latency. The deployment no longer creates it.
\<close>

record batcher_state =
  ba_clock :: nat
  ba_current :: "(py_value \<times> task_metadata) list"
  ba_waiting_t0 :: rat
  ba_sent :: "batch list"

record batcher_config =
  bc_model_uuid :: string
  bc_cross_requests_batching :: bool
  bc_max_batch_size :: int
  bc_max_latency :: rat

text \<open>A full batch leaves without the time stamps of its requests.\<close>

definition send_full :: "batcher_state \<Rightarrow> batcher_state result" where
  "send_full s = bindE (transform_batch (map fst (ba_current s))) (\<lambda>b.
     Inr (s\<lparr>ba_sent := ba_sent s @ [(b, map snd (ba_current s))], ba_current := []\<rparr>))"

definition batch_item ::
    "backend_env \<Rightarrow> batcher_config \<Rightarrow> batcher_state \<Rightarrow> py_value \<times> task_metadata \<Rightarrow> batcher_state result"
  where
  "batch_item E C s item =
     (let s = s\<lparr>ba_current := ba_current s @ [item]\<rparr>;
          s = (if length (ba_current s) = 1
               then s\<lparr>ba_waiting_t0 := be_now E (ba_clock s), ba_clock := Suc (ba_clock s)\<rparr> else s)
      in if \<not> bc_cross_requests_batching C \<or> int (length (ba_current s)) \<ge> bc_max_batch_size C
         then send_full s else Inr s)"

text \<open>A batch that has waited long enough leaves with its time stamps.\<close>

definition send_waiting :: "backend_env \<Rightarrow> batcher_config \<Rightarrow> batcher_state \<Rightarrow> batcher_state result" where
  "send_waiting E C s =
     (if ba_current s = [] \<or> \<not> bc_cross_requests_batching C then Inr s
      else let n = ba_clock s
           in if be_now E n - ba_waiting_t0 s > bc_max_latency C / 2
              then bindE (transform_batch (map fst (ba_current s))) (\<lambda>b.
                   bindE (exit_batch E (bc_model_uuid C) (n + 1) (map snd (ba_current s))) (\<lambda>(ms, n).
                     Inr (s\<lparr>ba_clock := n, ba_sent := ba_sent s @ [(b, ms)], ba_current := []\<rparr>)))
              else Inr (s\<lparr>ba_clock := n + 1\<rparr>))"

definition batcher_iteration ::
    "backend_env \<Rightarrow> batcher_config \<Rightarrow> batcher_state \<Rightarrow> (py_value \<times> task_metadata) list \<Rightarrow>
       batcher_state result" where
  "batcher_iteration E C s items = bindE (foldE (batch_item E C) s items) (send_waiting E C)"

end
