(* ===== verification/Nxs_Custom_Model.thy ===== *)
theory Nxs_Custom_Model
  imports Nxs_Preproc
begin

section \<open>Custom models (\<open>main_processes/backend/custom_model_process.py\<close>)\<close>

text \<open>
  A custom model is the user's own class: one process decodes the inputs, forms batches as the
  preprocessors do, calls the class and passes its outputs on. The class is a parameter; it
  may be missing when its initialisation raised.
\<close>

type_synonym custom_infer =
  "pydict list \<Rightarrow> pydict list \<Rightarrow> pydict list \<Rightarrow> task_metadata list \<Rightarrow> string + py_value list"

record custom_config =
  cu_model_uuid :: string
  cu_infer :: "custom_infer option"
  cu_max_batch_size :: int
  cu_cross_requests_batching :: bool
  cu_supported_batch_sizes :: "int list"

text \<open>What is kept of a request: inputs, metadata and both sets of parameters.\<close>

type_synonym custom_item = "pydict \<times> task_metadata \<times> pydict \<times> pydict"

record custom_state =
  cs_clock :: nat
  cs_sent :: "(py_value \<times> task_metadata) list"

subsection \<open>One request\<close>

definition custom_entering :: "backend_env \<Rightarrow> string \<Rightarrow> nat \<Rightarrow> pydict \<Rightarrow> pydict \<times> nat" where
  "custom_entering E uuid n extra =
     (let extra = (if PyStr uuid \<in> set (dkeys extra) then extra
                   else AList.update (PyStr uuid) (PyDict []) extra);
          (extra, n) = (if PyStr ''input_t0'' \<in> set (dkeys extra) then (extra, n)
                   else (AList.update (PyStr ''input_t0'') (PyFloat (be_now E n)) extra, n + 1));
          extra = AList.update (PyStr uuid) (PyDict [(PyStr ''input_t0'', PyFloat (be_now E n))]) extra;
          n = n + 1;
          (extra, n) = (if PyStr ''preprocessing_t0'' \<in> set (dkeys extra) then (extra, n)
                   else (AList.update (PyStr ''preprocessing_t0'') (PyFloat (be_now E n)) extra, n + 1))
      in (AList.update (PyStr uuid) (PyDict [(PyStr ''preprocessing_t0'', PyFloat (be_now E n))]) extra,
          n + 1))"

text \<open>An input that cannot be decoded marks the request as failed and is left out; the request
  goes on all the same.\<close>

definition custom_decode :: "backend_env \<Rightarrow> infer_input \<Rightarrow> pydict \<Rightarrow> pydict result" where
  "custom_decode E i d =
     (case ii_type i of
        IT_ENCODED_IMAGE \<Rightarrow>
          Inr (AList.update (PyStr (ii_name i)) (PyBytes (raw_bytes E (ii_data i))) d)
      | IT_PICKLED_DATA \<Rightarrow> bindE (pickle_loads (ii_data i)) (\<lambda>v.
          Inr (AList.update (PyStr (ii_name i)) v d))
      | IT_NUMPY_TENSOR \<Rightarrow> Inr d)"

definition custom_inputs ::
    "backend_env \<Rightarrow> string \<Rightarrow> infer_input list \<Rightarrow> task_metadata \<Rightarrow> pydict \<times> task_metadata" where
  "custom_inputs E uuid inputs m =
     foldl (\<lambda>(d, m) i.
        case custom_decode E i d of
          Inr d' \<Rightarrow> (d', m)
        | Inl _ \<Rightarrow> (d, task_fails m (uuid @ '': Failed to decode input '' @ quoted (ii_name i))))
       ([], m) inputs"

text \<open>Here the loop that copies the parameters is under \<open>try\<close>: it stops at the first failure.\<close>

fun copy_while :: "py_value \<Rightarrow> py_value list \<Rightarrow> pydict \<Rightarrow> pydict" where
  "copy_while u [] d = d"
| "copy_while u (k # ks) d =
     (case py_getitem u k of Inl _ \<Rightarrow> d | Inr v \<Rightarrow> copy_while u ks (AList.update k v d))"

definition custom_params :: "backend_env \<Rightarrow> string option \<Rightarrow> pydict" where
  "custom_params E t =
     (let u = loads_params E t in case py_iter u of Inl _ \<Rightarrow> [] | Inr ks \<Rightarrow> copy_while u ks [])"

definition custom_prepare ::
    "backend_env \<Rightarrow> custom_config \<Rightarrow> nat \<Rightarrow> infer_request \<Rightarrow> custom_item \<times> nat" where
  "custom_prepare E C n r =
     (let (extra, n) = custom_entering E (cu_model_uuid C) n [];
          (inputs, m) = custom_inputs E (cu_model_uuid C) (rq_inputs r) (new_metadata r extra)
      in ((inputs, m, custom_params E (rm_extra_preproc_params r),
           custom_params E (rm_extra_postproc_params r)), n))"

subsection \<open>Batches\<close>

text \<open>A batch that fails gets empty outputs; \<open>zip\<close> drops what has no partner.\<close>

definition custom_batch ::
    "custom_config \<Rightarrow> custom_item list \<Rightarrow> (py_value \<times> task_metadata) list" where
  "custom_batch C items =
     (let ms = map (\<lambda>(_, m, _, _). m) items;
          failed = (\<lambda>msg. map (\<lambda>m. (PyDict [],
             task_fails m (cu_model_uuid C @ '': Failed to run batch: '' @ msg))) ms)
      in case cu_infer C of
           None \<Rightarrow> failed ''NoneType''
         | Some f \<Rightarrow>
             (case f (map fst items) (map (\<lambda>(_, _, p, _). p) items) (map (\<lambda>(_, _, _, q). q) items) ms of
                Inl msg \<Rightarrow> failed msg
              | Inr outs \<Rightarrow> zip outs ms))"

partial_function (option) custom_batches ::
    "custom_config \<Rightarrow> custom_item list \<Rightarrow> (py_value \<times> task_metadata) list \<Rightarrow>
       (py_value \<times> task_metadata) list result option" where
  "custom_batches C current sent =
     (if current = [] then Some (Inr sent)
      else case choose_batch_size (cu_cross_requests_batching C) (cu_max_batch_size C)
                  (cu_supported_batch_sizes C) (length current) of
             Inl e \<Rightarrow> Some (Inl e)
           | Inr b \<Rightarrow> custom_batches C (drop (nat b) current)
                        (sent @ custom_batch C (take (nat b) current)))"

definition custom_iteration ::
    "backend_env \<Rightarrow> custom_config \<Rightarrow> custom_state \<Rightarrow> infer_request list \<Rightarrow> custom_state result option" where
  "custom_iteration E C s requests =
     (let (items, n) = foldl (\<lambda>(items, n) r. let (i, n) = custom_prepare E C n r in (items @ [i], n))
                         ([], cs_clock s) requests
      in map_option (\<lambda>r. bindE r (\<lambda>sent. Inr (s\<lparr>cs_clock := n, cs_sent := sent\<rparr>)))
           (custom_batches C items (cs_sent s)))"

end
