(* ===== verification/Nxs_Frontend.thy ===== *)
theory Nxs_Frontend
  imports Nxs_Value Nxs_Runtime Nxs_Puller
begin

section \<open>The frontend: tasks (\<open>main_processes/frontend/routers/api/v2/tasks/root.py\<close>)\<close>

text \<open>
  A frontend turns an HTTP request into a task for the first model of a pipeline and waits
  until the result arrives in its own queue. A request is a coroutine: \<open>submit_single\<close> and
  \<open>submit_tensors\<close> are its part up to the push, \<open>poll_result\<close> is one round of its waiting loop.
  Between the rounds other requests and the threads change the shared state. An exception is
  the left value next to the state as it was changed before. Downloads, the parsing of JSON
  and the generation of uuids are arguments.
\<close>

subsection \<open>State\<close>

record frontend_args =
  fa_frontend_name :: string
  fa_api_key :: string
  fa_wait_for_models :: bool
  fa_workload_report_period_secs :: rat
  fa_model_caching_timeout_secs :: rat

datatype frontend_value = FvStore kv_value | FvParams py_value

record ('r, 'k) frontend =
  fe_clock :: nat
  fe_pipeline_cache :: "(string, nxs_pipeline_info) dict"
  fe_tasks_data :: "(string \<times> string) list"
  fe_tasks_summary_data :: "task_summary list"
  fe_session_params :: "(string, py_value) dict"
  fe_task_result_dict :: "(string, infer_result) dict"
  fe_task_result_t0_dict :: "(string, rat) dict"
  fe_pusher :: "('r, infer_request) pusher"
  fe_kv :: "('k, frontend_value) redis_client"
  fe_backend_infos :: "backend_throughput_log list"
  fe_backend_infos_t0 :: rat
  fe_scheduler_info :: nxs_scheduler_log
  fe_scheduler_info_t0 :: rat

definition fe_now :: "backend_env \<Rightarrow> ('r, 'k) frontend \<Rightarrow> rat \<times> ('r, 'k) frontend" where
  "fe_now E s = (be_now E (fe_clock s), s\<lparr>fe_clock := Suc (fe_clock s)\<rparr>)"

text \<open>The log of the scheduler is loaded before its first use, because its time stamp is 0.\<close>

definition new_frontend ::
    "('r, infer_request) pusher \<Rightarrow> ('k, frontend_value) redis_client \<Rightarrow> ('r, 'k) frontend" where
  "new_frontend p kv = \<lparr>fe_clock = 0, fe_pipeline_cache = [], fe_tasks_data = [],
     fe_tasks_summary_data = [], fe_session_params = [], fe_task_result_dict = [],
     fe_task_result_t0_dict = [], fe_pusher = p, fe_kv = kv, fe_backend_infos = [],
     fe_backend_infos_t0 = 0,
     fe_scheduler_info = \<lparr>sl_scheduling_requests = [], sl_scheduling_plans = []\<rparr>,
     fe_scheduler_info_t0 = 0\<rparr>"
subsection \<open>Authentication\<close>

definition check_api_key :: "frontend_args \<Rightarrow> string \<Rightarrow> bool result" where
  "check_api_key A key =
     (if fa_api_key A = '''' then Inr True
      else if key \<noteq> fa_api_key A then Inl (Raised ''wrong api key'') else Inr True)"

subsection \<open>Sessions\<close>

text \<open>A session's parameters are stored under a key with a suffix, but looked up without it.\<close>

definition session_key :: "string \<Rightarrow> string" where
  "session_key u = u @ ''_params''"

definition create_session ::
    "backend_env \<Rightarrow> string \<Rightarrow> string \<Rightarrow> ('r, 'k) frontend \<Rightarrow> (string \<times> ('r, 'k) frontend) result" where
  "create_session E uuid js s =
     (case be_json_loads E js of
        Inl _ \<Rightarrow> Inl (Raised ''extra_params_json_str has to be json string.'')
      | Inr v \<Rightarrow> Inr (uuid, s\<lparr>fe_kv := set_value (fe_kv s) (session_key uuid) (FvParams v)\<rparr>))"

definition delete_session :: "string \<Rightarrow> ('r, 'k) frontend \<Rightarrow> ('r, 'k) frontend" where
  "delete_session uuid s = s\<lparr>fe_kv := delete_key (fe_kv s) (session_key uuid)\<rparr>"

fun stored_params :: "frontend_value \<Rightarrow> py_value" where
  "stored_params (FvParams v) = v"
| "stored_params (FvStore _) = PyNone"

text \<open>When the session is in the cache already, the variable keeps its initial value, an empty
  dictionary.\<close>

definition get_session_params :: "string \<Rightarrow> ('r, 'k) frontend \<Rightarrow> py_value \<times> ('r, 'k) frontend" where
  "get_session_params u s =
     (if u \<in> set (dkeys (fe_session_params s)) then (PyDict [], s)
      else let (v, kv) = get_value (fe_kv s) u; s = s\<lparr>fe_kv := kv\<rparr>
           in case v of
                None \<Rightarrow> (PyDict [], s)
              | Some w \<Rightarrow> (stored_params w, s\<lparr>fe_session_params :=
                             AList.update u (stored_params w) (fe_session_params s)\<rparr>))"

subsection \<open>Reports of other processes\<close>

definition get_backend_logs :: "('r, 'k) frontend \<Rightarrow> backend_throughput_log list \<times> ('r, 'k) frontend" where
  "get_backend_logs s =
     (let (v, kv) = get_value (fe_kv s) BACKEND_MONITOR_LOGS
      in (case v of Some (FvStore (KvBackendLogs l)) \<Rightarrow> l | _ \<Rightarrow> [], s\<lparr>fe_kv := kv\<rparr>))"

definition get_scheduler_log :: "('r, 'k) frontend \<Rightarrow> nxs_scheduler_log \<times> ('r, 'k) frontend" where
  "get_scheduler_log s =
     (let (v, kv) = get_value (fe_kv s) SCHEDULER_LOGS
      in (case v of Some (FvStore (KvSchedulerLog l)) \<Rightarrow> l
          | _ \<Rightarrow> \<lparr>sl_scheduling_requests = [], sl_scheduling_plans = []\<rparr>, s\<lparr>fe_kv := kv\<rparr>))"

definition load_backend_infos :: "backend_env \<Rightarrow> ('r, 'k) frontend \<Rightarrow> ('r, 'k) frontend" where
  "load_backend_infos E s =
     (let (l, s) = get_backend_logs s; (t, s) = fe_now E s
      in s\<lparr>fe_backend_infos := l, fe_backend_infos_t0 := t\<rparr>)"

definition load_scheduler_info :: "backend_env \<Rightarrow> ('r, 'k) frontend \<Rightarrow> ('r, 'k) frontend" where
  "load_scheduler_info E s =
     (let (l, s) = get_scheduler_log s; (t, s) = fe_now E s
      in s\<lparr>fe_scheduler_info := l, fe_scheduler_info_t0 := t\<rparr>)"

text \<open>\<open>GET /monitoring/backends\<close> and \<open>/monitoring/scheduler\<close>.\<close>

definition get_monitoring_backend_reports ::
    "backend_env \<Rightarrow> ('r, 'k) frontend \<Rightarrow> backend_throughput_log list \<times> ('r, 'k) frontend" where
  "get_monitoring_backend_reports E s = (let s = load_backend_infos E s in (fe_backend_infos s, s))"

definition get_monitoring_scheduler_report ::
    "backend_env \<Rightarrow> ('r, 'k) frontend \<Rightarrow> nxs_scheduler_log \<times> ('r, 'k) frontend" where
  "get_monitoring_scheduler_report E s = (let s = load_scheduler_info E s in (fe_scheduler_info s, s))"

subsection \<open>Are the models of a pipeline running?\<close>

definition pipeline_cmodels :: "nxs_scheduler_log \<Rightarrow> string \<Rightarrow> string list" where
  "pipeline_cmodels l p = concat (map ssr_cmodel_uuid_list
     (filter (\<lambda>r. ssr_pipeline_uuid r = p) (sl_scheduling_requests l)))"

text \<open>The two nested loops that look for a model in the plans, and the loop over the models.\<close>

fun found_on_backend :: "string \<Rightarrow> simplified_backend_plan list \<Rightarrow> bool" where
  "found_on_backend u [] = False"
| "found_on_backend u (p # ps) =
     (if list_ex (\<lambda>v. v = u) (sbl_cmodel_uuid_list p) then True else found_on_backend u ps)"

fun all_found :: "string list \<Rightarrow> simplified_backend_plan list \<Rightarrow> bool" where
  "all_found [] ps = True"
| "all_found (u # us) ps = (if \<not> found_on_backend u ps then False else all_found us ps)"

definition models_running :: "nxs_scheduler_log \<Rightarrow> string \<Rightarrow> bool" where
  "models_running l p =
     (let us = pipeline_cmodels l p in us \<noteq> [] \<and> all_found us (sl_scheduling_plans l))"

subsection \<open>Pipelines\<close>

definition get_pipeline_info_cached ::
    "backend_env \<Rightarrow> main_db \<Rightarrow> string \<Rightarrow> ('r, 'k) frontend \<Rightarrow>
       ('r, 'k) frontend \<times> nxs_pipeline_info option result" where
  "get_pipeline_info_cached E db u s =
     (case map_of (fe_pipeline_cache s) u of
        Some p \<Rightarrow> (s, Inr (Some p))
      | None \<Rightarrow>
          let (now, s) = fe_now E s
          in case get_from_db db u now of
               Inl e \<Rightarrow> (s, Inl e)
             | Inr None \<Rightarrow> (s, Inr None)
             | Inr (Some p) \<Rightarrow>
                 (s\<lparr>fe_pipeline_cache := AList.update u (get_pipeline_info p) (fe_pipeline_cache s)\<rparr>,
                  Inr (Some (get_pipeline_info p))))"

subsection \<open>Submitting a task\<close>

datatype task_data = BytesData string | TextData string

record users_extra_params =
  ux_preproc :: "(string, string) dict"
  ux_transform :: "(string, string) dict"
  ux_postproc :: "(string, string) dict"

record pending_task =
  pt_task_uuid :: string
  pt_entry_t0 :: rat
  pt_timeout :: rat
  pt_summary :: task_summary

definition first_item :: "'a list \<Rightarrow> 'a result" where
  "first_item xs = (case xs of [] \<Rightarrow> Inl IndexError | x # _ \<Rightarrow> Inr x)"

text \<open>\<open>pipeline.models[0].component_models[0].model_desc.inputs[0]\<close>\<close>

definition first_input :: "nxs_pipeline_info \<Rightarrow> model_input result" where
  "first_input p =
     bindE (first_item (pi_models p)) (\<lambda>c.
     bindE (first_item (cm_component_models c)) (\<lambda>m. first_item (md_inputs (bm_model_desc m))))"

definition str_dict :: "(string, string) dict \<Rightarrow> py_value" where
  "str_dict d = PyDict (map (\<lambda>(k, v). (PyStr k, PyStr v)) d)"

text \<open>Bytes are passed on as an image, whatever the API; a text is pickled.\<close>

definition single_input :: "string \<Rightarrow> task_data \<Rightarrow> infer_input" where
  "single_input name d =
     (case d of
        BytesData b \<Rightarrow> \<lparr>ii_name = name, ii_type = IT_ENCODED_IMAGE, ii_data = RawBytes b\<rparr>
      | TextData t \<Rightarrow> \<lparr>ii_name = name, ii_type = IT_PICKLED_DATA, ii_data = Pickled (PyStr t)\<rparr>)"

text \<open>The stages of the task: the models of the pipeline, then this frontend.\<close>

definition task_route :: "frontend_args \<Rightarrow> nxs_pipeline_info \<Rightarrow> string list" where
  "task_route A p = p_pipeline p @ [fa_frontend_name A]"

definition push_task ::
    "backend_env \<Rightarrow> string \<Rightarrow> string \<Rightarrow> infer_request \<Rightarrow> pending_task \<Rightarrow> ('r, 'k) frontend \<Rightarrow>
       ('r, 'k) frontend \<times> pending_task result" where
  "push_task E topic session r t s =
     (case push_to_session (be_now E) (fe_pusher s) topic session r of
        Inl e \<Rightarrow> (s, Inl e)
      | Inr p \<Rightarrow> (s\<lparr>fe_pusher := p\<rparr>, Inr t))"

definition new_summary :: "string \<Rightarrow> string \<Rightarrow> string \<Rightarrow> rat \<Rightarrow> task_summary" where
  "new_summary p u task t0 = \<lparr>ts_pipeline_uuid = p, ts_session_uuid = u, ts_task_uuid = task,
     ts_start_ts = t0, ts_end_ts = 0, ts_e2e_latency = 0, ts_extra_data = ''{}''\<rparr>"

text \<open>The beginning of both functions: the reports of the backends, at most 15 seconds old.\<close>

definition enter_task :: "backend_env \<Rightarrow> ('r, 'k) frontend \<Rightarrow> rat \<times> ('r, 'k) frontend" where
  "enter_task E s =
     (let (t0, s) = fe_now E s
      in (t0, if t0 - fe_backend_infos_t0 s > 15 then load_backend_infos E s else s))"

definition may_wait ::
    "backend_env \<Rightarrow> frontend_args \<Rightarrow> rat \<Rightarrow> string \<Rightarrow> ('r, 'k) frontend \<Rightarrow> bool \<times> ('r, 'k) frontend" where
  "may_wait E A t0 p s =
     (if fa_wait_for_models A then (True, s)
      else let s = (if t0 - fe_scheduler_info_t0 s > 15 then load_scheduler_info E s else s)
           in (models_running (fe_scheduler_info s) p, s))"

definition single_request ::
    "backend_env \<Rightarrow> frontend_args \<Rightarrow> nxs_pipeline_info \<Rightarrow> string \<Rightarrow> string \<Rightarrow> task_data \<Rightarrow>
       users_extra_params \<Rightarrow> py_value \<Rightarrow> infer_request result" where
  "single_request E A p task session d ux params =
     bindE (first_input p) (\<lambda>inp.
     bindE (be_json_dumps E (str_dict (ux_preproc ux))) (\<lambda>pre.
     bindE (be_json_dumps E (str_dict (ux_transform ux))) (\<lambda>tr.
     bindE (be_json_dumps E (str_dict (ux_postproc ux))) (\<lambda>post.
     bindE (be_json_dumps E params) (\<lambda>ex.
       Inr \<lparr>rm_task_uuid = task, rm_session_uuid = session, rm_extra_preproc_params = Some pre,
            rm_extra_transform_params = Some tr, rm_extra_postproc_params = Some post,
            rm_exec_pipelines = tl (task_route A p), rm_extra_params = Some (RawBytes ex),
            rm_carry_over_extras = None, rq_inputs = [single_input (mi_name inp) d],
            rq_status = PENDING\<rparr>)))))"

definition submit_single ::
    "backend_env \<Rightarrow> frontend_args \<Rightarrow> main_db \<Rightarrow> string \<Rightarrow> task_data \<Rightarrow> string \<Rightarrow> string \<Rightarrow>
       users_extra_params \<Rightarrow> rat \<Rightarrow> ('r, 'k) frontend \<Rightarrow> ('r, 'k) frontend \<times> pending_task result" where
  "submit_single E A db task d pipeline session ux timeout s =
     (let (t0, s) = enter_task E s
      in if fe_backend_infos s = [] then (s, Inl (Raised ''No backend is available.''))
         else
           let (ready, s) = may_wait E A t0 pipeline s;
               (s, p) = get_pipeline_info_cached E db pipeline s
           in case p of
                Inl e \<Rightarrow> (s, Inl e)
              | Inr None \<Rightarrow> (s, Inl (Raised ''invalid pipeline uuid''))
              | Inr (Some p) \<Rightarrow>
                  let s = s\<lparr>fe_tasks_data := fe_tasks_data s @ [(pipeline, session)]\<rparr>
                  in if \<not> ready
                     then (s, Inl (Raised ''Model is not ready to serve. Please try again later.''))
                     else case first_input p of
                            Inl e \<Rightarrow> (s, Inl e)
                          | Inr _ \<Rightarrow>
                              let (params, s) = get_session_params session s
                              in case single_request E A p task session d ux params of
                                   Inl e \<Rightarrow> (s, Inl e)
                                 | Inr r \<Rightarrow> push_task E (hd (task_route A p)) session r
                                     \<lparr>pt_task_uuid = task, pt_entry_t0 = t0, pt_timeout = timeout,
                                      pt_summary = new_summary pipeline session task t0\<rparr> s)"

subsection \<open>Tensors\<close>

record tensors_request =
  tr_pipeline_uuid :: string
  tr_session_uuid :: string
  tr_extra_preproc_params :: "string option"
  tr_extra_transform_params :: "string option"
  tr_extra_postproc_params :: "string option"
  tr_inputs :: "infer_input list"
  tr_infer_timeout :: rat

definition tensors_infer_request ::
    "backend_env \<Rightarrow> frontend_args \<Rightarrow> nxs_pipeline_info \<Rightarrow> string \<Rightarrow> tensors_request \<Rightarrow> py_value \<Rightarrow>
       infer_request result" where
  "tensors_infer_request E A p task q params =
     bindE (be_json_dumps E params) (\<lambda>ex.
       Inr \<lparr>rm_task_uuid = task, rm_session_uuid = tr_session_uuid q,
            rm_extra_preproc_params = tr_extra_preproc_params q,
            rm_extra_transform_params = tr_extra_transform_params q,
            rm_extra_postproc_params = tr_extra_postproc_params q,
            rm_exec_pipelines = tl (task_route A p), rm_extra_params = Some (RawBytes ex),
            rm_carry_over_extras = None, rq_inputs = tr_inputs q, rq_status = PENDING\<rparr>)"

definition submit_tensors ::
    "backend_env \<Rightarrow> frontend_args \<Rightarrow> main_db \<Rightarrow> string \<Rightarrow> tensors_request \<Rightarrow> ('r, 'k) frontend \<Rightarrow>
       ('r, 'k) frontend \<times> pending_task result" where
  "submit_tensors E A db task q s =
     (let (t0, s) = enter_task E s; pipeline = tr_pipeline_uuid q; session = tr_session_uuid q
      in if fe_backend_infos s = []
         then (s, Inl (Raised ''No backend is available. Please bring up some backends.''))
         else
           let (s, p) = get_pipeline_info_cached E db pipeline s
           in case p of
                Inl e \<Rightarrow> (s, Inl e)
              | Inr None \<Rightarrow> (s, Inl (Raised ''invalid pipeline uuid''))
              | Inr (Some p) \<Rightarrow>
                  let s = s\<lparr>fe_tasks_data := fe_tasks_data s @ [(pipeline, session)]\<rparr>;
                      (params, s) = get_session_params session s
                  in case tensors_infer_request E A p task q params of
                       Inl e \<Rightarrow> (s, Inl e)
                     | Inr r \<Rightarrow> push_task E (hd (task_route A p)) session r
                         \<lparr>pt_task_uuid = task, pt_entry_t0 = t0, pt_timeout = tr_infer_timeout q,
                          pt_summary = new_summary pipeline session task t0\<rparr> s)"

subsection \<open>Waiting\<close>

datatype poll = Waiting | Answered (answer: infer_result) | Failed py_error

text \<open>One round of the loop; the answer loses the metadata that the backends added.\<close>

definition poll_result ::
    "backend_env \<Rightarrow> pending_task \<Rightarrow> ('r, 'k) frontend \<Rightarrow> ('r, 'k) frontend \<times> poll" where
  "poll_result E t s =
     (let (now, s) = fe_now E s
      in if now - pt_entry_t0 t > pt_timeout t then (s, Failed (Raised ''Request timeout''))
         else case map_of (fe_task_result_dict s) (pt_task_uuid t) of
                None \<Rightarrow> (s, Waiting)
              | Some r \<Rightarrow>
                  let (now, s) = fe_now E s;
                      lat = now - pt_entry_t0 t;
                      sm = (pt_summary t)\<lparr>ts_end_ts := now, ts_e2e_latency := lat\<rparr>
                  in (s\<lparr>fe_task_result_dict := AList.delete (pt_task_uuid t) (fe_task_result_dict s),
                        fe_tasks_summary_data := fe_tasks_summary_data s @ [sm]\<rparr>,
                      Answered (r\<lparr>ir_e2e_latency := lat, ir_metadata := None\<rparr>)))"

subsection \<open>What the endpoints make of an outcome\<close>

definition failed_answer :: "string \<Rightarrow> infer_result" where
  "failed_answer msg = \<lparr>ir_type = RT_CUSTOM, ir_status = FAILED, ir_task_uuid = '''',
     ir_error_msgs = [msg], ir_payload = Custom '''', ir_e2e_latency = 0, ir_metadata = None\<rparr>"

text \<open>The endpoints for images, texts and tensors catch every exception, also of the download.\<close>

definition guarded :: "backend_env \<Rightarrow> infer_result result \<Rightarrow> infer_result" where
  "guarded E r = (case r of Inl e \<Rightarrow> failed_answer (be_exn_text E e) | Inr x \<Rightarrow> x)"

text \<open>A result of type \<open>CUSTOM\<close> has no field to return: None.\<close>

definition extract_fields_from_result ::
    "infer_result \<Rightarrow> infer_result_type list \<Rightarrow> result_payload option result" where
  "extract_fields_from_result r expected =
     (if ir_status r = FAILED
      then Inl (Raised (if ir_error_msgs r \<noteq> [] then hd (ir_error_msgs r)
             else ''Inference failed due to unknown exception. Please try again later.''))
      else if ir_type r \<notin> set expected then Inl (Raised ''Type is not in expected list'')
      else Inr (if ir_type r = RT_CUSTOM then None else Some (ir_payload r)))"

subsection \<open>The thread that receives results\<close>

definition store_result :: "backend_env \<Rightarrow> ('r, 'k) frontend \<Rightarrow> infer_result \<Rightarrow> ('r, 'k) frontend" where
  "store_result E s r =
     (let (now, s) = fe_now E s
      in s\<lparr>fe_task_result_dict := AList.update (ir_task_uuid r) r (fe_task_result_dict s),
           fe_task_result_t0_dict := AList.update (ir_task_uuid r) now (fe_task_result_t0_dict s)\<rparr>)"

text \<open>Results are removed three minutes after their arrival, whether they were fetched or not.\<close>

definition forget_result :: "('r, 'k) frontend \<Rightarrow> string \<Rightarrow> ('r, 'k) frontend" where
  "forget_result s u =
     s\<lparr>fe_task_result_t0_dict := AList.delete u (fe_task_result_t0_dict s),
       fe_task_result_dict := AList.delete u (fe_task_result_dict s)\<rparr>"

definition clean_results :: "backend_env \<Rightarrow> ('r, 'k) frontend \<Rightarrow> ('r, 'k) frontend" where
  "clean_results E s =
     (let (cur, s) = fe_now E s;
          old = map fst (filter (\<lambda>(u, t). cur - t > 3 * 60) (fe_task_result_t0_dict s))
      in foldl forget_result s old)"

text \<open>One round; \<open>cleanup_t0\<close> is read once, when the thread starts.\<close>

definition recv_results ::
    "backend_env \<Rightarrow> rat \<Rightarrow> infer_result list \<Rightarrow> ('r, 'k) frontend \<Rightarrow> ('r, 'k) frontend" where
  "recv_results E cleanup_t0 msgs s =
     (let s = foldl (store_result E) s msgs; (now, s) = fe_now E s
      in if now - cleanup_t0 > 60 then clean_results E s else s)"

subsection \<open>The thread that reports workloads\<close>

record task_monitor =
  tk_task_dict :: "(string, workload_report) dict"
  tk_task_ts_dict :: "(string, rat) dict"
  tk_task_ts0_dict :: "(string, rat) dict"
  tk_task_fps_dict :: "(string, nat) dict"
  tk_t0 :: rat
  tk_sent :: "nxs_msg list"

definition new_task_monitor :: "rat \<Rightarrow> task_monitor" where
  "new_task_monitor t0 = \<lparr>tk_task_dict = [], tk_task_ts_dict = [], tk_task_ts0_dict = [],
     tk_task_fps_dict = [], tk_t0 = t0, tk_sent = []\<rparr>"

text \<open>One task of \<open>tasks_data\<close>; the flag says whether a key was new.\<close>

definition count_task ::
    "clock \<Rightarrow> (task_monitor \<times> nat) \<times> bool \<Rightarrow> string \<times> string \<Rightarrow> ((task_monitor \<times> nat) \<times> bool) result"
  where
  "count_task now = (\<lambda>((M, n), new) (p, u).
     let key = join_key p u;
         (M, n, new) =
           (if key \<in> set (dkeys (tk_task_dict M)) then (M, n, new)
            else (M\<lparr>tk_task_dict := AList.update key \<lparr>wr_pipeline_uuid = p, wr_session_uuid = u,
                      wr_fps = 0, wr_metadata = ''{}''\<rparr> (tk_task_dict M),
                    tk_task_ts0_dict := AList.update key (now n) (tk_task_ts0_dict M),
                    tk_task_fps_dict := AList.update key 0 (tk_task_fps_dict M)\<rparr>, n + 1, True))
     in bindE (dlookup (tk_task_fps_dict M) key) (\<lambda>c.
          Inr ((M\<lparr>tk_task_fps_dict := AList.update key (c + 1) (tk_task_fps_dict M),
                  tk_task_ts_dict := AList.update key (now n) (tk_task_ts_dict M)\<rparr>, n + 1), new)))"

text \<open>Keys leave by the time of their first task, not of their last one.\<close>

definition keys_to_clean :: "rat \<Rightarrow> rat \<Rightarrow> task_monitor \<Rightarrow> string list" where
  "keys_to_clean timeout cur M =
     map fst (filter (\<lambda>(k, t0). cur - t0 > timeout) (tk_task_ts0_dict M))"

definition clean_key :: "task_monitor \<Rightarrow> string \<Rightarrow> task_monitor result" where
  "clean_key M k =
     bindE (dpop (tk_task_dict M) k) (\<lambda>d.
     bindE (dpop (tk_task_ts_dict M) k) (\<lambda>ts.
     bindE (dpop (tk_task_ts0_dict M) k) (\<lambda>ts0.
     bindE (dpop (tk_task_fps_dict M) k) (\<lambda>fps.
       Inr (M\<lparr>tk_task_dict := d, tk_task_ts_dict := ts, tk_task_ts0_dict := ts0,
              tk_task_fps_dict := fps\<rparr>)))))"

definition workload_of :: "task_monitor \<Rightarrow> string \<times> workload_report \<Rightarrow> workload_report option result"
  where
  "workload_of M = (\<lambda>(k, w). bindE (dlookup (tk_task_fps_dict M) k) (\<lambda>c.
     Inr (if c > 0 then Some (w\<lparr>wr_fps := of_nat c\<rparr>) else None)))"

text \<open>The reports, with the counters reset; nothing is sent when there is no report. The
  processor of the summaries returns an empty dictionary.\<close>

definition report_tasks :: "frontend_args \<Rightarrow> task_monitor \<Rightarrow> (task_monitor \<times> bool) result" where
  "report_tasks A M =
     bindE (mapE (workload_of M) (tk_task_dict M)) (\<lambda>ws.
       let reports = List.map_filter id ws;
           M1 = M\<lparr>tk_task_dict := map (\<lambda>((k, w), r). (k, case r of None \<Rightarrow> w | Some r \<Rightarrow> r))
                                    (zip (tk_task_dict M) ws),
                  tk_task_fps_dict := map (\<lambda>(k, c). (k, 0)) (tk_task_fps_dict M)\<rparr>
       in Inr (if reports = [] then (M1, False)
               else (M1\<lparr>tk_sent := tk_sent M1 @ [MsgReportInputWorkloads
                         \<lparr>fw_frontend_name = fa_frontend_name A, fw_workload_reports = reports,
                          fw_metadata = ''{}''\<rparr>]\<rparr>, True)))"

text \<open>One round of the loop.\<close>

definition task_monitor_tick ::
    "backend_env \<Rightarrow> frontend_args \<Rightarrow> task_monitor \<Rightarrow> ('r, 'k) frontend \<Rightarrow>
       (task_monitor \<times> ('r, 'k) frontend) result" where
  "task_monitor_tick E A M s =
     bindE (foldE (count_task (be_now E)) ((M, fe_clock s), False) (fe_tasks_data s)) (\<lambda>((M, n), new).
       let (due, n) = (if new then (True, n)
                       else (be_now E n - tk_t0 M > fa_workload_report_period_secs A, n + 1));
           s = s\<lparr>fe_tasks_data := []\<rparr>
       in if \<not> due then Inr (M, s\<lparr>fe_clock := n\<rparr>)
          else
            bindE (foldE clean_key M
                     (keys_to_clean (fa_model_caching_timeout_secs A) (be_now E n) M)) (\<lambda>M.
            bindE (report_tasks A M) (\<lambda>(M, sent).
              Inr (M\<lparr>tk_t0 := be_now E (n + 1)\<rparr>,
                   s\<lparr>fe_clock := n + 2, fe_tasks_summary_data :=
                       (if sent then [] else fe_tasks_summary_data s)\<rparr>))))"

subsection \<open>The endpoints\<close>

text \<open>
  The outcome of \<open>_infer_single\<close> for given parameters is \<open>run\<close>. The endpoints for files parse
  the parameters first: a text that is no JSON counts as no parameters, but parameters of the
  wrong shape raise outside of the \<open>try\<close>. \<open>mk\<close> is the constructor of \<open>NxsInferExtraParams\<close>.
\<close>

definition file_extra_params ::
    "backend_env \<Rightarrow> (py_value \<Rightarrow> users_extra_params result) \<Rightarrow> string \<Rightarrow> users_extra_params result" where
  "file_extra_params E mk js =
     mk (case be_json_loads E js of Inl _ \<Rightarrow> PyDict [] | Inr v \<Rightarrow> v)"

definition submit_image_task ::
    "backend_env \<Rightarrow> (py_value \<Rightarrow> users_extra_params result) \<Rightarrow> string \<Rightarrow>
       (users_extra_params \<Rightarrow> infer_result result) \<Rightarrow> infer_result result" where
  "submit_image_task E mk js run =
     bindE (file_extra_params E mk js) (\<lambda>ux. Inr (guarded E (run ux)))"

definition process_image_task ::
    "backend_env \<Rightarrow> string result \<Rightarrow> (string \<Rightarrow> infer_result result) \<Rightarrow> infer_result" where
  "process_image_task E download run = guarded E (bindE download run)"

text \<open>A batch: one coroutine per address, the answers in the order of the addresses.\<close>

definition submit_batch_image_task ::
    "backend_env \<Rightarrow> (string result \<times> (string \<Rightarrow> infer_result result)) list \<Rightarrow> infer_result list" where
  "submit_batch_image_task E tasks = map (\<lambda>(download, run). process_image_task E download run) tasks"

definition text_session :: "string option \<Rightarrow> string" where
  "text_session u = (case u of None \<Rightarrow> ''global'' | Some u \<Rightarrow> u)"

definition submit_text_task ::
    "backend_env \<Rightarrow> string option \<Rightarrow> (string \<Rightarrow> infer_result result) \<Rightarrow> infer_result" where
  "submit_text_task E u run = guarded E (run (text_session u))"

text \<open>An exception becomes a response with status 400 and its text.\<close>

definition http_400 :: "backend_env \<Rightarrow> 'a result \<Rightarrow> 'a result" where
  "http_400 E r = (case r of Inl e \<Rightarrow> Inl (Raised (be_exn_text E e)) | Inr x \<Rightarrow> Inr x)"

definition submit_audio_task_from_file ::
    "backend_env \<Rightarrow> (py_value \<Rightarrow> users_extra_params result) \<Rightarrow> string \<Rightarrow>
       (users_extra_params \<Rightarrow> infer_result result) \<Rightarrow> result_payload option result" where
  "submit_audio_task_from_file E mk js run =
     bindE (file_extra_params E mk js) (\<lambda>ux.
       http_400 E (bindE (run ux) (\<lambda>r.
         extract_fields_from_result r [RT_CLASSIFICATION, RT_SPEECH_TRANSCRIPTION])))"

definition submit_audio_task_from_url ::
    "backend_env \<Rightarrow> string result \<Rightarrow> (string \<Rightarrow> infer_result result) \<Rightarrow> result_payload option result" where
  "submit_audio_task_from_url E download run =
     http_400 E (extract_fields_from_result (process_image_task E download run)
       [RT_CLASSIFICATION, RT_SPEECH_TRANSCRIPTION])"

text \<open>The body of a tensors request, unpickled: an instance, a dictionary, or something else.\<close>

datatype tensors_body = TbRequest tensors_request | TbDict pydict | TbOther

definition bad_body_msg :: string where
  "bad_body_msg = ''request should be a pickled bytes of NxsTensorsInferRequest instance or a pickled bytes of NxsTensorsInferRequest dict.''"

definition submit_task_tensors ::
    "backend_env \<Rightarrow> (pydict \<Rightarrow> tensors_request result) \<Rightarrow> tensors_body result \<Rightarrow>
       (tensors_request \<Rightarrow> infer_result result) \<Rightarrow> infer_result result" where
  "submit_task_tensors E mk body run =
     bindE body (\<lambda>b. Inr
       (case b of
          TbRequest q \<Rightarrow> guarded E (run q)
        | TbDict d \<Rightarrow> (case mk d of Inl _ \<Rightarrow> failed_answer bad_body_msg | Inr q \<Rightarrow> guarded E (run q))
        | TbOther \<Rightarrow> failed_answer bad_body_msg))"

end
