(* ===== verification/Nxs_Frontend_Props.thy ===== *)
theory Nxs_Frontend_Props
  imports Nxs_Frontend Nxs_Output_Props
begin

section \<open>Properties of the frontend\<close>

text \<open>
  The coroutines and the threads of a frontend interleave; a run is a list of events. The
  properties follow a task from its submission through the backends to its answer, and show
  what the reports to the workload manager count.
\<close>

subsection \<open>Runs of a frontend\<close>

text \<open>
  \<open>Arrived\<close> is one result stored by the receiving thread, \<open>Polled\<close> one round of a waiting
  coroutine. All other steps are \<open>Elsewhere\<close>.
\<close>

datatype fe_event =
    Arrived rat infer_result
  | Cleaned
  | Polled pending_task poll
  | Elsewhere

inductive fe_step ::
    "backend_env \<Rightarrow> ('r, 'k) frontend \<Rightarrow> fe_event \<Rightarrow> ('r, 'k) frontend \<Rightarrow> bool" for E where
  fe_arrived: "fe_step E s (Arrived (be_now E (fe_clock s)) r) (store_result E s r)"
| fe_cleaned: "fe_step E s Cleaned (clean_results E s)"
| fe_polled: "poll_result E t s = (s', out) \<Longrightarrow> fe_step E s (Polled t out) s'"
| fe_single: "submit_single E A db task d p u ux timeout s = (s', r) \<Longrightarrow> fe_step E s Elsewhere s'"
| fe_tensors: "submit_tensors E A db task q s = (s', r) \<Longrightarrow> fe_step E s Elsewhere s'"
| fe_created: "create_session E u js s = Inr (v, s') \<Longrightarrow> fe_step E s Elsewhere s'"
| fe_deleted: "fe_step E s Elsewhere (delete_session u s)"
| fe_backends: "get_monitoring_backend_reports E s = (l, s') \<Longrightarrow> fe_step E s Elsewhere s'"
| fe_scheduler: "get_monitoring_scheduler_report E s = (l', s') \<Longrightarrow> fe_step E s Elsewhere s'"
| fe_reported: "task_monitor_tick E A M s = Inr (M', s') \<Longrightarrow> fe_step E s Elsewhere s'"
| fe_time: "fe_step E s Elsewhere (snd (fe_now E s))"

inductive fe_run ::
    "backend_env \<Rightarrow> ('r, 'k) frontend \<Rightarrow> fe_event list \<Rightarrow> ('r, 'k) frontend \<Rightarrow> bool" for E s0 where
  fe_start: "fe_run E s0 [] s0"
| fe_next: "fe_run E s0 es s \<Longrightarrow> fe_step E s e s' \<Longrightarrow> fe_run E s0 (es @ [e]) s'"

lemma fe_run_trans:
  assumes "fe_run E s1 es' s2" "fe_run E s0 es s1"
  shows "fe_run E s0 (es @ es') s2"
  using assms
proof (induction rule: fe_run.induct)
  case (fe_next es' s e s')
  then show ?case using fe_run.fe_next [of E s0 "es @ es'" s e s'] by simp
qed simp

lemma fe_run_split:
  assumes "fe_run E s0 es s'" "es = as @ bs"
  shows "\<exists>s. fe_run E s0 as s \<and> fe_run E s bs s'"
  using assms
proof (induction arbitrary: bs rule: fe_run.induct)
  case fe_start
  then show ?case by (auto intro: fe_run.intros)
next
  case (fe_next es s e s')
  show ?case
  proof (cases bs rule: rev_cases)
    case Nil
    with fe_next show ?thesis by (auto intro: fe_run.intros)
  next
    case (snoc bs' x)
    with fe_next obtain s1 where "fe_run E s0 as s1" "fe_run E s1 bs' s" by auto
    with fe_next snoc show ?thesis by (auto intro: fe_run.intros)
  qed
qed

lemma fe_run_snoc: "fe_run E s0 (es @ [e]) s' \<Longrightarrow> \<exists>s. fe_run E s0 es s \<and> fe_step E s e s'"
  by (erule fe_run.cases) auto

text \<open>One round of the receiving thread is a run.\<close>

lemma store_results_run:
  "\<exists>ts. length ts = length msgs \<and>
     fe_run E s (map (\<lambda>(t, r). Arrived t r) (zip ts msgs)) (foldl (store_result E) s msgs)"
proof (induction msgs rule: rev_induct)
  case Nil
  then show ?case by (auto intro: fe_run.intros)
next
  case (snoc m msgs)
  then obtain ts where ts: "length ts = length msgs"
    "fe_run E s (map (\<lambda>(t, r). Arrived t r) (zip ts msgs)) (foldl (store_result E) s msgs)" by auto
  let ?t = "be_now E (fe_clock (foldl (store_result E) s msgs))"
  show ?case using fe_run.fe_next [OF ts(2) fe_arrived [of E _ m]] ts(1)
    by (intro exI [of _ "ts @ [?t]"]) simp
qed

lemma recv_results_run:
  "\<exists>ts rest. length ts = length msgs \<and> set rest \<subseteq> {Cleaned, Elsewhere} \<and>
     fe_run E s (map (\<lambda>(t, r). Arrived t r) (zip ts msgs) @ rest) (recv_results E t0 msgs s)"
proof -
  define s1 where "s1 = foldl (store_result E) s msgs"
  obtain ts where ts: "length ts = length msgs"
    "fe_run E s (map (\<lambda>(t, r). Arrived t r) (zip ts msgs)) s1"
    using store_results_run [of msgs E s] unfolding s1_def by blast
  note now = fe_run.fe_next [OF fe_run.fe_start fe_time, of E s1]
  note clean = fe_run.fe_next [OF now fe_cleaned]
  show ?thesis
  proof (cases "be_now E (fe_clock s1) - t0 > 60")
    case True
    then have "recv_results E t0 msgs s = clean_results E (snd (fe_now E s1))"
      by (simp add: recv_results_def s1_def [symmetric] fe_now_def)
    with fe_run_trans [OF clean ts(2)] ts(1) show ?thesis
      by (intro exI [of _ ts] exI [of _ "[Elsewhere, Cleaned]"]) simp
  next
    case False
    then have "recv_results E t0 msgs s = snd (fe_now E s1)"
      by (simp add: recv_results_def s1_def [symmetric] fe_now_def)
    with fe_run_trans [OF now ts(2)] ts(1) show ?thesis
      by (intro exI [of _ ts] exI [of _ "[Elsewhere]"]) simp
  qed
qed

subsection \<open>What the steps leave alone\<close>

definition results_kept :: "('r, 'k) frontend \<Rightarrow> ('r, 'k) frontend \<Rightarrow> bool" where
  "results_kept s s' \<longleftrightarrow> fe_task_result_dict s' = fe_task_result_dict s \<and>
     fe_task_result_t0_dict s' = fe_task_result_t0_dict s \<and> fe_clock s \<le> fe_clock s'"

named_theorems results_kept_intros \<open>the operations that do not touch the results\<close>

lemma results_kept_refl [results_kept_intros]: "results_kept s s"
  by (simp add: results_kept_def)

lemma results_kept_trans: "results_kept s s' \<Longrightarrow> results_kept s' s'' \<Longrightarrow> results_kept s s''"
  by (simp add: results_kept_def)

lemma fe_now_kept [results_kept_intros]: "fe_now E s = (t, s') \<Longrightarrow> results_kept s s'"
  by (auto simp: fe_now_def results_kept_def)

lemma load_backend_infos_kept [results_kept_intros]: "results_kept s (load_backend_infos E s)"
  by (simp add: load_backend_infos_def get_backend_logs_def fe_now_def results_kept_def
      case_prod_unfold Let_def)

lemma load_scheduler_info_kept [results_kept_intros]: "results_kept s (load_scheduler_info E s)"
  by (simp add: load_scheduler_info_def get_scheduler_log_def fe_now_def results_kept_def
      case_prod_unfold Let_def)

lemma enter_task_kept [results_kept_intros]:
  assumes "enter_task E s = (t0, s')" shows "results_kept s s'"
proof -
  obtain t s1 where now: "fe_now E s = (t, s1)" by force
  show ?thesis
    using assms results_kept_trans [OF fe_now_kept [OF now] load_backend_infos_kept [of s1 E]]
      fe_now_kept [OF now]
    by (auto simp: enter_task_def now split: if_splits)
qed

lemma may_wait_kept [results_kept_intros]:
  "may_wait E A t0 p s = (b, s') \<Longrightarrow> results_kept s s'"
  by (auto simp: may_wait_def Let_def intro: results_kept_intros split: if_splits)

lemma get_pipeline_info_cached_kept [results_kept_intros]:
  "get_pipeline_info_cached E db u s = (s', r) \<Longrightarrow> results_kept s s'"
  by (auto simp: get_pipeline_info_cached_def fe_now_def results_kept_def
      split: option.splits sum.splits)

lemma get_session_params_kept [results_kept_intros]:
  "get_session_params u s = (v, s') \<Longrightarrow> results_kept s s'"
  by (auto simp: get_session_params_def results_kept_def case_prod_unfold Let_def
      split: option.splits if_splits)

lemma push_task_kept [results_kept_intros]:
  "push_task E topic u r t s = (s', out) \<Longrightarrow> results_kept s s'"
  by (auto simp: push_task_def results_kept_def split: sum.splits)

lemma task_registered_kept [results_kept_intros]:
  "results_kept s s' \<Longrightarrow> results_kept s (s'\<lparr>fe_tasks_data := d\<rparr>)"
  by (simp add: results_kept_def)

lemma submit_single_kept:
  assumes "submit_single E A db task d pipeline u ux timeout s = (s', r)"
  shows "results_kept s s'"
proof -
  obtain t0 s1 where 1: "enter_task E s = (t0, s1)" by force
  obtain ready s2 where 2: "may_wait E A t0 pipeline s1 = (ready, s2)" by force
  obtain s3 q where 3: "get_pipeline_info_cached E db pipeline s2 = (s3, q)" by force
  define s4 where "s4 = s3\<lparr>fe_tasks_data := fe_tasks_data s3 @ [(pipeline, u)]\<rparr>"
  obtain params s5 where 5: "get_session_params u s4 = (params, s5)" by force
  note k1 = enter_task_kept [OF 1]
  note k2 = results_kept_trans [OF k1 may_wait_kept [OF 2]]
  note k3 = results_kept_trans [OF k2 get_pipeline_info_cached_kept [OF 3]]
  have k4: "results_kept s s4" unfolding s4_def by (rule task_registered_kept [OF k3])
  note k5 = results_kept_trans [OF k4 get_session_params_kept [OF 5]]
  show ?thesis
    using assms k1 k3 k4 k5
    by (auto simp: submit_single_def 1 2 3 s4_def [symmetric] 5 Let_def
        split: if_splits option.splits sum.splits
        dest!: push_task_kept intro: results_kept_trans)
qed

lemma submit_tensors_kept:
  assumes "submit_tensors E A db task q s = (s', r)"
  shows "results_kept s s'"
proof -
  let ?u = "tr_session_uuid q" and ?p = "tr_pipeline_uuid q"
  obtain t0 s1 where 1: "enter_task E s = (t0, s1)" by force
  obtain s3 i where 3: "get_pipeline_info_cached E db ?p s1 = (s3, i)" by force
  define s4 where "s4 = s3\<lparr>fe_tasks_data := fe_tasks_data s3 @ [(?p, ?u)]\<rparr>"
  obtain params s5 where 5: "get_session_params ?u s4 = (params, s5)" by force
  note k1 = enter_task_kept [OF 1]
  note k3 = results_kept_trans [OF k1 get_pipeline_info_cached_kept [OF 3]]
  have k4: "results_kept s s4" unfolding s4_def by (rule task_registered_kept [OF k3])
  note k5 = results_kept_trans [OF k4 get_session_params_kept [OF 5]]
  show ?thesis
    using assms k1 k3 k5
    by (auto simp: submit_tensors_def 1 3 s4_def [symmetric] 5 Let_def
        split: if_splits option.splits sum.splits
        dest!: push_task_kept intro: results_kept_trans)
qed

text \<open>Counting tasks only reads the clock.\<close>

lemma count_task_clock:
  assumes "count_task now ((M, n), new) x = Inr ((M', n'), new')" shows "n \<le> n'"
  using assms by (auto simp: count_task_def Let_def bindE_eq_Inr split: prod.splits if_splits)

lemma count_tasks_clock:
  assumes "foldE (count_task now) ((M, n), new) xs = Inr ((M', n'), new')" shows "n \<le> n'"
  using foldE_invariant [OF assms, where P = "\<lambda>((M, k), new). n \<le> k"]
  by (force dest: count_task_clock)

lemma task_monitor_tick_kept:
  assumes "task_monitor_tick E A M s = Inr (M', s')" shows "results_kept s s'"
  using assms
  by (auto simp: task_monitor_tick_def Let_def bindE_eq_Inr results_kept_def
      dest!: count_tasks_clock split: if_splits)

lemma elsewhere_kept:
  assumes "fe_step E s Elsewhere s'" shows "results_kept s s'"
  using assms
proof (cases rule: fe_step.cases)
  case (fe_created u js v)
  then show ?thesis by (auto simp: create_session_def results_kept_def split: sum.splits)
next
  case (fe_deleted u)
  then show ?thesis by (simp add: delete_session_def results_kept_def)
next
  case (fe_backends l)
  then show ?thesis
    by (auto simp: get_monitoring_backend_reports_def Let_def intro: results_kept_intros)
next
  case (fe_scheduler l)
  then show ?thesis
    by (auto simp: get_monitoring_scheduler_report_def Let_def intro: results_kept_intros)
next
  case fe_time
  then show ?thesis by (simp add: fe_now_def results_kept_def)
qed (auto intro: submit_single_kept submit_tensors_kept task_monitor_tick_kept)

inductive_cases arrivedE: "fe_step E s (Arrived t r) s'"
inductive_cases cleanedE: "fe_step E s Cleaned s'"
inductive_cases polledE: "fe_step E s (Polled t out) s'"

subsection \<open>Every answer is a result for the same task\<close>

lemma poll_result_cases:
  assumes "poll_result E t s = (s', out)"
  obtains (kept) "results_kept s s'" "\<And>a. out \<noteq> Answered a"
  | (answered) r a where "out = Answered a" "map_of (fe_task_result_dict s) (pt_task_uuid t) = Some r"
      "a = r\<lparr>ir_e2e_latency := ir_e2e_latency a, ir_metadata := None\<rparr>"
      "fe_task_result_dict s' = AList.delete (pt_task_uuid t) (fe_task_result_dict s)"
      "fe_task_result_t0_dict s' = fe_task_result_t0_dict s" "fe_clock s \<le> fe_clock s'"
      "be_now E (fe_clock s) - pt_entry_t0 t \<le> pt_timeout t"
proof (cases "be_now E (fe_clock s) - pt_entry_t0 t \<le> pt_timeout t")
  case False
  with assms show ?thesis
    by (intro kept) (auto simp: poll_result_def fe_now_def results_kept_def)
next
  case True
  show ?thesis
  proof (cases "map_of (fe_task_result_dict s) (pt_task_uuid t)")
    case None
    with True assms show ?thesis
      by (intro kept) (auto simp: poll_result_def fe_now_def results_kept_def)
  next
    case (Some r)
    with True assms show ?thesis
      by (intro answered [of _ r]) (auto simp: poll_result_def fe_now_def Let_def)
  qed
qed

definition answers :: "string \<Rightarrow> fe_event \<Rightarrow> bool" where
  "answers u e = (case e of Polled t (Answered a) \<Rightarrow> pt_task_uuid t = u | _ \<Rightarrow> False)"

definition arrives :: "string \<Rightarrow> fe_event \<Rightarrow> bool" where
  "arrives u e = (case e of Arrived t r \<Rightarrow> ir_task_uuid r = u | _ \<Rightarrow> False)"

lemma answers_simps [simp]:
  "answers u (Polled t (Answered a)) \<longleftrightarrow> pt_task_uuid t = u"
  "\<not> answers u (Polled t Waiting)" "\<not> answers u (Polled t (Failed x))"
  "\<not> answers u (Arrived y r)" "\<not> answers u Cleaned" "\<not> answers u Elsewhere"
  by (simp_all add: answers_def)

lemma arrives_simps [simp]:
  "arrives u (Arrived y r) \<longleftrightarrow> ir_task_uuid r = u"
  "\<not> arrives u (Polled t p)" "\<not> arrives u Cleaned" "\<not> arrives u Elsewhere"
  by (simp_all add: arrives_def)

definition arrived :: "fe_event list \<Rightarrow> infer_result list" where
  "arrived es = concat (map (\<lambda>e. case e of Arrived y r \<Rightarrow> [r] | _ \<Rightarrow> []) es)"

lemma arrived_simps [simp]:
  "arrived [] = []" "arrived (es @ es') = arrived es @ arrived es'"
  "arrived (Arrived y r # es) = r # arrived es" "arrived (Cleaned # es) = arrived es"
  "arrived (Polled t p # es) = arrived es" "arrived (Elsewhere # es) = arrived es"
  by (simp_all add: arrived_def)

text \<open>
  What is in the dictionary has arrived under its key and has not been handed out: a result
  that waits and the answers given so far are at most the arrivals.
\<close>

definition results_inv :: "fe_event list \<Rightarrow> ('r, 'k) frontend \<Rightarrow> bool" where
  "results_inv es s \<longleftrightarrow>
     (\<forall>u r. map_of (fe_task_result_dict s) u = Some r \<longrightarrow>
        ir_task_uuid r = u \<and> r \<in> set (arrived es)) \<and>
     (\<forall>u. length (filter (answers u) es) + of_bool (u \<in> set (dkeys (fe_task_result_dict s)))
            \<le> length (filter (arrives u) es))"

lemma results_inv_kept:
  assumes "results_inv es s" "results_kept s s'" "\<And>u. \<not> answers u e"
  shows "results_inv (es @ [e]) s'"
  using assms by (auto simp: results_inv_def results_kept_def add_increasing2 trans_le_add1)

lemma clean_results_submap:
  "map_of (fe_task_result_dict (clean_results E s)) u \<in> {None, map_of (fe_task_result_dict s) u}"
proof -
  let ?P = "\<lambda>s'. map_of (fe_task_result_dict s') u \<in> {None, map_of (fe_task_result_dict s) u}"
  have "?P (foldl forget_result (snd (fe_now E s)) us)" for us
    by (rule foldl_invariant [where P = ?P])
      (auto simp: fe_now_def forget_result_def dict_simps)
  then show ?thesis by (auto simp: clean_results_def fe_now_def)
qed

lemma results_inv_step:
  assumes "fe_step E s e s'" "results_inv es s"
  shows "results_inv (es @ [e]) s'"
proof (cases e)
  case (Arrived y r)
  with assms have e: "e = Arrived y r" "s' = store_result E s r" by (auto elim: arrivedE)
  have "length (filter (answers (ir_task_uuid r)) es) \<le> length (filter (arrives (ir_task_uuid r)) es)"
    using assms(2) by (auto simp: results_inv_def dest: add_leD1)
  with e assms(2) show ?thesis
    by (auto simp: results_inv_def store_result_def fe_now_def dict_simps
        split: if_splits)
next
  case Cleaned
  with assms have e: "s' = clean_results E s" by (auto elim: cleanedE)
  have sub: "map_of (fe_task_result_dict s') u = Some r \<Longrightarrow> map_of (fe_task_result_dict s) u = Some r"
    for u r using clean_results_submap [of E s u] e by auto
  show ?thesis unfolding results_inv_def Cleaned
  proof (intro conjI allI impI)
    fix u r assume "map_of (fe_task_result_dict s') u = Some r"
    from sub [OF this] assms(2)
    show "ir_task_uuid r = u" "r \<in> set (arrived (es @ [Cleaned]))"
      by (auto simp: results_inv_def)
  next
    fix u
    have 1: "of_bool (u \<in> set (dkeys (fe_task_result_dict s'))) \<le>
        (of_bool (u \<in> set (dkeys (fe_task_result_dict s))) :: nat)"
      using sub by (auto simp: in_dkeys_iff)
    have 2: "length (filter (answers u) es) +
        of_bool (u \<in> set (dkeys (fe_task_result_dict s))) \<le> length (filter (arrives u) es)"
      using assms(2) by (simp add: results_inv_def)
    from order_trans [OF add_left_mono [OF 1] 2]
    show "length (filter (answers u) (es @ [Cleaned])) +
        of_bool (u \<in> set (dkeys (fe_task_result_dict s'))) \<le> length (filter (arrives u) (es @ [Cleaned]))"
      by simp
  qed
next
  case (Polled t out)
  with assms have "poll_result E t s = (s', out)" by (auto elim: polledE)
  then show ?thesis
  proof (cases rule: poll_result_cases)
    case kept
    with assms(2) Polled show ?thesis
      by (intro results_inv_kept) (auto simp: answers_def split: poll.splits)
  next
    case (answered r a)
    have "length (filter (answers u) es) + of_bool (u \<in> set (dkeys (fe_task_result_dict s)))
        \<le> length (filter (arrives u) es)" for u
      using assms(2) by (simp add: results_inv_def)
    from this [of "pt_task_uuid t"] answered(2)
    have "Suc (length (filter (answers (pt_task_uuid t)) es))
        \<le> length (filter (arrives (pt_task_uuid t)) es)" by (simp add: dict_simps dom_def)
    with assms(2) Polled answered show ?thesis
      by (auto simp: results_inv_def dict_simps in_dkeys_iff split: if_splits)
  qed
next
  case Elsewhere
  with assms show ?thesis by (intro results_inv_kept) (auto dest: elsewhere_kept)
qed

lemma results_inv_run: "fe_run E s0 es s \<Longrightarrow> results_inv [] s0 \<Longrightarrow> results_inv es s"
  by (induction rule: fe_run.induct) (auto intro: results_inv_step)

lemma results_inv_new: "results_inv [] (new_frontend p kv)"
  by (simp add: results_inv_def new_frontend_def)

lemma answer_arrived:
  assumes "fe_run E (new_frontend p kv) (es @ [Polled t (Answered a)]) s"
  shows "\<exists>r \<in> set (arrived es). ir_task_uuid r = pt_task_uuid t \<and>
    a = r\<lparr>ir_e2e_latency := ir_e2e_latency a, ir_metadata := None\<rparr>"
proof -
  obtain s1 where s1: "fe_run E (new_frontend p kv) es s1" "fe_step E s1 (Polled t (Answered a)) s"
    using fe_run_snoc [OF assms] by blast
  from s1(2) have "poll_result E t s1 = (s, Answered a)" by (rule polledE)
  moreover have "results_inv es s1" using results_inv_run [OF s1(1) results_inv_new] .
  ultimately show ?thesis
    by (elim poll_result_cases) (auto simp: results_inv_def)
qed


subsection \<open>A result that arrived is handed out\<close>

definition touches :: "string \<Rightarrow> fe_event \<Rightarrow> bool" where
  "touches u e = (case e of Arrived y r \<Rightarrow> ir_task_uuid r = u | Polled t out \<Rightarrow> pt_task_uuid t = u
     | _ \<Rightarrow> False)"

definition result_waits :: "string \<Rightarrow> infer_result \<Rightarrow> rat \<Rightarrow> ('r, 'k) frontend \<Rightarrow> bool" where
  "result_waits u r y s \<longleftrightarrow> map_of (fe_task_result_dict s) u = Some r \<and>
     map_of (fe_task_result_t0_dict s) u = Some y"

lemma foldl_forget_result:
  "fe_task_result_dict (foldl forget_result s us) =
     foldl (\<lambda>d u. AList.delete u d) (fe_task_result_dict s) us \<and>
   fe_task_result_t0_dict (foldl forget_result s us) =
     foldl (\<lambda>d u. AList.delete u d) (fe_task_result_t0_dict s) us \<and>
   fe_clock (foldl forget_result s us) = fe_clock s"
  by (induction us arbitrary: s) (auto simp: forget_result_def)

lemma foldl_delete_other:
  "u \<notin> set us \<Longrightarrow> map_of (foldl (\<lambda>d u. AList.delete u d) d us) u = map_of d u"
  by (induction us arbitrary: d) (auto simp: dict_simps)

lemma foldl_delete_ok: "dict_ok d \<Longrightarrow> dict_ok (foldl (\<lambda>d u. AList.delete u d) d us)"
  by (induction us arbitrary: d) auto

lemma fe_step_clock:
  assumes "fe_step E s e s'" shows "fe_clock s \<le> fe_clock s'"
proof (cases e)
  case (Arrived y r)
  with assms show ?thesis by (auto elim!: arrivedE simp: store_result_def fe_now_def)
next
  case Cleaned
  with assms show ?thesis
    by (auto elim!: cleanedE simp: clean_results_def fe_now_def foldl_forget_result)
next
  case (Polled t out)
  with assms have "poll_result E t s = (s', out)" by (auto elim: polledE)
  then show ?thesis by (elim poll_result_cases) (auto simp: results_kept_def)
next
  case Elsewhere
  with assms show ?thesis by (auto dest: elsewhere_kept simp: results_kept_def)
qed

lemma times_ok_step:
  assumes "fe_step E s e s'" "dict_ok (fe_task_result_t0_dict s)"
  shows "dict_ok (fe_task_result_t0_dict s')"
proof (cases e)
  case (Arrived y r)
  with assms show ?thesis by (auto elim!: arrivedE simp: store_result_def fe_now_def)
next
  case Cleaned
  with assms show ?thesis
    by (auto elim!: cleanedE simp: clean_results_def fe_now_def foldl_forget_result foldl_delete_ok)
next
  case (Polled t out)
  with assms have "poll_result E t s = (s', out)" by (auto elim: polledE)
  with assms(2) show ?thesis by (elim poll_result_cases) (auto simp: results_kept_def)
next
  case Elsewhere
  with assms show ?thesis by (auto dest: elsewhere_kept simp: results_kept_def)
qed

lemma result_waits_step:
  assumes "fe_step E s e s'" "result_waits u r y s" "\<not> touches u e"
    "dict_ok (fe_task_result_t0_dict s)" "be_now E (fe_clock s) - y \<le> 180"
  shows "result_waits u r y s'"
proof (cases e)
  case (Arrived y' r')
  with assms(1-3) show ?thesis
    by (auto elim!: arrivedE simp: store_result_def fe_now_def result_waits_def touches_def dict_simps)
next
  case Cleaned
  let ?old = "map fst (filter (\<lambda>(v, t). be_now E (fe_clock s) - t > 3 * 60) (fe_task_result_t0_dict s))"
  have "u \<notin> set ?old"
  proof
    assume "u \<in> set ?old"
    then obtain t where "(u, t) \<in> set (fe_task_result_t0_dict s)" "be_now E (fe_clock s) - t > 180"
      by auto
    with assms(2,4,5) show False
      by (auto simp: result_waits_def dict_ok_def dkeys_def)
  qed
  with Cleaned assms(1,2) show ?thesis
    by (auto elim!: cleanedE simp: clean_results_def fe_now_def foldl_forget_result
        foldl_delete_other result_waits_def)
next
  case (Polled t out)
  with assms have "poll_result E t s = (s', out)" by (auto elim: polledE)
  then show ?thesis using assms(2,3) Polled
    by (elim poll_result_cases)
      (auto simp: results_kept_def result_waits_def touches_def dict_simps)
next
  case Elsewhere
  with assms show ?thesis by (auto dest: elsewhere_kept simp: results_kept_def result_waits_def)
qed

lemma times_ok_run:
  "fe_run E s0 es s \<Longrightarrow> dict_ok (fe_task_result_t0_dict s0) \<Longrightarrow> dict_ok (fe_task_result_t0_dict s)"
  by (induction rule: fe_run.induct) (auto intro: times_ok_step)

lemma fe_run_clock: "fe_run E s0 es s \<Longrightarrow> fe_clock s0 \<le> fe_clock s"
  by (induction rule: fe_run.induct) (auto dest: fe_step_clock)

lemma result_waits_run:
  assumes "fe_run E s0 es s" "result_waits u r y s0" "\<not> list_ex (touches u) es"
    "dict_ok (fe_task_result_t0_dict s0)" "mono (be_now E)" "be_now E (fe_clock s) - y \<le> 180"
  shows "result_waits u r y s"
  using assms
proof (induction rule: fe_run.induct)
  case (fe_next es s e s')
  have "be_now E (fe_clock s) \<le> be_now E (fe_clock s')"
    using fe_next.prems(4) fe_step_clock [OF fe_next.hyps(2)] by (rule monoD)
  with fe_next have y: "be_now E (fe_clock s) - y \<le> 180" by linarith
  have "result_waits u r y s" using fe_next y by simp
  from result_waits_step [OF fe_next.hyps(2) this _ times_ok_run [OF fe_next.hyps(1)] y] fe_next.prems
  show ?case by simp
qed

text \<open>C25: A result that arrived is handed out: as long as it is at most three minutes old and no other result or coroutine uses the task's uuid, the next round of the task's coroutine within its timeout returns it, whatever the frontend did in between, and records the task in the summaries.\<close>

theorem arrived_result_is_delivered:
  assumes run: "fe_run E (new_frontend p kv) (es @ [Arrived y r] @ es') s"
    and quiet: "\<not> list_ex (touches (ir_task_uuid r)) es'"
    and clock: "mono (be_now E)" "be_now E (fe_clock s) - y \<le> 180"
    and task: "pt_task_uuid t = ir_task_uuid r"
      "be_now E (fe_clock s) - pt_entry_t0 t \<le> pt_timeout t"
  shows "\<exists>s' lat. poll_result E t s =
      (s', Answered (r\<lparr>ir_e2e_latency := lat, ir_metadata := None\<rparr>)) \<and>
    fe_tasks_summary_data s' = fe_tasks_summary_data s @
      [(pt_summary t)\<lparr>ts_end_ts := pt_entry_t0 t + lat, ts_e2e_latency := lat\<rparr>]"
proof -
  obtain s1 where s1: "fe_run E (new_frontend p kv) es s1" "fe_run E s1 ([Arrived y r] @ es') s"
    using fe_run_split [OF run refl] by blast
  obtain s2 where s2: "fe_run E s1 [Arrived y r] s2" "fe_run E s2 es' s"
    using fe_run_split [OF s1(2) refl] by blast
  have "fe_step E s1 (Arrived y r) s2"
    using fe_run_snoc [of E s1 "[]"] s2(1) by (auto elim: fe_run.cases)
  then have "result_waits (ir_task_uuid r) r y s2"
    by (auto elim!: arrivedE simp: result_waits_def store_result_def fe_now_def dict_simps)
  moreover have "dict_ok (fe_task_result_t0_dict s2)"
    using times_ok_run [OF fe_run_trans [OF s2(1) s1(1)]]
    by (simp add: new_frontend_def dict_ok_def)
  ultimately have "result_waits (ir_task_uuid r) r y s"
    using result_waits_run [OF s2(2) _ quiet _ clock] by blast
  with task show ?thesis
    by (auto simp: poll_result_def fe_now_def result_waits_def Let_def)
qed

subsection \<open>A task visits the models of its pipeline\<close>

text \<open>
  One stage: the output process of the last component model of a backend sends \<open>msg\<close> for a
  task with the metadata \<open>u\<close>. A journey is a sequence of stages, each started by the request
  of the one before: the topics of these requests, then the topic and the result of the last.
\<close>

definition stage_sends :: "infer_request_metadata \<Rightarrow> string \<times> out_item \<Rightarrow> bool" where
  "stage_sends u msg \<longleftrightarrow> (\<exists>E C data m s s'. \<not> oc_has_next C \<and> tm_user m = u \<and>
     process_output_item E C (data, m) s = Inr s' \<and> op_sent s' = op_sent s @ [msg])"

inductive journey ::
    "infer_request_metadata \<Rightarrow> string list \<Rightarrow> string \<Rightarrow> infer_result \<Rightarrow> bool" where
  journey_end: "stage_sends u (topic, OutResult r) \<Longrightarrow> journey u [] topic r"
| journey_next: "stage_sends u (t, OutRequest q) \<Longrightarrow>
     journey (infer_request_metadata.truncate q) ts topic r \<Longrightarrow> journey u (t # ts) topic r"

lemma stage_sends_outside: "stage_sends u msg \<Longrightarrow> outside_message u msg"
  by (auto simp: stage_sends_def item_message_def dest: process_output_item_sends)

lemma truncate_request_simps [simp]:
  "rm_task_uuid (infer_request_metadata.truncate q) = rm_task_uuid q"
  "rm_session_uuid (infer_request_metadata.truncate q) = rm_session_uuid q"
  "rm_exec_pipelines (infer_request_metadata.truncate q) = rm_exec_pipelines q"
  by (simp_all add: infer_request_metadata.truncate_def)

lemma journey_route:
  assumes "journey u ts topic r"
  shows "rm_exec_pipelines u \<noteq> [] \<and> topic = last (rm_exec_pipelines u) \<and>
    ir_task_uuid r = rm_task_uuid u \<and> length ts < length (rm_exec_pipelines u) \<and>
    ts = map (\<lambda>m. join_key m (rm_session_uuid u)) (take (length ts) (rm_exec_pipelines u)) \<and>
    (ir_status r = COMPLETED \<longrightarrow> Suc (length ts) = length (rm_exec_pipelines u))"
  using assms
proof (induction rule: journey.induct)
  case (journey_end u topic r)
  then show ?case
    by (cases "rm_exec_pipelines u") (auto simp: outside_message_def dest!: stage_sends_outside)
next
  case (journey_next u t q ts topic r)
  then show ?case
    by (cases "rm_exec_pipelines u") (auto simp: outside_message_def dest!: stage_sends_outside)
qed

subsection \<open>What a submitted task pushes\<close>

lemma pusher_kept:
  "enter_task E s = (t0, s1) \<Longrightarrow> fe_pusher s1 = fe_pusher s"
  "may_wait E A t p s = (b, s1) \<Longrightarrow> fe_pusher s1 = fe_pusher s"
  "get_pipeline_info_cached E db p s = (s1, q) \<Longrightarrow> fe_pusher s1 = fe_pusher s"
  "get_session_params u s = (v, s1) \<Longrightarrow>
     fe_pusher s1 = fe_pusher s \<and> fe_pipeline_cache s1 = fe_pipeline_cache s"
  by (auto simp: enter_task_def may_wait_def load_backend_infos_def load_scheduler_info_def
      get_backend_logs_def get_scheduler_log_def get_pipeline_info_cached_def get_session_params_def
      fe_now_def case_prod_unfold Let_def split: if_splits option.splits sum.splits)

lemma get_pipeline_info_cached_Some:
  "get_pipeline_info_cached E db u s = (s', Inr (Some p)) \<Longrightarrow> map_of (fe_pipeline_cache s') u = Some p"
  by (auto simp: get_pipeline_info_cached_def fe_now_def dict_simps
      split: option.splits sum.splits)

lemma submit_single_pushes:
  assumes "submit_single E A db task d pipeline u ux timeout s = (s', Inr t)"
  shows "\<exists>p q params. map_of (fe_pipeline_cache s') pipeline = Some p \<and>
    single_request E A p task u d ux params = Inr q \<and>
    push_to_session (be_now E) (fe_pusher s) (hd (task_route A p)) u q = Inr (fe_pusher s') \<and>
    pt_task_uuid t = task"
proof -
  obtain t0 s1 where 1: "enter_task E s = (t0, s1)" by force
  obtain ready s2 where 2: "may_wait E A t0 pipeline s1 = (ready, s2)" by force
  obtain s3 x where 3: "get_pipeline_info_cached E db pipeline s2 = (s3, x)" by force
  define s4 where "s4 = s3\<lparr>fe_tasks_data := fe_tasks_data s3 @ [(pipeline, u)]\<rparr>"
  obtain params s5 where 5: "get_session_params u s4 = (params, s5)" by force
  from assms obtain p where p: "x = Inr (Some p)"
    by (auto simp: submit_single_def 1 2 3 Let_def split: if_splits option.splits sum.splits)
  obtain q where q: "single_request E A p task u d ux params = Inr q"
    using assms
    by (auto simp: submit_single_def 1 2 3 p Let_def s4_def [symmetric] 5 split: if_splits sum.splits)
  have "map_of (fe_pipeline_cache s5) pipeline = Some p"
    using get_pipeline_info_cached_Some [of E db pipeline s2 s3 p] 3 p pusher_kept(4) [OF 5]
    by (simp add: s4_def)
  moreover have "fe_pusher s5 = fe_pusher s"
    using pusher_kept(1) [OF 1] pusher_kept(2) [OF 2] pusher_kept(3) [OF 3] pusher_kept(4) [OF 5]
    by (simp add: s4_def)
  ultimately show ?thesis
    using assms q
    by (intro exI [of _ p] exI [of _ q] exI [of _ params])
      (auto simp: submit_single_def 1 2 3 p Let_def s4_def [symmetric] 5 push_task_def
        split: if_splits sum.splits)
qed

lemma single_request_fields:
  assumes "single_request E A p task u d ux params = Inr q"
  shows "rm_task_uuid q = task" "rm_session_uuid q = u"
    "rm_exec_pipelines q = tl (task_route A p)"
  using assms by (auto simp: single_request_def bindE_eq_Inr)

text \<open>C26: A submitted task travels along its pipeline: the request goes to the first model, and every sequence of stages that it starts in the backends visits the models of the pipeline in order, each in the queue of the task's session, and ends with a result for this task in the queue of the submitting frontend; when the result is COMPLETED, no model was left out.\<close>

theorem task_visits_pipeline:
  assumes "submit_single E A db task d pipeline u ux timeout s = (s', Inr t)"
  shows "\<exists>p q. map_of (fe_pipeline_cache s') pipeline = Some p \<and>
    push_to_session (be_now E) (fe_pusher s) (hd (task_route A p)) u q = Inr (fe_pusher s') \<and>
    (\<forall>ts topic r. journey (infer_request_metadata.truncate q) ts topic r \<longrightarrow>
       topic = fa_frontend_name A \<and> ir_task_uuid r = pt_task_uuid t \<and>
       join_key (hd (task_route A p)) u # ts =
         map (\<lambda>m. join_key m u) (take (Suc (length ts)) (p_pipeline p)) \<and>
       (ir_status r = COMPLETED \<longrightarrow> Suc (length ts) = length (p_pipeline p)))"
proof -
  obtain p q params where 1: "map_of (fe_pipeline_cache s') pipeline = Some p"
    "single_request E A p task u d ux params = Inr q"
    "push_to_session (be_now E) (fe_pusher s) (hd (task_route A p)) u q = Inr (fe_pusher s')"
    "pt_task_uuid t = task"
    using submit_single_pushes [OF assms] by blast
  note fields = single_request_fields [OF 1(2)]
  have "topic = fa_frontend_name A \<and> ir_task_uuid r = pt_task_uuid t \<and>
      join_key (hd (task_route A p)) u # ts =
        map (\<lambda>m. join_key m u) (take (Suc (length ts)) (p_pipeline p)) \<and>
      (ir_status r = COMPLETED \<longrightarrow> Suc (length ts) = length (p_pipeline p))"
    if "journey (infer_request_metadata.truncate q) ts topic r" for ts topic r
    using journey_route [OF that] fields 1(4)
    by (cases "p_pipeline p") (auto simp: task_route_def)
  with 1(1,3) show ?thesis by blast
qed

subsection \<open>A concrete frontend\<close>

definition fresh_client :: "('v sample_store, 'v) redis_client" where
  "fresh_client = \<lparr>rc_ops = sample_redis, rc_store = (\<lambda>_. None, \<lambda>_. []), rc_faults = []\<rparr>"

definition sample_served :: nxs_pipeline_info where
  "sample_served =
     (let c = sample_cmodel ''a'' 10 6;
          d = sample_desc\<lparr>md_inputs := [\<lparr>mi_name = ''x'', mi_shape = [1, 3], mi_dtype = TT_FLOAT32,
                mi_dclass = None, mi_norm = None\<rparr>]\<rparr>;
          m = (sample_model ''a'' 10 6)\<lparr>bm_model_desc := d\<rparr>
      in sample_pipeline ''p'' [c\<lparr>cm_component_models := [m]\<rparr>, sample_cmodel ''b'' 10 6])"

definition sample_frontend ::
    "(infer_request queue_value sample_store, frontend_value sample_store) frontend" where
  "sample_frontend = (new_frontend (new_pusher fresh_client) fresh_client)
     \<lparr>fe_pipeline_cache := [(''p'', sample_served)],
      fe_backend_infos := [\<lparr>bl_backend_name = ''x'', bl_backend_type = BT_GPU, bl_model_logs = []\<rparr>]\<rparr>"

definition sample_frontend_args :: frontend_args where
  "sample_frontend_args = \<lparr>fa_frontend_name = ''f'', fa_api_key = '''', fa_wait_for_models = True,
     fa_workload_report_period_secs = 1, fa_model_caching_timeout_secs = 1\<rparr>"

definition sample_submission where
  "sample_submission = submit_single sample_backend_env sample_frontend_args sample_db ''task''
     (BytesData ''img'') ''p'' ''sess'' \<lparr>ux_preproc = [], ux_transform = [], ux_postproc = []\<rparr> 10
     sample_frontend"

lemmas frontend_defs = new_frontend_def fe_now_def enter_task_def may_wait_def push_task_def
  get_pipeline_info_cached_def get_session_params_def single_request_def first_input_def
  first_item_def new_summary_def task_route_def

lemmas pushing_defs = push_to_session_def push_def refresh_partitions_def
  get_topic_num_partitions_def get_with_retry.simps push_with_retry.simps call_def dlookup_def

lemma sample_submission_succeeds:
  "\<exists>s' t. sample_submission = (s', Inr t) \<and> pt_task_uuid t = ''task''"
  by (simp add: sample_submission_def submit_single_def sample_frontend_def frontend_defs
      pushing_defs Let_def sample_backend_env_def sample_frontend_args_def fresh_client_def
      new_pusher_def sample_redis_def get_value_def str_dict_def dict_simps sample_served_def
      sample_pipeline_def sample_cmodel_def sample_model_def sample_desc_def)

theorem task_visits_pipeline_witness:
  "\<exists>s' t p q. sample_submission = (s', Inr t) \<and>
    map_of (fe_pipeline_cache s') ''p'' = Some p \<and>
    push_to_session (be_now sample_backend_env) (fe_pusher sample_frontend)
      (hd (task_route sample_frontend_args p)) ''sess'' q = Inr (fe_pusher s') \<and>
    (\<forall>ts topic r. journey (infer_request_metadata.truncate q) ts topic r \<longrightarrow> topic = ''f'')"
proof -
  obtain s' t where st: "sample_submission = (s', Inr t)" using sample_submission_succeeds by blast
  from task_visits_pipeline [OF st [unfolded sample_submission_def]] obtain p q where
    "map_of (fe_pipeline_cache s') ''p'' = Some p"
    "push_to_session (be_now sample_backend_env) (fe_pusher sample_frontend)
      (hd (task_route sample_frontend_args p)) ''sess'' q = Inr (fe_pusher s')"
    "\<forall>ts topic r. journey (infer_request_metadata.truncate q) ts topic r \<longrightarrow>
       topic = fa_frontend_name sample_frontend_args"
    by blast
  with st show ?thesis
    by (intro exI [of _ s'] exI [of _ t] exI [of _ p] exI [of _ q])
      (simp add: sample_frontend_args_def)
qed

text \<open>A stage can end a task: the last model answers the frontend.\<close>

lemma journey_example: "\<exists>topic r. journey (tm_user (sample_task ''-'' [''f''])) [] topic r \<and> topic = ''f''"
proof -
  have "\<exists>s' r. process_output_item sample_backend_env sample_output
      (PyDict [(PyStr ''x'', PyInt 1)], sample_task ''-'' [''f'']) sample_output_state = Inr s' \<and>
    op_sent s' = op_sent sample_output_state @ [(''f'', OutResult r)]"
    by (simp add: output_step_defs sample_output_defs Let_def put_out_def typed_result_def)
  then obtain r where "stage_sends (tm_user (sample_task ''-'' [''f''])) (''f'', OutResult r)"
    unfolding stage_sends_def by (force simp: sample_output_def)
  then show ?thesis by (blast intro: journey_end)
qed

definition sample_result :: infer_result where
  "sample_result = \<lparr>ir_type = RT_CUSTOM, ir_status = COMPLETED, ir_task_uuid = ''task'',
     ir_error_msgs = [], ir_payload = Custom ''done'', ir_e2e_latency = 0, ir_metadata = None\<rparr>"

definition sample_pending :: pending_task where
  "sample_pending = \<lparr>pt_task_uuid = ''task'', pt_entry_t0 = 0, pt_timeout = 10,
     pt_summary = new_summary ''p'' ''sess'' ''task'' 0\<rparr>"

abbreviation idle_frontend ::
    "(infer_request queue_value sample_store, frontend_value sample_store) frontend" where
  "idle_frontend \<equiv> new_frontend (new_pusher fresh_client) fresh_client"

lemma sample_arrival:
  "fe_run sample_backend_env idle_frontend ([] @ [Arrived 0 sample_result] @ [Elsewhere])
     (snd (fe_now sample_backend_env (store_result sample_backend_env idle_frontend sample_result)))"
proof -
  have "Arrived 0 sample_result =
      Arrived (be_now sample_backend_env (fe_clock idle_frontend)) sample_result"
    by (simp add: sample_backend_env_def new_frontend_def)
  then show ?thesis
    using fe_run.fe_next [OF fe_run.fe_next [OF fe_run.fe_start fe_arrived] fe_time,
        of sample_backend_env idle_frontend sample_result] by simp
qed

theorem arrived_result_is_delivered_witness:
  "\<exists>s s' lat. fe_run sample_backend_env idle_frontend [Arrived 0 sample_result, Elsewhere] s \<and>
     poll_result sample_backend_env sample_pending s =
       (s', Answered (sample_result\<lparr>ir_e2e_latency := lat, ir_metadata := None\<rparr>))"
proof -
  let ?s = "snd (fe_now sample_backend_env
    (store_result sample_backend_env idle_frontend sample_result))"
  have clock: "be_now sample_backend_env (fe_clock ?s) = 2"
    by (simp add: sample_backend_env_def store_result_def new_frontend_def fe_now_def)
  have "mono (be_now sample_backend_env)" by (simp add: sample_backend_env_def mono_def)
  from arrived_result_is_delivered [OF sample_arrival _ this, of sample_pending] clock
  obtain s' lat where "poll_result sample_backend_env sample_pending ?s =
      (s', Answered (sample_result\<lparr>ir_e2e_latency := lat, ir_metadata := None\<rparr>))"
    by (auto simp: touches_def sample_pending_def sample_result_def)
  with sample_arrival show ?thesis by fastforce
qed

lemma sample_answer:
  "\<exists>s a. fe_run sample_backend_env idle_frontend
     ([Arrived 0 sample_result, Elsewhere] @ [Polled sample_pending (Answered a)] @ []) s"
proof -
  let ?s = "snd (fe_now sample_backend_env
    (store_result sample_backend_env idle_frontend sample_result))"
  obtain s' a where "poll_result sample_backend_env sample_pending ?s = (s', Answered a)"
    by (auto simp: poll_result_def store_result_def fe_now_def sample_pending_def sample_result_def
        new_frontend_def sample_backend_env_def Let_def)
  from fe_run.fe_next [OF sample_arrival fe_polled [OF this]] show ?thesis by force
qed


end
