(* ===== verification/Nxs_Frontend_Reports.thy ===== *)
theory Nxs_Frontend_Reports
  imports Nxs_Frontend_Props
begin

section \<open>What a frontend reports and remembers\<close>

text \<open>
  The thread that reports workloads keeps four dictionaries with the same keys, so it never
  raises, and its reports count every task of the sessions it still knows. Sessions are
  forgotten by the time of their first task. Sessions' parameters are never found again.
\<close>

subsection \<open>The four dictionaries\<close>

definition task_keys :: "(string \<times> string) list \<Rightarrow> string list" where
  "task_keys tasks = map (\<lambda>(p, u). join_key p u) tasks"

lemma task_keys_simps [simp]:
  "task_keys [] = []" "task_keys ((p, u) # xs) = join_key p u # task_keys xs"
  "task_keys (xs @ ys) = task_keys xs @ task_keys ys"
  by (simp_all add: task_keys_def)

definition monitor_keys :: "task_monitor \<Rightarrow> string set" where
  "monitor_keys M = dom (map_of (tk_task_dict M))"

definition report_key :: "workload_report \<Rightarrow> string" where
  "report_key w = join_key (wr_pipeline_uuid w) (wr_session_uuid w)"

definition well_named :: "(string, workload_report) dict \<Rightarrow> bool" where
  "well_named d \<longleftrightarrow> list_all (\<lambda>(k, w). report_key w = k) d"

lemma well_named_update: "well_named d \<Longrightarrow> report_key w = k \<Longrightarrow> well_named (AList.update k w d)"
  by (induction d) (auto simp: well_named_def)

lemma well_named_delete: "well_named d \<Longrightarrow> well_named (AList.delete k d)"
  by (induction d) (auto simp: well_named_def)

definition monitor_ok :: "task_monitor \<Rightarrow> bool" where
  "monitor_ok M \<longleftrightarrow>
     dict_ok (tk_task_dict M) \<and> dict_ok (tk_task_ts0_dict M) \<and> dict_ok (tk_task_fps_dict M) \<and>
     dom (map_of (tk_task_ts_dict M)) = monitor_keys M \<and>
     dom (map_of (tk_task_ts0_dict M)) = monitor_keys M \<and>
     dom (map_of (tk_task_fps_dict M)) = monitor_keys M \<and>
     well_named (tk_task_dict M)"

definition task_count :: "task_monitor \<Rightarrow> string \<Rightarrow> nat" where
  "task_count M k = dget (tk_task_fps_dict M) k 0"

lemma monitor_ok_new: "monitor_ok (new_task_monitor t0)"
  by (simp add: monitor_ok_def new_task_monitor_def monitor_keys_def dict_ok_def well_named_def)

subsection \<open>Counting\<close>

text \<open>What the loop over \<open>tasks_data\<close> has done after the tasks \<open>xs\<close>.\<close>

definition counted ::
    "task_monitor \<Rightarrow> (string \<times> string) list \<Rightarrow> task_monitor \<Rightarrow> bool \<Rightarrow> bool" where
  "counted M xs M' new \<longleftrightarrow> monitor_ok M' \<and>
     monitor_keys M' = monitor_keys M \<union> set (task_keys xs) \<and>
     (\<forall>k. task_count M' k = task_count M k + count_list (task_keys xs) k) \<and>
     (\<forall>k \<in> monitor_keys M. map_of (tk_task_ts0_dict M') k = map_of (tk_task_ts0_dict M) k) \<and>
     tk_sent M' = tk_sent M \<and> tk_t0 M' = tk_t0 M \<and>
     (new \<longleftrightarrow> \<not> set (task_keys xs) \<subseteq> monitor_keys M)"

declare dget_update [simp]

lemma counted_step:
  assumes "counted M xs M1 new" "monitor_ok M2"
    and keys: "monitor_keys M2 = insert k (monitor_keys M1)"
    and counts: "\<And>j. task_count M2 j = task_count M1 j + (if j = k then 1 else 0)"
    and times: "\<And>j. j \<in> monitor_keys M1 \<Longrightarrow>
      map_of (tk_task_ts0_dict M2) j = map_of (tk_task_ts0_dict M1) j"
    and same: "tk_sent M2 = tk_sent M1" "tk_t0 M2 = tk_t0 M1"
    and new2: "new2 \<longleftrightarrow> new \<or> k \<notin> monitor_keys M1" and k: "k = join_key p u"
  shows "counted M (xs @ [(p, u)]) M2 new2"
proof -
  have 1: "monitor_keys M1 = monitor_keys M \<union> set (task_keys xs)"
    "\<And>j. task_count M1 j = task_count M j + count_list (task_keys xs) j"
    "\<And>j. j \<in> monitor_keys M \<Longrightarrow> map_of (tk_task_ts0_dict M1) j = map_of (tk_task_ts0_dict M) j"
    "tk_sent M1 = tk_sent M" "tk_t0 M1 = tk_t0 M" "new \<longleftrightarrow> \<not> set (task_keys xs) \<subseteq> monitor_keys M"
    using assms(1) unfolding counted_def by blast+
  have "task_count M2 j = task_count M j + count_list (task_keys xs @ [k]) j" for j
    by (simp add: counts 1(2))
  moreover have "map_of (tk_task_ts0_dict M2) j = map_of (tk_task_ts0_dict M) j"
    if "j \<in> monitor_keys M" for j using times [of j] 1(1,3) that by simp
  moreover have "new2 \<longleftrightarrow> \<not> set (task_keys xs @ [k]) \<subseteq> monitor_keys M"
    using new2 1(1,6) by auto
  ultimately show ?thesis
    using assms(2) keys 1 same unfolding counted_def by (simp add: k [symmetric])
qed

lemma count_task_counts:
  assumes "counted M xs M1 new"
  shows "\<exists>M2 n2 new2. count_task now ((M1, n), new) (p, u) = Inr ((M2, n2), new2) \<and>
    counted M (xs @ [(p, u)]) M2 new2"
proof -
  let ?k = "join_key p u"
  have ok: "monitor_ok M1" using assms by (simp add: counted_def)
  show ?thesis
  proof (cases "?k \<in> monitor_keys M1")
    case True
    with ok have "?k \<in> dom (map_of (tk_task_fps_dict M1))" by (simp add: monitor_ok_def)
    then obtain c where c: "map_of (tk_task_fps_dict M1) ?k = Some c" by blast
    let ?M2 = "M1\<lparr>tk_task_fps_dict := AList.update ?k (c + 1) (tk_task_fps_dict M1),
      tk_task_ts_dict := AList.update ?k (now n) (tk_task_ts_dict M1)\<rparr>"
    have "count_task now ((M1, n), new) (p, u) = Inr ((?M2, n + 1), new)"
      using True c by (simp add: count_task_def monitor_keys_def Let_def dlookup_def set_dkeys)
    moreover have "counted M (xs @ [(p, u)]) ?M2 new"
    proof (rule counted_step [OF assms])
      have keys: "monitor_keys ?M2 = monitor_keys M1" by (simp add: monitor_keys_def)
      then show "monitor_keys ?M2 = insert ?k (monitor_keys M1)" using True by blast
      show "monitor_ok ?M2"
        using ok insert_absorb [OF True] unfolding monitor_ok_def keys by (simp add: map_of_update)
      have "dget (tk_task_fps_dict M1) ?k 0 = c" using c by (simp add: dget_def)
      then show "task_count ?M2 j = task_count M1 j + (if j = ?k then 1 else 0)" for j
        unfolding task_count_def by (cases "j = ?k") simp_all
    qed (use True in simp_all)
    ultimately show ?thesis by blast
  next
    case False
    then have no: "map_of (tk_task_fps_dict M1) ?k = None" "map_of (tk_task_dict M1) ?k = None"
      "map_of (tk_task_ts0_dict M1) ?k = None"
      using ok by (auto simp: monitor_ok_def monitor_keys_def)
    let ?M2 = "M1\<lparr>tk_task_dict := AList.update ?k \<lparr>wr_pipeline_uuid = p, wr_session_uuid = u,
                      wr_fps = 0, wr_metadata = ''{}''\<rparr> (tk_task_dict M1),
        tk_task_ts0_dict := AList.update ?k (now n) (tk_task_ts0_dict M1),
        tk_task_fps_dict := AList.update ?k 1 (AList.update ?k 0 (tk_task_fps_dict M1)),
        tk_task_ts_dict := AList.update ?k (now (n + 1)) (tk_task_ts_dict M1)\<rparr>"
    have "count_task now ((M1, n), new) (p, u) = Inr ((?M2, n + 2), True)"
      using False by (simp add: count_task_def monitor_keys_def Let_def dlookup_def dict_simps)
    moreover have "counted M (xs @ [(p, u)]) ?M2 True"
    proof (rule counted_step [OF assms])
      show keys: "monitor_keys ?M2 = insert ?k (monitor_keys M1)"
        by (simp add: monitor_keys_def map_of_update)
      show "monitor_ok ?M2"
        using ok unfolding monitor_ok_def keys
        by (simp add: map_of_update well_named_update report_key_def)
      have "dget (tk_task_fps_dict M1) ?k 0 = 0" using no by (simp add: dget_def)
      then show "task_count ?M2 j = task_count M1 j + (if j = ?k then 1 else 0)" for j
        unfolding task_count_def by (cases "j = ?k") simp_all
      show "map_of (tk_task_ts0_dict ?M2) j = map_of (tk_task_ts0_dict M1) j"
        if "j \<in> monitor_keys M1" for j using that False by (auto simp: map_of_update)
    qed (use False in simp_all)
    ultimately show ?thesis by blast
  qed
qed

lemma count_tasks_count:
  assumes "monitor_ok M"
  shows "\<exists>M' n' new. foldE (count_task now) ((M, n), False) tasks = Inr ((M', n'), new) \<and>
    counted M tasks M' new"
proof -
  define P where "P xs r = counted M xs (fst (fst r)) (snd r)" for xs and r :: "(task_monitor \<times> nat) \<times> bool"
  have "\<exists>r. foldE (count_task now) ((M, n), False) tasks = Inr r \<and> P tasks r"
  proof (rule foldE_prefix_total)
    show "P [] ((M, n), False)" using assms by (simp add: P_def counted_def)
  next
    fix xs x zs s
    assume "P xs s"
    then show "\<exists>s'. count_task now s x = Inr s' \<and> P (xs @ [x]) s'"
      using count_task_counts [of M xs "fst (fst s)" "snd s" now "snd (fst s)" "fst x" "snd x"]
      by (auto simp: P_def)
  qed
  then show ?thesis by (auto simp: P_def)
qed

subsection \<open>Forgetting\<close>

definition cleaned :: "task_monitor \<Rightarrow> string list \<Rightarrow> task_monitor \<Rightarrow> bool" where
  "cleaned M ks M' \<longleftrightarrow> monitor_ok M' \<and> monitor_keys M' = monitor_keys M - set ks \<and>
     (\<forall>k \<in> monitor_keys M'. task_count M' k = task_count M k) \<and>
     tk_sent M' = tk_sent M \<and> tk_t0 M' = tk_t0 M"

lemma clean_key_cleans:
  assumes "cleaned M ks M1" "k \<in> monitor_keys M" "k \<notin> set ks"
  shows "\<exists>M2. clean_key M1 k = Inr M2 \<and> cleaned M (ks @ [k]) M2"
proof -
  from assms have k: "k \<in> monitor_keys M1" and ok: "monitor_ok M1"
    by (auto simp: cleaned_def)
  then have "k \<in> dom (map_of (tk_task_dict M1))" "k \<in> dom (map_of (tk_task_ts_dict M1))"
    "k \<in> dom (map_of (tk_task_ts0_dict M1))" "k \<in> dom (map_of (tk_task_fps_dict M1))"
    by (simp_all add: monitor_ok_def monitor_keys_def)
  then have "clean_key M1 k = Inr (M1\<lparr>tk_task_dict := AList.delete k (tk_task_dict M1),
      tk_task_ts_dict := AList.delete k (tk_task_ts_dict M1),
      tk_task_ts0_dict := AList.delete k (tk_task_ts0_dict M1),
      tk_task_fps_dict := AList.delete k (tk_task_fps_dict M1)\<rparr>)"
    by (auto simp: clean_key_def dpop_def dlookup_def)
  with assms(1) ok show ?thesis
    by (auto simp: cleaned_def monitor_ok_def monitor_keys_def task_count_def dict_simps dget_def
        intro: well_named_delete)
qed

lemma clean_keys_clean:
  assumes "monitor_ok M" "set ks \<subseteq> monitor_keys M" "distinct ks"
  shows "\<exists>M'. foldE clean_key M ks = Inr M' \<and> cleaned M ks M'"
proof (rule foldE_prefix_total)
  show "cleaned M [] M" using assms(1) by (simp add: cleaned_def)
next
  fix ys k zs s
  assume "ks = ys @ k # zs" "cleaned M ys s"
  with assms show "\<exists>s'. clean_key s k = Inr s' \<and> cleaned M (ys @ [k]) s'"
    by (intro clean_key_cleans) auto
qed

lemma keys_to_clean_ok:
  assumes "monitor_ok M"
  shows "set (keys_to_clean timeout cur M) \<subseteq> monitor_keys M" "distinct (keys_to_clean timeout cur M)"
proof -
  have "set (keys_to_clean timeout cur M) \<subseteq> dom (map_of (tk_task_ts0_dict M))"
    by (auto simp: keys_to_clean_def dom_map_of_conv_image_fst)
  with assms show "set (keys_to_clean timeout cur M) \<subseteq> monitor_keys M" by (simp add: monitor_ok_def)
  have "distinct (map fst (tk_task_ts0_dict M))"
    using assms by (simp add: monitor_ok_def dict_ok_def dkeys_def)
  then show "distinct (keys_to_clean timeout cur M)"
    by (simp add: keys_to_clean_def distinct_map_filter)
qed

lemma keys_to_clean_iff:
  assumes "monitor_ok M"
  shows "k \<in> set (keys_to_clean timeout cur M) \<longleftrightarrow>
    (\<exists>t0. map_of (tk_task_ts0_dict M) k = Some t0 \<and> cur - t0 > timeout)"
  using assms by (auto simp: keys_to_clean_def monitor_ok_def dict_ok_mem_iff
      intro!: image_eqI [where x = "(k, _)"] simp: image_iff)

subsection \<open>Reporting\<close>

definition reported :: "frontend_args \<Rightarrow> workload_report list \<Rightarrow> nxs_msg list" where
  "reported A rs = (if rs = [] then [] else [MsgReportInputWorkloads
     \<lparr>fw_frontend_name = fa_frontend_name A, fw_workload_reports = rs, fw_metadata = ''{}''\<rparr>])"

lemma workloads_total:
  assumes "monitor_ok M"
  shows "mapE (workload_of M) (tk_task_dict M) = Inr (map (\<lambda>(k, w).
    if task_count M k > 0 then Some (w\<lparr>wr_fps := of_nat (task_count M k)\<rparr>) else None) (tk_task_dict M))"
proof -
  have "workload_of M (k, w) = Inr (if task_count M k > 0
      then Some (w\<lparr>wr_fps := of_nat (task_count M k)\<rparr>) else None)"
    if "(k, w) \<in> set (tk_task_dict M)" for k w
  proof -
    have "k \<in> dom (map_of (tk_task_dict M))"
      using that by (auto simp: dom_map_of_conv_image_fst intro: rev_image_eqI)
    with assms have "k \<in> dom (map_of (tk_task_fps_dict M))"
      by (simp add: monitor_ok_def monitor_keys_def)
    then show ?thesis by (auto simp: workload_of_def dlookup_def task_count_def dget_def)
  qed
  then have "\<forall>x \<in> set (tk_task_dict M). workload_of M x = Inr (case x of (k, w) \<Rightarrow>
      if task_count M k > 0 then Some (w\<lparr>wr_fps := of_nat (task_count M k)\<rparr>) else None)"
    by auto
  then show ?thesis
    by (simp add: mapE_eq_Inr list_all2_conv_all_nth)
qed

lemma report_tasks_reports:
  assumes "monitor_ok M"
  shows "\<exists>M' sent rs. report_tasks A M = Inr (M', sent) \<and> monitor_ok M' \<and>
    monitor_keys M' = monitor_keys M \<and> (\<forall>k. task_count M' k = 0) \<and>
    tk_sent M' = tk_sent M @ reported A rs \<and> distinct (map report_key rs) \<and>
    (\<lambda>w. (report_key w, wr_fps w)) ` set rs =
      {(k, of_nat (task_count M k)) |k. k \<in> monitor_keys M \<and> task_count M k > 0}"
proof -
  let ?c = "task_count M"
  let ?with = "\<lambda>k w. w\<lparr>wr_fps := of_nat (?c k)\<rparr>"
  define d where "d = tk_task_dict M"
  define rs where "rs = map (\<lambda>(k, w). ?with k w) (filter (\<lambda>(k, w). ?c k > 0) d)"
  define M' where "M' = M\<lparr>tk_task_dict := map (\<lambda>(k, w). (k, if ?c k > 0 then ?with k w else w)) d,
    tk_task_fps_dict := map (\<lambda>(k, c). (k, 0)) (tk_task_fps_dict M),
    tk_sent := tk_sent M @ reported A rs\<rparr>"
  have key: "report_key w = k" if "(k, w) \<in> set d" for k w
    using assms that by (auto simp: monitor_ok_def well_named_def d_def list_all_iff)
  have "List.map_filter id (map (\<lambda>(k, w). if ?c k > 0 then Some (?with k w) else None) d) = rs"
    unfolding rs_def by (induction d) (auto simp: List.map_filter_simps)
  moreover have "map (\<lambda>((k, w), r). (k, case r of None \<Rightarrow> w | Some r \<Rightarrow> r))
      (zip d (map (\<lambda>(k, w). if ?c k > 0 then Some (?with k w) else None) d)) =
      map (\<lambda>(k, w). (k, if ?c k > 0 then ?with k w else w)) d"
    by (induction d) auto
  ultimately have rep: "\<exists>sent. report_tasks A M = Inr (M', sent)"
    using workloads_total [OF assms]
    by (auto simp: report_tasks_def M'_def reported_def d_def [symmetric])
  have fsts: "map fst (tk_task_dict M') = map fst d"
    "map fst (tk_task_fps_dict M') = map fst (tk_task_fps_dict M)"
    by (simp_all add: M'_def case_prod_unfold comp_def)
  then have keys: "monitor_keys M' = monitor_keys M"
    "dom (map_of (tk_task_fps_dict M')) = dom (map_of (tk_task_fps_dict M))"
    by (simp_all add: monitor_keys_def d_def dom_map_of_conv_image_fst flip: set_map)
  have same: "tk_task_ts_dict M' = tk_task_ts_dict M" "tk_task_ts0_dict M' = tk_task_ts0_dict M"
    by (simp_all add: M'_def)
  have rk: "report_key (?with k w) = report_key w" for k w by (simp add: report_key_def)
  have named: "well_named (tk_task_dict M')"
    using key by (auto simp: M'_def well_named_def list_all_iff rk)
  have ok: "monitor_ok M'"
    using assms fsts keys same named unfolding monitor_ok_def dict_ok_def dkeys_def
    by (simp add: d_def)
  have zero: "task_count M' k = 0" for k
    by (auto simp: task_count_def M'_def dget_def dest!: map_of_SomeD split: option.splits)
  have "map report_key rs = map fst (filter (\<lambda>(k, w). ?c k > 0) d)"
    using key by (auto simp: rs_def rk)
  moreover have "distinct (map fst d)"
    using assms by (simp add: monitor_ok_def dict_ok_def dkeys_def d_def)
  ultimately have dist: "distinct (map report_key rs)" by (simp add: distinct_map_filter)
  have "map (\<lambda>w. (report_key w, wr_fps w)) rs =
      map (\<lambda>(k, w). (k, of_nat (?c k))) (filter (\<lambda>(k, w). ?c k > 0) d)"
    using key by (auto simp: rs_def rk)
  then have "(\<lambda>w. (report_key w, wr_fps w)) ` set rs =
      (\<lambda>(k, w). (k, of_nat (?c k))) ` set (filter (\<lambda>(k, w). ?c k > 0) d)"
    by (metis (no_types) set_map)
  also have "\<dots> = {(k, of_nat (?c k)) |k. k \<in> fst ` set d \<and> ?c k > 0}"
    by (auto simp: image_iff) (force intro: rev_image_eqI)+
  finally have img: "(\<lambda>w. (report_key w, wr_fps w)) ` set rs =
      {(k, of_nat (?c k)) |k. k \<in> monitor_keys M \<and> ?c k > 0}"
    by (simp add: monitor_keys_def d_def dom_map_of_conv_image_fst)
  have sent: "tk_sent M' = tk_sent M @ reported A rs" by (simp add: M'_def)
  from rep ok keys(1) zero dist img sent show ?thesis by blast
qed

subsection \<open>One round of the thread\<close>

definition tick_count :: "task_monitor \<Rightarrow> ('r, 'k) frontend \<Rightarrow> string \<Rightarrow> nat" where
  "tick_count M s k = task_count M k + count_list (task_keys (fe_tasks_data s)) k"

text \<open>The report \<open>rs\<close> is exact: every known session with tasks, once, with its number of tasks.\<close>

definition exact_report ::
    "task_monitor \<Rightarrow> ('r, 'k) frontend \<Rightarrow> task_monitor \<Rightarrow> workload_report list \<Rightarrow> bool" where
  "exact_report M s M' rs \<longleftrightarrow> distinct (map report_key rs) \<and>
     (\<lambda>w. (report_key w, wr_fps w)) ` set rs =
       {(k, of_nat (tick_count M s k)) |k. k \<in> monitor_keys M' \<and> tick_count M s k > 0}"

lemma tick_outcome:
  assumes "monitor_ok M"
  obtains (quiet) M' s' n where "task_monitor_tick E A M s = Inr (M', s')"
      "counted M (fe_tasks_data s) M' False" "fe_tasks_data s' = []" "fe_clock s \<le> n"
      "be_now E n - tk_t0 M \<le> fa_workload_report_period_secs A"
  | (report) M1 M' s' n rs new where "task_monitor_tick E A M s = Inr (M', s')"
      "counted M (fe_tasks_data s) M1 new" "fe_tasks_data s' = []" "fe_clock s \<le> n" "monitor_ok M'"
      "monitor_keys M' =
         monitor_keys M1 - set (keys_to_clean (fa_model_caching_timeout_secs A) (be_now E n) M1)"
      "\<And>k. task_count M' k = 0" "tk_sent M' = tk_sent M @ reported A rs" "exact_report M s M' rs"
proof -
  obtain M1 n1 new where loop: "foldE (count_task (be_now E)) ((M, fe_clock s), False) (fe_tasks_data s)
      = Inr ((M1, n1), new)" and c: "counted M (fe_tasks_data s) M1 new"
    using count_tasks_count [OF assms, of "be_now E" "fe_clock s" "fe_tasks_data s"] by blast
  have n1: "fe_clock s \<le> n1"
    using foldE_invariant [OF loop, where P = "\<lambda>r. fe_clock s \<le> snd (fst r)"]
    by (force simp: count_task_def Let_def bindE_eq_Inr split: prod.splits if_splits)
  have ok1: "monitor_ok M1" and t0: "tk_t0 M1 = tk_t0 M" using c by (simp_all add: counted_def)
  show ?thesis
  proof (cases "new \<or> be_now E n1 - tk_t0 M > fa_workload_report_period_secs A")
    case False
    with c show ?thesis
      by (intro quiet [of M1 "s\<lparr>fe_tasks_data := [], fe_clock := n1 + 1\<rparr>" n1])
        (auto simp: task_monitor_tick_def loop n1 counted_def)
  next
    case True
    define n where "n = (if new then n1 else n1 + 1)"
    let ?ks = "keys_to_clean (fa_model_caching_timeout_secs A) (be_now E n) M1"
    obtain M2 where M2: "foldE clean_key M1 ?ks = Inr M2" "cleaned M1 ?ks M2"
      using clean_keys_clean [OF ok1 keys_to_clean_ok [OF ok1]] by blast
    then have ok2: "monitor_ok M2" by (simp add: cleaned_def)
    obtain M3 sent rs where M3: "report_tasks A M2 = Inr (M3, sent)" "monitor_ok M3"
      "monitor_keys M3 = monitor_keys M2" "\<And>k. task_count M3 k = 0"
      "tk_sent M3 = tk_sent M2 @ reported A rs" "distinct (map report_key rs)"
      "(\<lambda>w. (report_key w, wr_fps w)) ` set rs =
        {(k, of_nat (task_count M2 k)) |k. k \<in> monitor_keys M2 \<and> task_count M2 k > 0}"
      using report_tasks_reports [OF ok2, of A] by blast
    define M' where "M' = M3\<lparr>tk_t0 := be_now E (n + 1)\<rparr>"
    have M': "monitor_keys M' = monitor_keys M2" "monitor_ok M'" "task_count M' k = 0"
      "tk_sent M' = tk_sent M3" for k
      using M3(2,3,4) by (simp_all add: M'_def monitor_keys_def monitor_ok_def task_count_def)
    have cnt: "task_count M2 k = tick_count M s k" if "k \<in> monitor_keys M2" for k
      using that M2(2) c by (simp add: cleaned_def counted_def tick_count_def)
    have "exact_report M s M' rs"
      unfolding exact_report_def M'(1) using M3(6,7) cnt by auto
    moreover have "tk_sent M' = tk_sent M @ reported A rs"
      using M'(4) M3(5) M2(2) c by (simp add: cleaned_def counted_def)
    moreover have "monitor_keys M' = monitor_keys M1 - set ?ks"
      using M'(1) M2(2) by (simp add: cleaned_def)
    moreover have "\<exists>s'. task_monitor_tick E A M s = Inr (M', s') \<and> fe_tasks_data s' = []"
      using True M2(1) M3(1)
      by (cases new) (simp_all add: task_monitor_tick_def loop n_def M'_def Let_def t0)
    ultimately show ?thesis
      using c n1 M'(2,3) by (elim exE conjE) (rule report [of M' _ M1 new n rs], auto simp: n_def)
  qed
qed

text \<open>A round of the thread that reports the workload never raises, takes all tasks that were registered, and either keeps counting, or sends one report that names every session it still knows and that had tasks, exactly once and with the number of its tasks since the last report, and starts counting again from 0.\<close>

theorem task_monitor_reports:
  assumes "monitor_ok M"
  shows "\<exists>M' s'. task_monitor_tick E A M s = Inr (M', s') \<and> monitor_ok M' \<and> fe_tasks_data s' = [] \<and>
    (tk_sent M' = tk_sent M \<and> (\<forall>k. task_count M' k = tick_count M s k) \<or>
     (\<forall>k. task_count M' k = 0) \<and>
       (\<exists>rs. tk_sent M' = tk_sent M @ reported A rs \<and> exact_report M s M' rs))"
proof (rule tick_outcome [OF assms, where E = E and A = A and s = s])
  fix M' n s'
  assume "task_monitor_tick E A M s = Inr (M', s')" "counted M (fe_tasks_data s) M' False"
    "fe_tasks_data s' = []"
  then show ?thesis by (auto simp: counted_def tick_count_def)
next
  fix M1 M' n rs new s'
  assume "task_monitor_tick E A M s = Inr (M', s')" "fe_tasks_data s' = []" "monitor_ok M'"
    "\<And>k. task_count M' k = 0" "tk_sent M' = tk_sent M @ reported A rs" "exact_report M s M' rs"
  then show ?thesis by blast
qed

text \<open>Sessions are forgotten by the age of their first task, before the report is made: when a report is due and a session's first task is older than the caching timeout, the tasks counted for the session are in no report, even those that have just been registered.\<close>

theorem old_session_tasks_dropped:
  assumes ok: "monitor_ok M" and k: "map_of (tk_task_ts0_dict M) k = Some t0"
    and old: "be_now E (fe_clock s) - t0 > fa_model_caching_timeout_secs A"
    and due: "be_now E (fe_clock s) - tk_t0 M > fa_workload_report_period_secs A"
    and clock: "mono (be_now E)"
  shows "\<exists>M' s' rs. task_monitor_tick E A M s = Inr (M', s') \<and> fe_tasks_data s' = [] \<and>
    tk_sent M' = tk_sent M @ reported A rs \<and> k \<notin> report_key ` set rs \<and> k \<notin> monitor_keys M'"
proof (rule tick_outcome [OF ok, where E = E and A = A and s = s])
  fix M' n and s' :: "('a, 'b) frontend"
  assume "fe_clock s \<le> n" "be_now E n - tk_t0 M \<le> fa_workload_report_period_secs A"
  with monoD [OF clock, of "fe_clock s" n] due show ?thesis by simp
next
  fix M1 M' n rs new and s' :: "('a, 'b) frontend"
  assume a: "task_monitor_tick E A M s = Inr (M', s')" "counted M (fe_tasks_data s) M1 new"
    "fe_tasks_data s' = []" "fe_clock s \<le> n" "monitor_keys M' =
       monitor_keys M1 - set (keys_to_clean (fa_model_caching_timeout_secs A) (be_now E n) M1)"
    "tk_sent M' = tk_sent M @ reported A rs" "exact_report M s M' rs"
  have "k \<in> dom (map_of (tk_task_ts0_dict M))" using k by blast
  then have "k \<in> monitor_keys M" using ok by (simp add: monitor_ok_def)
  then have "map_of (tk_task_ts0_dict M1) k = Some t0" "monitor_ok M1"
    using a(2) k by (simp_all add: counted_def)
  moreover have "be_now E n - t0 > fa_model_caching_timeout_secs A"
    using monoD [OF clock a(4)] old by linarith
  ultimately have "k \<notin> monitor_keys M'"
    using a(5) keys_to_clean_iff by blast
  moreover from this have "k \<notin> report_key ` set rs"
    using a(7) by (auto simp: exact_report_def image_iff set_eq_iff)
  ultimately show ?thesis using a(1,3,6) by blast
qed

subsection \<open>Parameters of sessions\<close>

lemma session_key_neq: "session_key u \<noteq> u" "u \<noteq> session_key u"
proof -
  have "length u < length (session_key u)" by (simp add: session_key_def)
  then show "session_key u \<noteq> u" "u \<noteq> session_key u" by auto
qed

text \<open>The parameters given to a new session are stored in the key-value store, under the session's uuid with a suffix; but a task of the session looks them up without the suffix and gets an empty dictionary, unless another writer used the bare uuid as a key.\<close>

theorem session_params_never_found:
  assumes "create_session E u js s = Inr (u', s1)" "client_ok (fe_kv s)" "contents (fe_kv s) u = None"
  shows "u' = u \<and> (\<exists>v. be_json_loads E js = Inr v \<and>
      contents (fe_kv s1) (session_key u) = Some (FvParams v)) \<and>
    fst (get_session_params u s1) = PyDict []"
proof -
  obtain v where v: "be_json_loads E js = Inr v" "u' = u"
    "s1 = s\<lparr>fe_kv := set_value (fe_kv s) (session_key u) (FvParams v)\<rparr>"
    using assms(1) by (auto simp: create_session_def split: sum.splits)
  have "contents (fe_kv s1) = (contents (fe_kv s))(session_key u \<mapsto> FvParams v)"
    using v(3) assms(2) by (simp add: kv_simps)
  moreover from this have "fst (get_value (fe_kv s1) u) = None"
    using v(3) assms(2,3) by (simp add: kv_simps session_key_neq)
  ultimately show ?thesis
    using v by (auto simp: get_session_params_def case_prod_unfold Let_def)
qed

subsection \<open>Readiness of a pipeline\<close>

lemma found_on_backend_iff: "found_on_backend u ps \<longleftrightarrow> (\<exists>p \<in> set ps. u \<in> set (sbl_cmodel_uuid_list p))"
  by (induction ps) (auto simp: list_ex_iff)

lemma all_found_iff: "all_found us ps \<longleftrightarrow> (\<forall>u \<in> set us. found_on_backend u ps)"
  by (induction us) auto

text \<open>The loops over the scheduler's log decide that the pipeline has been requested and that
  every model of its requests is in the plan of some backend.\<close>

lemma models_running_iff:
  "models_running l p \<longleftrightarrow>
     pipeline_cmodels l p \<noteq> [] \<and>
     set (pipeline_cmodels l p) \<subseteq> (\<Union>b \<in> set (sl_scheduling_plans l). set (sbl_cmodel_uuid_list b))"
  by (auto simp: models_running_def Let_def all_found_iff found_on_backend_iff)

text \<open>A frontend that does not wait for models refuses a task of a pipeline unless every model of the pipeline's scheduling requests is in the plan of some backend; nothing is sent to the backends then, but the task is counted, so that the workload manager hears of the pipeline and its models get scheduled.\<close>

theorem refused_task_is_counted:
  assumes "\<not> fa_wait_for_models A" "enter_task E s = (t0, s1)" "fe_backend_infos s1 \<noteq> []"
    and "t0 - fe_scheduler_info_t0 s1 \<le> 15" "map_of (fe_pipeline_cache s1) p = Some info"
    and "\<not> (pipeline_cmodels (fe_scheduler_info s1) p \<noteq> [] \<and>
      set (pipeline_cmodels (fe_scheduler_info s1) p) \<subseteq>
        (\<Union>b \<in> set (sl_scheduling_plans (fe_scheduler_info s1)). set (sbl_cmodel_uuid_list b)))"
  shows "\<exists>s' e. submit_single E A db task d p u ux timeout s = (s', Inl e) \<and>
    fe_pusher s' = fe_pusher s \<and> fe_tasks_data s' = fe_tasks_data s @ [(p, u)]"
proof -
  have "\<not> models_running (fe_scheduler_info s1) p" using assms(6) by (simp add: models_running_iff)
  moreover have "fe_pusher s1 = fe_pusher s" by (rule pusher_kept(1) [OF assms(2)])
  moreover have "fe_tasks_data s1 = fe_tasks_data s"
    using assms(2) by (auto simp: enter_task_def load_backend_infos_def get_backend_logs_def
        fe_now_def case_prod_unfold Let_def split: if_splits)
  ultimately show ?thesis
    using assms(1-5)
    by (simp add: submit_single_def may_wait_def get_pipeline_info_cached_def)
qed

subsection \<open>Concrete reports\<close>

definition sample_monitor :: task_monitor where
  "sample_monitor = \<lparr>tk_task_dict = [(''p_s'', \<lparr>wr_pipeline_uuid = ''p'', wr_session_uuid = ''s'',
       wr_fps = 1, wr_metadata = ''{}''\<rparr>)],
     tk_task_ts_dict = [(''p_s'', 0)], tk_task_ts0_dict = [(''p_s'', 0)],
     tk_task_fps_dict = [(''p_s'', 0)], tk_t0 = 0, tk_sent = []\<rparr>"

lemma sample_monitor_ok: "monitor_ok sample_monitor"
  by (simp add: monitor_ok_def sample_monitor_def monitor_keys_def dict_ok_def well_named_def
      report_key_def join_key_def)

definition busy_frontend ::
    "(infer_request queue_value sample_store, frontend_value sample_store) frontend" where
  "busy_frontend = sample_frontend\<lparr>fe_clock := 2, fe_tasks_data := replicate 30 (''p'', ''s'')\<rparr>"

theorem task_monitor_reports_witness:
  "\<exists>M' s'. task_monitor_tick sample_backend_env sample_frontend_args sample_monitor busy_frontend
       = Inr (M', s') \<and> monitor_ok M' \<and> fe_tasks_data s' = []"
  using task_monitor_reports [OF sample_monitor_ok, of sample_backend_env sample_frontend_args
      busy_frontend] by blast

text \<open>With the default arguments, 30 tasks in the second after the first one are not reported.\<close>

theorem old_session_tasks_dropped_witness:
  "\<exists>M' s' rs. task_monitor_tick sample_backend_env sample_frontend_args sample_monitor busy_frontend
       = Inr (M', s') \<and> fe_tasks_data s' = [] \<and> tk_sent M' = reported sample_frontend_args rs \<and>
     ''p_s'' \<notin> report_key ` set rs \<and> ''p_s'' \<notin> monitor_keys M'"
proof -
  have "map_of (tk_task_ts0_dict sample_monitor) ''p_s'' = Some 0" "mono (be_now sample_backend_env)"
    "be_now sample_backend_env (fe_clock busy_frontend) - 0 >
       fa_model_caching_timeout_secs sample_frontend_args"
    "be_now sample_backend_env (fe_clock busy_frontend) - tk_t0 sample_monitor >
       fa_workload_report_period_secs sample_frontend_args"
    by (simp_all add: sample_monitor_def sample_backend_env_def busy_frontend_def
        sample_frontend_args_def mono_def)
  from old_session_tasks_dropped [OF sample_monitor_ok this(1,3,4,2)] show ?thesis
    by (simp add: sample_monitor_def)
qed

theorem session_params_never_found_witness:
  "\<exists>s1. create_session sample_backend_env ''sess'' ''null'' idle_frontend = Inr (''sess'', s1) \<and>
     contents (fe_kv s1) (session_key ''sess'') = Some (FvParams PyNone) \<and>
     fst (get_session_params ''sess'' s1) = PyDict []"
proof -
  have ok: "client_ok (fe_kv idle_frontend)" "contents (fe_kv idle_frontend) ''sess'' = None"
    by (simp_all add: client_ok_def contents_def new_frontend_def fresh_client_def, simp add: sample_redis_def)
  obtain s1 where s1: "create_session sample_backend_env ''sess'' ''null'' idle_frontend = Inr (''sess'', s1)"
    by (simp add: create_session_def sample_backend_env_def)
  from session_params_never_found [OF s1 ok] s1 show ?thesis
    by (auto simp: sample_backend_env_def)
qed

theorem refused_task_is_counted_witness:
  "\<exists>s' e. submit_single sample_backend_env (sample_frontend_args\<lparr>fa_wait_for_models := False\<rparr>)
       sample_db ''task'' (TextData ''hello'') ''p'' ''sess''
       \<lparr>ux_preproc = [], ux_transform = [], ux_postproc = []\<rparr> 10 sample_frontend = (s', Inl e) \<and>
     fe_tasks_data s' = [(''p'', ''sess'')]"
proof -
  let ?s1 = "sample_frontend\<lparr>fe_clock := 1\<rparr>"
  have "enter_task sample_backend_env sample_frontend = (0, ?s1)"
    by (simp add: enter_task_def fe_now_def sample_frontend_def new_frontend_def
        sample_backend_env_def)
  from refused_task_is_counted [OF _ this, of "sample_frontend_args\<lparr>fa_wait_for_models := False\<rparr>"
      "''p''" sample_served sample_db "''task''" "TextData ''hello''" "''sess''"
      "\<lparr>ux_preproc = [], ux_transform = [], ux_postproc = []\<rparr>" 10]
  show ?thesis
    by (simp add: sample_frontend_def new_frontend_def pipeline_cmodels_def) blast
qed

end
