(* ===== verification/Nxs_Scaling.thy ===== *)
theory Nxs_Scaling
  imports Nxs_Prelude
begin

section \<open>The frontend: scaling of the backends (\<open>main_processes/frontend/routers/api/v2/tasks/root.py\<close>)\<close>

text \<open>
  The Kubernetes API is a parameter: \<open>kb_list\<close> returns the deployments of the namespace \<open>nxs\<close>
  or raises (None), \<open>kb_patch\<close> replaces a deployment by name. A number the API does not give
  is None in the client library.
\<close>

record deployment =
  dp_labels :: "(string, string) dict option"
  dp_replicas :: "int option"
  dp_ready_replicas :: "int option"

record 'c kube =
  kb_list :: "'c \<Rightarrow> deployment list option"
  kb_patch :: "'c \<Rightarrow> string \<Rightarrow> deployment \<Rightarrow> 'c option"

definition internal_error :: py_error where
  "internal_error = Raised ''Internal error. Please try again later.''"

text \<open>A deployment without labels raises, because \<open>in\<close> needs a container.\<close>

definition is_deployment :: "string \<Rightarrow> deployment \<Rightarrow> bool result" where
  "is_deployment name d =
     (case dp_labels d of None \<Rightarrow> Inl TypeError
      | Some labels \<Rightarrow> Inr (map_of labels ''name'' = Some name))"

text \<open>The last deployment with the name decides.\<close>

definition get_deployment_replicas_info ::
    "'c kube \<Rightarrow> string \<Rightarrow> 'c \<Rightarrow> (int \<times> int) result" where
  "get_deployment_replicas_info K name c =
     (case kb_list K c of
        None \<Rightarrow> Inl internal_error
      | Some items \<Rightarrow>
          bindE (foldE (\<lambda>(n, r) d. bindE (is_deployment name d) (\<lambda>b.
                    Inr (if b then (dp_replicas d, dp_ready_replicas d) else (n, r))))
                  (Some 0, Some 0) items) (\<lambda>(n, r).
            Inr (case n of None \<Rightarrow> 0 | Some n \<Rightarrow> n, case r of None \<Rightarrow> 0 | Some r \<Rightarrow> r)))"

fun patch_deployments ::
    "'c kube \<Rightarrow> string \<Rightarrow> int \<Rightarrow> deployment list \<Rightarrow> 'c \<times> bool \<Rightarrow> ('c \<times> bool) result" where
  "patch_deployments K name n [] st = Inr st"
| "patch_deployments K name n (d # ds) (c, found) =
     bindE (is_deployment name d) (\<lambda>b.
       if b
       then case kb_patch K c name (d\<lparr>dp_replicas := Some n\<rparr>) of
              None \<Rightarrow> Inl internal_error
            | Some c' \<Rightarrow> patch_deployments K name n ds (c', True)
       else patch_deployments K name n ds (c, found))"

definition GPU_DEPLOYMENT :: string where "GPU_DEPLOYMENT = ''nxs-backend-gpu''"

definition scale_backends :: "'c kube \<Rightarrow> int \<Rightarrow> bool \<Rightarrow> 'c \<Rightarrow> 'c result" where
  "scale_backends K n force c =
     (if n < 0 then Inl (Raised ''num_backends must be at least 0'')
      else bindE (get_deployment_replicas_info K GPU_DEPLOYMENT c) (\<lambda>(requested, available).
        if requested \<noteq> available \<and> \<not> force
        then Inl (Raised ''Scaling is in process, please retry later after a few minutes.'')
        else case kb_list K c of
               None \<Rightarrow> Inl internal_error
             | Some items \<Rightarrow>
                 bindE (patch_deployments K GPU_DEPLOYMENT n items (c, False)) (\<lambda>(c, found).
                   if \<not> found then Inl (Raised ''Could not find nxs-backend-gpu deployment.'')
                   else Inr c)))"

record deployments_log =
  dl_num_requested_cpu_backends :: int
  dl_num_requested_gpu_backends :: int
  dl_num_available_cpu_backends :: int
  dl_num_available_gpu_backends :: int

definition get_backend_deployments :: "'c kube \<Rightarrow> 'c \<Rightarrow> deployments_log result" where
  "get_backend_deployments K c =
     bindE (get_deployment_replicas_info K ''nxs-backend-cpu'' c) (\<lambda>(nc, ac).
     bindE (get_deployment_replicas_info K GPU_DEPLOYMENT c) (\<lambda>(ng, ag).
       Inr \<lparr>dl_num_requested_cpu_backends = nc, dl_num_requested_gpu_backends = ng,
            dl_num_available_cpu_backends = ac, dl_num_available_gpu_backends = ag\<rparr>))"

subsection \<open>When the API is asked to change something\<close>

lemma patch_deployments_found:
  "patch_deployments K name n ds (c, found) = Inr (c', found') \<Longrightarrow>
     found' \<longleftrightarrow> found \<or> (\<exists>d \<in> set ds. is_deployment name d = Inr True)"
  by (induction ds arbitrary: c found)
    (auto simp: bindE_eq_Inr split: if_splits option.splits)

text \<open>A request that succeeds asks for at least 0 backends, found a deployment to change, and
  was forced unless the last scaling has finished.\<close>

lemma scale_backends_guard:
  assumes "scale_backends K n force c = Inr c'"
  shows "0 \<le> n \<and> (force \<or> (\<exists>k. get_deployment_replicas_info K GPU_DEPLOYMENT c = Inr (k, k))) \<and>
    (\<exists>ds. kb_list K c = Some ds \<and> (\<exists>d \<in> set ds. is_deployment GPU_DEPLOYMENT d = Inr True))"
  using assms
  by (auto simp: scale_backends_def bindE_eq_Inr dest!: patch_deployments_found
      split: if_splits option.splits)

end
