(* ===== verification/Nxs_Registry.thy ===== *)
theory Nxs_Registry
  imports Nxs_Value Nxs_Runtime Nxs_Storage_Cache "HOL-Library.Sublist"
begin

section \<open>The frontend: registration of models and pipelines\<close>

text \<open>
  \<open>main_processes/frontend/routers/api/v2/models/root.py\<close> and \<open>.../pipelines/root.py\<close>, with
  the database layer \<open>nxs_libs/db/nxs_mongodb.py\<close> below them. The operations of \<open>pymongo\<close> and
  of the storage account are parameters. Every operation returns the state next to its outcome,
  because an exception does not undo what was written before.
\<close>

subsection \<open>Documents\<close>

record param_description =
  pd_param :: string
  pd_desc :: string

record pipeline_description =
  dn_pipeline_uuid :: string
  dn_name :: string
  dn_accuracy :: string
  dn_params :: string
  dn_flops :: string
  dn_input_type :: string
  dn_description :: string
  dn_output_type :: pipeline_output_type
  dn_preproc_params :: "param_description list"
  dn_postproc_params :: "param_description list"
  dn_transform_params :: "param_description list"

record pipeline_document = nxs_pipeline +
  po_is_collocated :: bool
  po_description :: pipeline_description

text \<open>A document, with the field for the shard when the deployment uses shards. A query asks
  for the value of one key, and for the shard when it names one.\<close>

record 'a doc =
  doc_shard :: "(string \<times> string) option"
  doc_value :: 'a

record db_query =
  dq_uuid :: string
  dq_shard :: "(string \<times> string) option"

definition doc_matches :: "('a \<Rightarrow> string) \<Rightarrow> db_query \<Rightarrow> 'a doc \<Rightarrow> bool" where
  "doc_matches key q x \<longleftrightarrow> key (doc_value x) = dq_uuid q \<and>
     (case dq_shard q of None \<Rightarrow> True | Some s \<Rightarrow> doc_shard x = Some s)"

subsection \<open>The database client\<close>

text \<open>
  Operations of \<open>pymongo\<close> on the two collections: an exception as its text, and the state
  afterwards. \<open>mg_models\<close> and \<open>mg_pipelines\<close> are the stored documents.
\<close>

record 'd mongo =
  mg_models :: "'d \<Rightarrow> nxs_model doc list"
  mg_pipelines :: "'d \<Rightarrow> pipeline_document doc list"
  mg_find_models :: "'d \<Rightarrow> db_query \<Rightarrow> nxs_model list"
  mg_find_pipelines :: "'d \<Rightarrow> db_query \<Rightarrow> pipeline_document list"
  mg_find_public :: "'d \<Rightarrow> (string \<times> string) option \<Rightarrow> pipeline_document list"
  mg_insert_model :: "'d \<Rightarrow> nxs_model doc \<Rightarrow> string option \<times> 'd"
  mg_insert_pipeline :: "'d \<Rightarrow> pipeline_document doc \<Rightarrow> string option \<times> 'd"
  mg_update_models :: "'d \<Rightarrow> db_query \<Rightarrow> (nxs_model \<Rightarrow> nxs_model) \<Rightarrow> string option \<times> 'd"

definition find_docs :: "('a \<Rightarrow> string) \<Rightarrow> 'a doc list \<Rightarrow> db_query \<Rightarrow> 'a list" where
  "find_docs key xs q = map doc_value (filter (doc_matches key q) xs)"

text \<open>What MongoDB documents: the operations read and change the collections.\<close>

definition mongo_ok :: "'d mongo \<Rightarrow> bool" where
  "mongo_ok M \<longleftrightarrow>
     (\<forall>d q. mg_find_models M d q = find_docs m_model_uuid (mg_models M d) q) \<and>
     (\<forall>d q. mg_find_pipelines M d q = find_docs p_pipeline_uuid (mg_pipelines M d) q) \<and>
     (\<forall>d sh. mg_find_public M d sh = map doc_value (filter (\<lambda>x. p_is_public (doc_value x) \<and>
        (case sh of None \<Rightarrow> True | Some s \<Rightarrow> doc_shard x = Some s)) (mg_pipelines M d))) \<and>
     (\<forall>d x e d'. mg_insert_model M d x = (e, d') \<longrightarrow> mg_pipelines M d' = mg_pipelines M d \<and>
        mg_models M d' = (if e = None then mg_models M d @ [x] else mg_models M d)) \<and>
     (\<forall>d x e d'. mg_insert_pipeline M d x = (e, d') \<longrightarrow> mg_models M d' = mg_models M d \<and>
        mg_pipelines M d' = (if e = None then mg_pipelines M d @ [x] else mg_pipelines M d)) \<and>
     (\<forall>d q f d'. mg_update_models M d q f = (None, d') \<longrightarrow> mg_pipelines M d' = mg_pipelines M d \<and>
        mg_models M d' = map (\<lambda>x. if doc_matches m_model_uuid q x
          then x\<lparr>doc_value := f (doc_value x)\<rparr> else x) (mg_models M d))"

text \<open>
  \<open>NxsMongoDb.insert\<close> and \<open>update\<close> catch every exception and raise only when its text says
  that the shard key is missing.
\<close>

definition swallowing :: "string option \<times> 'd \<Rightarrow> ('d, unit) outcome" where
  "swallowing r =
     (case r of
        (None, d) \<Rightarrow> (d, Inr ())
      | (Some text, d) \<Rightarrow>
          (d, if sublist ''document does not contain shard key'' text
              then Inl (Raised ''NxsDbExceptionMissingShardKey'') else Inr ()))"

text \<open>The view of the database that other components query by uuid only.\<close>

definition db_view :: "'d mongo \<Rightarrow> 'd \<Rightarrow> main_db" where
  "db_view M d =
     \<lparr>query_pipelines = (\<lambda>u. map nxs_pipeline.truncate (mg_find_pipelines M d \<lparr>dq_uuid = u, dq_shard = None\<rparr>)),
      query_models = (\<lambda>u. mg_find_models M d \<lparr>dq_uuid = u, dq_shard = None\<rparr>)\<rparr>"

subsection \<open>Arguments and state\<close>

text \<open>The shard of the deployment, when \<open>db_use_shard_key\<close> is set, and \<open>tmp_dir\<close>.\<close>

record registry_args =
  ra_shard :: "(string \<times> string) option"
  ra_tmp_dir :: string

record ('d, 's) registry =
  rg_db :: 'd
  rg_storage :: 's
  rg_tmp_dirs :: "string list"

text \<open>\<open>upload(file, dir)\<close> by the name and the content of the file; \<open>download(path)\<close>.\<close>

record 's storage_ops =
  so_upload :: "'s \<Rightarrow> string \<Rightarrow> string \<Rightarrow> string \<Rightarrow> 's result"
  so_download :: "'s \<Rightarrow> string \<Rightarrow> string result"

definition storage_ok :: "'s storage_ops \<Rightarrow> bool" where
  "storage_ok S \<longleftrightarrow> (\<forall>s name content dir s'. so_upload S s name content dir = Inr s' \<longrightarrow>
     (\<forall>p. so_download S s' p = (if p = join_path dir name then Inr content else so_download S s p)))"

subsection \<open>Pipelines\<close>

record pipeline_request =
  qr_user_name :: string
  qr_pipeline_groups :: "string list list"
  qr_predefined_pipeline_uuid :: "string option"
  qr_is_public :: bool
  qr_description :: pipeline_description

fun check_models_exist :: "'d mongo \<Rightarrow> 'd \<Rightarrow> string list \<Rightarrow> unit result" where
  "check_models_exist M d [] = Inr ()"
| "check_models_exist M d (u # us) =
     (if mg_find_models M d \<lparr>dq_uuid = u, dq_shard = None\<rparr> = []
      then Inl (Raised (''Invalid model '' @ u @ ''.'')) else check_models_exist M d us)"

definition make_composite :: "string list \<Rightarrow> nxs_model \<Rightarrow> nxs_model" where
  "make_composite subs m = m\<lparr>m_model_type := MT_COMPOSITE, m_collocated_model_uuids := subs\<rparr>"

definition update_group ::
    "'d mongo \<Rightarrow> registry_args \<Rightarrow> 'd \<Rightarrow> string list \<Rightarrow> ('d, unit) outcome" where
  "update_group M A d g =
     (if length g > 1
      then swallowing (mg_update_models M d \<lparr>dq_uuid = hd g, dq_shard = ra_shard A\<rparr>
             (make_composite (tl g)))
      else (d, Inr ()))"

definition new_pipeline_uuid ::
    "'d mongo \<Rightarrow> registry_args \<Rightarrow> string \<Rightarrow> pipeline_request \<Rightarrow> 'd \<Rightarrow> string result" where
  "new_pipeline_uuid M A fresh q d =
     (case qr_predefined_pipeline_uuid q of
        None \<Rightarrow> Inr fresh
      | Some u \<Rightarrow>
          if u = '''' then Inr fresh
          else if mg_find_pipelines M d \<lparr>dq_uuid = u, dq_shard = ra_shard A\<rparr> \<noteq> []
          then Inl (Raised (''Pipeline '' @ u @ '' is already existed.'')) else Inr u)"

definition first_uuid :: "string list \<Rightarrow> string result" where
  "first_uuid g = (case g of [] \<Rightarrow> Inl IndexError | u # _ \<Rightarrow> Inr u)"

definition pipeline_doc ::
    "registry_args \<Rightarrow> pipeline_request \<Rightarrow> string \<Rightarrow> string list \<Rightarrow> pipeline_document doc" where
  "pipeline_doc A q u firsts =
     \<lparr>doc_shard = ra_shard A, doc_value =
       \<lparr>p_user_name = qr_user_name q, p_pipeline_uuid = u, p_pipeline = firsts,
        p_is_public = qr_is_public q, po_is_collocated = False,
        po_description = (qr_description q)\<lparr>dn_pipeline_uuid := u\<rparr>\<rparr>\<rparr>"

text \<open>The models are changed before the uuid of the pipeline is checked.\<close>

definition register_pipeline ::
    "'d mongo \<Rightarrow> registry_args \<Rightarrow> string \<Rightarrow> pipeline_request \<Rightarrow> 'd \<Rightarrow> ('d, string) outcome" where
  "register_pipeline M A fresh q d =
     (let groups = qr_pipeline_groups q
      in case check_models_exist M d (concat groups) of
           Inl e \<Rightarrow> (d, Inl e)
         | Inr _ \<Rightarrow>
             andThen (forEach (update_group M A) d groups) (\<lambda>d _.
               case new_pipeline_uuid M A fresh q d of
                 Inl e \<Rightarrow> (d, Inl e)
               | Inr u \<Rightarrow>
                   (case mapE first_uuid groups of
                      Inl e \<Rightarrow> (d, Inl e)
                    | Inr firsts \<Rightarrow>
                        andThen (swallowing (mg_insert_pipeline M d (pipeline_doc A q u firsts)))
                          (\<lambda>d _. (d, Inr u)))))"

text \<open>The endpoints to pin and to unpin a pipeline: what they push to the workload manager.\<close>

definition pin_pipeline :: "main_db \<Rightarrow> rat \<Rightarrow> string \<Rightarrow> string \<Rightarrow> int \<Rightarrow> nxs_msg result" where
  "pin_pipeline db now p u fps =
     (if fps \<le> 0 then Inl (Raised ''fps has to be positive.'')
      else bindE (get_from_db db p now) (\<lambda>i. case i of
             None \<Rightarrow> Inl (Raised ''Invalid pipeline_uuid.'')
           | Some _ \<Rightarrow> Inr (MsgPinWorkload p u (of_int fps))))"

definition unpin_pipeline :: "main_db \<Rightarrow> rat \<Rightarrow> string \<Rightarrow> string \<Rightarrow> nxs_msg result" where
  "unpin_pipeline db now p u =
     bindE (get_from_db db p now) (\<lambda>i. case i of
       None \<Rightarrow> Inl (Raised ''Invalid pipeline_uuid.'')
     | Some _ \<Rightarrow> Inr (MsgUnpinWorkload p u))"

definition get_public_models :: "'d mongo \<Rightarrow> registry_args \<Rightarrow> 'd \<Rightarrow> pipeline_description list" where
  "get_public_models M A d = map po_description (mg_find_public M d (ra_shard A))"

subsection \<open>Models\<close>

record model_request = nxs_base_model +
  rr_url :: string
  rr_preproc_url :: string
  rr_postproc_url :: string
  rr_transfrom_url :: string
  rr_predefined_model_uuid :: "string option"
  rr_num_request_pullers :: "int option"
  rr_num_preprocessors :: "int option"
  rr_num_postprocessors :: "int option"

text \<open>A file in the temporary directory: None when nothing was downloaded (an empty path).\<close>

record model_files =
  mf_model :: string
  mf_preproc :: "string option"
  mf_postproc :: "string option"
  mf_transform :: "string option"

definition upload ::
    "'s storage_ops \<Rightarrow> string \<Rightarrow> string \<Rightarrow> string \<Rightarrow> ('d, 's) registry \<Rightarrow>
       (('d, 's) registry, unit) outcome" where
  "upload S name content dir r =
     (case so_upload S (rg_storage r) name content dir of
        Inl e \<Rightarrow> (r, Inl e) | Inr s \<Rightarrow> (r\<lparr>rg_storage := s\<rparr>, Inr ()))"

text \<open>An optional file, and the name under which the model's description refers to it.\<close>

definition upload_fn ::
    "'s storage_ops \<Rightarrow> string \<Rightarrow> string option \<Rightarrow> string \<Rightarrow> string \<Rightarrow> ('d, 's) registry \<Rightarrow>
       (('d, 's) registry, string) outcome" where
  "upload_fn S uuid content dir name r =
     (case content of
        None \<Rightarrow> (r, Inr name)
      | Some c \<Rightarrow> andThen (upload S (uuid @ ''.py'') c dir r) (\<lambda>r _. (r, Inr uuid)))"

text \<open>\<open>NxsModel(**model.dict(), ...)\<close>: the numbers of processes are in the request, or default to 1.\<close>

definition model_of_base ::
    "nxs_base_model \<Rightarrow> int option \<times> int option \<times> int option \<Rightarrow> string \<Rightarrow> rat \<Rightarrow> string \<Rightarrow> nxs_model" where
  "model_of_base b = (\<lambda>(np, npre, npost) uuid now dt. nxs_base_model.extend b
     \<lparr>m_model_uuid = uuid, m_model_status = MS_VALID, m_created_timestamp = Some now,
      m_created_time = Some dt, m_model_type = MT_SINGLE, m_collocated_model_uuids = [],
      m_num_request_pullers = np, m_num_preprocessors = npre, m_num_postprocessors = npost\<rparr>)"

definition insert_model ::
    "'d mongo \<Rightarrow> registry_args \<Rightarrow> nxs_model \<Rightarrow> ('d, 's) registry \<Rightarrow> (('d, 's) registry, unit) outcome" where
  "insert_model M A m r =
     (let (d, x) = swallowing (mg_insert_model M (rg_db r) \<lparr>doc_shard = ra_shard A, doc_value = m\<rparr>)
      in (r\<lparr>rg_db := d\<rparr>, x))"

definition register_model ::
    "'d mongo \<Rightarrow> 's storage_ops \<Rightarrow> registry_args \<Rightarrow> rat \<Rightarrow> string \<Rightarrow> string \<Rightarrow> model_files \<Rightarrow>
       nxs_base_model \<Rightarrow> int option \<times> int option \<times> int option \<Rightarrow> ('d, 's) registry \<Rightarrow>
       (('d, 's) registry, unit) outcome" where
  "register_model M S A now dt uuid files b nums r =
     (let desc = bm_model_desc b
      in andThen (upload S uuid (mf_model files) ''models'' r) (\<lambda>r _.
         andThen (upload_fn S uuid (mf_preproc files) ''preprocessing'' (md_preprocessing_name desc) r) (\<lambda>r pre.
         andThen (upload_fn S uuid (mf_postproc files) ''postprocessing'' (md_postprocessing_name desc) r) (\<lambda>r post.
         andThen (upload_fn S uuid (mf_transform files) ''transforming'' (md_transforming_name desc) r) (\<lambda>r tr.
           let b = b\<lparr>bm_model_desc := desc\<lparr>md_preprocessing_name := pre,
                     md_postprocessing_name := post, md_transforming_name := tr\<rparr>\<rparr>
           in insert_model M A (model_of_base b nums uuid now dt) r)))))"

definition fetch_fn :: "(string \<Rightarrow> string result) \<Rightarrow> string \<Rightarrow> string option result" where
  "fetch_fn fetch url = (if url \<noteq> '''' then bindE (fetch url) (\<lambda>c. Inr (Some c)) else Inr None)"

definition fetch_files :: "(string \<Rightarrow> string result) \<Rightarrow> model_request \<Rightarrow> model_files result" where
  "fetch_files fetch q =
     bindE (fetch_fn fetch (rr_preproc_url q)) (\<lambda>pre.
     bindE (fetch_fn fetch (rr_postproc_url q)) (\<lambda>post.
     bindE (fetch_fn fetch (rr_transfrom_url q)) (\<lambda>tr.
     bindE (fetch (rr_url q)) (\<lambda>m.
       Inr \<lparr>mf_model = m, mf_preproc = pre, mf_postproc = post, mf_transform = tr\<rparr>))))"

definition has_bs1 :: "profile_unit list \<Rightarrow> bool" where
  "has_bs1 ps = list_ex (\<lambda>p. pu_batch_size p = 1) ps"

text \<open>The temporary directory of the registration stays behind when the profile is refused,
  because the checks are made before the \<open>try\<close>.\<close>

definition submit_model ::
    "'d mongo \<Rightarrow> 's storage_ops \<Rightarrow> registry_args \<Rightarrow> (string \<Rightarrow> string result) \<Rightarrow> rat \<Rightarrow> string \<Rightarrow> string \<Rightarrow>
       model_request \<Rightarrow> ('d, 's) registry \<Rightarrow> (('d, 's) registry, string) outcome" where
  "submit_model M S A fetch now dt uuid q r =
     (let dir = join_path (ra_tmp_dir A) uuid;
          r1 = r\<lparr>rg_tmp_dirs := List.insert dir (rg_tmp_dirs r)\<rparr>
      in if bm_profile q = [] then (r1, Inl (Raised ''Missing profile.''))
         else if \<not> has_bs1 (bm_profile q)
         then (r1, Inl (Raised ''Missing profile for batch size of 1.''))
         else
           let (r2, out) =
             (case fetch_files fetch q of
                Inl e \<Rightarrow> (r1, Inl e)
              | Inr files \<Rightarrow> register_model M S A now dt uuid files (nxs_base_model.truncate q)
                  (rr_num_request_pullers q, rr_num_preprocessors q, rr_num_postprocessors q) r1)
           in (r2\<lparr>rg_tmp_dirs := removeAll dir (rg_tmp_dirs r2)\<rparr>, bindE out (\<lambda>_. Inr uuid)))"

end
