(* ===== verification/Nxs_W4_Model.thy ===== *)
theory Nxs_W4_Model
  imports Nxs_Registry
begin

section \<open>The frontend: models with predefined functions\<close>

text \<open>
  \<open>_register_w4_model\<close> of \<open>main_processes/frontend/routers/api/v2/models/root.py\<close>: the model and
  its description come from a store of the user, the functions and the profile from the files
  that the storage keeps for each kind of model. Everything is read before anything is written.
  Sizes of inputs are JSON integers.
\<close>

subsection \<open>Python on JSON values\<close>

definition jget :: "py_value \<Rightarrow> string \<Rightarrow> py_value result" where
  "jget v k = py_getitem v (PyStr k)"

fun py_str :: "py_value \<Rightarrow> string result" where
  "py_str (PyStr s) = Inr s"
| "py_str _ = Inl AttributeError"

fun py_dict :: "py_value \<Rightarrow> pydict result" where
  "py_dict (PyDict d) = Inr d"
| "py_dict _ = Inl AttributeError"

fun py_bool :: "py_value \<Rightarrow> bool" where
  "py_bool PyNone = False"
| "py_bool (PyBool b) = b"
| "py_bool (PyInt i) = (i \<noteq> 0)"
| "py_bool (PyFloat x) = (x \<noteq> 0)"
| "py_bool (PyStr s) = (s \<noteq> [])"
| "py_bool (PyBytes s) = (s \<noteq> [])"
| "py_bool (PyList xs) = (xs \<noteq> [])"
| "py_bool (PyDict d) = (d \<noteq> [])"

definition py_max :: "int list \<Rightarrow> int result" where
  "py_max xs = (case xs of [] \<Rightarrow> Inl ValueError | x # xs \<Rightarrow> Inr (fold max xs x))"

definition list_set :: "'a list \<Rightarrow> nat \<Rightarrow> 'a \<Rightarrow> 'a list result" where
  "list_set xs i v = (if i < length xs then Inr (xs[i := v]) else Inl IndexError)"

definition or_else :: "string \<Rightarrow> 'a result \<Rightarrow> 'a result" where
  "or_else msg r = (case r of Inl _ \<Rightarrow> Inl (Raised msg) | Inr x \<Rightarrow> Inr x)"

subsection \<open>The description of the model\<close>

record w4_request =
  wq_user_name :: string
  wq_model_name :: string
  wq_blobstore_path :: string

text \<open>The user's store and the conversions of pydantic.\<close>

record w4_env =
  w4_store :: "string \<Rightarrow> string result"
  w4_model_input :: "py_value \<Rightarrow> py_value \<Rightarrow> py_value \<Rightarrow> model_input result"
  w4_model_output :: "py_value \<Rightarrow> model_output result"
  w4_class_names :: "py_value \<Rightarrow> string list result"
  w4_profile_unit :: "py_value \<Rightarrow> profile_unit result"
  w4_param :: "py_value \<Rightarrow> py_value \<Rightarrow> param_description result"

record w4_desc =
  wd_backbone :: string
  wd_model_type :: string
  wd_input_size :: int
  wd_data :: py_value

definition load_description :: "backend_env \<Rightarrow> w4_env \<Rightarrow> w4_request \<Rightarrow> w4_desc result" where
  "load_description E W q =
     bindE (or_else ''could not download model_description.json.''
       (bindE (w4_store W (os_join (wq_blobstore_path q) ''model_description.json''))
         (be_json_loads E))) (\<lambda>v.
     bindE (bindE (bindE (jget v ''input_model'') (\<lambda>m. jget m ''backbone'')) py_str) (\<lambda>b.
     bindE (jget v ''model_file_format'') (\<lambda>t.
       if t \<noteq> PyStr ''onnx'' then Inl (Raised ''This API only supports ONNX format.'')
       else
         bindE (bindE (bindE (jget v ''hyperparameters'') (\<lambda>h. jget h ''input_resize_spec''))
           (\<lambda>r. jget r ''sizes'')) (\<lambda>s.
         bindE (bindE (py_iter s) (mapE py_as_index)) (\<lambda>sizes.
         bindE (py_max sizes) (\<lambda>sz.
           Inr \<lparr>wd_backbone = filter (\<lambda>c. c \<noteq> CHR '' '') b, wd_model_type = ''onnx'',
                wd_input_size = sz, wd_data = v\<rparr>))))))"

text \<open>The predefined functions; only the transform function may be missing.\<close>

definition predefined_functions ::
    "'s storage_ops \<Rightarrow> 's \<Rightarrow> string \<Rightarrow> (string \<times> string \<times> string option) result" where
  "predefined_functions S s b =
     bindE (or_else (''preprocessing function for '' @ b @ '' is not existed.'')
       (so_download S s (os_join ''w4preprocessing'' (b @ ''.py'')))) (\<lambda>pre.
     bindE (or_else (''postprocessing function for '' @ b @ '' is not existed.'')
       (so_download S s (os_join ''w4postprocessing'' (b @ ''.py'')))) (\<lambda>post.
       Inr (pre, post, (case so_download S s (os_join ''w4transforming'' (b @ ''.py'')) of
                          Inl _ \<Rightarrow> None | Inr t \<Rightarrow> Some t))))"

text \<open>The extra information, with its three flags; every failure has the same message.\<close>

record w4_extras =
  wx_use_gpu :: bool
  wx_batching :: bool
  wx_cross_requests_batching :: bool
  wx_data :: py_value

definition load_extras ::
    "backend_env \<Rightarrow> 's storage_ops \<Rightarrow> 's \<Rightarrow> w4_desc \<Rightarrow> w4_extras result" where
  "load_extras E S s d =
     or_else (''extra info required for '' @ wd_backbone d @ '' is not existed.'')
       (bindE (so_download S s (os_join ''w4extras'' (wd_backbone d @ ''_'' @ wd_model_type d @ ''.json''))) (\<lambda>t.
        bindE (be_json_loads E t) (\<lambda>v.
        bindE (jget v ''use_gpu'') (\<lambda>gpu.
        bindE (jget v ''batching'') (\<lambda>bat.
        bindE (jget v ''cross_requests_batching'') (\<lambda>cross.
          Inr \<lparr>wx_use_gpu = py_bool gpu, wx_batching = py_bool bat,
               wx_cross_requests_batching = py_bool cross, wx_data = v\<rparr>))))))"

subsection \<open>Inputs and outputs\<close>

definition is_minus_one :: "py_value \<Rightarrow> bool" where
  "is_minus_one v \<longleftrightarrow> v = PyInt (- 1) \<or> v = PyFloat (- 1)"

text \<open>A shape with an open dimension after the first gets the input size, by memory layout.\<close>

definition assign_shape :: "py_value \<Rightarrow> int \<Rightarrow> py_value list \<Rightarrow> py_value list result" where
  "assign_shape extras sz shape =
     (if list_ex is_minus_one (drop 1 shape)
      then bindE (jget extras ''memory_layout'') (\<lambda>l.
             let (i, j) = (if l = PyStr ''NHWC'' then (1, 2) else (2, 3))
             in bindE (list_set shape i (PyInt sz)) (\<lambda>shape. list_set shape j (PyInt sz)))
      else Inr shape)"

fun py_list :: "py_value \<Rightarrow> py_value list result" where
  "py_list (PyList xs) = Inr xs"
| "py_list _ = Inl TypeError"

definition w4_input :: "w4_env \<Rightarrow> py_value \<Rightarrow> int \<Rightarrow> py_value \<Rightarrow> model_input result" where
  "w4_input W extras sz i =
     bindE (jget i ''name'') (\<lambda>n.
     bindE (bindE (jget i ''shape'') py_list) (\<lambda>shape.
     bindE (jget i ''dtype'') (\<lambda>t.
     bindE (assign_shape extras sz shape) (\<lambda>shape. w4_model_input W n (PyList shape) t))))"

definition w4_output :: "w4_env \<Rightarrow> py_value \<Rightarrow> model_output result" where
  "w4_output W x = bindE (jget x ''name'') (w4_model_output W)"

subsection \<open>The profile\<close>

text \<open>The profile of the input size, else of the largest size when that is large enough.\<close>

definition choose_profile :: "pydict \<Rightarrow> int \<Rightarrow> py_value result" where
  "choose_profile d sz =
     (case map_of d (PyStr (string_of_int sz)) of
        Some p \<Rightarrow> Inr p
      | None \<Rightarrow>
          bindE (mapE (\<lambda>k. bindE (py_str k) int_of_string) (dkeys d)) (\<lambda>sizes.
          bindE (py_max sizes) (\<lambda>m.
            if m < sz
            then Inl (Raised (''Could not find profile for input size '' @ string_of_int sz @ ''.''))
            else dlookup d (PyStr (string_of_int m)))))"

definition w4_profile :: "w4_env \<Rightarrow> py_value \<Rightarrow> int \<Rightarrow> profile_unit list result" where
  "w4_profile W extras sz =
     bindE (bindE (jget extras ''profile'') py_dict) (\<lambda>d.
     bindE (choose_profile d sz) (\<lambda>p. bindE (py_iter p) (mapE (w4_profile_unit W))))"

subsection \<open>The model\<close>

definition w4_base_model ::
    "w4_env \<Rightarrow> w4_request \<Rightarrow> w4_desc \<Rightarrow> w4_extras \<Rightarrow> string option \<Rightarrow> nxs_base_model result" where
  "w4_base_model W q d x transform =
     (let v = wx_data x; sz = wd_input_size d; b = wd_backbone d
      in bindE (bindE (bindE (jget v ''inputs'') py_iter) (mapE (w4_input W v sz))) (\<lambda>inputs.
         bindE (bindE (bindE (jget v ''outputs'') py_iter) (mapE (w4_output W))) (\<lambda>outputs.
         bindE (bindE (bindE (jget (wd_data d) ''dataset'') (\<lambda>s. jget s ''classnames''))
           (w4_class_names W)) (\<lambda>classes.
         bindE (w4_profile W v sz) (\<lambda>profile.
           Inr \<lparr>bm_user_name = wq_user_name q, bm_model_name = wq_model_name q, bm_framework = FW_ONNX,
                bm_model_desc = \<lparr>md_inputs = inputs, md_outputs = outputs, md_class_names = classes,
                  md_preprocessing_name = b, md_postprocessing_name = b,
                  md_transforming_name = (if transform \<noteq> None then b else ''''),
                  md_extra_preprocessing_metadata = Some ''{}'',
                  md_extra_postprocessing_metadata = Some ''{}'',
                  md_extra_transforming_metadata = Some ''{}''\<rparr>,
                bm_profile = profile, bm_use_gpu = wx_use_gpu x, bm_batching = wx_batching x,
                bm_cross_requests_batching = wx_cross_requests_batching x, bm_is_public = False,
                bm_is_custom_model = False\<rparr>)))))"

text \<open>Everything that is read: the files, the model, and the data for the pipeline.\<close>

definition prepare_w4_model ::
    "backend_env \<Rightarrow> w4_env \<Rightarrow> 's storage_ops \<Rightarrow> 's \<Rightarrow> w4_request \<Rightarrow>
       (model_files \<times> nxs_base_model \<times> py_value) result" where
  "prepare_w4_model E W S s q =
     bindE (load_description E W q) (\<lambda>d.
     bindE (predefined_functions S s (wd_backbone d)) (\<lambda>(pre, post, transform).
     bindE (load_extras E S s d) (\<lambda>x.
     bindE (or_else ''Could not download model.''
       (w4_store W (os_join (wq_blobstore_path q) ''saved_model/model.onnx''))) (\<lambda>m.
     bindE (w4_base_model W q d x transform) (\<lambda>b.
       Inr (\<lparr>mf_model = m, mf_preproc = Some pre, mf_postproc = Some post, mf_transform = transform\<rparr>,
            b, wx_data x))))))"

definition w4_params :: "w4_env \<Rightarrow> py_value \<Rightarrow> string \<Rightarrow> param_description list result" where
  "w4_params W extras k =
     bindE (py_dict extras) (\<lambda>d.
       let data = dget d (PyStr k) (PyDict [])
       in bindE (py_iter data) (mapE (\<lambda>p. bindE (py_getitem data p) (w4_param W p))))"

text \<open>The pipeline of the one model; the type of the output is one of two.\<close>

definition w4_pipeline_request ::
    "w4_env \<Rightarrow> w4_request \<Rightarrow> string \<Rightarrow> string \<Rightarrow> py_value \<Rightarrow> pipeline_request result" where
  "w4_pipeline_request W q kind uuid extras =
     bindE (w4_params W extras ''preproc_params'') (\<lambda>pre.
     bindE (w4_params W extras ''postproc_params'') (\<lambda>post.
     bindE (w4_params W extras ''transform_params'') (\<lambda>tr.
       Inr \<lparr>qr_user_name = wq_user_name q, qr_pipeline_groups = [[uuid]],
            qr_predefined_pipeline_uuid = Some '''', qr_is_public = False,
            qr_description = \<lparr>dn_pipeline_uuid = '''', dn_name = ''N/A'', dn_accuracy = ''N/A'',
              dn_params = ''N/A'', dn_flops = ''N/A'', dn_input_type = ''N/A'',
              dn_description = ''N/A'',
              dn_output_type = (if kind = ''detector'' then PO_DETECTION else PO_CLASSIFICATION),
              dn_preproc_params = pre, dn_postproc_params = post, dn_transform_params = tr\<rparr>\<rparr>)))"

definition register_w4_model ::
    "backend_env \<Rightarrow> w4_env \<Rightarrow> 'd mongo \<Rightarrow> 's storage_ops \<Rightarrow> registry_args \<Rightarrow> rat \<Rightarrow> string \<Rightarrow>
       string \<Rightarrow> string \<Rightarrow> w4_request \<Rightarrow> string \<Rightarrow> ('d, 's) registry \<Rightarrow>
       (('d, 's) registry, string) outcome" where
  "register_w4_model E W M S A now dt uuid fresh q kind r =
     (let dir = join_path (ra_tmp_dir A) uuid;
          (r2, out) =
            (case prepare_w4_model E W S (rg_storage r) q of
               Inl e \<Rightarrow> (r, Inl e)
             | Inr (files, b, extras) \<Rightarrow>
                 andThen (register_model M S A now dt uuid files b (Some 1, Some 1, Some 1) r) (\<lambda>r _.
                   case w4_pipeline_request W q kind uuid extras of
                     Inl e \<Rightarrow> (r, Inl e)
                   | Inr pq \<Rightarrow>
                       let (d, u) = register_pipeline M A fresh pq (rg_db r)
                       in (r\<lparr>rg_db := d\<rparr>, u)))
      in (r2\<lparr>rg_tmp_dirs := removeAll dir (rg_tmp_dirs r2)\<rparr>, out))"

end
