(* ===== verification/Nxs_Registry_Props.thy ===== *)
theory Nxs_Registry_Props
  imports Nxs_Registry Nxs_Backend Nxs_Preproc_Props
begin

section \<open>Properties of the registration\<close>

text \<open>
  What is registered is what the other components load: a pipeline with its groups of models, a
  model with its files. The converse side is the behaviour when the database refuses a write
  or a pipeline shares its first model with another one.
\<close>

subsection \<open>The database\<close>

lemma mongo_laws:
  assumes "mongo_ok M"
  shows "mg_find_models M d q = find_docs m_model_uuid (mg_models M d) q"
    "mg_find_pipelines M d q = find_docs p_pipeline_uuid (mg_pipelines M d) q"
    "mg_insert_model M d x = (e, d') \<Longrightarrow> mg_pipelines M d' = mg_pipelines M d \<and>
       mg_models M d' = (if e = None then mg_models M d @ [x] else mg_models M d)"
    "mg_insert_pipeline M d y = (e, d') \<Longrightarrow> mg_models M d' = mg_models M d \<and>
       mg_pipelines M d' = (if e = None then mg_pipelines M d @ [y] else mg_pipelines M d)"
    "mg_update_models M d q f = (None, d') \<Longrightarrow> mg_pipelines M d' = mg_pipelines M d \<and>
       mg_models M d' = map (\<lambda>x. if doc_matches m_model_uuid q x
         then x\<lparr>doc_value := f (doc_value x)\<rparr> else x) (mg_models M d)"
  using assms unfolding mongo_ok_def by blast+

text \<open>The database works: no operation raises.\<close>

definition mongo_up :: "'d mongo \<Rightarrow> bool" where
  "mongo_up M \<longleftrightarrow> (\<forall>d x. fst (mg_insert_model M d x) = None) \<and>
     (\<forall>d x. fst (mg_insert_pipeline M d x) = None) \<and>
     (\<forall>d q f. fst (mg_update_models M d q f) = None)"

lemma swallowing_up: "fst r = None \<Longrightarrow> swallowing r = (snd r, Inr ())"
  by (cases r) (simp add: swallowing_def)

definition in_shard :: "registry_args \<Rightarrow> 'a doc list \<Rightarrow> bool" where
  "in_shard A xs \<longleftrightarrow> list_all (\<lambda>x. doc_shard x = ra_shard A) xs"

lemma doc_matches_shard:
  "doc_shard x = ra_shard A \<Longrightarrow>
     doc_matches key \<lparr>dq_uuid = u, dq_shard = ra_shard A\<rparr> x \<longleftrightarrow> key (doc_value x) = u"
  by (simp add: doc_matches_def split: option.splits)

subsection \<open>What the updates do to a model\<close>

definition apply_group :: "nxs_model \<Rightarrow> string list \<Rightarrow> nxs_model" where
  "apply_group m g = (if length g > 1 \<and> hd g = m_model_uuid m then make_composite (tl g) m else m)"

definition apply_groups :: "string list list \<Rightarrow> nxs_model \<Rightarrow> nxs_model" where
  "apply_groups gs m = foldl apply_group m gs"

lemma apply_groups_simps [simp]:
  "apply_groups [] m = m" "apply_groups (g # gs) m = apply_groups gs (apply_group m g)"
  "apply_groups (gs @ hs) m = apply_groups hs (apply_groups gs m)"
  by (simp_all add: apply_groups_def)

lemma make_composite_uuid [simp]: "m_model_uuid (make_composite us m) = m_model_uuid m"
  by (simp add: make_composite_def)

lemma apply_group_uuid [simp]: "m_model_uuid (apply_group m g) = m_model_uuid m"
  by (simp add: apply_group_def)

lemma apply_groups_uuid [simp]: "m_model_uuid (apply_groups gs m) = m_model_uuid m"
  by (induction gs arbitrary: m) simp_all

lemma make_composite_apply_groups:
  "make_composite us (apply_groups gs m) = make_composite us m"
  by (induction gs arbitrary: m) (simp_all add: apply_group_def make_composite_def)

lemma apply_groups_idle:
  "(\<And>g. g \<in> set gs \<Longrightarrow> length g > 1 \<Longrightarrow> hd g \<noteq> m_model_uuid m) \<Longrightarrow> apply_groups gs m = m"
  by (induction gs arbitrary: m) (auto simp: apply_group_def)

text \<open>The last group that begins with the model decides.\<close>

lemma apply_groups_last:
  assumes "length g > 1" "hd g = m_model_uuid m"
    and "\<And>h. h \<in> set hs \<Longrightarrow> length h > 1 \<Longrightarrow> hd h \<noteq> hd g"
  shows "apply_groups (gs @ g # hs) m = make_composite (tl g) m"
proof -
  have "apply_group (apply_groups gs m) g = make_composite (tl g) m"
    using assms(1,2) by (simp add: apply_group_def make_composite_apply_groups)
  then show ?thesis using assms(2,3) by (simp add: apply_groups_idle)
qed

lemma updates_models:
  assumes "mongo_ok M" "mongo_up M" "in_shard A (mg_models M d)"
  shows "\<exists>d1. forEach (update_group M A) d gs = (d1, Inr ()) \<and> mg_pipelines M d1 = mg_pipelines M d \<and>
    mg_models M d1 = map (\<lambda>x. x\<lparr>doc_value := apply_groups gs (doc_value x)\<rparr>) (mg_models M d)"
  using assms(3)
proof (induction gs arbitrary: d)
  case (Cons g gs)
  obtain d1 where d1: "update_group M A d g = (d1, Inr ())" "mg_pipelines M d1 = mg_pipelines M d"
    "mg_models M d1 = map (\<lambda>x. x\<lparr>doc_value := apply_group (doc_value x) g\<rparr>) (mg_models M d)"
  proof (cases "length g > 1")
    case True
    obtain e d1 where up: "mg_update_models M d \<lparr>dq_uuid = hd g, dq_shard = ra_shard A\<rparr>
        (make_composite (tl g)) = (e, d1)" by force
    with assms(2) have [simp]: "e = None" unfolding mongo_up_def by (metis fst_conv)
    from mongo_laws(5) [OF assms(1), of d] up have
      *: "mg_pipelines M d1 = mg_pipelines M d" "mg_models M d1 = map (\<lambda>x. if doc_matches m_model_uuid
        \<lparr>dq_uuid = hd g, dq_shard = ra_shard A\<rparr> x
        then x\<lparr>doc_value := make_composite (tl g) (doc_value x)\<rparr> else x) (mg_models M d)"
      by simp_all
    have "mg_models M d1 = map (\<lambda>x. x\<lparr>doc_value := apply_group (doc_value x) g\<rparr>) (mg_models M d)"
      unfolding *(2) using Cons.prems True
      by (auto simp: in_shard_def list_all_iff doc_matches_shard apply_group_def)
    with True up *(1) show ?thesis by (intro that) (simp_all add: update_group_def swallowing_def)
  next
    case False
    then have "apply_group m g = m" for m by (simp add: apply_group_def)
    with False show ?thesis by (intro that [of d]) (simp_all add: update_group_def)
  qed
  have "in_shard A (mg_models M d1)"
    using Cons.prems by (simp add: d1(3) in_shard_def list_all_iff)
  from Cons.IH [OF this] obtain d2 where d2: "forEach (update_group M A) d1 gs = (d2, Inr ())"
    "mg_pipelines M d2 = mg_pipelines M d1"
    "mg_models M d2 = map (\<lambda>x. x\<lparr>doc_value := apply_groups gs (doc_value x)\<rparr>) (mg_models M d1)"
    by blast
  with d1 show ?case by simp
qed simp

lemma find_updated:
  "find_docs m_model_uuid (map (\<lambda>x. x\<lparr>doc_value := apply_groups gs (doc_value x)\<rparr>) xs)
     \<lparr>dq_uuid = u, dq_shard = None\<rparr> =
   map (apply_groups gs) (find_docs m_model_uuid xs \<lparr>dq_uuid = u, dq_shard = None\<rparr>)"
  by (induction xs) (auto simp: find_docs_def doc_matches_def)

lemma find_docs_uuid: "m \<in> set (find_docs key xs q) \<Longrightarrow> key m = dq_uuid q"
  by (auto simp: find_docs_def doc_matches_def)

lemma check_models_exist_iff:
  "check_models_exist M d us = Inr () \<longleftrightarrow>
     (\<forall>u \<in> set us. mg_find_models M d \<lparr>dq_uuid = u, dq_shard = None\<rparr> \<noteq> [])"
  by (induction us) auto

subsection \<open>A registered pipeline can be loaded\<close>

abbreviation by_uuid :: "string \<Rightarrow> db_query" where
  "by_uuid u \<equiv> \<lparr>dq_uuid = u, dq_shard = None\<rparr>"

lemma register_pipeline_Inr:
  assumes "register_pipeline M A fresh q d = (d', Inr u)" "mongo_ok M" "mongo_up M"
    "in_shard A (mg_models M d)"
  obtains firsts where
    "check_models_exist M d (concat (qr_pipeline_groups q)) = Inr ()"
    "mapE first_uuid (qr_pipeline_groups q) = Inr firsts"
    "mg_models M d' = map (\<lambda>x. x\<lparr>doc_value := apply_groups (qr_pipeline_groups q) (doc_value x)\<rparr>) (mg_models M d)"
    "mg_pipelines M d' = mg_pipelines M d @ [pipeline_doc A q u firsts]"
proof -
  let ?gs = "qr_pipeline_groups q"
  obtain d1 where d1: "forEach (update_group M A) d ?gs = (d1, Inr ())"
    "mg_pipelines M d1 = mg_pipelines M d"
    "mg_models M d1 = map (\<lambda>x. x\<lparr>doc_value := apply_groups ?gs (doc_value x)\<rparr>) (mg_models M d)"
    using updates_models [OF assms(2-4)] by blast
  from assms(1) obtain firsts where c: "check_models_exist M d (concat ?gs) = Inr ()"
    "new_pipeline_uuid M A fresh q d1 = Inr u" "mapE first_uuid ?gs = Inr firsts"
    by (auto simp: register_pipeline_def Let_def d1(1) andThen_eq_Inr split: sum.splits)
  obtain e d2 where ins: "mg_insert_pipeline M d1 (pipeline_doc A q u firsts) = (e, d2)" by force
  with assms(3) have e: "e = None" unfolding mongo_up_def by (metis fst_conv)
  with assms(1) c d1(1) ins have "d' = d2"
    by (auto simp: register_pipeline_def Let_def swallowing_def)
  with mongo_laws(4) [OF assms(2) ins] e d1 c show ?thesis by (intro that) simp_all
qed

lemma view_models:
  "mongo_ok M \<Longrightarrow> query_models (db_view M d) u = find_docs m_model_uuid (mg_models M d) (by_uuid u)"
  by (simp add: db_view_def mongo_laws(1))

lemma query_found:
  assumes "query_models D u \<noteq> []" "\<forall>m \<in> set (query_models D u). m_model_uuid m = u"
  shows "\<exists>m. query_model D u = Inr m \<and> m_model_uuid m = u"
  using assms by (auto simp: query_model_def neq_Nil_conv)

lemma mapE_query_found:
  assumes "\<forall>u \<in> set us. query_models D u \<noteq> [] \<and> (\<forall>m \<in> set (query_models D u). m_model_uuid m = u)"
  shows "\<exists>ms. mapE (query_model D) us = Inr ms \<and> map m_model_uuid ms = us"
  using assms
proof (induction us)
  case (Cons u us)
  with query_found [of D u] obtain m ms where "query_model D u = Inr m" "m_model_uuid m = u"
    "mapE (query_model D) us = Inr ms" "map m_model_uuid ms = us" by auto
  then show ?case by simp
qed simp

text \<open>Loading one group.\<close>

lemma load_group:
  assumes found: "\<forall>u \<in> set g. query_models D u \<noteq> [] \<and> (\<forall>m \<in> set (query_models D u). m_model_uuid m = u)"
    and g: "g \<noteq> []"
    and single: "length g = 1 \<Longrightarrow> \<forall>m \<in> set (query_models D (hd g)). m_model_type m = MT_SINGLE"
    and multi: "length g > 1 \<Longrightarrow> \<forall>m \<in> set (query_models D (hd g)).
      m_model_type m = MT_COMPOSITE \<and> m_collocated_model_uuids m = tl g"
  shows "\<exists>c. load_cmodel D (hd g) = Inr c \<and> map m_model_uuid (cm_component_models c) = g"
proof -
  obtain m ms where q: "query_models D (hd g) = m # ms" "m_model_uuid m = hd g"
    using found g by (cases g) (auto simp: neq_Nil_conv)
  then have m: "query_model D (hd g) = Inr m" by (simp add: query_model_def)
  show ?thesis
  proof (cases "length g > 1")
    case True
    have "\<forall>u \<in> set (tl g). query_models D u \<noteq> [] \<and> (\<forall>m \<in> set (query_models D u). m_model_uuid m = u)"
      using found by (auto dest: list.set_sel(2) [OF g])
    from mapE_query_found [OF this] obtain cs where
      "mapE (query_model D) (tl g) = Inr cs" "map m_model_uuid cs = tl g" by blast
    with m q multi [OF True] g show ?thesis by (simp add: load_cmodel_def)
  next
    case False
    with g have "length g = 1" by (cases g) auto
    with m q single show ?thesis by (auto simp: load_cmodel_def length_Suc_conv)
  qed
qed

lemma mapE_load_groups:
  assumes "\<forall>g \<in> set gs. \<exists>c. load_cmodel D (hd g) = Inr c \<and> map m_model_uuid (cm_component_models c) = g"
  shows "\<exists>cs. mapE (load_cmodel D) (map hd gs) = Inr cs \<and>
    map (map m_model_uuid \<circ> cm_component_models) cs = gs"
  using assms by (induction gs) auto

lemma mapE_first_uuid: "mapE first_uuid gs = Inr us \<longleftrightarrow> [] \<notin> set gs \<and> us = map hd gs"
proof (induction gs arbitrary: us)
  case (Cons g gs)
  then show ?case by (cases g) (auto simp: first_uuid_def bindE_eq_Inr)
qed auto

text \<open>C27: What \<open>_register_pipeline\<close> accepts is what the scheduler and the frontends load: when the database works, the new uuid is not in use, the groups begin with different models and a group of one model names a single model, then loading the pipeline by its uuid returns a compository model per group, whose component models are the models of the group in their order.\<close>

theorem registered_pipeline_loads:
  assumes ok: "mongo_ok M" "mongo_up M" and shard: "in_shard A (mg_models M d)"
    and reg: "register_pipeline M A fresh q d = (d', Inr u)"
    and new: "mg_find_pipelines M d (by_uuid u) = []"
    and dist: "distinct (map hd (qr_pipeline_groups q))"
    and single: "\<forall>g \<in> set (qr_pipeline_groups q). length g = 1 \<longrightarrow>
      (\<forall>m \<in> set (mg_find_models M d (by_uuid (hd g))). m_model_type m = MT_SINGLE)"
  shows "\<exists>pr. get_from_db (db_view M d') u now = Inr (Some pr) \<and>
    p_pipeline pr = map hd (qr_pipeline_groups q) \<and>
    map (map m_model_uuid \<circ> cm_component_models) (pi_models pr) = qr_pipeline_groups q"
proof -
  let ?gs = "qr_pipeline_groups q" and ?D = "db_view M d'"
  obtain firsts where r: "check_models_exist M d (concat ?gs) = Inr ()"
    "mapE first_uuid ?gs = Inr firsts"
    "mg_models M d' = map (\<lambda>x. x\<lparr>doc_value := apply_groups ?gs (doc_value x)\<rparr>) (mg_models M d)"
    "mg_pipelines M d' = mg_pipelines M d @ [pipeline_doc A q u firsts]"
    by (rule register_pipeline_Inr [OF reg ok shard])
  have ne: "g \<noteq> []" if "g \<in> set ?gs" for g using r(2) that by (auto simp: mapE_first_uuid)
  have look: "query_models ?D v = map (apply_groups ?gs) (mg_find_models M d (by_uuid v))" for v
    by (simp add: view_models [OF ok(1)] r(3) find_updated mongo_laws(1) [OF ok(1)])
  have uuid: "\<forall>m \<in> set (query_models ?D v). m_model_uuid m = v" for v
    by (auto simp: view_models [OF ok(1)] dest: find_docs_uuid)
  have "\<exists>c. load_cmodel ?D (hd g) = Inr c \<and> map m_model_uuid (cm_component_models c) = g"
    if g: "g \<in> set ?gs" for g
  proof (rule load_group)
    show "\<forall>v \<in> set g. query_models ?D v \<noteq> [] \<and> (\<forall>m \<in> set (query_models ?D v). m_model_uuid m = v)"
      using r(1) g uuid by (auto simp: check_models_exist_iff look)
    show "g \<noteq> []" by (rule ne [OF g])
    obtain as bs where split: "?gs = as @ g # bs" using g by (auto dest: split_list)
    have "hd g \<notin> hd ` (set as \<union> set bs)" using dist by (auto simp: split)
    then have other: "hd h \<noteq> hd g" if "h \<in> set as \<union> set bs" for h
      using imageI [OF that, of hd] by metis
    have m: "m_model_uuid m = hd g" if "m \<in> set (mg_find_models M d (by_uuid (hd g)))" for m
      using that by (auto simp: mongo_laws(1) [OF ok(1)] dest: find_docs_uuid)
    show "\<forall>m \<in> set (query_models ?D (hd g)). m_model_type m = MT_COMPOSITE \<and>
        m_collocated_model_uuids m = tl g" if "length g > 1"
      using m that other
      by (auto simp: look split apply_groups_last [unfolded apply_groups_simps] make_composite_def
          apply_groups_idle apply_group_def)
    show "\<forall>m \<in> set (query_models ?D (hd g)). m_model_type m = MT_SINGLE" if "length g = 1"
    proof -
      have "apply_groups ?gs m = m" if "m \<in> set (mg_find_models M d (by_uuid (hd g)))" for m
        using m [OF that] other \<open>length g = 1\<close> by (intro apply_groups_idle) (auto simp: split)
      with single g that show ?thesis by (auto simp: look)
    qed
  qed
  then obtain cs where cs: "mapE (load_cmodel ?D) (map hd ?gs) = Inr cs"
    "map (map m_model_uuid \<circ> cm_component_models) cs = ?gs"
    using mapE_load_groups by blast
  have "query_pipelines ?D u = [nxs_pipeline.truncate (doc_value (pipeline_doc A q u (map hd ?gs)))]"
    using new r(2,4) by (simp add: db_view_def mongo_laws(2) [OF ok(1)] find_docs_def doc_matches_def
        pipeline_doc_def mapE_first_uuid)
  with cs show ?thesis
    by (simp add: get_from_db_def pipeline_doc_def nxs_pipeline.truncate_def)
qed

subsection \<open>What goes wrong\<close>


subsection \<open>Registered models\<close>

definition storage_up :: "'s storage_ops \<Rightarrow> bool" where
  "storage_up S \<longleftrightarrow> (\<forall>s n c dir. \<exists>s'. so_upload S s n c dir = Inr s')"

text \<open>Downloads succeed on more and more paths while files are uploaded.\<close>

definition available :: "'s storage_ops \<Rightarrow> 's \<Rightarrow> string \<Rightarrow> bool" where
  "available S s p \<longleftrightarrow> \<not> isl (so_download S s p)"

lemma upload_up:
  assumes "storage_ok S" "storage_up S"
  shows "\<exists>s'. upload S name c dir (r\<lparr>rg_storage := s\<rparr>) = (r\<lparr>rg_storage := s'\<rparr>, Inr ()) \<and>
    available S s' (join_path dir name) \<and> (\<forall>p. available S s p \<longrightarrow> available S s' p)"
proof -
  obtain s' where s': "so_upload S s name c dir = Inr s'"
    using assms(2) unfolding storage_up_def by blast
  with assms(1) have "\<forall>p. so_download S s' p =
      (if p = join_path dir name then Inr c else so_download S s p)"
    unfolding storage_ok_def by blast
  with s' show ?thesis by (intro exI [of _ s']) (simp add: upload_def available_def)
qed

text \<open>The file of a function that is downloaded later, if the model names one that exists.\<close>

abbreviation fn_path :: "string \<Rightarrow> string \<Rightarrow> string" where
  "fn_path dir name \<equiv> join_path dir (name @ ''.py'')"

lemma upload_fn_up:
  assumes "storage_ok S" "storage_up S"
  shows "\<exists>s' name'. upload_fn S uuid c dir name (r\<lparr>rg_storage := s\<rparr>) =
      (r\<lparr>rg_storage := s'\<rparr>, Inr name') \<and> name' = (if c = None then name else uuid) \<and>
    (c \<noteq> None \<or> available S s (fn_path dir name) \<longrightarrow> available S s' (fn_path dir name')) \<and>
    (\<forall>p. available S s p \<longrightarrow> available S s' p)"
proof (cases c)
  case None
  then show ?thesis by (intro exI [of _ s]) (simp add: upload_fn_def)
next
  case (Some x)
  obtain s' where "upload S (uuid @ ''.py'') x dir (r\<lparr>rg_storage := s\<rparr>) = (r\<lparr>rg_storage := s'\<rparr>, Inr ())"
    "available S s' (fn_path dir uuid)" "\<forall>p. available S s p \<longrightarrow> available S s' p"
    using upload_up [OF assms] by blast
  with Some show ?thesis by (intro exI [of _ s'] exI [of _ uuid]) (simp add: upload_fn_def)
qed

definition named_files ::
    "'s storage_ops \<Rightarrow> 's \<Rightarrow> model_description \<Rightarrow> model_files \<Rightarrow> bool" where
  "named_files S s d files \<longleftrightarrow>
     (mf_preproc files \<noteq> None \<or> available S s (fn_path ''preprocessing'' (md_preprocessing_name d))) \<and>
     (mf_postproc files \<noteq> None \<or> available S s (fn_path ''postprocessing'' (md_postprocessing_name d))) \<and>
     (mf_transform files \<noteq> None \<or> lower (md_transforming_name d) \<in> {'''', ''none''} \<or>
        available S s (fn_path ''transforming'' (md_transforming_name d)))"

definition downloadable :: "'s storage_ops \<Rightarrow> 's \<Rightarrow> nxs_model \<Rightarrow> bool" where
  "downloadable S s m \<longleftrightarrow> (let d = bm_model_desc m in
     available S s (join_path ''models'' (m_model_uuid m)) \<and>
     available S s (fn_path ''preprocessing'' (md_preprocessing_name d)) \<and>
     available S s (fn_path ''postprocessing'' (md_postprocessing_name d)) \<and>
     (lower (md_transforming_name d) \<in> {'''', ''none''} \<or>
        available S s (fn_path ''transforming'' (md_transforming_name d))))"

lemma register_model_inserts:
  assumes "storage_ok S" "storage_up S"
  shows "\<exists>s' m. register_model M S A now dt uuid files b nums r =
      insert_model M A m (r\<lparr>rg_storage := s'\<rparr>) \<and>
    m_model_uuid m = uuid \<and> m_model_type m = MT_SINGLE \<and> bm_profile m = bm_profile b \<and>
    (named_files S (rg_storage r) (bm_model_desc b) files \<longrightarrow> downloadable S s' m)"
proof -
  let ?d = "bm_model_desc b" and ?s = "rg_storage r"
  obtain s1 where 1: "upload S uuid (mf_model files) ''models'' r = (r\<lparr>rg_storage := s1\<rparr>, Inr ())"
    "available S s1 (join_path ''models'' uuid)" "\<And>p. available S ?s p \<Longrightarrow> available S s1 p"
    using upload_up [OF assms, where name = uuid and c = "mf_model files" and dir = "''models''"
        and r = r and s = ?s] by auto
  obtain s2 pre where 2: "upload_fn S uuid (mf_preproc files) ''preprocessing''
      (md_preprocessing_name ?d) (r\<lparr>rg_storage := s1\<rparr>) = (r\<lparr>rg_storage := s2\<rparr>, Inr pre)"
    "mf_preproc files \<noteq> None \<or> available S s1 (fn_path ''preprocessing'' (md_preprocessing_name ?d))
       \<Longrightarrow> available S s2 (fn_path ''preprocessing'' pre)" "\<And>p. available S s1 p \<Longrightarrow> available S s2 p"
    using upload_fn_up [OF assms] by blast
  obtain s3 post where 3: "upload_fn S uuid (mf_postproc files) ''postprocessing''
      (md_postprocessing_name ?d) (r\<lparr>rg_storage := s2\<rparr>) = (r\<lparr>rg_storage := s3\<rparr>, Inr post)"
    "mf_postproc files \<noteq> None \<or> available S s2 (fn_path ''postprocessing'' (md_postprocessing_name ?d))
       \<Longrightarrow> available S s3 (fn_path ''postprocessing'' post)" "\<And>p. available S s2 p \<Longrightarrow> available S s3 p"
    using upload_fn_up [OF assms] by blast
  obtain s4 tr where 4: "upload_fn S uuid (mf_transform files) ''transforming''
      (md_transforming_name ?d) (r\<lparr>rg_storage := s3\<rparr>) = (r\<lparr>rg_storage := s4\<rparr>, Inr tr)"
    "tr = (if mf_transform files = None then md_transforming_name ?d else uuid)"
    "mf_transform files \<noteq> None \<or> available S s3 (fn_path ''transforming'' (md_transforming_name ?d))
       \<Longrightarrow> available S s4 (fn_path ''transforming'' tr)" "\<And>p. available S s3 p \<Longrightarrow> available S s4 p"
    using upload_fn_up [OF assms] by blast
  obtain np npre npost where n: "nums = (np, npre, npost)" by (cases nums)
  define m where "m = model_of_base (b\<lparr>bm_model_desc := ?d\<lparr>md_preprocessing_name := pre,
    md_postprocessing_name := post, md_transforming_name := tr\<rparr>\<rparr>) nums uuid now dt"
  have "register_model M S A now dt uuid files b nums r = insert_model M A m (r\<lparr>rg_storage := s4\<rparr>)"
    using 1(1) 2(1) 3(1) 4(1) by (simp add: register_model_def Let_def m_def)
  moreover have m: "m_model_uuid m = uuid" "m_model_type m = MT_SINGLE" "bm_profile m = bm_profile b"
    "md_preprocessing_name (bm_model_desc m) = pre" "md_postprocessing_name (bm_model_desc m) = post"
    "md_transforming_name (bm_model_desc m) = tr"
    by (simp_all add: m_def model_of_base_def n nxs_base_model.extend_def)
  moreover have "downloadable S s4 m" if f: "named_files S ?s ?d files"
  proof -
    have "available S s2 (fn_path ''preprocessing'' pre)"
      using f 1(3) 2(2) by (auto simp: named_files_def)
    moreover have "available S s3 (fn_path ''postprocessing'' post)"
      using f 1(3) 2(3) 3(2) by (auto simp: named_files_def)
    moreover have "lower tr \<in> {'''', ''none''} \<or> available S s4 (fn_path ''transforming'' tr)"
      using f 1(3) 2(3) 3(3) 4(2,3) by (cases "mf_transform files") (auto simp: named_files_def)
    ultimately show ?thesis
      using 1(2) 2(3) 3(3) 4(4) by (simp add: downloadable_def Let_def m)
  qed
  ultimately show ?thesis by blast
qed

text \<open>The steps of a registration whose files could be fetched.\<close>

lemma submit_model_inserts:
  assumes "storage_ok S" "storage_up S" "has_bs1 (bm_profile q)" "fetch_files fetch q = Inr files"
  obtains s' m dirs where
    "submit_model M S A fetch now dt uuid q r =
       (let (r2, x) = insert_model M A m (r\<lparr>rg_tmp_dirs := dirs, rg_storage := s'\<rparr>)
        in (r2\<lparr>rg_tmp_dirs := removeAll (join_path (ra_tmp_dir A) uuid) (rg_tmp_dirs r2)\<rparr>,
            bindE x (\<lambda>_. Inr uuid)))"
    "m_model_uuid m = uuid" "bm_profile m = bm_profile q"
    "named_files S (rg_storage r) (bm_model_desc q) files \<Longrightarrow> downloadable S s' m"
proof -
  let ?nums = "(rr_num_request_pullers q, rr_num_preprocessors q, rr_num_postprocessors q)"
  define dirs where "dirs = List.insert (join_path (ra_tmp_dir A) uuid) (rg_tmp_dirs r)"
  obtain s' m where reg: "register_model M S A now dt uuid files (nxs_base_model.truncate q) ?nums
      (r\<lparr>rg_tmp_dirs := dirs\<rparr>) = insert_model M A m (r\<lparr>rg_tmp_dirs := dirs, rg_storage := s'\<rparr>)"
    "m_model_uuid m = uuid" "bm_profile m = bm_profile q"
    "named_files S (rg_storage r) (bm_model_desc q) files \<Longrightarrow> downloadable S s' m"
    using register_model_inserts [OF assms(1,2), of M A now dt uuid files "nxs_base_model.truncate q"
        ?nums "r\<lparr>rg_tmp_dirs := dirs\<rparr>"]
    by (auto simp: nxs_base_model.truncate_def)
  moreover have "bm_profile q \<noteq> []" using assms(3) by (auto simp: has_bs1_def)
  ultimately show ?thesis
    using assms(3,4) by (intro that [where s' = s' and m = m and dirs = dirs]) (simp_all add: submit_model_def Let_def dirs_def)
qed

text \<open>The database layer swallows exceptions: when the insertion of a model fails for another reason than a missing shard key, the registration is answered with the model's uuid although no such model is stored.\<close>

theorem failed_insert_reports_success:
  assumes ok: "mongo_ok M" "storage_ok S" "storage_up S" and q: "has_bs1 (bm_profile q)"
    and files: "fetch_files fetch q = Inr files"
    and fails: "\<And>d x. fst (mg_insert_model M d x) = Some msg"
      "\<not> sublist ''document does not contain shard key'' msg"
  shows "\<exists>r'. submit_model M S A fetch now dt uuid q r = (r', Inr uuid) \<and>
    mg_models M (rg_db r') = mg_models M (rg_db r)"
proof (rule submit_model_inserts [OF ok(2,3) q files, of M A now dt uuid r])
  fix s' m dirs
  let ?r = "r\<lparr>rg_tmp_dirs := dirs, rg_storage := s'\<rparr>"
  obtain e d' where d': "mg_insert_model M (rg_db r) \<lparr>doc_shard = ra_shard A, doc_value = m\<rparr> = (e, d')"
    by force
  with fails(1) have "e = Some msg" by (metis fst_conv)
  with d' mongo_laws(3) [OF ok(1) d'] fails(2)
  have "insert_model M A m ?r = (?r\<lparr>rg_db := d'\<rparr>, Inr ())" "mg_models M d' = mg_models M (rg_db r)"
    by (simp_all add: insert_model_def swallowing_def)
  moreover assume "submit_model M S A fetch now dt uuid q r =
       (let (r2, x) = insert_model M A m ?r
        in (r2\<lparr>rg_tmp_dirs := removeAll (join_path (ra_tmp_dir A) uuid) (rg_tmp_dirs r2)\<rparr>,
            bindE x (\<lambda>_. Inr uuid)))"
  ultimately show ?thesis by simp
qed

subsection \<open>From the registration to the backends\<close>

lemma available_join [simp]: "join_path dir name = dir @ ''/'' @ name"
  by (simp add: join_path_def)

lemma download_registered:
  assumes D: "bd_storage D = available S s" and m: "downloadable S s m"
  shows "\<exists>out. download_models D [m] b = Inr out"
proof -
  have "\<exists>s1. fetch_model D m b = Inr s1"
    using m by (auto simp: fetch_model_def get_model_path_def D downloadable_def Let_def
        split: option.splits)
  then obtain s1 where s1: "fetch_model D m b = Inr s1" by blast
  show ?thesis
    using m s1
    by (auto simp: download_pipelined_component_model_def download_arbitrary_component_model_def
        storage_download_def D downloadable_def Let_def)
qed

text \<open>What the frontend registers, a backend can deploy: after a successful registration of a model under a fresh uuid, whose functions were given by address or name files that exist in the storage, a backend that reads the same database and storage finds exactly this model under the uuid and can download all of its files.\<close>

theorem registered_model_is_deployable:
  assumes ok: "mongo_ok M" "mongo_up M" "storage_ok S" "storage_up S"
    and q: "has_bs1 (bm_profile q)" "fetch_files fetch q = Inr files"
      "named_files S (rg_storage r) (bm_model_desc q) files"
    and fresh: "mg_find_models M (rg_db r) (by_uuid uuid) = []"
    and reg: "submit_model M S A fetch now dt uuid q r = (r', Inr uuid)"
    and backend: "bd_db D = db_view M (rg_db r')" "bd_storage D = available S (rg_storage r')"
  shows "\<exists>m. query_models (bd_db D) uuid = [m] \<and> bm_profile m = bm_profile q \<and>
    (\<exists>out. download_models D [m] b = Inr out)"
proof (rule submit_model_inserts [OF ok(3,4) q(1,2), of M A now dt uuid r])
  fix s' m dirs
  let ?r = "r\<lparr>rg_tmp_dirs := dirs, rg_storage := s'\<rparr>"
  assume m: "m_model_uuid m = uuid" "bm_profile m = bm_profile q"
    "named_files S (rg_storage r) (bm_model_desc q) files \<Longrightarrow> downloadable S s' m"
    and sub: "submit_model M S A fetch now dt uuid q r =
       (let (r2, x) = insert_model M A m ?r
        in (r2\<lparr>rg_tmp_dirs := removeAll (join_path (ra_tmp_dir A) uuid) (rg_tmp_dirs r2)\<rparr>,
            bindE x (\<lambda>_. Inr uuid)))"
  obtain e d' where d': "mg_insert_model M (rg_db r) \<lparr>doc_shard = ra_shard A, doc_value = m\<rparr> = (e, d')"
    by force
  with ok(2) have e: "e = None" unfolding mongo_up_def by (metis fst_conv)
  with d' sub reg have r': "rg_db r' = d'" "rg_storage r' = s'"
    by (auto simp: insert_model_def swallowing_def)
  have "query_models (bd_db D) uuid = [m]"
    using fresh m(1) mongo_laws(3) [OF ok(1) d'] e
    by (simp add: backend r' view_models [OF ok(1)] mongo_laws(1) [OF ok(1)] find_docs_def
        doc_matches_def)
  with m q(3) download_registered [of D S s' m b] backend(2) r'(2) show ?thesis by auto
qed

text \<open>C29: The check of the frontend that a profile has batch size 1 is what keeps the batching of the backends from looping: for a model whose registration was accepted, the preprocessing process splits every list of requests into batches in finitely many rounds, whatever batch size of at least 1 the scheduler planned.\<close>

theorem accepted_model_batches_end:
  assumes "submit_model M S A fetch now dt uuid q r = (r', Inr uuid)"
    and "pc_supported_batch_sizes P = supported_batch_sizes (bm_profile q) (pc_max_batch_size P)"
    and "1 \<le> pc_max_batch_size P"
  shows "\<exists>x. send_batches E P current s = Some x"
proof -
  have "has_bs1 (bm_profile q)"
    using assms(1) by (auto simp: submit_model_def Let_def split: if_splits)
  then have "1 \<in> set (supported_batch_sizes (bm_profile q) (pc_max_batch_size P))"
    using assms(3) by (auto simp: supported_batch_sizes_def has_bs1_def list_ex_iff)
  then show ?thesis
    using send_batches_ends [of P E current s] assms(2,3) by (auto simp: batch_size_ok_def)
qed

subsection \<open>A concrete registry\<close>

type_synonym sample_docs = "nxs_model doc list \<times> pipeline_document doc list"

text \<open>A database that refuses insertions when \<open>err\<close> is a text, and files as a dictionary.\<close>

definition sample_mongo :: "string option \<Rightarrow> sample_docs mongo" where
  "sample_mongo err = \<lparr>mg_models = fst, mg_pipelines = snd,
     mg_find_models = (\<lambda>d. find_docs m_model_uuid (fst d)),
     mg_find_pipelines = (\<lambda>d. find_docs p_pipeline_uuid (snd d)),
     mg_find_public = (\<lambda>d sh. map doc_value (filter (\<lambda>x. p_is_public (doc_value x) \<and>
        (case sh of None \<Rightarrow> True | Some s \<Rightarrow> doc_shard x = Some s)) (snd d))),
     mg_insert_model = (\<lambda>(ms, ps) x. if err = None then (None, (ms @ [x], ps)) else (err, (ms, ps))),
     mg_insert_pipeline = (\<lambda>(ms, ps) x. if err = None then (None, (ms, ps @ [x])) else (err, (ms, ps))),
     mg_update_models = (\<lambda>(ms, ps) q f. (None, (map (\<lambda>x. if doc_matches m_model_uuid q x
         then x\<lparr>doc_value := f (doc_value x)\<rparr> else x) ms, ps)))\<rparr>"

lemma sample_mongo_simps [simp]:
  "mg_models (sample_mongo err) d = fst d" "mg_pipelines (sample_mongo err) d = snd d"
  "mg_find_models (sample_mongo err) d = find_docs m_model_uuid (fst d)"
  "mg_find_pipelines (sample_mongo err) d = find_docs p_pipeline_uuid (snd d)"
  "mg_insert_model (sample_mongo err) (ms, ps) x =
     (if err = None then (None, (ms @ [x], ps)) else (err, (ms, ps)))"
  "mg_insert_pipeline (sample_mongo err) (ms, ps) y =
     (if err = None then (None, (ms, ps @ [y])) else (err, (ms, ps)))"
  "mg_update_models (sample_mongo err) (ms, ps) q f = (None, (map (\<lambda>x. if doc_matches m_model_uuid q x
     then x\<lparr>doc_value := f (doc_value x)\<rparr> else x) ms, ps))"
  by (simp_all add: sample_mongo_def)

lemma sample_mongo_refuses [simp]: "fst (mg_insert_model (sample_mongo (Some msg)) d x) = Some msg"
  by (cases d) simp

lemma sample_mongo_ok [simp]: "mongo_ok (sample_mongo err)" "mongo_up (sample_mongo None)"
  by (auto simp: mongo_ok_def mongo_up_def sample_mongo_def)

definition sample_files :: "(string \<Rightarrow> string option) storage_ops" where
  "sample_files = \<lparr>so_upload = (\<lambda>s n c dir. Inr (s(join_path dir n \<mapsto> c))),
     so_download = (\<lambda>s p. case s p of None \<Rightarrow> Inl (Raised ''StorageException'') | Some c \<Rightarrow> Inr c)\<rparr>"

lemma sample_files_ok [simp]: "storage_ok sample_files" "storage_up sample_files"
  by (auto simp: storage_ok_def storage_up_def sample_files_def)

definition sample_docs :: sample_docs where
  "sample_docs = (map (\<lambda>u. \<lparr>doc_shard = None, doc_value = sample_model u 10 6\<rparr>) [''a'', ''b'', ''c''], [])"

definition sample_description :: pipeline_description where
  "sample_description = \<lparr>dn_pipeline_uuid = '''', dn_name = ''N/A'', dn_accuracy = ''N/A'',
     dn_params = ''N/A'', dn_flops = ''N/A'', dn_input_type = ''N/A'', dn_description = ''N/A'',
     dn_output_type = PO_CUSTOM, dn_preproc_params = [], dn_postproc_params = [],
     dn_transform_params = []\<rparr>"

definition sample_registration_request :: "string option \<Rightarrow> string list list \<Rightarrow> pipeline_request" where
  "sample_registration_request u gs = \<lparr>qr_user_name = ''u'', qr_pipeline_groups = gs,
     qr_predefined_pipeline_uuid = u, qr_is_public = True, qr_description = sample_description\<rparr>"

definition sample_registry_args :: registry_args where
  "sample_registry_args = \<lparr>ra_shard = None, ra_tmp_dir = ''tmp''\<rparr>"

lemmas registry_samples = sample_docs_def sample_registration_request_def
  sample_registry_args_def sample_model_def find_docs_def doc_matches_def

lemma sample_registration:
  "\<exists>d'. register_pipeline (sample_mongo None) sample_registry_args ''new''
     (sample_registration_request None [[''a'', ''b''], [''c'']]) sample_docs = (d', Inr ''new'')"
  by (simp add: register_pipeline_def update_group_def swallowing_def new_pipeline_uuid_def
      first_uuid_def registry_samples)

theorem registered_pipeline_loads_witness:
  "\<exists>d' pr. register_pipeline (sample_mongo None) sample_registry_args ''new''
       (sample_registration_request None [[''a'', ''b''], [''c'']]) sample_docs = (d', Inr ''new'') \<and>
     get_from_db (db_view (sample_mongo None) d') ''new'' 0 = Inr (Some pr) \<and>
     p_pipeline pr = [''a'', ''c''] \<and>
     map (map m_model_uuid \<circ> cm_component_models) (pi_models pr) = [[''a'', ''b''], [''c'']]"
proof -
  obtain d' where d': "register_pipeline (sample_mongo None) sample_registry_args ''new''
      (sample_registration_request None [[''a'', ''b''], [''c'']]) sample_docs = (d', Inr ''new'')"
    using sample_registration by blast
  have "in_shard sample_registry_args (mg_models (sample_mongo None) sample_docs)"
    by (simp add: in_shard_def registry_samples)
  from registered_pipeline_loads [OF _ _ this d', of 0] d' show ?thesis
    by (auto simp: registry_samples)
qed


definition sample_model_request :: model_request where
  "sample_model_request = nxs_base_model.extend (nxs_base_model.truncate (sample_model ''x'' 10 6))
     \<lparr>rr_url = ''m'', rr_preproc_url = ''pre'', rr_postproc_url = ''post'', rr_transfrom_url = '''',
      rr_predefined_model_uuid = None, rr_num_request_pullers = Some 1,
      rr_num_preprocessors = Some 1, rr_num_postprocessors = Some 1\<rparr>"

definition sample_registry :: "(sample_docs, string \<Rightarrow> string option) registry" where
  "sample_registry = \<lparr>rg_db = sample_docs, rg_storage = (\<lambda>_. None), rg_tmp_dirs = []\<rparr>"

abbreviation sample_submit ::
    "string option \<Rightarrow> (sample_docs, string \<Rightarrow> string option) registry \<times> string result" where
  "sample_submit err \<equiv> submit_model (sample_mongo err) sample_files sample_registry_args
     (\<lambda>url. Inr url) 0 ''today'' ''new'' sample_model_request sample_registry"

definition sample_fetched :: model_files where
  "sample_fetched = \<lparr>mf_model = ''m'', mf_preproc = Some ''pre'', mf_postproc = Some ''post'',
     mf_transform = None\<rparr>"

lemma sample_model_request_ok:
  "has_bs1 (bm_profile sample_model_request)"
  "fetch_files (\<lambda>url. Inr url) sample_model_request = Inr sample_fetched"
  "named_files sample_files (rg_storage sample_registry) (bm_model_desc sample_model_request) sample_fetched"
  by (simp_all add: sample_model_request_def has_bs1_def fetch_files_def fetch_fn_def sample_fetched_def
      named_files_def lower_def nxs_base_model.extend_def nxs_base_model.truncate_def sample_model_def
      sample_profile_def sample_desc_def)

theorem failed_insert_reports_success_witness:
  "\<exists>r'. sample_submit (Some ''timeout'') = (r', Inr ''new'') \<and>
     mg_models (sample_mongo (Some ''timeout'')) (rg_db r') =
       mg_models (sample_mongo (Some ''timeout'')) (rg_db sample_registry)"
  by (rule failed_insert_reports_success [OF _ _ _ sample_model_request_ok(1,2), where msg = "''timeout''"])
    (auto simp: case_prod_unfold dest: sublist_length_le)

lemma sample_submit_Inr: "\<exists>r'. sample_submit None = (r', Inr ''new'')"
proof (rule submit_model_inserts [OF _ _ sample_model_request_ok(1,2), of sample_files
      "sample_mongo None" sample_registry_args 0 "''today''" "''new''" sample_registry])
qed (auto simp: insert_model_def swallowing_def sample_registry_def sample_docs_def)

definition sample_reader ::
    "(sample_docs, string \<Rightarrow> string option) registry \<Rightarrow> (string \<times> nxs_compository_model) option backend_deps"
  where
  "sample_reader r = \<lparr>bd_lru = sample_lru, bd_db = db_view (sample_mongo None) (rg_db r),
     bd_storage = available sample_files (rg_storage r), bd_is_zip = (\<lambda>_. True), bd_gpu = None,
     bd_dir = ''nxs''\<rparr>"

theorem registered_model_is_deployable_witness:
  "\<exists>r' m out. sample_submit None = (r', Inr ''new'') \<and>
     query_models (db_view (sample_mongo None) (rg_db r')) ''new'' = [m] \<and>
     download_models (sample_reader r') [m]
       (init_backend (sample_reader r') ''b'' None (new_storage_cache ''tmp'' 50)) = Inr out"
proof -
  obtain r' where r': "sample_submit None = (r', Inr ''new'')" using sample_submit_Inr by blast
  have new: "mg_find_models (sample_mongo None) (rg_db sample_registry) (by_uuid ''new'') = []"
    by (simp add: sample_registry_def registry_samples)
  from registered_model_is_deployable [OF sample_mongo_ok sample_files_ok sample_model_request_ok new r',
      of "sample_reader r'" "init_backend (sample_reader r') ''b'' None (new_storage_cache ''tmp'' 50)"]
  show ?thesis using r' by (auto simp: sample_reader_def)
qed

theorem accepted_model_batches_end_witness:
  "\<exists>x. send_batches sample_backend_env
     ((sample_preproc (supported_batch_sizes (bm_profile sample_model_request) 4)))
     [sample_item, sample_item, sample_item] sample_preproc_state = Some x"
proof -
  obtain r' where r': "sample_submit None = (r', Inr ''new'')" using sample_submit_Inr by blast
  show ?thesis by (rule accepted_model_batches_end [OF r']) (simp_all add: sample_preproc_def)
qed

end
