(* ===== verification/Nxs_W4_Props.thy ===== *)
theory Nxs_W4_Props
  imports Nxs_W4_Model Nxs_Registry_Props
begin

section \<open>The frontend: properties of models with predefined functions\<close>

text \<open>
  Which profile a model gets, and what the backends see of a model and of its pipeline after a
  registration.
\<close>

subsection \<open>The profile\<close>

lemma py_max_Inr: "py_max xs = Inr m \<longleftrightarrow> xs \<noteq> [] \<and> m = Max (set xs)"
  by (cases xs) (auto simp: py_max_def Max.set_eq_fold simp del: set_simps)

text \<open>The key of a size, and a dictionary whose sizes are all at most \<open>n\<close>.\<close>

abbreviation size_key :: "int \<Rightarrow> py_value" where
  "size_key n \<equiv> PyStr (string_of_int n)"

definition sizes_upto :: "int \<Rightarrow> pydict \<Rightarrow> bool" where
  "sizes_upto n d \<longleftrightarrow> list_all (\<lambda>k. \<exists>s i. k = PyStr s \<and> int_of_string s = Inr i \<and> i \<le> n) (dkeys d)"

lemma py_str_Inr: "py_str v = Inr s \<longleftrightarrow> v = PyStr s"
  by (cases v) auto

lemma mapE_sizes:
  "mapE (\<lambda>k. bindE (py_str k) int_of_string) ks = Inr ns \<Longrightarrow>
     list_all (\<lambda>k. \<exists>s i. k = PyStr s \<and> int_of_string s = Inr i \<and> i \<in> set ns) ks"
proof (induction ks arbitrary: ns)
  case (Cons k ks)
  then obtain s i ns' where k: "k = PyStr s" "int_of_string s = Inr i" "ns = i # ns'"
    "mapE (\<lambda>k. bindE (py_str k) int_of_string) ks = Inr ns'"
    by (auto simp: bindE_eq_Inr py_str_Inr)
  from Cons.IH [OF k(4)] k(1-3) show ?case by (auto simp: list_all_iff)
qed simp

lemma choose_profile_Inr:
  assumes "choose_profile d sz = Inr p"
  shows "\<exists>n \<ge> sz. map_of d (size_key n) = Some p \<and>
    (n = sz \<or> map_of d (size_key sz) = None \<and> sizes_upto n d)"
proof (cases "map_of d (size_key sz)")
  case None
  with assms obtain ns m where m: "mapE (\<lambda>k. bindE (py_str k) int_of_string) (dkeys d) = Inr ns"
    "py_max ns = Inr m" "sz \<le> m" "dlookup d (size_key m) = Inr p"
    by (auto simp: choose_profile_def bindE_eq_Inr split: if_splits)
  from mapE_sizes [OF m(1)] m(2) have "sizes_upto m d"
    by (fastforce simp: sizes_upto_def list_all_iff py_max_Inr)
  moreover from m(4) have "map_of d (size_key m) = Some p"
    by (auto simp: dlookup_def split: option.splits)
  ultimately show ?thesis using m(3) None by blast
qed (use assms in \<open>auto simp: choose_profile_def\<close>)

text \<open>The profile of a model with predefined functions is measured at its input size, or, when there is none for that size, at a larger size that is the largest of all: the batching limits that follow from it are never those of a smaller input.\<close>

theorem w4_profile_fits:
  assumes "w4_profile W extras sz = Inr ps"
  shows "\<exists>d p n. jget extras ''profile'' = Inr (PyDict d) \<and> sz \<le> n \<and>
    map_of d (size_key n) = Some p \<and> bindE (py_iter p) (mapE (w4_profile_unit W)) = Inr ps \<and>
    (n = sz \<or> map_of d (size_key sz) = None \<and> sizes_upto n d)"
proof -
  from assms obtain v d p where d: "jget extras ''profile'' = Inr v" "py_dict v = Inr d"
    "choose_profile d sz = Inr p" "bindE (py_iter p) (mapE (w4_profile_unit W)) = Inr ps"
    by (auto simp: w4_profile_def bindE_eq_Inr)
  then have "v = PyDict d" by (cases v) simp_all
  with d choose_profile_Inr [OF d(3)] show ?thesis by blast
qed

subsection \<open>A registered model\<close>

lemma prepare_w4_files:
  assumes "prepare_w4_model E W S s q = Inr (files, b, extras)"
  shows "named_files S s' (bm_model_desc b) files"
  using assms by (auto simp: prepare_w4_model_def w4_base_model_def Let_def bindE_eq_Inr
      named_files_def lower_def)

lemma w4_pipeline_request_Inr:
  "w4_pipeline_request W q kind uuid extras = Inr pq \<Longrightarrow>
     qr_pipeline_groups pq = [[uuid]] \<and> qr_predefined_pipeline_uuid pq = Some ''''"
  by (auto simp: w4_pipeline_request_def bindE_eq_Inr)

lemma register_w4_model_Inr:
  assumes "register_w4_model E W M S A now dt uuid fresh q kind r = (r', Inr u)"
    "storage_ok S" "storage_up S"
  obtains files b extras s' m r1 pq where
    "prepare_w4_model E W S (rg_storage r) q = Inr (files, b, extras)"
    "insert_model M A m (r\<lparr>rg_storage := s'\<rparr>) = (r1, Inr ())"
    "m_model_uuid m = uuid" "m_model_type m = MT_SINGLE" "bm_profile m = bm_profile b"
    "downloadable S s' m" "qr_pipeline_groups pq = [[uuid]]"
    "qr_predefined_pipeline_uuid pq = Some ''''"
    "register_pipeline M A fresh pq (rg_db r1) = (rg_db r', Inr u)" "rg_storage r' = rg_storage r1"
proof -
  from assms(1) obtain files b extras where p:
    "prepare_w4_model E W S (rg_storage r) q = Inr (files, b, extras)"
    by (auto simp: register_w4_model_def Let_def split: sum.splits)
  from register_model_inserts [OF assms(2,3), of M A now dt uuid files b "(Some 1, Some 1, Some 1)" r]
    prepare_w4_files [OF p]
  obtain s' m where m: "register_model M S A now dt uuid files b (Some 1, Some 1, Some 1) r =
      insert_model M A m (r\<lparr>rg_storage := s'\<rparr>)"
    "m_model_uuid m = uuid" "m_model_type m = MT_SINGLE" "bm_profile m = bm_profile b"
    "downloadable S s' m" by blast
  from assms(1) obtain r1 pq where r1: "insert_model M A m (r\<lparr>rg_storage := s'\<rparr>) = (r1, Inr ())"
    "w4_pipeline_request W q kind uuid extras = Inr pq"
    "register_pipeline M A fresh pq (rg_db r1) = (rg_db r', Inr u)" "rg_storage r' = rg_storage r1"
    by (auto simp: register_w4_model_def Let_def p m(1) andThen_def split: sum.splits prod.splits)
  from that [OF p r1(1) m(2-5) _ _ r1(3,4)] w4_pipeline_request_Inr [OF r1(2)] show ?thesis by blast
qed


subsection \<open>A concrete registration\<close>

text \<open>A detector for images of 640 pixels whose profile was measured for batches of 4 only.\<close>

definition sample_w4_desc :: py_value where
  "sample_w4_desc = PyDict
     [(PyStr ''input_model'', PyDict [(PyStr ''backbone'', PyStr ''yolo x'')]),
      (PyStr ''model_file_format'', PyStr ''onnx''),
      (PyStr ''hyperparameters'', PyDict [(PyStr ''input_resize_spec'',
         PyDict [(PyStr ''sizes'', PyList [PyInt 320, PyInt 640])])]),
      (PyStr ''dataset'', PyDict [(PyStr ''classnames'', PyList [PyStr ''car''])])]"

definition sample_w4_extras :: py_value where
  "sample_w4_extras = PyDict
     [(PyStr ''use_gpu'', PyInt 1), (PyStr ''batching'', PyInt 1),
      (PyStr ''cross_requests_batching'', PyInt 1), (PyStr ''memory_layout'', PyStr ''NCHW''),
      (PyStr ''inputs'', PyList [PyDict [(PyStr ''name'', PyStr ''x''),
         (PyStr ''shape'', PyList [PyInt (- 1), PyInt 3, PyInt (- 1), PyInt (- 1)]),
         (PyStr ''dtype'', PyStr ''float32'')]]),
      (PyStr ''outputs'', PyList [PyDict [(PyStr ''name'', PyStr ''y'')]]),
      (PyStr ''profile'', PyDict [(PyStr ''640'', PyList [PyInt 4])])]"

definition sample_w4_json :: backend_env where
  "sample_w4_json = sample_backend_env\<lparr>be_json_loads := (\<lambda>s.
     if s = ''desc'' then Inr sample_w4_desc else if s = ''extras'' then Inr sample_w4_extras
     else Inl ValueError)\<rparr>"

definition sample_w4_env :: w4_env where
  "sample_w4_env = \<lparr>
     w4_store = (\<lambda>p. if p = ''store/model_description.json'' then Inr ''desc''
        else if p = ''store/saved_model/model.onnx'' then Inr ''onnx'' else Inl KeyError),
     w4_model_input = (\<lambda>n s t. Inr \<lparr>mi_name = ''x'', mi_shape = [-1, 3, 640, 640], mi_dtype = TT_FLOAT32,
        mi_dclass = None, mi_norm = None\<rparr>),
     w4_model_output = (\<lambda>n. Inr \<lparr>mo_name = ''y'', mo_shape = None, mo_dtype = None\<rparr>),
     w4_class_names = (\<lambda>v. Inr [''car'']),
     w4_profile_unit = (\<lambda>v. case v of PyInt n \<Rightarrow> Inr ((sample_profile 10 6)\<lparr>pu_batch_size := n\<rparr>)
        | _ \<Rightarrow> Inl ValueError),
     w4_param = (\<lambda>k v. Inl ValueError)\<rparr>"

definition sample_w4_request :: w4_request where
  "sample_w4_request = \<lparr>wq_user_name = ''u'', wq_model_name = ''m'', wq_blobstore_path = ''store''\<rparr>"

definition sample_w4_registry :: "(sample_docs, string \<Rightarrow> string option) registry" where
  "sample_w4_registry = \<lparr>rg_db = sample_docs,
     rg_storage = [''w4preprocessing/yolox.py'' \<mapsto> ''pre'', ''w4postprocessing/yolox.py'' \<mapsto> ''post'',
       ''w4extras/yolox_onnx.json'' \<mapsto> ''extras''], rg_tmp_dirs = []\<rparr>"

lemmas w4_samples = sample_w4_desc_def sample_w4_extras_def sample_w4_json_def sample_w4_env_def
  sample_w4_request_def sample_w4_registry_def

lemma w4_key: "string_of_int 640 = ''640''"
  by code_simp

lemmas w4_defs = prepare_w4_model_def load_description_def predefined_functions_def load_extras_def
  w4_base_model_def w4_input_def w4_output_def assign_shape_def is_minus_one_def list_set_def
  or_else_def os_join_def jget_def dlookup_def py_max_def

lemma sample_w4_profile:
  "w4_profile sample_w4_env sample_w4_extras 640 = Inr [(sample_profile 10 6)\<lparr>pu_batch_size := 4\<rparr>]"
  by (simp add: w4_profile_def w4_samples jget_def dlookup_def choose_profile_def w4_key)

lemma sample_w4_prepared:
  "\<exists>files b. prepare_w4_model sample_w4_json sample_w4_env sample_files (rg_storage sample_w4_registry)
     sample_w4_request = Inr (files, b, sample_w4_extras) \<and>
   bm_profile b = [(sample_profile 10 6)\<lparr>pu_batch_size := 4\<rparr>] \<and> bm_cross_requests_batching b"
  using sample_w4_profile by (simp add: w4_defs w4_samples sample_files_def Let_def)

theorem w4_profile_fits_witness:
  "\<exists>d p n. jget sample_w4_extras ''profile'' = Inr (PyDict d) \<and> 640 \<le> n \<and>
    map_of d (size_key n) = Some p \<and>
    bindE (py_iter p) (mapE (w4_profile_unit sample_w4_env)) =
      Inr [(sample_profile 10 6)\<lparr>pu_batch_size := 4\<rparr>] \<and>
    (n = 640 \<or> map_of d (size_key 640) = None \<and> sizes_upto n d)"
  by (rule w4_profile_fits [OF sample_w4_profile])

abbreviation sample_w4_registration ::
    "(sample_docs, string \<Rightarrow> string option) registry \<times> string result" where
  "sample_w4_registration \<equiv> register_w4_model sample_w4_json sample_w4_env (sample_mongo None)
     sample_files sample_registry_args 0 ''today'' ''model'' ''pipe'' sample_w4_request ''detector''
     sample_w4_registry"

lemma sample_w4_pipeline:
  "\<exists>pq. w4_pipeline_request sample_w4_env sample_w4_request ''detector'' ''model'' sample_w4_extras = Inr pq"
  by (simp add: w4_pipeline_request_def w4_params_def w4_samples dget_def)

lemma sample_w4_registered: "\<exists>r'. sample_w4_registration = (r', Inr ''pipe'')"
proof -
  obtain files b where p: "prepare_w4_model sample_w4_json sample_w4_env sample_files
      (rg_storage sample_w4_registry) sample_w4_request = Inr (files, b, sample_w4_extras)"
    using sample_w4_prepared by blast
  obtain s' m where m: "register_model (sample_mongo None) sample_files sample_registry_args 0 ''today''
      ''model'' files b (Some 1, Some 1, Some 1) sample_w4_registry =
      insert_model (sample_mongo None) sample_registry_args m (sample_w4_registry\<lparr>rg_storage := s'\<rparr>)"
    "m_model_uuid m = ''model''"
    using register_model_inserts [of sample_files "sample_mongo None" sample_registry_args 0 "''today''"
        "''model''" files b "(Some 1, Some 1, Some 1)" sample_w4_registry] by auto
  obtain pq where pq: "w4_pipeline_request sample_w4_env sample_w4_request ''detector'' ''model''
      sample_w4_extras = Inr pq" using sample_w4_pipeline by blast
  let ?r = "sample_w4_registry\<lparr>rg_storage := s'\<rparr>"
  have ins: "insert_model (sample_mongo None) sample_registry_args m ?r =
      (?r\<lparr>rg_db := (fst sample_docs @ [\<lparr>doc_shard = None, doc_value = m\<rparr>], [])\<rparr>, Inr ())"
    by (simp add: insert_model_def swallowing_def sample_w4_registry_def sample_docs_def
        sample_registry_args_def)
  have "\<exists>d. register_pipeline (sample_mongo None) sample_registry_args ''pipe'' pq
      (fst sample_docs @ [\<lparr>doc_shard = None, doc_value = m\<rparr>], []) = (d, Inr ''pipe'')"
    using w4_pipeline_request_Inr [OF pq] m(2)
    by (simp add: register_pipeline_def update_group_def swallowing_def new_pipeline_uuid_def
        first_uuid_def registry_samples)
  then show ?thesis
    by (auto simp: register_w4_model_def Let_def p m(1) ins pq)
qed

text \<open>The registration of a model with predefined functions does not ask for a profile of batch size 1, as the other registration does: a model whose profile has only the batch size 4 is accepted, and the batching of its preprocessing process does not end for a single request.\<close>

theorem w4_registration_accepts_hanging_model:
  "\<exists>r' files b extras.
    register_w4_model sample_w4_json sample_w4_env (sample_mongo None) sample_files
      sample_registry_args 0 ''today'' ''model'' ''pipe'' sample_w4_request ''detector''
      sample_w4_registry = (r', Inr ''pipe'') \<and>
    prepare_w4_model sample_w4_json sample_w4_env sample_files (rg_storage sample_w4_registry)
      sample_w4_request = Inr (files, b, extras) \<and>
    \<not> has_bs1 (bm_profile b) \<and>
    send_batches sample_backend_env (sample_preproc (supported_batch_sizes (bm_profile b) 4))
      [sample_item] sample_preproc_state = None"
proof -
  obtain files b where p: "prepare_w4_model sample_w4_json sample_w4_env sample_files
      (rg_storage sample_w4_registry) sample_w4_request = Inr (files, b, sample_w4_extras)"
    "bm_profile b = [(sample_profile 10 6)\<lparr>pu_batch_size := 4\<rparr>]"
    using sample_w4_prepared by blast
  have "send_batches sample_backend_env (sample_preproc (supported_batch_sizes (bm_profile b) 4))
      [sample_item] sample_preproc_state = None"
    by (rule hanging_batches) (simp_all add: sample_preproc_def p(2) supported_batch_sizes_def)
  moreover have "\<not> has_bs1 (bm_profile b)" by (simp add: has_bs1_def p(2))
  ultimately show ?thesis using sample_w4_registered p(1) by blast
qed


end
