(* ===== verification/Nxs_Frontend_V1.thy ===== *)
theory Nxs_Frontend_V1
  imports Nxs_W4_Props Nxs_Frontend
begin

section \<open>The frontend: version 1 of its API (\<open>main_processes/frontend/routers/api/v1/root.py\<close>)\<close>

text \<open>
  The old endpoints wrap those of version 2: a model with predefined functions is registered, a
  request is sent to its pipeline, and the answer is put into the old form. The text of a list of
  messages and the run of a request are arguments.
\<close>

subsection \<open>Answers in the old form\<close>

text \<open>Attributes of an instance that pydantic has built, which is the dictionary of its fields.\<close>

definition attr :: "py_value \<Rightarrow> string \<Rightarrow> py_value result" where
  "attr v name = (case v of
     PyDict d \<Rightarrow> (case map_of d (PyStr name) of None \<Rightarrow> Inl AttributeError | Some x \<Rightarrow> Inr x)
   | _ \<Rightarrow> Inl AttributeError)"

definition attrs :: "py_value \<Rightarrow> string list \<Rightarrow> py_value result" where
  "attrs = foldE attr"

text \<open>A dictionary written out, evaluated from left to right.\<close>

definition py_object :: "(string \<times> py_value result) list \<Rightarrow> py_value result" where
  "py_object es = bindE (mapE (\<lambda>(k, r). bindE r (\<lambda>v. Inr (PyStr k, v))) es) (\<lambda>d. Inr (PyDict d))"

definition v1_detection :: "py_value \<Rightarrow> py_value result" where
  "v1_detection det = py_object
     [(''class_name'', attr det ''class_name''), (''class_id'', attr det ''class_id''),
      (''score'', attr det ''score''),
      (''bbox'', py_object
        [(''left'', attrs det [''bbox'', ''left'']), (''right'', attrs det [''bbox'', ''right'']),
         (''top'', attrs det [''bbox'', ''top'']), (''bottom'', attrs det [''bbox'', ''bottom''])]),
      (''rel_bbox'', py_object
        [(''rel_left'', attrs det [''rel_bbox'', ''left'']), (''rel_right'', attrs det [''rel_bbox'', ''right'']),
         (''rel_top'', attrs det [''rel_bbox'', ''top'']), (''ref_bottom'', attrs det [''rel_bbox'', ''bottom''])])]"

definition ocr_point :: "py_value \<Rightarrow> string \<Rightarrow> nat \<Rightarrow> py_value result" where
  "ocr_point det box i = bindE (attr det box) (\<lambda>b. py_getitem b (PyInt (int i)))"

definition int_coord :: "py_value \<Rightarrow> string \<Rightarrow> py_value result" where
  "int_coord p name = bindE (bindE (attr p name) py_number) (\<lambda>x. Inr (PyInt (py_int x)))"

definition ocr_corners ::
    "(py_value \<Rightarrow> string \<Rightarrow> py_value result) \<Rightarrow> py_value \<Rightarrow> string \<Rightarrow> py_value result" where
  "ocr_corners coord det box =
     bindE (mapE (\<lambda>i. bindE (ocr_point det box i) (\<lambda>p.
       bindE (coord p ''x'') (\<lambda>x. bindE (coord p ''y'') (\<lambda>y. Inr (PyList [x, y]))))) [0, 1, 2, 3])
       (\<lambda>ps. Inr (PyList ps))"

definition v1_ocr :: "py_value \<Rightarrow> py_value result" where
  "v1_ocr det = py_object
     [(''text'', attr det ''text''), (''text_probability'', attr det ''score''),
      (''box'', ocr_corners int_coord det ''line_bbox''),
      (''rel_box'', ocr_corners attr det ''line_rbbox'')]"

text \<open>The status 0 of a success goes into \<open>data\<close>.\<close>

definition v1_data :: "(string \<times> py_value) list \<Rightarrow> py_value" where
  "v1_data outputs = PyDict [(PyStr ''data'', PyDict [(PyStr ''task_status'', PyInt 0),
     (PyStr ''outputs'', PyDict (map (\<lambda>(k, v). (PyStr k, v)) outputs))])]"

definition reconstruct_v1_detector_result :: "infer_result \<Rightarrow> py_value result" where
  "reconstruct_v1_detector_result r =
     bindE (mapE v1_detection (case ir_payload r of Detections xs \<Rightarrow> xs | _ \<Rightarrow> []))
       (\<lambda>ds. Inr (v1_data [(''detections'', PyList ds)]))"

definition reconstruct_v1_ocr_result :: "infer_result \<Rightarrow> py_value result" where
  "reconstruct_v1_ocr_result r =
     bindE (mapE v1_ocr (case ir_payload r of Ocr xs \<Rightarrow> xs | _ \<Rightarrow> []))
       (\<lambda>ds. Inr (v1_data [(''detections'', PyList ds)]))"

definition reconstruct_v1_classification_result :: "infer_result \<Rightarrow> py_value result" where
  "reconstruct_v1_classification_result r =
     (let c = (case ir_payload r of Classification v \<Rightarrow> v | _ \<Rightarrow> PyNone)
      in bindE (attr c ''probabilities'') (\<lambda>p.
         bindE (attr c ''best_score'') (\<lambda>s.
         bindE (attr c ''predicted_class_id'') (\<lambda>i.
         bindE (attr c ''predicted_class_name'') (\<lambda>n.
           Inr (v1_data [(''probabilities'', p), (''best_score'', s), (''predicted_class'', i),
             (''predicted_class_name'', n)]))))))"

text \<open>Other types are returned as they are.\<close>

datatype v1_answer = V1 py_value | Unchanged infer_result

definition reconstruct_v1_result :: "(string list \<Rightarrow> string) \<Rightarrow> infer_result \<Rightarrow> v1_answer result" where
  "reconstruct_v1_result show_list r =
     (if ir_status r = FAILED
      then Inr (V1 (PyDict [(PyStr ''task_status'', PyInt 1), (PyStr ''data'', PyDict []),
             (PyStr ''error'', PyStr (show_list (ir_error_msgs r)))]))
      else case ir_type r of
        RT_DETECTION \<Rightarrow> bindE (reconstruct_v1_detector_result r) (\<lambda>v. Inr (V1 v))
      | RT_CLASSIFICATION \<Rightarrow> bindE (reconstruct_v1_classification_result r) (\<lambda>v. Inr (V1 v))
      | RT_OCR \<Rightarrow> bindE (reconstruct_v1_ocr_result r) (\<lambda>v. Inr (V1 v))
      | _ \<Rightarrow> Inr (Unchanged r))"

subsection \<open>The endpoints\<close>

definition infer_from_file ::
    "backend_env \<Rightarrow> (string list \<Rightarrow> string) \<Rightarrow> string \<Rightarrow> (py_value \<Rightarrow> infer_result result) \<Rightarrow> v1_answer result" where
  "infer_from_file E show_list datas run =
     bindE (be_json_loads E datas) (\<lambda>v.
     bindE (py_getitem v (PyStr ''model_uuid'')) (\<lambda>u.
       Inr (case bindE (run u) (reconstruct_v1_result show_list) of
              Inr a \<Rightarrow> a
            | Inl e \<Rightarrow> V1 (PyDict [(PyStr ''error'', PyStr (be_exn_text E e))]))))"

text \<open>The status of a model is that of its pipeline: 1 when it is registered, else 2.\<close>

definition check_model_status :: "'d mongo \<Rightarrow> registry_args \<Rightarrow> 'd \<Rightarrow> string \<Rightarrow> int" where
  "check_model_status M A d u = (if mg_find_pipelines M d \<lparr>dq_uuid = u, dq_shard = ra_shard A\<rparr> = [] then 2 else 1)"

record v1_registration =
  v1_model_owner :: string
  v1_model_name :: string
  v1_model_dir_path :: string

definition w4_from_v1 :: "v1_registration \<Rightarrow> w4_request" where
  "w4_from_v1 q = \<lparr>wq_user_name = v1_model_owner q, wq_model_name = v1_model_name q,
     wq_blobstore_path = v1_model_dir_path q\<rparr>"

text \<open>What is answered as \<open>model_uuid\<close> is the uuid of the pipeline. \<open>kind\<close> is ''classifier'' or ''detector''.\<close>

definition register_w4_model_from_v1 ::
    "backend_env \<Rightarrow> w4_env \<Rightarrow> 'd mongo \<Rightarrow> 's storage_ops \<Rightarrow> registry_args \<Rightarrow> rat \<Rightarrow> string \<Rightarrow>
       string \<Rightarrow> string \<Rightarrow> v1_registration \<Rightarrow> string \<Rightarrow> ('d, 's) registry \<Rightarrow>
       (('d, 's) registry, string) outcome" where
  "register_w4_model_from_v1 E W M S A now dt uuid fresh q kind r =
     (let (r', out) = register_w4_model E W M S A now dt uuid fresh (w4_from_v1 q) kind r
      in (r', http_400 E out))"

subsection \<open>What a client of version 1 sees\<close>

lemma attr_Inr: "attr v k = Inr x \<Longrightarrow> \<exists>d. v = PyDict d \<and> map_of d (PyStr k) = Some x"
  by (auto simp: attr_def split: py_value.splits option.splits)

lemma attrs_simps [simp]: "attrs v [] = Inr v" "attrs v (k # ks) = bindE (attr v k) (\<lambda>w. attrs w ks)"
  by (simp_all add: attrs_def)

lemma v1_detection_fields:
  assumes "v1_detection x = Inr d"
  shows "attr d ''class_name'' = attr x ''class_name''" "attr d ''class_id'' = attr x ''class_id''"
    "attr d ''score'' = attr x ''score''"
    "k \<in> {''left'', ''right'', ''top'', ''bottom''} \<Longrightarrow> attrs d [''bbox'', k] = attrs x [''bbox'', k]"
    "attrs d [''rel_bbox'', ''ref_bottom''] = attrs x [''rel_bbox'', ''bottom'']"
    "attrs d [''rel_bbox'', ''rel_bottom''] = Inl AttributeError"
  using assms by (auto simp: v1_detection_def py_object_def bindE_eq_Inr list_all2_Cons1 attr_def mapE_eq_Inr)

text \<open>The old form of a detection result lists the detections in their order with their class, score
  and box; the lower edge of the relative box is under the key \<open>ref_bottom\<close> and not under
  \<open>rel_bottom\<close>, and the status of the answer is inside \<open>data\<close>, while that of a failure is not.
\<close>

theorem v1_detections_kept:
  assumes "reconstruct_v1_result show_list r = Inr (V1 a)" "ir_status r \<noteq> FAILED"
    "ir_type r = RT_DETECTION" "ir_payload r = Detections xs"
  shows "attr a ''task_status'' = Inl AttributeError \<and> attrs a [''data'', ''task_status''] = Inr (PyInt 0) \<and>
    (\<exists>ds. attrs a [''data'', ''outputs'', ''detections''] = Inr (PyList ds) \<and>
       list_all2 (\<lambda>x d.
         (\<forall>k \<in> {''class_name'', ''class_id'', ''score''}. attr d k = attr x k) \<and>
         (\<forall>k \<in> {''left'', ''right'', ''top'', ''bottom''}. attrs d [''bbox'', k] = attrs x [''bbox'', k]) \<and>
         attrs d [''rel_bbox'', ''ref_bottom''] = attrs x [''rel_bbox'', ''bottom''] \<and>
         attrs d [''rel_bbox'', ''rel_bottom''] = Inl AttributeError) xs ds)"
proof -
  obtain ds where ds: "list_all2 (\<lambda>x d. v1_detection x = Inr d) xs ds"
      "a = v1_data [(''detections'', PyList ds)]"
    using assms by (auto simp: reconstruct_v1_result_def reconstruct_v1_detector_result_def bindE_eq_Inr mapE_eq_Inr)
  from ds(1) have "list_all2 (\<lambda>x d.
      (\<forall>k \<in> {''class_name'', ''class_id'', ''score''}. attr d k = attr x k) \<and>
      (\<forall>k \<in> {''left'', ''right'', ''top'', ''bottom''}. attrs d [''bbox'', k] = attrs x [''bbox'', k]) \<and>
      attrs d [''rel_bbox'', ''ref_bottom''] = attrs x [''rel_bbox'', ''bottom''] \<and>
      attrs d [''rel_bbox'', ''rel_bottom''] = Inl AttributeError) xs ds"
    by (rule list_all2_mono) (use v1_detection_fields in auto)
  then show ?thesis by (simp add: ds(2) v1_data_def attr_def)
qed

text \<open>When a registration through version 1 succeeds and the database works, asking for the status of
  the uuid in the answer gives 1.
\<close>

theorem v1_registered_model_is_ready:
  assumes "mongo_ok M" "mongo_up M" "storage_ok S" "storage_up S" "in_shard A (mg_models M (rg_db r))"
    and "register_w4_model_from_v1 E W M S A now dt uuid fresh q kind r = (r', Inr u)"
  shows "check_model_status M A (rg_db r') u = 1"
proof -
  from assms(6) have reg: "register_w4_model E W M S A now dt uuid fresh (w4_from_v1 q) kind r = (r', Inr u)"
    by (auto simp: register_w4_model_from_v1_def http_400_def split: prod.splits sum.splits)
  obtain s' m r1 pq where ins: "insert_model M A m (r\<lparr>rg_storage := s'\<rparr>) = (r1, Inr ())"
    and rp: "register_pipeline M A fresh pq (rg_db r1) = (rg_db r', Inr u)"
    by (rule register_w4_model_Inr [OF reg assms(3,4)])
  let ?x = "\<lparr>doc_shard = ra_shard A, doc_value = m\<rparr>"
  obtain e d1 where d1: "mg_insert_model M (rg_db r) ?x = (e, d1)" by force
  with assms(2) have e: "e = None" unfolding mongo_up_def by (metis fst_conv)
  from ins d1 e have r1: "rg_db r1 = d1" by (auto simp: insert_model_def swallowing_def)
  from mongo_laws(3) [OF assms(1) d1] e assms(5) have sh: "in_shard A (mg_models M (rg_db r1))"
    by (simp add: r1 in_shard_def)
  obtain firsts where "mg_pipelines M (rg_db r') = mg_pipelines M (rg_db r1) @ [pipeline_doc A pq u firsts]"
    by (rule register_pipeline_Inr [OF rp assms(1,2) sh])
  then have "mg_find_pipelines M (rg_db r') \<lparr>dq_uuid = u, dq_shard = ra_shard A\<rparr> \<noteq> []"
    by (simp add: mongo_laws(2) [OF assms(1)] find_docs_def doc_matches_shard pipeline_doc_def)
  then show ?thesis by (simp add: check_model_status_def)
qed

subsection \<open>Instances\<close>

definition sample_v1_detection :: py_value where
  "sample_v1_detection = PyDict [(PyStr ''class_name'', PyStr ''car''), (PyStr ''class_id'', PyInt 2),
     (PyStr ''score'', PyFloat (1 / 2)),
     (PyStr ''bbox'', PyDict [(PyStr ''left'', PyInt 1), (PyStr ''top'', PyInt 2), (PyStr ''right'', PyInt 3),
        (PyStr ''bottom'', PyInt 4)]),
     (PyStr ''rel_bbox'', PyDict [(PyStr ''left'', PyFloat 0), (PyStr ''top'', PyFloat 0),
        (PyStr ''right'', PyFloat 1), (PyStr ''bottom'', PyFloat 1)])]"

definition sample_v1_result :: infer_result where
  "sample_v1_result = \<lparr>ir_type = RT_DETECTION, ir_status = COMPLETED, ir_task_uuid = ''task'',
     ir_error_msgs = [], ir_payload = Detections [sample_v1_detection], ir_e2e_latency = 0, ir_metadata = None\<rparr>"

lemma sample_v1_reconstructed: "\<exists>a. reconstruct_v1_result concat sample_v1_result = Inr (V1 a)"
  by (simp add: reconstruct_v1_result_def reconstruct_v1_detector_result_def sample_v1_result_def
      sample_v1_detection_def v1_detection_def py_object_def attr_def)

theorem v1_detections_kept_witness:
  "\<exists>a d. reconstruct_v1_result concat sample_v1_result = Inr (V1 a) \<and>
     attrs a [''data'', ''outputs'', ''detections''] = Inr (PyList [d]) \<and>
     attrs d [''rel_bbox'', ''ref_bottom''] = Inr (PyFloat 1) \<and> attrs d [''bbox'', ''top''] = Inr (PyInt 2)"
proof -
  obtain a where a: "reconstruct_v1_result concat sample_v1_result = Inr (V1 a)"
    using sample_v1_reconstructed by blast
  have "attrs sample_v1_detection [''rel_bbox'', ''bottom''] = Inr (PyFloat 1)"
    "attrs sample_v1_detection [''bbox'', ''top''] = Inr (PyInt 2)"
    by (simp_all add: sample_v1_detection_def attr_def)
  with v1_detections_kept [OF a, of "[sample_v1_detection]"] a show ?thesis
    by (auto simp: sample_v1_result_def list_all2_Cons1)
qed

definition sample_v1_registration :: v1_registration where
  "sample_v1_registration = \<lparr>v1_model_owner = wq_user_name sample_w4_request,
     v1_model_name = wq_model_name sample_w4_request, v1_model_dir_path = wq_blobstore_path sample_w4_request\<rparr>"

theorem v1_registered_model_is_ready_witness:
  "\<exists>r'. register_w4_model_from_v1 sample_w4_json sample_w4_env (sample_mongo None) sample_files
      sample_registry_args 0 ''today'' ''model'' ''pipe'' sample_v1_registration ''detector''
      sample_w4_registry = (r', Inr ''pipe'') \<and>
    check_model_status (sample_mongo None) sample_registry_args (rg_db r') ''pipe'' = 1"
proof -
  have "w4_from_v1 sample_v1_registration = sample_w4_request"
    by (simp add: w4_from_v1_def sample_v1_registration_def)
  then obtain r' where r': "register_w4_model_from_v1 sample_w4_json sample_w4_env (sample_mongo None) sample_files
      sample_registry_args 0 ''today'' ''model'' ''pipe'' sample_v1_registration ''detector''
      sample_w4_registry = (r', Inr ''pipe'')"
    using sample_w4_registered by (auto simp: register_w4_model_from_v1_def http_400_def)
  have "in_shard sample_registry_args (mg_models (sample_mongo None) (rg_db sample_w4_registry))"
    by (simp add: in_shard_def sample_w4_registry_def registry_samples)
  from v1_registered_model_is_ready [OF sample_mongo_ok sample_files_ok this r'] r' show ?thesis by blast
qed

end
