(* ===== verification/Nxs_Vehicle_Utils.thy ===== *)
theory Nxs_Vehicle_Utils
  imports Nxs_Frontend
begin

section \<open>Vehicle counting: data and helpers (\<open>apps/vehicle_counting/worker/utils.py\<close>)\<close>

text \<open>
  The data of the application, its requests to the detector and to the tracker, which are
  pipelines of NXS, the overlap of boxes, and the cutting of a template out of a frame. The
  mean colour, the resizing and the encoding of images belong to numpy and OpenCV and are
  parameters; an image is a list of rows of pixels.
\<close>

subsection \<open>Boxes, regions and tracks\<close>

record bbox =
  bb_left :: int
  bb_top :: int
  bb_right :: int
  bb_bottom :: int

record detection =
  de_class_name :: string
  de_class_id :: int
  de_score :: rat
  de_bbox :: bbox

record nxs_point =
  px :: int
  py :: int

type_synonym roi = "nxs_point list"

record nxs_line =
  ln_p0 :: nxs_point
  ln_p1 :: nxs_point

type_synonym 'p image = "'p list list"

record 'p track =
  nt_id :: int
  nt_class_name :: string
  nt_is_active :: bool
  nt_is_counted :: bool
  nt_start_frame_idx :: int
  nt_last_frame_idx :: int
  nt_templates :: "'p image list"
  nt_dets :: "detection list"
  nt_track :: "bbox list"
  nt_track_scores :: "rat list"
  nt_roi_idx :: nat

text \<open>What the application reads of the \<open>NxsInferResult\<close> in an answer.\<close>

record infer_reply =
  re_status :: infer_status
  re_error_msgs :: "string list"
  re_detections :: "detection list"

subsection \<open>Arithmetic of Python and numpy\<close>

text \<open>\<open>round(x)\<close> goes to the nearest integer and from the middle to the even one.\<close>

definition py_round :: "rat \<Rightarrow> int" where
  "py_round x = (let f = \<lfloor>x\<rfloor>; d = x - of_int f in
     if d < 1 / 2 then f else if d > 1 / 2 then f + 1 else if even f then f else f + 1)"

fun isqrt :: "nat \<Rightarrow> nat" where
  "isqrt n = (if n = 0 then 0
     else let r = 2 * isqrt (n div 4) in if (r + 1) * (r + 1) \<le> n then r + 1 else r)"

declare isqrt.simps [simp del]

text \<open>\<open>round(np.sqrt(x))\<close>; the square root of a negative number is not a number.\<close>

definition round_sqrt :: "rat \<Rightarrow> int result" where
  "round_sqrt x =
     (if x < 0 then Inl ValueError
      else let f = int (isqrt (nat \<lfloor>x\<rfloor>)); h = of_int f + 1 / 2 in
        Inr (if x < h * h then f else if x > h * h then f + 1 else if even f then f else f + 1))"

subsection \<open>Overlap\<close>

definition compute_area :: "bbox \<Rightarrow> int" where
  "compute_area b = (bb_right b - bb_left b) * (bb_bottom b - bb_top b)"

abbreviation iou_eps :: rat where
  "iou_eps \<equiv> 1 / 10 ^ 9"

definition inter_area :: "bbox \<Rightarrow> bbox \<Rightarrow> rat" where
  "inter_area a b =
     (let xA = max (bb_left a) (bb_left b); yA = max (bb_top a) (bb_top b);
          xB = min (bb_right a) (bb_right b); yB = min (bb_bottom a) (bb_bottom b)
      in max 0 (of_int (xB - xA) + iou_eps) * max 0 (of_int (yB - yA) + iou_eps))"

definition compute_iou :: "bbox \<Rightarrow> bbox \<Rightarrow> rat result" where
  "compute_iou a b =
     (let i = inter_area a b; u = of_int (compute_area a + compute_area b) - i
      in if u = 0 then Inl ZeroDivisionError else Inr (i / u))"

subsection \<open>Requests to the inference service\<close>

text \<open>
  \<open>vs_detector round retry\<close> and \<open>vs_tracker round object frame retry\<close> are what the service
  answers at that call: the parsed reply, or the exception that the call or the parsing raises.
  \<open>vs_polygon_ok\<close> says whether shapely accepts the points as a polygon.
\<close>

record 'p vision =
  vs_encode :: "'p image \<Rightarrow> string"
  vs_detector :: "nat \<Rightarrow> nat \<Rightarrow> tensors_request \<Rightarrow> infer_reply result"
  vs_tracker :: "nat \<Rightarrow> int \<Rightarrow> nat \<Rightarrow> nat \<Rightarrow> tensors_request \<Rightarrow> infer_reply result"
  vs_mean :: "'p image \<Rightarrow> 'p"
  vs_zero :: 'p
  vs_resize :: "'p image \<Rightarrow> nat \<Rightarrow> 'p image result"
  vs_polygon_ok :: "roi \<Rightarrow> bool"
  vs_within :: "int \<times> int \<Rightarrow> roi \<Rightarrow> bool"

definition image_input :: "'p vision \<Rightarrow> string \<Rightarrow> 'p image \<Rightarrow> infer_input" where
  "image_input V name img =
     \<lparr>ii_name = name, ii_type = IT_ENCODED_IMAGE, ii_data = RawBytes (vs_encode V img)\<rparr>"

definition app_request :: "string \<Rightarrow> infer_input list \<Rightarrow> tensors_request" where
  "app_request model inputs =
     \<lparr>tr_pipeline_uuid = model, tr_session_uuid = ''global'', tr_extra_preproc_params = Some ''{}'',
      tr_extra_transform_params = Some ''{}'', tr_extra_postproc_params = Some ''{}'',
      tr_inputs = inputs, tr_infer_timeout = 10\<rparr>"

definition detector_request :: "'p vision \<Rightarrow> string \<Rightarrow> 'p image \<Rightarrow> tensors_request" where
  "detector_request V model img = app_request model [image_input V ''images'' img]"

definition tracker_request ::
    "'p vision \<Rightarrow> string \<Rightarrow> 'p image \<Rightarrow> 'p image \<Rightarrow> bbox \<Rightarrow> tensors_request" where
  "tracker_request V model template img b =
     app_request model
       [image_input V ''img'' img, image_input V ''examplar_img'' template,
        \<lparr>ii_name = ''prev_bbox'', ii_type = IT_PICKLED_DATA, ii_data = Pickled (PyList
          [PyInt (bb_left b), PyInt (bb_top b), PyInt (bb_right b), PyInt (bb_bottom b)])\<rparr>]"

text \<open>One attempt, and the loop over \<open>range(num_retries)\<close>: \<open>left\<close> attempts remain, the next is
  number \<open>k\<close>. Without any attempt the functions return \<open>None\<close>.\<close>

definition reply_ok :: "infer_reply result \<Rightarrow> infer_reply result" where
  "reply_ok r = bindE r (\<lambda>x.
     if re_status x = FAILED
     then (case re_error_msgs x of [] \<Rightarrow> Inl IndexError | m # _ \<Rightarrow> Inl (Raised m))
     else Inr x)"

fun with_retries :: "(nat \<Rightarrow> infer_reply result) \<Rightarrow> nat \<Rightarrow> nat \<Rightarrow> infer_reply option result" where
  "with_retries f k 0 = Inr None"
| "with_retries f k (Suc left) =
     (case reply_ok (f k) of
        Inr x \<Rightarrow> Inr (Some x)
      | Inl e \<Rightarrow> if left = 0 then Inl e else with_retries f (Suc k) left)"

definition run_detector ::
    "'p vision \<Rightarrow> nat \<Rightarrow> string \<Rightarrow> 'p image \<Rightarrow> nat \<Rightarrow> infer_reply option result" where
  "run_detector V rd model img retries =
     with_retries (\<lambda>k. vs_detector V rd k (detector_request V model img)) 0 retries"

definition run_tracker ::
    "'p vision \<Rightarrow> nat \<Rightarrow> int \<Rightarrow> nat \<Rightarrow> string \<Rightarrow> 'p image \<Rightarrow> 'p image \<Rightarrow> bbox \<Rightarrow> nat \<Rightarrow>
       infer_reply option result" where
  "run_tracker V rd obj frame model template img b retries =
     with_retries (\<lambda>k. vs_tracker V rd obj frame k (tracker_request V model template img b)) 0 retries"

definition reply_detections :: "infer_reply option \<Rightarrow> detection list result" where
  "reply_detections r = (case r of None \<Rightarrow> Inl AttributeError | Some x \<Rightarrow> Inr (re_detections x))"

subsection \<open>Templates\<close>

text \<open>\<open>_example_wh_to_size\<close> with the context amount 0.5.\<close>

definition example_wh_to_size :: "int \<Rightarrow> int \<Rightarrow> int result" where
  "example_wh_to_size w h =
     (let s = of_int (w + h) / 2; wc = of_int w + s; hc = of_int h + s in round_sqrt (wc * hc))"

definition tabulate :: "nat \<Rightarrow> nat \<Rightarrow> (nat \<Rightarrow> nat \<Rightarrow> 'p) \<Rightarrow> 'p image" where
  "tabulate rows cols f = map (\<lambda>i. map (f i) [0..<cols]) [0..<rows]"

definition im_cols :: "'p image \<Rightarrow> nat" where
  "im_cols img = (case img of [] \<Rightarrow> 0 | r # _ \<Rightarrow> length r)"

definition pixel :: "'p image \<Rightarrow> nat \<Rightarrow> nat \<Rightarrow> 'p" where
  "pixel img i j = img ! i ! j"

text \<open>The assignment of one value to a block of an array.\<close>

definition fill_block :: "(nat \<Rightarrow> nat \<Rightarrow> bool) \<Rightarrow> 'p \<Rightarrow> 'p image \<Rightarrow> 'p image" where
  "fill_block area v img =
     tabulate (length img) (im_cols img) (\<lambda>i j. if area i j then v else pixel img i j)"

definition pad_image :: "'p vision \<Rightarrow> 'p image \<Rightarrow> nat \<Rightarrow> nat \<Rightarrow> nat \<Rightarrow> nat \<Rightarrow> 'p image" where
  "pad_image V img tp bt left right =
     (let r = length img; c = im_cols img; avg = vs_mean V img;
          p = tabulate (r + tp + bt) (c + left + right)
            (\<lambda>i j. if tp \<le> i \<and> i < tp + r \<and> left \<le> j \<and> j < left + c
                   then pixel img (i - tp) (j - left) else vs_zero V);
          p = (if tp > 0 then fill_block (\<lambda>i j. i < tp \<and> left \<le> j \<and> j < left + c) avg p else p);
          p = (if bt > 0 then fill_block (\<lambda>i j. r + tp \<le> i \<and> left \<le> j \<and> j < left + c) avg p else p);
          p = (if left > 0 then fill_block (\<lambda>i j. j < left) avg p else p)
      in if right > 0 then fill_block (\<lambda>i j. c + left \<le> j) avg p else p)"

definition slice :: "nat \<Rightarrow> nat \<Rightarrow> 'a list \<Rightarrow> 'a list" where
  "slice a b xs = drop a (take b xs)"

definition cut :: "int \<Rightarrow> int \<Rightarrow> int \<Rightarrow> int \<Rightarrow> 'p image \<Rightarrow> 'p image" where
  "cut y0 y1 x0 x1 img = map (slice (nat x0) (nat x1)) (slice (nat y0) (nat y1) img)"

text \<open>\<open>preprocess\<close> up to the resizing: a square of side \<open>size\<close> around the centre.\<close>

definition original_patch :: "'p vision \<Rightarrow> 'p image \<Rightarrow> rat \<times> rat \<Rightarrow> int \<Rightarrow> 'p image" where
  "original_patch V img center sz =
     (let c = of_int (sz + 1) / 2;
          xmin = py_round (fst center - c); xmax = xmin + sz - 1;
          ymin = py_round (snd center - c); ymax = ymin + sz - 1;
          left = max 0 (- xmin); tp = max 0 (- ymin);
          right = max 0 (xmax - int (im_cols img) + 1); bt = max 0 (ymax - int (length img) + 1);
          padded = (if tp > 0 \<or> bt > 0 \<or> left > 0 \<or> right > 0
            then pad_image V img (nat tp) (nat bt) (nat left) (nat right) else img)
      in cut (ymin + tp) (ymax + tp + 1) (xmin + left) (xmax + left + 1) padded)"

definition preprocess :: "'p vision \<Rightarrow> 'p image \<Rightarrow> rat \<times> rat \<Rightarrow> int \<Rightarrow> nat \<Rightarrow> 'p image result" where
  "preprocess V img center sz out =
     (let patch = original_patch V img center sz
      in if int out \<noteq> sz then vs_resize V patch out else Inr patch)"

definition preprocess_examplar :: "'p vision \<Rightarrow> 'p image \<Rightarrow> bbox \<Rightarrow> 'p image result" where
  "preprocess_examplar V img b =
     (let x = bb_left b; y = bb_top b; w = bb_right b - bb_left b; h = bb_bottom b - bb_top b
      in bindE (example_wh_to_size w h) (\<lambda>sz.
         preprocess V img (of_int x + of_int w / 2, of_int y + of_int h / 2) sz 127))"

end
