(* ===== verification/Nxs_Vehicle_App.thy ===== *)
theory Nxs_Vehicle_App
  imports Nxs_Vehicle_Utils
begin

section \<open>Vehicle counting: the tracking application (\<open>worker/offline_worker.py\<close>)\<close>

text \<open>
  \<open>OfflineVehicleTrackingApp\<close>: the tracks and counts, and one round of \<open>run_tracking\<close> over a
  window of frames. The threads that run the tracker of a round change one track each and are
  joined before the counting, so they are a map over the tracks. The window on a screen
  (\<open>visualize\<close> is False for every worker) and the text log are left out.
\<close>

subsection \<open>Parameters and state\<close>

record vehicle_config =
  vc_video_uuid :: string
  vc_detector_uuid :: string
  vc_tracker_uuid :: string
  vc_video_url :: string
  vc_frame_rate :: int
  vc_rois :: "roi list"
  vc_lines :: "nxs_line list"
  vc_tracking_classes :: "string list"
  vc_treat_all_classes_as_one :: bool
  vc_detector_min_score :: rat
  vc_detector_interval_secs :: rat
  vc_duplicate_iou_thresh :: rat
  vc_merge_iou_thresh :: rat
  vc_object_expiration_secs :: rat
  vc_tracking_score_thresh :: rat
  vc_skip_frame :: int
  vc_collect_logs :: bool
  vc_counting_report_interval_secs :: int
  vc_job_duration :: rat
  vc_disk_usage_percentage_thresh :: rat
  vc_inference_retries :: nat

definition NUM_FRAMES_PER_SEC :: "vehicle_config \<Rightarrow> int" where
  "NUM_FRAMES_PER_SEC C = py_int (of_int (vc_frame_rate C) / of_int (1 + vc_skip_frame C))"

definition WINDOW_LENGTH :: "vehicle_config \<Rightarrow> int" where
  "WINDOW_LENGTH C = py_int (of_int (vc_frame_rate C) * vc_detector_interval_secs C)"

record track_snapshot =
  ts_id :: int
  ts_class_name :: string
  ts_is_counted :: bool
  ts_bbox :: bbox
  ts_score :: rat

text \<open>A frame that was drawn: the frame, the objects in the order they were drawn, its number.\<close>

record 'p drawn_frame =
  df_frame :: "'p image"
  df_objects :: "(int \<times> bbox \<times> rat) list"
  df_counts :: "(string, int) dict list"
  df_number :: int

record 'p frame_log =
  fl_frame :: "'p drawn_frame"
  fl_ts :: rat
  fl_counts :: "(string, int) dict list"
  fl_snapshots :: "track_snapshot list"

record count_report =
  cr_video_uuid :: string
  cr_timestamp :: rat
  cr_counts :: "(string, int) dict list"
  cr_completed_percent :: rat
  cr_starting_utc_ts :: rat
  cr_ending_utc_ts :: rat

record log_entry =
  le_video_uuid :: string
  le_log_id :: nat
  le_start_ts :: rat
  le_end_ts :: rat
  le_num_logs :: nat

text \<open>The database and the storage of the application: \<open>insert\<close> and \<open>upload\<close> can raise.\<close>

record ('d, 'p) vehicle_store =
  vd_insert_count :: "'d \<Rightarrow> count_report \<Rightarrow> 'd result"
  vd_insert_log :: "'d \<Rightarrow> log_entry \<Rightarrow> 'd result"
  vd_upload_frame :: "'d \<Rightarrow> string \<Rightarrow> 'p drawn_frame \<Rightarrow> 'd result"
  vd_upload_logs :: "'d \<Rightarrow> string \<Rightarrow> ((string, int) dict list \<times> track_snapshot list) list \<Rightarrow> 'd result"

record ('d, 'p) vehicle_app =
  va_track_dict :: "(int, 'p track) dict"
  va_track_count :: int
  va_class_count_dicts :: "(string, int) dict list"
  va_total_extracted_frames :: nat
  va_total_processed_frames :: int
  va_job_completed :: bool
  va_video_ended :: bool
  va_decoder_stopped :: bool
  va_to_exit_threads :: bool
  va_video_frames :: "'p image list"
  va_video_frame_timestamps :: "rat list"
  va_downloaded_videos :: "(int \<times> string \<times> rat) list"
  va_logs :: "'p frame_log list"
  va_log_id :: nat
  va_starting_utc_ts :: rat
  va_round :: nat
  va_db :: 'd

text \<open>\<open>__init__\<close>; both threads are started at its end.\<close>

definition zero_counts :: "vehicle_config \<Rightarrow> (string, int) dict list" where
  "zero_counts C = map (\<lambda>_. fold (\<lambda>c d. AList.update c 0 d) (vc_tracking_classes C) []) (vc_lines C)"

definition new_vehicle_app :: "vehicle_config \<Rightarrow> rat \<Rightarrow> 'd \<Rightarrow> ('d, 'p) vehicle_app result" where
  "new_vehicle_app C now db = (if 1 + vc_skip_frame C = 0 then Inl ZeroDivisionError else Inr \<lparr>va_track_dict = [], va_track_count = 0,
     va_class_count_dicts = zero_counts C, va_total_extracted_frames = 0,
     va_total_processed_frames = 0, va_job_completed = False, va_video_ended = False,
     va_decoder_stopped = False, va_to_exit_threads = False, va_video_frames = [],
     va_video_frame_timestamps = [], va_downloaded_videos = [], va_logs = [], va_log_id = 0,
     va_starting_utc_ts = now, va_round = 0, va_db = db\<rparr>)"

subsection \<open>Batches of frames\<close>

definition batch_frames :: "vehicle_config \<Rightarrow> int" where
  "batch_frames C = py_int (of_int (WINDOW_LENGTH C) / of_int (1 + vc_skip_frame C))"

definition pop_frames ::
    "nat \<Rightarrow> ('d, 'p) vehicle_app \<Rightarrow> ('p image list \<times> rat list) \<times> ('d, 'p) vehicle_app" where
  "pop_frames n s =
     ((take n (va_video_frames s), take n (va_video_frame_timestamps s)),
      s\<lparr>va_video_frames := drop n (va_video_frames s),
        va_video_frame_timestamps := drop n (va_video_frame_timestamps s)\<rparr>)"

definition offline_get_batch ::
    "vehicle_config \<Rightarrow> ('d, 'p) vehicle_app \<Rightarrow>
       ('p image list \<times> rat list \<times> bool) \<times> ('d, 'p) vehicle_app" where
  "offline_get_batch C s =
     (let n = batch_frames C; k = int (length (va_video_frames s))
      in if k \<ge> n
         then let ((fs, ts), s) = pop_frames (nat n) s in ((fs, ts, False), s)
         else if va_video_ended s
         then let ((fs, ts), s) = pop_frames (nat k) s in ((fs, ts, va_video_ended s), s)
         else (([], [], va_video_ended s), s))"

subsection \<open>Crossing a line\<close>

definition center_vector :: "nxs_line \<Rightarrow> bbox \<Rightarrow> int \<times> int" where
  "center_vector l b =
     (let cx = (bb_left b + bb_right b) div 2; cy = (bb_top b + bb_bottom b) div 2
      in ((px (ln_p0 l) - cx) + (px (ln_p1 l) - cx), (py (ln_p0 l) - cy) + (py (ln_p1 l) - cy)))"

definition same_side :: "int \<times> int \<Rightarrow> int \<times> int \<Rightarrow> bool" where
  "same_side v w \<longleftrightarrow> fst v * snd v * fst w * snd w > 0"

definition is_passing_line :: "bbox list \<Rightarrow> nxs_line \<Rightarrow> bool" where
  "is_passing_line bs l =
     (if length bs < 6 then False
      else let vs = map (center_vector l) bs
           in list_all (\<lambda>i. \<not> same_side (vs ! i) (vs ! (length vs - i - 1))) [0, 1, 2])"

subsection \<open>Removing tracks\<close>

definition remove_tracks :: "int list \<Rightarrow> ('d, 'p) vehicle_app \<Rightarrow> ('d, 'p) vehicle_app" where
  "remove_tracks ids s = s\<lparr>va_track_dict := fold AList.delete ids (va_track_dict s)\<rparr>"

definition remove_inactive_tracks :: "('d, 'p) vehicle_app \<Rightarrow> ('d, 'p) vehicle_app" where
  "remove_inactive_tracks s =
     remove_tracks (map fst (filter (\<lambda>(_, t). \<not> nt_is_active t) (va_track_dict s))) s"

definition nth_item :: "'a list \<Rightarrow> nat \<Rightarrow> 'a result" where
  "nth_item xs i = (if i < length xs then Inr (xs ! i) else Inl IndexError)"

definition out_of_roi :: "'p vision \<Rightarrow> vehicle_config \<Rightarrow> 'p track \<Rightarrow> bool result" where
  "out_of_roi V C t =
     bindE (last_item (nt_track t)) (\<lambda>b.
     bindE (nth_item (vc_rois C) (nt_roi_idx t)) (\<lambda>roi.
       if \<not> vs_polygon_ok V roi then Inl ValueError
       else Inr (\<not> (vs_within V (bb_left b, bb_top b) roi \<or> vs_within V (bb_right b, bb_top b) roi \<or>
                    vs_within V (bb_left b, bb_bottom b) roi \<or> vs_within V (bb_right b, bb_bottom b) roi))))"

definition remove_out_of_rois_tracks ::
    "'p vision \<Rightarrow> vehicle_config \<Rightarrow> ('d, 'p) vehicle_app \<Rightarrow> ('d, 'p) vehicle_app result" where
  "remove_out_of_rois_tracks V C s =
     bindE (foldE (\<lambda>ids (i, t). bindE (out_of_roi V C t) (\<lambda>out. Inr (if out then ids @ [i] else ids)))
       [] (va_track_dict s)) (\<lambda>ids. Inr (remove_tracks ids s))"

definition remove_expired_objects ::
    "vehicle_config \<Rightarrow> ('d, 'p) vehicle_app \<Rightarrow> ('d, 'p) vehicle_app" where
  "remove_expired_objects C s =
     remove_tracks (map fst (filter (\<lambda>(_, t).
       of_int (va_total_processed_frames s - nt_last_frame_idx t)
         > of_int (NUM_FRAMES_PER_SEC C) * vc_object_expiration_secs C) (va_track_dict s))) s"

subsection \<open>Detections\<close>

definition is_in_roi :: "'p vision \<Rightarrow> bbox \<Rightarrow> roi \<Rightarrow> bool result" where
  "is_in_roi V b roi =
     (let cx = py_int (of_int (bb_left b + bb_right b) / 2);
          y1 = py_int (3 / 4 * of_int (bb_top b) + 1 / 4 * of_int (bb_bottom b));
          y2 = py_int (1 / 4 * of_int (bb_top b) + 3 / 4 * of_int (bb_bottom b))
      in if \<not> vs_polygon_ok V roi then Inl ValueError
         else Inr (vs_within V (cx, y1) roi \<or> vs_within V (cx, y2) roi))"

text \<open>The first region that the box is in.\<close>

fun find_roi :: "'p vision \<Rightarrow> bbox \<Rightarrow> nat \<Rightarrow> roi list \<Rightarrow> nat option result" where
  "find_roi V b i [] = Inr None"
| "find_roi V b i (roi # rois) =
     bindE (is_in_roi V b roi) (\<lambda>inside.
       if inside then Inr (Some i) else find_roi V b (Suc i) rois)"

text \<open>The best match so far, its overlap, and every object that overlaps too much.\<close>

definition match_object ::
    "vehicle_config \<Rightarrow> int \<Rightarrow> detection \<Rightarrow> int \<times> rat \<times> int list \<Rightarrow> int \<times> 'p track \<Rightarrow>
       (int \<times> rat \<times> int list) result" where
  "match_object C now det = (\<lambda>(best, best_iou, matched) (i, t).
     if nt_start_frame_idx t = now then Inr (best, best_iou, matched)
     else if \<not> vc_treat_all_classes_as_one C \<and> de_class_name det \<noteq> nt_class_name t
     then Inr (best, best_iou, matched)
     else bindE (last_item (nt_track t)) (\<lambda>b.
          bindE (compute_iou (de_bbox det) b) (\<lambda>iou.
            let (best, best_iou) = (if iou > best_iou then (i, iou) else (best, best_iou))
            in Inr (best, best_iou,
                 if iou > vc_duplicate_iou_thresh C then matched @ [i] else matched))))"

definition find_matched_objects ::
    "vehicle_config \<Rightarrow> ('d, 'p) vehicle_app \<Rightarrow> detection \<Rightarrow> (int \<times> rat \<times> int list) result" where
  "find_matched_objects C s det =
     foldE (match_object C (va_total_processed_frames s) det) (0, 0, []) (va_track_dict s)"

definition get_free_idx :: "('d, 'p) vehicle_app \<Rightarrow> int \<times> ('d, 'p) vehicle_app" where
  "get_free_idx s =
     (va_track_count s + 1, s\<lparr>va_track_count := va_track_count s + 1\<rparr>)"

definition merge_detection :: "int \<Rightarrow> detection \<Rightarrow> 'p track \<Rightarrow> 'p track" where
  "merge_detection now det t =
     t\<lparr>nt_last_frame_idx := now, nt_dets := nt_dets t @ [det], nt_track := nt_track t @ [de_bbox det],
       nt_track_scores := nt_track_scores t @ [de_score det]\<rparr>"

definition new_track :: "int \<Rightarrow> int \<Rightarrow> detection \<Rightarrow> 'p image \<Rightarrow> nat \<Rightarrow> 'p track" where
  "new_track i now det template roi =
     \<lparr>nt_id = i, nt_class_name = de_class_name det, nt_is_active = True, nt_is_counted = False,
      nt_start_frame_idx = now, nt_last_frame_idx = now, nt_templates = [template], nt_dets = [det],
      nt_track = [de_bbox det], nt_track_scores = [de_score det], nt_roi_idx = roi\<rparr>"

text \<open>The body of the loop; the list collects the objects that are removed afterwards.\<close>

definition process_detection ::
    "'p vision \<Rightarrow> vehicle_config \<Rightarrow> 'p image \<Rightarrow> int list \<times> ('d, 'p) vehicle_app \<Rightarrow> detection \<Rightarrow>
       (int list \<times> ('d, 'p) vehicle_app) result" where
  "process_detection V C frame = (\<lambda>(dup, s) det.
     if de_class_name det \<notin> set (vc_tracking_classes C) then Inr (dup, s)
     else if de_score det < vc_detector_min_score C then Inr (dup, s)
     else bindE (find_roi V (de_bbox det) 0 (vc_rois C)) (\<lambda>found.
       case found of
         None \<Rightarrow> Inr (dup, s)
       | Some roi \<Rightarrow>
           bindE (find_matched_objects C s det) (\<lambda>(best, best_iou, matched).
             let dup = dup @ filter (\<lambda>i. i \<noteq> best) matched;
                 now = va_total_processed_frames s
             in if best_iou > vc_merge_iou_thresh C
                then bindE (dlookup (va_track_dict s) best) (\<lambda>t.
                  Inr (dup, s\<lparr>va_track_dict :=
                    AList.update best (merge_detection now det t) (va_track_dict s)\<rparr>))
                else
                  let (i, s) = get_free_idx s
                  in bindE (preprocess_examplar V frame (de_bbox det)) (\<lambda>template.
                       Inr (dup, s\<lparr>va_track_dict :=
                         AList.update i (new_track i now det template roi) (va_track_dict s)\<rparr>)))))"

definition process_detections ::
    "'p vision \<Rightarrow> vehicle_config \<Rightarrow> 'p image \<Rightarrow> detection list \<Rightarrow> ('d, 'p) vehicle_app \<Rightarrow>
       ('d, 'p) vehicle_app result" where
  "process_detections V C frame dets s =
     bindE (foldE (process_detection V C frame) ([], s) dets) (\<lambda>(dup, s). Inr (remove_tracks dup s))"

subsection \<open>Following an object through a window\<close>

definition follow_to :: "vehicle_config \<Rightarrow> detection \<Rightarrow> 'p track \<Rightarrow> 'p track" where
  "follow_to C det t =
     (let t = t\<lparr>nt_track := nt_track t @ [de_bbox det],
                nt_track_scores := nt_track_scores t @ [de_score det]\<rparr>
      in if de_score det < vc_tracking_score_thresh C then t\<lparr>nt_is_active := False\<rparr> else t)"

definition track_frame ::
    "'p vision \<Rightarrow> vehicle_config \<Rightarrow> nat \<Rightarrow> 'p track \<Rightarrow> nat \<times> 'p image \<Rightarrow> 'p track result" where
  "track_frame V C rd t = (\<lambda>(k, frame).
     bindE (last_item (nt_templates t)) (\<lambda>template.
     bindE (last_item (nt_track t)) (\<lambda>b.
     bindE (run_tracker V rd (nt_id t) k (vc_tracker_uuid C) template frame b
       (vc_inference_retries C)) (\<lambda>r.
     bindE (reply_detections r) (\<lambda>ds.
     bindE (nth_item ds 0) (\<lambda>det. Inr (follow_to C det t)))))))"

definition process_frames ::
    "'p vision \<Rightarrow> vehicle_config \<Rightarrow> nat \<Rightarrow> 'p image list \<Rightarrow> 'p track \<Rightarrow> 'p track result" where
  "process_frames V C rd frames t = foldE (track_frame V C rd) t (drop 1 (enumerate 0 frames))"

definition follow_objects ::
    "'p vision \<Rightarrow> vehicle_config \<Rightarrow> nat \<Rightarrow> 'p image list \<Rightarrow> (int, 'p track) dict \<Rightarrow>
       (int, 'p track) dict result" where
  "follow_objects V C rd frames d =
     mapE (\<lambda>(i, t). bindE (process_frames V C rd frames t) (\<lambda>t. Inr (i, t))) d"

subsection \<open>Counting\<close>

text \<open>\<open>xs[:n]\<close>, where a negative \<open>n\<close> counts from the end.\<close>

definition py_upto :: "int \<Rightarrow> 'a list \<Rightarrow> 'a list" where
  "py_upto n xs = take (nat (if n < 0 then int (length xs) + n else n)) xs"

text \<open>
  The objects of one frame, \<open>k\<close> of \<open>n\<close>: the first one that passes its line is counted and ends
  the loop. The last component is what is drawn when \<open>draw\<close> is set.
\<close>

fun count_objects ::
    "vehicle_config \<Rightarrow> nat \<Rightarrow> nat \<Rightarrow> bool \<Rightarrow> (int, 'p track) dict \<Rightarrow> (string, int) dict list \<Rightarrow>
       ((int, 'p track) dict \<times> (string, int) dict list \<times> (int \<times> bbox \<times> rat) list) result" where
  "count_objects C n k draw [] counts = Inr ([], counts, [])"
| "count_objects C n k draw ((i, t) # d) counts =
     (let m = int (length (nt_track t)) - int n + int k + 1;
          bs = py_upto m (nt_track t); scores = py_upto m (nt_track_scores t);
          go_on = (\<lambda>_.
            bindE (if draw then bindE (last_item bs) (\<lambda>b. bindE (last_item scores) (\<lambda>x. Inr [(i, b, x)]))
                   else Inr []) (\<lambda>drawn.
            bindE (count_objects C n k draw d counts) (\<lambda>(d, counts, more).
              Inr ((i, t) # d, counts, drawn @ more))))
      in if nt_is_counted t then go_on ()
         else bindE (nth_item (vc_lines C) (nt_roi_idx t)) (\<lambda>l.
           if \<not> is_passing_line bs l then go_on ()
           else bindE (nth_item counts (nt_roi_idx t)) (\<lambda>cd.
                bindE (dlookup cd (nt_class_name t)) (\<lambda>c.
                  Inr ((i, t\<lparr>nt_is_counted := True\<rparr>) # d,
                       counts[nt_roi_idx t := AList.update (nt_class_name t) (c + 1) cd], [])))))"

definition count_frame ::
    "vehicle_config \<Rightarrow> nat \<Rightarrow> ('d, 'p) vehicle_app \<times> (int \<times> bbox \<times> rat) list \<Rightarrow> nat \<Rightarrow>
       (('d, 'p) vehicle_app \<times> (int \<times> bbox \<times> rat) list) result" where
  "count_frame C n = (\<lambda>(s, _) k.
     bindE (count_objects C n k (vc_collect_logs C \<and> k = n - 1) (va_track_dict s)
       (va_class_count_dicts s)) (\<lambda>(d, counts, drawn).
       Inr (s\<lparr>va_track_dict := d, va_class_count_dicts := counts\<rparr>, drawn)))"

definition count_window ::
    "vehicle_config \<Rightarrow> nat \<Rightarrow> ('d, 'p) vehicle_app \<Rightarrow>
       (('d, 'p) vehicle_app \<times> (int \<times> bbox \<times> rat) list) result" where
  "count_window C n s = foldE (count_frame C n) (s, []) [0..<n]"

subsection \<open>Reports\<close>

definition store_write :: "('d \<Rightarrow> 'd result) \<Rightarrow> ('d, 'p) vehicle_app \<Rightarrow> ('d, 'p) vehicle_app result" where
  "store_write f s = bindE (f (va_db s)) (\<lambda>d. Inr (s\<lparr>va_db := d\<rparr>))"

definition report_counting ::
    "('d, 'p) vehicle_store \<Rightarrow> vehicle_config \<Rightarrow> rat \<Rightarrow> ('d, 'p) vehicle_app \<Rightarrow>
       ('d, 'p) vehicle_app result" where
  "report_counting D C ts s =
     (if vc_job_duration C * 1000 = 0 then Inl ZeroDivisionError
      else store_write (\<lambda>d. vd_insert_count D d
        \<lparr>cr_video_uuid = vc_video_uuid C, cr_timestamp = ts, cr_counts = va_class_count_dicts s,
         cr_completed_percent = min 1 (ts / (vc_job_duration C * 1000)) * 100,
         cr_starting_utc_ts = va_starting_utc_ts s,
         cr_ending_utc_ts = va_starting_utc_ts s + ts / 1000\<rparr>) s)"

definition snapshot_of :: "'p track \<Rightarrow> track_snapshot list result" where
  "snapshot_of t =
     (if nt_is_active t
      then bindE (last_item (nt_track t)) (\<lambda>b. bindE (last_item (nt_track_scores t)) (\<lambda>x.
             Inr [\<lparr>ts_id = nt_id t, ts_class_name = nt_class_name t, ts_is_counted = nt_is_counted t,
                  ts_bbox = b, ts_score = x\<rparr>]))
      else Inr [])"

definition snapshot_stats ::
    "'p drawn_frame \<Rightarrow> rat \<Rightarrow> ('d, 'p) vehicle_app \<Rightarrow> ('d, 'p) vehicle_app result" where
  "snapshot_stats frame ts s =
     bindE (mapE (\<lambda>(_, t). snapshot_of t) (va_track_dict s)) (\<lambda>snaps.
       Inr (s\<lparr>va_logs := va_logs s @ [\<lparr>fl_frame = frame, fl_ts = ts,
         fl_counts = va_class_count_dicts s, fl_snapshots = concat snaps\<rparr>]\<rparr>))"

definition log_name :: "vehicle_config \<Rightarrow> nat \<Rightarrow> string" where
  "log_name C i = vc_video_uuid C @ ''_'' @ string_of_nat i"

definition upload_logs ::
    "('d, 'p) vehicle_store \<Rightarrow> vehicle_config \<Rightarrow> ('d, 'p) vehicle_app \<Rightarrow>
       (('d, 'p) vehicle_app, unit) outcome" where
  "upload_logs D C s =
     (let name = log_name C (va_log_id s); logs = va_logs s
      in if logs = [] then (s, Inl IndexError)
         else andThen (attempt (store_write (\<lambda>d. vd_insert_log D d
           \<lparr>le_video_uuid = vc_video_uuid C, le_log_id = va_log_id s, le_start_ts = fl_ts (hd logs),
            le_end_ts = fl_ts (last logs), le_num_logs = length logs\<rparr>)) s) (\<lambda>s _.
         andThen (forEach (\<lambda>s (i, l). attempt (store_write (\<lambda>d.
             vd_upload_frame D d (name @ ''_'' @ string_of_nat i @ ''.jpg'') (fl_frame l))) s)
           s (enumerate 0 logs)) (\<lambda>s _.
         andThen (attempt (store_write (\<lambda>d.
             vd_upload_logs D d (name @ ''.txt'') (map (\<lambda>l. (fl_counts l, fl_snapshots l)) logs))) s) (\<lambda>s _.
           (s\<lparr>va_logs := [], va_log_id := va_log_id s + 1\<rparr>, Inr ())))))"

subsection \<open>One round of \<open>run_tracking\<close>\<close>

record run_vars =
  rv_last_ts :: rat
  rv_last_frame_ts :: rat

datatype round_outcome = NextRound run_vars | Finished | Died py_error

text \<open>The time stamp of the last frame, else the loop from the back, which has no \<open>break\<close>.\<close>

definition new_last_frame_ts :: "rat \<Rightarrow> rat list \<Rightarrow> rat" where
  "new_last_frame_ts old ts =
     (if last ts > 0 then last ts else foldl (\<lambda>a t. if t > 0 then t else a) old (rev ts))"

definition clean_tracks ::
    "'p vision \<Rightarrow> vehicle_config \<Rightarrow> ('d, 'p) vehicle_app \<Rightarrow> ('d, 'p) vehicle_app result" where
  "clean_tracks V C s =
     bindE (remove_out_of_rois_tracks V C (remove_inactive_tracks s)) (\<lambda>s.
       Inr (remove_expired_objects C s))"

text \<open>What follows the counting: the report, when it is due, and the logs.\<close>

definition end_window ::
    "('d, 'p) vehicle_store \<Rightarrow> vehicle_config \<Rightarrow> 'p image list \<Rightarrow> rat list \<Rightarrow>
       (int \<times> bbox \<times> rat) list \<Rightarrow> run_vars \<Rightarrow> ('d, 'p) vehicle_app \<Rightarrow>
       (('d, 'p) vehicle_app, run_vars) outcome" where
  "end_window D C frames ts drawn v s =
     (let n = length frames;
          log_frame = \<lparr>df_frame = last frames, df_objects = drawn, df_counts = va_class_count_dicts s,
            df_number = va_total_processed_frames s + int (n - 1)\<rparr>;
          s = s\<lparr>va_total_processed_frames := va_total_processed_frames s + int n\<rparr>
      in andThen (if rv_last_ts v < 0 then (s, Inr (v\<lparr>rv_last_ts := hd ts\<rparr>))
                  else if last ts - rv_last_ts v \<ge> of_int (vc_counting_report_interval_secs C) * 1000
                  then andThen (attempt (report_counting D C (last ts)) s) (\<lambda>s _.
                         (s, Inr (v\<lparr>rv_last_ts := last ts\<rparr>)))
                  else (s, Inr v)) (\<lambda>s v.
         if vc_collect_logs C
         then andThen (attempt (snapshot_stats log_frame (last ts)) s) (\<lambda>s _.
              andThen (if length (va_logs s) \<ge> 10 then upload_logs D C s else (s, Inr ())) (\<lambda>s _. (s, Inr v)))
         else (s, Inr v)))"

definition stop_threads :: "('d, 'p) vehicle_app \<Rightarrow> ('d, 'p) vehicle_app" where
  "stop_threads s = s\<lparr>va_to_exit_threads := True\<rparr>"

text \<open>
  A window. An exception of the detector or of a tracker stops the other threads, another one
  leaves them running. Nothing reads the tracks and the counters after an exception, so they are
  the ones before the call that raised it; what was written to the database stays.
\<close>

definition run_window ::
    "'p vision \<Rightarrow> ('d, 'p) vehicle_store \<Rightarrow> vehicle_config \<Rightarrow> 'p image list \<Rightarrow> rat list \<Rightarrow> run_vars \<Rightarrow>
       ('d, 'p) vehicle_app \<Rightarrow> ('d, 'p) vehicle_app \<times> round_outcome" where
  "run_window V D C frames ts v s =
     (let v = v\<lparr>rv_last_frame_ts := new_last_frame_ts (rv_last_frame_ts v) ts\<rparr>; rd = va_round s
      in case clean_tracks V C s of Inl e \<Rightarrow> (s, Died e) | Inr s \<Rightarrow>
        (case bindE (run_detector V rd (vc_detector_uuid C) (hd frames) (vc_inference_retries C))
           reply_detections of Inl e \<Rightarrow> (stop_threads s, Died e) | Inr dets \<Rightarrow>
        (case process_detections V C (hd frames) dets s of Inl e \<Rightarrow> (s, Died e) | Inr s \<Rightarrow>
        (case follow_objects V C rd frames (va_track_dict s) of Inl e \<Rightarrow> (stop_threads s, Died e) | Inr d \<Rightarrow>
        (case count_window C (length frames) (s\<lparr>va_track_dict := d\<rparr>) of Inl e \<Rightarrow> (s, Died e) | Inr (s, drawn) \<Rightarrow>
        (case end_window D C frames ts drawn v s of (s, Inl e) \<Rightarrow> (s, Died e) | (s, Inr v) \<Rightarrow>
           (s\<lparr>va_round := Suc (va_round s)\<rparr>, NextRound v)))))))"

definition end_run ::
    "('d, 'p) vehicle_store \<Rightarrow> vehicle_config \<Rightarrow> bool \<Rightarrow> rat \<Rightarrow> ('d, 'p) vehicle_app \<Rightarrow>
       ('d, 'p) vehicle_app \<times> round_outcome" where
  "end_run D C report ts s =
     (case if report then report_counting D C ts s else Inr s of
        Inl e \<Rightarrow> (s, Died e) | Inr s \<Rightarrow> (stop_threads s, Finished))"

definition run_round ::
    "'p vision \<Rightarrow> ('d, 'p) vehicle_store \<Rightarrow> vehicle_config \<Rightarrow> run_vars \<Rightarrow> ('d, 'p) vehicle_app \<Rightarrow>
       ('d, 'p) vehicle_app \<times> round_outcome" where
  "run_round V D C v s =
     (let ((frames, ts, _), s) = offline_get_batch C s
      in if rv_last_frame_ts v \<ge> vc_job_duration C * 1000 \<or> va_job_completed s
         then end_run D C True (rv_last_frame_ts v) (s\<lparr>va_job_completed := True\<rparr>)
         else if va_decoder_stopped s \<and> frames = []
         then end_run D C (rv_last_frame_ts v > 0) (rv_last_frame_ts v) s
         else if ts = [] then (s, NextRound v)
         else run_window V D C frames ts v s)"

definition first_vars :: run_vars where
  "first_vars = \<lparr>rv_last_ts = - 1, rv_last_frame_ts = - 1\<rparr>"

end
