(* ===== verification/Nxs_Vehicle_Feed.thy ===== *)
theory Nxs_Vehicle_Feed
  imports Nxs_Vehicle_App Nxs_Storage_Cache "HOL-Library.Sublist"
begin

section \<open>Vehicle counting: where the frames come from\<close>

text \<open>
  The download thread and the decode thread of \<open>worker/offline_worker.py\<close>, and what is different
  in \<open>worker/online_worker.py\<close>. One round of the loop of each thread is a function; the calls of
  the network, the clock and the disk are numbered by a counter of the thread. Pauses are
  left out, and a chunk is decoded in one step.
\<close>

subsection \<open>Play lists\<close>

record feed_env =
  fv_get :: "nat \<Rightarrow> string \<Rightarrow> string result"
  fv_now :: "nat \<Rightarrow> rat"
  fv_disk_usage :: "nat \<Rightarrow> rat result"

record download_vars =
  dl_clock :: nat
  dl_starting_ts :: rat
  dl_last_downloaded :: "int list"
  dl_idx :: nat

definition new_download_vars :: "feed_env \<Rightarrow> download_vars" where
  "new_download_vars E =
     \<lparr>dl_clock = 1, dl_starting_ts = fv_now E 0, dl_last_downloaded = [], dl_idx = 0\<rparr>"

definition DATA_DIR :: string where
  "DATA_DIR = ''/data''"

text \<open>\<open>url[: url.rindex("/")]\<close>.\<close>

definition base_url :: "string \<Rightarrow> string result" where
  "base_url url =
     (if CHR ''/'' \<in> set url
      then Inr (rev (tl (dropWhile (\<lambda>c. c \<noteq> CHR ''/'') (rev url)))) else Inl ValueError)"

definition newline :: char where
  "newline = CHR 0x0A"

text \<open>The lines of a play list: the last list of chunks it names, and the chunks.\<close>

definition scan_line :: "string \<Rightarrow> string \<times> string list \<Rightarrow> string \<Rightarrow> string \<times> string list" where
  "scan_line base = (\<lambda>(path, names) l.
     (if sublist ''.m3u8'' l then join_path base l else path,
      if sublist ''.ts'' l then names @ [l] else names))"

text \<open>The first loop, until a play list names something. The result says whether the last
  attempt has failed, which ends the video.\<close>

fun first_playlist ::
    "feed_env \<Rightarrow> string \<Rightarrow> string \<Rightarrow> nat \<Rightarrow> nat \<Rightarrow> string \<times> string list \<Rightarrow>
       (string \<times> string list) \<times> bool \<times> nat" where
  "first_playlist E url base 0 k acc = (acc, False, k)"
| "first_playlist E url base (Suc left) k acc =
     (case fv_get E k url of
        Inl _ \<Rightarrow> if left = 0 then (acc, True, Suc k) else first_playlist E url base left (Suc k) acc
      | Inr data \<Rightarrow>
          let acc = foldl (scan_line base) acc (split_on newline data)
          in if snd acc \<noteq> [] \<or> fst acc \<noteq> '''' then (acc, False, Suc k)
             else first_playlist E url base left (Suc k) acc)"

fun chunk_list :: "feed_env \<Rightarrow> string \<Rightarrow> nat \<Rightarrow> nat \<Rightarrow> string list \<times> bool \<times> nat" where
  "chunk_list E path 0 k = ([], False, k)"
| "chunk_list E path (Suc left) k =
     (case fv_get E k path of
        Inl _ \<Rightarrow> if left = 0 then ([], True, Suc k) else chunk_list E path left (Suc k)
      | Inr data \<Rightarrow> (filter (sublist ''.ts'') (split_on newline data), False, Suc k))"

definition get_chunk_names ::
    "feed_env \<Rightarrow> vehicle_config \<Rightarrow> nat \<Rightarrow> download_vars \<Rightarrow> ('d, 'p) vehicle_app \<Rightarrow>
       (string list \<times> download_vars \<times> ('d, 'p) vehicle_app) result" where
  "get_chunk_names E C retries v s =
     bindE (base_url (vc_video_url C)) (\<lambda>base.
       let ((path, names), bad, k) = first_playlist E (vc_video_url C) base retries (dl_clock v) ('''', []);
           v = v\<lparr>dl_clock := k\<rparr>;
           s = (if bad then s\<lparr>va_video_ended := True\<rparr> else s)
       in if names \<noteq> [] then Inr (names, v, s)
          else let (names, bad, k) = chunk_list E path retries (dl_clock v)
               in Inr (names, v\<lparr>dl_clock := k\<rparr>, if bad then s\<lparr>va_video_ended := True\<rparr> else s))"

subsection \<open>Downloading chunks\<close>

fun remove_all_sub :: "string \<Rightarrow> string \<Rightarrow> string" where
  "remove_all_sub p [] = []"
| "remove_all_sub p (c # s) =
     (if p \<noteq> [] \<and> prefix p (c # s) then remove_all_sub p (drop (length p - 1) s)
      else c # remove_all_sub p s)"

definition strip_ws :: "string \<Rightarrow> string" where
  "strip_ws s = (let ws = (\<lambda>c. c \<in> {CHR '' '', CHR 0x09, CHR 0x0A, CHR 0x0B, CHR 0x0C, CHR 0x0D})
     in rev (dropWhile ws (rev (dropWhile ws s))))"

text \<open>\<open>int(name.replace(".ts", "").split("_")[-1])\<close>\<close>

definition chunk_index :: "string \<Rightarrow> int result" where
  "chunk_index name = int_of_string (strip_ws (last (split_on (CHR ''_'') (remove_all_sub ''.ts'' name))))"

text \<open>The attempts to download one chunk.\<close>

fun download_chunk ::
    "feed_env \<Rightarrow> string \<Rightarrow> nat \<Rightarrow> int \<Rightarrow> download_vars \<Rightarrow> ('d, 'p) vehicle_app \<times> (string, string) dict \<Rightarrow>
       download_vars \<times> ('d, 'p) vehicle_app \<times> (string, string) dict" where
  "download_chunk E url 0 i v s = (v, s)"
| "download_chunk E url (Suc left) i v (s, files) =
     (let k = dl_clock v; path = join_path DATA_DIR (''chunk_'' @ string_of_nat (dl_idx v))
      in case fv_get E k url of
           Inl _ \<Rightarrow> download_chunk E url left i (v\<lparr>dl_clock := Suc k\<rparr>) (s, files)
         | Inr data \<Rightarrow>
             (v\<lparr>dl_clock := Suc (Suc k)\<rparr>,
              s\<lparr>va_downloaded_videos := va_downloaded_videos s
                @ [(i, path, (fv_now E (Suc k) - dl_starting_ts v) * 1000)]\<rparr>,
              AList.update path data files))"

definition remember_chunk :: "int \<Rightarrow> int list \<Rightarrow> int list" where
  "remember_chunk i xs =
     (let xs = (if length xs > 10 then tl xs else xs) in if i \<in> set xs then xs else xs @ [i])"

type_synonym ('d, 'p) download_state =
  "download_vars \<times> ('d, 'p) vehicle_app \<times> (string, string) dict"

definition visit_chunk ::
    "feed_env \<Rightarrow> string \<Rightarrow> ('d, 'p) download_state \<Rightarrow> string \<Rightarrow> (('d, 'p) download_state, unit) outcome" where
  "visit_chunk E base = (\<lambda>(v, s) name.
     (case chunk_index name of
        Inl e \<Rightarrow> ((v, s), Inl e)
      | Inr i \<Rightarrow>
          if i \<in> set (dl_last_downloaded v) then ((v, s), Inr ())
          else let (v, s) = download_chunk E (join_path base name) 5 i v s
               in ((v\<lparr>dl_last_downloaded := remember_chunk i (dl_last_downloaded v),
                      dl_idx := Suc (dl_idx v)\<rparr>, s), Inr ())))"

datatype 'v thread_outcome = Continues 'v | Stopped | Crashed py_error

text \<open>One round of the download thread; a name that is not a number raises and ends the thread.\<close>

definition download_round ::
    "feed_env \<Rightarrow> vehicle_config \<Rightarrow> download_vars \<Rightarrow> ('d, 'p) vehicle_app \<times> (string, string) dict \<Rightarrow>
       (('d, 'p) vehicle_app \<times> (string, string) dict) \<times> download_vars thread_outcome" where
  "download_round E C v = (\<lambda>(s, files).
     if va_video_ended s \<or> va_job_completed s \<or> va_to_exit_threads s then ((s, files), Stopped)
     else
       let k = dl_clock v; v = v\<lparr>dl_clock := Suc (Suc k)\<rparr>;
           late = fv_now E k - dl_starting_ts v > 11 / 10 * vc_job_duration C;
           full = (case fv_disk_usage E (Suc k) of
             Inl _ \<Rightarrow> False | Inr u \<Rightarrow> u > vc_disk_usage_percentage_thresh C)
       in if late \<or> full then ((s\<lparr>va_video_ended := True\<rparr>, files), Stopped)
          else case get_chunk_names E C 60 v s of
                 Inl e \<Rightarrow> ((s, files), Crashed e)
               | Inr (names, v, s) \<Rightarrow>
                   if va_video_ended s then ((s, files), Stopped)
                   else (case base_url (vc_video_url C) of
                           Inl e \<Rightarrow> ((s, files), Crashed e)
                         | Inr base \<Rightarrow>
                             (case forEach (visit_chunk E base) (v, s, files) names of
                                ((v, s), Inl e) \<Rightarrow> (s, Crashed e)
                              | ((v, s), Inr _) \<Rightarrow> (s, Continues v))))"

subsection \<open>Decoding chunks\<close>

text \<open>\<open>cv2.VideoCapture\<close> on the content of a file: the frame rate and the frames.\<close>

record decode_vars =
  dc_video_ts :: rat
  dc_frame_idx :: int

definition decode_frame ::
    "vehicle_config \<Rightarrow> rat \<Rightarrow> decode_vars \<times> ('d, 'p) vehicle_app \<Rightarrow> 'p image \<Rightarrow>
       decode_vars \<times> ('d, 'p) vehicle_app" where
  "decode_frame C frame_time = (\<lambda>(v, s) img.
     let ts = dc_video_ts v + frame_time;
         s = (if dc_frame_idx v mod (vc_skip_frame C + 1) = 0
              then s\<lparr>va_video_frames := va_video_frames s @ [img],
                     va_video_frame_timestamps := va_video_frame_timestamps s @ [ts]\<rparr> else s)
     in (v\<lparr>dc_video_ts := ts, dc_frame_idx := dc_frame_idx v + 1\<rparr>,
         s\<lparr>va_total_extracted_frames := Suc (va_total_extracted_frames s)\<rparr>))"

definition decode_round ::
    "(string option \<Rightarrow> rat \<times> 'p image list) \<Rightarrow> vehicle_config \<Rightarrow> decode_vars \<Rightarrow>
       ('d, 'p) vehicle_app \<times> (string, string) dict \<Rightarrow>
       (('d, 'p) vehicle_app \<times> (string, string) dict) \<times> decode_vars thread_outcome" where
  "decode_round video C v = (\<lambda>(s, files).
     let stop = (\<lambda>s. ((s\<lparr>va_decoder_stopped := True\<rparr>, files), Stopped))
     in if va_to_exit_threads s then stop s
        else if dc_video_ts v \<ge> vc_job_duration C * 1000 then stop (s\<lparr>va_job_completed := True\<rparr>)
        else case va_downloaded_videos s of
               [] \<Rightarrow> if va_video_ended s then stop s else ((s, files), Continues v)
             | (i, path, ts) # rest \<Rightarrow>
                 if int (length (va_video_frames s)) > 5 * NUM_FRAMES_PER_SEC C
                 then ((s, files), Continues v)
                 else
                   let s = s\<lparr>va_downloaded_videos := rest\<rparr>;
                       (fps, imgs) = video (map_of files path);
                       fps = (if fps = 0 then of_int (vc_frame_rate C) else fps)
                   in if fps = 0 then ((s, files), Crashed ZeroDivisionError)
                      else let (v, s) = foldl (decode_frame C (1 / fps * 1000)) (v\<lparr>dc_video_ts := ts\<rparr>, s) imgs
                           in ((s, AList.delete path files), Continues v))"

subsection \<open>The online application\<close>

text \<open>
  \<open>OnlineVehicleTrackingApp\<close> reads the video itself. \<open>video\<close> is the rest of the frames with their
  time stamps, \<open>frames\<close> the number of frames that the container announces.
\<close>

definition online_decode_step ::
    "vehicle_config \<Rightarrow> int \<Rightarrow> ('p image \<times> rat) list \<times> int \<Rightarrow> ('d, 'p) vehicle_app \<Rightarrow>
       ('d, 'p) vehicle_app \<times> (('p image \<times> rat) list \<times> int) thread_outcome" where
  "online_decode_step C frames = (\<lambda>(video, idx) s.
     if int (length (va_video_frames s)) > 5 * NUM_FRAMES_PER_SEC C then (s, Continues (video, idx))
     else case video of
            [] \<Rightarrow> (let s = s\<lparr>va_video_ended := True\<rparr>
                   in if frames > 0 \<and> rat_of_int idx \<ge> 99 / 100 * of_int frames
                      then (s\<lparr>va_job_completed := True\<rparr>, Stopped) else (s, Stopped))
          | (img, ts) # video \<Rightarrow>
              (let s = (if idx mod (vc_skip_frame C + 1) = 0
                 then s\<lparr>va_video_frames := va_video_frames s @ [img],
                        va_video_frame_timestamps := va_video_frame_timestamps s @ [ts]\<rparr> else s)
               in (s\<lparr>va_total_extracted_frames := Suc (va_total_extracted_frames s)\<rparr>,
                   Continues (video, idx + 1))))"

definition online_get_batch ::
    "vehicle_config \<Rightarrow> ('d, 'p) vehicle_app \<Rightarrow>
       ('p image list \<times> rat list \<times> bool) \<times> ('d, 'p) vehicle_app" where
  "online_get_batch C s =
     (let n = batch_frames C; k = int (length (va_video_frames s))
      in if k \<ge> n
         then let ((fs, ts), s) = pop_frames (nat n) s in ((fs, ts, False), s)
         else if va_video_ended s
         then let ((fs, ts), s) = pop_frames (nat k) s in ((fs, ts, True), s)
         else (([], [], va_video_ended s), s))"

text \<open>The last window is not tracked. The detector and the trackers are tried 5 times, the default;
  the flag for the threads of the offline application has no reader here.\<close>

definition online_round ::
    "'p vision \<Rightarrow> ('d, 'p) vehicle_store \<Rightarrow> vehicle_config \<Rightarrow> run_vars \<Rightarrow> ('d, 'p) vehicle_app \<Rightarrow>
       ('d, 'p) vehicle_app \<times> round_outcome" where
  "online_round V D C v s =
     (let ((frames, ts, ended), s) = online_get_batch C s
      in if ended
         then (case if rv_last_frame_ts v > 0 then report_counting D C (rv_last_frame_ts v) s else Inr s of
                 Inl e \<Rightarrow> (s, Died e) | Inr s \<Rightarrow> (s, Finished))
         else if ts = [] then (s, NextRound v)
         else run_window V D (C\<lparr>vc_inference_retries := 5\<rparr>) frames ts v s)"

end
