(* ===== verification/Nxs_Vehicle_Job.thy ===== *)
theory Nxs_Vehicle_Job
  imports Nxs_Vehicle_Feed Nxs_Registry
begin

section \<open>Vehicle counting: jobs (\<open>apps/vehicle_counting/api/app.py\<close>, \<open>worker/worker.py\<close>)\<close>

text \<open>
  The API that starts, stops and reports on jobs, and the main function of a worker. The
  document database and Kubernetes are parameters: the operations of the database client can
  raise, the outcome of a \<open>kubectl\<close> command is not looked at.
\<close>

subsection \<open>\<open>app_types/app_request.py\<close>\<close>

datatype request_status = RS_PENDING | RS_RUNNING | RS_FAILED | RS_STOPPED | RS_COMPLETED

type_synonym tracking_point = "rat \<times> rat"

record tracking_region =
  tg_roi :: "tracking_point list"
  tg_line :: "tracking_point \<times> tracking_point"

record tracking_request =
  tq_video_url :: string
  tq_regions :: "tracking_region list"
  tq_skip_frames :: "int option"
  tq_tracking_classes :: "string list option"
  tq_count_interval_secs :: "int option"
  tq_debug :: "bool option"
  tq_job_duration :: int

record video_task = tracking_request +
  vt_video_uuid :: string
  vt_status :: request_status
  vt_error :: "string option"

record count_per_class =
  cc_class_name :: string
  cc_count :: int

record count_per_roi =
  cp_roi_idx :: nat
  cp_counts :: "count_per_class list"

record count_result =
  ct_timestamp :: rat
  ct_starting_utc_timestamp :: rat
  ct_ending_utc_timestamp :: rat
  ct_counts :: "count_per_roi list"

record visualization =
  vz_from_ts :: rat
  vz_to_ts :: rat
  vz_frames :: "string list"

subsection \<open>The database, the cluster and the API's state\<close>

text \<open>
  \<open>jd_counts_after d u ts\<close> are the reports of a video later than \<open>ts\<close>, in ascending order of
  their time stamps, \<open>jd_last_count d u\<close> the latest one; \<open>jd_log_after d u ts\<close> is one log that
  starts later.
\<close>

record 'd jobs_db =
  jd_insert_task :: "'d \<Rightarrow> video_task \<Rightarrow> 'd result"
  jd_find_task :: "'d \<Rightarrow> string \<Rightarrow> video_task list result"
  jd_find_status :: "'d \<Rightarrow> request_status \<Rightarrow> string list result"
  jd_update_task :: "'d \<Rightarrow> string \<Rightarrow> (video_task \<Rightarrow> video_task) \<Rightarrow> 'd result"
  jd_counts_after :: "'d \<Rightarrow> string \<Rightarrow> rat \<Rightarrow> count_report list result"
  jd_last_count :: "'d \<Rightarrow> string \<Rightarrow> count_report list result"
  jd_log_after :: "'d \<Rightarrow> string \<Rightarrow> rat \<Rightarrow> log_entry list result"

record app_job =
  jo_name :: string
  jo_image :: string
  jo_video_uuid :: string
  jo_debug :: bool
  jo_claim :: "string option"

datatype kube_command =
    ApplyClaim string nat
  | ApplyJob app_job
  | DeleteJob string
  | DeleteClaim string
  | CleanCluster

record job_args =
  jg_worker_container :: string
  jg_use_external_storage :: bool

record 'd job_api =
  ja_db :: 'd
  ja_commands :: "kube_command list"

definition kubectl :: "kube_command \<Rightarrow> 'd job_api \<Rightarrow> 'd job_api" where
  "kubectl c s = s\<lparr>ja_commands := ja_commands s @ [c]\<rparr>"

definition db_write :: "('d \<Rightarrow> 'd result) \<Rightarrow> 'd job_api \<Rightarrow> ('d job_api, unit) outcome" where
  "db_write f s = (case f (ja_db s) of Inl e \<Rightarrow> (s, Inl e) | Inr d \<Rightarrow> (s\<lparr>ja_db := d\<rparr>, Inr ()))"

definition db_read :: "('d \<Rightarrow> 'a result) \<Rightarrow> 'd job_api \<Rightarrow> ('d job_api, 'a) outcome" where
  "db_read f s = (s, f (ja_db s))"

definition set_status :: "request_status \<Rightarrow> video_task \<Rightarrow> video_task" where
  "set_status st t = t\<lparr>vt_status := st\<rparr>"

subsection \<open>Submitting a video\<close>

definition pvc_name :: "string \<Rightarrow> string" where
  "pvc_name uuid = lower (''pvc'' @ uuid)"

definition storage_size :: "int \<Rightarrow> nat" where
  "storage_size job_duration =
     (let days = rat_of_int job_duration / 86400
      in if days \<le> 1 / 8 then 7 else if days \<le> 1 / 4 then 15 else if days \<le> 1 / 2 then 31
         else if days \<le> 1 then 63 else if days \<le> 2 then 127 else if days \<le> 4 then 255 else 511)"

definition check_request :: "tracking_request \<Rightarrow> unit result" where
  "check_request q =
     (if length (tq_regions q) < 1
      then Inl (Raised ''Need at least one region to count vehicles.'')
      else if (case tq_count_interval_secs q of None \<Rightarrow> False | Some n \<Rightarrow> n < 30)
      then Inl (Raised ''count_interval_secs should be at least 30.'')
      else if tq_job_duration q > 604800
      then Inl (Raised ''job_duration should be at most 604800 secs.'')
      else Inr ())"

definition indb_request :: "string \<Rightarrow> tracking_request \<Rightarrow> video_task" where
  "indb_request uuid q = tracking_request.extend q
     \<lparr>vt_video_uuid = uuid, vt_status = RS_PENDING, vt_error = None\<rparr>"

definition submit_video ::
    "'d jobs_db \<Rightarrow> job_args \<Rightarrow> string \<Rightarrow> tracking_request \<Rightarrow> 'd job_api \<Rightarrow> ('d job_api, string) outcome" where
  "submit_video J A uuid q s =
     (case check_request q of
        Inl e \<Rightarrow> (s, Inl e)
      | Inr _ \<Rightarrow>
          andThen (db_write (\<lambda>d. jd_insert_task J d (indb_request uuid q)) s) (\<lambda>s _.
            let ext = jg_use_external_storage A;
                s = (if ext then kubectl (ApplyClaim (pvc_name uuid) (storage_size (tq_job_duration q))) s
                     else s);
                job = \<lparr>jo_name = uuid, jo_image = jg_worker_container A, jo_video_uuid = uuid,
                       jo_debug = (tq_debug q = Some True),
                       jo_claim = (if ext then Some (pvc_name uuid) else None)\<rparr>
            in (kubectl (ApplyJob job) s, Inr uuid)))"

subsection \<open>Stopping jobs\<close>

definition terminal :: "request_status \<Rightarrow> bool" where
  "terminal st \<longleftrightarrow> st \<in> {RS_COMPLETED, RS_FAILED, RS_STOPPED}"

definition terminate_job ::
    "'d jobs_db \<Rightarrow> job_args \<Rightarrow> string \<Rightarrow> 'd job_api \<Rightarrow> ('d job_api, unit) outcome" where
  "terminate_job J A uuid s =
     andThen (db_read (\<lambda>d. jd_find_task J d uuid) s) (\<lambda>s ts.
       case ts of
         [] \<Rightarrow> (s, Inl (Raised ''non-existing video.''))
       | t # _ \<Rightarrow>
           let s = kubectl (DeleteJob uuid) s
           in andThen (if terminal (vt_status t) then (s, Inr ())
                else db_write (\<lambda>d. jd_update_task J d uuid (set_status RS_STOPPED)) s) (\<lambda>s _.
              (if jg_use_external_storage A then kubectl (DeleteClaim (pvc_name uuid)) s else s, Inr ())))"

definition stop_with_status ::
    "'d jobs_db \<Rightarrow> request_status \<Rightarrow> 'd job_api \<Rightarrow> ('d job_api, unit) outcome" where
  "stop_with_status J st s =
     andThen (db_read (\<lambda>d. jd_find_status J d st) s) (\<lambda>s us.
       forEach (\<lambda>s u. db_write (\<lambda>d. jd_update_task J d u (set_status RS_STOPPED)) s) s us)"

text \<open>The clean-up script runs after the answer.\<close>

definition clean_cluster :: "'d jobs_db \<Rightarrow> 'd job_api \<Rightarrow> ('d job_api, unit) outcome" where
  "clean_cluster J s =
     andThen (stop_with_status J RS_PENDING s) (\<lambda>s _.
     andThen (stop_with_status J RS_RUNNING s) (\<lambda>s _. (kubectl CleanCluster s, Inr ())))"

subsection \<open>Reading\<close>

definition get_videos :: "'d jobs_db \<Rightarrow> request_status \<Rightarrow> 'd job_api \<Rightarrow> string list result" where
  "get_videos J st s = jd_find_status J (ja_db s) st"

definition found_task :: "string \<Rightarrow> 'd jobs_db \<Rightarrow> string \<Rightarrow> 'd job_api \<Rightarrow> video_task result" where
  "found_task msg J uuid s =
     bindE (jd_find_task J (ja_db s) uuid) (\<lambda>ts.
       case ts of [] \<Rightarrow> Inl (Raised msg) | t # _ \<Rightarrow> Inr t)"

definition get_video_status ::
    "'d jobs_db \<Rightarrow> string \<Rightarrow> 'd job_api \<Rightarrow> (request_status \<times> string) result" where
  "get_video_status J uuid s =
     bindE (found_task ''non-existing video.'' J uuid s) (\<lambda>t.
       Inr (vt_status t, case vt_error t of None \<Rightarrow> '''' | Some e \<Rightarrow> e))"

definition get_video_log ::
    "'d jobs_db \<Rightarrow> (string \<Rightarrow> string) \<Rightarrow> string \<Rightarrow> 'd job_api \<Rightarrow> string result" where
  "get_video_log J sas uuid s =
     bindE (found_task ''Non-existing video.'' J uuid s) (\<lambda>_. Inr (sas (''logs/'' @ uuid @ ''.txt'')))"

definition per_class :: "(string, int) dict \<Rightarrow> count_per_class list" where
  "per_class d = map (\<lambda>(c, n). \<lparr>cc_class_name = c, cc_count = n\<rparr>) d"

definition tracking_result :: "count_report \<Rightarrow> count_result" where
  "tracking_result r =
     \<lparr>ct_timestamp = cr_timestamp r / 1000, ct_starting_utc_timestamp = cr_starting_utc_ts r,
      ct_ending_utc_timestamp = cr_ending_utc_ts r,
      ct_counts = map (\<lambda>(i, d). \<lparr>cp_roi_idx = i, cp_counts = per_class d\<rparr>) (enumerate 0 (cr_counts r))\<rparr>"

definition get_counts ::
    "'d jobs_db \<Rightarrow> string \<Rightarrow> rat \<Rightarrow> 'd job_api \<Rightarrow> count_result list result" where
  "get_counts J uuid last_ts s =
     bindE (if last_ts > 0 then jd_counts_after J (ja_db s) uuid (last_ts * 1000)
            else jd_last_count J (ja_db s) uuid) (\<lambda>rs. Inr (map tracking_result rs))"

definition get_visualization ::
    "'d jobs_db \<Rightarrow> (string \<Rightarrow> string) \<Rightarrow> string \<Rightarrow> int \<Rightarrow> 'd job_api \<Rightarrow> visualization result" where
  "get_visualization J sas uuid secs s =
     bindE (found_task ''Non-existing video.'' J uuid s) (\<lambda>t.
       if tq_debug t \<noteq> Some True then Inl (Raised ''Video was not run in debug mode.'')
       else bindE (jd_log_after J (ja_db s) uuid (of_int secs * 1000)) (\<lambda>ls.
         case ls of
           [] \<Rightarrow> Inl (Raised ''Could not find any visualization frames. Please try different timestamp!!!'')
         | l # _ \<Rightarrow>
             Inr \<lparr>vz_from_ts = le_start_ts l / 1000, vz_to_ts = le_end_ts l / 1000,
                  vz_frames = map (\<lambda>i. sas (''logs/'' @ uuid @ ''_'' @ string_of_nat (le_log_id l)
                    @ ''_'' @ string_of_nat i @ ''.jpg'')) [0..<le_num_logs l]\<rparr>))"

subsection \<open>The worker\<close>

record worker_args =
  wa_video_uuid :: string
  wa_detector_uuid :: string
  wa_tracker_uuid :: string
  wa_debug :: bool
  wa_storage_usage_percentage_thresh :: rat
  wa_inference_retries :: nat

text \<open>What OpenCV reports of the video.\<close>

record capture =
  cv_width :: rat
  cv_height :: rat
  cv_fps :: rat
  cv_frame_count :: int

datatype app_kind = OnlineApp | OfflineApp

definition scale_point :: "capture \<Rightarrow> tracking_point \<Rightarrow> nxs_point" where
  "scale_point cap = (\<lambda>(x, y). \<lparr>px = py_int (x * cv_width cap), py = py_int (y * cv_height cap)\<rparr>)"

definition app_kind_of :: "video_task \<Rightarrow> app_kind" where
  "app_kind_of t = (if sublist ''.m3u8'' (tq_video_url t) then OfflineApp else OnlineApp)"

text \<open>The online application computes its duration from the container; the offline one is not
  given the threshold for the disk and keeps the default.\<close>

definition online_duration :: "capture \<Rightarrow> int \<Rightarrow> int \<Rightarrow> rat result" where
  "online_duration cap rate duration =
     (if rate = 0 then Inl ZeroDivisionError
      else let d = of_int (cv_frame_count cap) / of_int rate
           in Inr (if d \<le> 0 then of_int duration else d))"

definition worker_config :: "worker_args \<Rightarrow> capture \<Rightarrow> video_task \<Rightarrow> vehicle_config result" where
  "worker_config A cap t =
     (let rate = py_round (cv_fps cap); kind = app_kind_of t
      in bindE (if kind = OnlineApp then online_duration cap rate (tq_job_duration t)
                else Inr (of_int (tq_job_duration t))) (\<lambda>duration.
         bindE (case tq_tracking_classes t of None \<Rightarrow> Inl TypeError | Some cs \<Rightarrow> Inr cs) (\<lambda>classes.
           Inr \<lparr>vc_video_uuid = vt_video_uuid t, vc_detector_uuid = wa_detector_uuid A,
             vc_tracker_uuid = wa_tracker_uuid A, vc_video_url = tq_video_url t, vc_frame_rate = rate,
             vc_rois = map (\<lambda>r. map (scale_point cap) (tg_roi r)) (tq_regions t),
             vc_lines = map (\<lambda>r. \<lparr>ln_p0 = scale_point cap (fst (tg_line r)),
               ln_p1 = scale_point cap (snd (tg_line r))\<rparr>) (tq_regions t),
             vc_tracking_classes = classes, vc_treat_all_classes_as_one = False,
             vc_detector_min_score = 4 / 10, vc_detector_interval_secs = 1,
             vc_duplicate_iou_thresh = 65 / 100, vc_merge_iou_thresh = 1 / 2,
             vc_object_expiration_secs = 2, vc_tracking_score_thresh = 975 / 1000,
             vc_skip_frame = (case tq_skip_frames t of None \<Rightarrow> 3 | Some n \<Rightarrow> n),
             vc_collect_logs = wa_debug A,
             vc_counting_report_interval_secs =
               (case tq_count_interval_secs t of None \<Rightarrow> 900 | Some n \<Rightarrow> n),
             vc_job_duration = duration,
             vc_disk_usage_percentage_thresh =
               (if kind = OnlineApp then wa_storage_usage_percentage_thresh A else 80),
             vc_inference_retries = (if kind = OnlineApp then 90 else wa_inference_retries A)\<rparr>)))"

definition set_result :: "request_status \<Rightarrow> string \<Rightarrow> video_task \<Rightarrow> video_task" where
  "set_result st err t = t\<lparr>vt_status := st, vt_error := Some err\<rparr>"

text \<open>The part in the \<open>try\<close>. \<open>run\<close> is the constructor and \<open>run_tracking\<close>: the database after it,
  and whether the job was completed.\<close>

definition worker_job ::
    "'d jobs_db \<Rightarrow> worker_args \<Rightarrow> capture \<Rightarrow> (app_kind \<Rightarrow> vehicle_config \<Rightarrow> 'd \<Rightarrow> 'd \<times> bool result) \<Rightarrow>
       'd \<Rightarrow> ('d, unit) outcome" where
  "worker_job J A cap run d =
     (let u = wa_video_uuid A; write = (\<lambda>f d.
        case jd_update_task J d u f of Inl e \<Rightarrow> (d, Inl e) | Inr d \<Rightarrow> (d, Inr ()))
      in andThen (write (set_status RS_RUNNING) d) (\<lambda>d _.
         andThen (d, bindE (jd_find_task J d u) (\<lambda>ts. nth_item ts 0)) (\<lambda>d t.
         andThen (d, worker_config A cap t) (\<lambda>d C.
         andThen (run (app_kind_of t) C d) (\<lambda>d completed.
           write (if completed then set_result RS_COMPLETED '''' else set_result RS_FAILED ''stream ended'') d)))))"

text \<open>The loop that reports an error; \<open>J k\<close> is the client of attempt \<open>k\<close>.\<close>

fun report_failure :: "(nat \<Rightarrow> 'd jobs_db) \<Rightarrow> string \<Rightarrow> string \<Rightarrow> nat \<Rightarrow> nat \<Rightarrow> 'd \<Rightarrow> 'd" where
  "report_failure J u err k 0 d = d"
| "report_failure J u err k (Suc left) d =
     (case jd_update_task (J k) d u (set_result RS_FAILED err) of
        Inr d \<Rightarrow> d
      | Inl _ \<Rightarrow> report_failure J u err (Suc k) left d)"

text \<open>
  \<open>main\<close>: after the upload of the log file, which can raise, the worker asks the API to terminate
  the job until the call succeeds.
\<close>

definition worker_main ::
    "(nat \<Rightarrow> 'd jobs_db) \<Rightarrow> (py_error \<Rightarrow> string) \<Rightarrow> worker_args \<Rightarrow> capture \<Rightarrow>
       (app_kind \<Rightarrow> vehicle_config \<Rightarrow> 'd \<Rightarrow> 'd \<times> bool result) \<Rightarrow> unit result \<Rightarrow> 'd \<Rightarrow> ('d, unit) outcome" where
  "worker_main J text_of A cap run logs_up d =
     (let (d, r) = worker_job (J 0) A cap run d;
          d = (case r of Inr _ \<Rightarrow> d
                | Inl e \<Rightarrow> report_failure (\<lambda>k. J (Suc k)) (wa_video_uuid A) (text_of e) 0 60 d)
      in (d, logs_up))"

text \<open>The call that the worker makes at its end.\<close>

definition worker_then_api ::
    "(nat \<Rightarrow> 'd jobs_db) \<Rightarrow> (py_error \<Rightarrow> string) \<Rightarrow> worker_args \<Rightarrow> job_args \<Rightarrow> capture \<Rightarrow>
       (app_kind \<Rightarrow> vehicle_config \<Rightarrow> 'd \<Rightarrow> 'd \<times> bool result) \<Rightarrow> unit result \<Rightarrow> 'd job_api \<Rightarrow>
       ('d job_api, unit) outcome" where
  "worker_then_api J text_of W A cap run logs_up s =
     (let (d, r) = worker_main J text_of W cap run logs_up (ja_db s)
      in andThen (s\<lparr>ja_db := d\<rparr>, r) (\<lambda>s _. terminate_job (J 0) A (wa_video_uuid W) s))"

end
