(* ===== verification/Nxs_Vehicle_Geometry.thy ===== *)
theory Nxs_Vehicle_Geometry
  imports Nxs_Vehicle_App
begin

section \<open>Vehicle counting: properties of boxes, templates and lines\<close>

text \<open>
  The template that is cut out of a frame, the overlap of boxes, and what the test for crossing
  a line really looks at.
\<close>

subsection \<open>Square roots\<close>

lemma isqrt_bounds: "isqrt n * isqrt n \<le> n \<and> n < (isqrt n + 1) * (isqrt n + 1)"
proof (induction n rule: isqrt.induct)
  case (1 n)
  show ?case
  proof (cases "n = 0")
    case False
    define r where "r = isqrt (n div 4)"
    have "r * r \<le> n div 4" "n div 4 < (r + 1) * (r + 1)" using 1 [OF False] by (simp_all add: r_def)
    then have "4 * (r * r) \<le> n" "n < 4 * ((r + 1) * (r + 1))" by linarith+
    then show ?thesis
      using False by (subst (1 2 3 4) isqrt.simps) (auto simp: Let_def r_def [symmetric] algebra_simps)
  qed (simp add: isqrt.simps)
qed

lemma round_sqrt_nearest:
  assumes "0 \<le> x"
  shows "\<exists>r \<ge> 0. round_sqrt x = Inr r \<and> x \<le> (of_int r + 1 / 2)\<^sup>2 \<and>
    (r > 0 \<longrightarrow> (of_int r - 1 / 2)\<^sup>2 \<le> x)"
proof -
  define f where "f = int (isqrt (nat \<lfloor>x\<rfloor>))"
  have "f * f \<le> \<lfloor>x\<rfloor>" "\<lfloor>x\<rfloor> < (f + 1) * (f + 1)"
  proof -
    define k where "k = nat \<lfloor>x\<rfloor>"
    have k: "int k = \<lfloor>x\<rfloor>" using assms by (simp add: k_def)
    have "int (isqrt k * isqrt k) \<le> int k" "int k < int ((isqrt k + 1) * (isqrt k + 1))"
      using isqrt_bounds [of k] by (simp_all only: of_nat_le_iff of_nat_less_iff)
    then show "f * f \<le> \<lfloor>x\<rfloor>" "\<lfloor>x\<rfloor> < (f + 1) * (f + 1)"
      by (simp_all add: k [symmetric] f_def k_def [symmetric] algebra_simps)
  qed
  then have x: "rat_of_int (f * f) \<le> x" "x < rat_of_int ((f + 1) * (f + 1))"
    by (simp_all only: le_floor_iff floor_less_iff)
  have f0: "0 \<le> f" by (simp add: f_def)
  define h where "h = (rat_of_int f + 1 / 2)\<^sup>2"
  have rs: "round_sqrt x = Inr (if x < h then f else if x > h then f + 1 else if even f then f else f + 1)"
    using assms by (simp add: round_sqrt_def Let_def f_def [symmetric] h_def power2_eq_square)
  have low: "(rat_of_int f - 1 / 2)\<^sup>2 \<le> x" if "f > 0"
    using x(1) that by (simp add: power2_eq_square algebra_simps)
  have high: "x \<le> (rat_of_int (f + 1) + 1 / 2)\<^sup>2"
    using x(2) f0 by (simp add: power2_eq_square algebra_simps)
  have h': "(rat_of_int (f + 1) - 1 / 2)\<^sup>2 = h" by (simp add: h_def add.commute)
  show ?thesis
  proof (cases "x < h \<or> \<not> x > h \<and> even f")
    case True
    then have "round_sqrt x = Inr f" "x \<le> (rat_of_int f + 1 / 2)\<^sup>2" by (auto simp: rs h_def)
    with f0 low show ?thesis by blast
  next
    case False
    then have "round_sqrt x = Inr (f + 1)" "(rat_of_int (f + 1) - 1 / 2)\<^sup>2 \<le> x" unfolding h' by (auto simp: rs)
    with f0 high show ?thesis by (intro exI [of _ "f + 1"]) simp
  qed
qed

subsection \<open>Templates\<close>

definition rect :: "nat \<Rightarrow> nat \<Rightarrow> 'p image \<Rightarrow> bool" where
  "rect n m img \<longleftrightarrow> length img = n \<and> (\<forall>row \<in> set img. length row = m)"

lemma rect_tabulate [simp]: "rect n m (tabulate n m f)"
  by (auto simp: rect_def tabulate_def)

lemma pixel_tabulate [simp]: "i < n \<Longrightarrow> j < m \<Longrightarrow> pixel (tabulate n m f) i j = f i j"
  by (simp add: pixel_def tabulate_def)

lemma rect_dims: "rect n m img \<Longrightarrow> 0 < n \<Longrightarrow> length img = n \<and> im_cols img = m"
  by (cases img) (auto simp: rect_def im_cols_def)

lemma fill_block_rect:
  assumes "rect n m img" "0 < n"
  shows "rect n m (fill_block area v img)"
    "i < n \<Longrightarrow> j < m \<Longrightarrow> pixel (fill_block area v img) i j = (if area i j then v else pixel img i j)"
  using rect_dims [OF assms] by (simp_all add: fill_block_def)

definition filled :: "nat \<Rightarrow> nat \<Rightarrow> bool \<Rightarrow> (nat \<Rightarrow> nat \<Rightarrow> bool) \<Rightarrow> 'p \<Rightarrow> 'p image \<Rightarrow> 'p image" where
  "filled n m b area v img = (if b then fill_block area v img else img)"

lemma filled_rect:
  assumes "rect n m img" "0 < n"
  shows "rect n m (filled n m b area v img)"
    "i < n \<Longrightarrow> j < m \<Longrightarrow>
       pixel (filled n m b area v img) i j = (if b \<and> area i j then v else pixel img i j)"
  using fill_block_rect [OF assms] assms by (simp_all add: filled_def)

text \<open>Outside of the image the padded one has the mean colour everywhere.\<close>

lemma pad_image_pixels:
  assumes img: "rect r c img" "0 < r"
  shows "rect (r + tp + bt) (c + left + right) (pad_image V img tp bt left right)"
    "i < r + tp + bt \<Longrightarrow> j < c + left + right \<Longrightarrow>
       pixel (pad_image V img tp bt left right) i j =
         (if tp \<le> i \<and> i < tp + r \<and> left \<le> j \<and> j < left + c then pixel img (i - tp) (j - left)
          else vs_mean V img)"
proof -
  let ?n = "r + tp + bt" and ?m = "c + left + right" and ?avg = "vs_mean V img"
  define p0 where "p0 = tabulate ?n ?m (\<lambda>i j. if tp \<le> i \<and> i < tp + r \<and> left \<le> j \<and> j < left + c
    then pixel img (i - tp) (j - left) else vs_zero V)"
  define p1 where "p1 = filled ?n ?m (tp > 0) (\<lambda>i j. i < tp \<and> left \<le> j \<and> j < left + c) ?avg p0"
  define p2 where "p2 = filled ?n ?m (bt > 0) (\<lambda>i j. r + tp \<le> i \<and> left \<le> j \<and> j < left + c) ?avg p1"
  define p3 where "p3 = filled ?n ?m (left > 0) (\<lambda>i j. j < left) ?avg p2"
  define p4 where "p4 = filled ?n ?m (right > 0) (\<lambda>i j. c + left \<le> j) ?avg p3"
  have n: "0 < ?n" using img(2) by simp
  have p: "pad_image V img tp bt left right = p4"
    using rect_dims [OF img] by (simp add: pad_image_def Let_def p0_def p1_def p2_def p3_def p4_def filled_def)
  have r0: "rect ?n ?m p0" by (simp add: p0_def)
  have r1: "rect ?n ?m p1" unfolding p1_def by (rule filled_rect(1) [OF r0 n])
  have r2: "rect ?n ?m p2" unfolding p2_def by (rule filled_rect(1) [OF r1 n])
  have r3: "rect ?n ?m p3" unfolding p3_def by (rule filled_rect(1) [OF r2 n])
  show "rect ?n ?m (pad_image V img tp bt left right)"
    unfolding p p4_def by (rule filled_rect(1) [OF r3 n])
  show "pixel (pad_image V img tp bt left right) i j =
      (if tp \<le> i \<and> i < tp + r \<and> left \<le> j \<and> j < left + c then pixel img (i - tp) (j - left)
       else vs_mean V img)" if ij: "i < ?n" "j < ?m"
  proof -
    have "pixel p0 i j = (if tp \<le> i \<and> i < tp + r \<and> left \<le> j \<and> j < left + c
        then pixel img (i - tp) (j - left) else vs_zero V)" using ij by (simp add: p0_def)
    moreover have "pixel p1 i j =
        (if tp > 0 \<and> i < tp \<and> left \<le> j \<and> j < left + c then ?avg else pixel p0 i j)"
      unfolding p1_def by (rule filled_rect(2) [OF r0 n ij])
    moreover have "pixel p2 i j =
        (if bt > 0 \<and> r + tp \<le> i \<and> left \<le> j \<and> j < left + c then ?avg else pixel p1 i j)"
      unfolding p2_def by (rule filled_rect(2) [OF r1 n ij])
    moreover have "pixel p3 i j = (if left > 0 \<and> j < left then ?avg else pixel p2 i j)"
      unfolding p3_def by (rule filled_rect(2) [OF r2 n ij])
    moreover have "pixel p4 i j = (if right > 0 \<and> c + left \<le> j then ?avg else pixel p3 i j)"
      unfolding p4_def by (rule filled_rect(2) [OF r3 n ij])
    ultimately show ?thesis using ij unfolding p by auto
  qed
qed

text \<open>A cut of a block that lies in the image.\<close>

lemma cut_rect:
  assumes "rect n m img" "0 \<le> y" "0 \<le> x" "y + int k \<le> int n" "x + int l \<le> int m"
  shows "rect k l (cut y (y + int k) x (x + int l) img)"
    "i < k \<Longrightarrow> j < l \<Longrightarrow> pixel (cut y (y + int k) x (x + int l) img) i j = pixel img (nat y + i) (nat x + j)"
proof -
  have len: "length img = n" "\<And>i. i < n \<Longrightarrow> length (img ! i) = m"
    using assms(1) by (auto simp: rect_def)
  have k: "min n (nat (y + int k)) - nat y = k" "min m (nat (x + int l)) - nat x = l"
    using assms by auto
  have rows: "length (slice (nat y) (nat (y + int k)) img) = k"
    "\<And>i. i < k \<Longrightarrow> slice (nat y) (nat (y + int k)) img ! i = img ! (nat y + i)"
    using k(1) assms len(1) by (simp_all add: slice_def)
  have cols: "length (slice (nat x) (nat (x + int l)) (img ! i)) = l" if "i < n" for i
    using len(2) [OF that] k(2) by (simp add: slice_def)
  have "set (slice (nat y) (nat (y + int k)) img) \<subseteq> set img"
    by (auto simp: slice_def dest: in_set_dropD in_set_takeD)
  then show "rect k l (cut y (y + int k) x (x + int l) img)"
    using rows(1) assms(1) k(2) by (auto simp: rect_def cut_def slice_def)
  show "pixel (cut y (y + int k) x (x + int l) img) i j = pixel img (nat y + i) (nat x + j)"
    if "i < k" "j < l"
    using that rows assms len cols [of "nat y + i"] by (simp add: pixel_def cut_def) (simp add: slice_def)
qed

text \<open>C35: Whatever the position and the size of the box, also outside of the frame, the template is a square of the requested side, and each of its pixels is the pixel of the frame at that place, or the mean colour of the frame where the place is outside of it.\<close>

theorem template_patch:
  fixes center :: "rat \<times> rat"
  defines "x0 k \<equiv> py_round (fst center - of_int (int k + 1) / 2)"
    and "y0 k \<equiv> py_round (snd center - of_int (int k + 1) / 2)"
  assumes img: "rect r c img" "0 < r"
  shows "rect k k (original_patch V img center (int k)) \<and>
    (\<forall>i < k. \<forall>j < k. pixel (original_patch V img center (int k)) i j =
      (let y = y0 k + int i; x = x0 k + int j
       in if 0 \<le> y \<and> y < int r \<and> 0 \<le> x \<and> x < int c then pixel img (nat y) (nat x)
          else vs_mean V img))"
proof -
  define xm ym where "xm = x0 k" and "ym = y0 k"
  define l t where "l = max 0 (- xm)" and "t = max 0 (- ym)"
  define rt b where "rt = max 0 (xm + int k - 1 - int c + 1)" and "b = max 0 (ym + int k - 1 - int r + 1)"
  define pad where "pad = (if t > 0 \<or> b > 0 \<or> l > 0 \<or> rt > 0
    then pad_image V img (nat t) (nat b) (nat l) (nat rt) else img)"
  let ?n = "r + nat t + nat b" and ?m = "c + nat l + nat rt"
  have patch: "original_patch V img center (int k) = cut (ym + t) (ym + t + int k) (xm + l) (xm + l + int k) pad"
    using rect_dims [OF img]
    by (simp add: original_patch_def Let_def xm_def ym_def x0_def y0_def l_def t_def rt_def b_def
        pad_def algebra_simps)
  have pad: "rect ?n ?m pad \<and> (\<forall>i < ?n. \<forall>j < ?m. pixel pad i j =
      (if nat t \<le> i \<and> i < nat t + r \<and> nat l \<le> j \<and> j < nat l + c
       then pixel img (i - nat t) (j - nat l) else vs_mean V img))"
  proof (cases "t > 0 \<or> b > 0 \<or> l > 0 \<or> rt > 0")
    case True
    then show ?thesis using pad_image_pixels [OF img] by (simp add: pad_def)
  next
    case False
    then have "nat t = 0" "nat b = 0" "nat l = 0" "nat rt = 0" by simp_all
    with False img(1) show ?thesis by (simp add: pad_def)
  qed
  have range: "0 \<le> ym + t" "0 \<le> xm + l" "ym + t + int k \<le> int ?n" "xm + l + int k \<le> int ?m"
    by (auto simp: l_def t_def rt_def b_def)
  note cut = cut_rect [OF conjunct1 [OF pad] range]
  have "pixel (original_patch V img center (int k)) i j =
      (let y = ym + int i; x = xm + int j
       in if 0 \<le> y \<and> y < int r \<and> 0 \<le> x \<and> x < int c then pixel img (nat y) (nat x) else vs_mean V img)"
    if ij: "i < k" "j < k" for i j
  proof -
    define i' j' where "i' = nat (ym + t) + i" and "j' = nat (xm + l) + j"
    have y: "int i' = ym + t + int i" "int j' = xm + l + int j" using range by (simp_all add: i'_def j'_def)
    have "i' < ?n" "j' < ?m" using y range ij by linarith+
    with pad cut(2) [OF ij] have "pixel (original_patch V img center (int k)) i j =
        (if nat t \<le> i' \<and> i' < nat t + r \<and> nat l \<le> j' \<and> j' < nat l + c
         then pixel img (i' - nat t) (j' - nat l) else vs_mean V img)"
      by (simp add: patch i'_def j'_def)
    moreover have "nat t \<le> i' \<longleftrightarrow> 0 \<le> ym + int i" "i' < nat t + r \<longleftrightarrow> ym + int i < int r"
      "nat l \<le> j' \<longleftrightarrow> 0 \<le> xm + int j" "j' < nat l + c \<longleftrightarrow> xm + int j < int c"
      "i' - nat t = nat (ym + int i)" "j' - nat l = nat (xm + int j)"
      using y by (auto simp: t_def l_def)
    ultimately show ?thesis by (simp add: Let_def)
  qed
  with cut(1) show ?thesis by (simp add: patch xm_def ym_def)
qed

subsection \<open>Overlap\<close>

text \<open>A box with an inside, of a size that an image can have.\<close>

definition real_box :: "bbox \<Rightarrow> bool" where
  "real_box b \<longleftrightarrow> bb_left b < bb_right b \<and> bb_top b < bb_bottom b \<and>
     bb_right b - bb_left b \<le> 10 ^ 8 \<and> bb_bottom b - bb_top b \<le> 10 ^ 8"

definition separated :: "bbox \<Rightarrow> bbox \<Rightarrow> bool" where
  "separated a b \<longleftrightarrow> bb_right a < bb_left b \<or> bb_right b < bb_left a \<or>
     bb_bottom a < bb_top b \<or> bb_bottom b < bb_top a"

lemma inter_area_comm: "inter_area a b = inter_area b a"
  by (simp add: inter_area_def max.commute min.commute)

lemma inter_area_separated: "separated a b \<Longrightarrow> inter_area a b = 0"
proof -
  assume "separated a b"
  then have "min (bb_right a) (bb_right b) - max (bb_left a) (bb_left b) \<le> - 1 \<or>
      min (bb_bottom a) (bb_bottom b) - max (bb_top a) (bb_top b) \<le> - 1"
    by (auto simp: separated_def)
  moreover have "max 0 (rat_of_int x + iou_eps) = 0" if "x \<le> - 1" for x
  proof -
    have "rat_of_int x \<le> - 1" using of_int_le_iff [of x "- 1", where 'a = rat] that by simp
    then show ?thesis by simp
  qed
  ultimately show "inter_area a b = 0" by (auto simp: inter_area_def Let_def)
qed

text \<open>The overlap is at most the area of one of the boxes, up to the small constant.\<close>

lemma inter_area_bounds:
  assumes "real_box a" "real_box b" "\<not> separated a b"
  shows "0 < inter_area a b" "inter_area a b \<le> of_int (compute_area a) + 1 / 2"
proof -
  define w h where "w = min (bb_right a) (bb_right b) - max (bb_left a) (bb_left b)"
    and "h = min (bb_bottom a) (bb_bottom b) - max (bb_top a) (bb_top b)"
  define W H where "W = bb_right a - bb_left a" and "H = bb_bottom a - bb_top a"
  have wh: "0 \<le> w" "0 \<le> h" "w \<le> W" "h \<le> H" "W \<le> 10 ^ 8" "H \<le> 10 ^ 8"
    using assms by (auto simp: w_def h_def W_def H_def real_box_def separated_def)
  then have r: "0 \<le> rat_of_int w" "0 \<le> rat_of_int h" "rat_of_int w \<le> rat_of_int W"
    "rat_of_int h \<le> rat_of_int H" "rat_of_int W \<le> 10 ^ 8" "rat_of_int H \<le> 10 ^ 8"
    using of_int_le_iff [of W "10 ^ 8", where 'a = rat] of_int_le_iff [of H "10 ^ 8", where 'a = rat]
    by simp_all
  have i: "inter_area a b = (rat_of_int w + iou_eps) * (rat_of_int h + iou_eps)"
    using r(1,2) by (simp add: inter_area_def Let_def w_def h_def)
  show "0 < inter_area a b" using r(1,2) by (simp add: i)
  have "(rat_of_int w + iou_eps) * (rat_of_int h + iou_eps)
      \<le> (rat_of_int W + iou_eps) * (rat_of_int H + iou_eps)"
    by (rule mult_mono) (use r in auto)
  also have "\<dots> = rat_of_int (W * H) + (rat_of_int W + rat_of_int H) * iou_eps + iou_eps * iou_eps"
    by (simp add: algebra_simps)
  also have "\<dots> \<le> rat_of_int (W * H) + 1 / 2"
  proof -
    have "(x + y) * iou_eps + iou_eps * iou_eps \<le> 1 / 2" if "x \<le> 10 ^ 8" "y \<le> 10 ^ 8" for x y :: rat
      using that by (simp add: field_simps)
    from this [OF r(5,6)] show ?thesis by linarith
  qed
  finally show "inter_area a b \<le> of_int (compute_area a) + 1 / 2"
    by (simp add: i compute_area_def W_def H_def)
qed

text \<open>The overlap of two boxes of positive size is a number that does not depend on their order, is never negative, and is zero exactly when the boxes lie apart.\<close>

theorem iou_of_real_boxes:
  assumes "real_box a" "real_box b"
  shows "\<exists>x. compute_iou a b = Inr x \<and> compute_iou b a = Inr x \<and> 0 \<le> x \<and> (x = 0 \<longleftrightarrow> separated a b)"
proof -
  let ?i = "inter_area a b" and ?u = "rat_of_int (compute_area a + compute_area b) - inter_area a b"
  have pos: "0 < (bb_right x - bb_left x) * (bb_bottom x - bb_top x)" if "real_box x" for x
    using that by (intro mult_pos_pos) (simp_all add: real_box_def)
  have area: "1 \<le> rat_of_int (compute_area a)" "1 \<le> rat_of_int (compute_area b)"
    using pos [OF assms(1)] pos [OF assms(2)]
      of_int_le_iff [of 1 "compute_area a", where 'a = rat] of_int_le_iff [of 1 "compute_area b", where 'a = rat]
    by (simp_all add: compute_area_def)
  have bounds: "0 \<le> ?i \<and> (?i = 0 \<longleftrightarrow> separated a b) \<and> 0 < ?u"
  proof (cases "separated a b")
    case True
    then show ?thesis using inter_area_separated [OF True] area by simp
  next
    case False
    then show ?thesis using inter_area_bounds [OF assms False] area by simp
  qed
  then have "compute_iou a b = Inr (?i / ?u)" "compute_iou b a = Inr (?i / ?u)"
    by (simp_all add: compute_iou_def Let_def inter_area_comm [of b a] add.commute)
  with bounds show ?thesis by auto
qed

text \<open>Two boxes without an inside that lie apart have no overlap to divide by: the comparison raises, and nothing around it catches the exception.\<close>

theorem iou_of_empty_boxes_raises:
  assumes "compute_area a = 0" "compute_area b = 0" "separated a b"
  shows "compute_iou a b = Inl ZeroDivisionError"
  using assms by (simp add: compute_iou_def inter_area_separated)

subsection \<open>Crossing a line\<close>

lemma center_vector_eq:
  "center_vector l b =
     (px (ln_p0 l) + px (ln_p1 l) - 2 * ((bb_left b + bb_right b) div 2),
      py (ln_p0 l) + py (ln_p1 l) - 2 * ((bb_top b + bb_bottom b) div 2))"
  by (simp add: center_vector_def Let_def)

lemma same_side_comm: "same_side v w = same_side w v"
  by (simp add: same_side_def ac_simps)

lemma is_passing_line_iff:
  "is_passing_line bs l \<longleftrightarrow> 6 \<le> length bs \<and>
     (\<forall>i < 3. \<not> same_side (center_vector l (bs ! i)) (center_vector l (bs ! (length bs - i - 1))))"
proof -
  have three: "(\<forall>i < 3. P i) \<longleftrightarrow> P 0 \<and> P 1 \<and> P 2" for P :: "nat \<Rightarrow> bool"
    by (auto simp: less_Suc_eq numeral_3_eq_3 numeral_2_eq_2)
  show ?thesis
  proof (cases "6 \<le> length bs")
    case True
    then have "0 < length bs" "1 < length bs" "2 < length bs" "length bs - 0 - 1 < length bs"
      "length bs - 1 - 1 < length bs" "length bs - 2 - 1 < length bs" by linarith+
    then have "is_passing_line bs l \<longleftrightarrow> list_all (\<lambda>i. \<not> same_side (center_vector l (bs ! i))
        (center_vector l (bs ! (length bs - i - 1)))) [0, 1, 2]"
      using True by (simp only: is_passing_line_def Let_def length_map nth_map list.pred_inject not_less
          [symmetric] if_False simp_thms not_True_eq_False)
    also have "\<dots> \<longleftrightarrow> (\<forall>i < 3. \<not> same_side (center_vector l (bs ! i))
        (center_vector l (bs ! (length bs - i - 1))))" by (simp only: three list.pred_inject simp_thms)
    finally show ?thesis using True by simp
  qed (simp add: is_passing_line_def)
qed

text \<open>The test for crossing a line depends on the line only by its midpoint, and does not see the direction of the movement: with a horizontal and with a vertical line through the same point, and for the way there and back, the same objects are counted.\<close>

theorem line_test_sees_midpoint:
  assumes "px (ln_p0 l) + px (ln_p1 l) = px (ln_p0 l') + px (ln_p1 l')"
    and "py (ln_p0 l) + py (ln_p1 l) = py (ln_p0 l') + py (ln_p1 l')"
  shows "is_passing_line (rev bs) l' = is_passing_line bs l"
proof -
  have "center_vector l' b = center_vector l b" for b using assms by (simp add: center_vector_eq)
  moreover have "rev bs ! i = bs ! (length bs - i - 1)" "rev bs ! (length bs - i - 1) = bs ! i"
    if "i < 3" "6 \<le> length bs" for i using that by (simp_all add: rev_nth)
  ultimately show ?thesis by (auto simp: is_passing_line_iff same_side_comm)
qed

text \<open>The test misjudges two kinds of movement: an object that goes diagonally through the midpoint of the line, from one quadrant around it to the opposite one, is not counted, and an object that stays level with the midpoint all the time is counted without moving.\<close>

theorem line_test_misjudges:
  assumes "6 \<le> length bs"
  shows "(fst (center_vector l (hd bs)) * fst (center_vector l (last bs)) < 0 \<and>
      snd (center_vector l (hd bs)) * snd (center_vector l (last bs)) < 0 \<longrightarrow> \<not> is_passing_line bs l) \<and>
    (list_all (\<lambda>b. fst (center_vector l b) = 0) bs \<longrightarrow> is_passing_line bs l)"
proof (intro conjI impI)
  have bs: "bs \<noteq> []" using assms by auto
  let ?v = "center_vector l (hd bs)" and ?w = "center_vector l (last bs)"
  assume "fst ?v * fst ?w < 0 \<and> snd ?v * snd ?w < 0"
  then have "same_side ?v ?w"
    using mult_neg_neg [of "fst ?v * fst ?w" "snd ?v * snd ?w"] by (simp add: same_side_def ac_simps)
  then show "\<not> is_passing_line bs l"
    using bs by (auto simp: is_passing_line_iff hd_conv_nth last_conv_nth intro!: exI [of _ 0])
next
  assume "list_all (\<lambda>b. fst (center_vector l b) = 0) bs"
  then show "is_passing_line bs l"
    using assms by (auto simp: is_passing_line_iff same_side_def list_all_length)
qed

subsection \<open>Concrete frames and boxes\<close>

definition sample_box :: "int \<Rightarrow> int \<Rightarrow> bbox" where
  "sample_box x y = \<lparr>bb_left = x - 2, bb_top = y - 1, bb_right = x + 2, bb_bottom = y + 1\<rparr>"

definition sample_line :: nxs_line where
  "sample_line = \<lparr>ln_p0 = \<lparr>px = 0, py = 10\<rparr>, ln_p1 = \<lparr>px = 20, py = 10\<rparr>\<rparr>"

definition sample_vertical :: nxs_line where
  "sample_vertical = \<lparr>ln_p0 = \<lparr>px = 10, py = 0\<rparr>, ln_p1 = \<lparr>px = 10, py = 20\<rparr>\<rparr>"

definition sample_vision :: "int vision" where
  "sample_vision = \<lparr>vs_encode = (\<lambda>_. ''jpg''),
     vs_detector = (\<lambda>rd k q. Inr \<lparr>re_status = COMPLETED, re_error_msgs = [],
       re_detections = [\<lparr>de_class_name = ''car'', de_class_id = 2, de_score = 9 / 10,
         de_bbox = sample_box 4 4\<rparr>]\<rparr>),
     vs_tracker = (\<lambda>rd obj k retry q. Inr \<lparr>re_status = COMPLETED, re_error_msgs = [],
       re_detections = [\<lparr>de_class_name = '''', de_class_id = 0, de_score = 1,
         de_bbox = sample_box (4 + 2 * int k) 4\<rparr>]\<rparr>),
     vs_mean = (\<lambda>_. 7), vs_zero = 0, vs_resize = (\<lambda>img n. Inr img),
     vs_polygon_ok = (\<lambda>r. 3 \<le> length r), vs_within = (\<lambda>p r. True)\<rparr>"

definition sample_frame :: "int image" where
  "sample_frame = [[1, 2, 3], [4, 5, 6]]"

theorem template_patch_witness:
  "rect 4 4 (original_patch sample_vision sample_frame (3, 1) (int 4)) \<and>
   original_patch sample_vision sample_frame (3, 1) (int 4) =
     [[7, 7, 7, 7], [7, 7, 7, 7], [1, 2, 3, 7], [4, 5, 6, 7]]"
proof
  have "rect 2 3 sample_frame" by (simp add: rect_def sample_frame_def)
  from template_patch [OF this, where V = sample_vision and center = "(3, 1)" and k = 4]
  show "rect 4 4 (original_patch sample_vision sample_frame (3, 1) (int 4))" by simp
  show "original_patch sample_vision sample_frame (3, 1) (int 4) =
      [[7, 7, 7, 7], [7, 7, 7, 7], [1, 2, 3, 7], [4, 5, 6, 7]]" by code_simp
qed

theorem iou_of_real_boxes_witness:
  "\<exists>x. compute_iou (sample_box 4 4) (sample_box 5 4) = Inr x \<and>
     compute_iou (sample_box 5 4) (sample_box 4 4) = Inr x \<and> 0 \<le> x \<and>
     (x = 0 \<longleftrightarrow> separated (sample_box 4 4) (sample_box 5 4))"
  by (rule iou_of_real_boxes) (simp_all add: real_box_def sample_box_def)

theorem iou_of_empty_boxes_raises_witness:
  "compute_iou \<lparr>bb_left = 1, bb_top = 1, bb_right = 1, bb_bottom = 3\<rparr>
     \<lparr>bb_left = 5, bb_top = 2, bb_right = 8, bb_bottom = 2\<rparr> = Inl ZeroDivisionError"
  by (rule iou_of_empty_boxes_raises) (simp_all add: compute_area_def separated_def)

theorem line_test_sees_midpoint_witness:
  "is_passing_line (rev (map (\<lambda>i. sample_box 10 i) [0, 5, 8, 12, 15, 20])) sample_vertical =
   is_passing_line (map (\<lambda>i. sample_box 10 i) [0, 5, 8, 12, 15, 20]) sample_line"
  by (rule line_test_sees_midpoint) (simp_all add: sample_line_def sample_vertical_def)

theorem line_test_misjudges_witness:
  "\<not> is_passing_line (map (\<lambda>i. sample_box i i) [2, 5, 8, 12, 15, 18]) sample_line \<and>
   is_passing_line (map (\<lambda>i. sample_box 10 i) [2, 2, 2, 2, 2, 2]) sample_line"
  using line_test_misjudges [of "map (\<lambda>i. sample_box i i) [2, 5, 8, 12, 15, 18]" sample_line]
    line_test_misjudges [of "map (\<lambda>i. sample_box 10 i) [2, 2, 2, 2, 2, 2]" sample_line]
  by (simp add: center_vector_eq sample_box_def sample_line_def)

end
