(* ===== verification/Nxs_Vehicle_Props.thy ===== *)
theory Nxs_Vehicle_Props
  imports Nxs_Vehicle_Geometry
begin

section \<open>Vehicle counting: properties of the tracking application\<close>

text \<open>
  The invariant of the tracks and of the counters, kept by every part of a round, and what a
  round does to the counters.
\<close>

subsection \<open>The invariant\<close>

definition track_ok :: "vehicle_config \<Rightarrow> int \<Rightarrow> int \<Rightarrow> 'p track \<Rightarrow> bool" where
  "track_ok C n i t \<longleftrightarrow> nt_id t = i \<and> 1 \<le> i \<and> i \<le> n \<and> nt_templates t \<noteq> [] \<and> nt_track t \<noteq> [] \<and>
     length (nt_track_scores t) = length (nt_track t) \<and> nt_roi_idx t < length (vc_rois C) \<and>
     nt_class_name t \<in> set (vc_tracking_classes C)"

definition tracks_ok :: "vehicle_config \<Rightarrow> int \<Rightarrow> (int, 'p track) dict \<Rightarrow> bool" where
  "tracks_ok C n d \<longleftrightarrow> dict_ok d \<and> (\<forall>i t. map_of d i = Some t \<longrightarrow> track_ok C n i t)"

definition counts_ok :: "vehicle_config \<Rightarrow> (string, int) dict list \<Rightarrow> bool" where
  "counts_ok C cs \<longleftrightarrow> length cs = length (vc_lines C) \<and>
     (\<forall>cd \<in> set cs. set (dkeys cd) = set (vc_tracking_classes C))"

definition config_ok :: "vehicle_config \<Rightarrow> bool" where
  "config_ok C \<longleftrightarrow> length (vc_rois C) = length (vc_lines C)"

definition app_ok :: "vehicle_config \<Rightarrow> ('d, 'p) vehicle_app \<Rightarrow> bool" where
  "app_ok C s \<longleftrightarrow> 0 \<le> va_track_count s \<and> tracks_ok C (va_track_count s) (va_track_dict s) \<and>
     counts_ok C (va_class_count_dicts s) \<and>
     length (va_video_frames s) = length (va_video_frame_timestamps s)"

lemma dkeys_zero: "set (dkeys (fold (\<lambda>c. AList.update c (0 :: int)) cs d)) = set cs \<union> set (dkeys d)"
  by (induction cs arbitrary: d) (auto simp: dkeys_update)

lemma new_vehicle_app_ok:
  assumes "new_vehicle_app C now db = Inr s"
  shows "app_ok C s"
  using assms
  by (auto simp: new_vehicle_app_def app_ok_def tracks_ok_def counts_ok_def zero_counts_def dict_ok_def
      dkeys_zero split: if_splits)

lemma tracks_ok_mono: "tracks_ok C n d \<Longrightarrow> n \<le> m \<Longrightarrow> tracks_ok C m d"
  by (fastforce simp: tracks_ok_def track_ok_def)

lemma tracks_ok_update:
  assumes "tracks_ok C n d" "track_ok C n i t"
  shows "tracks_ok C n (AList.update i t d)"
  using assms by (auto simp: tracks_ok_def dict_simps split: if_splits)

lemma fold_delete_ok: "dict_ok d \<Longrightarrow> dict_ok (fold AList.delete is d)"
  by (induction "is" arbitrary: d) simp_all

lemma map_of_fold_delete:
  "map_of (fold AList.delete is d) k = (if k \<in> set is then None else map_of d k)"
  by (induction "is" arbitrary: d) (auto simp: dict_simps)

lemma remove_tracks_ok: "app_ok C s \<Longrightarrow> app_ok C (remove_tracks is s)"
  by (auto simp: app_ok_def remove_tracks_def tracks_ok_def fold_delete_ok map_of_fold_delete
      split: if_splits)

subsection \<open>Removing tracks\<close>

lemma remove_inactive_tracks_ok: "app_ok C s \<Longrightarrow> app_ok C (remove_inactive_tracks s)"
  by (simp add: remove_inactive_tracks_def remove_tracks_ok)

lemma remove_expired_objects_ok: "app_ok C s \<Longrightarrow> app_ok C (remove_expired_objects C s)"
  by (simp add: remove_expired_objects_def remove_tracks_ok)

lemma remove_out_of_rois_tracks_ok:
  "remove_out_of_rois_tracks V C s = Inr s' \<Longrightarrow> app_ok C s \<Longrightarrow> app_ok C s'"
  by (auto simp: remove_out_of_rois_tracks_def bindE_eq_Inr remove_tracks_ok)

lemma clean_tracks_ok: "clean_tracks V C s = Inr s' \<Longrightarrow> app_ok C s \<Longrightarrow> app_ok C s'"
  by (auto simp: clean_tracks_def bindE_eq_Inr
      intro: remove_expired_objects_ok remove_out_of_rois_tracks_ok remove_inactive_tracks_ok)

subsection \<open>Detections\<close>

lemma find_roi_range: "find_roi V b i rois = Inr (Some j) \<Longrightarrow> j < i + length rois"
  by (induction V b i rois rule: find_roi.induct) (auto simp: bindE_eq_Inr split: if_splits)

lemma process_detection_ok:
  assumes "process_detection V C frame (dup, s) det = Inr (dup', s')" "app_ok C s"
  shows "app_ok C s'"
proof -
  let ?now = "va_total_processed_frames s"
  consider "s' = s"
    | (merge) i t where "map_of (va_track_dict s) i = Some t"
        "s' = s\<lparr>va_track_dict := AList.update i (merge_detection ?now det t) (va_track_dict s)\<rparr>"
    | (new) roi template where "roi < length (vc_rois C)" "de_class_name det \<in> set (vc_tracking_classes C)"
        "s' = s\<lparr>va_track_count := va_track_count s + 1, va_track_dict := AList.update (va_track_count s + 1)
           (new_track (va_track_count s + 1) ?now det template roi) (va_track_dict s)\<rparr>"
    using assms(1)
    by (fastforce simp: process_detection_def get_free_idx_def Let_def bindE_eq_Inr dlookup_eq_Inr
        dest: find_roi_range split: if_splits option.splits prod.splits)
  then show ?thesis
  proof cases
    case merge
    with assms(2) have "track_ok C (va_track_count s) i (merge_detection ?now det t)"
      by (auto simp: app_ok_def tracks_ok_def track_ok_def merge_detection_def)
    with merge assms(2) show ?thesis by (simp add: app_ok_def tracks_ok_update)
  next
    case new
    with assms(2) have "track_ok C (va_track_count s + 1) (va_track_count s + 1)
        (new_track (va_track_count s + 1) ?now det template roi)"
      by (simp add: app_ok_def track_ok_def new_track_def)
    moreover have "tracks_ok C (va_track_count s + 1) (va_track_dict s)"
      by (rule tracks_ok_mono [of C "va_track_count s"]) (use assms(2) in \<open>simp_all add: app_ok_def\<close>)
    ultimately show ?thesis
      using new(3) assms(2) by (simp add: app_ok_def tracks_ok_update)
  qed (use assms(2) in simp)
qed

lemma process_detections_ok:
  assumes "process_detections V C frame dets s = Inr s'" "app_ok C s"
  shows "app_ok C s'"
proof -
  obtain dup s1 where f: "foldE (process_detection V C frame) ([], s) dets = Inr (dup, s1)"
    "s' = remove_tracks dup s1"
    using assms(1) by (auto simp: process_detections_def bindE_eq_Inr)
  have "app_ok C (snd (dup, s1))"
    by (rule foldE_invariant [OF f(1), where P = "\<lambda>x. app_ok C (snd x)"])
      (use assms(2) process_detection_ok in \<open>force+\<close>)
  then show ?thesis by (simp add: f(2) remove_tracks_ok)
qed

subsection \<open>Following objects\<close>

text \<open>What the trackers change of a track.\<close>

definition followed :: "nat \<Rightarrow> 'p track \<Rightarrow> 'p track \<Rightarrow> bool" where
  "followed n t t' \<longleftrightarrow> (\<exists>bs xs act. length bs = n \<and> length xs = n \<and>
     t' = t\<lparr>nt_is_active := act, nt_track := nt_track t @ bs, nt_track_scores := nt_track_scores t @ xs\<rparr>)"

lemma track_frame_follows:
  assumes "track_frame V C rd t k = Inr t'" "followed n t0 t"
  shows "followed (Suc n) t0 t'"
proof -
  obtain det where det: "t' = follow_to C det t"
    using assms(1) by (cases k) (auto simp: track_frame_def bindE_eq_Inr)
  define act where "act = (nt_is_active t \<and> \<not> de_score det < vc_tracking_score_thresh C)"
  have "t' = t\<lparr>nt_is_active := act, nt_track := nt_track t @ [de_bbox det],
      nt_track_scores := nt_track_scores t @ [de_score det]\<rparr>" by (cases t) (simp add: det act_def follow_to_def Let_def)
  moreover obtain bs xs a where "length bs = n" "length xs = n" "t = t0\<lparr>nt_is_active := a,
      nt_track := nt_track t0 @ bs, nt_track_scores := nt_track_scores t0 @ xs\<rparr>"
    using assms(2) by (auto simp: followed_def)
  ultimately show ?thesis
    unfolding followed_def
    by (intro exI [of _ "bs @ [de_bbox det]"] exI [of _ "xs @ [de_score det]"] exI [of _ act]) simp
qed

lemma process_frames_follows:
  assumes "process_frames V C rd frames t = Inr t'"
  shows "followed (length frames - 1) t t'"
proof -
  have "followed (n + length ks) t0 t'" if "foldE (track_frame V C rd) t ks = Inr t'" "followed n t0 t"
    for ks t t' n and t0 :: "'a track"
    using that
  proof (induction ks arbitrary: t n)
    case (Cons k ks)
    then obtain t1 where t1: "track_frame V C rd t k = Inr t1" "foldE (track_frame V C rd) t1 ks = Inr t'"
      by (auto simp: bindE_eq_Inr)
    from Cons.IH [OF t1(2) track_frame_follows [OF t1(1) Cons.prems(2)]] show ?case by simp
  qed simp
  moreover have "followed 0 t t"
    unfolding followed_def by (intro exI [of _ "[]"] exI [of _ "nt_is_active t"]) simp
  ultimately have "followed (0 + length (drop 1 (enumerate 0 frames))) t t'"
    using assms unfolding process_frames_def by blast
  then show ?thesis by simp
qed

lemma followed_ok: "followed n t t' \<Longrightarrow> track_ok C m i t \<Longrightarrow> track_ok C m i t'"
  by (auto simp: followed_def track_ok_def)

definition same_keys :: "('v \<Rightarrow> 'v \<Rightarrow> bool) \<Rightarrow> ('k, 'v) dict \<Rightarrow> ('k, 'v) dict \<Rightarrow> bool" where
  "same_keys R d d' \<longleftrightarrow> list_all2 (\<lambda>(i, t) (j, u). i = j \<and> R t u) d d'"

lemma same_keys_dkeys: "same_keys R d d' \<Longrightarrow> dkeys d' = dkeys d"
  unfolding same_keys_def dkeys_def by (induction rule: list_all2_induct) auto

lemma same_keys_map_of:
  "same_keys R d d' \<Longrightarrow> map_of d' i = Some u \<Longrightarrow> \<exists>t. map_of d i = Some t \<and> R t u"
  unfolding same_keys_def by (induction rule: list_all2_induct) (auto split: if_splits)

lemma same_keys_ok:
  assumes "same_keys R d d'" "tracks_ok C n d"
    and "\<And>i t u. R t u \<Longrightarrow> track_ok C n i t \<Longrightarrow> track_ok C n i u"
  shows "tracks_ok C n d'"
  using assms same_keys_dkeys [OF assms(1)] same_keys_map_of [OF assms(1)]
  by (fastforce simp: tracks_ok_def dict_ok_def)

lemma follow_objects_follows:
  "follow_objects V C rd frames d = Inr d' \<Longrightarrow> same_keys (followed (length frames - 1)) d d'"
proof (induction d arbitrary: d')
  case (Cons x d)
  then show ?case
    by (cases x) (auto simp: follow_objects_def same_keys_def bindE_eq_Inr
        dest!: process_frames_follows)
qed (simp add: follow_objects_def same_keys_def)

subsection \<open>Counting\<close>

definition tally :: "(string, int) dict list \<Rightarrow> nat \<Rightarrow> string \<Rightarrow> int" where
  "tally cs r c = dget (cs ! r) c 0"

definition counted_of :: "(int, 'p track) dict \<Rightarrow> nat \<Rightarrow> string \<Rightarrow> int" where
  "counted_of d r c = int (length (filter (\<lambda>(_, t). nt_is_counted t \<and> nt_roi_idx t = r \<and> nt_class_name t = c) d))"

definition counted_tracks :: "(int, 'p track) dict \<Rightarrow> int" where
  "counted_tracks d = int (length (filter (\<lambda>(_, t). nt_is_counted t) d))"

text \<open>The boxes of a track up to frame \<open>k\<close> of a window of \<open>n\<close> frames.\<close>

definition boxes_at :: "nat \<Rightarrow> nat \<Rightarrow> 'p track \<Rightarrow> bbox list" where
  "boxes_at n k t = py_upto (int (length (nt_track t)) - int n + int k + 1) (nt_track t)"

definition passes_at :: "vehicle_config \<Rightarrow> nat \<Rightarrow> nat \<Rightarrow> 'p track \<Rightarrow> bool" where
  "passes_at C n k t \<longleftrightarrow> is_passing_line (boxes_at n k t) (vc_lines C ! nt_roi_idx t)"

text \<open>One frame counts nothing or one object.\<close>

definition count_up :: "'p track \<Rightarrow> (string, int) dict list \<Rightarrow> (string, int) dict list" where
  "count_up t cs = cs[nt_roi_idx t := AList.update (nt_class_name t)
     (tally cs (nt_roi_idx t) (nt_class_name t) + 1) (cs ! nt_roi_idx t)]"

inductive count_step ::
    "vehicle_config \<Rightarrow> nat \<Rightarrow> nat \<Rightarrow> (int, 'p track) dict \<Rightarrow> (string, int) dict list \<Rightarrow>
       (int, 'p track) dict \<Rightarrow> (string, int) dict list \<Rightarrow> bool"
  for C n k where
  nobody: "count_step C n k d cs d cs"
| somebody: "\<not> nt_is_counted t \<Longrightarrow> passes_at C n k t \<Longrightarrow>
    count_step C n k (pre @ (i, t) # post) cs (pre @ (i, t\<lparr>nt_is_counted := True\<rparr>) # post) (count_up t cs)"

lemma count_step_Cons: "count_step C n k d cs d' cs' \<Longrightarrow> count_step C n k (x # d) cs (x # d') cs'"
proof (induction rule: count_step.induct)
  case (somebody t pre i post cs)
  then show ?case using count_step.somebody [of t C n k "x # pre" i post cs] by simp
qed (rule count_step.nobody)

lemma counts_ok_lookup:
  assumes "counts_ok C cs" "r < length (vc_lines C)" "c \<in> set (vc_tracking_classes C)"
  shows "dlookup (cs ! r) c = Inr (tally cs r c)"
proof -
  have "c \<in> set (dkeys (cs ! r))" using assms by (simp add: counts_ok_def)
  then show ?thesis by (auto simp: set_dkeys dlookup_def tally_def dget_def)
qed

lemma py_upto_nonempty: "xs \<noteq> [] \<Longrightarrow> 0 < m \<Longrightarrow> py_upto m xs \<noteq> []"
  by (simp add: py_upto_def)

lemma count_objects_total:
  assumes "config_ok C" "counts_ok C cs" "list_all (\<lambda>(i, t). track_ok C m i t) d" "draw \<longrightarrow> k = n - 1" "0 < n"
  shows "\<exists>d' cs' drawn. count_objects C n k draw d cs = Inr (d', cs', drawn) \<and>
    count_step C n k d cs d' cs'"
  using assms(3)
proof (induction d)
  case Nil
  then show ?case by (simp add: count_step.nobody)
next
  case (Cons x d)
  obtain i t where x: "x = (i, t)" by (cases x)
  have t: "track_ok C m i t" using Cons.prems x by simp
  let ?m = "int (length (nt_track t)) - int n + int k + 1"
  obtain d' cs' more where IH: "count_objects C n k draw d cs = Inr (d', cs', more)"
    "count_step C n k d cs d' cs'" using Cons by auto
  have drawn: "\<exists>z. (if draw then bindE (last_item (py_upto ?m (nt_track t))) (\<lambda>b.
      bindE (last_item (py_upto ?m (nt_track_scores t))) (\<lambda>x. Inr [(i, b, x)])) else Inr []) = Inr z"
  proof (cases draw)
    case True
    then have "0 < ?m" using assms(4,5) t by (auto simp: track_ok_def)
    moreover have "nt_track_scores t \<noteq> []" using t by (auto simp: track_ok_def)
    ultimately show ?thesis
      using t py_upto_nonempty [of "nt_track t" ?m] py_upto_nonempty [of "nt_track_scores t" ?m]
      by (simp add: last_item_def track_ok_def)
  qed simp
  have r: "nth_item (vc_lines C) (nt_roi_idx t) = Inr (vc_lines C ! nt_roi_idx t)"
    "nth_item cs (nt_roi_idx t) = Inr (cs ! nt_roi_idx t)"
    "dlookup (cs ! nt_roi_idx t) (nt_class_name t) = Inr (tally cs (nt_roi_idx t) (nt_class_name t))"
    using t assms(1,2) counts_ok_lookup [OF assms(2)]
    by (simp_all add: nth_item_def track_ok_def config_ok_def counts_ok_def)
  show ?case
  proof (cases "\<not> nt_is_counted t \<and> passes_at C n k t")
    case True
    then have "count_step C n k (x # d) cs ((i, t\<lparr>nt_is_counted := True\<rparr>) # d) (count_up t cs)"
      using count_step.somebody [of t C n k "[]" i d cs] by (simp add: x)
    with True r show ?thesis by (simp add: x passes_at_def boxes_at_def Let_def count_up_def)
  next
    case False
    then show ?thesis
      using drawn r IH count_step_Cons [OF IH(2), of x]
      by (auto simp: x passes_at_def boxes_at_def Let_def)
  qed
qed

lemma tracks_ok_list: "tracks_ok C n d \<Longrightarrow> list_all (\<lambda>(i, t). track_ok C n i t) d"
  by (auto simp: tracks_ok_def list_all_iff dict_ok_mem_iff)

text \<open>A track before and after frames from \<open>K\<close>.\<close>

definition counted_in :: "vehicle_config \<Rightarrow> nat \<Rightarrow> nat set \<Rightarrow> 'p track \<Rightarrow> 'p track \<Rightarrow> bool" where
  "counted_in C n K t u \<longleftrightarrow> u = t \<or>
     u = t\<lparr>nt_is_counted := True\<rparr> \<and> \<not> nt_is_counted t \<and> (\<exists>k \<in> K. passes_at C n k t)"

lemma same_keys_refl: "(\<And>t. R t t) \<Longrightarrow> same_keys R d d"
  by (simp add: same_keys_def list_all2_refl case_prod_beta)

lemma same_keys_append:
  "same_keys R d d' \<Longrightarrow> same_keys R e e' \<Longrightarrow> same_keys R (d @ e) (d' @ e')"
  by (simp add: same_keys_def list_all2_appendI)

lemma same_keys_Cons: "R t u \<Longrightarrow> same_keys R d d' \<Longrightarrow> same_keys R ((i, t) # d) ((i, u) # d')"
  by (simp add: same_keys_def)

lemma same_keys_trans:
  assumes "same_keys R d d'" "same_keys S d' d''" "\<And>t u v. R t u \<Longrightarrow> S u v \<Longrightarrow> T t v"
  shows "same_keys T d d''"
  using assms(1,2) unfolding same_keys_def
  by (rule list_all2_trans [rotated]) (use assms(3) in auto)

lemma counted_in_trans:
  "counted_in C n K t u \<Longrightarrow> counted_in C n L u v \<Longrightarrow> counted_in C n (K \<union> L) t v"
  by (auto simp: counted_in_def passes_at_def boxes_at_def)

lemma counts_ok_count_up:
  assumes "counts_ok C cs" "nt_roi_idx t < length (vc_lines C)" "nt_class_name t \<in> set (vc_tracking_classes C)"
  shows "counts_ok C (count_up t cs)"
  using assms by (auto simp: counts_ok_def count_up_def dkeys_update dest!: set_update_subset_insert [THEN subsetD])

lemma tally_count_up:
  "nt_roi_idx t < length cs \<Longrightarrow> tally (count_up t cs) r c =
     tally cs r c + (if r = nt_roi_idx t \<and> c = nt_class_name t then 1 else 0)"
  by (cases "r = nt_roi_idx t") (auto simp: tally_def count_up_def dget_update)

lemma count_step_facts:
  assumes "count_step C n k d cs d' cs'" "config_ok C" "counts_ok C cs" "tracks_ok C m d"
  shows "counts_ok C cs' \<and> tracks_ok C m d' \<and> same_keys (counted_in C n {k}) d d' \<and>
    (\<forall>r c. tally cs' r c - tally cs r c = counted_of d' r c - counted_of d r c) \<and>
    counted_tracks d \<le> counted_tracks d' \<and> counted_tracks d' \<le> counted_tracks d + 1"
  using assms
proof cases
  case nobody
  then show ?thesis using assms(3,4) same_keys_refl [of "counted_in C n {k}"] by (simp add: counted_in_def)
next
  case (somebody t pre i post)
  have t: "track_ok C m i t" using tracks_ok_list [OF assms(4)] somebody(1) by simp
  have keys: "same_keys (counted_in C n {k}) d d'"
    using somebody unfolding somebody(1,2)
    by (intro same_keys_append same_keys_Cons same_keys_refl) (simp_all add: counted_in_def)
  have "tracks_ok C m d'"
    by (rule same_keys_ok [OF keys assms(4)]) (auto simp: counted_in_def track_ok_def)
  moreover have "counts_ok C cs'"
    using t assms(2,3) counts_ok_count_up [of C cs t] somebody(3)
    by (simp add: track_ok_def config_ok_def)
  moreover have "tally cs' r c - tally cs r c = counted_of d' r c - counted_of d r c" for r c
    using t assms(2,3) somebody by (auto simp: tally_count_up track_ok_def config_ok_def counts_ok_def
        counted_of_def)
  ultimately show ?thesis using keys somebody by (simp add: counted_tracks_def)
qed

lemma count_frame_facts:
  assumes "app_ok C s" "config_ok C" "k < n"
  shows "\<exists>s' drawn. count_frame C n (s, drawn0) k = Inr (s', drawn) \<and> app_ok C s' \<and>
    s' = s\<lparr>va_track_dict := va_track_dict s', va_class_count_dicts := va_class_count_dicts s'\<rparr> \<and>
    same_keys (counted_in C n {k}) (va_track_dict s) (va_track_dict s') \<and>
    (\<forall>r c. tally (va_class_count_dicts s') r c - tally (va_class_count_dicts s) r c =
       counted_of (va_track_dict s') r c - counted_of (va_track_dict s) r c) \<and>
    counted_tracks (va_track_dict s) \<le> counted_tracks (va_track_dict s') \<and>
    counted_tracks (va_track_dict s') \<le> counted_tracks (va_track_dict s) + 1"
proof -
  let ?d = "va_track_dict s" and ?cs = "va_class_count_dicts s" and ?m = "va_track_count s"
  have ok: "counts_ok C ?cs" "tracks_ok C ?m ?d" using assms(1) by (simp_all add: app_ok_def)
  have "list_all (\<lambda>(i, t). track_ok C ?m i t) ?d" by (rule tracks_ok_list [OF ok(2)])
  from count_objects_total [OF assms(2) ok(1) this, of "vc_collect_logs C \<and> k = n - 1" k n] assms(3)
  obtain d' cs' drawn where c:
    "count_objects C n k (vc_collect_logs C \<and> k = n - 1) ?d ?cs = Inr (d', cs', drawn)"
    "count_step C n k ?d ?cs d' cs'" by auto
  let ?s = "s\<lparr>va_track_dict := d', va_class_count_dicts := cs'\<rparr>"
  from c(1) have "count_frame C n (s, drawn0) k = Inr (?s, drawn)" by (simp add: count_frame_def)
  with count_step_facts [OF c(2) assms(2) ok] assms(1) show ?thesis
    by (intro exI [of _ ?s] exI [of _ drawn]) (simp add: app_ok_def)
qed

lemma count_frames_facts:
  assumes "app_ok C s" "config_ok C" "\<forall>k \<in> set ks. k < n"
  shows "\<exists>s' drawn. foldE (count_frame C n) (s, drawn0) ks = Inr (s', drawn) \<and> app_ok C s' \<and>
    s' = s\<lparr>va_track_dict := va_track_dict s', va_class_count_dicts := va_class_count_dicts s'\<rparr> \<and>
    same_keys (counted_in C n (set ks)) (va_track_dict s) (va_track_dict s') \<and>
    (\<forall>r c. tally (va_class_count_dicts s') r c - tally (va_class_count_dicts s) r c =
       counted_of (va_track_dict s') r c - counted_of (va_track_dict s) r c) \<and>
    counted_tracks (va_track_dict s) \<le> counted_tracks (va_track_dict s') \<and>
    counted_tracks (va_track_dict s') \<le> counted_tracks (va_track_dict s) + int (length ks)"
  using assms(1,3)
proof (induction ks arbitrary: s drawn0)
  case Nil
  have "same_keys (counted_in C n {}) (va_track_dict s) (va_track_dict s)"
    by (rule same_keys_refl) (simp add: counted_in_def)
  with Nil show ?case by simp
next
  case (Cons k ks)
  from count_frame_facts [OF Cons.prems(1) assms(2), of k n drawn0] Cons.prems(2)
  obtain s1 drawn1 where 1: "count_frame C n (s, drawn0) k = Inr (s1, drawn1)" "app_ok C s1"
    "s1 = s\<lparr>va_track_dict := va_track_dict s1, va_class_count_dicts := va_class_count_dicts s1\<rparr>"
    "same_keys (counted_in C n {k}) (va_track_dict s) (va_track_dict s1)"
    "\<And>r c. tally (va_class_count_dicts s1) r c - tally (va_class_count_dicts s) r c =
       counted_of (va_track_dict s1) r c - counted_of (va_track_dict s) r c"
    "counted_tracks (va_track_dict s) \<le> counted_tracks (va_track_dict s1)"
    "counted_tracks (va_track_dict s1) \<le> counted_tracks (va_track_dict s) + 1" by auto
  from Cons.IH [OF 1(2), of drawn1] Cons.prems(2)
  obtain s2 drawn2 where 2: "foldE (count_frame C n) (s1, drawn1) ks = Inr (s2, drawn2)" "app_ok C s2"
    "s2 = s1\<lparr>va_track_dict := va_track_dict s2, va_class_count_dicts := va_class_count_dicts s2\<rparr>"
    "same_keys (counted_in C n (set ks)) (va_track_dict s1) (va_track_dict s2)"
    "\<And>r c. tally (va_class_count_dicts s2) r c - tally (va_class_count_dicts s1) r c =
       counted_of (va_track_dict s2) r c - counted_of (va_track_dict s1) r c"
    "counted_tracks (va_track_dict s1) \<le> counted_tracks (va_track_dict s2)"
    "counted_tracks (va_track_dict s2) \<le> counted_tracks (va_track_dict s1) + int (length ks)" by auto
  have keys: "same_keys (counted_in C n (set (k # ks))) (va_track_dict s) (va_track_dict s2)"
    by (rule same_keys_trans [OF 1(4) 2(4)]) (use counted_in_trans [of C n "{k}" _ _ "set ks"] in auto)
  have eq: "s2 = s\<lparr>va_track_dict := va_track_dict s2, va_class_count_dicts := va_class_count_dicts s2\<rparr>"
    by (subst 2(3), subst 1(3)) simp
  have "tally (va_class_count_dicts s2) r c - tally (va_class_count_dicts s) r c =
      counted_of (va_track_dict s2) r c - counted_of (va_track_dict s) r c" for r c
    using 1(5) [of r c] 2(5) [of r c] by linarith
  with 1(1,6,7) 2(1,2,6,7) keys eq show ?case
    by (intro exI [of _ s2] exI [of _ drawn2]) simp
qed

text \<open>C32: Counting never fails, and the counters say exactly what happened to the tracks: during a window each counter grows by the number of tracks of its region and class that were marked as counted, a track is marked only if it was not and its path up to some frame of the window passes its line, tracks change in nothing else, and no more objects are counted than the window has frames.\<close>

theorem window_counts_exactly:
  assumes "app_ok C s" "config_ok C"
  shows "\<exists>s' drawn. count_window C n s = Inr (s', drawn) \<and>
    same_keys (counted_in C n {..<n}) (va_track_dict s) (va_track_dict s') \<and>
    (\<forall>r c. tally (va_class_count_dicts s') r c - tally (va_class_count_dicts s) r c =
       counted_of (va_track_dict s') r c - counted_of (va_track_dict s) r c) \<and>
    counted_tracks (va_track_dict s) \<le> counted_tracks (va_track_dict s') \<and>
    counted_tracks (va_track_dict s') \<le> counted_tracks (va_track_dict s) + int n"
  using count_frames_facts [OF assms, of "[0..<n]" n "[]"]
  by (auto simp: count_window_def atLeast0LessThan)

subsection \<open>A window\<close>

text \<open>What the rest of a round leaves alone: the tracks and the counters.\<close>

definition same_tracks :: "('d, 'p) vehicle_app \<Rightarrow> ('d, 'p) vehicle_app \<Rightarrow> bool" where
  "same_tracks s s' \<longleftrightarrow> va_track_dict s' = va_track_dict s \<and> va_track_count s' = va_track_count s \<and>
     va_class_count_dicts s' = va_class_count_dicts s \<and> va_video_frames s' = va_video_frames s \<and>
     va_video_frame_timestamps s' = va_video_frame_timestamps s"

lemma same_tracks_ok: "same_tracks s s' \<Longrightarrow> app_ok C s \<Longrightarrow> app_ok C s'"
  by (simp add: same_tracks_def app_ok_def)

lemma same_tracks_trans: "same_tracks s t \<Longrightarrow> same_tracks t u \<Longrightarrow> same_tracks s u"
  by (simp add: same_tracks_def)

lemma store_write_same: "store_write f s = Inr s' \<Longrightarrow> same_tracks s s'"
  by (auto simp: store_write_def bindE_eq_Inr same_tracks_def)

lemma report_counting_same: "report_counting D C ts s = Inr s' \<Longrightarrow> same_tracks s s'"
  by (auto simp: report_counting_def store_write_same split: if_splits)

lemma snapshot_stats_same: "snapshot_stats f ts s = Inr s' \<Longrightarrow> same_tracks s s'"
  by (auto simp: snapshot_stats_def bindE_eq_Inr same_tracks_def)

lemma same_tracks_attempt:
  assumes "same_tracks s t"
  shows "same_tracks s (fst (attempt (store_write f) t))"
    "same_tracks s (fst (attempt (report_counting D C ts) t))"
    "same_tracks s (fst (attempt (snapshot_stats fr ts) t))"
  using assms
  by (auto simp: attempt_def intro: same_tracks_trans split: sum.split
      dest: store_write_same report_counting_same snapshot_stats_same)

lemma same_tracks_refl: "same_tracks s s"
  by (simp add: same_tracks_def)

lemma same_tracks_updates:
  "same_tracks s (t\<lparr>va_logs := ls, va_log_id := i\<rparr>) = same_tracks s t"
  "same_tracks s (t\<lparr>va_total_processed_frames := n\<rparr>) = same_tracks s t"
  by (simp_all add: same_tracks_def)

lemma same_tracks_forEach:
  "same_tracks s t \<Longrightarrow> (\<And>u x. same_tracks u (fst (f u x))) \<Longrightarrow> same_tracks s (fst (forEach f t xs))"
  by (rule same_tracks_trans, assumption, rule forEach_keeps)
    (auto intro: same_tracks_trans simp: same_tracks_refl)

lemmas same_tracks_rules =
  andThen_keeps [where R = same_tracks] same_tracks_attempt same_tracks_forEach

lemma upload_logs_same: "same_tracks s t \<Longrightarrow> same_tracks s (fst (upload_logs D C t))"
  by (auto simp: upload_logs_def Let_def same_tracks_updates same_tracks_refl intro!: same_tracks_rules)

lemma end_window_same: "same_tracks s (fst (end_window D C frames ts drawn v s))"
  by (auto simp: end_window_def Let_def same_tracks_updates same_tracks_refl
      intro!: same_tracks_rules upload_logs_same)

definition counts_grow :: "('d, 'p) vehicle_app \<Rightarrow> ('d, 'p) vehicle_app \<Rightarrow> bool" where
  "counts_grow s s' \<longleftrightarrow>
     (\<forall>r c. tally (va_class_count_dicts s) r c \<le> tally (va_class_count_dicts s') r c)"

lemma counted_of_mono: "same_keys (counted_in C n K) d d' \<Longrightarrow> counted_of d r c \<le> counted_of d' r c"
  unfolding same_keys_def
  by (induction rule: list_all2_induct) (auto simp: counted_of_def counted_in_def)

lemma foldE_same_counts:
  assumes "process_detections V C frame dets s = Inr s'"
  shows "va_class_count_dicts s' = va_class_count_dicts s"
proof -
  obtain dup s1 where f: "foldE (process_detection V C frame) ([], s) dets = Inr (dup, s1)"
    "s' = remove_tracks dup s1"
    using assms by (auto simp: process_detections_def bindE_eq_Inr)
  have "va_class_count_dicts (snd (dup, s1)) = va_class_count_dicts s"
  proof (rule foldE_invariant [OF f(1), where P = "\<lambda>x. va_class_count_dicts (snd x) = va_class_count_dicts s"])
    fix x det x'
    assume "va_class_count_dicts (snd x) = va_class_count_dicts s" "process_detection V C frame x det = Inr x'"
    then show "va_class_count_dicts (snd x') = va_class_count_dicts s"
      by (cases x) (auto simp: process_detection_def get_free_idx_def Let_def bindE_eq_Inr
          split: if_splits option.splits prod.splits)
  qed simp
  then show ?thesis by (simp add: f(2) remove_tracks_def)
qed

lemma clean_tracks_same_counts:
  "clean_tracks V C s = Inr s' \<Longrightarrow> va_class_count_dicts s' = va_class_count_dicts s"
  by (auto simp: clean_tracks_def remove_out_of_rois_tracks_def remove_inactive_tracks_def
      remove_expired_objects_def remove_tracks_def bindE_eq_Inr)

definition keeps :: "vehicle_config \<Rightarrow> ('d, 'p) vehicle_app \<Rightarrow> ('d, 'p) vehicle_app \<Rightarrow> bool" where
  "keeps C s s' \<longleftrightarrow> (app_ok C s \<longrightarrow> app_ok C s' \<and> counts_grow s s')"

named_theorems keeping \<open>the parts of a round\<close>

lemma keeps_refl [keeping]: "keeps C s s"
  by (simp add: keeps_def counts_grow_def)

lemma keeps_trans: "keeps C s t \<Longrightarrow> keeps C t u \<Longrightarrow> keeps C s u"
  unfolding keeps_def counts_grow_def by (meson order_trans)


lemma keeps_clean [keeping]: "clean_tracks V C s = Inr s' \<Longrightarrow> keeps C s s'"
  by (simp add: keeps_def clean_tracks_ok clean_tracks_same_counts counts_grow_def)

lemma keeps_detections [keeping]: "process_detections V C frame dets s = Inr s' \<Longrightarrow> keeps C s s'"
  by (simp add: keeps_def process_detections_ok foldE_same_counts counts_grow_def)

lemma keeps_follow [keeping]:
  assumes "follow_objects V C rd frames (va_track_dict s) = Inr d"
  shows "keeps C s (s\<lparr>va_track_dict := d\<rparr>)"
proof -
  have "tracks_ok C n d" if "tracks_ok C n (va_track_dict s)" for n
    by (rule same_keys_ok [OF follow_objects_follows [OF assms] that]) (rule followed_ok)
  then show ?thesis by (simp add: keeps_def app_ok_def counts_grow_def)
qed

lemma keeps_count [keeping]:
  assumes "config_ok C" "count_window C n s = Inr (s', drawn)"
  shows "keeps C s s'"
proof -
  have "counts_grow s s'" if "\<And>r c. tally (va_class_count_dicts s') r c - tally (va_class_count_dicts s) r c =
      counted_of (va_track_dict s') r c - counted_of (va_track_dict s) r c"
    "same_keys (counted_in C n {..<n}) (va_track_dict s) (va_track_dict s')"
    unfolding counts_grow_def
  proof (intro allI)
    fix r c
    show "tally (va_class_count_dicts s) r c \<le> tally (va_class_count_dicts s') r c"
      using that(1) [of r c] counted_of_mono [OF that(2), of r c] by simp
  qed
  then show ?thesis
    using count_frames_facts [OF _ assms(1), of s "[0..<n]" n "[]"] assms(2)
    by (auto simp: keeps_def count_window_def atLeast0LessThan)
qed

lemma keeps_end [keeping]: "end_window D C frames ts drawn v s = (s', r) \<Longrightarrow> keeps C s s'"
  using end_window_same [of s D C frames ts drawn v]
  by (auto simp: keeps_def app_ok_def counts_grow_def same_tracks_def)

lemma keeps_report [keeping]: "report_counting D C ts s = Inr s' \<Longrightarrow> keeps C s s'"
  using report_counting_same [of D C ts s s']
  by (auto simp: keeps_def app_ok_def counts_grow_def same_tracks_def)

lemma keeps_flags [keeping]:
  "keeps C s (snd (pop_frames k s))"
  "keeps C s (stop_threads t) = keeps C s t" "keeps C s (t\<lparr>va_round := n\<rparr>) = keeps C s t"
  "keeps C s (t\<lparr>va_job_completed := b\<rparr>) = keeps C s t" "keeps C (s\<lparr>va_job_completed := b\<rparr>) t = keeps C s t"
  by (auto simp: keeps_def app_ok_def counts_grow_def stop_threads_def pop_frames_def)

lemma keeps_track:
  assumes "config_ok C" "keeps C s t" "follow_objects V C rd frames (va_track_dict t) = Inr d"
    "count_window C n (t\<lparr>va_track_dict := d\<rparr>) = Inr (u, drawn)"
  shows "keeps C s u"
  using assms by (blast intro: keeps_trans keeps_follow keeps_count)

lemma run_window_keeps:
  assumes "config_ok C" "run_window V D C frames ts v s = (s', out)"
  shows "keeps C s s'"
proof -
  show ?thesis
  proof (cases "clean_tracks V C s")
    case (Inr s1)
    then have 1: "keeps C s s1" by (rule keeps_clean)
    show ?thesis
    proof (cases "bindE (run_detector V (va_round s) (vc_detector_uuid C) (hd frames) (vc_inference_retries C))
        reply_detections")
      case (Inl e)
      with assms(2) \<open>clean_tracks V C s = Inr s1\<close> have "s' = stop_threads s1"
        by (simp add: run_window_def)
      with 1 show ?thesis by (simp add: keeping)
    next
      case (Inr dets)
      show ?thesis
        using assms(2) 1 \<open>clean_tracks V C s = Inr s1\<close> Inr
        by (auto 4 4 simp: run_window_def Let_def keeps_flags split: sum.splits prod.splits
            intro: keeps_trans [OF _ keeps_detections] keeps_track [OF assms(1)] keeps_trans [OF _ keeps_end])
    qed
  qed (use assms(2) in \<open>simp add: run_window_def keeping\<close>)
qed

lemma offline_get_batch_keeps: "keeps C s (snd (offline_get_batch C s))"
  by (simp add: offline_get_batch_def Let_def keeps_flags keeps_refl split: prod.splits)
    (metis keeps_flags(1) keeps_refl snd_conv)

lemma end_run_keeps: "end_run D C b ts s = (s', out) \<Longrightarrow> keeps C s s'"
  by (auto simp: end_run_def keeps_flags keeps_refl keeps_report split: if_splits sum.splits)

lemma run_round_keeps:
  assumes "config_ok C" "run_round V D C v s = (s', out)"
  shows "keeps C s s'"
proof -
  obtain frames ts b s1 where 1: "offline_get_batch C s = ((frames, ts, b), s1)" by (metis prod.exhaust)
  have "keeps C s s1" using offline_get_batch_keeps [of C s] by (simp add: 1)
  moreover have "keeps C s1 s'"
    using assms(2)
    by (auto simp: run_round_def 1 keeps_flags keeps_refl split: if_splits
        dest!: run_window_keeps [OF assms(1)] end_run_keeps)
  ultimately show ?thesis by (rule keeps_trans)
qed

end
