(* ===== verification/Nxs_Vehicle_Feed_Props.thy ===== *)
theory Nxs_Vehicle_Feed_Props
  imports Nxs_Vehicle_Feed Nxs_Vehicle_Props
begin

section \<open>Vehicle counting: properties of the downloads and of the decoder\<close>

text \<open>
  Which chunks the downloader fetches when a play list is polled, and which frames the decoder
  keeps of a chunk.
\<close>

subsection \<open>Chunks\<close>

text \<open>What a pass over a list of chunks remembers, and the chunks it downloads.\<close>

fun visit_all :: "int list \<Rightarrow> int list \<Rightarrow> int list \<times> int list" where
  "visit_all xs [] = (xs, [])"
| "visit_all xs (i # is) =
     (if i \<in> set xs then visit_all xs is
      else let (ys, more) = visit_all (remember_chunk i xs) is in (ys, i # more))"

lemma download_chunk_success:
  assumes "\<And>k. \<exists>data. fv_get E k url = Inr data"
  shows "\<exists>v' x files'. download_chunk E url (Suc left) i v (s, files) =
      (v', s\<lparr>va_downloaded_videos := va_downloaded_videos s @ [(i, x)]\<rparr>, files') \<and>
    dl_last_downloaded v' = dl_last_downloaded v \<and> dl_starting_ts v' = dl_starting_ts v"
proof -
  obtain data where "fv_get E (dl_clock v) url = Inr data" using assms by blast
  then show ?thesis by (auto simp: Let_def)
qed

lemma visit_chunks:
  assumes "\<And>k u. \<exists>data. fv_get E k u = Inr data" "list_all2 (\<lambda>name i. chunk_index name = Inr i) names is"
  shows "\<exists>v' xs files'. forEach (visit_chunk E base) (v, s, files) names =
      ((v', s\<lparr>va_downloaded_videos := va_downloaded_videos s @ xs\<rparr>, files'), Inr ()) \<and>
    dl_last_downloaded v' = fst (visit_all (dl_last_downloaded v) is) \<and> dl_starting_ts v' = dl_starting_ts v \<and>
    map fst xs = snd (visit_all (dl_last_downloaded v) is)"
  using assms(2)
proof (induction names "is" arbitrary: v s files rule: list_all2_induct)
  case (Cons name names i "is")
  show ?case
  proof (cases "i \<in> set (dl_last_downloaded v)")
    case True
    with Cons.IH [of v s files] Cons.hyps show ?thesis by (simp add: visit_chunk_def)
  next
    case False
    have "\<exists>v1 x files1. download_chunk E (join_path base name) (Suc 4) i v (s, files) =
        (v1, s\<lparr>va_downloaded_videos := va_downloaded_videos s @ [(i, x)]\<rparr>, files1) \<and>
      dl_last_downloaded v1 = dl_last_downloaded v \<and> dl_starting_ts v1 = dl_starting_ts v"
      by (rule download_chunk_success) (rule assms(1))
    then obtain v1 x files1 where 1: "download_chunk E (join_path base name) 5 i v (s, files) =
        (v1, s\<lparr>va_downloaded_videos := va_downloaded_videos s @ [(i, x)]\<rparr>, files1)"
      "dl_last_downloaded v1 = dl_last_downloaded v" "dl_starting_ts v1 = dl_starting_ts v"
      by (metis Suc_numeral semiring_norm(5) numeral_eq_Suc)
    let ?v = "v1\<lparr>dl_last_downloaded := remember_chunk i (dl_last_downloaded v), dl_idx := Suc (dl_idx v1)\<rparr>"
    let ?s = "s\<lparr>va_downloaded_videos := va_downloaded_videos s @ [(i, x)]\<rparr>"
    have 2: "visit_chunk E base (v, s, files) name = ((?v, ?s, files1), Inr ())"
      using Cons.hyps False 1 by (simp add: visit_chunk_def)
    from Cons.IH [of ?v ?s files1] obtain v2 xs files2 where
      "forEach (visit_chunk E base) (?v, ?s, files1) names =
        ((v2, ?s\<lparr>va_downloaded_videos := va_downloaded_videos ?s @ xs\<rparr>, files2), Inr ())"
      "dl_last_downloaded v2 = fst (visit_all (dl_last_downloaded ?v) is)" "dl_starting_ts v2 = dl_starting_ts ?v"
      "map fst xs = snd (visit_all (dl_last_downloaded ?v) is)" by blast
    with 2 False 1(3) show ?thesis
      by (intro exI [of _ v2] exI [of _ "(i, x) # xs"] exI [of _ files2]) (simp add: Let_def split: prod.splits)
  qed
qed simp

text \<open>The memory keeps the last 11 chunks.\<close>

definition last11 :: "'a list \<Rightarrow> 'a list" where
  "last11 xs = drop (length xs - 11) xs"

lemma remember_new:
  assumes "i \<notin> set xs" "length xs \<le> 11"
  shows "remember_chunk i xs = last11 (xs @ [i])"
proof (cases "length xs = 11")
  case True
  with assms(1) show ?thesis by (cases xs) (auto simp: remember_chunk_def last11_def Let_def)
qed (use assms in \<open>auto simp: remember_chunk_def last11_def Let_def\<close>)

lemma last11_snoc: "last11 (last11 ys @ [i]) = last11 (ys @ [i])"
  by (cases "length ys \<le> 11") (simp_all add: last11_def Suc_diff_le [symmetric])

lemma length_last11: "length (last11 ys) \<le> 11"
  by (simp add: last11_def)

lemma in_last11D: "x \<in> set (last11 xs) \<Longrightarrow> \<exists>j < length xs. length xs - 11 \<le> j \<and> xs ! j = x"
  unfolding last11_def in_set_conv_nth by (metis le_add1 length_drop less_diff_conv2 nat_le_linear
      add.commute diff_le_self nth_drop le_add_diff_inverse less_diff_conv)

lemma visit_all_known: "set is \<subseteq> set xs \<Longrightarrow> visit_all xs is = (xs, [])"
  by (induction "is") auto

lemma visit_all_new:
  assumes "\<And>k. k < length is \<Longrightarrow> is ! k \<notin> set (last11 (ys @ take k is))"
  shows "visit_all (last11 ys) is = (last11 (ys @ is), is)"
  using assms
proof (induction "is" arbitrary: ys)
  case (Cons i "is")
  have "i \<notin> set (last11 ys)" using Cons.prems [of 0] by simp
  moreover have "remember_chunk i (last11 ys) = last11 (ys @ [i])"
    using remember_new [OF calculation length_last11] by (simp add: last11_snoc)
  moreover have "visit_all (last11 (ys @ [i])) is = (last11 ((ys @ [i]) @ is), is)"
  proof (rule Cons.IH)
    fix k
    assume "k < length is"
    then show "is ! k \<notin> set (last11 ((ys @ [i]) @ take k is))" using Cons.prems [of "Suc k"] by simp
  qed
  ultimately show ?case by simp
qed simp

lemma set_last11: "set (last11 xs) \<subseteq> set xs"
  by (auto simp: last11_def dest: in_set_dropD)

lemma visit_all_first:
  assumes "distinct is"
  shows "visit_all [] is = (last11 is, is)"
proof -
  have "visit_all (last11 []) is = (last11 ([] @ is), is)"
  proof (rule visit_all_new)
    fix k assume k: "k < length is"
    have "is ! k \<notin> set (take k is)"
      using assms k by (metis distinct_take id_take_nth_drop not_distinct_conv_prefix)
    then show "is ! k \<notin> set (last11 ([] @ take k is))" using set_last11 by fastforce
  qed
  then show ?thesis by (simp add: last11_def)
qed

lemma visit_all_again:
  assumes "distinct is" "11 < length is"
  shows "visit_all (last11 is) is = (last11 is, is)"
proof -
  have "visit_all (last11 is) is = (last11 (is @ is), is)"
  proof (rule visit_all_new)
    fix k assume k: "k < length is"
    show "is ! k \<notin> set (last11 (is @ take k is))"
    proof
      assume "is ! k \<in> set (last11 (is @ take k is))"
      then obtain j where j: "j < length is + k" "length is + k - 11 \<le> j" "(is @ take k is) ! j = is ! k"
        using in_last11D k by fastforce
      show False
      proof (cases "j < length is")
        case True
        with j k assms(1) have "j = k" by (simp add: nth_append nth_eq_iff_index_eq)
        with j(2) assms(2) show False by simp
      next
        case False
        with j k assms(1) have "j - length is = k" by (auto simp: nth_append nth_eq_iff_index_eq)
        with j(1) False show False by simp
      qed
    qed
  qed
  with assms(2) show ?thesis by (simp add: last11_def)
qed

subsection \<open>Polling a play list\<close>

fun polls ::
    "feed_env \<Rightarrow> vehicle_config \<Rightarrow> nat \<Rightarrow> download_vars \<Rightarrow> ('d, 'p) vehicle_app \<times> (string, string) dict \<Rightarrow>
       (('d, 'p) vehicle_app \<times> (string, string) dict) \<times> download_vars thread_outcome" where
  "polls E C 0 v s = (s, Continues v)"
| "polls E C (Suc n) v s =
     (case download_round E C v s of (s, Continues v) \<Rightarrow> polls E C n v s | r \<Rightarrow> r)"

text \<open>A network without failures, a clock that stays within the job, a disk with space.\<close>

definition calm :: "feed_env \<Rightarrow> vehicle_config \<Rightarrow> rat \<Rightarrow> string \<Rightarrow> bool" where
  "calm E C start data \<longleftrightarrow> (\<forall>k u. \<exists>x. fv_get E k u = Inr x) \<and> (\<forall>k. fv_get E k (vc_video_url C) = Inr data) \<and>
     (\<forall>k. fv_now E k - start \<le> 11 / 10 * vc_job_duration C) \<and>
     (\<forall>k. fv_disk_usage E k = Inr 0) \<and> 0 \<le> vc_disk_usage_percentage_thresh C"

definition chunk_names :: "string \<Rightarrow> string list" where
  "chunk_names data = filter (sublist ''.ts'') (split_on newline data)"

lemma snd_scan_lines: "snd (foldl (scan_line base) (p, ns) ls) = ns @ filter (sublist ''.ts'') ls"
  by (induction ls arbitrary: p ns) (auto simp: scan_line_def)

lemma get_chunk_names_calm:
  assumes "calm E C start data" "base_url (vc_video_url C) = Inr base" "chunk_names data \<noteq> []"
  shows "get_chunk_names E C 60 v s = Inr (chunk_names data, v\<lparr>dl_clock := Suc (dl_clock v)\<rparr>, s)"
proof -
  have "fv_get E (dl_clock v) (vc_video_url C) = Inr data" using assms(1) by (simp add: calm_def)
  then have "first_playlist E (vc_video_url C) base (Suc n) (dl_clock v) ('''', []) =
    (foldl (scan_line base) ('''', []) (split_on newline data), False, Suc (dl_clock v))" for n
    using assms(3) by (simp add: snd_scan_lines chunk_names_def Let_def)
  from this [of 59] have "first_playlist E (vc_video_url C) base 60 (dl_clock v) ('''', []) =
    (foldl (scan_line base) ('''', []) (split_on newline data), False, Suc (dl_clock v))" by simp
  moreover obtain p where "foldl (scan_line base) ('''', []) (split_on newline data) = (p, chunk_names data)"
    using snd_scan_lines [of base "''''" "[]" "split_on newline data"]
    by (metis append_Nil chunk_names_def prod.collapse)
  ultimately have "first_playlist E (vc_video_url C) base 60 (dl_clock v) ('''', []) =
    ((p, chunk_names data), False, Suc (dl_clock v))" by simp
  with assms(2,3) show ?thesis by (simp add: get_chunk_names_def)
qed

lemma download_round_calm:
  assumes "calm E C (dl_starting_ts v) data" "base_url (vc_video_url C) = Inr base" "chunk_names data \<noteq> []"
    and "list_all2 (\<lambda>name i. chunk_index name = Inr i) (chunk_names data) is"
    and "\<not> va_video_ended s" "\<not> va_job_completed s" "\<not> va_to_exit_threads s"
  shows "\<exists>v' xs files'. download_round E C v (s, files) =
      ((s\<lparr>va_downloaded_videos := va_downloaded_videos s @ xs\<rparr>, files'), Continues v') \<and>
    dl_last_downloaded v' = fst (visit_all (dl_last_downloaded v) is) \<and> dl_starting_ts v' = dl_starting_ts v \<and>
    map fst xs = snd (visit_all (dl_last_downloaded v) is)"
proof -
  let ?v = "v\<lparr>dl_clock := Suc (Suc (Suc (dl_clock v)))\<rparr>"
  have "\<exists>v' xs files'. forEach (visit_chunk E base) (?v, s, files) (chunk_names data) =
      ((v', s\<lparr>va_downloaded_videos := va_downloaded_videos s @ xs\<rparr>, files'), Inr ()) \<and>
    dl_last_downloaded v' = fst (visit_all (dl_last_downloaded ?v) is) \<and> dl_starting_ts v' = dl_starting_ts ?v \<and>
    map fst xs = snd (visit_all (dl_last_downloaded ?v) is)"
    by (rule visit_chunks) (use assms in \<open>simp_all add: calm_def\<close>)
  moreover have "fv_now E (dl_clock v) - dl_starting_ts v \<le> 11 / 10 * vc_job_duration C"
    "fv_disk_usage E (Suc (dl_clock v)) = Inr 0" "0 \<le> vc_disk_usage_percentage_thresh C"
    using assms(1) by (simp_all add: calm_def)
  ultimately show ?thesis
    using assms(2,3,5-7)
    by (auto simp: download_round_def Let_def get_chunk_names_calm [OF assms(1-3)])
qed

lemma visit_all_later:
  assumes "distinct is"
  shows "visit_all (last11 is) is = (last11 is, if length is \<le> 11 then [] else is)"
proof (cases "length is \<le> 11")
  case True
  then have "last11 is = is" by (simp add: last11_def)
  with True show ?thesis by (simp add: visit_all_known)
qed (simp add: visit_all_again assms)

lemma polls_later:
  assumes "base_url (vc_video_url C) = Inr base" "chunk_names data \<noteq> []" "distinct is"
    and "list_all2 (\<lambda>name i. chunk_index name = Inr i) (chunk_names data) is"
  shows "calm E C (dl_starting_ts v) data \<Longrightarrow> dl_last_downloaded v = last11 is \<Longrightarrow>
    \<not> va_video_ended s \<Longrightarrow> \<not> va_job_completed s \<Longrightarrow> \<not> va_to_exit_threads s \<Longrightarrow>
    \<exists>s' files' v'. polls E C n v (s, files) = ((s', files'), Continues v') \<and>
      map fst (va_downloaded_videos s') = map fst (va_downloaded_videos s) @
        (if length is \<le> 11 then [] else concat (replicate n is))"
proof (induction n arbitrary: v s files)
  case (Suc n)
  from download_round_calm [OF Suc.prems(1) assms(1,2,4) Suc.prems(3-5)] Suc.prems(2)
  obtain v1 xs files1 where 1: "download_round E C v (s, files) =
      ((s\<lparr>va_downloaded_videos := va_downloaded_videos s @ xs\<rparr>, files1), Continues v1)"
    "dl_last_downloaded v1 = last11 is" "dl_starting_ts v1 = dl_starting_ts v"
    "map fst xs = (if length is \<le> 11 then [] else is)"
    using visit_all_later [OF assms(3)] by fastforce
  let ?s = "s\<lparr>va_downloaded_videos := va_downloaded_videos s @ xs\<rparr>"
  have "calm E C (dl_starting_ts v1) data" using Suc.prems(1) 1(3) by simp
  from Suc.IH [OF this 1(2), of ?s files1] Suc.prems(3-5) 1(1,4) show ?case by auto
qed simp

text \<open>A play list that does not change is polled again and again. When it names at most 11 chunks, every chunk is downloaded once, in the order of the list. When it names more, each poll downloads all of them again, because the worker remembers only the last 11 chunks.\<close>

theorem playlist_polls:
  assumes "calm E C (dl_starting_ts v) data" "base_url (vc_video_url C) = Inr base" "chunk_names data \<noteq> []"
    and "list_all2 (\<lambda>name i. chunk_index name = Inr i) (chunk_names data) is" "distinct is"
    and "\<not> va_video_ended s" "\<not> va_job_completed s" "\<not> va_to_exit_threads s" "dl_last_downloaded v = []"
  shows "\<exists>s' files' v'. polls E C (Suc n) v (s, files) = ((s', files'), Continues v') \<and>
    map fst (va_downloaded_videos s') = map fst (va_downloaded_videos s) @ is @
      (if length is \<le> 11 then [] else concat (replicate n is))"
proof -
  from download_round_calm [OF assms(1-4,6-8)] visit_all_first [OF assms(5)] assms(9)
  obtain v1 xs files1 where 1: "download_round E C v (s, files) =
      ((s\<lparr>va_downloaded_videos := va_downloaded_videos s @ xs\<rparr>, files1), Continues v1)"
    "dl_last_downloaded v1 = last11 is" "dl_starting_ts v1 = dl_starting_ts v" "map fst xs = is"
    by fastforce
  let ?s = "s\<lparr>va_downloaded_videos := va_downloaded_videos s @ xs\<rparr>"
  have "calm E C (dl_starting_ts v1) data" using assms(1) 1(3) by simp
  from polls_later [OF assms(2,3,5,4) this 1(2), of ?s n files1] assms(6-8) 1(1,4) show ?thesis by auto
qed

subsection \<open>Decoded frames\<close>

text \<open>The frames that a chunk gives, and their time stamps: every \<open>skip_frame + 1\<close>-th one.\<close>

definition kept_frames :: "vehicle_config \<Rightarrow> rat \<Rightarrow> decode_vars \<Rightarrow> 'p image list \<Rightarrow> ('p image \<times> rat) list" where
  "kept_frames C ft v imgs =
     map (\<lambda>(k, img). (img, dc_video_ts v + of_nat (Suc k) * ft))
       (filter (\<lambda>(k, _). (dc_frame_idx v + int k) mod (vc_skip_frame C + 1) = 0) (enumerate 0 imgs))"

lemma kept_frames_Cons:
  "kept_frames C ft v (img # imgs) =
     (if dc_frame_idx v mod (vc_skip_frame C + 1) = 0 then [(img, dc_video_ts v + ft)] else []) @
     kept_frames C ft (v\<lparr>dc_video_ts := dc_video_ts v + ft, dc_frame_idx := dc_frame_idx v + 1\<rparr>) imgs"
proof -
  have "enumerate (Suc 0) imgs = map (\<lambda>(k, x). (Suc k, x)) (enumerate 0 imgs)"
    by (rule nth_equalityI) (simp_all add: nth_enumerate_eq)
  then show ?thesis
    by (simp add: kept_frames_def filter_map comp_def case_prod_beta' algebra_simps)
qed

lemma decode_frames:
  "foldl (decode_frame C ft) (v, s) imgs =
     (v\<lparr>dc_video_ts := dc_video_ts v + of_nat (length imgs) * ft,
        dc_frame_idx := dc_frame_idx v + int (length imgs)\<rparr>,
      s\<lparr>va_total_extracted_frames := va_total_extracted_frames s + length imgs,
        va_video_frames := va_video_frames s @ map fst (kept_frames C ft v imgs),
        va_video_frame_timestamps := va_video_frame_timestamps s @ map snd (kept_frames C ft v imgs)\<rparr>)"
proof (induction imgs arbitrary: v s)
  case Nil
  show ?case by (simp add: kept_frames_def)
next
  case (Cons img imgs)
  then show ?case
    by (simp add: decode_frame_def Let_def kept_frames_Cons algebra_simps)
qed

text \<open>Decoding a chunk appends, in order, exactly every \<open>skip_frame + 1\<close>-th frame of the video, counted over all chunks, and one time stamp for each, the start of the chunk plus the duration of the frames up to it; the chunk is then forgotten and its file removed. The frames and the time stamps stay equally many.\<close>

theorem decode_round_frames:
  assumes "\<not> va_to_exit_threads s" "dc_video_ts v < vc_job_duration C * 1000"
    and "va_downloaded_videos s = (i, path, ts) # rest"
    and "int (length (va_video_frames s)) \<le> 5 * NUM_FRAMES_PER_SEC C"
    and "video (map_of files path) = (fps, imgs)" "fps \<noteq> 0"
  shows "decode_round video C v (s, files) =
    ((s\<lparr>va_total_extracted_frames := va_total_extracted_frames s + length imgs,
        va_video_frames := va_video_frames s @ map fst (kept_frames C (1000 / fps) (v\<lparr>dc_video_ts := ts\<rparr>) imgs),
        va_video_frame_timestamps := va_video_frame_timestamps s @
          map snd (kept_frames C (1000 / fps) (v\<lparr>dc_video_ts := ts\<rparr>) imgs),
        va_downloaded_videos := rest\<rparr>, AList.delete path files),
     Continues \<lparr>dc_video_ts = ts + of_nat (length imgs) * (1000 / fps),
       dc_frame_idx = dc_frame_idx v + int (length imgs)\<rparr>)"
  using assms by (cases v) (simp add: decode_round_def Let_def decode_frames)

end
