(* ===== verification/Nxs_Vehicle_Threads.thy ===== *)
theory Nxs_Vehicle_Threads
  imports Nxs_Vehicle_Feed_Props
begin

section \<open>Vehicle counting: the threads of a worker\<close>

text \<open>
  The downloader, the decoder and the main loop as a step relation: what every interleaving keeps,
  when the main loop ends, and when it never does.
\<close>

subsection \<open>The three threads together\<close>

text \<open>
  The state of a worker: the application and the files, and where each thread is. A step is one
  round of one thread.
\<close>

record ('d, 'p) worker_state =
  ws_app :: "('d, 'p) vehicle_app"
  ws_files :: "(string, string) dict"
  ws_main :: round_outcome
  ws_download :: "download_vars thread_outcome"
  ws_decode :: "decode_vars thread_outcome"

inductive worker_step ::
    "'p vision \<Rightarrow> ('d, 'p) vehicle_store \<Rightarrow> feed_env \<Rightarrow> (string option \<Rightarrow> rat \<times> 'p image list) \<Rightarrow>
       vehicle_config \<Rightarrow> ('d, 'p) worker_state \<Rightarrow> ('d, 'p) worker_state \<Rightarrow> bool"
  for V D E video C where
  main: "ws_main w = NextRound v \<Longrightarrow> run_round V D C v (ws_app w) = (s, out) \<Longrightarrow>
    worker_step V D E video C w (w\<lparr>ws_app := s, ws_main := out\<rparr>)"
| download: "ws_download w = Continues v \<Longrightarrow>
    download_round E C v (ws_app w, ws_files w) = ((s, files), out) \<Longrightarrow>
    worker_step V D E video C w (w\<lparr>ws_app := s, ws_files := files, ws_download := out\<rparr>)"
| decode: "ws_decode w = Continues v \<Longrightarrow>
    decode_round video C v (ws_app w, ws_files w) = ((s, files), out) \<Longrightarrow>
    worker_step V D E video C w (w\<lparr>ws_app := s, ws_files := files, ws_decode := out\<rparr>)"

inductive_cases worker_stepE: "worker_step V D E video C w w'"

definition worker_start :: "feed_env \<Rightarrow> ('d, 'p) vehicle_app \<Rightarrow> ('d, 'p) worker_state" where
  "worker_start E s = \<lparr>ws_app = s, ws_files = [], ws_main = NextRound first_vars,
     ws_download = Continues (new_download_vars E),
     ws_decode = Continues \<lparr>dc_video_ts = 0, dc_frame_idx = 0\<rparr>\<rparr>"

abbreviation worker_reaches where
  "worker_reaches V D E video C \<equiv> (worker_step V D E video C)\<^sup>*\<^sup>*"

text \<open>The downloader touches neither tracks, nor counters, nor frames.\<close>

lemma download_chunk_same:
  "download_chunk E url n i v (s, files) = (v', s', files') \<Longrightarrow>
     s' = s\<lparr>va_downloaded_videos := va_downloaded_videos s'\<rparr>"
  by (induction E url n i v "(s, files)" rule: download_chunk.induct) (auto simp: Let_def split: sum.splits)


lemma get_chunk_names_same:
  assumes "get_chunk_names E C n v s = Inr (names, v', s')"
  shows "s' = s \<or> s' = s\<lparr>va_video_ended := True\<rparr>"
proof -
  obtain base where base: "base_url (vc_video_url C) = Inr base"
    using assms by (auto simp: get_chunk_names_def bindE_eq_Inr)
  obtain path ns bad k where fp: "first_playlist E (vc_video_url C) base n (dl_clock v) ('''', []) = ((path, ns), bad, k)"
    by (metis prod.exhaust)
  obtain ns2 bad2 k2 where cl: "chunk_list E path n k = (ns2, bad2, k2)" by (metis prod.exhaust)
  show ?thesis using assms by (auto simp: get_chunk_names_def base fp cl Let_def split: if_splits)
qed

definition fed :: "('d, 'p) vehicle_app \<Rightarrow> ('d, 'p) vehicle_app \<Rightarrow> bool" where
  "fed s s' \<longleftrightarrow> (\<exists>xs b. s' = s\<lparr>va_downloaded_videos := xs, va_video_ended := b\<rparr>)"

lemma fed_intros:
  "fed s s" "fed s (s\<lparr>va_video_ended := b\<rparr>)" "s' = s\<lparr>va_downloaded_videos := va_downloaded_videos s'\<rparr> \<Longrightarrow> fed s s'"
proof -
  have "s = s\<lparr>va_downloaded_videos := va_downloaded_videos s, va_video_ended := va_video_ended s\<rparr>" by simp
  then show "fed s s" unfolding fed_def by blast
  have "s\<lparr>va_video_ended := b\<rparr> = s\<lparr>va_downloaded_videos := va_downloaded_videos s, va_video_ended := b\<rparr>" by simp
  then show "fed s (s\<lparr>va_video_ended := b\<rparr>)" unfolding fed_def by blast
  assume "s' = s\<lparr>va_downloaded_videos := va_downloaded_videos s'\<rparr>"
  moreover have "s\<lparr>va_downloaded_videos := xs\<rparr> =
      s\<lparr>va_downloaded_videos := xs, va_video_ended := va_video_ended s\<rparr>" for xs by simp
  ultimately have "s' = s\<lparr>va_downloaded_videos := va_downloaded_videos s', va_video_ended := va_video_ended s\<rparr>"
    by (rule trans)
  then show "fed s s'" unfolding fed_def by blast
qed

lemma fed_trans: "fed s t \<Longrightarrow> fed t u \<Longrightarrow> fed s u"
  by (force simp: fed_def)

lemma fed_names: "get_chunk_names E C n v s = Inr (names, v', s') \<Longrightarrow> fed s s'"
  by (auto dest!: get_chunk_names_same simp: fed_intros)

lemma fed_chunk: "fed (fst (snd x)) (fst (snd (fst (visit_chunk E base x name))))"
  by (auto simp: visit_chunk_def Let_def fed_intros split: sum.splits prod.splits
      intro!: fed_intros(3) dest: download_chunk_same)

lemma fed_chunks:
  assumes "forEach (visit_chunk E base) (v, s, files) names = ((v', s', files'), r)"
  shows "fed s s'"
proof -
  have "fed (fst (snd (v, s, files))) (fst (snd (fst (forEach (visit_chunk E base) (v, s, files) names))))"
    by (rule forEach_keeps [where R = "\<lambda>x y. fed (fst (snd x)) (fst (snd y))"])
      (rule fed_chunk fed_intros(1) | erule (1) fed_trans)+
  with assms show ?thesis by simp
qed

lemma download_round_fed:
  assumes "download_round E C v (s, files) = ((s', files'), out)"
  shows "fed s s'"
  using assms
  by (auto simp: download_round_def Let_def bindE_def fed_intros split: if_splits sum.splits prod.splits
      intro: fed_trans [OF fed_names fed_chunks] fed_names)

subsection \<open>The invariant\<close>

lemma fed_keeps: "fed s s' \<Longrightarrow> keeps C s s'"
  by (auto simp: fed_def keeps_def app_ok_def counts_grow_def)

lemma decode_round_keeps:
  assumes "decode_round video C v (s, files) = ((s', files'), out)"
  shows "keeps C s s'"
  using assms
  by (auto simp: decode_round_def Let_def decode_frames keeps_def app_ok_def counts_grow_def
      split: if_splits list.splits prod.splits)

lemma worker_step_keeps:
  assumes "config_ok C" "worker_step V D E video C w w'"
  shows "keeps C (ws_app w) (ws_app w')"
  using assms(2)
proof cases
  case (main v s out)
  then show ?thesis using run_round_keeps [OF assms(1) main(3)] by simp
next
  case (download v s files out)
  then show ?thesis using fed_keeps [OF download_round_fed [OF download(3)]] by simp
next
  case (decode v s files out)
  then show ?thesis using decode_round_keeps [OF decode(3)] by simp
qed

interpretation worker: step_preorder "worker_step V D E video C"
  "\<lambda>w w'. config_ok C \<longrightarrow> keeps C (ws_app w) (ws_app w')" for V D E video C
  by unfold_locales (auto intro: keeps_refl keeps_trans worker_step_keeps)

lemma worker_reaches_keeps:
  "config_ok C \<Longrightarrow> worker_reaches V D E video C w w' \<Longrightarrow> keeps C (ws_app w) (ws_app w')"
  using worker.run_related by blast

lemma zero_tally: "tally (zero_counts C) r c \<ge> 0 \<or> length (vc_lines C) \<le> r"
proof -
  have "dget (fold (\<lambda>c d. AList.update c 0 d) cs d) c 0 \<ge> (0 :: int)" if "dget d c 0 \<ge> 0"
    for cs and d :: "(string, int) dict"
    using that by (induction cs arbitrary: d) (auto simp: dget_update)
  from this [of "[]"] show ?thesis
    by (cases "r < length (vc_lines C)") (auto simp: tally_def zero_counts_def dget_def)
qed

text \<open>C31: Whatever the three threads of a worker do, in any order of their rounds: every track is stored under its own number, has a template and a non-empty path with one score per box, a region of the configuration and a class that is tracked; there is one counter for every line and tracked class; the frames that wait have one time stamp each; no counter of a line is ever negative; and in the states that follow no counter is ever smaller.\<close>

theorem worker_invariant:
  assumes "config_ok C" "new_vehicle_app C now db = Inr s0"
    and "worker_reaches V D E video C (worker_start E s0) w" "worker_reaches V D E video C w w'"
  shows "app_ok C (ws_app w) \<and> counts_grow (ws_app w) (ws_app w') \<and>
    (\<forall>r < length (vc_lines C). \<forall>c. 0 \<le> tally (va_class_count_dicts (ws_app w)) r c)"
proof -
  have 0: "app_ok C (ws_app (worker_start E s0))"
    using new_vehicle_app_ok [OF assms(2)] by (simp add: worker_start_def)
  with worker_reaches_keeps [OF assms(1,3)]
  have 1: "app_ok C (ws_app w)" "counts_grow s0 (ws_app w)" by (simp_all add: keeps_def worker_start_def)
  have z: "va_class_count_dicts s0 = zero_counts C"
    using assms(2) by (auto simp: new_vehicle_app_def split: if_splits)
  have "0 \<le> tally (va_class_count_dicts (ws_app w)) r c" if "r < length (vc_lines C)" for r c
    using that 1(2) zero_tally [of C r c] z by (auto simp: counts_grow_def intro: order_trans)
  with 1 worker_reaches_keeps [OF assms(1,4)] show ?thesis by (simp add: keeps_def)
qed

subsection \<open>A crashed downloader\<close>


subsection \<open>The end of a job\<close>

text \<open>What a round leaves of the queue of frames and of the flags.\<close>

definition queue_of where
  "queue_of s = (va_video_frames s, va_video_frame_timestamps s, va_video_ended s, va_decoder_stopped s,
     va_job_completed s, va_downloaded_videos s, va_to_exit_threads s)"

lemma queue_of_updates [simp]:
  "queue_of (s\<lparr>va_track_dict := d\<rparr>) = queue_of s" "queue_of (s\<lparr>va_track_count := n\<rparr>) = queue_of s"
  "queue_of (s\<lparr>va_class_count_dicts := cs\<rparr>) = queue_of s"
  by (simp_all add: queue_of_def)

lemma clean_tracks_queue: "clean_tracks V C s = Inr s' \<Longrightarrow> queue_of s' = queue_of s"
  by (auto simp: clean_tracks_def remove_out_of_rois_tracks_def remove_inactive_tracks_def
      remove_expired_objects_def remove_tracks_def bindE_eq_Inr)

lemma process_detections_queue:
  assumes "process_detections V C frame dets s = Inr s'"
  shows "queue_of s' = queue_of s"
proof -
  obtain dup s1 where f: "foldE (process_detection V C frame) ([], s) dets = Inr (dup, s1)"
    "s' = remove_tracks dup s1"
    using assms by (auto simp: process_detections_def bindE_eq_Inr)
  have "queue_of (snd (dup, s1)) = queue_of s"
  proof (rule foldE_invariant [OF f(1), where P = "\<lambda>x. queue_of (snd x) = queue_of s"])
    fix x det x'
    assume "queue_of (snd x) = queue_of s" "process_detection V C frame x det = Inr x'"
    then show "queue_of (snd x') = queue_of s"
      by (cases x) (auto simp: process_detection_def get_free_idx_def Let_def bindE_eq_Inr
          split: if_splits option.splits prod.splits)
  qed simp
  then show ?thesis by (simp add: f(2) remove_tracks_def)
qed

lemma count_window_queue:
  assumes "count_window C n s = Inr (s', drawn)"
  shows "queue_of s' = queue_of s"
proof -
  have "queue_of (fst (s', drawn)) = queue_of s"
    using assms unfolding count_window_def
    by (rule foldE_invariant [where P = "\<lambda>x. queue_of (fst x) = queue_of s"])
      (auto simp: count_frame_def bindE_eq_Inr split: prod.splits)
  then show ?thesis by simp
qed

definition same_queue :: "('d, 'p) vehicle_app \<Rightarrow> ('d, 'p) vehicle_app \<Rightarrow> bool" where
  "same_queue s s' \<longleftrightarrow> queue_of s' = queue_of s"

lemma same_queue_trans: "same_queue s t \<Longrightarrow> same_queue t u \<Longrightarrow> same_queue s u"
  by (simp add: same_queue_def)

lemma same_queue_refl: "same_queue s s"
  by (simp add: same_queue_def)

lemma store_write_queue: "store_write f s = Inr s' \<Longrightarrow> same_queue s s'"
  by (auto simp: store_write_def bindE_eq_Inr queue_of_def same_queue_def)

lemma report_counting_queue: "report_counting D C ts s = Inr s' \<Longrightarrow> same_queue s s'"
  by (auto simp: report_counting_def store_write_queue split: if_splits)

lemma snapshot_stats_queue: "snapshot_stats f ts s = Inr s' \<Longrightarrow> same_queue s s'"
  by (auto simp: snapshot_stats_def bindE_eq_Inr queue_of_def same_queue_def)

lemma same_queue_attempt:
  assumes "same_queue s t"
  shows "same_queue s (fst (attempt (store_write f) t))"
    "same_queue s (fst (attempt (report_counting D C ts) t))"
    "same_queue s (fst (attempt (snapshot_stats fr ts) t))"
  using assms
  by (auto simp: attempt_def intro: same_queue_trans split: sum.split
      dest: store_write_queue report_counting_queue snapshot_stats_queue)

lemma same_queue_updates:
  "same_queue s (t\<lparr>va_logs := ls, va_log_id := i\<rparr>) = same_queue s t"
  "same_queue s (t\<lparr>va_total_processed_frames := n\<rparr>) = same_queue s t"
  by (simp_all add: same_queue_def queue_of_def)

lemma same_queue_forEach:
  "same_queue s t \<Longrightarrow> (\<And>u x. same_queue u (fst (f u x))) \<Longrightarrow> same_queue s (fst (forEach f t xs))"
  by (rule same_queue_trans, assumption, rule forEach_keeps)
    (auto intro: same_queue_trans simp: same_queue_refl)

lemmas same_queue_rules =
  andThen_keeps [where R = same_queue] same_queue_attempt same_queue_forEach

lemma upload_logs_queue: "same_queue s t \<Longrightarrow> same_queue s (fst (upload_logs D C t))"
  by (auto simp: upload_logs_def Let_def same_queue_updates same_queue_refl intro!: same_queue_rules)

lemma end_window_queue: "same_queue s (fst (end_window D C frames ts drawn v s))"
  by (auto simp: end_window_def Let_def same_queue_updates same_queue_refl
      intro!: same_queue_rules upload_logs_queue)

lemma run_window_queue:
  assumes "run_window V D C frames ts v s = (s', NextRound v')"
  shows "queue_of s' = queue_of s"
proof -
  have "\<exists>s1 dets s2 d s3 drawn v1 s4. clean_tracks V C s = Inr s1 \<and>
      process_detections V C (hd frames) dets s1 = Inr s2 \<and>
      count_window C (length frames) (s2\<lparr>va_track_dict := d\<rparr>) = Inr (s3, drawn) \<and>
      end_window D C frames ts drawn v1 s3 = (s4, Inr v') \<and> s' = s4\<lparr>va_round := Suc (va_round s4)\<rparr>"
    using assms by (auto simp: run_window_def Let_def split: sum.splits prod.splits) blast
  then obtain s1 dets s2 d s3 drawn v1 s4 where 1: "clean_tracks V C s = Inr s1"
    "process_detections V C (hd frames) dets s1 = Inr s2"
    "count_window C (length frames) (s2\<lparr>va_track_dict := d\<rparr>) = Inr (s3, drawn)"
    "end_window D C frames ts drawn v1 s3 = (s4, Inr v')" "s' = s4\<lparr>va_round := Suc (va_round s4)\<rparr>" by blast
  have "queue_of s' = queue_of s4" by (simp add: 1(5) queue_of_def)
  also have "\<dots> = queue_of s3" using end_window_queue [of s3 D C frames ts drawn v1] by (simp add: same_queue_def 1(4))
  also have "\<dots> = queue_of s2" using count_window_queue [OF 1(3)] by (simp add: queue_of_def)
  also have "\<dots> = queue_of s1" by (rule process_detections_queue [OF 1(2)])
  also have "\<dots> = queue_of s" by (rule clean_tracks_queue [OF 1(1)])
  finally show ?thesis .
qed

lemma run_round_queue:
  assumes "run_round V D C v s = (s', NextRound v')"
  shows "queue_of s' = queue_of (snd (offline_get_batch C s))"
  using assms
  by (auto simp: run_round_def end_run_def split: if_splits prod.splits sum.splits dest!: run_window_queue)

text \<open>The decoder and the main loop in turn.\<close>

definition decode_turn where
  "decode_turn video C w = (case ws_decode w of
     Continues u \<Rightarrow> (case decode_round video C u (ws_app w, ws_files w) of
       ((s, files), out) \<Rightarrow> w\<lparr>ws_app := s, ws_files := files, ws_decode := out\<rparr>) | _ \<Rightarrow> w)"

definition main_turn where
  "main_turn V D C w = (case ws_main w of
     NextRound v \<Rightarrow> (case run_round V D C v (ws_app w) of (s, out) \<Rightarrow> w\<lparr>ws_app := s, ws_main := out\<rparr>) | _ \<Rightarrow> w)"

definition both_turns where
  "both_turns V D video C w = main_turn V D C (decode_turn video C w)"

lemma both_turns_reach: "worker_reaches V D E video C w (both_turns V D video C w)"
proof -
  have "worker_reaches V D E video C w (decode_turn video C w)"
    by (auto simp: decode_turn_def split: thread_outcome.split prod.split intro: worker_step.decode)
  moreover have "worker_reaches V D E video C u (main_turn V D C u)" for u
    by (auto simp: main_turn_def split: round_outcome.split prod.split intro: worker_step.main)
  ultimately show ?thesis unfolding both_turns_def by (rule rtranclp_trans)
qed

definition draining :: "('d, 'p) worker_state \<Rightarrow> bool" where
  "draining w \<longleftrightarrow> va_video_ended (ws_app w) \<and>
     length (va_video_frames (ws_app w)) = length (va_video_frame_timestamps (ws_app w)) \<and>
     (va_decoder_stopped (ws_app w) \<or> (\<exists>u. ws_decode w = Continues u)) \<and> (\<exists>v. ws_main w = NextRound v)"

abbreviation chunks_left :: "('d, 'p) worker_state \<Rightarrow> nat" where
  "chunks_left w \<equiv> length (va_downloaded_videos (ws_app w))"

abbreviation frames_left :: "('d, 'p) worker_state \<Rightarrow> nat" where
  "frames_left w \<equiv> length (va_video_frames (ws_app w))"

lemma decode_turn_progress:
  assumes "draining w" "vc_frame_rate C \<noteq> 0" "0 \<le> NUM_FRAMES_PER_SEC C" and w'_def: "w' = decode_turn video C w"
  shows "draining w' \<and> (chunks_left w' < chunks_left w \<or> chunks_left w' = chunks_left w \<and>
    frames_left w' = frames_left w \<and> (va_decoder_stopped (ws_app w) \<longrightarrow> va_decoder_stopped (ws_app w')) \<and>
    (va_decoder_stopped (ws_app w') \<or> 0 < frames_left w))"
proof (cases "ws_decode w")
  case (Continues u)
  obtain s files out where r: "decode_round video C u (ws_app w, ws_files w) = ((s, files), out)"
    by (metis prod.exhaust)
  then show ?thesis
    using assms(1-3) unfolding w'_def
    by (auto simp: decode_turn_def Continues draining_def decode_round_def Let_def decode_frames
        split: if_splits list.splits prod.splits)
qed (use assms(1) in \<open>auto simp: w'_def decode_turn_def draining_def\<close>)

lemma main_turn_progress:
  assumes "draining w" "0 < batch_frames C" and w'_def: "w' = main_turn V D C w"
  shows "(\<forall>v. ws_main w' \<noteq> NextRound v) \<or> draining w' \<and> chunks_left w' = chunks_left w \<and>
    va_decoder_stopped (ws_app w') = va_decoder_stopped (ws_app w) \<and>
    (frames_left w' < frames_left w \<or> frames_left w' = frames_left w \<and> frames_left w = 0 \<and> \<not> va_decoder_stopped (ws_app w))"
proof -
  let ?s = "ws_app w"
  obtain v where v: "ws_main w = NextRound v" using assms(1) by (auto simp: draining_def)
  obtain s out where r: "run_round V D C v ?s = (s, out)" by (metis prod.exhaust)
  then have w': "w' = w\<lparr>ws_app := s, ws_main := out\<rparr>" by (simp add: w'_def main_turn_def v)
  show ?thesis
  proof (cases out)
    case (NextRound v')
    have q: "queue_of s = queue_of (snd (offline_get_batch C ?s))" by (rule run_round_queue) (use r NextRound in simp)
    have len: "length (va_video_frames ?s) = length (va_video_frame_timestamps ?s)" "va_video_ended ?s"
      using assms(1) by (simp_all add: draining_def)
    consider "int (length (va_video_frames ?s)) \<ge> batch_frames C" | "va_video_frames ?s \<noteq> []" | "va_video_frames ?s = []"
      by fastforce
    then show ?thesis
    proof cases
      case 3
      then have "\<not> va_decoder_stopped ?s"
        using r NextRound len(2) assms(2)
        by (auto simp: run_round_def offline_get_batch_def pop_frames_def end_run_def split: if_splits sum.splits)
      with 3 q len assms(1,2) show ?thesis
        by (simp add: w' NextRound draining_def queue_of_def offline_get_batch_def pop_frames_def Let_def)
    qed (use q len assms(1,2) in \<open>auto simp: w' NextRound draining_def queue_of_def offline_get_batch_def pop_frames_def
          Let_def split: if_splits\<close>)
  qed (simp_all add: w')
qed

lemma both_turns_progress:
  assumes "draining w" "vc_frame_rate C \<noteq> 0" "0 \<le> NUM_FRAMES_PER_SEC C" "0 < batch_frames C"
    and w'_def: "w' = both_turns V D video C w"
  shows "(\<forall>v. ws_main w' \<noteq> NextRound v) \<or> draining w' \<and>
    (w', w) \<in> measures [chunks_left, frames_left, \<lambda>w. if va_decoder_stopped (ws_app w) then 0 else 1]"
  using decode_turn_progress [OF assms(1-3) refl, of video]
    main_turn_progress [OF conjunct1 [OF decode_turn_progress [OF assms(1-3) refl, of video]] assms(4) refl, of V D]
  unfolding w'_def both_turns_def by (auto split: if_splits)


subsection \<open>The online application without a batch\<close>

text \<open>When the frame rate is so small against the frames to skip that a batch has no frame, the main loop of the online application never ends and never looks at a frame: every round changes nothing, even after the video has ended. The main loop of the offline application does the same as long as the decoder has not stopped.\<close>

theorem empty_batches_never_end:
  assumes "batch_frames C \<le> 0"
  shows "online_round V D C v s = (s, NextRound v) \<and>
    (rv_last_frame_ts v < vc_job_duration C * 1000 \<and> \<not> va_job_completed s \<and> \<not> va_decoder_stopped s \<longrightarrow>
      run_round V D C v s = (s, NextRound v))"
  using assms by (auto simp: online_round_def run_round_def online_get_batch_def offline_get_batch_def pop_frames_def Let_def)

subsection \<open>Concrete instances\<close>

definition sample_config :: vehicle_config where
  "sample_config = \<lparr>vc_video_uuid = ''v'', vc_detector_uuid = ''d'', vc_tracker_uuid = ''t'',
     vc_video_url = ''http://s/v.m3u8'', vc_frame_rate = 8,
     vc_rois = [[\<lparr>px = 0, py = 0\<rparr>, \<lparr>px = 100, py = 0\<rparr>, \<lparr>px = 100, py = 100\<rparr>]], vc_lines = [sample_line],
     vc_tracking_classes = [''car''], vc_treat_all_classes_as_one = False, vc_detector_min_score = 4 / 10,
     vc_detector_interval_secs = 1, vc_duplicate_iou_thresh = 65 / 100, vc_merge_iou_thresh = 1 / 2,
     vc_object_expiration_secs = 2, vc_tracking_score_thresh = 975 / 1000, vc_skip_frame = 3,
     vc_collect_logs = False, vc_counting_report_interval_secs = 30, vc_job_duration = 60,
     vc_disk_usage_percentage_thresh = 80, vc_inference_retries = 5\<rparr>"

definition sample_store :: "(nat, int) vehicle_store" where
  "sample_store = \<lparr>vd_insert_count = (\<lambda>d _. Inr (Suc d)), vd_insert_log = (\<lambda>d _. Inr d),
     vd_upload_frame = (\<lambda>d _ _. Inr d), vd_upload_logs = (\<lambda>d _ _. Inr d)\<rparr>"

definition sample_playlist :: string where
  "sample_playlist = ''v_1.ts'' @ [newline] @ ''v_2.ts''"

definition sample_env :: feed_env where
  "sample_env = \<lparr>fv_get = (\<lambda>_ _. Inr sample_playlist), fv_now = (\<lambda>_. 0), fv_disk_usage = (\<lambda>_. Inr 0)\<rparr>"

definition sample_app :: "(nat, int) vehicle_app" where
  "sample_app = \<lparr>va_track_dict = [], va_track_count = 0,
     va_class_count_dicts = zero_counts sample_config, va_total_extracted_frames = 0,
     va_total_processed_frames = 0, va_job_completed = False, va_video_ended = False,
     va_decoder_stopped = False, va_to_exit_threads = False, va_video_frames = [],
     va_video_frame_timestamps = [], va_downloaded_videos = [], va_logs = [], va_log_id = 0,
     va_starting_utc_ts = 5, va_round = 0, va_db = 0\<rparr>"

definition sample_video :: "string option \<Rightarrow> rat \<times> int image list" where
  "sample_video = (\<lambda>_. (8, replicate 9 sample_frame))"

lemma sample_numbers:
  "NUM_FRAMES_PER_SEC sample_config = 2" "batch_frames sample_config = 2"
  by (simp_all add: NUM_FRAMES_PER_SEC_def batch_frames_def WINDOW_LENGTH_def sample_config_def py_int_def)

lemma sample_app_new: "new_vehicle_app sample_config 5 0 = Inr sample_app"
  by (simp add: new_vehicle_app_def sample_app_def sample_config_def)

lemma sample_config_ok: "config_ok sample_config"
  by (simp add: config_ok_def sample_config_def)

theorem worker_invariant_witness:
  "let w = worker_start sample_env sample_app;
       w' = both_turns sample_vision sample_store sample_video sample_config w
   in app_ok sample_config (ws_app w') \<and> counts_grow (ws_app w') (ws_app w')"
  using worker_invariant [OF sample_config_ok sample_app_new both_turns_reach rtranclp.rtrancl_refl,
    where V = sample_vision and D = sample_store and E = sample_env and video = sample_video]
  by (simp add: Let_def)

definition sample_crashed :: "(nat, int) worker_state" where
  "sample_crashed = (worker_start sample_env sample_app)\<lparr>ws_download := Crashed ValueError\<rparr>"


definition sample_ended :: "(nat, int) worker_state" where
  "sample_ended = (worker_start sample_env (sample_app\<lparr>va_video_ended := True,
     va_downloaded_videos := [(1, ''/data/chunk_0'', 0)]\<rparr>))\<lparr>ws_download := Stopped\<rparr>"


theorem empty_batches_never_end_witness:
  "online_round sample_vision sample_store (sample_config\<lparr>vc_skip_frame := 20\<rparr>) first_vars sample_app =
     (sample_app, NextRound first_vars)"
  by (rule conjunct1 [OF empty_batches_never_end])
    (simp add: batch_frames_def WINDOW_LENGTH_def sample_config_def py_int_def)

theorem playlist_polls_witness:
  "\<exists>s' files' v'. polls sample_env sample_config (Suc 3) (new_download_vars sample_env) (sample_app, []) =
      ((s', files'), Continues v') \<and> map fst (va_downloaded_videos s') = [1, 2]"
proof -
  have names: "chunk_names sample_playlist = [''v_1.ts'', ''v_2.ts'']"
    by code_simp
  have idx: "list_all2 (\<lambda>name i. chunk_index name = Inr i) [''v_1.ts'', ''v_2.ts''] [1, 2]"
    by (simp, code_simp)
  have base: "base_url (vc_video_url sample_config) = Inr ''http://s''" by code_simp
  have "\<exists>s' files' v'. polls sample_env sample_config (Suc 3) (new_download_vars sample_env) (sample_app, []) =
      ((s', files'), Continues v') \<and> map fst (va_downloaded_videos s') = map fst (va_downloaded_videos sample_app) @
        [1, 2] @ (if length [1, 2 :: int] \<le> 11 then [] else concat (replicate 3 [1, 2]))"
    by (rule playlist_polls [OF _ base, where data = sample_playlist])
      (simp_all add: names idx [simplified] calm_def sample_env_def new_download_vars_def sample_config_def
        sample_app_def)
  then show ?thesis by (simp add: sample_app_def)
qed

theorem decode_round_frames_witness:
  "fst (fst (decode_round sample_video sample_config \<lparr>dc_video_ts = 0, dc_frame_idx = 0\<rparr> (ws_app sample_ended, []))) =
    (ws_app sample_ended)\<lparr>va_total_extracted_frames := 9, va_video_frames := replicate 3 sample_frame,
      va_video_frame_timestamps := [125, 625, 1125], va_downloaded_videos := []\<rparr>"
proof -
  let ?v = "\<lparr>dc_video_ts = 0, dc_frame_idx = 0\<rparr>"
  note 1 = decode_round_frames [of "ws_app sample_ended" ?v sample_config 1 "''/data/chunk_0''" 0 "[]"
      sample_video "[]" 8 "replicate 9 sample_frame"]
  have 2: "vc_job_duration sample_config = 60" by (simp add: sample_config_def)
  have "kept_frames sample_config (1000 / 8) ?v (replicate 9 sample_frame) =
      [(sample_frame, 125), (sample_frame, 625), (sample_frame, 1125)]"
    by (simp add: kept_frames_def sample_config_def enumerate_eq_zip eval_nat_numeral upt_rec)
  with 1 show ?thesis
    by (simp add: 2 sample_numbers sample_video_def sample_ended_def worker_start_def sample_app_def eval_nat_numeral)
qed

end
