(* ===== verification/Nxs_Vehicle_Job_Props.thy ===== *)
theory Nxs_Vehicle_Job_Props
  imports Nxs_Vehicle_Job Nxs_Vehicle_Threads
begin

section \<open>Vehicle counting: properties of jobs\<close>

text \<open>
  What the API and a worker do to the status of a video, and what the API answers from the
  reports of a worker. The database is a parameter; \<open>tasks\<close> and \<open>reports\<close> are what its two
  collections hold.
\<close>

subsection \<open>The database\<close>

definition set_task :: "string \<Rightarrow> (video_task \<Rightarrow> video_task) \<Rightarrow> (string \<rightharpoonup> video_task) \<Rightarrow> string \<rightharpoonup> video_task" where
  "set_task u f T = (case T u of None \<Rightarrow> T | Some t \<Rightarrow> T(u \<mapsto> f t))"

text \<open>A collection with one document per video; every operation succeeds as a whole or raises.\<close>

definition task_table :: "'d jobs_db \<Rightarrow> ('d \<Rightarrow> string \<rightharpoonup> video_task) \<Rightarrow> bool" where
  "task_table J tasks \<longleftrightarrow>
     (\<forall>d t d'. jd_insert_task J d t = Inr d' \<longrightarrow> tasks d' = (tasks d)(vt_video_uuid t \<mapsto> t)) \<and>
     (\<forall>d u ts. jd_find_task J d u = Inr ts \<longrightarrow> ts = (case tasks d u of None \<Rightarrow> [] | Some t \<Rightarrow> [t])) \<and>
     (\<forall>d st us. jd_find_status J d st = Inr us \<longrightarrow> set us = {u. \<exists>t. tasks d u = Some t \<and> vt_status t = st}) \<and>
     (\<forall>d u f d'. jd_update_task J d u f = Inr d' \<longrightarrow> tasks d' = set_task u f (tasks d))"

lemma task_tableD:
  assumes "task_table J tasks"
  shows "jd_insert_task J d t = Inr d' \<Longrightarrow> tasks d' = (tasks d)(vt_video_uuid t \<mapsto> t)"
    and "jd_find_task J d u = Inr ts \<Longrightarrow> ts = (case tasks d u of None \<Rightarrow> [] | Some t \<Rightarrow> [t])"
    and "jd_find_status J d st = Inr us \<Longrightarrow> set us = {u. \<exists>t. tasks d u = Some t \<and> vt_status t = st}"
    and "jd_update_task J d u f = Inr d' \<Longrightarrow> tasks d' = set_task u f (tasks d)"
  using assms unfolding task_table_def by blast+

subsection \<open>Statuses\<close>

text \<open>The changes of a status that the API makes: new tasks and stopped ones.\<close>

inductive api_change :: "request_status option \<Rightarrow> request_status option \<Rightarrow> bool" where
  stays: "api_change st st"
| created: "api_change None (Some RS_PENDING)"
| stopped: "\<not> terminal st \<Longrightarrow> api_change (Some st) (Some RS_STOPPED)"

inductive_cases api_change_SomeE: "api_change (Some st) st'"

definition status_of :: "(string \<rightharpoonup> video_task) \<Rightarrow> string \<Rightarrow> request_status option" where
  "status_of T u = map_option vt_status (T u)"

definition changes :: "('d \<Rightarrow> string \<rightharpoonup> video_task) \<Rightarrow> 'd job_api \<Rightarrow> 'd job_api \<Rightarrow> bool" where
  "changes tasks s s' \<longleftrightarrow>
     (\<forall>u. api_change\<^sup>*\<^sup>* (status_of (tasks (ja_db s)) u) (status_of (tasks (ja_db s')) u))"

lemma changes_refl: "changes tasks s s"
  by (simp add: changes_def)

lemma changes_trans: "changes tasks s t \<Longrightarrow> changes tasks t u \<Longrightarrow> changes tasks s u"
  by (meson changes_def rtranclp_trans)

lemma changes_kubectl [simp]: "changes tasks s (kubectl c t) = changes tasks s t"
  by (simp add: changes_def kubectl_def)

interpretation terminal_status: step_invariant api_change "\<lambda>st'. st' = Some st \<and> terminal st" for st
  by unfold_locales (auto elim: api_change.cases)

lemma status_of_set_task:
  "status_of (set_task u (set_status st) T) v =
     (if v = u \<and> status_of T u \<noteq> None then Some st else status_of T v)"
  by (auto simp: status_of_def set_task_def set_status_def split: option.split)

text \<open>Stopping a video whose status is not terminal, or is \<open>STOPPED\<close> already.\<close>

definition stop_task :: "'d jobs_db \<Rightarrow> string \<Rightarrow> 'd job_api \<Rightarrow> ('d job_api, unit) outcome" where
  "stop_task J u s = db_write (\<lambda>d. jd_update_task J d u (set_status RS_STOPPED)) s"

lemma stop_task_status:
  assumes "task_table J tasks"
  shows "status_of (tasks (ja_db (fst (stop_task J u s)))) v =
    (if v = u \<and> status_of (tasks (ja_db s)) u \<noteq> None \<and> snd (stop_task J u s) = Inr () then Some RS_STOPPED
     else status_of (tasks (ja_db s)) v)"
proof (cases "jd_update_task J (ja_db s) u (set_status RS_STOPPED)")
  case (Inr d)
  show ?thesis
    by (simp add: stop_task_def db_write_def Inr task_tableD(4) [OF assms Inr] status_of_set_task)
qed (simp add: stop_task_def db_write_def)

lemma stopping: "\<not> terminal st \<Longrightarrow> api_change\<^sup>*\<^sup>* (Some st) (Some RS_STOPPED)"
  by (rule r_into_rtranclp) (rule api_change.stopped)

lemma stop_task_changes:
  assumes "task_table J tasks" "\<And>st. status_of (tasks (ja_db s)) u = Some st \<Longrightarrow> \<not> terminal st \<or> st = RS_STOPPED"
  shows "changes tasks s (fst (stop_task J u s))"
  unfolding changes_def
proof
  fix v
  show "api_change\<^sup>*\<^sup>* (status_of (tasks (ja_db s)) v) (status_of (tasks (ja_db (fst (stop_task J u s)))) v)"
    using assms(2) by (auto simp: stop_task_status [OF assms(1)] stopping)
qed

text \<open>Stopping all of a list of videos, each of them \<open>st\<close> or already stopped.\<close>

lemma stop_tasks_changes:
  assumes "task_table J tasks" "\<not> terminal st"
    and "\<forall>u \<in> set us. status_of (tasks (ja_db s)) u \<in> {None, Some st, Some RS_STOPPED}"
  shows "changes tasks s (fst (forEach (\<lambda>s u. stop_task J u s) s us)) \<and>
    (snd (forEach (\<lambda>s u. stop_task J u s) s us) = Inr () \<longrightarrow>
      (\<forall>u. status_of (tasks (ja_db (fst (forEach (\<lambda>s u. stop_task J u s) s us)))) u =
        (if u \<in> set us \<and> status_of (tasks (ja_db s)) u \<noteq> None then Some RS_STOPPED
         else status_of (tasks (ja_db s)) u)))"
  using assms(3)
proof (induction us arbitrary: s)
  case (Cons u us)
  obtain s1 r where 1: "stop_task J u s = (s1, r)" by (cases "stop_task J u s")
  have ch: "changes tasks s s1"
    using stop_task_changes [OF assms(1), of s u] Cons.prems assms(2) 1 by (auto simp: terminal_def)
  note st = stop_task_status [OF assms(1), of u s, unfolded 1 fst_conv snd_conv]
  show ?case
  proof (cases r)
    case (Inr x)
    have "\<forall>v \<in> set us. status_of (tasks (ja_db s1)) v \<in> {None, Some st, Some RS_STOPPED}"
      using Cons.prems st by auto
    note IH = Cons.IH [OF this]
    have e: "forEach (\<lambda>s u. stop_task J u s) s (u # us) = forEach (\<lambda>s u. stop_task J u s) s1 us"
      by (simp add: 1 Inr)
    show ?thesis unfolding e
    proof (intro conjI impI allI)
      show "changes tasks s (fst (forEach (\<lambda>s u. stop_task J u s) s1 us))"
        using ch conjunct1 [OF IH] by (rule changes_trans)
    qed (use IH st Inr in auto)
  qed (use ch 1 in simp)
qed (simp add: changes_refl)

lemma stop_with_status_changes:
  assumes "task_table J tasks" "\<not> terminal st"
  shows "changes tasks s (fst (stop_with_status J st s)) \<and> (snd (stop_with_status J st s) = Inr () \<longrightarrow>
    (\<forall>u. status_of (tasks (ja_db (fst (stop_with_status J st s)))) u =
      (if status_of (tasks (ja_db s)) u = Some st then Some RS_STOPPED else status_of (tasks (ja_db s)) u)))"
proof (cases "jd_find_status J (ja_db s) st")
  case (Inr us)
  have us: "u \<in> set us \<longleftrightarrow> status_of (tasks (ja_db s)) u = Some st" for u
    using task_tableD(3) [OF assms(1) Inr] by (auto simp: status_of_def)
  have "stop_with_status J st s = forEach (\<lambda>s u. stop_task J u s) s us"
    by (simp add: stop_with_status_def db_read_def Inr stop_task_def)
  with stop_tasks_changes [OF assms, of us s] us show ?thesis by auto
qed (simp add: stop_with_status_def db_read_def changes_refl)

subsection \<open>What the API does to statuses\<close>

datatype api_call = SubmitVideo string tracking_request | TerminateJob string | CleanAll

fun serve :: "'d jobs_db \<Rightarrow> job_args \<Rightarrow> api_call \<Rightarrow> 'd job_api \<Rightarrow> 'd job_api" where
  "serve J A (SubmitVideo u q) s = fst (submit_video J A u q s)"
| "serve J A (TerminateJob u) s = fst (terminate_job J A u s)"
| "serve J A CleanAll s = fst (clean_cluster J s)"

text \<open>The identifiers of new videos are fresh.\<close>

inductive api_step :: "'d jobs_db \<Rightarrow> job_args \<Rightarrow> ('d \<Rightarrow> string \<rightharpoonup> video_task) \<Rightarrow> 'd job_api \<Rightarrow> 'd job_api \<Rightarrow> bool"
  for J A tasks where
  "(\<And>u q. c = SubmitVideo u q \<Longrightarrow> tasks (ja_db s) u = None) \<Longrightarrow> api_step J A tasks s (serve J A c s)"

lemma submit_changes:
  assumes "task_table J tasks" "tasks (ja_db s) u = None"
  shows "changes tasks s (fst (submit_video J A u q s))"
proof (cases "jd_insert_task J (ja_db s) (indb_request u q)")
  case (Inl e)
  then show ?thesis by (simp add: submit_video_def db_write_def changes_refl split: sum.split)
next
  case (Inr d)
  have t: "tasks d = (tasks (ja_db s))(u \<mapsto> indb_request u q)"
    using task_tableD(1) [OF assms(1) Inr] by (simp add: indb_request_def tracking_request.defs)
  have "changes tasks s (s\<lparr>ja_db := d\<rparr>)"
    using assms(2) by (auto simp: changes_def t status_of_def indb_request_def tracking_request.defs
        intro!: r_into_rtranclp api_change.created)
  then show ?thesis
    by (auto simp: submit_video_def db_write_def Inr changes_refl Let_def split: sum.split)
qed

lemma terminate_changes:
  assumes "task_table J tasks"
  shows "changes tasks s (fst (terminate_job J A u s))"
proof (cases "jd_find_task J (ja_db s) u")
  case (Inr ts)
  show ?thesis
  proof (cases "tasks (ja_db s) u")
    case None
    then have "ts = []" using task_tableD(2) [OF assms Inr] by simp
    then show ?thesis by (simp add: terminate_job_def db_read_def Inr changes_refl)
  next
    case (Some t)
    then have ts: "ts = [t]" using task_tableD(2) [OF assms Inr] by simp
    let ?s = "kubectl (DeleteJob u) s"
    have "status_of (tasks (ja_db ?s)) u = Some (vt_status t)"
      using Some by (simp add: status_of_def kubectl_def)
    then have "changes tasks ?s (fst (stop_task J u ?s))" if "\<not> terminal (vt_status t)"
      using that by (intro stop_task_changes [OF assms]) auto
    then have "changes tasks s (fst (if terminal (vt_status t) then (?s, Inr ()) else stop_task J u ?s))"
      by (auto simp: changes_refl intro: changes_trans [of _ _ ?s])
    then show ?thesis
      by (auto simp: terminate_job_def db_read_def Inr ts Let_def stop_task_def andThen_def split: prod.splits sum.splits
          if_splits)
  qed
qed (simp add: terminate_job_def db_read_def changes_refl)

lemma clean_changes:
  assumes "task_table J tasks"
  shows "changes tasks s (fst (clean_cluster J s))"
proof -
  have "\<not> terminal RS_PENDING" "\<not> terminal RS_RUNNING" by (simp_all add: terminal_def)
  note 1 = this [THEN stop_with_status_changes [OF assms], THEN conjunct1]
  obtain s1 r1 where s1: "stop_with_status J RS_PENDING s = (s1, r1)" by (metis prod.exhaust)
  obtain s2 r2 where s2: "stop_with_status J RS_RUNNING s1 = (s2, r2)" by (metis prod.exhaust)
  have "changes tasks s s1" "changes tasks s1 s2" using 1(1) [of s] 1(2) [of s1] by (simp_all add: s1 s2)
  then show ?thesis
    by (cases r1; cases r2) (auto simp: clean_cluster_def s1 s2 intro: changes_trans)
qed

lemma api_step_changes:
  assumes "task_table J tasks" "api_step J A tasks s s'"
  shows "changes tasks s s'"
  using assms(2)
proof cases
  case (1 c)
  then show ?thesis
    using submit_changes [OF assms(1)] terminate_changes [OF assms(1)] clean_changes [OF assms(1)]
    by (cases c) auto
qed

interpretation api: step_preorder "api_step J A tasks" "\<lambda>s s'. task_table J tasks \<longrightarrow> changes tasks s s'" for J A tasks
  by unfold_locales (auto intro: changes_refl changes_trans api_step_changes)

text \<open>C38: Whatever calls the API serves, in any order and whether the database raises or not, it only creates tasks as PENDING and stops tasks that are PENDING or RUNNING: a video that is COMPLETED, FAILED or STOPPED keeps its status, and no task disappears.\<close>

theorem api_keeps_terminal_status:
  assumes "task_table J tasks" "(api_step J A tasks)\<^sup>*\<^sup>* s s'"
  shows "(status_of (tasks (ja_db s)) u = Some st \<longrightarrow> terminal st \<longrightarrow>
      status_of (tasks (ja_db s')) u = Some st) \<and>
    api_change\<^sup>*\<^sup>* (status_of (tasks (ja_db s)) u) (status_of (tasks (ja_db s')) u)"
proof -
  have c: "api_change\<^sup>*\<^sup>* (status_of (tasks (ja_db s)) u) (status_of (tasks (ja_db s')) u)"
    using api.run_related [OF assms(2)] assms(1) by (simp add: changes_def)
  then show ?thesis using terminal_status.run_keeps_inv [OF c, of st] by auto
qed

text \<open>After a successful clean-up no video is PENDING or RUNNING: those are STOPPED, and the others keep their status.\<close>

theorem clean_cluster_stops_all:
  assumes "task_table J tasks" "clean_cluster J s = (s', Inr ())"
  shows "status_of (tasks (ja_db s')) u =
    (if status_of (tasks (ja_db s)) u \<in> {Some RS_PENDING, Some RS_RUNNING} then Some RS_STOPPED
     else status_of (tasks (ja_db s)) u)"
proof -
  have nt: "\<not> terminal RS_PENDING" "\<not> terminal RS_RUNNING" by (simp_all add: terminal_def)
  from assms(2) obtain s1 s2 where s: "stop_with_status J RS_PENDING s = (s1, Inr ())"
    "stop_with_status J RS_RUNNING s1 = (s2, Inr ())" "s' = kubectl CleanCluster s2"
    by (auto simp: clean_cluster_def andThen_eq_Inr)
  from stop_with_status_changes [OF assms(1) nt(1), of s] stop_with_status_changes [OF assms(1) nt(2), of s1]
  show ?thesis by (auto simp: s kubectl_def)
qed

subsection \<open>The worker\<close>

lemma worker_config_set_status [simp]: "worker_config A cap (set_status st t) = worker_config A cap t"
  by (simp add: worker_config_def set_status_def app_kind_of_def)

lemma app_kind_of_set_status [simp]: "app_kind_of (set_status st t) = app_kind_of t"
  by (simp add: app_kind_of_def set_status_def)

definition reachable_db :: "'d jobs_db \<Rightarrow> bool" where
  "reachable_db J \<longleftrightarrow> (\<forall>d u f. \<exists>d'. jd_update_task J d u f = Inr d') \<and> (\<forall>d u. \<exists>ts. jd_find_task J d u = Inr ts)"

lemma set_task_Some [simp]: "T u = Some t \<Longrightarrow> set_task u f T u = Some (f t)"
  by (simp add: set_task_def)

text \<open>C39: A worker that reaches its database takes a task whatever its status is, also one that was stopped before the worker started, and leaves it COMPLETED without an error when the job was set up and tracked to its end, and FAILED with the text of the exception, or \<open>stream ended\<close>, in every other case.\<close>

theorem worker_decides_status:
  assumes "\<And>k. task_table (J k) tasks" "\<And>k. reachable_db (J k)"
    and "\<And>k C d. tasks (fst (run k C d)) = tasks d"
    and "tasks d (wa_video_uuid A) = Some t"
    and "jd_update_task (J 0) d (wa_video_uuid A) (set_status RS_RUNNING) = Inr d1"
  shows "\<exists>t'. tasks (fst (worker_main J text_of A cap run logs_up d)) (wa_video_uuid A) = Some t' \<and>
    (vt_status t', vt_error t') =
      (case bindE (worker_config A cap t) (\<lambda>C. snd (run (app_kind_of t) C d1)) of
         Inl e \<Rightarrow> (RS_FAILED, Some (text_of e))
       | Inr completed \<Rightarrow> if completed then (RS_COMPLETED, Some '''') else (RS_FAILED, Some ''stream ended''))"
proof -
  let ?u = "wa_video_uuid A"
  have upd: "\<exists>d'. jd_update_task (J k) d u f = Inr d' \<and> tasks d' = set_task u f (tasks d)" for k d u f
    using assms(2) [of k] task_tableD(4) [OF assms(1), of k] by (fastforce simp: reachable_db_def)
  have d1: "tasks d1 ?u = Some (set_status RS_RUNNING t)"
    using task_tableD(4) [OF assms(1) assms(5)] assms(4) by simp
  obtain ts where "jd_find_task (J 0) d1 ?u = Inr ts" using assms(2) [of 0] unfolding reachable_db_def by blast
  with task_tableD(2) [OF assms(1) this] d1
  have find: "jd_find_task (J 0) d1 ?u = Inr [set_status RS_RUNNING t]" by simp
  have fail: "tasks (report_failure (\<lambda>k. J (Suc k)) ?u err 0 60 e) ?u = Some (set_result RS_FAILED err x)"
    if "tasks e ?u = Some x" for err e x
  proof -
    obtain d' where "jd_update_task (J (Suc 0)) e ?u (set_result RS_FAILED err) = Inr d'"
      "tasks d' = set_task ?u (set_result RS_FAILED err) (tasks e)" using upd by blast
    with that have "tasks (report_failure (\<lambda>k. J (Suc k)) ?u err 0 (Suc n) e) ?u = Some (set_result RS_FAILED err x)" for n
      by simp
    from this [of 59] show ?thesis by simp
  qed
  show ?thesis
  proof (cases "worker_config A cap t")
    case (Inl e)
    have "worker_job (J 0) A cap run d = (d1, Inl e)"
      by (simp add: worker_job_def Let_def assms(5) find nth_item_def Inl)
    then show ?thesis using fail [OF d1] Inl by (simp add: worker_main_def set_result_def)
  next
    case (Inr C)
    obtain d2 r where r: "run (app_kind_of t) C d1 = (d2, r)" by (metis prod.exhaust)
    have d2: "tasks d2 ?u = Some (set_status RS_RUNNING t)" using assms(3) [of "app_kind_of t" C d1] d1 by (simp add: r)
    show ?thesis
    proof (cases r)
      case (Inl e)
      have "worker_job (J 0) A cap run d = (d2, Inl e)"
        by (simp add: worker_job_def Let_def assms(5) find nth_item_def Inr r Inl)
      then show ?thesis using fail [OF d2] Inr Inl by (simp add: worker_main_def set_result_def r)
    next
      case completed: (Inr b)
      define f where "f = (if b then set_result RS_COMPLETED '''' else set_result RS_FAILED ''stream ended'')"
      obtain d3 where d3: "jd_update_task (J 0) d2 ?u f = Inr d3" "tasks d3 = set_task ?u f (tasks d2)" using upd by blast
      have "worker_job (J 0) A cap run d = (d3, Inr ())"
        using d3(1) by (simp add: worker_job_def Let_def assms(5) find nth_item_def Inr r completed f_def)
      then have "tasks (fst (worker_main J text_of A cap run logs_up d)) ?u = Some (f (set_status RS_RUNNING t))"
        using d3(2) d2 by (simp add: worker_main_def)
      then show ?thesis using Inr completed by (simp add: r f_def set_result_def)
    qed
  qed
qed

subsection \<open>Requests that cannot work\<close>

text \<open>The API accepts requests that every worker fails on: without the classes to track no configuration can be made, with \<open>skip_frames\<close> of -1 the constructor divides by zero, and with a play list and a duration of 0 so does the first report.\<close>

theorem accepted_requests_can_fail:
  assumes "check_request q = Inr ()" "t = indb_request u q"
  shows "(tq_tracking_classes q = None \<longrightarrow> (\<exists>e. worker_config A cap t = Inl e)) \<and>
    (\<forall>C. worker_config A cap t = Inr C \<longrightarrow> tq_skip_frames q = Some (- 1) \<longrightarrow>
       new_vehicle_app C now db = Inl ZeroDivisionError) \<and>
    (\<forall>C. worker_config A cap t = Inr C \<longrightarrow> app_kind_of t = OfflineApp \<longrightarrow> tq_job_duration q = 0 \<longrightarrow>
       report_counting D C ts s = Inl ZeroDivisionError)"
  using assms(2)
  by (auto simp: worker_config_def Let_def bindE_eq_Inr bindE_def indb_request_def tracking_request.defs
      new_vehicle_app_def report_counting_def app_kind_of_def split: sum.splits option.splits if_splits)

subsection \<open>Counts that a client reads\<close>

text \<open>The collection of reports.\<close>

definition count_table ::
    "'d jobs_db \<Rightarrow> ('d, 'p) vehicle_store \<Rightarrow> ('d \<Rightarrow> count_report list) \<Rightarrow> bool" where
  "count_table J D reports \<longleftrightarrow>
     (\<forall>d r d'. vd_insert_count D d r = Inr d' \<longrightarrow> reports d' = reports d @ [r]) \<and>
     (\<forall>d u rs. jd_last_count J d u = Inr rs \<longrightarrow>
        (if \<exists>r \<in> set (reports d). cr_video_uuid r = u
         then \<exists>r \<in> set (reports d). rs = [r] \<and> cr_video_uuid r = u \<and>
           (\<forall>x \<in> set (reports d). cr_video_uuid x = u \<longrightarrow> cr_timestamp x \<le> cr_timestamp r) else rs = []))"

definition answered_counts :: "count_result \<Rightarrow> (string \<times> int) list list" where
  "answered_counts r = map (\<lambda>p. map (\<lambda>c. (cc_class_name c, cc_count c)) (cp_counts p)) (ct_counts r)"

lemma answered_tracking_result: "answered_counts (tracking_result r) = cr_counts r"
proof -
  have "map (\<lambda>(i, d). d) (enumerate n xs) = xs" for n and xs :: "(string, int) dict list"
    by (induction xs arbitrary: n) simp_all
  moreover have "map (\<lambda>c. (cc_class_name c, cc_count c)) (per_class d) = d" for d
    by (induction d) (auto simp: per_class_def)
  ultimately show ?thesis
    by (simp add: answered_counts_def tracking_result_def comp_def case_prod_beta')
qed

text \<open>C40: What a worker reports is what the API answers: after a report that is later than the reports before it, a request for the latest counts of the video returns exactly one result, with the time of the report in seconds, one entry for every region in order, and for every class the value of the worker's counter.\<close>

theorem reported_counts_are_answered:
  assumes "count_table J D reports" "report_counting D C ts s = Inr s'" "ja_db a = va_db s'"
    and "\<forall>r \<in> set (reports (va_db s)). cr_video_uuid r = vc_video_uuid C \<longrightarrow> cr_timestamp r < ts"
    and "get_counts J (vc_video_uuid C) 0 a = Inr rs"
  shows "\<exists>r. rs = [r] \<and> ct_timestamp r = ts / 1000 \<and> answered_counts r = va_class_count_dicts s \<and>
    map cp_roi_idx (ct_counts r) = [0..<length (va_class_count_dicts s)]"
proof -
  obtain r where r: "reports (va_db s') = reports (va_db s) @ [r]" "cr_video_uuid r = vc_video_uuid C"
    "cr_timestamp r = ts" "cr_counts r = va_class_count_dicts s"
    using assms(1,2) by (auto simp: report_counting_def store_write_def bindE_eq_Inr count_table_def split: if_splits)
  obtain xs where xs: "jd_last_count J (va_db s') (vc_video_uuid C) = Inr xs" "rs = map tracking_result xs"
    using assms(3,5) by (auto simp: get_counts_def bindE_eq_Inr)
  have "\<exists>x \<in> set (reports (va_db s')). cr_video_uuid x = vc_video_uuid C" using r by simp
  moreover have "if \<exists>r \<in> set (reports (va_db s')). cr_video_uuid r = vc_video_uuid C
      then \<exists>r \<in> set (reports (va_db s')). xs = [r] \<and> cr_video_uuid r = vc_video_uuid C \<and>
        (\<forall>x \<in> set (reports (va_db s')). cr_video_uuid x = vc_video_uuid C \<longrightarrow> cr_timestamp x \<le> cr_timestamp r)
      else xs = []"
    using assms(1) xs(1) unfolding count_table_def by blast
  ultimately have "\<exists>r \<in> set (reports (va_db s')). xs = [r] \<and> cr_video_uuid r = vc_video_uuid C \<and>
      (\<forall>x \<in> set (reports (va_db s')). cr_video_uuid x = vc_video_uuid C \<longrightarrow> cr_timestamp x \<le> cr_timestamp r)"
    by (simp only: if_True)
  then obtain x where x: "x \<in> set (reports (va_db s'))" "xs = [x]" "cr_video_uuid x = vc_video_uuid C"
    "\<forall>y \<in> set (reports (va_db s')). cr_video_uuid y = vc_video_uuid C \<longrightarrow> cr_timestamp y \<le> cr_timestamp x"
    by blast
  have "x = r" using x r assms(4) by (auto simp: not_less [symmetric])
  with x(2) xs(2) r show ?thesis
    by (simp add: answered_tracking_result) (simp add: tracking_result_def comp_def case_prod_beta')
qed

subsection \<open>Concrete instances\<close>

text \<open>A database of two tables, and a job on it.\<close>

type_synonym tables = "(string, video_task) dict \<times> count_report list"

fun latest :: "count_report list \<Rightarrow> count_report list" where
  "latest [] = []"
| "latest (r # rs) = (case latest rs of [] \<Rightarrow> [r] | x # _ \<Rightarrow> if cr_timestamp x \<le> cr_timestamp r then [r] else [x])"

definition sample_jobs :: "tables jobs_db" where
  "sample_jobs =
     \<lparr>jd_insert_task = (\<lambda>(T, R) t. Inr (AList.update (vt_video_uuid t) t T, R)),
      jd_find_task = (\<lambda>(T, R) u. Inr (case map_of T u of None \<Rightarrow> [] | Some t \<Rightarrow> [t])),
      jd_find_status = (\<lambda>(T, R) st. Inr (map fst (filter (\<lambda>(u, t). map_of T u = Some t \<and> vt_status t = st) T))),
      jd_update_task = (\<lambda>(T, R) u f. Inr (case map_of T u of None \<Rightarrow> T | Some t \<Rightarrow> AList.update u (f t) T, R)),
      jd_counts_after = (\<lambda>(T, R) u ts. Inr []),
      jd_last_count = (\<lambda>(T, R) u. Inr (latest (filter (\<lambda>r. cr_video_uuid r = u) R))),
      jd_log_after = (\<lambda>d u ts. Inr [])\<rparr>"

definition sample_reports :: "(tables, int) vehicle_store" where
  "sample_reports = \<lparr>vd_insert_count = (\<lambda>(T, R) r. Inr (T, R @ [r])), vd_insert_log = (\<lambda>d _. Inr d),
     vd_upload_frame = (\<lambda>d _ _. Inr d), vd_upload_logs = (\<lambda>d _ _. Inr d)\<rparr>"

lemma sample_jobs_table: "task_table sample_jobs (\<lambda>d. map_of (fst d))"
  unfolding task_table_def
proof (intro conjI allI impI)
  fix d :: tables and st us
  assume "jd_find_status sample_jobs d st = Inr us"
  then show "set us = {u. \<exists>t. map_of (fst d) u = Some t \<and> vt_status t = st}"
    by (cases d) (force simp: sample_jobs_def dest: map_of_SomeD)
qed (auto simp: sample_jobs_def set_task_def update_conv' split: option.splits prod.splits)

lemma sample_jobs_reachable: "reachable_db sample_jobs"
  by (auto simp: reachable_db_def sample_jobs_def)

lemma latest_max:
  "rs \<noteq> [] \<Longrightarrow> \<exists>r \<in> set rs. latest rs = [r] \<and> (\<forall>x \<in> set rs. cr_timestamp x \<le> cr_timestamp r)"
  by (induction rs rule: latest.induct) (fastforce split: list.splits)+

lemma sample_count_table: "count_table sample_jobs sample_reports snd"
  unfolding count_table_def
proof (intro conjI allI impI)
  fix d :: tables and u rs
  assume "jd_last_count sample_jobs d u = Inr rs"
  then have rs: "rs = latest (filter (\<lambda>r. cr_video_uuid r = u) (snd d))"
    by (cases d) (simp add: sample_jobs_def)
  show "if \<exists>r \<in> set (snd d). cr_video_uuid r = u
      then \<exists>r \<in> set (snd d). rs = [r] \<and> cr_video_uuid r = u \<and>
        (\<forall>x \<in> set (snd d). cr_video_uuid x = u \<longrightarrow> cr_timestamp x \<le> cr_timestamp r) else rs = []"
    using latest_max [of "filter (\<lambda>r. cr_video_uuid r = u) (snd d)"]
    by (cases "\<exists>r \<in> set (snd d). cr_video_uuid r = u") (auto simp: rs filter_empty_conv)
qed (auto simp: sample_reports_def split: prod.splits)

definition sample_task :: "request_status \<Rightarrow> video_task" where
  "sample_task st = \<lparr>tq_video_url = ''http://s/v.m3u8'',
     tq_regions = [\<lparr>tg_roi = [(0, 0), (1, 0), (1, 1)], tg_line = ((0, 1 / 2), (1, 1 / 2))\<rparr>],
     tq_skip_frames = None, tq_tracking_classes = Some [''car''], tq_count_interval_secs = None, tq_debug = None,
     tq_job_duration = 60, vt_video_uuid = ''v'', vt_status = st, vt_error = None\<rparr>"

definition sample_job_args :: job_args where
  "sample_job_args = \<lparr>jg_worker_container = ''w'', jg_use_external_storage = True\<rparr>"

definition sample_api :: "request_status \<Rightarrow> tables job_api" where
  "sample_api st = \<lparr>ja_db = ([(''v'', sample_task st)], []), ja_commands = []\<rparr>"

theorem api_keeps_terminal_status_witness:
  "status_of (map_of (fst (ja_db (serve sample_jobs sample_job_args (TerminateJob ''v'') (sample_api RS_COMPLETED))))) ''v'' =
    Some RS_COMPLETED"
proof -
  have "(api_step sample_jobs sample_job_args (\<lambda>d. map_of (fst d)))\<^sup>*\<^sup>* (sample_api RS_COMPLETED)
      (serve sample_jobs sample_job_args (TerminateJob ''v'') (sample_api RS_COMPLETED))"
    by (rule r_into_rtranclp, rule api_step.intros) simp
  from api_keeps_terminal_status [OF sample_jobs_table this, of "''v''" RS_COMPLETED] show ?thesis
    by (simp add: sample_api_def sample_task_def status_of_def terminal_def)
qed

theorem clean_cluster_stops_all_witness:
  "status_of (map_of (fst (ja_db (fst (clean_cluster sample_jobs (sample_api RS_RUNNING)))))) ''v'' = Some RS_STOPPED"
proof -
  have "snd (clean_cluster sample_jobs (sample_api RS_RUNNING)) = Inr ()"
    by (simp add: clean_cluster_def stop_with_status_def db_read_def db_write_def sample_jobs_def sample_api_def
        sample_task_def set_status_def)
  then obtain s' where s': "clean_cluster sample_jobs (sample_api RS_RUNNING) = (s', Inr ())"
    by (metis prod.collapse)
  have "status_of (map_of (fst (ja_db (sample_api RS_RUNNING)))) ''v'' = Some RS_RUNNING"
    by (simp add: sample_api_def sample_task_def status_of_def)
  with clean_cluster_stops_all [OF sample_jobs_table s', of "''v''"] show ?thesis by (simp add: s')
qed

definition sample_worker_args :: worker_args where
  "sample_worker_args = \<lparr>wa_video_uuid = ''v'', wa_detector_uuid = ''d'', wa_tracker_uuid = ''t'', wa_debug = False,
     wa_storage_usage_percentage_thresh = 80, wa_inference_retries = 90\<rparr>"

definition sample_capture :: capture where
  "sample_capture = \<lparr>cv_width = 100, cv_height = 100, cv_fps = 25, cv_frame_count = 0\<rparr>"

text \<open>A job that was stopped before its worker started ends as completed.\<close>

theorem worker_decides_status_witness:
  "\<exists>t'. map_of (fst (fst (worker_main (\<lambda>_. sample_jobs) (\<lambda>_. ''error'') sample_worker_args sample_capture
      (\<lambda>k C d. (d, Inr True)) (Inr ()) (ja_db (sample_api RS_STOPPED))))) ''v'' = Some t' \<and>
    vt_status t' = RS_COMPLETED"
proof -
  have "sublist ''.m3u8'' ''http://s/v.m3u8''" by code_simp
  then have "app_kind_of (sample_task RS_STOPPED) = OfflineApp" by (simp add: app_kind_of_def sample_task_def)
  then have "\<exists>C. worker_config sample_worker_args sample_capture (sample_task RS_STOPPED) = Inr C"
    by (simp add: worker_config_def Let_def) (simp add: sample_task_def)
  then obtain C where C: "worker_config sample_worker_args sample_capture (sample_task RS_STOPPED) = Inr C" ..
  have "\<exists>d1. jd_update_task sample_jobs (ja_db (sample_api RS_STOPPED)) ''v'' (set_status RS_RUNNING) = Inr d1"
    by (simp add: sample_jobs_def sample_api_def)
  then obtain d1 where d1: "jd_update_task sample_jobs (ja_db (sample_api RS_STOPPED)) (wa_video_uuid sample_worker_args)
      (set_status RS_RUNNING) = Inr d1" by (auto simp: sample_worker_args_def)
  from worker_decides_status [where J = "\<lambda>_. sample_jobs", OF sample_jobs_table sample_jobs_reachable _ _ d1,
      of "\<lambda>k C d. (d, Inr True)" "sample_task RS_STOPPED" "\<lambda>_. ''error''" sample_capture "Inr ()"]
  show ?thesis by (simp add: C) (auto simp: sample_api_def sample_worker_args_def)
qed

definition sample_request :: tracking_request where
  "sample_request = \<lparr>tq_video_url = [], tq_regions = [\<lparr>tg_roi = [], tg_line = ((0, 1 / 2), (1, 1 / 2))\<rparr>],
     tq_skip_frames = None, tq_tracking_classes = None, tq_count_interval_secs = None, tq_debug = None,
     tq_job_duration = 60\<rparr>"

theorem accepted_requests_can_fail_witness:
  "check_request sample_request = Inr () \<and>
   (\<exists>e. worker_config sample_worker_args sample_capture (indb_request [] sample_request) = Inl e)"
proof -
  have ok: "check_request sample_request = Inr ()" by (simp add: check_request_def sample_request_def)
  have "tq_tracking_classes sample_request = None" by (simp add: sample_request_def)
  with conjunct1 [OF accepted_requests_can_fail [OF ok refl, where A = sample_worker_args and cap = sample_capture]] ok
  show ?thesis by blast
qed

theorem reported_counts_are_answered_witness:
  "\<exists>r. get_counts sample_jobs ''v'' 0 \<lparr>ja_db = ([], [\<lparr>cr_video_uuid = ''v'', cr_timestamp = 500,
      cr_counts = [[(''car'', 3)]], cr_completed_percent = 5 / 6, cr_starting_utc_ts = 5, cr_ending_utc_ts = 11 / 2\<rparr>]),
      ja_commands = []\<rparr> = Inr [r] \<and> answered_counts r = [[(''car'', 3)]]"
proof -
  define s :: "(tables, int) vehicle_app" where
    "s = \<lparr>va_track_dict = [], va_track_count = 0,
     va_class_count_dicts = [[(''car'', 3)]], va_total_extracted_frames = 0,
     va_total_processed_frames = 0, va_job_completed = False, va_video_ended = False,
     va_decoder_stopped = False, va_to_exit_threads = False, va_video_frames = [],
     va_video_frame_timestamps = [], va_downloaded_videos = [], va_logs = [], va_log_id = 0,
     va_starting_utc_ts = 5, va_round = 0, va_db = ([], [])\<rparr>"
  let ?r = "\<lparr>cr_video_uuid = ''v'', cr_timestamp = 500, cr_counts = [[(''car'', 3)]],
    cr_completed_percent = 5 / 6, cr_starting_utc_ts = 5, cr_ending_utc_ts = 11 / 2\<rparr>"
  let ?a = "\<lparr>ja_db = ([], [?r]), ja_commands = []\<rparr> :: tables job_api"
  have rep: "report_counting sample_reports sample_config 500 s = Inr (s\<lparr>va_db := ([], [?r])\<rparr>)"
    by (simp add: report_counting_def store_write_def sample_reports_def s_def sample_config_def min_def)
  have get: "get_counts sample_jobs (vc_video_uuid sample_config) 0 ?a = Inr (map tracking_result [?r])"
    by (simp add: get_counts_def sample_jobs_def sample_config_def)
  have "\<exists>r. map tracking_result [?r] = [r] \<and> ct_timestamp r = 500 / 1000 \<and>
      answered_counts r = va_class_count_dicts s \<and> map cp_roi_idx (ct_counts r) = [0..<length (va_class_count_dicts s)]"
    by (rule reported_counts_are_answered [OF sample_count_table rep _ _ get]) (simp_all add: s_def)
  with get show ?thesis by (simp add: s_def sample_config_def)
qed

text \<open>A track on one side of the line, then on the other.\<close>

definition sample_track :: "int track" where
  "sample_track = \<lparr>nt_id = 1, nt_class_name = ''car'', nt_is_active = True, nt_is_counted = False,
     nt_start_frame_idx = 0, nt_last_frame_idx = 0, nt_templates = [sample_frame], nt_dets = [],
     nt_track = map (\<lambda>i. sample_box 10 i) [0, 5, 8, 12, 15, 20], nt_track_scores = replicate 6 1, nt_roi_idx = 0\<rparr>"

definition sample_counting :: "(nat, int) vehicle_app" where
  "sample_counting = sample_app\<lparr>va_track_count := 1, va_track_dict := [(1, sample_track)]\<rparr>"

theorem window_counts_exactly_witness:
  "\<exists>s' drawn. count_window sample_config 2 sample_counting = Inr (s', drawn) \<and>
    counted_tracks (va_track_dict s') \<le> 2 \<and>
    tally (va_class_count_dicts s') 0 ''car'' = counted_of (va_track_dict s') 0 ''car''"
proof -
  have "app_ok sample_config sample_counting"
    using new_vehicle_app_ok [OF sample_app_new]
    by (auto simp: app_ok_def sample_counting_def tracks_ok_def track_ok_def sample_track_def sample_config_def
        sample_app_def dict_ok_def)
  from window_counts_exactly [OF this sample_config_ok, of 2] obtain s' drawn where
    1: "count_window sample_config 2 sample_counting = Inr (s', drawn)"
    "tally (va_class_count_dicts s') 0 ''car'' - tally (va_class_count_dicts sample_counting) 0 ''car'' =
      counted_of (va_track_dict s') 0 ''car'' - counted_of (va_track_dict sample_counting) 0 ''car''"
    "counted_tracks (va_track_dict s') \<le> counted_tracks (va_track_dict sample_counting) + int 2" by blast
  have "tally (va_class_count_dicts sample_counting) 0 ''car'' = 0"
    "counted_of (va_track_dict sample_counting) 0 ''car'' = 0" "counted_tracks (va_track_dict sample_counting) = 0"
    by (simp_all add: sample_counting_def sample_app_def zero_counts_def sample_config_def tally_def counted_of_def
        counted_tracks_def sample_track_def dget_def)
  with 1 show ?thesis by auto
qed

end
