(* ===== verification/Nxs_Vehicle_Detector.thy ===== *)
theory Nxs_Vehicle_Detector
  imports Nxs_Vehicle_Utils
begin

section \<open>Vehicle counting: the functions of the detector (\<open>apps/vehicle_counting/models/\<close>)\<close>

text \<open>
  The pre- and the postprocessing function that are registered with the detector: a frame is
  shrunk into the input of the model, and the rows of the model's output become detections.
  \<open>cv2.resize\<close>, \<open>np.exp\<close> and \<open>np.argsort\<close>, whose order of equal scores is not fixed, are
  parameters; colours, axes and the float types of numpy are left out.
\<close>

subsection \<open>\<open>preprocessing/nxs-yolox-preproc.py\<close>\<close>

record 'p letterbox =
  lb_image :: "'p image"
  lb_ratio :: rat
  lb_original_width :: nat
  lb_original_height :: nat

text \<open>\<open>preproc\<close> for an input of \<open>h\<close> rows and \<open>w\<close> columns; \<open>grey\<close> is the value 114.\<close>

definition fit_ratio :: "nat \<Rightarrow> nat \<Rightarrow> 'p image \<Rightarrow> rat" where
  "fit_ratio h w img = min (of_nat h / of_nat (length img)) (of_nat w / of_nat (im_cols img))"

definition fitted :: "rat \<Rightarrow> nat \<Rightarrow> nat" where
  "fitted r n = nat (py_int (of_nat n * r))"

definition preproc ::
    "('p image \<Rightarrow> nat \<Rightarrow> nat \<Rightarrow> 'p image result) \<Rightarrow> 'p \<Rightarrow> nat \<Rightarrow> nat \<Rightarrow> 'p image \<Rightarrow> ('p image \<times> rat) result" where
  "preproc resize grey h w img =
     (if length img = 0 \<or> im_cols img = 0 then Inl ZeroDivisionError
      else let r = fit_ratio h w img; rows = fitted r (length img); cols = fitted r (im_cols img)
           in bindE (resize img cols rows) (\<lambda>small.
                Inr (tabulate h w (\<lambda>i j. if i < rows \<and> j < cols then pixel small i j else grey), r)))"

definition yolox_preprocessing ::
    "('p image \<Rightarrow> nat \<Rightarrow> nat \<Rightarrow> 'p image result) \<Rightarrow> 'p \<Rightarrow> nat \<Rightarrow> nat \<Rightarrow> 'p image \<Rightarrow> 'p letterbox result" where
  "yolox_preprocessing resize grey h w img =
     bindE (preproc resize grey h w img) (\<lambda>(small, r).
       Inr \<lparr>lb_image = small, lb_ratio = r, lb_original_width = im_cols img, lb_original_height = length img\<rparr>)"

subsection \<open>\<open>postprocessing/nxs-yolox-postproc.py\<close>: decoding\<close>

text \<open>A row of the output of the model.\<close>

record yolox_row =
  yr_x :: rat
  yr_y :: rat
  yr_w :: rat
  yr_h :: rat
  yr_object :: rat
  yr_classes :: "rat list"

definition yolox_strides :: "bool \<Rightarrow> nat list" where
  "yolox_strides p6 = (if p6 then [8, 16, 32, 64] else [8, 16, 32])"

text \<open>The cells of the grids, row by row: column, row and stride.\<close>

definition grid_cells :: "nat \<Rightarrow> nat \<Rightarrow> bool \<Rightarrow> (nat \<times> nat \<times> nat) list" where
  "grid_cells h w p6 =
     concat (map (\<lambda>s. concat (map (\<lambda>y. map (\<lambda>x. (x, y, s)) [0..<w div s]) [0..<h div s])) (yolox_strides p6))"

definition decode_row :: "(rat \<Rightarrow> rat) \<Rightarrow> yolox_row \<Rightarrow> nat \<times> nat \<times> nat \<Rightarrow> yolox_row" where
  "decode_row ex r = (\<lambda>(x, y, s).
     r\<lparr>yr_x := (yr_x r + of_nat x) * of_nat s, yr_y := (yr_y r + of_nat y) * of_nat s,
       yr_w := ex (yr_w r) * of_nat s, yr_h := ex (yr_h r) * of_nat s\<rparr>)"

text \<open>A grid of one cell is broadcast to all rows; otherwise the numbers have to agree.\<close>

definition yolox_postprocess ::
    "(rat \<Rightarrow> rat) \<Rightarrow> yolox_row list \<Rightarrow> nat \<Rightarrow> nat \<Rightarrow> bool \<Rightarrow> yolox_row list result" where
  "yolox_postprocess ex rows h w p6 =
     (let cells = grid_cells h w p6;
          cells = (if length cells = 1 then replicate (length rows) (hd cells) else cells)
      in if length rows \<noteq> length cells then Inl ValueError
         else Inr (map2 (decode_row ex) rows cells))"

subsection \<open>Suppressing overlapping boxes\<close>

record fbox =
  fb_x1 :: rat
  fb_y1 :: rat
  fb_x2 :: rat
  fb_y2 :: rat

definition fbox_area :: "fbox \<Rightarrow> rat" where
  "fbox_area b = (fb_x2 b - fb_x1 b + 1) * (fb_y2 b - fb_y1 b + 1)"

definition fbox_inter :: "fbox \<Rightarrow> fbox \<Rightarrow> rat" where
  "fbox_inter a b =
     max 0 (min (fb_x2 a) (fb_x2 b) - max (fb_x1 a) (fb_x1 b) + 1) *
     max 0 (min (fb_y2 a) (fb_y2 b) - max (fb_y1 a) (fb_y1 b) + 1)"

text \<open>\<open>ovr <= nms_thr\<close>; a division by zero gives \<open>inf\<close> or \<open>nan\<close> in numpy, which are not below it.\<close>

definition apart :: "rat \<Rightarrow> fbox \<Rightarrow> fbox \<Rightarrow> bool" where
  "apart thr a b =
     (let i = fbox_inter a b; u = fbox_area a + fbox_area b - i in u \<noteq> 0 \<and> i / u \<le> thr)"

fun nms_loop :: "rat \<Rightarrow> fbox list \<Rightarrow> nat list \<Rightarrow> nat list" where
  "nms_loop thr boxes [] = []"
| "nms_loop thr boxes (i # order) =
     i # nms_loop thr boxes (filter (\<lambda>j. apart thr (boxes ! i) (boxes ! j)) order)"

text \<open>\<open>asc\<close> is \<open>np.argsort\<close>: the indices in ascending order of the scores.\<close>

definition nms :: "(rat list \<Rightarrow> nat list) \<Rightarrow> fbox list \<Rightarrow> rat list \<Rightarrow> rat \<Rightarrow> nat list" where
  "nms asc boxes scores thr = nms_loop thr boxes (rev (asc scores))"

text \<open>The first index of the largest element.\<close>

fun argmax :: "rat list \<Rightarrow> nat" where
  "argmax [] = 0"
| "argmax (x # xs) = (if list_all (\<lambda>y. y \<le> x) xs then 0 else Suc (argmax xs))"

text \<open>A box, the score of its best class, and the index of that class.\<close>

type_synonym scored_box = "fbox \<times> rat \<times> nat"

definition kept_boxes :: "(rat list \<Rightarrow> nat list) \<Rightarrow> rat \<Rightarrow> scored_box list \<Rightarrow> scored_box list" where
  "kept_boxes asc thr cands =
     map (\<lambda>i. cands ! i) (nms asc (map fst cands) (map (fst \<circ> snd) cands) thr)"

definition multiclass_nms_class_agnostic ::
    "(rat list \<Rightarrow> nat list) \<Rightarrow> fbox list \<Rightarrow> rat list list \<Rightarrow> rat \<Rightarrow> rat \<Rightarrow> scored_box list option result" where
  "multiclass_nms_class_agnostic asc boxes scores thr score_thr =
     (if [] \<in> set scores then Inl ValueError
      else let valid = filter (\<lambda>(_, s, _). s > score_thr)
             (map2 (\<lambda>b row. (b, row ! argmax row, argmax row)) boxes scores)
           in Inr (if valid = [] then None else Some (kept_boxes asc thr valid)))"

definition multiclass_nms_class_aware ::
    "(rat list \<Rightarrow> nat list) \<Rightarrow> nat \<Rightarrow> fbox list \<Rightarrow> rat list list \<Rightarrow> rat \<Rightarrow> rat \<Rightarrow> scored_box list option" where
  "multiclass_nms_class_aware asc num_classes boxes scores thr score_thr =
     (let dets = concat (map (\<lambda>c. kept_boxes asc thr (filter (\<lambda>(_, s, _). s > score_thr)
            (map2 (\<lambda>b row. (b, row ! c, c)) boxes scores))) [0..<num_classes])
      in if dets = [] then None else Some dets)"

text \<open>The number of classes is that of the first row; every row has the same.\<close>

definition multiclass_nms ::
    "(rat list \<Rightarrow> nat list) \<Rightarrow> fbox list \<Rightarrow> rat list list \<Rightarrow> rat \<Rightarrow> rat \<Rightarrow> bool \<Rightarrow> scored_box list option result" where
  "multiclass_nms asc boxes scores thr score_thr class_agnostic =
     (if class_agnostic then multiclass_nms_class_agnostic asc boxes scores thr score_thr
      else Inr (multiclass_nms_class_aware asc (case scores of [] \<Rightarrow> 0 | row # _ \<Rightarrow> length row)
        boxes scores thr score_thr))"

subsection \<open>The detections\<close>

record yolox_params =
  yp_with_p6 :: bool
  yp_score_thresh :: rat
  yp_nms_thresh :: rat

definition default_yolox_params :: yolox_params where
  "default_yolox_params = \<lparr>yp_with_p6 = False, yp_score_thresh = 1 / 4, yp_nms_thresh = 45 / 100\<rparr>"

definition class_scores :: "yolox_row \<Rightarrow> rat list" where
  "class_scores r = map (\<lambda>c. yr_object r * c) (yr_classes r)"

text \<open>\<open>boxes_xyxy\<close>; the ratio of the preprocessing is positive.\<close>

definition row_box :: "rat \<Rightarrow> yolox_row \<Rightarrow> fbox" where
  "row_box ratio r =
     \<lparr>fb_x1 = (yr_x r - yr_w r / 2) / ratio, fb_y1 = (yr_y r - yr_h r / 2) / ratio,
      fb_x2 = (yr_x r + yr_w r / 2) / ratio, fb_y2 = (yr_y r + yr_h r / 2) / ratio\<rparr>"

definition int_box :: "fbox \<Rightarrow> bbox" where
  "int_box b = \<lparr>bb_left = py_int (fb_x1 b), bb_top = py_int (fb_y1 b),
     bb_right = py_int (fb_x2 b), bb_bottom = py_int (fb_y2 b)\<rparr>"

definition class_name_of :: "string list \<Rightarrow> nat \<Rightarrow> string" where
  "class_name_of classes i = (if length classes > i then classes ! i else ''class_'' @ string_of_nat i)"

text \<open>A detection as the postprocessing functions return it, with its box relative to the frame.\<close>

record found = detection +
  fd_rel_bbox :: fbox

definition rel_box :: "nat \<Rightarrow> nat \<Rightarrow> bbox \<Rightarrow> fbox result" where
  "rel_box img_w img_h b =
     (if img_w = 0 \<or> img_h = 0 then Inl ZeroDivisionError
      else Inr \<lparr>fb_x1 = of_int (bb_left b) / of_nat img_w, fb_y1 = of_int (bb_top b) / of_nat img_h,
                fb_x2 = of_int (bb_right b) / of_nat img_w, fb_y2 = of_int (bb_bottom b) / of_nat img_h\<rparr>)"

definition yolox_detection :: "string list \<Rightarrow> nat \<Rightarrow> nat \<Rightarrow> scored_box \<Rightarrow> found result" where
  "yolox_detection classes img_w img_h = (\<lambda>(b, s, c).
     bindE (rel_box img_w img_h (int_box b)) (\<lambda>rel.
       Inr \<lparr>de_class_name = class_name_of classes c, de_class_id = int c, de_score = s,
            de_bbox = int_box b, fd_rel_bbox = rel\<rparr>))"

definition yolox_postprocessing ::
    "(rat \<Rightarrow> rat) \<Rightarrow> (rat list \<Rightarrow> nat list) \<Rightarrow> yolox_params \<Rightarrow> nat \<Rightarrow> nat \<Rightarrow> string list \<Rightarrow> 'p letterbox \<Rightarrow>
       yolox_row list \<Rightarrow> found list result" where
  "yolox_postprocessing ex asc P h w classes M rows =
     bindE (yolox_postprocess ex rows h w (yp_with_p6 P)) (\<lambda>rows.
     bindE (multiclass_nms asc (map (row_box (lb_ratio M)) rows) (map class_scores rows)
       (yp_nms_thresh P) (yp_score_thresh P) True) (\<lambda>dets.
       mapE (yolox_detection classes (lb_original_width M) (lb_original_height M))
         (filter (\<lambda>(_, s, _). \<not> s < yp_score_thresh P) (case dets of None \<Rightarrow> [] | Some ds \<Rightarrow> ds))))"

end
