(* ===== verification/Nxs_Vehicle_Tracker.thy ===== *)
theory Nxs_Vehicle_Tracker
  imports Nxs_Vehicle_Detector
begin

section \<open>Vehicle counting: the functions of the tracker (\<open>apps/vehicle_counting/models/\<close>)\<close>

text \<open>
  The pre- and the postprocessing function that are registered with the tracker, from the files
  \<open>siammask_tracker_nostate_preproc.py\<close> and \<open>..._postproc.py\<close>: the surroundings of the previous
  box are cut out of a frame, and the best of the boxes that the model proposes there becomes the
  new one. Roots, exponentials and the Hann window belong to numpy and are parameters; the
  float types of numpy are left out. Quotients by zero, infinities in numpy, are not
  followed: the properties are about boxes with a positive width and height.
\<close>

record siam_math =
  sm_sqrt :: "rat \<Rightarrow> rat"
  sm_exp :: "rat \<Rightarrow> rat"
  sm_hanning :: "nat \<Rightarrow> rat list"

subsection \<open>\<open>Config\<close>\<close>

definition search_size :: nat where "search_size = 255"
definition exemplar_size :: nat where "exemplar_size = 127"
definition siam_stride :: nat where "siam_stride = 8"
definition score_size :: nat where "score_size = (search_size - exemplar_size) div siam_stride + 8 + 1"
definition penalty_k :: rat where "penalty_k = 4 / 100"
definition window_influence :: rat where "window_influence = 4 / 10"
definition siam_lr :: rat where "siam_lr = 1"
definition context_amount :: rat where "context_amount = 1 / 2"
definition anchor_ratios :: "rat list" where "anchor_ratios = [33 / 100, 1 / 2, 1, 2, 3]"
definition anchor_scales :: "int list" where "anchor_scales = [8]"

subsection \<open>Anchors\<close>

text \<open>An anchor, and a proposal of the model, in the form centre, width and height.\<close>

record cbox =
  cb_x :: rat
  cb_y :: rat
  cb_w :: rat
  cb_h :: rat

text \<open>\<open>generate_anchors\<close>: the corners \<open>x1, y1, x2, y2\<close>.\<close>

definition anchor_corners :: "rat \<Rightarrow> int \<Rightarrow> rat \<times> rat \<times> rat \<times> rat" where
  "anchor_corners r s =
     (let area = siam_stride * siam_stride; ws = int (isqrt (nat \<lfloor>of_nat area / r\<rfloor>));
          hs = py_int (of_int ws * r); w = of_int (ws * s) / 2; h = of_int (hs * s) / 2
      in (- w, - h, w, h))"

definition generate_anchors :: "(rat \<times> rat \<times> rat \<times> rat) list" where
  "generate_anchors = concat (map (\<lambda>r. map (anchor_corners r) anchor_scales) anchor_ratios)"

text \<open>\<open>prepare_anchors\<close>: every shape at every place of the score map, shape by shape.\<close>

definition grid_offset :: "nat \<Rightarrow> rat" where
  "grid_offset i = of_int (- int (score_size div 2) * int siam_stride + int (siam_stride * i))"

definition prepare_anchors :: "(rat \<times> rat \<times> rat \<times> rat) list \<Rightarrow> cbox list" where
  "prepare_anchors corners =
     concat (map (\<lambda>(x1, y1, x2, y2). concat (map (\<lambda>i. map (\<lambda>j.
       \<lparr>cb_x = grid_offset j, cb_y = grid_offset i, cb_w = x2 - x1, cb_h = y2 - y1\<rparr>)
       [0..<score_size]) [0..<score_size])) corners)"

definition init_anchors :: "cbox list" where
  "init_anchors = prepare_anchors generate_anchors"

definition tracking_window :: "siam_math \<Rightarrow> rat list" where
  "tracking_window M =
     (let hann = sm_hanning M score_size
      in concat (replicate (length anchor_ratios) (concat (map (\<lambda>a. map (\<lambda>b. a * b) hann) hann))))"

subsection \<open>Preprocessing\<close>

text \<open>The size of the surroundings, and the scale from the frame to the model's input.\<close>

definition search_wh_to_size :: "siam_math \<Rightarrow> rat \<times> rat \<Rightarrow> rat \<times> rat" where
  "search_wh_to_size M = (\<lambda>(w, h).
     let wc = w + context_amount * (w + h); hc = h + context_amount * (w + h);
         s = sm_sqrt M (wc * hc); scale = of_nat exemplar_size / s;
         pad = ((of_nat search_size - of_nat exemplar_size) / 2) / scale
     in (s + 2 * pad, scale))"

text \<open>What the preprocessing leaves in the metadata of the request.\<close>

record siam_meta =
  sq_width :: nat
  sq_height :: nat
  sq_pos :: "rat \<times> rat"
  sq_size :: "rat \<times> rat"
  sq_scale :: rat

definition box_center :: "bbox \<Rightarrow> rat \<times> rat" where
  "box_center b = (of_int (bb_left b) + of_int (bb_right b - bb_left b) / 2,
     of_int (bb_top b) + of_int (bb_bottom b - bb_top b) / 2)"

definition box_size :: "bbox \<Rightarrow> rat \<times> rat" where
  "box_size b = (of_int (bb_right b - bb_left b), of_int (bb_bottom b - bb_top b))"

text \<open>The inputs of the model: the surroundings and the template.\<close>

definition siam_preprocessing ::
    "siam_math \<Rightarrow> 'p vision \<Rightarrow> 'p image \<Rightarrow> 'p image \<Rightarrow> bbox \<Rightarrow> ('p image \<times> 'p image \<times> siam_meta) result" where
  "siam_preprocessing M V examplar img prev =
     (let (s, scale) = search_wh_to_size M (box_size prev)
      in bindE (preprocess V img (box_center prev) (py_round s) search_size) (\<lambda>search.
         Inr (search, examplar,
           \<lparr>sq_width = im_cols img, sq_height = length img, sq_pos = box_center prev,
            sq_size = box_size prev, sq_scale = scale\<rparr>)))"

subsection \<open>Postprocessing: reading the outputs\<close>

text \<open>An output is an array of rows, columns and channels. \<open>planes\<close> is its transposition to
  channels, rows and columns as a flat list, \<open>reshape\<close> cuts that into \<open>n\<close> rows.\<close>

definition planes :: "rat list list list \<Rightarrow> rat list" where
  "planes arr =
     (let channels = (case arr of [] \<Rightarrow> 0 | row # _ \<Rightarrow> (case row of [] \<Rightarrow> 0 | cell # _ \<Rightarrow> length cell))
      in concat (map (\<lambda>c. concat (map (map (\<lambda>cell. cell ! c)) arr)) [0..<channels]))"

definition reshape :: "nat \<Rightarrow> rat list \<Rightarrow> rat list list result" where
  "reshape n xs =
     (if n = 0 \<or> length xs mod n \<noteq> 0 then Inl ValueError
      else let k = length xs div n in Inr (map (\<lambda>i. take k (drop (i * k) xs)) [0..<n]))"

definition softmax_second :: "siam_math \<Rightarrow> rat \<Rightarrow> rat \<Rightarrow> rat" where
  "softmax_second M a b =
     (let m = max a b; ea = sm_exp M (a - m); eb = sm_exp M (b - m) in eb / (ea + eb))"

definition place_box :: "siam_math \<Rightarrow> cbox \<Rightarrow> rat \<Rightarrow> rat \<Rightarrow> rat \<Rightarrow> rat \<Rightarrow> cbox" where
  "place_box M a dx dy dw dh =
     \<lparr>cb_x = dx * cb_w a + cb_x a, cb_y = dy * cb_h a + cb_y a,
      cb_w = sm_exp M dw * cb_w a, cb_h = sm_exp M dh * cb_h a\<rparr>"

text \<open>Arrays of another size than the anchors cannot be combined with them.\<close>

definition read_boxes :: "siam_math \<Rightarrow> rat list list list \<Rightarrow> cbox list result" where
  "read_boxes M arr =
     bindE (reshape 4 (planes arr)) (\<lambda>rows.
       if length (rows ! 0) \<noteq> length init_anchors then Inl ValueError
       else Inr (map (\<lambda>i. place_box M (init_anchors ! i) (rows ! 0 ! i) (rows ! 1 ! i) (rows ! 2 ! i) (rows ! 3 ! i))
         [0..<length init_anchors]))"

definition read_scores :: "siam_math \<Rightarrow> rat list list list \<Rightarrow> rat list result" where
  "read_scores M arr =
     bindE (reshape 2 (planes arr)) (\<lambda>rows.
       if length (rows ! 0) \<noteq> length init_anchors then Inl ValueError
       else Inr (map2 (softmax_second M) (rows ! 0) (rows ! 1)))"

subsection \<open>Postprocessing: the best box\<close>

definition change :: "rat \<Rightarrow> rat" where
  "change r = max r (1 / r)"

definition mean_size :: "siam_math \<Rightarrow> rat \<Rightarrow> rat \<Rightarrow> rat" where
  "mean_size M w h = (let pad = (w + h) / 2 in sm_sqrt M ((w + pad) * (h + pad)))"

definition size_penalty :: "siam_math \<Rightarrow> rat \<times> rat \<Rightarrow> cbox \<Rightarrow> rat" where
  "size_penalty M target b =
     (let s_c = change (mean_size M (cb_w b) (cb_h b) / mean_size M (fst target) (snd target));
          r_c = change ((fst target / snd target) / (cb_w b / cb_h b))
      in sm_exp M (- (r_c * s_c - 1) * penalty_k))"

definition clamp :: "rat \<Rightarrow> rat \<Rightarrow> rat \<Rightarrow> rat" where
  "clamp low high x = max low (min high x)"

text \<open>The new position, the new size and the score. The scores and the boxes have one entry per
  anchor.\<close>

definition update_bounding_box ::
    "siam_math \<Rightarrow> siam_meta \<Rightarrow> rat list \<Rightarrow> cbox list \<Rightarrow> (rat \<times> rat) \<times> (rat \<times> rat) \<times> rat" where
  "update_bounding_box M meta scores boxes =
     (let target = (fst (sq_size meta) * sq_scale meta, snd (sq_size meta) * sq_scale meta);
          penalty = map (size_penalty M target) boxes;
          pscore = map2 (\<lambda>p w. p * (1 - window_influence) + w * window_influence)
            (map2 (\<lambda>p s. p * s) penalty scores) (tracking_window M);
          best = argmax pscore;
          b = boxes ! best;
          lr = penalty ! best * scores ! best * siam_lr;
          x = cb_x b / sq_scale meta + fst (sq_pos meta);
          y = cb_y b / sq_scale meta + snd (sq_pos meta);
          w = fst (sq_size meta) * (1 - lr) + cb_w b / sq_scale meta * lr;
          h = snd (sq_size meta) * (1 - lr) + cb_h b / sq_scale meta * lr
      in ((clamp 0 (of_nat (sq_width meta)) x, clamp 0 (of_nat (sq_height meta)) y),
          (clamp 10 (of_nat (sq_width meta)) w, clamp 10 (of_nat (sq_height meta)) h),
          pscore ! best))"

text \<open>The first and the third corner of \<open>_create_polygon\<close>; only the lower bound 0 is enforced.\<close>

definition half :: "rat \<Rightarrow> rat" where
  "half s = of_int \<lfloor>s / 2\<rfloor>"

definition polygon_box :: "rat \<times> rat \<Rightarrow> rat \<times> rat \<Rightarrow> bbox" where
  "polygon_box pos sz =
     \<lparr>bb_left = max 0 (py_int (fst pos - half (fst sz))), bb_top = max 0 (py_int (snd pos - half (snd sz))),
      bb_right = max 0 (py_int (fst pos + half (fst sz))), bb_bottom = max 0 (py_int (snd pos + half (snd sz)))\<rparr>"

definition siam_postprocessing ::
    "siam_math \<Rightarrow> siam_meta \<Rightarrow> rat list list list \<Rightarrow> rat list list list \<Rightarrow> found list result" where
  "siam_postprocessing M meta bbox score =
     bindE (read_boxes M bbox) (\<lambda>boxes.
     bindE (read_scores M score) (\<lambda>scores.
       let (pos, sz, best) = update_bounding_box M meta scores boxes; b = polygon_box pos sz
       in bindE (rel_box (sq_width meta) (sq_height meta) b) (\<lambda>rel.
          Inr [\<lparr>de_class_name = ''track'', de_class_id = 0, de_score = best, de_bbox = b, fd_rel_bbox = rel\<rparr>])))"

end
