(* ===== verification/Nxs_Vehicle_Models_Props.thy ===== *)
theory Nxs_Vehicle_Models_Props
  imports Nxs_Vehicle_Tracker "HOL-Library.Multiset"
begin

section \<open>Properties of the functions of the detector and the tracker\<close>

text \<open>
  Which boxes the suppression of overlaps keeps, how a frame fits into the input of the detector,
  and that the box the tracker answers can be tracked again.
\<close>

subsection \<open>Suppressing overlapping boxes\<close>

text \<open>What \<open>np.argsort\<close> promises.\<close>

definition sorts_ascending :: "(rat list \<Rightarrow> nat list) \<Rightarrow> rat list \<Rightarrow> bool" where
  "sorts_ascending asc s \<longleftrightarrow> mset (asc s) = mset [0..<length s] \<and> sorted (map ((!) s) (asc s))"

lemma nms_loop_subset: "set (nms_loop thr boxes order) \<subseteq> set order"
  by (induction thr boxes order rule: nms_loop.induct) auto

lemma nms_loop_distinct: "distinct order \<Longrightarrow> distinct (nms_loop thr boxes order)"
  by (induction thr boxes order rule: nms_loop.induct) (auto dest: subsetD [OF nms_loop_subset])

text \<open>The result keeps the order, and a box is apart from those before it.\<close>

lemma nms_loop_ordered:
  "sorted_wrt R order \<Longrightarrow> sorted_wrt (\<lambda>i j. R i j \<and> apart thr (boxes ! i) (boxes ! j)) (nms_loop thr boxes order)"
proof (induction thr boxes order rule: nms_loop.induct)
  case (2 thr boxes i order)
  then have "sorted_wrt (\<lambda>i j. R i j \<and> apart thr (boxes ! i) (boxes ! j))
      (nms_loop thr boxes (filter (\<lambda>j. apart thr (boxes ! i) (boxes ! j)) order))"
    by (simp add: sorted_wrt_filter)
  with "2.prems" show ?case
    using nms_loop_subset [of thr boxes "filter (\<lambda>j. apart thr (boxes ! i) (boxes ! j)) order"] by auto
qed simp

text \<open>A box that is dropped overlaps one that is kept and comes before it.\<close>

lemma nms_loop_complete:
  assumes "sorted_wrt R order" "j \<in> set order" "j \<notin> set (nms_loop thr boxes order)"
  shows "\<exists>i \<in> set (nms_loop thr boxes order). R i j \<and> \<not> apart thr (boxes ! i) (boxes ! j)"
  using assms
proof (induction thr boxes order rule: nms_loop.induct)
  case (2 thr boxes i order)
  show ?case
  proof (cases "apart thr (boxes ! i) (boxes ! j)")
    case True
    then show ?thesis using 2 by (auto simp: sorted_wrt_filter)
  next
    case False
    then show ?thesis using 2 by auto
  qed
qed simp

lemma nms_order:
  assumes "sorts_ascending asc s"
  shows "set (rev (asc s)) = {..<length s}" "distinct (rev (asc s))"
    "sorted_wrt (\<lambda>i j. s ! j \<le> s ! i) (rev (asc s))"
proof -
  have m: "mset (asc s) = mset [0..<length s]" and srt: "sorted (map ((!) s) (asc s))"
    using assms by (auto simp: sorts_ascending_def)
  have "set (asc s) = set [0..<length s]" using m by (rule mset_eq_setD)
  then show "set (rev (asc s)) = {..<length s}" by (simp only: set_rev set_upt lessThan_atLeast0)
  have "distinct (asc s) = distinct [0..<length s]" using m by (rule mset_eq_imp_distinct_iff)
  then show "distinct (rev (asc s))" by (simp only: distinct_rev distinct_upt)
  show "sorted_wrt (\<lambda>i j. s ! j \<le> s ! i) (rev (asc s))"
    using srt by (simp add: sorted_wrt_rev sorted_wrt_map)
qed

text \<open>The greedy choice: the kept indices are in range, by descending score and pairwise apart,
  and every other index overlaps a kept one whose score is at least as high.\<close>

lemma nms_greedy:
  assumes "sorts_ascending asc s"
  shows "distinct (nms asc boxes s thr)" "set (nms asc boxes s thr) \<subseteq> {..<length s}"
    "sorted_wrt (\<lambda>i j. s ! j \<le> s ! i \<and> apart thr (boxes ! i) (boxes ! j)) (nms asc boxes s thr)"
    "j < length s \<Longrightarrow> j \<notin> set (nms asc boxes s thr) \<Longrightarrow>
       \<exists>i \<in> set (nms asc boxes s thr). s ! j \<le> s ! i \<and> \<not> apart thr (boxes ! i) (boxes ! j)"
  using nms_order [OF assms] nms_loop_subset [of thr boxes "rev (asc s)"]
    nms_loop_distinct [of "rev (asc s)" thr boxes] nms_loop_ordered [of _ "rev (asc s)" thr boxes]
    nms_loop_complete [of _ "rev (asc s)" j thr boxes]
  by (auto simp: nms_def)

lemma argmax_is_Max: "xs \<noteq> [] \<Longrightarrow> argmax xs < length xs \<and> xs ! argmax xs = Max (set xs)"
proof (induction xs rule: argmax.induct)
  case (2 x xs)
  show ?case
  proof (cases "list_all (\<lambda>y. y \<le> x) xs")
    case True
    then have "Max (set (x # xs)) = x" by (auto simp: list_all_iff intro: Max_eqI)
    with True show ?thesis by simp
  next
    case False
    then obtain y where y: "y \<in> set xs" "x < y" by (auto simp: list_all_iff)
    then have "x \<le> Max (set xs)" by (meson List.finite_set Max_ge less_imp_le order_trans)
    moreover have "xs \<noteq> []" using y by auto
    ultimately show ?thesis using 2 False by (simp add: max_absorb2)
  qed
qed simp

text \<open>The detections chosen among boxes with their rows of class scores.\<close>

definition greedy_choice :: "rat \<Rightarrow> rat \<Rightarrow> (fbox \<times> rat list) list \<Rightarrow> scored_box list \<Rightarrow> bool" where
  "greedy_choice thr st rows dets \<longleftrightarrow>
     (\<forall>(b, s, c) \<in> set dets. \<exists>row. (b, row) \<in> set rows \<and> c < length row \<and> row ! c = s \<and> s = Max (set row) \<and> st < s)
     \<and> sorted_wrt (\<lambda>(a, s, _) (b, t, _). t \<le> s \<and> apart thr a b) dets
     \<and> (\<forall>(b, row) \<in> set rows. st < Max (set row) \<longrightarrow>
          (\<exists>(a, s, _) \<in> set dets. Max (set row) \<le> s \<and> (a = b \<or> \<not> apart thr a b)))"

lemma kept_boxes_spec:
  assumes "\<And>s. sorts_ascending asc s"
  shows "set (kept_boxes asc thr cs) \<subseteq> set cs"
    "sorted_wrt (\<lambda>(a, s, _) (b, t, _). t \<le> s \<and> apart thr a b) (kept_boxes asc thr cs)"
    "d \<in> set cs \<Longrightarrow> \<exists>k \<in> set (kept_boxes asc thr cs).
       fst (snd d) \<le> fst (snd k) \<and> (fst k = fst d \<or> \<not> apart thr (fst k) (fst d))"
proof -
  let ?b = "map fst cs" and ?s = "map (fst \<circ> snd) cs"
  let ?n = "nms asc ?b ?s thr"
  note g = nms_greedy [OF assms, where s = ?s and boxes = ?b and thr = thr]
  have inb: "i < length cs" if "i \<in> set ?n" for i using g(2) that by auto
  then show "set (kept_boxes asc thr cs) \<subseteq> set cs" by (auto simp: kept_boxes_def)
  show "sorted_wrt (\<lambda>(a, s, _) (b, t, _). t \<le> s \<and> apart thr a b) (kept_boxes asc thr cs)"
    unfolding kept_boxes_def sorted_wrt_map
    by (rule sorted_wrt_mono_rel [OF _ g(3)]) (auto dest!: inb simp: split_beta)
  show "\<exists>k \<in> set (kept_boxes asc thr cs).
       fst (snd d) \<le> fst (snd k) \<and> (fst k = fst d \<or> \<not> apart thr (fst k) (fst d))" if d: "d \<in> set cs"
  proof -
    from d obtain j where j: "j < length cs" "d = cs ! j" by (metis in_set_conv_nth)
    show ?thesis
    proof (cases "j \<in> set ?n")
      case True
      then show ?thesis using j by (auto simp: kept_boxes_def)
    next
      case False
      then obtain i where "i \<in> set ?n" "?s ! j \<le> ?s ! i" "\<not> apart thr (?b ! i) (?b ! j)"
        using g(4) [of j] j(1) by auto
      then show ?thesis using j inb [of i] by (auto simp: kept_boxes_def)
    qed
  qed
qed

lemma multiclass_nms_greedy:
  assumes asc: "\<And>s. sorts_ascending asc s"
    and r: "multiclass_nms_class_agnostic asc boxes scores thr st = Inr r"
  shows "greedy_choice thr st (zip boxes scores) (case r of None \<Rightarrow> [] | Some ds \<Rightarrow> ds)"
proof -
  let ?c = "\<lambda>(b, row). (b, row ! argmax row, argmax row)"
  define valid where "valid = filter (\<lambda>(_, s, _). s > st) (map ?c (zip boxes scores))"
  have ne: "row \<noteq> []" if "(b, row) \<in> set (zip boxes scores)" for b row
    using r that by (auto simp: multiclass_nms_class_agnostic_def split: if_splits dest: set_zip_rightD)
  have empty: "asc [] = []" using asc [of "[]"] by (simp add: sorts_ascending_def)
  have res: "(case r of None \<Rightarrow> [] | Some ds \<Rightarrow> ds) = kept_boxes asc thr valid"
    using r by (auto simp: multiclass_nms_class_agnostic_def Let_def valid_def kept_boxes_def nms_def empty
        split: if_splits)
  have cand: "(b, s, c) \<in> set valid \<longleftrightarrow>
      (\<exists>row. (b, row) \<in> set (zip boxes scores) \<and> s = row ! argmax row \<and> c = argmax row \<and> st < s)" for b s c
    by (auto simp: valid_def)
  note k = kept_boxes_spec [OF asc, where thr = thr and cs = valid]
  have "\<exists>row. (b, row) \<in> set (zip boxes scores) \<and> c < length row \<and> row ! c = s \<and> s = Max (set row) \<and> st < s"
    if "(b, s, c) \<in> set (kept_boxes asc thr valid)" for b s c
    using subsetD [OF k(1) that] argmax_is_Max [OF ne] unfolding cand by metis
  moreover have "\<exists>(a, s, _) \<in> set (kept_boxes asc thr valid). Max (set row) \<le> s \<and> (a = b \<or> \<not> apart thr a b)"
    if that: "(b, row) \<in> set (zip boxes scores)" "st < Max (set row)" for b row
  proof -
    have m: "row ! argmax row = Max (set row)" using argmax_is_Max [OF ne [OF that(1)]] by blast
    then have "(b, row ! argmax row, argmax row) \<in> set valid" using that cand by auto
    from k(3) [OF this] show ?thesis by (simp add: m split_beta)
  qed
  ultimately show ?thesis
    using k(2) unfolding greedy_choice_def res by blast
qed

text \<open>The second comparison with the threshold never drops a box.\<close>

lemma yolox_postprocessing_rows:
  assumes asc: "\<And>s. sorts_ascending asc s"
    and ds: "yolox_postprocessing ex asc P h w classes M rows = Inr ds"
  obtains rs dets where "yolox_postprocess ex rows h w (yp_with_p6 P) = Inr rs"
    "greedy_choice (yp_nms_thresh P) (yp_score_thresh P)
       (zip (map (row_box (lb_ratio M)) rs) (map class_scores rs)) dets"
    "mapE (yolox_detection classes (lb_original_width M) (lb_original_height M)) dets = Inr ds"
proof -
  from ds obtain rs r where r: "yolox_postprocess ex rows h w (yp_with_p6 P) = Inr rs"
      "multiclass_nms asc (map (row_box (lb_ratio M)) rs) (map class_scores rs)
         (yp_nms_thresh P) (yp_score_thresh P) True = Inr r"
      "mapE (yolox_detection classes (lb_original_width M) (lb_original_height M))
         (filter (\<lambda>(_, s, _). \<not> s < yp_score_thresh P) (case r of None \<Rightarrow> [] | Some ds \<Rightarrow> ds)) = Inr ds"
    unfolding yolox_postprocessing_def bindE_eq_Inr by auto
  let ?d = "case r of None \<Rightarrow> [] | Some ds \<Rightarrow> ds"
  have g: "greedy_choice (yp_nms_thresh P) (yp_score_thresh P)
      (zip (map (row_box (lb_ratio M)) rs) (map class_scores rs)) ?d"
    by (rule multiclass_nms_greedy [OF asc]) (use r(2) in \<open>simp add: multiclass_nms_def\<close>)
  then have "filter (\<lambda>(_, s, _). \<not> s < yp_score_thresh P) ?d = ?d"
    unfolding filter_id_conv greedy_choice_def by fastforce
  with r g show thesis by (auto intro: that)
qed

text \<open>C36: The detections of the detector are a greedy choice among the boxes of the model: each is the
  best class of a box with a score above the threshold, they come by descending score and any
  two are apart, and every box above the threshold overlaps a chosen one whose score is at
  least as high. \<open>argsort\<close> is assumed to sort.
\<close>

theorem detector_picks_greedily:
  assumes "\<And>s. sorts_ascending asc s"
    and "yolox_postprocessing ex asc P h w classes M rows = Inr ds"
  shows "\<exists>rs dets. yolox_postprocess ex rows h w (yp_with_p6 P) = Inr rs
    \<and> greedy_choice (yp_nms_thresh P) (yp_score_thresh P)
        (zip (map (row_box (lb_ratio M)) rs) (map class_scores rs)) dets
    \<and> list_all2 (\<lambda>(b, s, c) d. de_bbox d = int_box b \<and> de_score d = s \<and> de_class_id d = int c) dets ds"
proof -
  obtain rs dets where r: "yolox_postprocess ex rows h w (yp_with_p6 P) = Inr rs"
    "greedy_choice (yp_nms_thresh P) (yp_score_thresh P)
       (zip (map (row_box (lb_ratio M)) rs) (map class_scores rs)) dets"
    "mapE (yolox_detection classes (lb_original_width M) (lb_original_height M)) dets = Inr ds"
    using yolox_postprocessing_rows [OF assms] .
  from r(3) have "list_all2 (\<lambda>(b, s, c) d. de_bbox d = int_box b \<and> de_score d = s \<and> de_class_id d = int c) dets ds"
    unfolding mapE_eq_Inr by (rule list_all2_mono) (auto simp: yolox_detection_def bindE_eq_Inr)
  with r show ?thesis by blast
qed

subsection \<open>Fitting a frame into the input of the detector\<close>

lemma fitted_mono: "0 \<le> r \<Longrightarrow> r \<le> q \<Longrightarrow> fitted r n \<le> nat \<lfloor>of_nat n * q\<rfloor>"
  by (auto simp: fitted_def py_int_def mult_nonneg_nonneg intro!: nat_mono floor_mono mult_left_mono)

lemma fit_ratio_bounds:
  assumes "length img \<noteq> 0" "im_cols img \<noteq> 0"
  shows "0 \<le> fit_ratio h w img" "fit_ratio h w img \<le> of_nat h / of_nat (length img)"
    "fit_ratio h w img \<le> of_nat w / of_nat (im_cols img)"
  using assms by (simp_all add: fit_ratio_def)

lemma fitted_full: "n \<noteq> 0 \<Longrightarrow> fitted (of_nat h / of_nat n) n = h"
  by (simp add: fitted_def py_int_def)

lemma letterbox_fits:
  assumes "preproc resize grey h w img = Inr (out, r)"
  defines "rows \<equiv> fitted r (length img)" and "cols \<equiv> fitted r (im_cols img)"
  shows "rows \<le> h" "cols \<le> w" "rows = h \<or> cols = w" "length out = h"
    "\<exists>small. resize img cols rows = Inr small \<and> (\<forall>i<h. \<forall>j<w.
       pixel out i j = (if i < rows \<and> j < cols then pixel small i j else grey))"
proof -
  have ne: "length img \<noteq> 0" "im_cols img \<noteq> 0" and r: "r = fit_ratio h w img"
    and small: "\<exists>small. resize img cols rows = Inr small \<and>
      out = tabulate h w (\<lambda>i j. if i < rows \<and> j < cols then pixel small i j else grey)"
    using assms(1) by (auto simp: preproc_def rows_def cols_def bindE_eq_Inr Let_def split: if_splits)
  note b = fit_ratio_bounds [OF ne, of h w, folded r]
  show "rows \<le> h" using fitted_mono [OF b(1,2), of "length img"] ne by (simp add: rows_def)
  show "cols \<le> w" using fitted_mono [OF b(1,3), of "im_cols img"] ne by (simp add: cols_def)
  show "rows = h \<or> cols = w"
    using fitted_full [of "length img" h] fitted_full [of "im_cols img" w] ne
    by (auto simp: rows_def cols_def r fit_ratio_def min_def)
  show "length out = h" using small by (auto simp: tabulate_def)
  show "\<exists>small. resize img cols rows = Inr small \<and> (\<forall>i<h. \<forall>j<w.
       pixel out i j = (if i < rows \<and> j < cols then pixel small i j else grey))"
    using small by (auto simp: tabulate_def pixel_def)
qed

subsection \<open>The box of the tracker\<close>

text \<open>One dimension of the box: the centre lies within the frame and the size is at least 10.\<close>

lemma clamp_bounds: "low \<le> clamp low high x" "clamp low high x \<le> max low high"
  by (auto simp: clamp_def)

lemma max_py_int: "max 0 (py_int x) = max 0 \<lfloor>x\<rfloor>"
proof (cases "x < 0")
  case True
  then have "0 \<le> \<lfloor>- x\<rfloor>" "\<lfloor>x\<rfloor> \<le> 0" by (simp_all add: floor_le_iff)
  with True show ?thesis by (simp add: py_int_def)
qed (simp add: py_int_def)

lemma polygon_side:
  assumes p: "0 \<le> p" "p \<le> of_nat n" and s: "10 \<le> s" "s \<le> max 10 (of_nat n)"
  defines "l \<equiv> max 0 (py_int (p - half s))" and "r \<equiv> max 0 (py_int (p + half s))"
  shows "0 \<le> l" "l \<le> int n" "l + 5 \<le> r" "r \<le> int n + max 10 (int n) div 2"
proof -
  define f k where "f = \<lfloor>p\<rfloor>" and "k = \<lfloor>s / 2\<rfloor>"
  have "5 \<le> k" using s(1) by (simp add: k_def le_floor_iff)
  moreover have "k \<le> max 10 (int n) div 2"
  proof -
    have "s / 2 \<le> of_int (max 10 (int n)) / of_int 2" using s(2) by (simp add: max_def split: if_splits)
    then have "\<lfloor>s / 2\<rfloor> \<le> \<lfloor>of_int (max 10 (int n)) / (of_int 2 :: rat)\<rfloor>" by (rule floor_mono)
    then show ?thesis by (simp only: floor_divide_of_int_eq k_def)
  qed
  moreover have "0 \<le> f" "f \<le> int n" using p by (auto simp: floor_le_iff f_def)
  moreover have "l = max 0 (f - k)" "r = max 0 (f + k)"
    by (simp_all add: l_def r_def max_py_int half_def f_def k_def)
  ultimately show "0 \<le> l" "l \<le> int n" "l + 5 \<le> r" "r \<le> int n + max 10 (int n) div 2"
    by linarith+
qed

lemma positive_search:
  assumes "\<And>x. 0 < x \<Longrightarrow> 0 < sm_sqrt M x" "0 < w" "0 < h"
  shows "0 < fst (search_wh_to_size M (w, h))" "0 < snd (search_wh_to_size M (w, h))"
proof -
  let ?s = "sm_sqrt M ((w + context_amount * (w + h)) * (h + context_amount * (w + h)))"
  have "0 < ?s" by (rule assms(1), rule mult_pos_pos) (use assms(2,3) in \<open>simp_all add: context_amount_def add_pos_pos\<close>)
  then show "0 < fst (search_wh_to_size M (w, h))" "0 < snd (search_wh_to_size M (w, h))"
    by (auto simp: search_wh_to_size_def Let_def exemplar_size_def search_size_def intro!: add_pos_pos)
qed

text \<open>An array of \<open>n\<close> rows, \<open>m\<close> columns and \<open>k\<close> channels.\<close>

definition has_shape :: "rat list list list \<Rightarrow> nat \<Rightarrow> nat \<Rightarrow> nat \<Rightarrow> bool" where
  "has_shape arr n m k \<longleftrightarrow>
     length arr = n \<and> list_all (\<lambda>row. length row = m \<and> list_all (\<lambda>cell. length cell = k) row) arr"

lemma length_concat_const: "\<forall>x \<in> set xs. length x = k \<Longrightarrow> length (concat xs) = k * length xs"
  by (induction xs) auto

lemma length_planes:
  assumes "has_shape arr n m k" "0 < n" "0 < m"
  shows "length (planes arr) = k * (m * n)"
proof -
  from assms obtain row arr' cell row' where r: "arr = row # arr'" "row = cell # row'"
    by (cases arr; cases "hd arr") (auto simp: has_shape_def)
  then have "length cell = k" using assms(1) by (simp add: has_shape_def)
  with r have "planes arr = concat (map (\<lambda>c. concat (map (map (\<lambda>cell. cell ! c)) arr)) [0..<k])"
    by (simp add: planes_def)
  moreover have "length (concat (map (map (\<lambda>cell. cell ! c)) arr)) = m * n" for c
    using assms(1) by (subst length_concat_const [where k = m]) (auto simp: has_shape_def list_all_iff)
  ultimately show ?thesis by (simp add: length_concat_const [where k = "m * n"])
qed

lemma length_init_anchors: "length init_anchors = 3125"
  by (simp add: init_anchors_def prepare_anchors_def generate_anchors_def anchor_ratios_def anchor_scales_def
      length_concat_const [where k = 25] length_concat_const [where k = 625] score_size_def search_size_def
      exemplar_size_def siam_stride_def split_beta)

lemma siam_postprocessing_answers:
  assumes "has_shape bbox 25 25 20" "has_shape score 25 25 10" "0 < sq_width meta" "0 < sq_height meta"
  shows "\<exists>ds. siam_postprocessing M meta bbox score = Inr ds"
proof -
  have "\<exists>boxes. read_boxes M bbox = Inr boxes"
    using length_planes [OF assms(1)] by (simp add: read_boxes_def reshape_def length_init_anchors)
  moreover have "\<exists>scores. read_scores M score = Inr scores"
    using length_planes [OF assms(2)] by (simp add: read_scores_def reshape_def length_init_anchors)
  ultimately show ?thesis
    using assms(3,4) by (auto simp: siam_postprocessing_def rel_box_def split_beta Let_def)
qed

text \<open>C37: For outputs of the shape of the model, the tracker answers one box, and it is a real box: at least 5 wide and high, its left upper
  corner in the frame; its right lower corner may lie outside, by at most half the frame (5 in a
  frame smaller than 10). So the next search around it has a positive size and scale. Roots of
  positive numbers are assumed to be positive.
\<close>

theorem tracked_box_can_be_tracked:
  assumes root: "\<And>x. 0 < x \<Longrightarrow> 0 < sm_sqrt M x"
    and shape: "has_shape bbox 25 25 20" "has_shape score 25 25 10" "0 < sq_width meta" "0 < sq_height meta"
  shows "\<exists>d. siam_postprocessing M meta bbox score = Inr [d] \<and> (let b = de_bbox d; w = int (sq_width meta); h = int (sq_height meta) in
    0 \<le> bb_left b \<and> bb_left b \<le> w \<and> bb_left b + 5 \<le> bb_right b \<and> bb_right b \<le> w + max 10 w div 2
    \<and> 0 \<le> bb_top b \<and> bb_top b \<le> h \<and> bb_top b + 5 \<le> bb_bottom b \<and> bb_bottom b \<le> h + max 10 h div 2
    \<and> 0 < fst (search_wh_to_size M (box_size b)) \<and> 0 < snd (search_wh_to_size M (box_size b)))"
proof -
  obtain ds where ds: "siam_postprocessing M meta bbox score = Inr ds"
    using siam_postprocessing_answers [OF shape] by blast
  then obtain boxes scores where "(case update_bounding_box M meta scores boxes of (pos, sz, best) \<Rightarrow>
      \<exists>d. ds = [d] \<and> de_bbox d = polygon_box pos sz)"
    by (auto simp: siam_postprocessing_def bindE_eq_Inr Let_def split_beta)
  then obtain pos sz best where u: "update_bounding_box M meta scores boxes = (pos, sz, best)"
    and d: "\<exists>d. ds = [d] \<and> de_bbox d = polygon_box pos sz"
    by (auto split: prod.splits)
  let ?b = "polygon_box pos sz"
  from u have b: "0 \<le> fst pos" "fst pos \<le> of_nat (sq_width meta)" "10 \<le> fst sz" "fst sz \<le> max 10 (of_nat (sq_width meta))"
    "0 \<le> snd pos" "snd pos \<le> of_nat (sq_height meta)" "10 \<le> snd sz" "snd sz \<le> max 10 (of_nat (sq_height meta))"
    by (auto simp: update_bounding_box_def Let_def clamp_def)
  note x = polygon_side [OF b(1-4)] and y = polygon_side [OF b(5-8)]
  have sides: "bb_left ?b + 5 \<le> bb_right ?b" "bb_top ?b + 5 \<le> bb_bottom ?b"
    using x(3) y(3) by (simp_all only: polygon_box_def bbox.select_convs)
  then have "(0 :: rat) < of_int (bb_right ?b - bb_left ?b)" "(0 :: rat) < of_int (bb_bottom ?b - bb_top ?b)"
    by (simp_all only: of_int_0_less_iff)
  from positive_search [OF root this]
  have next_search: "0 < fst (search_wh_to_size M (box_size ?b))" "0 < snd (search_wh_to_size M (box_size ?b))"
    by (simp_all only: box_size_def)
  from d obtain d where d: "ds = [d]" "de_bbox d = ?b" by blast
  show ?thesis
    unfolding ds d(1) Let_def list.inject sum.inject
    using x(1,2,4) y(1,2,4) sides next_search d(2)
    by (intro exI [of _ d]) (simp only: polygon_box_def bbox.select_convs)
qed


subsection \<open>Instances\<close>

definition sample_argsort :: "rat list \<Rightarrow> nat list" where
  "sample_argsort s = sort_key ((!) s) [0..<length s]"

lemma sample_argsort_sorts: "sorts_ascending sample_argsort s"
  by (simp only: sorts_ascending_def sample_argsort_def mset_sort sorted_sort_key)

text \<open>Three boxes in a grid of one cell; the second overlaps the first, which has the higher score.\<close>

definition sample_rows :: "yolox_row list" where
  "sample_rows =
     [\<lparr>yr_x = 1, yr_y = 1, yr_w = 1, yr_h = 1, yr_object = 1, yr_classes = [1 / 10, 9 / 10]\<rparr>,
      \<lparr>yr_x = 1, yr_y = 1, yr_w = 1, yr_h = 1, yr_object = 1, yr_classes = [7 / 10, 1 / 10]\<rparr>,
      \<lparr>yr_x = 4, yr_y = 1, yr_w = 1, yr_h = 1, yr_object = 1, yr_classes = [8 / 10, 1 / 10]\<rparr>]"

definition sample_letterbox :: "unit letterbox" where
  "sample_letterbox = \<lparr>lb_image = [], lb_ratio = 1, lb_original_width = 40, lb_original_height = 20\<rparr>"

abbreviation sample_detections :: "found list result" where
  "sample_detections \<equiv> yolox_postprocessing (\<lambda>x. x) sample_argsort default_yolox_params 8 8 [''car'', ''bus'']
     sample_letterbox sample_rows"

definition sample_found :: "found list" where
  "sample_found =
     [\<lparr>de_class_name = ''bus'', de_class_id = 1, de_score = 9 / 10,
       de_bbox = \<lparr>bb_left = 4, bb_top = 4, bb_right = 12, bb_bottom = 12\<rparr>,
       fd_rel_bbox = \<lparr>fb_x1 = 1 / 10, fb_y1 = 1 / 5, fb_x2 = 3 / 10, fb_y2 = 3 / 5\<rparr>\<rparr>,
      \<lparr>de_class_name = ''car'', de_class_id = 0, de_score = 4 / 5,
       de_bbox = \<lparr>bb_left = 28, bb_top = 4, bb_right = 36, bb_bottom = 12\<rparr>,
       fd_rel_bbox = \<lparr>fb_x1 = 7 / 10, fb_y1 = 1 / 5, fb_x2 = 9 / 10, fb_y2 = 3 / 5\<rparr>\<rparr>]"

lemma sample_detections: "sample_detections = Inr sample_found"
  by code_simp

theorem detector_picks_greedily_witness:
  "\<exists>rs dets. yolox_postprocess (\<lambda>x. x) sample_rows 8 8 False = Inr rs
    \<and> greedy_choice (45 / 100) (1 / 4) (zip (map (row_box 1) rs) (map class_scores rs)) dets
    \<and> list_all2 (\<lambda>(b, s, c) d. de_bbox d = int_box b \<and> de_score d = s \<and> de_class_id d = int c) dets sample_found"
  using detector_picks_greedily [OF sample_argsort_sorts sample_detections]
  by (simp add: default_yolox_params_def sample_letterbox_def)

definition sample_siam :: siam_math where
  "sample_siam = \<lparr>sm_sqrt = (\<lambda>x. x), sm_exp = (\<lambda>x. 1), sm_hanning = (\<lambda>n. replicate n 1)\<rparr>"

definition sample_siam_meta :: siam_meta where
  "sample_siam_meta = \<lparr>sq_width = 100, sq_height = 50, sq_pos = (10, 10), sq_size = (20, 20), sq_scale = 1\<rparr>"

definition zeros :: "nat \<Rightarrow> rat list list list" where
  "zeros k = replicate 25 (replicate 25 (replicate k 0))"

lemma zeros_shape: "has_shape (zeros k) 25 25 k"
  by (simp add: zeros_def has_shape_def list_all_iff)

theorem tracked_box_can_be_tracked_witness:
  "\<exists>d. siam_postprocessing sample_siam sample_siam_meta (zeros 20) (zeros 10) = Inr [d] \<and>
     0 \<le> bb_left (de_bbox d) \<and> bb_left (de_bbox d) + 5 \<le> bb_right (de_bbox d) \<and> bb_right (de_bbox d) \<le> 150"
  using tracked_box_can_be_tracked [OF _ zeros_shape zeros_shape, of sample_siam sample_siam_meta]
  by (simp add: sample_siam_def sample_siam_meta_def Let_def) blast

end
