(* ===== verification/Nxs_Storage.thy ===== *)
theory Nxs_Storage
  imports Nxs_Storage_Cache "HOL-Library.Sublist"
begin

section \<open>Storage clients (\<open>nxs_libs/storage/\<close>)\<close>

text \<open>
  The two clients that store the files of models: Azure's blob store, whose service is a
  parameter, and directories of the local disk. A file to upload is its path with its content,
  None when it does not exist. Paths are normal: no \<open>..\<close>, no doubled separators, no links.
\<close>

subsection \<open>Paths\<close>

definition os_path_join :: "string \<Rightarrow> string \<Rightarrow> string" where
  "os_path_join a b = (if b \<noteq> '''' \<and> hd b = CHR ''/'' then b else os_join a b)"

definition basename :: "string \<Rightarrow> string" where
  "basename p = rev (takeWhile (\<lambda>c. c \<noteq> CHR ''/'') (rev p))"

definition dirname :: "string \<Rightarrow> string" where
  "dirname p = (let h = rev (dropWhile (\<lambda>c. c \<noteq> CHR ''/'') (rev p))
     in if list_all (\<lambda>c. c = CHR ''/'') h then h else rev (dropWhile (\<lambda>c. c = CHR ''/'') (rev h)))"

subsection \<open>Errors\<close>

abbreviation existing_file :: py_error where
  "existing_file \<equiv> Raised ''NxsStorageExceptionExistingFile''"

abbreviation non_existing_file :: py_error where
  "non_existing_file \<equiv> Raised ''NxsStorageExceptionNonExistingFile''"

abbreviation authentication_error :: py_error where
  "authentication_error \<equiv> Raised ''NxsStorageExceptionAuthenticationError''"

abbreviation invalid_params :: py_error where
  "invalid_params \<equiv> Raised ''NxsStorageExceptionInvalidParams''"

definition blob_internal_error :: "string \<Rightarrow> py_error" where
  "blob_internal_error msg =
     Raised (''NxsStorageExceptionInternalError: NxsAsyncAzureBlobStorage internal error: '' @ msg)"

subsection \<open>Azure's blob store\<close>

text \<open>What the service answers, by the classes of exceptions that the client tells apart.\<close>

datatype blob_error =
    ResourceExists string
  | ResourceNotFound string
  | HttpResponseError string
  | OtherError string

fun blob_text :: "blob_error \<Rightarrow> string" where
  "blob_text (ResourceExists s) = s"
| "blob_text (ResourceNotFound s) = s"
| "blob_text (HttpResponseError s) = s"
| "blob_text (OtherError s) = s"

record 's blob_service =
  bl_upload :: "'s \<Rightarrow> string \<Rightarrow> string \<Rightarrow> bool \<Rightarrow> blob_error + 's"
  bl_download :: "'s \<Rightarrow> string \<Rightarrow> blob_error + string"
  bl_delete :: "'s \<Rightarrow> string \<Rightarrow> blob_error + 's"
  bl_list :: "'s \<Rightarrow> string \<Rightarrow> string list"

definition azure_upload ::
    "'s blob_service \<Rightarrow> 's \<Rightarrow> string \<Rightarrow> string option \<Rightarrow> string \<Rightarrow> bool \<Rightarrow> 's result" where
  "azure_upload B s src content dest overwrite =
     (case content of
        None \<Rightarrow> Inl non_existing_file
      | Some c \<Rightarrow>
          (case bl_upload B s (os_path_join dest (basename src)) c overwrite of
             Inr s' \<Rightarrow> Inr s'
           | Inl (ResourceExists _) \<Rightarrow> Inl existing_file
           | Inl e \<Rightarrow> Inl (blob_internal_error (blob_text e))))"

text \<open>\<open>ResourceNotFoundError\<close> and \<open>ResourceExistsError\<close> are subclasses of \<open>HttpResponseError\<close>; the
  first is caught before it.\<close>

definition download_error :: "blob_error \<Rightarrow> py_error" where
  "download_error e =
     (case e of
        ResourceNotFound _ \<Rightarrow> non_existing_file
      | OtherError s \<Rightarrow> blob_internal_error s
      | _ \<Rightarrow> if sublist ''not authorized'' (blob_text e) then authentication_error
             else blob_internal_error (blob_text e))"

definition azure_download :: "'s blob_service \<Rightarrow> 's \<Rightarrow> string \<Rightarrow> string result" where
  "azure_download B s path =
     (case bl_download B s path of Inr c \<Rightarrow> Inr c | Inl e \<Rightarrow> Inl (download_error e))"

definition azure_delete :: "'s blob_service \<Rightarrow> 's \<Rightarrow> string \<Rightarrow> 's result" where
  "azure_delete B s path =
     (case bl_delete B s path of
        Inr s' \<Rightarrow> Inr s'
      | Inl (ResourceNotFound _) \<Rightarrow> Inl non_existing_file
      | Inl e \<Rightarrow> Inl (blob_internal_error (blob_text e)))"

text \<open>The names below a directory, relative to it; a blob with the name of the directory is \<open>.\<close>.\<close>

definition azure_list_files :: "'s blob_service \<Rightarrow> 's \<Rightarrow> string \<Rightarrow> string list" where
  "azure_list_files B s dir =
     (let d = (if dir \<noteq> '''' \<and> last dir \<noteq> CHR ''/'' then dir @ ''/'' else dir)
      in map (\<lambda>b. if b = d then ''.'' else drop (length d) b) (bl_list B s d))"

text \<open>\<open>create\<close>: the two ways to connect; keywords beyond those of the chosen one raise.\<close>

datatype blob_connection =
    ConnectionString string string
  | SasToken string string string

definition azure_create :: "(string, string) dict \<Rightarrow> blob_connection result" where
  "azure_create kw =
     (case (map_of kw ''connection_str'', map_of kw ''container_name'') of
        (Some c, Some n) \<Rightarrow>
          if set (dkeys kw) \<subseteq> {''connection_str'', ''container_name''} then Inr (ConnectionString c n) else Inl TypeError
      | (_, Some n) \<Rightarrow>
          (case (map_of kw ''account_name'', map_of kw ''sas_token'') of
             (Some a, Some t) \<Rightarrow>
               if set (dkeys kw) \<subseteq> {''account_name'', ''sas_token'', ''container_name''}
               then Inr (SasToken (''https://'' @ a @ ''.blob.core.windows.net/'') t n) else Inl TypeError
           | _ \<Rightarrow> Inl invalid_params)
      | _ \<Rightarrow> Inl invalid_params)"

text \<open>The same method of the asynchronous client names a class that its file does not import.\<close>

definition async_create :: "(string, string) dict \<Rightarrow> blob_connection result" where
  "async_create kw =
     (let has = (\<lambda>k. k \<in> set (dkeys kw))
      in if has ''connection_str'' \<and> has ''container_name'' \<or>
            has ''account_name'' \<and> has ''sas_token'' \<and> has ''container_name''
         then Inl (Raised ''NameError'') else Inl invalid_params)"

lemma async_create_raises: "\<exists>e. async_create kw = Inl e"
  by (simp add: async_create_def Let_def)

subsection \<open>The local disk\<close>

record local_fs =
  fs_files :: "(string, string) dict"
  fs_dirs :: "string list"

definition fs_exists :: "local_fs \<Rightarrow> string \<Rightarrow> bool" where
  "fs_exists fs p \<longleftrightarrow> p \<in> set (dkeys (fs_files fs)) \<or> p \<in> set (fs_dirs fs)"

abbreviation no_file :: py_error where
  "no_file \<equiv> Raised ''FileNotFoundError''"

text \<open>What the system raises for a path that does not exist, and for one that is no file.\<close>

definition missing_error :: "local_fs \<Rightarrow> string \<Rightarrow> py_error" where
  "missing_error fs p =
     (if list_ex (\<lambda>f. prefix (f @ ''/'') p) (dkeys (fs_files fs)) then Raised ''NotADirectoryError'' else no_file)"

definition open_file :: "local_fs \<Rightarrow> string \<Rightarrow> string result" where
  "open_file fs p =
     (case map_of (fs_files fs) p of
        Some c \<Rightarrow> Inr c
      | None \<Rightarrow> Inl (if p \<in> set (fs_dirs fs) then Raised ''IsADirectoryError'' else missing_error fs p))"

text \<open>Writing a whole file, when its parent is a directory.\<close>

definition write_file :: "local_fs \<Rightarrow> string \<Rightarrow> string \<Rightarrow> local_fs result" where
  "write_file fs p c =
     (if p \<in> set (fs_dirs fs) then Inl (Raised ''IsADirectoryError'')
      else if dirname p \<noteq> '''' \<and> dirname p \<notin> set (fs_dirs fs) then Inl (missing_error fs p)
      else Inr (fs\<lparr>fs_files := AList.update p c (fs_files fs)\<rparr>))"

text \<open>\<open>shutil.copy\<close> of a file other than the destination: into a directory, or to a path whose
  parent is a directory.\<close>

definition shutil_copy :: "local_fs \<Rightarrow> string \<Rightarrow> string result \<Rightarrow> string \<Rightarrow> local_fs result" where
  "shutil_copy fs src content dst =
     (let p = (if dst \<in> set (fs_dirs fs) then os_path_join dst (basename src) else dst)
      in case content of
           Inl e \<Rightarrow> Inl e
         | Inr c \<Rightarrow> write_file fs p c)"

text \<open>Whether the file exists is asked of the path without the store's own directory.\<close>

definition local_upload ::
    "string \<Rightarrow> local_fs \<Rightarrow> string \<Rightarrow> string option \<Rightarrow> string \<Rightarrow> bool \<Rightarrow> local_fs result" where
  "local_upload store fs src content dest overwrite =
     (if \<not> overwrite \<and> fs_exists fs dest then Inl existing_file
      else shutil_copy fs src (case content of None \<Rightarrow> Inl no_file | Some c \<Rightarrow> Inr c) (os_path_join store dest))"

definition local_download :: "string \<Rightarrow> local_fs \<Rightarrow> string \<Rightarrow> string result" where
  "local_download store fs path = open_file fs (os_path_join store path)"

definition local_download_to_file :: "local_fs \<Rightarrow> string \<Rightarrow> string \<Rightarrow> local_fs result" where
  "local_download_to_file fs path dst = shutil_copy fs path (open_file fs path) dst"

definition local_delete :: "string \<Rightarrow> local_fs \<Rightarrow> string \<Rightarrow> local_fs" where
  "local_delete store fs path = fs\<lparr>fs_files := AList.delete (os_path_join store path) (fs_files fs)\<rparr>"

text \<open>The test for a directory that does not exist is never true, and \<open>os.listdir\<close> raises. Its
  order is not fixed; here it is that of creation.\<close>

definition local_list_files :: "string \<Rightarrow> local_fs \<Rightarrow> string \<Rightarrow> string list result" where
  "local_list_files store fs dir =
     (let d = os_path_join store dir
      in if \<not> fs_exists fs d \<and> d \<in> set (fs_dirs fs) then Inr []
         else if d \<in> set (dkeys (fs_files fs)) then Inl (Raised ''NotADirectoryError'')
         else if d \<notin> set (fs_dirs fs) then Inl (missing_error fs d)
         else Inr (map basename (filter (\<lambda>p. dirname p = d) (dkeys (fs_files fs) @ fs_dirs fs))))"

subsection \<open>Downloads of blobs to the disk\<close>

text \<open>The client opens the destination once the blob is known; the asynchronous one before it asks
  for the blob. \<open>text\<close> is the text of an exception of the system.\<close>

definition azure_download_to_file ::
    "(py_error \<Rightarrow> string) \<Rightarrow> 's blob_service \<Rightarrow> 's \<Rightarrow> local_fs \<Rightarrow> string \<Rightarrow> string \<Rightarrow> unit result \<times> local_fs" where
  "azure_download_to_file text B s fs path dst =
     (case bl_download B s path of
        Inl e \<Rightarrow> (Inl (download_error e), fs)
      | Inr c \<Rightarrow>
          (case write_file fs dst c of
             Inl e \<Rightarrow> (Inl (blob_internal_error (text e)), fs)
           | Inr fs' \<Rightarrow> (Inr (), fs')))"

definition async_download_to_file ::
    "(py_error \<Rightarrow> string) \<Rightarrow> 's blob_service \<Rightarrow> 's \<Rightarrow> local_fs \<Rightarrow> string \<Rightarrow> string \<Rightarrow> unit result \<times> local_fs" where
  "async_download_to_file text B s fs path dst =
     (case write_file fs dst '''' of
        Inl e \<Rightarrow> (Inl (blob_internal_error (text e)), fs)
      | Inr fs' \<Rightarrow>
          (case bl_download B s path of
             Inl e \<Rightarrow> (Inl (download_error e), fs')
           | Inr c \<Rightarrow> (Inr (), fs'\<lparr>fs_files := AList.update dst c (fs_files fs')\<rparr>)))"

text \<open>Both write the same file when the download succeeds; when the blob does not exist, the first
  leaves the disk as it is and the second has emptied the destination.\<close>

lemma AList_update_twice: "AList.update k v (AList.update k w d) = AList.update k v d"
  by (induction d) auto

theorem downloads_agree:
  "bl_download B s path = Inr c \<Longrightarrow>
     async_download_to_file text B s fs path dst = azure_download_to_file text B s fs path dst"
  by (auto simp: azure_download_to_file_def async_download_to_file_def write_file_def AList_update_twice)

theorem failed_download_empties_file:
  assumes "bl_download B s path = Inl e" "write_file fs dst '''' = Inr fs'"
  shows "azure_download_to_file text B s fs path dst = (Inl (download_error e), fs)"
    and "\<exists>fs'. async_download_to_file text B s fs path dst = (Inl (download_error e), fs') \<and>
           map_of (fs_files fs') dst = Some ''''"
  using assms
  by (auto simp: azure_download_to_file_def async_download_to_file_def write_file_def map_of_update split: if_splits)

subsection \<open>What a store promises\<close>

text \<open>A file name, and a path relative to the store.\<close>

definition plain_name :: "string \<Rightarrow> bool" where
  "plain_name n \<longleftrightarrow> n \<noteq> '''' \<and> CHR ''/'' \<notin> set n"

definition plain_path :: "string \<Rightarrow> bool" where
  "plain_path p \<longleftrightarrow> p \<noteq> '''' \<and> hd p \<noteq> CHR ''/'' \<and> last p \<noteq> CHR ''/''"

text \<open>
  \<open>put s name content dir\<close> uploads and \<open>fetch\<close> downloads, None when that raises; \<open>usable\<close> says which
  directories a store can take files for.
\<close>

definition fetched :: "'a result \<Rightarrow> 'a option" where
  "fetched r = (case r of Inl _ \<Rightarrow> None | Inr x \<Rightarrow> Some x)"

locale object_store =
  fixes sound :: "'s \<Rightarrow> bool"
    and usable :: "'s \<Rightarrow> string \<Rightarrow> bool"
    and put :: "'s \<Rightarrow> string \<Rightarrow> string \<Rightarrow> string \<Rightarrow> 's result"
    and fetch :: "'s \<Rightarrow> string \<Rightarrow> string option"
  assumes put_sound: "sound s \<Longrightarrow> put s n c d = Inr s' \<Longrightarrow> sound s'"
    and put_usable: "sound s \<Longrightarrow> put s n c d = Inr s' \<Longrightarrow> usable s d' \<Longrightarrow> usable s' d'"
    and fetch_put: "sound s \<Longrightarrow> usable s d \<Longrightarrow> plain_path d \<Longrightarrow> plain_name n \<Longrightarrow> plain_path p \<Longrightarrow>
      put s n c d = Inr s' \<Longrightarrow> fetch s' p = (if p = join_path d n then Some c else fetch s p)"
begin

text \<open>After any uploads, a path holds what was uploaded to it last.\<close>

lemma fetch_puts:
  assumes "foldE (\<lambda>s (n, c, d). put s n c d) s us = Inr s'" "sound s" "plain_path p"
    and "list_all (\<lambda>(n, c, d). plain_name n \<and> plain_path d \<and> usable s d) us"
  shows "fetch s' p = (case map_of (rev (map (\<lambda>(n, c, d). (join_path d n, c)) us)) p of
    None \<Rightarrow> fetch s p | Some c \<Rightarrow> Some c)"
  using assms
proof (induction us arbitrary: s)
  case (Cons u us)
  obtain n c d where u: "u = (n, c, d)" by (cases u)
  from Cons.prems(1) obtain s1 where s1: "put s n c d = Inr s1"
      "foldE (\<lambda>s (n, c, d). put s n c d) s1 us = Inr s'"
    by (auto simp: u bindE_eq_Inr)
  have us: "list_all (\<lambda>(n, c, d). plain_name n \<and> plain_path d \<and> usable s1 d) us"
    using Cons.prems(2,4) put_usable [OF _ s1(1)] by (auto simp: list_all_iff)
  have 1: "fetch s1 p = (if p = join_path d n then Some c else fetch s p)"
    using Cons.prems(2-4) s1(1) by (intro fetch_put) (auto simp: u)
  show ?case
    using Cons.IH [OF s1(2) put_sound [OF Cons.prems(2) s1(1)] Cons.prems(3) us] 1
    by (auto simp: u map_of_append map_add_def split: option.splits)
qed simp

end

subsection \<open>Azure keeps the promise\<close>

text \<open>What Azure documents.\<close>

definition blob_ok :: "'s blob_service \<Rightarrow> bool" where
  "blob_ok B \<longleftrightarrow> (\<forall>s p c ow s' q. bl_upload B s p c ow = Inr s' \<longrightarrow>
     bl_download B s' q = (if q = p then Inr c else bl_download B s q))"

definition azure_put :: "'s blob_service \<Rightarrow> 's \<Rightarrow> string \<Rightarrow> string \<Rightarrow> string \<Rightarrow> 's result" where
  "azure_put B s n c d = azure_upload B s n (Some c) d True"

lemma plain_name_char: "plain_name n \<Longrightarrow> x \<in> set n \<Longrightarrow> x \<noteq> CHR ''/''"
  by (auto simp: plain_name_def)

lemma plain_name_path: "plain_name n \<Longrightarrow> plain_path n"
  by (metis plain_name_def plain_path_def hd_in_set last_in_set)

lemma basename_plain: "plain_name n \<Longrightarrow> basename n = n"
proof -
  assume "plain_name n"
  then have "takeWhile (\<lambda>c. c \<noteq> CHR ''/'') (rev n) = rev n"
    by (intro takeWhile_eq_all_conv [THEN iffD2]) (auto dest: plain_name_char)
  then show ?thesis by (simp only: basename_def rev_rev_ident)
qed

lemma os_path_join_plain: "plain_path d \<Longrightarrow> plain_name n \<Longrightarrow> os_path_join d n = join_path d n"
  by (cases n) (auto simp: plain_path_def plain_name_def os_path_join_def os_join_def join_path_def)

interpretation azure: object_store "\<lambda>_. blob_ok B" "\<lambda>_ _. True" "azure_put B"
  "\<lambda>s p. fetched (azure_download B s p)" for B
proof unfold_locales
  fix s d n p c s'
  assume "blob_ok B" "plain_path d" "plain_name n" and put: "azure_put B s n c d = Inr s'"
  from put have "bl_upload B s (join_path d n) c True = Inr s'"
    using \<open>plain_path d\<close> \<open>plain_name n\<close>
    by (auto simp: azure_put_def azure_upload_def basename_plain os_path_join_plain split: sum.splits blob_error.splits)
  with \<open>blob_ok B\<close> have "bl_download B s' p = (if p = join_path d n then Inr c else bl_download B s p)"
    unfolding blob_ok_def by blast
  then show "fetched (azure_download B s' p) = (if p = join_path d n then Some c else fetched (azure_download B s p))"
    by (simp add: azure_download_def fetched_def)
qed simp_all

subsection \<open>The local disk keeps it for directories that exist\<close>

lemma dirname_join: "plain_name n \<Longrightarrow> d \<noteq> '''' \<Longrightarrow> last d \<noteq> CHR ''/'' \<Longrightarrow> dirname (join_path d n) = d"
proof -
  assume n: "plain_name n" and d: "d \<noteq> ''''" "last d \<noteq> CHR ''/''"
  have drop: "dropWhile (\<lambda>c. c \<noteq> CHR ''/'') (rev (join_path d n)) = CHR ''/'' # rev d"
  proof -
    have "rev (join_path d n) = rev n @ CHR ''/'' # rev d" by (simp add: join_path_def)
    moreover have "dropWhile (\<lambda>c. c \<noteq> CHR ''/'') (rev n @ CHR ''/'' # rev d) =
        dropWhile (\<lambda>c. c \<noteq> CHR ''/'') (CHR ''/'' # rev d)"
      by (rule dropWhile_append2) (use plain_name_char [OF n] in auto)
    ultimately show ?thesis by simp
  qed
  obtain b c where e: "d = b @ [c]" "c \<noteq> CHR ''/''" using d by (cases d rule: rev_cases) auto
  show ?thesis unfolding dirname_def drop by (simp add: e)
qed

definition store_path :: "string \<Rightarrow> bool" where
  "store_path r \<longleftrightarrow> r \<noteq> '''' \<and> last r \<noteq> CHR ''/''"

lemma store_join:
  "plain_path p \<Longrightarrow> store_path r \<Longrightarrow> os_path_join r p = join_path r p"
  by (simp add: plain_path_def store_path_def os_path_join_def os_join_def join_path_def)

definition local_put :: "string \<Rightarrow> local_fs \<Rightarrow> string \<Rightarrow> string \<Rightarrow> string \<Rightarrow> local_fs result" where
  "local_put store fs n c d = local_upload store fs n (Some c) d True"

lemma plain_join: "plain_path d \<Longrightarrow> plain_name n \<Longrightarrow> plain_path (join_path d n)"
proof -
  assume d: "plain_path d" and n: "plain_name n"
  then have "last n \<noteq> CHR ''/''" using plain_name_path [OF n] by (simp add: plain_path_def)
  then show ?thesis using d n by (simp add: plain_path_def plain_name_def join_path_def hd_append)
qed

lemma join_assoc: "join_path r (join_path d n) = join_path (join_path r d) n"
  by (simp add: join_path_def)

lemma local_put_Inr:
  assumes "local_put store fs n c d = Inr fs'" "plain_path d" "plain_name n" "store_path store"
    and "os_path_join store d \<in> set (fs_dirs fs)"
  shows "fs' = fs\<lparr>fs_files := AList.update (os_path_join store (join_path d n)) c (fs_files fs)\<rparr>"
proof -
  let ?d = "join_path store d"
  have "plain_path (join_path d n)" using assms(2,3) by (rule plain_join)
  then have j: "os_path_join store d = ?d" "os_path_join store (join_path d n) = join_path ?d n"
    using assms(2,4) by (simp_all add: store_join join_assoc)
  have "os_path_join ?d n = join_path ?d n"
    using assms(2,3) by (cases n) (auto simp: plain_path_def plain_name_def os_path_join_def os_join_def join_path_def)
  then show ?thesis
    using assms(1,5) unfolding local_put_def local_upload_def shutil_copy_def write_file_def
    by (simp add: j basename_plain [OF assms(3)] Let_def split: if_splits)
qed

interpretation local_disk: object_store "\<lambda>_. store_path store"
  "\<lambda>fs d. os_path_join store d \<in> set (fs_dirs fs)" "local_put store"
  "\<lambda>fs p. fetched (local_download store fs p)" for store
proof unfold_locales
  fix fs n c d fs' d'
  assume "local_put store fs n c d = Inr fs'" "os_path_join store d' \<in> set (fs_dirs fs)"
  then show "os_path_join store d' \<in> set (fs_dirs fs')"
    by (auto simp: local_put_def local_upload_def shutil_copy_def write_file_def Let_def split: if_splits)
next
  fix fs d n p c fs'
  assume r: "store_path store" and d: "os_path_join store d \<in> set (fs_dirs fs)" "plain_path d"
    and n: "plain_name n" and p: "plain_path p" and put: "local_put store fs n c d = Inr fs'"
  have "os_path_join store p = os_path_join store (join_path d n) \<longleftrightarrow> p = join_path d n"
    by (simp add: store_join p r plain_join [OF d(2) n])
  then show "fetched (local_download store fs' p) =
      (if p = join_path d n then Some c else fetched (local_download store fs p))"
    by (simp add: local_put_Inr [OF put d(2) n r d(1)] local_download_def open_file_def fetched_def map_of_update
        split: option.split)
qed simp_all

text \<open>
  In a store on the local disk whose directory for models was not created, an upload to it succeeds but
  writes a file with the name of the directory, so the uploaded model cannot be downloaded; the
  next upload replaces the content.
\<close>

theorem local_upload_without_directory:
  assumes r: "store_path store" "store \<in> set (fs_dirs fs)" and d: "plain_name d"
    and new: "os_path_join store d \<notin> set (fs_dirs fs)" and n: "plain_name n"
    and none: "\<not> fs_exists fs (join_path store (join_path d n))"
  shows "\<exists>fs'. local_put store fs n c d = Inr fs' \<and> local_download store fs' d = Inr c \<and>
    local_download store fs' (join_path d n) = Inl (Raised ''NotADirectoryError'') \<and>
    (\<exists>fs2. local_put store fs' n2 c2 d = Inr fs2 \<and> local_download store fs2 d = Inr c2)"
proof -
  have pd: "plain_path d" using d by (rule plain_name_path)
  have pj: "plain_path (join_path d n)" by (rule plain_join [OF pd n])
  let ?p = "join_path store d"
  have j: "os_path_join store d = ?p" "os_path_join store (join_path d n) = join_path store (join_path d n)"
    by (simp_all add: store_join pd pj r(1))
  have dir: "dirname ?p = store" using r(1) by (intro dirname_join [OF d]) (auto simp: store_path_def)
  let ?fs = "fs\<lparr>fs_files := AList.update ?p c (fs_files fs)\<rparr>"
  have put: "local_put store fs n c d = Inr ?fs"
    using new r(2) by (simp add: local_put_def local_upload_def shutil_copy_def write_file_def j dir)
  moreover have "local_put store ?fs n2 c2 d = Inr (?fs\<lparr>fs_files := AList.update ?p c2 (fs_files ?fs)\<rparr>)"
    using new r(2) by (simp add: local_put_def local_upload_def shutil_copy_def write_file_def j dir)
  moreover have "d \<noteq> join_path d n" by (simp add: join_path_def)
  moreover have "missing_error ?fs (join_path store (join_path d n)) = Raised ''NotADirectoryError''"
  proof -
    have "prefix (?p @ ''/'') (join_path store (join_path d n))" by (simp add: join_path_def)
    moreover have "?p \<in> set (dkeys (fs_files ?fs))" by (simp add: dict_simps)
    ultimately show ?thesis by (auto simp: missing_error_def list_ex_iff)
  qed
  ultimately show ?thesis
    using none by (auto simp: local_download_def open_file_def fs_exists_def j map_of_update notin_dkeys_iff)
qed

theorem local_upload_without_directory_witness:
  "\<exists>fs'. local_put ''./tmp/local'' \<lparr>fs_files = [], fs_dirs = [''./tmp/local'']\<rparr> ''m1'' ''first'' ''models'' = Inr fs' \<and>
    local_download ''./tmp/local'' fs' ''models/m1'' = Inl (Raised ''NotADirectoryError'') \<and>
    (\<exists>fs2. local_put ''./tmp/local'' fs' ''m2'' ''second'' ''models'' = Inr fs2 \<and>
       local_download ''./tmp/local'' fs2 ''models'' = Inr ''second'')"
  using local_upload_without_directory [of "''./tmp/local''" "\<lparr>fs_files = [], fs_dirs = [''./tmp/local'']\<rparr>"
      "''models''" "''m1''" "''first''" "''m2''" "''second''"]
  by (auto simp: store_path_def plain_name_def os_path_join_def os_join_def join_path_def fs_exists_def)

end
