(* ===== verification/Nxs_Clients.thy ===== *)
theory Nxs_Clients
  imports Nxs_Storage "HOL-Library.Multiset"
begin

section \<open>The other clients and their factories (\<open>nxs_libs/db\<close>, \<open>nxs_libs/queue\<close>, \<open>nxs_utils/nxs_helper.py\<close>)\<close>

text \<open>
  The database on Redis, the queries of the one on MongoDB, the queues on Azure, and the choice of
  a client by the arguments of a process. The servers are parameters, and so is what json makes
  of a value.
\<close>

subsection \<open>NxsSimpleRedisDB\<close>

text \<open>A key holds one pickled value: a list or anything else.\<close>

datatype 'd db_value = DbList "'d list" | DbDoc 'd

type_synonym 'd redis_db = "(string, 'd db_value) dict"

definition rdb_query :: "'d redis_db \<Rightarrow> string \<Rightarrow> 'q \<Rightarrow> 'c \<Rightarrow> 'd list" where
  "rdb_query db collection q config =
     (case map_of db collection of
        None \<Rightarrow> []
      | Some (DbList ds) \<Rightarrow> ds
      | Some (DbDoc d) \<Rightarrow> [d])"

definition rdb_insert :: "'d redis_db \<Rightarrow> string \<Rightarrow> 'd db_value \<Rightarrow> 'd redis_db" where
  "rdb_insert db collection d = AList.update collection d db"

definition rdb_update :: "'d redis_db \<Rightarrow> string \<Rightarrow> 'q \<Rightarrow> 'd db_value \<Rightarrow> bool \<Rightarrow> 'd redis_db" where
  "rdb_update db collection q d insert_if_not_existed = AList.update collection d db"

definition rdb_delete :: "'d redis_db \<Rightarrow> string \<Rightarrow> 'q \<Rightarrow> 'd redis_db" where
  "rdb_delete db collection q = AList.delete collection db"

text \<open>Two documents inserted into a collection leave the second one, whatever the query is.\<close>

theorem rdb_insert_replaces:
  "rdb_query (rdb_insert (rdb_insert db c (DbDoc x)) c (DbDoc y)) c q config = [y]"
  by (simp add: rdb_query_def rdb_insert_def map_of_update)

text \<open>A deletion for any query empties the collection and no other.\<close>

theorem rdb_delete_all:
  "rdb_query (rdb_delete db c q) c' q' config = (if c' = c then [] else rdb_query db c' q' config)"
  by (simp add: rdb_query_def rdb_delete_def delete_conv')

subsection \<open>Queries of NxsMongoDb\<close>

datatype sort_type = DESCENDING | ASCENDING

record query_config =
  qc_projection :: "string list"
  qc_sort :: "(string \<times> sort_type) list"
  qc_skip :: int
  qc_limit :: "int option"

text \<open>The calls on the cursor: the fields of \<open>find\<close>, then \<open>sort\<close>, \<open>skip\<close> and \<open>limit\<close>, each only
  when it is configured.\<close>

datatype cursor_call =
    Find "(string, int) dict option"
  | SortBy "(string \<times> int) list"
  | SkipTo int
  | LimitTo int

fun sort_number :: "sort_type \<Rightarrow> int" where
  "sort_number ASCENDING = 1"
| "sort_number DESCENDING = -1"

definition projection :: "string list \<Rightarrow> (string, int) dict option" where
  "projection fs =
     (if fs = [] then None else Some (fold (\<lambda>f d. AList.update f 1 d) fs [(''_id'', 0)]))"

definition cursor_calls :: "query_config \<Rightarrow> cursor_call list" where
  "cursor_calls c =
     [Find (projection (qc_projection c))] @
     (if qc_sort c = [] then [] else [SortBy (map (\<lambda>(f, t). (f, sort_number t)) (qc_sort c))]) @
     (if qc_skip c > 0 then [SkipTo (qc_skip c)] else []) @
     (case qc_limit c of Some n \<Rightarrow> if n > 0 then [LimitTo n] else [] | None \<Rightarrow> [])"

text \<open>Every configured field is fetched, and the identifier only when it is asked for.\<close>

lemma fold_projection:
  "map_of (fold (\<lambda>f d. AList.update f (1::int) d) fs d) f = (if f \<in> set fs then Some 1 else map_of d f)"
  by (induction fs arbitrary: d) (auto simp: map_of_update)

theorem projection_fields:
  "fs \<noteq> [] \<Longrightarrow> \<exists>d. projection fs = Some d \<and>
     (\<forall>f. map_of d f = (if f \<in> set fs then Some 1 else if f = ''_id'' then Some 0 else None))"
  by (simp add: projection_def fold_projection)

subsection \<open>Queues on Azure\<close>

text \<open>A message is an identifier with its content; \<open>aq_receive\<close> is what the iterator yields.\<close>

type_synonym azure_msg = "nat \<times> string"

record 's queue_service =
  aq_create :: "'s \<Rightarrow> string \<Rightarrow> blob_error option \<times> 's"
  aq_send :: "'s \<Rightarrow> string \<Rightarrow> string \<Rightarrow> 's result"
  aq_receive :: "'s \<Rightarrow> string \<Rightarrow> (azure_msg list \<times> 's) result"
  aq_delete :: "'s \<Rightarrow> string \<Rightarrow> azure_msg \<Rightarrow> 's result"

text \<open>The queue of a session has its uuid appended, without the underscore of the Redis client.\<close>

definition azure_queue_name :: "string \<Rightarrow> string \<Rightarrow> string" where
  "azure_queue_name topic session_uuid = topic @ session_uuid"

fun take_messages ::
    "'s queue_service \<Rightarrow> (string \<Rightarrow> 'd result) \<Rightarrow> string \<Rightarrow> azure_msg list \<Rightarrow> 's \<Rightarrow> 'd list \<Rightarrow> 'd list result \<times> 's" where
  "take_messages Q loads q [] s results = (Inr results, s)"
| "take_messages Q loads q (m # ms) s results =
     (case loads (snd m) of
        Inl e \<Rightarrow> (Inl e, s)
      | Inr d \<Rightarrow>
          (case aq_delete Q s q m of
             Inl e \<Rightarrow> (Inl e, s)
           | Inr s' \<Rightarrow> take_messages Q loads q ms s' (results @ [d])))"

definition azure_pull ::
    "'s queue_service \<Rightarrow> (string \<Rightarrow> 'd result) \<Rightarrow> string \<Rightarrow> 's \<Rightarrow> 'd list result \<times> 's" where
  "azure_pull Q loads q s =
     (case aq_receive Q s q of
        Inl e \<Rightarrow> (Inl e, s)
      | Inr (ms, s') \<Rightarrow> take_messages Q loads q ms s' [])"

definition azure_create_topic ::
    "'s queue_service \<Rightarrow> string list \<Rightarrow> 's \<Rightarrow> string \<Rightarrow> unit result \<times> string list \<times> 's" where
  "azure_create_topic Q topics s t =
     (if t \<in> set topics then (Inr (), topics, s)
      else case aq_create Q s t of
        (None, s') \<Rightarrow> (Inr (), topics @ [t], s')
      | (Some (ResourceExists _), s') \<Rightarrow> (Inr (), topics @ [t], s')
      | (Some _, s') \<Rightarrow> (Inl (Raised ''NxsQueueExceptionFailedToCreateTopic''), topics, s'))"

definition azure_push ::
    "'s queue_service \<Rightarrow> ('d \<Rightarrow> string result) \<Rightarrow> string list \<Rightarrow> 's \<Rightarrow> string \<Rightarrow> 'd \<Rightarrow> unit result \<times> string list \<times> 's" where
  "azure_push Q dumps topics s t d =
     (case azure_create_topic Q topics s t of
        (Inl e, topics', s') \<Rightarrow> (Inl e, topics', s')
      | (Inr _, topics', s') \<Rightarrow>
          (case dumps d of
             Inl e \<Rightarrow> (Inl e, topics', s')
           | Inr c \<Rightarrow>
               (case aq_send Q s' t c of Inl e \<Rightarrow> (Inl e, topics', s') | Inr s2 \<Rightarrow> (Inr (), topics', s2))))"

definition azure_push_to_session ::
    "'s queue_service \<Rightarrow> ('d \<Rightarrow> string result) \<Rightarrow> string list \<Rightarrow> 's \<Rightarrow> string \<Rightarrow> string \<Rightarrow> 'd \<Rightarrow>
      unit result \<times> string list \<times> 's" where
  "azure_push_to_session Q dumps topics s t session_uuid d =
     azure_push Q dumps topics s (azure_queue_name t session_uuid) d"

text \<open>What Azure documents of receiving and deleting: \<open>C s q\<close> are the messages of a queue.\<close>

definition queue_ok :: "'s queue_service \<Rightarrow> ('s \<Rightarrow> string \<Rightarrow> azure_msg multiset) \<Rightarrow> bool" where
  "queue_ok Q C \<longleftrightarrow>
     (\<forall>s q ms s'. aq_receive Q s q = Inr (ms, s') \<longrightarrow> C s' q = C s q \<and> mset ms \<subseteq># C s q) \<and>
     (\<forall>s q m s'. aq_delete Q s q m = Inr s' \<longrightarrow> C s' q = C s q - {#m#})"

lemma take_messages_Inr:
  assumes "queue_ok Q C" "mset ms \<subseteq># C s q" "take_messages Q loads q ms s rs = (Inr ds, s')"
  shows "C s q = C s' q + mset ms \<and> map Inr ds = map Inr rs @ map (loads \<circ> snd) ms"
  using assms(2,3)
proof (induction ms arbitrary: s rs)
  case (Cons m ms)
  from Cons.prems(2) obtain d s1 where d: "loads (snd m) = Inr d" "aq_delete Q s q m = Inr s1"
      "take_messages Q loads q ms s1 (rs @ [d]) = (Inr ds, s')"
    by (auto split: sum.splits)
  have C: "C s1 q = C s q - {#m#}" using assms(1) d(2) unfolding queue_ok_def by blast
  have m: "m \<in># C s q" using Cons.prems(1) by (auto dest: mset_subset_eqD)
  have "mset ms \<subseteq># C s1 q" using Cons.prems(1) by (simp add: C insert_subset_eq_iff)
  from Cons.IH [OF this d(3)] show ?case using m by (auto simp: C d(1) dest!: multi_member_split)
qed simp

text \<open>A pull that returns has removed the messages whose values it returns, and no other.\<close>

theorem azure_pull_conserves:
  assumes "queue_ok Q C" "azure_pull Q loads q s = (Inr ds, s')"
  shows "\<exists>ms. C s q = C s' q + mset ms \<and> map (loads \<circ> snd) ms = map Inr ds"
proof -
  from assms(2) obtain ms s1 where ms: "aq_receive Q s q = Inr (ms, s1)"
      "take_messages Q loads q ms s1 [] = (Inr ds, s')"
    by (auto simp: azure_pull_def split: sum.splits)
  then have "C s1 q = C s q" "mset ms \<subseteq># C s q" using assms(1) unfolding queue_ok_def by blast+
  with take_messages_Inr [OF assms(1) _ ms(2)] show ?thesis by (auto intro!: exI [of _ ms])
qed

text \<open>When a message is not JSON, the messages received before it are deleted and not returned.\<close>

lemma take_messages_bad:
  assumes "queue_ok Q C" "mset msa \<subseteq># C s q" "\<forall>s m. \<exists>s'. aq_delete Q s q m = Inr s'"
    and "list_all (\<lambda>m. \<exists>d. loads (snd m) = Inr d) msa" "loads (snd m) = Inl e"
  shows "\<exists>s'. take_messages Q loads q (msa @ m # msb) s rs = (Inl e, s') \<and> C s q = C s' q + mset msa"
  using assms(2,4)
proof (induction msa arbitrary: s rs)
  case (Cons k ms)
  from Cons.prems(2) obtain d where d: "loads (snd k) = Inr d" by auto
  obtain s1 where s1: "aq_delete Q s q k = Inr s1" using assms(3) by blast
  then have C: "C s1 q = C s q - {#k#}" using assms(1) unfolding queue_ok_def by blast
  have k: "k \<in># C s q" using Cons.prems(1) by (auto dest: mset_subset_eqD)
  have "mset ms \<subseteq># C s1 q" using Cons.prems(1) by (simp add: C insert_subset_eq_iff)
  from Cons.IH [OF this, of "rs @ [d]"] Cons.prems(2) obtain s' where
    "take_messages Q loads q (ms @ m # msb) s1 (rs @ [d]) = (Inl e, s')" "C s1 q = C s' q + mset ms" by auto
  then show ?case using k by (auto simp: d s1 C dest!: multi_member_split)
qed (simp add: assms(5))

theorem azure_bad_message_loses:
  assumes "queue_ok Q C" "aq_receive Q s q = Inr (ms1 @ m # ms2, s1)"
    and "\<forall>s m. \<exists>s'. aq_delete Q s q m = Inr s'"
    and "list_all (\<lambda>m. \<exists>d. loads (snd m) = Inr d) ms1" "loads (snd m) = Inl e"
  shows "\<exists>s'. azure_pull Q loads q s = (Inl e, s') \<and> C s q = C s' q + mset ms1"
proof -
  have "C s1 q = C s q" "mset (ms1 @ m # ms2) \<subseteq># C s q" using assms(1,2) unfolding queue_ok_def by blast+
  moreover have "mset ms1 \<subseteq># mset (ms1 @ m # ms2)" by simp
  ultimately have C: "C s1 q = C s q" and "mset ms1 \<subseteq># C s1 q"
    by (simp, metis subset_mset.order_trans)
  from take_messages_bad [where msb = ms2 and rs = "[]", OF assms(1) this(2) assms(3,4,5)] show ?thesis
    by (auto simp: azure_pull_def assms(2) C)
qed

text \<open>A push that succeeds leaves its topic known, and a second one does not create it again.\<close>

theorem azure_push_knows_topic:
  assumes "azure_push Q dumps topics s t d = (Inr (), topics', s')"
  shows "t \<in> set topics' \<and> set topics \<subseteq> set topics' \<and> azure_create_topic Q topics' s' t = (Inr (), topics', s')"
  using assms
  by (auto simp: azure_push_def azure_create_topic_def split: prod.splits sum.splits if_splits option.splits blob_error.splits)

subsection \<open>The choice of clients\<close>

datatype db_type = DbMONGODB | DbREDIS

datatype storage_type = AzureBlobstorage | AsyncAzureBlobstorage | LocalStorage

datatype queue_type = QueueREDIS | QueueAZURE_QUEUE

text \<open>The arguments that all processes share: which clients, and where the servers are; None
  where one is not given.\<close>

record base_args =
  ba_db_type :: db_type
  ba_mongodb_uri :: "string option"
  ba_mongodb_db_name :: "string option"
  ba_db_use_shard_key :: "bool option"
  ba_db_shard_key :: "string option"
  ba_db_shard_value :: "string option"
  ba_storage_type :: storage_type
  ba_blobstore_conn_str :: "string option"
  ba_blobstore_container :: "string option"
  ba_job_queue_type :: queue_type
  ba_azure_queue_conn_str :: "string option"
  ba_azure_queue_name :: "string option"
  ba_redis_address :: "string option"
  ba_redis_port :: "int option"
  ba_redis_password :: "string option"
  ba_redis_use_ssl :: "bool option"
  ba_tmp_dir :: string

record redis_address =
  ra_address :: "string option"
  ra_port :: "int option"
  ra_password :: "string option"
  ra_use_ssl :: "bool option"

definition redis_of_args :: "base_args \<Rightarrow> redis_address" where
  "redis_of_args a = \<lparr>ra_address = ba_redis_address a, ra_port = ba_redis_port a,
     ra_password = ba_redis_password a, ra_use_ssl = ba_redis_use_ssl a\<rparr>"

datatype db_client = MongoDb "string option" "string option" | SimpleRedisDb redis_address

definition create_db :: "base_args \<Rightarrow> db_type \<Rightarrow> db_client" where
  "create_db a t =
     (case t of
        DbMONGODB \<Rightarrow> MongoDb (ba_mongodb_uri a) (ba_mongodb_db_name a)
      | DbREDIS \<Rightarrow> SimpleRedisDb (redis_of_args a))"

datatype storage_client = LocalDisk string | BlobStorage "string option" "string option"

text \<open>The asynchronous client has no branch, although the storage factory knows it.\<close>

definition create_storage :: "base_args \<Rightarrow> storage_type \<Rightarrow> storage_client result" where
  "create_storage a t =
     (case t of
        LocalStorage \<Rightarrow> Inr (LocalDisk ''./tmp/local'')
      | AzureBlobstorage \<Rightarrow> Inr (BlobStorage (ba_blobstore_conn_str a) (ba_blobstore_container a))
      | AsyncAzureBlobstorage \<Rightarrow> Inl (Raised ''NxsStorageExceptionInvalidStorageType''))"

text \<open>What a frontend connects to.\<close>

definition get_db :: "base_args \<Rightarrow> db_client" where
  "get_db a = create_db a (ba_db_type a)"

definition get_storage :: "base_args \<Rightarrow> storage_client result" where
  "get_storage a = create_storage a (ba_storage_type a)"

datatype queue_client = RedisQueue redis_address "string option" | AzureQueue "string option" "string option"

definition create_queue_pusher :: "base_args \<Rightarrow> queue_type \<Rightarrow> queue_client" where
  "create_queue_pusher a t =
     (case t of
        QueueREDIS \<Rightarrow> RedisQueue (redis_of_args a) None
      | QueueAZURE_QUEUE \<Rightarrow> AzureQueue (ba_azure_queue_conn_str a) None)"

definition create_queue_puller :: "base_args \<Rightarrow> queue_type \<Rightarrow> string \<Rightarrow> queue_client" where
  "create_queue_puller a t topic =
     (case t of
        QueueREDIS \<Rightarrow> RedisQueue (redis_of_args a) (Some topic)
      | QueueAZURE_QUEUE \<Rightarrow> AzureQueue (ba_azure_queue_conn_str a) (Some topic))"

text \<open>The queue of the tasks of a pusher is on the server that the pullers of the same type read.\<close>

fun queue_server :: "queue_client \<Rightarrow> redis_address + string option" where
  "queue_server (RedisQueue r _) = Inl r"
| "queue_server (AzureQueue c _) = Inr c"

theorem pusher_and_puller_meet:
  "queue_server (create_queue_pusher a t) = queue_server (create_queue_puller a t topic)"
  by (cases t) (simp_all add: create_queue_pusher_def create_queue_puller_def)

end
