(* ===== verification/Spec2Isabelle.thy ===== *)
theory Spec2Isabelle
  imports Nxs_Policy_Props Nxs_Workload_Props Nxs_Scheduler_Props Nxs_Puller
    Nxs_Output_Props Nxs_Preproc_Props Nxs_Input_Props Nxs_Monitor_Props Nxs_Deploy_Props
    Nxs_Backend_Props Nxs_Chain_Props Nxs_Compute_Threads_Props Nxs_Compute_Runtimes Nxs_Batcher
    Nxs_Custom_Model Nxs_Frontend_Reports Nxs_Scaling Nxs_W4_Props Nxs_Frontend_V1
    Nxs_Vehicle_Job_Props Nxs_Vehicle_Models_Props Nxs_Clients
begin

section \<open>A verification library for NXS\<close>

text \<open>
  \<^bold>\<open>The program.\<close> NXS serves machine-learning models. Clients register models and pipelines
  with a \<^emph>\<open>frontend\<close> and send it requests. A \<^emph>\<open>workload manager\<close> sums the rates the frontends
  report and tells the \<^emph>\<open>scheduler\<close>, whose \<^emph>\<open>policy\<close> decides which backend runs which models
  for which session. A \<^emph>\<open>backend\<close> runs each model as a chain of processes: input process,
  preprocessors, compute process, output processes. A request visits the models of its pipeline
  one after the other, through Redis queues, and its result returns to the queue of the frontend
  that accepted it. A \<^emph>\<open>backend monitor\<close> collects logs for the scaling of the deployment. The
  application \<open>apps/vehicle_counting\<close> is a client: it tracks and counts vehicles in videos.

  \<^bold>\<open>Foundations.\<close> \<open>Nxs_Prelude\<close>: exceptions as values, \<open>for\<close> loops, dictionaries in insertion
  order, floats as rationals. An operation that can raise returns \<open>py_error + 'a\<close>; where an
  exception leaves effects behind, the state stands next to the outcome (\<open>outcome\<close>, \<open>andThen\<close>,
  \<open>attempt\<close>). \<open>Nxs_Types\<close>: the classes of \<open>nxs_types/\<close>, one record or datatype each.
  \<open>Nxs_External\<close>: Redis, the document database and the package \<open>lru\<close>, as records of operations
  with predicates that state their documented behaviour; \<open>Nxs_Samples\<close> and \<open>Nxs_Backend_Samples\<close>
  hold instances that meet them, for the witnesses.

  \<^bold>\<open>Interfaces.\<close> The locale \<open>step_preorder\<close>, with its special case \<open>step_invariant\<close>, carries what
  every step keeps over to a run; it is interpreted on the threads of a compute process, on those
  of a vehicle worker, on the calls of the vehicle API and on the states of a job. The locale
  \<open>key_value_db\<close> is what the users of the store rely on, interpreted on the Redis client with its
  retries, and \<open>scheduling_policy\<close> what the scheduler relies on. \<open>object_store\<close> is what a store of
  files promises, interpreted on the clients of Azure and of the local disk.

  \<^bold>\<open>Scheduling.\<close> \<open>Nxs_Policy\<close> is \<open>nxs_libs/interface/scheduling_policy/simple_policy_v2.py\<close>,
  with its shared plan objects in a store. \<open>Nxs_Policy_Frame\<close> shows that every operation is a
  \<open>policy_step\<close>, \<open>Nxs_Policy_Convert\<close> that the two regroupings of plans keep the deployments,
  and \<open>Nxs_Policy_Props\<close> concludes about a round: only offered backends and requested sessions
  are used and no GPU memory is overdrawn. \<open>Nxs_Workload\<close> is the
  sliding window of \<open>interface/workload_manager/simple_policy.py\<close> and its process,
  \<open>Nxs_Workload_Props\<close> its invariant and its rates. \<open>Nxs_Scheduler\<close> is
  \<open>main_processes/scheduler/main.py\<close>; \<open>Nxs_Scheduler_Inv\<close> shows that its dictionaries and the
  key-value store agree, so that a restarted scheduler knows the same backends, and
  \<open>Nxs_Scheduler_Props\<close> proves the rounds of the process for every policy that meets the locale
  \<open>scheduling_policy\<close>, interpreted on the policy of the code.

  \<^bold>\<open>Redis.\<close> \<open>Nxs_Redis\<close> is the key-value store and the retry loops, \<open>Nxs_Runtime\<close> the objects
  kept there, \<open>Nxs_Queue\<close> the pusher and the puller of \<open>nxs_libs/queue/nxs_redis_queue.py\<close>;
  \<open>Nxs_Queue_Props\<close> shows that a push arrives at least once. \<open>Nxs_Puller\<close> lets the threads of a
  puller interleave: order is kept per partition, and nothing in the buffer is lost at a close.

  \<^bold>\<open>Other clients.\<close> \<open>Nxs_Storage\<close> is \<open>nxs_libs/storage/\<close>: when a store returns what was uploaded
  to it last, and when the local one does not. \<open>Nxs_Clients\<close> is the queue on Azure, the database on
  Redis, the queries to MongoDB and the choice of clients by \<open>nxs_utils/nxs_helper.py\<close>; a pull of the
  Azure queue removes exactly what it returns unless a message is not JSON.

  \<^bold>\<open>Backend\<close> (\<open>main_processes/backend/\<close>). \<open>Nxs_Value\<close>: what the processes exchange.
  \<open>Nxs_Dispatcher\<close>: the dispatchers and the interfaces between processes
  (\<open>nxs_libs/interface/backend/\<close>). \<open>Nxs_Input\<close>, \<open>Nxs_Preproc\<close>, \<open>Nxs_Compute\<close>, \<open>Nxs_Output\<close>,
  \<open>Nxs_Batcher\<close>, \<open>Nxs_Custom_Model\<close>: one theory per process, each with one round of the loop of
  \<open>_run\<close>. The \<open>..._Props\<close> theories say what a round does on every path, and \<open>Nxs_Chain_Props\<close>
  composes them: every request of a batch gets exactly one message. \<open>Nxs_Compute_Threads\<close> adds
  the reader threads and the end of a compute process (\<open>Nxs_Compute_Threads_Props\<close>: a stopped
  process has computed everything, and it can always stop unless it crashed), \<open>Nxs_Compute_Runtimes\<close>
  the runtimes. \<open>Nxs_Deploy\<close> is the creation of the processes with their queues and
  stop flags, \<open>Nxs_Backend\<close> the main process that deploys and removes models as the scheduler
  asks, \<open>Nxs_Storage_Cache\<close> its cache of files. \<open>Nxs_Deploy_Props\<close> and \<open>Nxs_Backend_Props\<close>: the
  processes are wired without gaps, a stop reaches all of them, and removing a model undoes its
  deployment. \<open>Nxs_Monitor\<close> and \<open>Nxs_Monitor_Props\<close> are \<open>main_processes/backend_monitor/main.py\<close>.

  \<^bold>\<open>Frontend\<close> (\<open>main_processes/frontend/routers/api/\<close>). \<open>Nxs_Frontend\<close> is \<open>v2/tasks/root.py\<close>;
  \<open>Nxs_Frontend_Props\<close> interleaves its coroutines and threads and follows a task to its answer,
  \<open>Nxs_Frontend_Reports\<close> treats the reports to the workload manager and \<open>Nxs_Scaling\<close> the
  endpoints that scale deployments. \<open>Nxs_Registry\<close> is \<open>v2/models/root.py\<close> and \<open>v2/pipelines/root.py\<close>
  over \<open>nxs_libs/db/nxs_mongodb.py\<close>, \<open>Nxs_W4_Model\<close> the registration with predefined functions.
  \<open>Nxs_Registry_Props\<close> and \<open>Nxs_W4_Props\<close> lead across components: what is registered can be
  loaded by the frontend and deployed by a backend, and its batches end. \<open>Nxs_Frontend_V1\<close> is
  \<open>v1/root.py\<close>, the old endpoints on top of these.

  \<^bold>\<open>Vehicle counting\<close> (\<open>apps/vehicle_counting/\<close>). \<open>Nxs_Vehicle_Utils\<close> is \<open>worker/utils.py\<close>,
  \<open>Nxs_Vehicle_App\<close> the main loop of \<open>worker/offline_worker.py\<close>, \<open>Nxs_Vehicle_Feed\<close> its download
  and decode threads and what the online worker does differently, \<open>Nxs_Vehicle_Job\<close> is
  \<open>api/app.py\<close> and \<open>worker/worker.py\<close>, \<open>Nxs_Vehicle_Detector\<close> and
  \<open>Nxs_Vehicle_Tracker\<close> are the functions under \<open>models/\<close> that are registered with the detector and
  the tracker. \<open>Nxs_Vehicle_Geometry\<close> treats templates, overlaps
  and the test for crossing a line, \<open>Nxs_Vehicle_Props\<close> the invariant of the tracks and the
  counters, \<open>Nxs_Vehicle_Feed_Props\<close> the play lists and frames, \<open>Nxs_Vehicle_Threads\<close> the
  interleaving of the three threads, \<open>Nxs_Vehicle_Job_Props\<close> the states of a job and its
  reports. \<open>Nxs_Vehicle_Models_Props\<close>: which boxes the suppression of overlaps keeps, and
  that the tracker's box can be tracked again.

  \<^bold>\<open>Time, bounds, ends of loops.\<close> Clocks are sequences of readings; a state counts how many were
  taken, and a property that needs it assumes a clock that does not go backwards. A client of
  Redis carries the finite list of the fates of its calls while the connection is unreliable, so
  the unbounded retry loops are structural recursions; during an endless outage the code never
  returns, and nothing is claimed about that. The loop of the preprocessors over a batch may run
  forever: it is a partial function whose None is \<open>never ends\<close>, with theorems for both cases. The
  retries of the vehicle application are bounded by the code (60 and 5), which is the recursion's
  argument. Integers are Python's, unbounded. Floats are exact rationals: rounding, \<open>nan\<close> and
  infinities are not modelled, except where a division by zero is named. Threads interleave at
  the grain of one round of a loop; the rounds of the readers of a puller and of a compute process
  are split where another thread can be seen.

  \<^bold>\<open>Parameters.\<close> The models and the users' functions, Redis, MongoDB, Kubernetes, the storage
  accounts, HTTP, clocks, uuids, \<open>json\<close>, pydantic's conversions, OpenCV, numpy's resizing and
  mean, and shapely are arguments. A property that relies on one of them names what it
  needs as a hypothesis, for example that a user's function leaves the metadata of a request alone.

  \<^bold>\<open>Not modelled.\<close> Connecting to Redis and downloads by HTTP (calls of libraries); logging; scripts
  that post models once; the tutorial under \<open>examples/\<close>;
  the parts of \<open>main_processes/backend/main.py\<close> that nothing calls (an older version of the
  deployment, lines 380 to 853); the benchmark endpoint and the Azure downloads of
  \<open>v2/tasks/root.py\<close>, whose requests run like the others; loading the users' functions from files;
  drawing on frames and the window of the vehicle application. The methods that the online worker copies from the offline
  worker share its definitions.
\<close>

end
